(* ===== verification/Player_Prelude.thy ===== *)
theory Player_Prelude
  imports Main "HOL-Library.Word"
begin

unbundle bit_operations_syntax

text \<open>
  Shared vocabulary of the development: the machine types of the C++ code, results with
  faults, a byte memory with bounds-checked access, and the big-endian integer codecs that
  every parser and packet writer of the program uses.

  \<^item> A C++ pointer into a caller-supplied buffer is a \<open>nat\<close> offset into a \<^typ>\<open>8 word list\<close>.
    An access outside the buffer, which is undefined behaviour in C++, is the fault
    \<open>OutOfBounds\<close>; nothing is proved about what the program does after it.
  \<^item> A loop that may not end runs on fuel; using it up is the fault \<open>OutOfFuel\<close>, and the
    theories that use fuel prove how much is enough.
\<close>

section \<open>Machine types and results\<close>

type_synonym byte = "8 word"
type_synonym u16 = "16 word"
type_synonym u32 = "32 word"
type_synonym u64 = "64 word"
type_synonym mem = "byte list"

datatype fault = OutOfBounds | OutOfFuel | NullDeref | AssertFail | Thrown | Undefined

type_synonym 'a res = "fault + 'a"

definition bindE :: "'a res \<Rightarrow> ('a \<Rightarrow> 'b res) \<Rightarrow> 'b res" where
  "bindE m f = (case m of Inl e \<Rightarrow> Inl e | Inr x \<Rightarrow> f x)"

named_theorems res_simps \<open>rules that evaluate and invert results\<close>
named_theorems mem_simps \<open>rules that read through writes to the byte memory\<close>

lemma bindE_Inl [simp, res_simps]: "bindE (Inl e) f = Inl e"
  by (simp add: bindE_def)

lemma bindE_Inr [simp, res_simps]: "bindE (Inr x) f = f x"
  by (simp add: bindE_def)

lemma bindE_eq_Inr [res_simps]: "bindE m f = Inr y \<longleftrightarrow> (\<exists>x. m = Inr x \<and> f x = Inr y)"
  by (cases m) simp_all

lemma bindE_eq_Inl:
  "bindE m f = Inl e \<longleftrightarrow> m = Inl e \<or> (\<exists>x. m = Inr x \<and> f x = Inl e)"
  by (cases m) auto

lemma bindE_assoc: "bindE (bindE m f) g = bindE m (\<lambda>x. bindE (f x) g)"
  by (cases m) simp_all

lemma bindE_cong [fundef_cong]:
  "m = m' \<Longrightarrow> (\<And>x. m' = Inr x \<Longrightarrow> f x = f' x) \<Longrightarrow> bindE m f = bindE m' f'"
  by (cases m') simp_all

text \<open>
  \<open>fuel_le r r'\<close>: the run that gave \<open>r'\<close> had at least the fuel of the one that gave \<open>r\<close>. A function
  on fuel is monotone when more fuel only turns \<open>OutOfFuel\<close> into a result.
\<close>

definition fuel_le :: "'a res \<Rightarrow> 'a res \<Rightarrow> bool" where
  "fuel_le r r' \<longleftrightarrow> r = Inl OutOfFuel \<or> r' = r"

named_theorems fuel_intros \<open>monotonicity in the fuel\<close>

lemma fuel_le_refl [fuel_intros]: "fuel_le r r"
  by (simp add: fuel_le_def)

lemma fuel_le_OutOfFuel [fuel_intros]: "fuel_le (Inl OutOfFuel) r"
  by (simp add: fuel_le_def)

lemma fuel_le_bindE [fuel_intros]:
  "fuel_le r r' \<Longrightarrow> (\<And>x. fuel_le (f x) (f' x)) \<Longrightarrow> fuel_le (bindE r f) (bindE r' f')"
  by (cases r) (auto simp: fuel_le_def)

lemma fuel_le_if [fuel_intros]:
  "(b \<Longrightarrow> fuel_le r r') \<Longrightarrow> (\<not> b \<Longrightarrow> fuel_le q q') \<Longrightarrow> fuel_le (if b then r else q) (if b then r' else q')"
  by simp

lemma fuel_le_prod [fuel_intros]:
  "(\<And>x y. fuel_le (f x y) (f' x y)) \<Longrightarrow> fuel_le (case_prod f p) (case_prod f' p)"
  by (cases p) simp

lemma fuel_le_result: "fuel_le r r' \<Longrightarrow> r \<noteq> Inl OutOfFuel \<Longrightarrow> r' = r"
  by (simp add: fuel_le_def)

section \<open>Byte memory\<close>

definition mem_read :: "mem \<Rightarrow> nat \<Rightarrow> nat \<Rightarrow> byte list res" where
  "mem_read m p n = (if p + n \<le> length m then Inr (take n (drop p m)) else Inl OutOfBounds)"

definition mem_write :: "mem \<Rightarrow> nat \<Rightarrow> byte list \<Rightarrow> mem res" where
  "mem_write m p bs =
     (if p + length bs \<le> length m
      then Inr (take p m @ bs @ drop (p + length bs) m) else Inl OutOfBounds)"

lemma mem_read_Inr_iff [mem_simps]:
  "mem_read m p n = Inr bs \<longleftrightarrow> p + n \<le> length m \<and> bs = take n (drop p m)"
  by (auto simp: mem_read_def)

lemma mem_read_length: "mem_read m p n = Inr bs \<Longrightarrow> length bs = n"
  by (auto simp: mem_read_def split: if_splits)

lemma mem_write_length: "mem_write m p bs = Inr m' \<Longrightarrow> length m' = length m"
  by (auto simp: mem_write_def split: if_splits)

lemma mem_write_ok: "p + length bs \<le> length m \<Longrightarrow> \<exists>m'. mem_write m p bs = Inr m'"
  by (simp add: mem_write_def)

lemma mem_read_write_same:
  assumes "mem_write m p bs = Inr m'"
  shows "mem_read m' p (length bs) = Inr bs"
proof -
  from assms have le: "p + length bs \<le> length m"
    and m': "m' = take p m @ bs @ drop (p + length bs) m"
    by (auto simp: mem_write_def split: if_splits)
  from le have "length (take p m) = p" by simp
  then have "take (length bs) (drop p m') = bs" by (simp add: m')
  moreover from le m' have "p + length bs \<le> length m'" by simp
  ultimately show ?thesis by (simp add: mem_read_def)
qed

lemma mem_read_write_other:
  assumes w: "mem_write m p bs = Inr m'"
    and disj: "q + n \<le> p \<or> p + length bs \<le> q"
  shows "mem_read m' q n = mem_read m q n"
proof -
  from w have le: "p + length bs \<le> length m"
    and m': "m' = take p m @ bs @ drop (p + length bs) m"
    by (auto simp: mem_write_def split: if_splits)
  have len: "length m' = length m" using w by (rule mem_write_length)
  have "take n (drop q m') = take n (drop q m)" if "q + n \<le> length m"
  proof (rule nth_equalityI)
    show "length (take n (drop q m')) = length (take n (drop q m))" using len by simp
  next
    fix i assume "i < length (take n (drop q m'))"
    then have "i < n" and "q + i < length m" using len that by auto
    with disj le show "take n (drop q m') ! i = take n (drop q m) ! i"
      by (auto simp: m' nth_append)
  qed
  then show ?thesis using len by (simp add: mem_read_def)
qed

lemma mem_write_untouched:
  assumes "mem_write m p bs = Inr m'" and "i < p \<or> p + length bs \<le> i"
  shows "m' ! i = m ! i"
  using assms by (auto simp: mem_write_def nth_append split: if_splits)

section \<open>Big-endian integers\<close>

text \<open>
  \<open>be_u32\<close> and \<open>u32_be\<close> are the C++ macros that read and write big-endian fields, byte
  by byte with shifts; \<open>read_bytes\<close> is the loop that accumulates any number of bytes.
\<close>

definition be_u16 :: "byte list \<Rightarrow> u16" where
  "be_u16 bs = (case bs of [b0, b1] \<Rightarrow> push_bit 8 (ucast b0) OR ucast b1 | _ \<Rightarrow> 0)"

definition be_u32 :: "byte list \<Rightarrow> u32" where
  "be_u32 bs = (case bs of [b0, b1, b2, b3] \<Rightarrow>
     push_bit 24 (ucast b0) OR push_bit 16 (ucast b1) OR push_bit 8 (ucast b2) OR ucast b3 | _ \<Rightarrow> 0)"

definition u16_be :: "u16 \<Rightarrow> byte list" where
  "u16_be v = [ucast (drop_bit 8 v), ucast v]"

definition u32_be :: "u32 \<Rightarrow> byte list" where
  "u32_be v = [ucast (drop_bit 24 v), ucast (drop_bit 16 v), ucast (drop_bit 8 v), ucast v]"

definition be_u64 :: "byte list \<Rightarrow> u64" where
  "be_u64 bs = push_bit 32 (ucast (be_u32 (take 4 bs))) OR ucast (be_u32 (drop 4 bs))"

definition u64_be :: "u64 \<Rightarrow> byte list" where
  "u64_be v = u32_be (ucast (drop_bit 32 v)) @ u32_be (ucast v)"


lemma word_bit_high: "LENGTH('a) \<le> n \<Longrightarrow> bit (w :: 'a :: len word) n = False"
  using bit_imp_le_length [of w n] by auto

lemma be_u32_u32_be [simp]: "be_u32 (u32_be v) = v"
proof (rule bit_word_eqI)
  fix n assume "n < LENGTH(32)"
  then consider "n < 8" | "8 \<le> n" "n < 16" | "16 \<le> n" "n < 24" | "24 \<le> n" "n < 32"
    by fastforce
  then show "bit (be_u32 (u32_be v)) n = bit v n"
    by cases (auto simp: be_u32_def u32_be_def bit_simps)
qed

lemma be_u16_u16_be [simp]: "be_u16 (u16_be v) = v"
proof (rule bit_word_eqI)
  fix n assume "n < LENGTH(16)"
  then consider "n < 8" | "8 \<le> n" "n < 16"
    by fastforce
  then show "bit (be_u16 (u16_be v)) n = bit v n"
    by cases (auto simp: be_u16_def u16_be_def bit_simps)
qed

lemma be_u64_u64_be [simp]: "be_u64 (u64_be v) = v"
proof -
  have "take 4 (u64_be v) = u32_be (ucast (drop_bit 32 v))" and "drop 4 (u64_be v) = u32_be (ucast v)"
    by (simp_all add: u64_be_def u32_be_def)
  then have "be_u64 (u64_be v) = push_bit 32 (ucast (ucast (drop_bit 32 v) :: u32)) OR ucast (ucast v :: u32)"
    by (simp add: be_u64_def)
  also have "\<dots> = v"
    by (rule bit_word_eqI) (auto simp: bit_simps)
  finally show ?thesis .
qed

lemma length4E:
  assumes "length bs = 4"
  obtains b0 b1 b2 b3 where "bs = [b0, b1, b2, b3]"
  using assms by (auto simp: numeral_eq_Suc length_Suc_conv)

lemma u32_be_be_u32: "length bs = 4 \<Longrightarrow> u32_be (be_u32 bs) = bs"
  by (erule length4E)
    (auto simp: be_u32_def u32_be_def bit_simps word_bit_high intro!: bit_word_eqI)

lemma u64_be_be_u64: "length bs = 8 \<Longrightarrow> u64_be (be_u64 bs) = bs"
proof -
  assume l: "length bs = 8"
  have hi: "ucast (drop_bit 32 (be_u64 bs)) = be_u32 (take 4 bs)"
    and lo: "ucast (be_u64 bs) = be_u32 (drop 4 bs)"
    by (rule bit_word_eqI; simp add: be_u64_def bit_simps word_bit_high)+
  have "u64_be (be_u64 bs) = take 4 bs @ drop 4 bs"
    using l by (simp add: u64_be_def hi lo u32_be_be_u32)
  then show ?thesis by simp
qed


definition read_step :: "u64 \<Rightarrow> byte \<Rightarrow> u64" where
  "read_step rc b = push_bit 8 rc OR ucast b"

definition read_bytes :: "byte list \<Rightarrow> u64" where
  "read_bytes bs = foldl read_step 0 bs"

lemma read_bytes_foldl: "foldl read_step a bs = push_bit (8 * length bs) a OR read_bytes bs"
proof (induction bs rule: rev_induct)
  case Nil
  then show ?case by (simp add: read_bytes_def)
next
  case (snoc b bs)
  then show ?case
    by (simp add: read_bytes_def) (simp add: read_step_def push_bit_or or.assoc)
qed

lemma read_bytes_append:
  "read_bytes (xs @ ys) = push_bit (8 * length ys) (read_bytes xs) OR read_bytes ys"
  using read_bytes_foldl [of "read_bytes xs" ys] by (simp add: read_bytes_def)

lemma read_bytes_u32: "length bs = 4 \<Longrightarrow> read_bytes bs = ucast (be_u32 bs)"
proof (erule length4E)
  fix b0 b1 b2 b3 assume bs: "bs = [b0, b1, b2, b3]"
  show "read_bytes bs = ucast (be_u32 bs)"
  proof (rule bit_word_eqI)
    fix n assume "n < LENGTH(64)"
    consider "n < 8" | "8 \<le> n" "n < 16" | "16 \<le> n" "n < 24" | "24 \<le> n" "n < 32" | "32 \<le> n"
      by linarith
    then show "bit (read_bytes bs) n = bit (ucast (be_u32 bs) :: u64) n" using \<open>n < LENGTH(64)\<close>
      unfolding bs by cases
        (auto simp: be_u32_def read_bytes_def read_step_def bit_simps word_bit_high push_bit_or)
  qed
qed

lemma read_bytes_u64: 
  assumes "length bs = 8" shows "read_bytes bs = be_u64 bs"
proof -
  have "read_bytes bs = read_bytes (take 4 bs @ drop 4 bs)" by simp
  also have "\<dots> = push_bit 32 (read_bytes (take 4 bs)) OR read_bytes (drop 4 bs)"
    using assms by (simp only: read_bytes_append) simp
  finally show ?thesis
   using assms by (simp add: be_u64_def read_bytes_u32)
qed

lemma length_u16_be [simp]: "length (u16_be v) = 2"
  by (simp add: u16_be_def)

lemma length_u32_be [simp]: "length (u32_be v) = 4"
  by (simp add: u32_be_def)

lemma length_u64_be [simp]: "length (u64_be v) = 8"
  by (simp add: u64_be_def)

section \<open>Fixed-width fields in memory\<close>

locale byte_codec =
  fixes enc :: "'a \<Rightarrow> byte list" and dec :: "byte list \<Rightarrow> 'a" and width :: nat
  assumes enc_length: "length (enc v) = width"
    and dec_enc: "dec (enc v) = v"
begin

lemma read_after_write:
  assumes "mem_write m p (enc v) = Inr m'"
  shows "bindE (mem_read m' p width) (\<lambda>bs. Inr (dec bs)) = Inr v"
proof -
  have "mem_read m' p width = Inr (enc v)"
    using mem_read_write_same [OF assms] by (simp add: enc_length)
  then show ?thesis by (simp add: dec_enc)
qed

lemma read_other_field:
  assumes "mem_write m p (enc v) = Inr m'" and "q + n \<le> p \<or> p + width \<le> q"
  shows "mem_read m' q n = mem_read m q n"
  using mem_read_write_other [OF assms(1)] assms(2) by (simp add: enc_length)

lemma enc_inj: "enc v = enc w \<Longrightarrow> v = w"
  by (metis dec_enc)

lemma decode_prefix: "dec (take width (enc v @ rest)) = v"
  by (simp add: enc_length dec_enc)

lemma read_at_prefix:
  "mem_read (pre @ enc v @ rest) (length pre) width = Inr (enc v)"
  by (simp add: mem_read_def enc_length)

end

interpretation u16c: byte_codec u16_be be_u16 2
  by unfold_locales simp_all

interpretation u32c: byte_codec u32_be be_u32 4
  by unfold_locales simp_all

interpretation u64c: byte_codec u64_be be_u64 8
  by unfold_locales simp_all

section \<open>Systems of steps\<close>

text \<open>The states that a step relation reaches from a state, and the contract of an invariant: it holds
  at the start and every step keeps it, so it holds in every state that is reached.\<close>

inductive reaches :: "('s \<Rightarrow> 's \<Rightarrow> bool) \<Rightarrow> 's \<Rightarrow> 's \<Rightarrow> bool" for step and start where
  start: "reaches step start start"
| step: "reaches step start s \<Longrightarrow> step s s' \<Longrightarrow> reaches step start s'"

lemma reaches_trans: "reaches R s t \<Longrightarrow> reaches R r s \<Longrightarrow> reaches R r t"
  by (induction rule: reaches.induct) (auto intro: reaches.intros)

locale invariant_system =
  fixes step :: "'s \<Rightarrow> 's \<Rightarrow> bool" and start :: 's and inv :: "'s \<Rightarrow> bool"
  assumes inv_start: "inv start"
    and inv_step: "inv s \<Longrightarrow> step s s' \<Longrightarrow> inv s'"
begin

lemma reachable_inv: "reaches step start s \<Longrightarrow> inv s"
  by (induction rule: reaches.induct) (auto intro: inv_start inv_step)

lemma inv_onwards: "reaches step s t \<Longrightarrow> inv s \<Longrightarrow> inv t"
  by (induction rule: reaches.induct) (auto intro: inv_step)

lemma reachable_rel:
  assumes "reaches step start s" and "reaches step s t"
    and "Q s" and "\<And>u v. inv u \<Longrightarrow> step u v \<Longrightarrow> Q u \<Longrightarrow> Q v"
  shows "Q t"
  using assms(2)
proof (induction rule: reaches.induct)
  case start
  show ?case by (rule assms(3))
next
  case (step u v)
  have "inv u" using reachable_inv [OF reaches_trans [OF step.hyps(1) assms(1)]] .
  then show ?case using assms(4) step by blast
qed

end

section \<open>Numbers as text\<close>

definition is_digit :: "char \<Rightarrow> bool" where
  "is_digit c \<longleftrightarrow> 48 \<le> (of_char c :: nat) \<and> (of_char c :: nat) \<le> 57"

definition is_space :: "char \<Rightarrow> bool" where
  "is_space c \<longleftrightarrow> (of_char c :: nat) \<in> {9, 10, 11, 12, 13, 32}"

definition digits_value :: "string \<Rightarrow> nat" where
  "digits_value ds = foldl (\<lambda>n c. n * 10 + (of_char c - 48)) 0 ds"

fun decimal :: "nat \<Rightarrow> string" where
  "decimal n = (if n < 10 then [char_of (48 + n)] else decimal (n div 10) @ [char_of (48 + n mod 10)])"

declare decimal.simps [simp del]

lemma digit_char: "k < 10 \<Longrightarrow> is_digit (char_of (48 + k))" for k :: nat
  by (simp add: is_digit_def)

lemma decimal_digits: "list_all is_digit (decimal n)"
  by (induction n rule: decimal.induct) (subst decimal.simps, simp add: digit_char)

lemma decimal_value: "digits_value (decimal n) = n"
proof (induction n rule: decimal.induct)
  case (1 n)
  show ?case
  proof (cases "n < 10")
    case True
    then show ?thesis by (subst decimal.simps) (simp add: digits_value_def)
  next
    case False
    have "digits_value (decimal n) = digits_value (decimal (n div 10)) * 10 + n mod 10"
      by (subst decimal.simps) (simp add: digits_value_def False)
    then show ?thesis using 1 False by simp
  qed
qed

lemma decimal_ne: "decimal n \<noteq> []"
  by (subst decimal.simps) simp

lemma digit_plain: "is_digit c \<Longrightarrow> \<not> is_space c \<and> c \<noteq> CHR ''-'' \<and> c \<noteq> CHR ''+''"
  by (auto simp: is_digit_def is_space_def)

end
