(* ===== verification/Base_Conversion.thy ===== *)
theory Base_Conversion
  imports Player_Prelude
begin

text \<open>
  The base16 and base64 codecs of \<^verbatim>\<open>baseConversion/\<close> and the base64url wrappers of
  \<^verbatim>\<open>PlayerUtils.cpp\<close>. Binary data is a \<^typ>\<open>byte list\<close>, text a \<^typ>\<open>string\<close> whose characters are
  the C \<^verbatim>\<open>char\<close>s before the terminating zero. \<open>malloc_ok n\<close> says whether \<^verbatim>\<open>malloc(n)\<close> succeeds; a
  result of \<open>None\<close> is the NULL pointer. The C loops count with \<^verbatim>\<open>int\<close>, so inputs are
  shorter than $2^{31}$ bytes.
\<close>

section \<open>Digit alphabets\<close>

text \<open>
  Both codecs translate digits through a string literal and invert it through a table of
  256 signed chars in which \<open>-1\<close> marks characters that are no digits.
\<close>

locale digit_alphabet =
  fixes digit :: "nat \<Rightarrow> char" and index :: "char \<Rightarrow> int" and radix :: nat
  assumes index_digit: "d < radix \<Longrightarrow> index (digit d) = int d"
begin

lemma digit_inj: "d < radix \<Longrightarrow> e < radix \<Longrightarrow> digit d = digit e \<Longrightarrow> d = e"
  by (metis index_digit of_nat_eq_iff)

lemma index_digit_nonneg: "d < radix \<Longrightarrow> \<not> index (digit d) < 0"
  by (simp add: index_digit)

lemma digit_neq: "d < radix \<Longrightarrow> index c \<noteq> int d \<Longrightarrow> digit d \<noteq> c"
  using index_digit by blast

end

definition char_at :: "string \<Rightarrow> nat \<Rightarrow> char" where
  "char_at s i = (if i < length s then s ! i else CHR 0x00)"

definition cstr :: "string \<Rightarrow> string" where
  "cstr s = takeWhile (\<lambda>c. c \<noteq> CHR 0x00) s"

section \<open>Base64\<close>

definition base64_alphabet :: string where
  "base64_alphabet = ''ABCDEFGHIJKLMNOPQRSTUVWXYZabcdefghijklmnopqrstuvwxyz0123456789+/''"

definition base64_table :: "int list" where
  "base64_table = [
     -1, -1, -1, -1, -1, -1, -1, -1, -1, -1, -1, -1, -1, -1, -1, -1,
     -1, -1, -1, -1, -1, -1, -1, -1, -1, -1, -1, -1, -1, -1, -1, -1,
     -1, -1, -1, -1, -1, -1, -1, -1, -1, -1, -1, 62, -1, 63, -1, 63,
     52, 53, 54, 55, 56, 57, 58, 59, 60, 61, -1, -1, -1, 0, -1, -1,
     -1, 0, 1, 2, 3, 4, 5, 6, 7, 8, 9, 10, 11, 12, 13, 14,
     15, 16, 17, 18, 19, 20, 21, 22, 23, 24, 25, -1, -1, -1, -1, -1,
     -1, 26, 27, 28, 29, 30, 31, 32, 33, 34, 35, 36, 37, 38, 39, 40,
     41, 42, 43, 44, 45, 46, 47, 48, 49, 50, 51, -1, -1, -1, -1, -1,
     -1, -1, -1, -1, -1, -1, -1, -1, -1, -1, -1, -1, -1, -1, -1, -1,
     -1, -1, -1, -1, -1, -1, -1, -1, -1, -1, -1, -1, -1, -1, -1, -1,
     -1, -1, -1, -1, -1, -1, -1, -1, -1, -1, -1, -1, -1, -1, -1, -1,
     -1, -1, -1, -1, -1, -1, -1, -1, -1, -1, -1, -1, -1, -1, -1, -1,
     -1, -1, -1, -1, -1, -1, -1, -1, -1, -1, -1, -1, -1, -1, -1, -1,
     -1, -1, -1, -1, -1, -1, -1, -1, -1, -1, -1, -1, -1, -1, -1, -1,
     -1, -1, -1, -1, -1, -1, -1, -1, -1, -1, -1, -1, -1, -1, -1, -1,
     -1, -1, -1, -1, -1, -1, -1, -1, -1, -1, -1, -1, -1, -1, -1, -1]"

definition base64_digit :: "nat \<Rightarrow> char" where
  "base64_digit d = char_at base64_alphabet d"

definition base64_index :: "char \<Rightarrow> int" where
  "base64_index c = base64_table ! of_char c"

definition base64_quad :: "u32 \<Rightarrow> nat \<Rightarrow> string" where
  "base64_quad temp pad =
     [base64_digit (unat (drop_bit 18 (temp AND 0x00FC0000))),
      base64_digit (unat (drop_bit 12 (temp AND 0x0003F000))),
      if 2 \<le> pad then CHR ''='' else base64_digit (unat (drop_bit 6 (temp AND 0x00000FC0))),
      if 1 \<le> pad then CHR ''='' else base64_digit (unat (temp AND 0x0000003F))]"

fun base64_encode_loop :: "byte list \<Rightarrow> string" where
  "base64_encode_loop [] = []"
| "base64_encode_loop [a] = base64_quad (push_bit 16 (ucast a)) 2"
| "base64_encode_loop [a, b] = base64_quad (push_bit 16 (ucast a) OR push_bit 8 (ucast b)) 1"
| "base64_encode_loop (a # b # c # src) =
     base64_quad (push_bit 16 (ucast a) OR push_bit 8 (ucast b) OR ucast c) 0
       @ base64_encode_loop src"

definition base64_Encode :: "(nat \<Rightarrow> bool) \<Rightarrow> byte list \<Rightarrow> string option" where
  "base64_Encode malloc_ok src =
     (if malloc_ok (((length src + 2) div 3) * 4 + 1) then Some (base64_encode_loop src) else None)"

fun strip_padding :: "string \<Rightarrow> nat \<Rightarrow> nat" where
  "strip_padding src 0 = 0"
| "strip_padding src (Suc n) = (if src ! n = CHR ''='' then strip_padding src n else Suc n)"

fun base64_decode_quad :: "nat \<Rightarrow> u32 \<Rightarrow> nat \<Rightarrow> string \<Rightarrow> (u32 \<times> nat \<times> string) option" where
  "base64_decode_quad 0 buf count src = Some (buf, count, src)"
| "base64_decode_quad (Suc i) buf count src =
     (case src of
        [] \<Rightarrow> base64_decode_quad i (push_bit 6 buf) count []
      | c # src' \<Rightarrow>
          (let digit64 = base64_index c in
           if digit64 < 0 then None
           else base64_decode_quad i (push_bit 6 buf OR word_of_int digit64) (Suc count) src'))"

definition base64_bytes :: "u32 \<Rightarrow> nat \<Rightarrow> byte list" where
  "base64_bytes buf count =
     (if 2 \<le> count then [ucast (drop_bit 16 buf AND 0xff)] else [])
     @ (if 3 \<le> count then [ucast (drop_bit 8 buf AND 0xff)] else [])
     @ (if 4 \<le> count then [ucast (buf AND 0xff)] else [])"

lemma base64_decode_quad_shorter:
  "base64_decode_quad i buf count src = Some (buf', count', src') \<Longrightarrow> length src' = length src - i"
  by (induction i buf count src rule: base64_decode_quad.induct)
    (auto simp: Let_def split: list.splits if_splits)

function base64_decode_loop :: "string \<Rightarrow> byte list option" where
  "base64_decode_loop src =
     (if src = [] then Some []
      else case base64_decode_quad 4 0 0 src of
        None \<Rightarrow> None
      | Some (buf, count, src') \<Rightarrow>
          map_option (\<lambda>out. base64_bytes buf count @ out) (base64_decode_loop src'))"
  by pat_completeness auto
termination
  by (relation "measure length") (auto dest!: base64_decode_quad_shorter simp flip: length_greater_0_conv)

declare base64_decode_loop.simps [simp del]

definition base64_Decode :: "(nat \<Rightarrow> bool) \<Rightarrow> string \<Rightarrow> byte list option" where
  "base64_Decode malloc_ok src =
     (if malloc_ok (length src * 3 div 4)
      then base64_decode_loop (take (strip_padding src (length src)) src) else None)"

definition base64_Decode_cstr :: "(nat \<Rightarrow> bool) \<Rightarrow> string \<Rightarrow> byte list option" where
  "base64_Decode_cstr malloc_ok src = base64_Decode malloc_ok (cstr src)"

section \<open>Base64url\<close>

definition url_char :: "char \<Rightarrow> char" where
  "url_char c = (if c = CHR ''+'' then CHR ''-'' else if c = CHR ''/'' then CHR ''_''
     else if c = CHR ''='' then CHR 0x00 else c)"

definition base64_URL_Encode :: "(nat \<Rightarrow> bool) \<Rightarrow> byte list \<Rightarrow> string option" where
  "base64_URL_Encode malloc_ok src =
     map_option (\<lambda>rc. cstr (map url_char rc)) (base64_Encode malloc_ok src)"

definition unurl_char :: "char \<Rightarrow> char" where
  "unurl_char c = (if c = CHR ''_'' then CHR ''/'' else if c = CHR ''-'' then CHR ''+'' else c)"

definition base64_URL_Decode :: "(nat \<Rightarrow> bool) \<Rightarrow> string \<Rightarrow> byte list option" where
  "base64_URL_Decode malloc_ok src =
     (if malloc_ok (length src + 3)
      then base64_Decode_cstr malloc_ok (map unurl_char src @ ''=='') else None)"

section \<open>Base16\<close>

definition base16_table :: "int list" where
  "base16_table = [
     -1, -1, -1, -1, -1, -1, -1, -1, -1, -1, -1, -1, -1, -1, -1, -1,
     -1, -1, -1, -1, -1, -1, -1, -1, -1, -1, -1, -1, -1, -1, -1, -1,
     -1, -1, -1, -1, -1, -1, -1, -1, -1, -1, -1, -1, -1, -1, -1, -1,
     0, 1, 2, 3, 4, 5, 6, 7, 8, 9, -1, -1, -1, -1, -1, -1,
     -1, 10, 11, 12, 13, 14, 15, -1, -1, -1, -1, -1, -1, -1, -1, -1,
     -1, -1, -1, -1, -1, -1, -1, -1, -1, -1, -1, -1, -1, -1, -1, -1,
     -1, 10, 11, 12, 13, 14, 15, -1, -1, -1, -1, -1, -1, -1, -1, -1,
     -1, -1, -1, -1, -1, -1, -1, -1, -1, -1, -1, -1, -1, -1, -1, -1,
     -1, -1, -1, -1, -1, -1, -1, -1, -1, -1, -1, -1, -1, -1, -1, -1,
     -1, -1, -1, -1, -1, -1, -1, -1, -1, -1, -1, -1, -1, -1, -1, -1,
     -1, -1, -1, -1, -1, -1, -1, -1, -1, -1, -1, -1, -1, -1, -1, -1,
     -1, -1, -1, -1, -1, -1, -1, -1, -1, -1, -1, -1, -1, -1, -1, -1,
     -1, -1, -1, -1, -1, -1, -1, -1, -1, -1, -1, -1, -1, -1, -1, -1,
     -1, -1, -1, -1, -1, -1, -1, -1, -1, -1, -1, -1, -1, -1, -1, -1,
     -1, -1, -1, -1, -1, -1, -1, -1, -1, -1, -1, -1, -1, -1, -1, -1,
     -1, -1, -1, -1, -1, -1, -1, -1, -1, -1, -1, -1, -1, -1, -1, -1]"

definition base16_alphabet :: string where
  "base16_alphabet = ''0123456789abcdef''"

definition base16_digit :: "nat \<Rightarrow> char" where
  "base16_digit d = char_at base16_alphabet d"

definition base16_index :: "char \<Rightarrow> int" where
  "base16_index c = base16_table ! of_char c"

definition write_hascii :: "byte \<Rightarrow> string" where
  "write_hascii c = [base16_digit (unat (drop_bit 4 c)), base16_digit (unat (c AND 0xf))]"

definition base16_Encode :: "(nat \<Rightarrow> bool) \<Rightarrow> byte list \<Rightarrow> string option" where
  "base16_Encode malloc_ok src =
     (if malloc_ok (1 + length src * 2) then Some (concat (map write_hascii src)) else None)"

text \<open>
  The decoder checks neither digits (an index of \<open>-1\<close> sets bits) nor the parity of the
  length: with an odd length the loop writes one byte more than it allocated.
\<close>

definition base16_byte :: "char \<Rightarrow> char \<Rightarrow> byte" where
  "base16_byte hi lo = word_of_int (base16_index hi * 16) OR word_of_int (base16_index lo)"

fun base16_decode_loop :: "string \<Rightarrow> byte list res" where
  "base16_decode_loop [] = Inr []"
| "base16_decode_loop [c] = Inl OutOfBounds"
| "base16_decode_loop (hi # lo # src) =
     bindE (base16_decode_loop src) (\<lambda>out. Inr (base16_byte hi lo # out))"

definition base16_Decode :: "(nat \<Rightarrow> bool) \<Rightarrow> string \<Rightarrow> byte list option res" where
  "base16_Decode malloc_ok src =
     (if malloc_ok (length src div 2)
      then bindE (base16_decode_loop src) (\<lambda>out. Inr (Some out)) else Inr None)"

section \<open>The digit tables\<close>

lemma base64_table_inverts: "map base64_index base64_alphabet = map int [0..<64]"
  by (simp add: base64_index_def base64_table_def base64_alphabet_def upt_rec)

lemma base16_table_inverts: "map base16_index base16_alphabet = map int [0..<16]"
  by (simp add: base16_index_def base16_table_def base16_alphabet_def upt_rec)

lemma base64_alphabet_length [simp]: "length base64_alphabet = 64"
  by (simp add: base64_alphabet_def)

lemma base16_alphabet_length [simp]: "length base16_alphabet = 16"
  by (simp add: base16_alphabet_def)

interpretation b64: digit_alphabet base64_digit base64_index 64
proof unfold_locales
  fix d :: nat assume d: "d < 64"
  then have "base64_index (base64_digit d) = map base64_index base64_alphabet ! d"
    by (simp add: base64_digit_def char_at_def)
  then show "base64_index (base64_digit d) = int d"
    using d by (simp add: base64_table_inverts)
qed

interpretation b16: digit_alphabet base16_digit base16_index 16
proof unfold_locales
  fix d :: nat assume d: "d < 16"
  then have "base16_index (base16_digit d) = map base16_index base16_alphabet ! d"
    by (simp add: base16_digit_def char_at_def)
  then show "base16_index (base16_digit d) = int d"
    using d by (simp add: base16_table_inverts)
qed

lemma base64_digit_in_alphabet: "d < 64 \<Longrightarrow> base64_digit d \<in> set base64_alphabet"
  by (simp add: base64_digit_def char_at_def)

lemma base64_alphabet_clean:
  "c \<in> set base64_alphabet \<Longrightarrow> c \<noteq> CHR ''='' \<and> c \<noteq> CHR 0x00 \<and> c \<noteq> CHR ''-'' \<and> c \<noteq> CHR ''_''"
  by (auto simp: base64_alphabet_def)

lemma quad_masks:
  "(0x00FC0000 :: u32) = push_bit 18 (mask 6)" "(0x0003F000 :: u32) = push_bit 12 (mask 6)"
  "(0x00000FC0 :: u32) = push_bit 6 (mask 6)" "(0x0000003F :: u32) = mask 6"
  "(0xff :: u32) = mask 8" "(0xf :: byte) = mask 4"
  by (simp_all add: mask_eq_exp_minus_1 push_bit_eq_mult)

lemma drop_and_push_mask:
  "drop_bit n (w AND push_bit n (mask k)) = drop_bit n w AND mask k" for w :: "'a :: len word"
  by (rule bit_word_eqI) (auto simp: bit_simps, metis word_bit_high linorder_not_le)

lemma unat_and_mask_less: "unat (w AND mask k) < 2 ^ k" for w :: "'a :: len word"
proof -
  have "int (unat (w AND mask k)) < int (2 ^ k)"
    using and_mask_lt_2p [of w k] by simp
  then show ?thesis by (simp only: of_nat_less_iff)
qed

definition sextet :: "nat \<Rightarrow> u32 \<Rightarrow> u32" where
  "sextet k t = drop_bit k t AND mask 6"

lemma unat_sextet [simp]: "unat (sextet k t) < 64"
  using unat_and_mask_less [of "drop_bit k t" 6] by (simp add: sextet_def)

lemma base64_quad_sextets:
  "base64_quad t pad =
     [base64_digit (unat (sextet 18 t)), base64_digit (unat (sextet 12 t)),
      if 2 \<le> pad then CHR ''='' else base64_digit (unat (sextet 6 t)),
      if 1 \<le> pad then CHR ''='' else base64_digit (unat (sextet 0 t))]"
  by (simp only: base64_quad_def quad_masks drop_and_push_mask sextet_def drop_bit_0 id_apply)

lemma decode_quad_step [simp]:
  "base64_decode_quad (Suc i) buf count (base64_digit (unat (sextet k t)) # src)
     = base64_decode_quad i (push_bit 6 buf OR sextet k t) (Suc count) src"
  by (simp add: Let_def b64.index_digit)

lemma decode_quad_stop: "base64_decode_quad i buf count [] = Some (push_bit (6 * i) buf, count, [])"
  by (induction i arbitrary: buf) (simp_all add: algebra_simps)

lemma sextets_join:
  shows sextets_join2: "push_bit 6 (sextet 18 t) OR sextet 12 t = drop_bit 12 t AND mask 12"
    and sextets_join3: "push_bit 6 (drop_bit 12 t AND mask 12) OR sextet 6 t = drop_bit 6 t AND mask 18"
    and sextets_join4: "push_bit 6 (drop_bit 6 t AND mask 18) OR sextet 0 t = t AND mask 24"
proof -
  have split6: "push_bit 6 (drop_bit (k + 6) t AND mask j) OR (drop_bit k t AND mask 6)
     = drop_bit k t AND mask (j + 6)" for k j
  proof (rule bit_word_eqI)
    fix n assume "n < LENGTH(32)"
    then show "bit (push_bit 6 (drop_bit (k + 6) t AND mask j) OR (drop_bit k t AND mask 6)) n
      = bit (drop_bit k t AND mask (j + 6)) n"
      by (cases "n < 6") (auto simp: bit_simps add.commute [of k])
  qed
  show "push_bit 6 (sextet 18 t) OR sextet 12 t = drop_bit 12 t AND mask 12"
    using split6 [of 12 6] by (simp add: sextet_def)
  show "push_bit 6 (drop_bit 12 t AND mask 12) OR sextet 6 t = drop_bit 6 t AND mask 18"
    using split6 [of 6 12] by (simp add: sextet_def)
  show "push_bit 6 (drop_bit 6 t AND mask 18) OR sextet 0 t = t AND mask 24"
    using split6 [of 0 18] by (simp add: sextet_def)
qed

lemma base64_bytes_quad:
  "base64_bytes ((push_bit 16 (ucast a) OR push_bit 8 (ucast b) OR ucast c) AND mask 24) 4 = [a, b, c]"
  "base64_bytes (push_bit 6 (drop_bit 6 (push_bit 16 (ucast a) OR push_bit 8 (ucast b)) AND mask 18)) 3 = [a, b]"
  "base64_bytes (push_bit 12 (drop_bit 12 (push_bit 16 (ucast a)) AND mask 12)) 2 = [a]"
  by (auto simp: base64_bytes_def quad_masks bit_simps word_bit_high intro!: bit_word_eqI)

lemma base64_decode_quad_group:
  "base64_decode_quad 4 0 0 (base64_quad t 0 @ src) = Some (t AND mask 24, 4, src)"
  "base64_decode_quad 4 0 0 (take 3 (base64_quad t 1)) = Some (push_bit 6 (drop_bit 6 t AND mask 18), 3, [])"
  "base64_decode_quad 4 0 0 (take 2 (base64_quad t 2)) = Some (push_bit 12 (drop_bit 12 t AND mask 12), 2, [])"
proof -
  have four: "4 = Suc (Suc (Suc (Suc 0)))" by simp
  show "base64_decode_quad 4 0 0 (base64_quad t 0 @ src) = Some (t AND mask 24, 4, src)"
    unfolding four by (simp add: base64_quad_sextets sextets_join del: base64_decode_quad.simps(2) push_bit_and push_bit_or)
  show "base64_decode_quad 4 0 0 (take 3 (base64_quad t 1)) = Some (push_bit 6 (drop_bit 6 t AND mask 18), 3, [])"
    unfolding four by (simp add: base64_quad_sextets sextets_join decode_quad_stop del: base64_decode_quad.simps(2) push_bit_and push_bit_or)
  show "base64_decode_quad 4 0 0 (take 2 (base64_quad t 2)) = Some (push_bit 12 (drop_bit 12 t AND mask 12), 2, [])"
    unfolding four by (simp add: base64_quad_sextets sextets_join decode_quad_stop del: base64_decode_quad.simps(2) push_bit_and push_bit_or)
qed

lemma base64_quad_char:
  "c \<in> set (base64_quad t 0) \<Longrightarrow> c \<in> set base64_alphabet"
  by (auto simp: base64_quad_sextets base64_digit_in_alphabet)

lemma base64_quad_tail_char:
  "c \<in> set (take 3 (base64_quad t 1)) \<Longrightarrow> c \<in> set base64_alphabet"
  "c \<in> set (take 2 (base64_quad t 2)) \<Longrightarrow> c \<in> set base64_alphabet"
  by (auto simp: base64_quad_sextets base64_digit_in_alphabet)

fun base64_unpadded :: "byte list \<Rightarrow> string" where
  "base64_unpadded [] = []"
| "base64_unpadded [a] = take 2 (base64_quad (push_bit 16 (ucast a)) 2)"
| "base64_unpadded [a, b] = take 3 (base64_quad (push_bit 16 (ucast a) OR push_bit 8 (ucast b)) 1)"
| "base64_unpadded (a # b # c # src) =
     base64_quad (push_bit 16 (ucast a) OR push_bit 8 (ucast b) OR ucast c) 0 @ base64_unpadded src"

lemma base64_unpadded_chars: "c \<in> set (base64_unpadded src) \<Longrightarrow> c \<in> set base64_alphabet"
  by (induction src rule: base64_unpadded.induct)
    (use base64_quad_char base64_quad_tail_char in \<open>auto simp del: take_Suc_Cons\<close>)

lemma base64_encode_loop_unpadded:
  "\<exists>k. base64_encode_loop src = base64_unpadded src @ replicate k (CHR ''='')"
proof (induction src rule: base64_encode_loop.induct)
  case (2 a)
  show ?case by (rule exI [of _ 2]) (simp add: base64_quad_def numeral_eq_Suc)
next
  case (3 a b)
  show ?case by (rule exI [of _ 1]) (simp add: base64_quad_def numeral_eq_Suc)
qed (auto intro: exI [of _ 0])

lemma base64_decode_unpadded: "base64_decode_loop (base64_unpadded src) = Some src"
proof (induction src rule: base64_unpadded.induct)
  case 1
  show ?case by (simp add: base64_decode_loop.simps)
next
  case (2 a)
  have "base64_unpadded [a] \<noteq> []" by (simp add: base64_quad_def)
  then show ?case
    by (subst base64_decode_loop.simps)
      (simp add: base64_decode_quad_group base64_bytes_quad base64_decode_loop.simps [of "[]"]
         del: push_bit_and push_bit_or drop_bit_or One_nat_def)
next
  case (3 a b)
  have "base64_unpadded [a, b] \<noteq> []" by (simp add: base64_quad_def)
  then show ?case
    by (subst base64_decode_loop.simps)
      (simp add: base64_decode_quad_group base64_bytes_quad base64_decode_loop.simps [of "[]"]
         del: push_bit_and push_bit_or drop_bit_or One_nat_def)
next
  case (4 a b c src)
  have "base64_unpadded (a # b # c # src) \<noteq> []" by (simp add: base64_quad_def)
  then show ?case
    by (subst base64_decode_loop.simps)
      (simp add: base64_decode_quad_group base64_bytes_quad 4)
qed

lemma strip_padding_le: "strip_padding src n \<le> n"
  by (induction src n rule: strip_padding.induct) auto

lemma strip_padding_pads:
  assumes "CHR ''='' \<notin> set src"
  shows "j \<le> k \<Longrightarrow> strip_padding (src @ replicate k (CHR ''='')) (length src + j) = length src"
proof (induction j)
  case 0
  show ?case
  proof (cases "length src")
    case (Suc n)
    then have "src ! n \<in> set src" by simp
    with assms have "src ! n \<noteq> CHR ''=''" by metis
    with Suc show ?thesis by (simp add: nth_append)
  qed simp
next
  case (Suc j)
  then show ?case by (simp add: nth_append)
qed

lemma base64_Decode_padded:
  assumes "malloc_ok (length (base64_unpadded src @ replicate k (CHR ''='')) * 3 div 4)"
  shows "base64_Decode malloc_ok (base64_unpadded src @ replicate k (CHR ''='')) = Some src"
proof -
  have "CHR ''='' \<notin> set (base64_unpadded src)"
    using base64_unpadded_chars base64_alphabet_clean by blast
  from strip_padding_pads [OF this, of k k] assms
  show ?thesis by (simp add: base64_Decode_def base64_decode_unpadded)
qed

section \<open>Properties of the base64 codec\<close>

lemma base64_Decode_Encode:
  assumes "base64_Encode malloc_ok src = Some cs" and "malloc_ok (length cs * 3 div 4)"
  shows "base64_Decode malloc_ok cs = Some src"
proof -
  obtain k where k: "base64_encode_loop src = base64_unpadded src @ replicate k (CHR ''='')"
    using base64_encode_loop_unpadded by blast
  with assms have "cs = base64_unpadded src @ replicate k (CHR ''='')"
    by (auto simp: base64_Encode_def split: if_splits)
  with assms show ?thesis by (simp add: base64_Decode_padded)
qed

text \<open>The base64 encoder and decoder are inverse: whenever the two allocations succeed, decoding
  the encoder's output gives back the encoded bytes, for inputs of every length and padding.\<close>

theorem base64_roundtrip:
  assumes "base64_Encode malloc_ok src = Some cs" and "malloc_ok (length cs * 3 div 4)"
  shows "base64_Decode malloc_ok cs = Some src"
  using assms by (rule base64_Decode_Encode)

theorem base64_roundtrip_witness:
  "base64_Encode (\<lambda>_. True) [77, 97] = Some ''TWE=''
    \<and> base64_Decode (\<lambda>_. True) ''TWE='' = Some [77, 97]"
proof -
  have enc: "base64_Encode (\<lambda>_. True) [77, 97] = Some ''TWE=''"
    by (simp add: base64_Encode_def base64_quad_def base64_digit_def char_at_def base64_alphabet_def)
  moreover have "base64_Decode (\<lambda>_. True) ''TWE='' = Some [77, 97]"
    by (rule base64_roundtrip [OF enc]) simp
  ultimately show ?thesis by blast
qed

lemma base64_encode_loop_length: "length (base64_encode_loop s) = ((length s + 2) div 3) * 4"
proof (induction s rule: base64_encode_loop.induct)
  case (4 a b c src)
  then show ?case using le_div_geq [of 3 "5 + length src"] by (simp add: base64_quad_def)
qed (simp_all add: base64_quad_def)

lemma base64_Encode_fits:
  assumes "base64_Encode malloc_ok src = Some cs"
  shows "length cs + 1 = ((length src + 2) div 3) * 4 + 1"
  using assms by (auto simp: base64_Encode_def base64_encode_loop_length split: if_splits)

lemma base64_decode_quad_count:
  "base64_decode_quad i buf count src = Some (buf', count', src') \<Longrightarrow>
     count' = count + min i (length src)"
  by (induction i buf count src rule: base64_decode_quad.induct)
    (auto simp: Let_def split: list.splits if_splits)

lemma length_base64_bytes: "length (base64_bytes buf count) = (if 4 \<le> count then 3 else count - 1)"
  by (auto simp: base64_bytes_def)

lemma base64_decode_loop_length: "base64_decode_loop src = Some out \<Longrightarrow> length out \<le> length src * 3 div 4"
proof (induction src arbitrary: out rule: base64_decode_loop.induct)
  case (1 src)
  show ?case
  proof (cases "src = []")
    case False
    from False "1.prems" obtain buf count src' out'
      where q: "base64_decode_quad 4 0 0 src = Some (buf, count, src')"
        and o': "base64_decode_loop src' = Some out'" and out: "out = base64_bytes buf count @ out'"
      by (subst (asm) base64_decode_loop.simps) (auto split: option.splits)
    have "length out' \<le> length src' * 3 div 4"
      using "1.IH" [OF False q _ _ o'] by simp
    moreover have "length src' = length src - 4" and "count = min 4 (length src)"
      using base64_decode_quad_shorter [OF q] base64_decode_quad_count [OF q] by simp_all
    ultimately show ?thesis using out by (simp add: length_base64_bytes min_def split: if_splits) 
  qed (use "1.prems" in \<open>simp add: base64_decode_loop.simps\<close>)
qed

text \<open>The base64 decoder stays inside the buffer it allocates: the bytes it writes never exceed
  the \<open>srcLen*3/4\<close> bytes passed to malloc, for every input text, valid or not.\<close>

theorem base64_Decode_fits:
  assumes "base64_Decode malloc_ok src = Some out"
  shows "length out \<le> length src * 3 div 4"
proof -
  let ?n = "strip_padding src (length src)"
  from assms have "base64_decode_loop (take ?n src) = Some out"
    by (auto simp: base64_Decode_def split: if_splits)
  then have "length out \<le> length (take ?n src) * 3 div 4" by (rule base64_decode_loop_length)
  also have "\<dots> \<le> length src * 3 div 4" by (intro div_le_mono) simp
  finally show ?thesis .
qed

theorem base64_Decode_fits_witness:
  "base64_Decode (\<lambda>_. True) ''TQ'' = Some [77] \<and> length [77 :: byte] \<le> length ''TQ'' * 3 div 4"
proof -
  have "base64_Decode (\<lambda>_. True) ''TQ'' = Some [77]"
    using base64_decode_unpadded [of "[77]"]
    by (simp add: base64_Decode_def base64_quad_def base64_digit_def char_at_def base64_alphabet_def)
  from base64_Decode_fits [OF this] this show ?thesis by blast
qed

section \<open>Properties of the base64url codec\<close>

lemma unurl_url_char: "c \<in> set base64_alphabet \<Longrightarrow> unurl_char (url_char c) = c"
  by (auto simp: base64_alphabet_def url_char_def unurl_char_def)

lemma url_char_nonzero: "c \<in> set base64_alphabet \<Longrightarrow> url_char c \<noteq> CHR 0x00"
  by (auto simp: base64_alphabet_def url_char_def)

lemma cstr_append_zero: "CHR 0x00 \<notin> set s \<Longrightarrow> cstr (s @ CHR 0x00 # t) = s"
  by (simp add: cstr_def takeWhile_append2 takeWhile_tail) (metis takeWhile_append2 append_Nil2)

lemma cstr_clean: "CHR 0x00 \<notin> set s \<Longrightarrow> cstr s = s"
  unfolding cstr_def by (rule takeWhile_eq_all_conv [THEN iffD2]) auto

lemma base64_URL_Encode_unpadded:
  assumes "base64_URL_Encode malloc_ok src = Some txt"
  shows "txt = map url_char (base64_unpadded src)"
proof -
  obtain k where enc: "base64_encode_loop src = base64_unpadded src @ replicate k (CHR ''='')"
    using base64_encode_loop_unpadded by blast
  have nz: "CHR 0x00 \<notin> set (map url_char (base64_unpadded src))"
    using base64_unpadded_chars url_char_nonzero by fastforce
  from assms enc have "txt = cstr (map url_char (base64_unpadded src) @ replicate k (CHR 0x00))"
    by (auto simp: base64_URL_Encode_def base64_Encode_def url_char_def split: if_splits)
  then show ?thesis
    using nz by (cases k) (simp_all add: cstr_append_zero cstr_clean)
qed

lemma base64_URL_Decode_Encode:
  assumes enc: "base64_URL_Encode malloc_ok src = Some cs"
    and ok: "malloc_ok (length cs + 3)" "malloc_ok ((length cs + 2) * 3 div 4)"
  shows "base64_URL_Decode malloc_ok cs = Some src"
proof -
  have cs: "cs = map url_char (base64_unpadded src)"
    by (rule base64_URL_Encode_unpadded [OF enc])
  have inv: "map unurl_char cs = base64_unpadded src"
    using cs base64_unpadded_chars unurl_url_char by (simp add: map_idI)
  have len: "length (base64_unpadded src) = length cs" by (simp add: cs)
  have two: "''=='' = replicate 2 (CHR ''='')" by (simp add: numeral_2_eq_2)
  have "CHR 0x00 \<notin> set (base64_unpadded src @ ''=='')"
    using base64_unpadded_chars base64_alphabet_clean by fastforce
  then have "cstr (base64_unpadded src @ ''=='') = base64_unpadded src @ replicate 2 (CHR ''='')"
    unfolding two by (rule cstr_clean)
  then have "base64_URL_Decode malloc_ok cs
      = base64_Decode malloc_ok (base64_unpadded src @ replicate 2 (CHR ''=''))"
    using ok by (simp add: base64_URL_Decode_def inv base64_Decode_cstr_def)
  also have "\<dots> = Some src"
    by (rule base64_Decode_padded) (use ok len in simp)
  finally show ?thesis .
qed

text \<open>The base64url encoder (alphabet with \<open>-\<close> and \<open>_\<close>, no padding) is inverted by the
  base64url decoder, which restores the alphabet and appends the padding.\<close>

theorem base64_URL_roundtrip:
  assumes enc: "base64_URL_Encode malloc_ok src = Some cs"
    and ok: "malloc_ok (length cs + 3)" "malloc_ok ((length cs + 2) * 3 div 4)"
  shows "base64_URL_Decode malloc_ok cs = Some src"
  using assms by (rule base64_URL_Decode_Encode)

theorem base64_URL_roundtrip_witness:
  "base64_URL_Encode (\<lambda>_. True) [0xfb, 0xff] = Some ''-_8''
    \<and> base64_URL_Decode (\<lambda>_. True) ''-_8'' = Some [0xfb, 0xff]"
proof -
  have "base64_Encode (\<lambda>_. True) [0xfb, 0xff] = Some ''+/8=''"
    by (simp add: base64_Encode_def base64_quad_def base64_digit_def char_at_def base64_alphabet_def)
  then have enc: "base64_URL_Encode (\<lambda>_. True) [0xfb, 0xff] = Some ''-_8''"
    by (simp add: base64_URL_Encode_def url_char_def cstr_def)
  moreover have "base64_URL_Decode (\<lambda>_. True) ''-_8'' = Some [0xfb, 0xff]"
    by (rule base64_URL_roundtrip [OF enc]) simp_all
  ultimately show ?thesis by blast
qed

section \<open>Properties of the base16 codec\<close>

lemma base16_byte_hascii:
  "base16_byte (base16_digit (unat (drop_bit 4 c))) (base16_digit (unat (c AND 0xf))) = c"
proof -
  have "unat (drop_bit 4 c) < 16"
    using unsigned_less [where ?'a = nat, of c] by (simp add: drop_bit_eq_div unat_div less_mult_imp_div_less)
  moreover have "unat (c AND 0xf) < 16" using unat_and_mask_less [of c 4] by (simp add: quad_masks)
  ultimately have "base16_byte (base16_digit (unat (drop_bit 4 c))) (base16_digit (unat (c AND 0xf)))
      = word_of_int (int (unat (drop_bit 4 c)) * 16) OR word_of_int (int (unat (c AND 0xf)))"
    by (simp only: base16_byte_def b16.index_digit)
  also have "word_of_int (int (unat (drop_bit 4 c)) * 16) = push_bit 4 (drop_bit 4 c)"
    by (simp add: push_bit_eq_mult)
  also have "word_of_int (int (unat (c AND 0xf))) = c AND 0xf" by simp
  also have "push_bit 4 (drop_bit 4 c) OR (c AND 0xf) = c"
    unfolding quad_masks by (rule bit_word_eqI) (auto simp: bit_simps)
  finally show ?thesis .
qed

lemma base16_decode_encoded: "base16_decode_loop (concat (map write_hascii src)) = Inr src"
  by (induction src) (simp_all add: write_hascii_def base16_byte_hascii)

text \<open>Decoding base16 text written by the encoder gives back the bytes.\<close>

theorem base16_roundtrip:
  assumes "base16_Encode malloc_ok src = Some cs" and "malloc_ok (length cs div 2)"
  shows "base16_Decode malloc_ok cs = Inr (Some src)"
  using assms by (auto simp: base16_Encode_def base16_Decode_def base16_decode_encoded split: if_splits)

theorem base16_roundtrip_witness:
  "base16_Encode (\<lambda>_. True) [0x48, 0xef] = Some ''48ef''
    \<and> base16_Decode (\<lambda>_. True) ''48ef'' = Inr (Some [0x48, 0xef])"
proof -
  have enc: "base16_Encode (\<lambda>_. True) [0x48, 0xef] = Some ''48ef''"
    by (simp add: base16_Encode_def write_hascii_def base16_digit_def char_at_def base16_alphabet_def)
  moreover have "base16_Decode (\<lambda>_. True) ''48ef'' = Inr (Some [0x48, 0xef])"
    by (rule base16_roundtrip [OF enc]) simp
  ultimately show ?thesis by blast
qed

lemma base16_decode_loop_odd: "odd (length src) \<Longrightarrow> base16_decode_loop src = Inl OutOfBounds"
  by (induction src rule: base16_decode_loop.induct) auto

text \<open>The base16 decoder trusts its caller to pass an even length: on any text of odd length it
  reads past the text and writes one byte past the buffer it allocated.\<close>

theorem base16_odd_overflow:
  assumes "odd (length src)" and "malloc_ok (length src div 2)"
  shows "base16_Decode malloc_ok src = Inl OutOfBounds"
  using assms by (simp add: base16_Decode_def base16_decode_loop_odd)

theorem base16_odd_overflow_witness: "base16_Decode (\<lambda>_. True) ''48e'' = Inl OutOfBounds"
  by (rule base16_odd_overflow) simp_all

end
