(* ===== verification/Player_Utils.thy ===== *)
theory Player_Utils
  imports Base_Conversion
begin

text \<open>
  The string helpers of \<^verbatim>\<open>PlayerUtils.cpp\<close>: prefix test, URL resolution and trimming. A C string is
  the \<^typ>\<open>string\<close> before its terminating zero (\<open>char_at\<close> reads the zero at the end); a
  \<^verbatim>\<open>const char*\<close> that may be NULL is a \<^typ>\<open>string option\<close>; a pointer into a string is the suffix it
  points to, so \<open>baseEnd - baseStart\<close> is the difference of the two lengths.
\<close>

section \<open>Prefix test\<close>

fun player_StartsWith :: "string \<Rightarrow> string \<Rightarrow> bool" where
  "player_StartsWith inputStr [] = True"
| "player_StartsWith [] (p # prefix) = False"
| "player_StartsWith (c # inputStr) (p # prefix) =
     (if c \<noteq> p then False else player_StartsWith inputStr prefix)"

section \<open>URL resolution\<close>

definition is_alnum :: "char \<Rightarrow> bool" where
  "is_alnum c = (let n = (of_char c :: nat) in
     (48 \<le> n \<and> n \<le> 57) \<or> (65 \<le> n \<and> n \<le> 90) \<or> (97 \<le> n \<and> n \<le> 122))"

definition protocol_char :: "char \<Rightarrow> bool" where
  "protocol_char c = (is_alnum c \<or> c = CHR ''.'' \<or> c = CHR ''-'' \<or> c = CHR ''+'')"

fun parse_protocol :: "string \<Rightarrow> string option" where
  "parse_protocol [] = None"
| "parse_protocol (ch # uri) =
     (if ch = CHR '':'' then
        (if char_at uri 0 = CHR ''/'' \<and> char_at uri 1 = CHR ''/'' then Some (drop 2 uri) else None)
      else if protocol_char ch then parse_protocol uri
      else None)"

definition ParseUriProtocol :: "string option \<Rightarrow> string option" where
  "ParseUriProtocol uri = Option.bind uri parse_protocol"

fun last_slash :: "string \<Rightarrow> string \<Rightarrow> string \<times> string" where
  "last_slash baseEnd [] = (baseEnd, [])"
| "last_slash baseEnd (c # basePtr) =
     (if c = CHR ''/'' then last_slash (c # basePtr) basePtr
      else if c = CHR ''?'' \<or> c = CHR 0x00 then (baseEnd, c # basePtr)
      else last_slash baseEnd basePtr)"

definition host_char :: "char \<Rightarrow> bool" where
  "host_char c = (c \<noteq> CHR 0x00 \<and> c \<noteq> CHR ''/'' \<and> c \<noteq> CHR ''?'')"

definition ResolveURL :: "string \<Rightarrow> string \<Rightarrow> string option \<Rightarrow> bool \<Rightarrow> string res" where
  "ResolveURL dst base uri bPropagateUriParams =
     (case ParseUriProtocol uri of
        Some _ \<Rightarrow> Inr (the uri)
      | None \<Rightarrow>
          if base = [] then Inr dst
          else (case ParseUriProtocol (Some base) of
            None \<Rightarrow> Inl NullDeref
          | Some basePtr0 \<Rightarrow>
              (case uri of
                None \<Rightarrow> Inl NullDeref
              | Some u \<Rightarrow>
                  let host_end = dropWhile host_char basePtr0;
                      (baseEnd, basePtr) =
                        (if char_at u 0 \<noteq> CHR ''/'' \<and> char_at u 0 \<noteq> CHR 0x00
                         then last_slash host_end host_end else (host_end, host_end));
                      dst0 = take (length base - length baseEnd) base
                        @ (if char_at u 0 \<noteq> CHR ''/'' then ''/'' else []) @ u
                  in Inr (if bPropagateUriParams \<and> CHR ''?'' \<notin> set u
                          then dst0 @ dropWhile (\<lambda>c. c \<noteq> CHR ''?'') basePtr else dst0))))"

section \<open>Trimming\<close>

definition is_blank :: "char \<Rightarrow> bool" where
  "is_blank c = (c \<in> {CHR '' '', CHR 0x0A, CHR 0x0D, CHR 0x09, CHR 0x0C, CHR 0x0B})"

definition find_first_not_blank :: "string \<Rightarrow> nat option" where
  "find_first_not_blank s =
     (if list_all is_blank s then None else Some (length (takeWhile is_blank s)))"

definition find_last_not_blank :: "string \<Rightarrow> nat" where
  "find_last_not_blank s = length s - 1 - length (takeWhile is_blank (rev s))"

definition trim :: "string \<Rightarrow> string" where
  "trim src =
     (case find_first_not_blank src of
        None \<Rightarrow> src
      | Some first \<Rightarrow> take (find_last_not_blank src - first + 1) (drop first src))"

section \<open>Lemmas\<close>

lemma player_StartsWith_append: "player_StartsWith (p @ s) p"
  by (induction p) simp_all

lemma player_StartsWith_prefix: "player_StartsWith s p \<Longrightarrow> \<exists>r. s = p @ r"
  by (induction s p rule: player_StartsWith.induct) (auto split: if_splits)

lemma parse_protocol_legal:
  "list_all protocol_char proto \<Longrightarrow> parse_protocol (proto @ ''://'' @ rest) = Some rest"
  by (induction proto) (auto simp: char_at_def protocol_char_def is_alnum_def)

definition is_query :: "string \<Rightarrow> bool" where
  "is_query q = (q = [] \<or> char_at q 0 = CHR ''?'' \<and> CHR 0x00 \<notin> set q)"

definition path_char :: "char \<Rightarrow> bool" where
  "path_char c = (c \<noteq> CHR 0x00 \<and> c \<noteq> CHR ''?'')"

lemma last_slash_query: "is_query q \<Longrightarrow> last_slash e q = (e, q)"
  by (cases q) (auto simp: is_query_def char_at_def)

lemma last_slash_no_slash:
  "list_all host_char f \<Longrightarrow> is_query q \<Longrightarrow> last_slash e (f @ q) = (e, q)"
  by (induction f) (auto simp: host_char_def last_slash_query)

lemma last_slash_path:
  "list_all path_char d \<Longrightarrow> list_all host_char f \<Longrightarrow> is_query q \<Longrightarrow>
     last_slash e (d @ CHR ''/'' # f @ q) = (CHR ''/'' # f @ q, q)"
  by (induction d arbitrary: e) (auto simp: path_char_def last_slash_no_slash)

lemma dropWhile_host:
  "list_all host_char h \<Longrightarrow> \<not> host_char c \<Longrightarrow> dropWhile host_char (h @ c # r) = c # r"
  by (induction h) auto

lemma dropWhile_query: "is_query q \<Longrightarrow> dropWhile (\<lambda>c. c \<noteq> CHR ''?'') q = q"
  by (cases q) (auto simp: is_query_def char_at_def)

lemma takeWhile_blank:
  "list_all is_blank a \<Longrightarrow> t \<noteq> [] \<Longrightarrow> \<not> is_blank (hd t) \<Longrightarrow> takeWhile is_blank (a @ t) = a"
  by (induction a) (auto simp: neq_Nil_conv)

text \<open>A base URL in its parts: protocol, host, the directories of the path, the last path
  component, the query.\<close>

definition url_parts :: "string \<Rightarrow> string \<Rightarrow> string \<Rightarrow> string \<Rightarrow> string \<Rightarrow> bool" where
  "url_parts proto host dirs file query =
     (list_all protocol_char proto \<and> list_all host_char host \<and> list_all path_char dirs \<and>
      (dirs = [] \<or> char_at dirs 0 = CHR ''/'') \<and> list_all host_char file \<and> is_query query)"

definition url_of :: "string \<Rightarrow> string \<Rightarrow> string \<Rightarrow> string \<Rightarrow> string \<Rightarrow> string" where
  "url_of proto host dirs file query = proto @ ''://'' @ host @ dirs @ ''/'' @ file @ query"

lemma resolve_base_scan:
  assumes "url_parts proto host dirs file query"
  shows "dropWhile host_char (host @ dirs @ ''/'' @ file @ query) = dirs @ ''/'' @ file @ query"
  using assms dropWhile_host [of host "CHR ''/''"]
  by (cases dirs) (auto simp: url_parts_def char_at_def host_char_def)

section \<open>Properties\<close>

text \<open>\<open>player_StartsWith\<close> decides the prefix relation and never reads past the terminating zero of
  the shorter string.\<close>

theorem player_StartsWith_iff: "player_StartsWith s p \<longleftrightarrow> (\<exists>r. s = p @ r)"
  using player_StartsWith_append player_StartsWith_prefix by blast

text \<open>A relative reference replaces the last component of the base URL's path, keeps protocol,
  host and directories, drops the base's query unless it is to be propagated, and propagates it only
  when the reference has no query of its own.\<close>

theorem ResolveURL_relative:
  assumes parts: "url_parts proto host dirs file query"
    and rel: "parse_protocol u = None" "char_at u 0 \<noteq> CHR ''/''" "char_at u 0 \<noteq> CHR 0x00"
  shows "ResolveURL dst (url_of proto host dirs file query) (Some u) propagate
    = Inr (proto @ ''://'' @ host @ dirs @ ''/'' @ u
        @ (if propagate \<and> CHR ''?'' \<notin> set u then query else []))"
proof -
  let ?base = "url_of proto host dirs file query"
  have scheme: "ParseUriProtocol (Some ?base) = Some (host @ dirs @ ''/'' @ file @ query)"
    using parts parse_protocol_legal [of proto "host @ dirs @ ''/'' @ file @ query"]
    by (simp add: ParseUriProtocol_def url_of_def url_parts_def)
  have last: "last_slash e (dirs @ ''/'' @ file @ query) = (''/'' @ file @ query, query)" for e
    using parts by (simp add: url_parts_def last_slash_path)
  have "?base = (proto @ ''://'' @ host @ dirs) @ (''/'' @ file @ query)" by (simp add: url_of_def)
  then have keep: "take (length ?base - length (''/'' @ file @ query)) ?base = proto @ ''://'' @ host @ dirs"
    by (metis append_eq_conv_conj diff_add_inverse2 length_append)
  have ne: "?base \<noteq> []" by (simp add: url_of_def)
  have q: "dropWhile (\<lambda>c. c \<noteq> CHR ''?'') query = query"
    using parts by (simp add: url_parts_def dropWhile_query)
  show ?thesis
    using rel ne q scheme last keep resolve_base_scan [OF parts]
    by (simp add: ResolveURL_def ParseUriProtocol_def Let_def)
qed

theorem ResolveURL_relative_witness:
  "ResolveURL [] ''http://h/a/m.mpd?t=1'' (Some ''s.mp4'') True = Inr ''http://h/a/s.mp4?t=1''"
proof -
  have "url_parts ''http'' ''h'' ''/a'' ''m.mpd'' ''?t=1''"
    by (simp add: url_parts_def protocol_char_def is_alnum_def host_char_def path_char_def
        is_query_def char_at_def)
  from ResolveURL_relative [OF this, of "''s.mp4''" "[]" True] show ?thesis
    by (simp add: url_of_def char_at_def protocol_char_def is_alnum_def)
qed

text \<open>A base URL without a protocol makes \<open>ResolveURL\<close> dereference the NULL pointer that
  \<open>ParseUriProtocol\<close> returned, unless the reference is itself absolute or the base is empty.\<close>

theorem ResolveURL_base_without_protocol:
  assumes "ParseUriProtocol uri = None" and "base \<noteq> []" and "parse_protocol base = None"
  shows "ResolveURL dst base uri propagate = Inl NullDeref"
  using assms by (simp add: ResolveURL_def ParseUriProtocol_def)

theorem ResolveURL_base_without_protocol_witness:
  "ResolveURL [] ''/a/m.mpd'' (Some ''s.mp4'') False = Inl NullDeref"
  by (rule ResolveURL_base_without_protocol)
    (simp_all add: ParseUriProtocol_def protocol_char_def is_alnum_def)

text \<open>\<open>trim\<close> removes exactly the leading and trailing blanks of a string that has some other
  character, and leaves a string of blanks as it is.\<close>

theorem trim_removes_blanks:
  assumes "list_all is_blank a" and "list_all is_blank b"
  shows "(t \<noteq> [] \<and> \<not> is_blank (hd t) \<and> \<not> is_blank (last t) \<longrightarrow> trim (a @ t @ b) = t)
    \<and> trim (a @ b) = a @ b"
proof (intro conjI impI)
  assume t: "t \<noteq> [] \<and> \<not> is_blank (hd t) \<and> \<not> is_blank (last t)"
  have first: "find_first_not_blank (a @ t @ b) = Some (length a)"
    using assms t takeWhile_blank [of a "t @ b"]
    by (cases t) (auto simp: find_first_not_blank_def)
  have "takeWhile is_blank (rev b @ rev t @ rev a) = rev b"
    using assms t takeWhile_blank [of "rev b" "rev t @ rev a"]
    by (simp add: list_all_iff hd_rev hd_append)
  then have "find_last_not_blank (a @ t @ b) = length a + length t - 1"
    by (simp add: find_last_not_blank_def)
  with first t show "trim (a @ t @ b) = t"
    by (cases t) (simp_all add: trim_def)
next
  show "trim (a @ b) = a @ b"
    using assms by (simp add: trim_def find_first_not_blank_def)
qed

theorem trim_removes_blanks_witness: "trim '' ab  '' = ''ab'' \<and> trim ''   '' = ''   ''"
proof -
  have b: "list_all is_blank '' ''" "list_all is_blank ''  ''"
    by (simp_all add: is_blank_def)
  show ?thesis
    using trim_removes_blanks [OF b, of "''ab''"] by (simp add: is_blank_def)
qed

end
