(* ===== verification/Isobmff_Box.thy ===== *)
theory Isobmff_Box
  imports Player_Prelude
begin

text \<open>
  The ISO base media file format boxes of \<^verbatim>\<open>playerisobmff/playerisobmffbox.cpp\<close>. A box object is a
  header (the fields of class \<^verbatim>\<open>IsoBmffBox\<close>) with a body that holds the fields of the derived class;
  \<open>FullIsoBmffBox\<close> is the record that the full boxes extend. Boxes point back into the caller's
  buffer, so parsing and the in-place rewriting operations take the byte memory and return it.
  \<^verbatim>\<open>uint32_t\<close> fields and offsets are words and wrap as they do in C++; pointers are offsets into
  the memory.

  The parser recurses through containers and loops over children whose sizes come from the input,
  and a child of size zero makes it loop for ever. It therefore runs on fuel; one unit is spent
  per box and per turn of a loop.
\<close>

section \<open>Reading and writing fields\<close>

definition read_u8 :: "mem \<Rightarrow> nat \<Rightarrow> byte res" where
  "read_u8 m p = bindE (mem_read m p 1) (\<lambda>bs. Inr (hd bs))"

definition read_u16 :: "mem \<Rightarrow> nat \<Rightarrow> u16 res" where
  "read_u16 m p = bindE (mem_read m p 2) (\<lambda>bs. Inr (be_u16 bs))"

definition read_u32 :: "mem \<Rightarrow> nat \<Rightarrow> u32 res" where
  "read_u32 m p = bindE (mem_read m p 4) (\<lambda>bs. Inr (be_u32 bs))"

definition read_u64 :: "mem \<Rightarrow> nat \<Rightarrow> u64 res" where
  "read_u64 m p = bindE (mem_read m p 8) (\<lambda>bs. Inr (be_u64 bs))"

definition read_flags :: "mem \<Rightarrow> nat \<Rightarrow> u32 res" where
  "read_flags m p = bindE (mem_read m p 3) (\<lambda>bs. Inr (be_u32 (0 # bs)))"

definition write_u32 :: "mem \<Rightarrow> nat \<Rightarrow> u32 \<Rightarrow> mem res" where
  "write_u32 m p v = mem_write m p (u32_be v)"

definition write_u64 :: "mem \<Rightarrow> nat \<Rightarrow> u64 \<Rightarrow> mem res" where
  "write_u64 m p v = mem_write m p (u64_be v)"

fun read_cstring_len :: "mem \<Rightarrow> nat \<Rightarrow> nat \<Rightarrow> nat \<Rightarrow> nat option res" where
  "read_cstring_len m p i 0 = Inr None"
| "read_cstring_len m p i (Suc n) =
     bindE (read_u8 m (p + i)) (\<lambda>b. if b = 0 then Inr (Some (i + 1)) else read_cstring_len m p (i + 1) n)"

definition ReadCStringLenFromBuffer :: "mem \<Rightarrow> nat \<Rightarrow> u32 \<Rightarrow> nat option res" where
  "ReadCStringLenFromBuffer m p bufferLen = read_cstring_len m p 0 (unat bufferLen)"

section \<open>Box objects\<close>

definition fourcc :: "string \<Rightarrow> byte list" where
  "fourcc s = map of_char s"

definition HEADER_SIZE :: nat where "HEADER_SIZE = 8"

record box_header =
  box_base :: "nat option"
  box_offset :: u32
  box_size :: u32
  box_type :: "byte list"

record full_box =
  full_version :: byte
  full_flags :: u32

record timescale_box = full_box +
  timeScale :: u32
  timeScale_loc :: "nat option"

record tfdt_box = full_box +
  baseMDT :: u64
  baseMDT_loc :: "nat option"

record emsg_box = full_box +
  emsg_timeScale :: u32
  eventDuration :: u32
  emsg_id :: u32
  presentationTimeDelta :: u32
  presentationTime :: u64
  schemeIdUri :: "byte list option"
  emsg_value :: "byte list option"
  messageData :: "byte list option"
  messageLen :: u32

record trun_box = full_box +
  trun_duration :: u64
  sample_count :: u32
  sample_count_loc :: nat
  first_sample_duration_loc :: "nat option"
  mFirstSampleSize :: u32

record tfhd_box = full_box +
  mDefaultSampleDuration :: u64
  default_sample_duration_location :: "nat option"
  mDefaultSampleSize :: u32

record prft_box = full_box +
  prft_track_id :: u32
  ntp_ts :: u64
  media_time :: u64

record sidx_box = full_box +
  sidx_timeScale :: u32
  sidx_duration :: u64

record senc_box = full_box +
  senc_sampleCountLoc :: nat
  senc_numSamples :: u32

record saiz_box = full_box +
  saiz_sampleCountLoc :: nat
  saiz_numSamples :: u32
  firstSampleInfoSize :: u32

datatype box = Box (hdr: box_header) (body: box_body)
and box_body =
    Plain
  | GenericContainer (children: "box list")
  | Trak (track_id: u32) (children: "box list")
  | Mvhd timescale_box
  | Mdhd timescale_box
  | Tfdt tfdt_box
  | Emsg emsg_box
  | Trun trun_box
  | Tfhd tfhd_box
  | Prft prft_box
  | Sidx sidx_box
  | Mdat
  | Senc senc_box
  | Saiz saiz_box

definition new_header :: "u32 \<Rightarrow> byte list \<Rightarrow> box_header" where
  "new_header sz t = \<lparr>box_base = None, box_offset = 0, box_size = sz, box_type = t\<rparr>"

definition based_header :: "u32 \<Rightarrow> byte list \<Rightarrow> nat \<Rightarrow> box_header" where
  "based_header sz t start = (new_header sz t)\<lparr>box_base := Some (start - HEADER_SIZE)\<rparr>"

definition setOffset :: "u32 \<Rightarrow> box \<Rightarrow> box" where
  "setOffset os b = Box ((hdr b)\<lparr>box_offset := os\<rparr>) (body b)"

definition getOffset :: "box \<Rightarrow> u32" where "getOffset b = box_offset (hdr b)"

definition getSize :: "box \<Rightarrow> u32" where "getSize b = box_size (hdr b)"

definition getType :: "box \<Rightarrow> byte list" where "getType b = box_type (hdr b)"

fun hasChildren :: "box \<Rightarrow> bool" where
  "hasChildren (Box h (GenericContainer cs)) = True"
| "hasChildren (Box h (Trak i cs)) = True"
| "hasChildren b = False"

fun getChildren :: "box \<Rightarrow> box list option" where
  "getChildren (Box h (GenericContainer cs)) = Some cs"
| "getChildren (Box h (Trak i cs)) = Some cs"
| "getChildren b = None"

text \<open>Header rewriting: the new size and the type \<open>skip\<close> go to the memory and the object.\<close>

definition setSize :: "box_header \<Rightarrow> u32 \<Rightarrow> mem \<Rightarrow> (box_header \<times> mem) res" where
  "setSize h newSize m =
     (case box_base h of
        None \<Rightarrow> Inl NullDeref
      | Some b \<Rightarrow> bindE (write_u32 m b newSize) (\<lambda>m'. Inr (h\<lparr>box_size := newSize\<rparr>, m')))"

definition rewriteAsSkipBox :: "box \<Rightarrow> mem \<Rightarrow> (box \<times> mem) res" where
  "rewriteAsSkipBox b m =
     (case box_base (hdr b) of
        None \<Rightarrow> Inl NullDeref
      | Some p \<Rightarrow> bindE (mem_write m (p + 4) (fourcc ''skip''))
          (\<lambda>m'. Inr (Box ((hdr b)\<lparr>box_type := fourcc ''skip''\<rparr>) (body b), m')))"

text \<open>Constructing a \<open>SkipIsoBmffBox\<close> writes its header to the memory.\<close>

definition write_skip_box :: "mem \<Rightarrow> nat \<Rightarrow> u32 \<Rightarrow> mem res" where
  "write_skip_box m locn sz =
     bindE (write_u32 m locn sz) (\<lambda>m'. mem_write m' (locn + 4) (fourcc ''skip''))"

section \<open>Constructing the leaf boxes\<close>

definition skip_times :: "byte \<Rightarrow> nat" where
  "skip_times v = (if v = 1 then 16 else 8)"

definition read_timescale_box :: "mem \<Rightarrow> nat \<Rightarrow> timescale_box res" where
  "read_timescale_box m ptr =
     bindE (read_u8 m ptr) (\<lambda>v.
     bindE (read_flags m (ptr + 1)) (\<lambda>f.
     let loc = ptr + 4 + skip_times v in
     bindE (read_u32 m loc) (\<lambda>ts.
     Inr \<lparr>full_version = v, full_flags = f, timeScale = ts, timeScale_loc = Some loc\<rparr>)))"

definition constructMvhdBox :: "u32 \<Rightarrow> mem \<Rightarrow> nat \<Rightarrow> box res" where
  "constructMvhdBox sz m ptr =
     bindE (read_timescale_box m ptr) (\<lambda>b. Inr (Box (based_header sz (fourcc ''mvhd'') ptr) (Mvhd b)))"

definition constructMdhdBox :: "u32 \<Rightarrow> mem \<Rightarrow> nat \<Rightarrow> box res" where
  "constructMdhdBox sz m ptr =
     bindE (read_timescale_box m ptr) (\<lambda>b. Inr (Box (based_header sz (fourcc ''mdhd'') ptr) (Mdhd b)))"

definition constructTfdtBox :: "u32 \<Rightarrow> mem \<Rightarrow> nat \<Rightarrow> box res" where
  "constructTfdtBox sz m ptr =
     bindE (read_u8 m ptr) (\<lambda>v.
     bindE (read_flags m (ptr + 1)) (\<lambda>f.
     bindE (if v = 1 then read_u64 m (ptr + 4)
            else bindE (read_u32 m (ptr + 4)) (\<lambda>x. Inr (ucast x))) (\<lambda>mdt.
     Inr (Box (new_header sz (fourcc ''tfdt''))
       (Tfdt \<lparr>full_version = v, full_flags = f, baseMDT = mdt, baseMDT_loc = Some (ptr + 4)\<rparr>)))))"

text \<open>The two zero-terminated strings of an \<open>emsg\<close> box: what was read of them, the pointer and the
  remaining size after them.\<close>

definition read_emsg_string :: "mem \<Rightarrow> nat \<Rightarrow> u32 \<Rightarrow> (byte list option \<times> nat \<times> u32) res" where
  "read_emsg_string m ptr remaining =
     bindE (ReadCStringLenFromBuffer m ptr remaining) (\<lambda>len.
     case len of
       None \<Rightarrow> Inr (None, ptr, remaining)
     | Some n \<Rightarrow> bindE (mem_read m ptr n) (\<lambda>s. Inr (Some s, ptr + n, remaining - word_of_nat n)))"

definition read_emsg_strings ::
  "mem \<Rightarrow> nat \<Rightarrow> u32 \<Rightarrow> (byte list option \<times> byte list option \<times> nat \<times> u32) res" where
  "read_emsg_strings m ptr remaining =
     bindE (read_emsg_string m ptr remaining) (\<lambda>(scheme, ptr1, remaining1).
     case scheme of
       None \<Rightarrow> Inr (None, None, ptr1, remaining1)
     | Some s \<Rightarrow> bindE (read_emsg_string m ptr1 remaining1) (\<lambda>(val, ptr2, remaining2).
         Inr (Some s, val, ptr2, remaining2)))"

definition read_emsg_message :: "mem \<Rightarrow> nat \<Rightarrow> u32 \<Rightarrow> (byte list option \<times> u32) res" where
  "read_emsg_message m ptr remaining =
     (if 0 < remaining
      then bindE (mem_read m ptr (unat remaining)) (\<lambda>msg. Inr (Some msg, remaining))
      else Inr (None, 0))"

definition constructEmsgBox :: "u32 \<Rightarrow> mem \<Rightarrow> nat \<Rightarrow> box res" where
  "constructEmsgBox sz m ptr0 =
     bindE (read_u8 m ptr0) (\<lambda>v.
     bindE (read_flags m (ptr0 + 1)) (\<lambda>f.
     let ptr = ptr0 + 4; remaining = sz - 12 in
     if v = 1 then
       bindE (read_u32 m ptr) (\<lambda>ts.
       bindE (read_u64 m (ptr + 4)) (\<lambda>pres.
       bindE (read_u32 m (ptr + 12)) (\<lambda>dur.
       bindE (read_u32 m (ptr + 16)) (\<lambda>i.
       bindE (read_emsg_strings m (ptr + 20) (remaining - 20)) (\<lambda>(scheme, val, ptr', remaining').
       bindE (read_emsg_message m ptr' remaining') (\<lambda>(msg, len).
       Inr (Box (new_header sz (fourcc ''emsg''))
         (Emsg \<lparr>full_version = v, full_flags = f, emsg_timeScale = ts, eventDuration = dur, emsg_id = i,
                presentationTimeDelta = 0, presentationTime = pres, schemeIdUri = scheme,
                emsg_value = val, messageData = msg, messageLen = len\<rparr>))))))))
     else if v = 0 then
       bindE (read_emsg_strings m ptr remaining) (\<lambda>(scheme, val, ptr', remaining').
       bindE (read_u32 m ptr') (\<lambda>ts.
       bindE (read_u32 m (ptr' + 4)) (\<lambda>delta.
       bindE (read_u32 m (ptr' + 8)) (\<lambda>dur.
       bindE (read_u32 m (ptr' + 12)) (\<lambda>i.
       bindE (read_emsg_message m (ptr' + 16) (remaining' - 16)) (\<lambda>(msg, len).
       Inr (Box (new_header sz (fourcc ''emsg''))
         (Emsg \<lparr>full_version = v, full_flags = f, emsg_timeScale = ts, eventDuration = dur, emsg_id = i,
                presentationTimeDelta = delta, presentationTime = 0, schemeIdUri = scheme,
                emsg_value = val, messageData = msg, messageLen = len\<rparr>))))))))
     else
       Inr (Box (new_header sz (fourcc ''emsg''))
         (Emsg \<lparr>full_version = v, full_flags = f, emsg_timeScale = 0, eventDuration = 0, emsg_id = 0,
                presentationTimeDelta = 0, presentationTime = 0, schemeIdUri = None,
                emsg_value = None, messageData = None, messageLen = 0\<rparr>))))"

definition TRUN_DATA_OFFSET :: u32 where "TRUN_DATA_OFFSET = 0x0001"
definition TRUN_FIRST_SAMPLE_FLAGS :: u32 where "TRUN_FIRST_SAMPLE_FLAGS = 0x0004"
definition TRUN_SAMPLE_DURATION :: u32 where "TRUN_SAMPLE_DURATION = 0x0100"
definition TRUN_SAMPLE_SIZE :: u32 where "TRUN_SAMPLE_SIZE = 0x0200"
definition TRUN_SAMPLE_FLAGS :: u32 where "TRUN_SAMPLE_FLAGS = 0x0400"
definition TRUN_SAMPLE_CTO :: u32 where "TRUN_SAMPLE_CTO = 0x0800"

definition has_flag :: "u32 \<Rightarrow> u32 \<Rightarrow> bool" where
  "has_flag f flag = (f AND flag \<noteq> 0)"

text \<open>The sample loop: the arguments are the turns left, whether this is the first turn, the read
  pointer, the total duration, the location of the first duration and the first size.\<close>

fun trun_samples :: "mem \<Rightarrow> u32 \<Rightarrow> nat \<Rightarrow> bool \<Rightarrow> nat \<Rightarrow> u64 \<Rightarrow> nat option \<Rightarrow> u32
    \<Rightarrow> (u64 \<times> nat option \<times> u32) res" where
  "trun_samples m f 0 fst_turn ptr tot loc fsize = Inr (tot, loc, fsize)"
| "trun_samples m f (Suc n) fst_turn ptr tot loc fsize =
     bindE (if has_flag f TRUN_SAMPLE_DURATION
            then bindE (read_u32 m ptr) (\<lambda>d.
              Inr (ptr + 4, tot + ucast d, if fst_turn then Some ptr else loc))
            else Inr (ptr, tot, loc)) (\<lambda>(ptr1, tot1, loc1).
     bindE (if has_flag f TRUN_SAMPLE_SIZE
            then bindE (read_u32 m ptr1) (\<lambda>s. Inr (ptr1 + 4, if fst_turn then s else fsize))
            else Inr (ptr1, fsize)) (\<lambda>(ptr2, fsize1).
     let ptr3 = (if has_flag f TRUN_SAMPLE_FLAGS then ptr2 + 4 else ptr2);
         ptr4 = (if has_flag f TRUN_SAMPLE_CTO then ptr3 + 4 else ptr3)
     in trun_samples m f n False ptr4 tot1 loc1 fsize1))"

definition constructTrunBox :: "u32 \<Rightarrow> mem \<Rightarrow> nat \<Rightarrow> box res" where
  "constructTrunBox sz m ptr =
     bindE (read_u8 m ptr) (\<lambda>v.
     bindE (read_flags m (ptr + 1)) (\<lambda>f.
     bindE (read_u32 m (ptr + 4)) (\<lambda>count.
     let ptr1 = ptr + 8 + (if has_flag f TRUN_DATA_OFFSET then 4 else 0)
                  + (if has_flag f TRUN_FIRST_SAMPLE_FLAGS then 4 else 0) in
     bindE (trun_samples m f (unat count) True ptr1 0 None 0) (\<lambda>(tot, loc, fsize).
     Inr (Box (based_header sz (fourcc ''trun'') ptr)
       (Trun \<lparr>full_version = v, full_flags = f, trun_duration = tot, sample_count = count,
              sample_count_loc = ptr + 4, first_sample_duration_loc = loc,
              mFirstSampleSize = fsize\<rparr>))))))"

definition TFHD_BASE_DATA_OFFSET :: u32 where "TFHD_BASE_DATA_OFFSET = 0x00001"
definition TFHD_SAMPLE_DESCRIPTION_INDEX :: u32 where "TFHD_SAMPLE_DESCRIPTION_INDEX = 0x00002"
definition TFHD_DEFAULT_SAMPLE_DURATION :: u32 where "TFHD_DEFAULT_SAMPLE_DURATION = 0x00008"
definition TFHD_DEFAULT_SAMPLE_SIZE :: u32 where "TFHD_DEFAULT_SAMPLE_SIZE = 0x00010"

definition constructTfhdBox :: "u32 \<Rightarrow> mem \<Rightarrow> nat \<Rightarrow> box res" where
  "constructTfhdBox sz m ptr =
     bindE (read_u8 m ptr) (\<lambda>v.
     bindE (read_flags m (ptr + 1)) (\<lambda>f.
     let ptr1 = ptr + 8 + (if has_flag f TFHD_BASE_DATA_OFFSET then 8 else 0)
                  + (if has_flag f TFHD_SAMPLE_DESCRIPTION_INDEX then 4 else 0) in
     bindE (if has_flag f TFHD_DEFAULT_SAMPLE_DURATION
            then bindE (read_u32 m ptr1) (\<lambda>d. Inr (d, Some ptr1, ptr1 + 4))
            else Inr (0, None, ptr1)) (\<lambda>(dur, loc, ptr2).
     bindE (if has_flag f TFHD_DEFAULT_SAMPLE_SIZE then read_u32 m ptr2 else Inr 0) (\<lambda>sz1.
     Inr (Box (based_header sz (fourcc ''tfhd'') ptr)
       (Tfhd \<lparr>full_version = v, full_flags = f, mDefaultSampleDuration = ucast dur,
              default_sample_duration_location = loc, mDefaultSampleSize = sz1\<rparr>))))))"

definition constructPrftBox :: "u32 \<Rightarrow> mem \<Rightarrow> nat \<Rightarrow> box res" where
  "constructPrftBox sz m ptr =
     bindE (read_u8 m ptr) (\<lambda>v.
     bindE (read_flags m (ptr + 1)) (\<lambda>f.
     bindE (read_u32 m (ptr + 4)) (\<lambda>tid.
     bindE (read_u64 m (ptr + 8)) (\<lambda>ntp.
     bindE (read_u64 m (ptr + 16)) (\<lambda>pts.
     Inr (Box (new_header sz (fourcc ''prft''))
       (Prft \<lparr>full_version = v, full_flags = f, prft_track_id = tid, ntp_ts = ntp, media_time = pts\<rparr>)))))))"

text \<open>The reference loop of a segment index accumulates the subsegment durations in a
  \<^verbatim>\<open>uint32_t\<close>.\<close>

fun sidx_references :: "mem \<Rightarrow> nat \<Rightarrow> nat \<Rightarrow> u32 \<Rightarrow> u32 res" where
  "sidx_references m 0 ptr duration = Inr duration"
| "sidx_references m (Suc n) ptr duration =
     bindE (read_u32 m ptr) (\<lambda>_.
     bindE (read_u32 m (ptr + 4)) (\<lambda>d.
     bindE (read_u32 m (ptr + 8)) (\<lambda>_.
     sidx_references m n (ptr + 12) (duration + d))))"

definition constructSidxBox :: "u32 \<Rightarrow> mem \<Rightarrow> nat \<Rightarrow> box res" where
  "constructSidxBox sz m ptr =
     bindE (read_u8 m ptr) (\<lambda>v.
     bindE (read_flags m (ptr + 1)) (\<lambda>f.
     bindE (read_u32 m (ptr + 4)) (\<lambda>_.
     bindE (read_u32 m (ptr + 8)) (\<lambda>ts.
     let times = (if v = 0 then 8 else 16) in
     bindE (mem_read m (ptr + 12) times) (\<lambda>_.
     let ptr1 = ptr + 12 + times in
     bindE (read_u16 m ptr1) (\<lambda>_.
     bindE (read_u16 m (ptr1 + 2)) (\<lambda>refCount.
     bindE (sidx_references m (unat refCount) (ptr1 + 4) 0) (\<lambda>d.
     Inr (Box (new_header sz (fourcc ''sidx''))
       (Sidx \<lparr>full_version = v, full_flags = f, sidx_timeScale = ts, sidx_duration = ucast d\<rparr>))))))))))"

definition constructMdatBox :: "u32 \<Rightarrow> mem \<Rightarrow> nat \<Rightarrow> box res" where
  "constructMdatBox sz m ptr = Inr (Box (based_header sz (fourcc ''mdat'') ptr) Mdat)"

definition constructSencBox :: "u32 \<Rightarrow> mem \<Rightarrow> nat \<Rightarrow> box res" where
  "constructSencBox sz m ptr =
     bindE (read_u8 m ptr) (\<lambda>v.
     bindE (read_flags m (ptr + 1)) (\<lambda>f.
     bindE (read_u32 m (ptr + 4)) (\<lambda>n.
     Inr (Box (based_header sz (fourcc ''senc'') ptr)
       (Senc \<lparr>full_version = v, full_flags = f, senc_sampleCountLoc = ptr + 4, senc_numSamples = n\<rparr>)))))"

definition SAIZ_AUX_INFO_TYPE :: u32 where "SAIZ_AUX_INFO_TYPE = 0x0001"

definition constructSaizBox :: "u32 \<Rightarrow> mem \<Rightarrow> nat \<Rightarrow> box res" where
  "constructSaizBox sz m ptr =
     bindE (read_u8 m ptr) (\<lambda>v.
     bindE (read_flags m (ptr + 1)) (\<lambda>f.
     let ptr1 = ptr + 4 + (if has_flag f SAIZ_AUX_INFO_TYPE then 8 else 0) in
     bindE (read_u8 m ptr1) (\<lambda>default_size.
     bindE (read_u32 m (ptr1 + 1)) (\<lambda>n.
     bindE (if default_size = 0 then read_u8 m (ptr1 + 5) else Inr default_size) (\<lambda>first_size.
     Inr (Box (based_header sz (fourcc ''saiz'') ptr)
       (Saiz \<lparr>full_version = v, full_flags = f, saiz_sampleCountLoc = ptr1 + 1, saiz_numSamples = n,
              firstSampleInfoSize = ucast first_size\<rparr>)))))))"

definition leaf_constructor :: "byte list \<Rightarrow> (u32 \<Rightarrow> mem \<Rightarrow> nat \<Rightarrow> box res) option" where
  "leaf_constructor t =
     (if t = fourcc ''tfhd'' then Some constructTfhdBox
      else if t = fourcc ''tfdt'' then Some constructTfdtBox
      else if t = fourcc ''trun'' then Some constructTrunBox
      else if t = fourcc ''mvhd'' then Some constructMvhdBox
      else if t = fourcc ''mdhd'' then Some constructMdhdBox
      else if t = fourcc ''emsg'' then Some constructEmsgBox
      else if t = fourcc ''prft'' then Some constructPrftBox
      else if t = fourcc ''sidx'' then Some constructSidxBox
      else if t = fourcc ''mdat'' then Some constructMdatBox
      else if t = fourcc ''senc'' then Some constructSencBox
      else if t = fourcc ''saiz'' then Some constructSaizBox
      else None)"

section \<open>Constructing any box\<close>

definition is_container :: "byte list \<Rightarrow> bool" where
  "is_container t = (t = fourcc ''moov'' \<or> t = fourcc ''mdia'' \<or> t = fourcc ''moof'' \<or> t = fourcc ''traf'')"

definition read_tkhd :: "mem \<Rightarrow> nat \<Rightarrow> u32 \<Rightarrow> u32 \<Rightarrow> (u32 \<times> mem) res" where
  "read_tkhd m ptr curOffset newTrackId =
     (let ptr1 = ptr + unat curOffset in
      bindE (read_u8 m ptr1) (\<lambda>v.
      let ptr2 = ptr1 + 1 + 3 + skip_times v in
      bindE (if newTrackId \<noteq> -1 then write_u32 m ptr2 newTrackId else Inr m) (\<lambda>m'.
      bindE (read_u32 m' ptr2) (\<lambda>tid. Inr (tid, m')))))"

text \<open>The child loops take the constructor of a child as an argument, since they and
  \<open>constructBox\<close> call each other.\<close>

primrec constructChildren ::
  "nat \<Rightarrow> (mem \<Rightarrow> nat \<Rightarrow> u32 \<Rightarrow> (box \<times> mem) res) \<Rightarrow> mem \<Rightarrow> u32 \<Rightarrow> nat \<Rightarrow> u32 \<Rightarrow> (box list \<times> mem) res"
where
  "constructChildren 0 child m sz ptr curOffset = Inl OutOfFuel"
| "constructChildren (Suc fuel) child m sz ptr curOffset =
     (if curOffset < sz then
        bindE (child m ptr (sz - curOffset)) (\<lambda>(b, m').
        bindE (constructChildren fuel child m' sz (ptr + unat (getSize b)) (curOffset + getSize b))
          (\<lambda>(cs, m''). Inr (setOffset curOffset b # cs, m'')))
      else Inr ([], m))"

primrec constructTrakChildren ::
  "nat \<Rightarrow> (mem \<Rightarrow> nat \<Rightarrow> u32 \<Rightarrow> (box \<times> mem) res) \<Rightarrow> mem \<Rightarrow> u32 \<Rightarrow> nat \<Rightarrow> u32 \<Rightarrow> u32 \<Rightarrow> u32
     \<Rightarrow> (u32 \<times> box list \<times> mem) res"
where
  "constructTrakChildren 0 child m sz ptr curOffset newTrackId tid = Inl OutOfFuel"
| "constructTrakChildren (Suc fuel) child m sz ptr curOffset newTrackId tid =
     (if curOffset < sz then
        bindE (child m ptr (sz - curOffset)) (\<lambda>(b, m').
        bindE (if getType b = fourcc ''tkhd'' then read_tkhd m' ptr curOffset newTrackId
               else Inr (tid, m')) (\<lambda>(tid', m1).
        bindE (constructTrakChildren fuel child m1 sz (ptr + unat (getSize b)) (curOffset + getSize b)
                 newTrackId tid')
          (\<lambda>(tid'', cs, m2). Inr (tid'', setOffset curOffset b # cs, m2))))
      else Inr (tid, [], m))"

primrec constructBox ::
  "nat \<Rightarrow> bool \<Rightarrow> u32 \<Rightarrow> mem \<Rightarrow> nat \<Rightarrow> u32 \<Rightarrow> (box \<times> mem) res"
where
  "constructBox 0 correctBoxSize newTrackId m p maxSz = Inl OutOfFuel"
| "constructBox (Suc fuel) correctBoxSize newTrackId m p maxSz =
     (if maxSz < 4 then Inr (Box (new_header maxSz (fourcc ''UKWN'')) Plain, m)
      else if 4 \<le> maxSz \<and> maxSz < 8 then Inr (Box (new_header maxSz (fourcc ''UKWN'')) Plain, m)
      else
        bindE (read_u32 m p) (\<lambda>sz.
        bindE (mem_read m (p + 4) 4) (\<lambda>t.
        if maxSz < sz then
          (if correctBoxSize
           then bindE (write_u32 m p maxSz) (\<lambda>m'. constructBox fuel correctBoxSize newTrackId m' p maxSz)
           else Inr (Box (new_header sz t) Plain, m))
        else if is_container t then
          bindE (constructChildren fuel (constructBox fuel False newTrackId) m sz (p + 8) 8)
            (\<lambda>(cs, m'). Inr (Box (new_header sz t) (GenericContainer cs), m'))
        else if t = fourcc ''trak'' then
          bindE (constructTrakChildren fuel (constructBox fuel False (-1)) m sz (p + 8) 8 newTrackId 0)
            (\<lambda>(tid, cs, m'). Inr (Box (new_header sz t) (Trak tid cs), m'))
        else
          (case leaf_constructor t of
             Some c \<Rightarrow> bindE (c sz m (p + 8)) (\<lambda>b. Inr (b, m))
           | None \<Rightarrow> Inr (Box (new_header sz t) Plain, m)))))"

section \<open>Rewriting boxes in place\<close>

definition mvhd_setTimeScale :: "timescale_box \<Rightarrow> u32 \<Rightarrow> mem \<Rightarrow> (timescale_box \<times> mem) res" where
  "mvhd_setTimeScale b tScale m =
     (case timeScale_loc b of
        None \<Rightarrow> Inr (b\<lparr>timeScale := tScale\<rparr>, m)
      | Some p \<Rightarrow> bindE (write_u32 m p tScale) (\<lambda>m'. Inr (b\<lparr>timeScale := tScale\<rparr>, m')))"

definition tfdt_setBaseMDT :: "tfdt_box \<Rightarrow> u64 \<Rightarrow> mem \<Rightarrow> (tfdt_box \<times> mem) res" where
  "tfdt_setBaseMDT b mdt m =
     (case baseMDT_loc b of
        None \<Rightarrow> Inr (b\<lparr>baseMDT := mdt\<rparr>, m)
      | Some p \<Rightarrow> bindE (if full_version b = 1 then write_u64 m p mdt else write_u32 m p (ucast mdt))
                   (\<lambda>m'. Inr (b\<lparr>baseMDT := mdt\<rparr>, m')))"

definition trun_setFirstSampleDuration :: "trun_box \<Rightarrow> u64 \<Rightarrow> mem \<Rightarrow> (trun_box \<times> mem) res" where
  "trun_setFirstSampleDuration b d m =
     (case first_sample_duration_loc b of
        None \<Rightarrow> Inr (b\<lparr>trun_duration := d\<rparr>, m)
      | Some p \<Rightarrow> bindE (write_u32 m p (ucast d)) (\<lambda>m'. Inr (b\<lparr>trun_duration := d\<rparr>, m')))"

definition tfhd_setDefaultSampleDuration :: "tfhd_box \<Rightarrow> u64 \<Rightarrow> mem \<Rightarrow> (tfhd_box \<times> mem) res" where
  "tfhd_setDefaultSampleDuration b d m =
     (case default_sample_duration_location b of
        None \<Rightarrow> Inr (b\<lparr>mDefaultSampleDuration := d\<rparr>, m)
      | Some p \<Rightarrow> bindE (write_u32 m p (ucast d)) (\<lambda>m'. Inr (b\<lparr>mDefaultSampleDuration := d\<rparr>, m')))"

definition bytes_per_sample :: "u32 \<Rightarrow> u32" where
  "bytes_per_sample f =
     (if has_flag f TRUN_SAMPLE_DURATION then 4 else 0) + (if has_flag f TRUN_SAMPLE_SIZE then 4 else 0)
     + (if has_flag f TRUN_SAMPLE_FLAGS then 4 else 0) + (if has_flag f TRUN_SAMPLE_CTO then 4 else 0)"

definition trun_truncate ::
  "box_header \<Rightarrow> trun_box \<Rightarrow> mem \<Rightarrow> (box_header \<times> trun_box \<times> mem) res" where
  "trun_truncate h b m =
     (if 1 < sample_count b then
        let bps = bytes_per_sample (full_flags b);
            tableSize = sample_count b * bps;
            oldTrunSize = box_size h;
            newTrunSize = box_size h - tableSize + bps;
            b' = b\<lparr>sample_count := 1\<rparr>
        in bindE (write_u32 m (sample_count_loc b) 1) (\<lambda>m1.
           if 8 \<le> oldTrunSize - newTrunSize then
             bindE (setSize h newTrunSize m1) (\<lambda>(h', m2).
             bindE (write_skip_box m2 (the (box_base h') + unat (box_size h')) (tableSize - bps)) (\<lambda>m3.
             Inr (h', b', m3)))
           else Inr (h, b', m1))
      else Inr (h, b, m))"

definition mdat_truncate :: "box_header \<Rightarrow> u32 \<Rightarrow> mem \<Rightarrow> (box_header \<times> mem) res" where
  "mdat_truncate h newSize m = setSize h newSize m"

definition senc_truncate ::
  "box_header \<Rightarrow> senc_box \<Rightarrow> u32 \<Rightarrow> mem \<Rightarrow> (senc_box \<times> mem) res" where
  "senc_truncate h b firstSampleSize m =
     (if 1 < senc_numSamples b then
        bindE (if firstSampleSize \<noteq> 0 then
                 (case box_base h of
                    None \<Rightarrow> Inl NullDeref
                  | Some bs \<Rightarrow>
                     let newEnd = senc_sampleCountLoc b + 4 + unat firstSampleSize;
                         oldSize = box_size h;
                         newSize = word_of_nat (newEnd - bs)
                     in if 8 \<le> oldSize - newSize then
                          bindE (write_u32 m bs newSize) (\<lambda>m1. write_skip_box m1 newEnd (oldSize - newSize))
                        else Inr m)
               else Inr m) (\<lambda>m2.
        bindE (write_u32 m2 (senc_sampleCountLoc b) 1) (\<lambda>m3.
        Inr (b\<lparr>senc_numSamples := 1\<rparr>, m3)))
      else Inr (b, m))"

definition saiz_truncate :: "box_header \<Rightarrow> saiz_box \<Rightarrow> mem \<Rightarrow> (saiz_box \<times> mem) res" where
  "saiz_truncate h b m =
     (let oldSize = box_size h;
          newSize = oldSize - (saiz_numSamples b - 1)
      in bindE (if 8 \<le> oldSize - newSize then
                  (case box_base h of
                     None \<Rightarrow> Inl NullDeref
                   | Some bs \<Rightarrow>
                       bindE (write_u32 m bs newSize) (\<lambda>m1.
                         write_skip_box m1 (bs + unat newSize) (oldSize - newSize)))
                else Inr m) (\<lambda>m2.
         bindE (write_u32 m2 (saiz_sampleCountLoc b) 1) (\<lambda>m3.
         Inr (b\<lparr>saiz_numSamples := 1\<rparr>, m3))))"

section \<open>Accessors\<close>

text \<open>Fields that are read and set in the object only, without touching the segment.\<close>

definition mvhd_getTimeScale :: "timescale_box \<Rightarrow> u32" where "mvhd_getTimeScale b = timeScale b"

definition mdhd_getTimeScale :: "timescale_box \<Rightarrow> u32" where "mdhd_getTimeScale b = timeScale b"

definition mdhd_setTimeScale :: "timescale_box \<Rightarrow> u32 \<Rightarrow> mem \<Rightarrow> (timescale_box \<times> mem) res" where
  "mdhd_setTimeScale b tScale m =
     (case timeScale_loc b of
        None \<Rightarrow> Inr (b\<lparr>timeScale := tScale\<rparr>, m)
      | Some p \<Rightarrow> bindE (write_u32 m p tScale) (\<lambda>m'. Inr (b\<lparr>timeScale := tScale\<rparr>, m')))"

definition tfdt_getBaseMDT :: "tfdt_box \<Rightarrow> u64" where "tfdt_getBaseMDT b = baseMDT b"

definition emsg_setTimeScale :: "u32 \<Rightarrow> emsg_box \<Rightarrow> emsg_box" where
  "emsg_setTimeScale v b = b\<lparr>emsg_timeScale := v\<rparr>"

definition emsg_setEventDuration :: "u32 \<Rightarrow> emsg_box \<Rightarrow> emsg_box" where
  "emsg_setEventDuration v b = b\<lparr>eventDuration := v\<rparr>"

definition emsg_setId :: "u32 \<Rightarrow> emsg_box \<Rightarrow> emsg_box" where "emsg_setId v b = b\<lparr>emsg_id := v\<rparr>"

definition emsg_setPresentationTimeDelta :: "u32 \<Rightarrow> emsg_box \<Rightarrow> emsg_box" where
  "emsg_setPresentationTimeDelta v b = b\<lparr>presentationTimeDelta := v\<rparr>"

definition emsg_setPresentationTime :: "u64 \<Rightarrow> emsg_box \<Rightarrow> emsg_box" where
  "emsg_setPresentationTime v b = b\<lparr>presentationTime := v\<rparr>"

definition emsg_setSchemeIdUri :: "byte list option \<Rightarrow> emsg_box \<Rightarrow> emsg_box" where
  "emsg_setSchemeIdUri v b = b\<lparr>schemeIdUri := v\<rparr>"

definition emsg_setValue :: "byte list option \<Rightarrow> emsg_box \<Rightarrow> emsg_box" where
  "emsg_setValue v b = b\<lparr>emsg_value := v\<rparr>"

definition emsg_setMessage :: "byte list option \<Rightarrow> u32 \<Rightarrow> emsg_box \<Rightarrow> emsg_box" where
  "emsg_setMessage msg n b = b\<lparr>messageData := msg, messageLen := n\<rparr>"

definition trun_getSampleDuration :: "trun_box \<Rightarrow> u64" where "trun_getSampleDuration b = trun_duration b"

definition trun_getSampleCount :: "trun_box \<Rightarrow> u32" where "trun_getSampleCount b = sample_count b"

definition trun_getFirstSampleSize :: "trun_box \<Rightarrow> u32" where "trun_getFirstSampleSize b = mFirstSampleSize b"

definition trun_sampleDurationPresent :: "trun_box \<Rightarrow> bool" where
  "trun_sampleDurationPresent b = has_flag (full_flags b) TRUN_SAMPLE_DURATION"

definition tfhd_defaultSampleDurationPresent :: "tfhd_box \<Rightarrow> bool" where
  "tfhd_defaultSampleDurationPresent b = has_flag (full_flags b) TFHD_DEFAULT_SAMPLE_DURATION"

definition tfhd_getDefaultSampleDuration :: "tfhd_box \<Rightarrow> u64" where
  "tfhd_getDefaultSampleDuration b = mDefaultSampleDuration b"

definition tfhd_getDefaultSampleSize :: "tfhd_box \<Rightarrow> u32" where
  "tfhd_getDefaultSampleSize b = mDefaultSampleSize b"

definition prft_setTrackId :: "u32 \<Rightarrow> prft_box \<Rightarrow> prft_box" where "prft_setTrackId v b = b\<lparr>prft_track_id := v\<rparr>"

definition prft_setNtpTs :: "u64 \<Rightarrow> prft_box \<Rightarrow> prft_box" where "prft_setNtpTs v b = b\<lparr>ntp_ts := v\<rparr>"

definition prft_setMediaTime :: "u64 \<Rightarrow> prft_box \<Rightarrow> prft_box" where "prft_setMediaTime v b = b\<lparr>media_time := v\<rparr>"

definition sidx_getSampleDuration :: "sidx_box \<Rightarrow> u64" where "sidx_getSampleDuration b = sidx_duration b"

definition sidx_setTimeScale :: "u32 \<Rightarrow> sidx_box \<Rightarrow> sidx_box" where
  "sidx_setTimeScale v b = b\<lparr>sidx_timeScale := v\<rparr>"

definition saiz_getFirstSampleInfoSize :: "saiz_box \<Rightarrow> u32" where
  "saiz_getFirstSampleInfoSize b = firstSampleInfoSize b"

end
