(* ===== verification/Isobmff_Buffer.thy ===== *)
theory Isobmff_Buffer
  imports Isobmff_Box
begin

text \<open>
  \<^verbatim>\<open>playerisobmff/playerisobmffbuffer.cpp\<close>: a segment and the list of its top-level boxes. The
  printing functions only log and are left out. \<open>chunkedBox\<close>, a pointer to one of the boxes, is its
  index.
\<close>

section \<open>The buffer object\<close>

record iso_buffer =
  boxes :: "box list"
  buffer :: mem
  bufSize :: nat
  chunkedBox :: "nat option"

definition new_iso_buffer :: iso_buffer where
  "new_iso_buffer = \<lparr>boxes = [], buffer = [], bufSize = 0, chunkedBox = None\<rparr>"

definition setBuffer :: "mem \<Rightarrow> nat \<Rightarrow> iso_buffer \<Rightarrow> iso_buffer" where
  "setBuffer buf sz b = b\<lparr>buffer := buf, bufSize := sz\<rparr>"

primrec parse_boxes :: "nat \<Rightarrow> bool \<Rightarrow> u32 \<Rightarrow> nat \<Rightarrow> iso_buffer \<Rightarrow> iso_buffer res" where
  "parse_boxes 0 correctBoxSize newTrackId curOffset s = Inl OutOfFuel"
| "parse_boxes (Suc fuel) correctBoxSize newTrackId curOffset s =
     (if curOffset < bufSize s then
        bindE (constructBox fuel correctBoxSize newTrackId (buffer s) curOffset
                 (word_of_nat (bufSize s - curOffset))) (\<lambda>(b, m').
        let chunk = (if bufSize s - curOffset < 4 \<or> bufSize s - curOffset < unat (getSize b)
                     then Some (length (boxes s)) else chunkedBox s)
        in parse_boxes fuel correctBoxSize newTrackId (curOffset + unat (getSize b))
             (s\<lparr>boxes := boxes s @ [setOffset (word_of_nat curOffset) b],
                buffer := m', chunkedBox := chunk\<rparr>))
      else Inr s)"

definition parseBuffer :: "nat \<Rightarrow> bool \<Rightarrow> u32 \<Rightarrow> iso_buffer \<Rightarrow> (bool \<times> iso_buffer) res" where
  "parseBuffer fuel correctBoxSize newTrackId s =
     bindE (parse_boxes fuel correctBoxSize newTrackId 0 s) (\<lambda>s'. Inr (boxes s' \<noteq> [], s'))"

definition getChunkedfBox :: "iso_buffer \<Rightarrow> box option" where
  "getChunkedfBox s = map_option (\<lambda>i. boxes s ! i) (chunkedBox s)"

definition isInitSegment :: "iso_buffer \<Rightarrow> bool" where
  "isInitSegment s = list_ex (\<lambda>b. getType b = fourcc ''ftyp'') (boxes s)"

fun getBoxSizeInternal :: "box list \<Rightarrow> byte list \<Rightarrow> u32 option" where
  "getBoxSizeInternal [] name = None"
| "getBoxSizeInternal (b # bs) name =
     (if getType b = name then Some (getSize b) else getBoxSizeInternal bs name)"

definition getMdatBoxSize :: "iso_buffer \<Rightarrow> u32 option" where
  "getMdatBoxSize s = getBoxSizeInternal (boxes s) (fourcc ''mdat'')"

fun parseBoxInternal :: "mem \<Rightarrow> box list \<Rightarrow> byte list \<Rightarrow> byte list option res" where
  "parseBoxInternal m [] name = Inr None"
| "parseBoxInternal m (b # bs) name =
     (if getType b = name
      then bindE (mem_read m (unat (getOffset b + 8)) (unat (getSize b - 8))) (\<lambda>bytes. Inr (Some bytes))
      else parseBoxInternal m bs name)"

definition parseMdatBox :: "iso_buffer \<Rightarrow> byte list option res" where
  "parseMdatBox s = parseBoxInternal (buffer s) (boxes s) (fourcc ''mdat'')"

section \<open>Well-formed segments\<close>

text \<open>
  The abstract syntax of a segment: containers of the four kinds the parser descends into and leaf
  boxes with a payload the parser does not look at. \<open>ser\<close> writes the bytes of a tree; \<open>parsed\<close>
  is the box object the parser should build for a tree at a position of the memory.
\<close>

datatype tree = Leaf "byte list" "byte list" | Node "byte list" "tree list"

fun tree_len :: "tree \<Rightarrow> nat" where
  "tree_len (Leaf t payload) = 8 + length payload"
| "tree_len (Node t ts) = 8 + sum_list (map tree_len ts)"

fun ser :: "tree \<Rightarrow> byte list" where
  "ser (Leaf t payload) = u32_be (word_of_nat (8 + length payload)) @ t @ payload"
| "ser (Node t ts) =
     u32_be (word_of_nat (8 + sum_list (map tree_len ts))) @ t @ concat (map ser ts)"

definition opaque :: "byte list \<Rightarrow> bool" where
  "opaque t = (\<not> is_container t \<and> t \<noteq> fourcc ''trak'' \<and> leaf_constructor t = None)"

fun tree_ok :: "tree \<Rightarrow> bool" where
  "tree_ok (Leaf t payload) = (length t = 4 \<and> (opaque t \<or> t = fourcc ''mdat''))"
| "tree_ok (Node t ts) = (is_container t \<and> list_all tree_ok ts)"

fun tree_type :: "tree \<Rightarrow> byte list" where
  "tree_type (Leaf t payload) = t"
| "tree_type (Node t ts) = t"

fun parsed :: "nat \<Rightarrow> tree \<Rightarrow> box"
and parsed_list :: "nat \<Rightarrow> nat \<Rightarrow> tree list \<Rightarrow> box list" where
  "parsed p (Leaf t payload) =
     (if t = fourcc ''mdat'' then Box (based_header (word_of_nat (8 + length payload)) t (p + 8)) Mdat
      else Box (new_header (word_of_nat (8 + length payload)) t) Plain)"
| "parsed p (Node t ts) =
     Box (new_header (word_of_nat (8 + sum_list (map tree_len ts))) t)
       (GenericContainer (parsed_list (p + 8) 8 ts))"
| "parsed_list p cur [] = []"
| "parsed_list p cur (x # xs) =
     setOffset (word_of_nat cur) (parsed p x) # parsed_list (p + tree_len x) (cur + tree_len x) xs"

lemma length_ser: "tree_ok x \<Longrightarrow> length (ser x) = tree_len x"
proof (induction x)
  case (Node t ts)
  then have eq: "map (\<lambda>x. length (ser x)) ts = map tree_len ts"
    by (simp add: list_all_iff)
  have "length (concat (map ser ts)) = sum_list (map tree_len ts)"
    by (simp only: length_concat map_map comp_def eq)
  with Node.prems show ?case
    by (auto simp: is_container_def fourcc_def)
qed simp

lemma tree_len_ge: "8 \<le> tree_len x"
  by (cases x) simp_all

lemma getSize_parsed: "getSize (parsed p x) = word_of_nat (tree_len x)"
  by (cases x) (simp_all add: getSize_def new_header_def based_header_def)

lemma getType_parsed: "getType (parsed p x) = tree_type x"
  by (cases x) (simp_all add: getType_def new_header_def based_header_def)

lemma unat_word_of_nat32: "n < 2 ^ 32 \<Longrightarrow> unat (word_of_nat n :: u32) = n"
  by (simp add: unat_of_nat)

section \<open>Reading the header of a serialised box\<close>

lemma mem_read_mid: "mem_read (pre @ bs @ post) (length pre) (length bs) = Inr bs"
  by (simp add: mem_read_def)

lemma read_u32_mid: "read_u32 (pre @ u32_be v @ post) (length pre) = Inr v"
  using mem_read_mid [of pre "u32_be v" post] by (simp add: read_u32_def)

lemma read_header_mid:
  assumes "m = pre @ u32_be v @ t @ rest" and "length t = 4"
  shows "read_u32 m (length pre) = Inr v" and "mem_read m (length pre + 4) 4 = Inr t"
proof -
  show "read_u32 m (length pre) = Inr v"
    using assms read_u32_mid by simp
  show "mem_read m (length pre + 4) 4 = Inr t"
    using mem_read_mid [of "pre @ u32_be v" t rest] assms by simp
qed

lemma fourcc_length [simp]: "length (fourcc s) = length s"
  by (simp add: fourcc_def)

lemma is_container_length: "is_container t \<Longrightarrow> length t = 4"
  by (auto simp: is_container_def)

lemma leaf_constructor_mdat: "leaf_constructor (fourcc ''mdat'') = Some constructMdatBox"
  by (simp add: leaf_constructor_def fourcc_def)

lemma mdat_not_container: "\<not> is_container (fourcc ''mdat'')" "fourcc ''mdat'' \<noteq> fourcc ''trak''"
  by (simp_all add: is_container_def fourcc_def)

section \<open>Parsing what was serialised\<close>

lemma constructChildren_parsed:
  assumes child: "\<And>x pre post maxSz. x \<in> set ts \<Longrightarrow> m = pre @ ser x @ post \<Longrightarrow>
      tree_len x \<le> unat maxSz \<Longrightarrow> child m (length pre) maxSz = Inr (parsed (length pre) x, m)"
    and ok: "list_all tree_ok ts"
    and m: "m = pre @ concat (map ser ts) @ post"
    and sz: "cur + sum_list (map tree_len ts) = unat sz"
    and fuel: "length ts < fuel"
  shows "constructChildren fuel child m sz (length pre) (word_of_nat cur)
    = Inr (parsed_list (length pre) cur ts, m)"
  using assms
proof (induction ts arbitrary: pre cur fuel)
  case Nil
  then obtain f where "fuel = Suc f" by (cases fuel) auto
  with Nil show ?case by (simp add: word_less_nat_alt unat_of_nat)
next
  case (Cons x xs)
  from Cons.prems(5) obtain f where f: "fuel = Suc f" "length xs < f" by (cases fuel) auto
  have cur: "cur < 2 ^ 32" and xlen: "tree_len x < 2 ^ 32"
    using Cons.prems(4) unsigned_less [of sz, where ?'a = nat] by simp_all
  have x: "unat (sz - word_of_nat cur) = unat sz - cur"
    using Cons.prems(4) cur by (subst unat_sub) (simp_all add: word_le_nat_alt unat_word_of_nat32)
  have lt: "word_of_nat cur < sz"
    using Cons.prems(4) tree_len_ge [of x] cur by (simp add: word_less_nat_alt unat_word_of_nat32)
  have here: "child m (length pre) (sz - word_of_nat cur) = Inr (parsed (length pre) x, m)"
    by (rule Cons.prems(1) [where post = "concat (map ser xs) @ post"])
      (use Cons.prems(3,4) x in simp_all)
  have lx: "length (ser x) = tree_len x" using Cons.prems(2) by (simp add: length_ser)
  have rest: "constructChildren f child m sz (length (pre @ ser x)) (word_of_nat (cur + tree_len x))
      = Inr (parsed_list (length (pre @ ser x)) (cur + tree_len x) xs, m)"
  proof (rule Cons.IH)
    show "\<And>y pre post maxSz. y \<in> set xs \<Longrightarrow> m = pre @ ser y @ post \<Longrightarrow> tree_len y \<le> unat maxSz \<Longrightarrow>
        child m (length pre) maxSz = Inr (parsed (length pre) y, m)"
      by (rule Cons.prems(1)) simp_all
  qed (use Cons.prems f in simp_all)
  show ?case
    using here rest lt xlen f(1) lx
    by (simp add: getSize_parsed unat_word_of_nat32)
qed

lemma constructBox_parsed:
  "tree_ok x \<Longrightarrow> tree_len x < 2 ^ 32 \<Longrightarrow> m = pre @ ser x @ post \<Longrightarrow> tree_len x \<le> unat maxSz \<Longrightarrow>
   tree_len x \<le> fuel \<Longrightarrow>
   constructBox fuel correctBoxSize newTrackId m (length pre) maxSz = Inr (parsed (length pre) x, m)"
proof (induction x arbitrary: fuel correctBoxSize newTrackId pre post maxSz)
  case (Leaf t payload)
  from Leaf.prems(5) obtain f where f: "fuel = Suc f" by (cases fuel) auto
  have t: "length t = 4" using Leaf.prems(1) by auto
  have big: "\<not> maxSz < 4" "\<not> maxSz < 8" "\<not> maxSz < word_of_nat (8 + length payload)"
    using Leaf.prems(2,4) unat_word_of_nat32 [of "8 + length payload"]
    by (simp_all add: word_less_nat_alt del: of_nat_add)
  note rd = read_header_mid [of m pre "word_of_nat (8 + length payload)" t "payload @ post"]
  show ?case
    using Leaf.prems(1,3) f big rd t
    by (auto simp: opaque_def leaf_constructor_mdat mdat_not_container constructMdatBox_def)
next
  case (Node t ts)
  from Node.prems(5) obtain f where f: "fuel = Suc f" "7 + sum_list (map tree_len ts) \<le> f"
    by (cases fuel) auto
  have ok: "is_container t" "list_all tree_ok ts" using Node.prems(1) by auto
  let ?n = "8 + sum_list (map tree_len ts)"
  let ?pre = "pre @ u32_be (word_of_nat ?n) @ t"
  have big: "\<not> maxSz < 4" "\<not> maxSz < 8" "\<not> maxSz < word_of_nat ?n"
    using Node.prems(2,4) unat_word_of_nat32 [of ?n]
    by (simp_all add: word_less_nat_alt del: of_nat_add)
  have cnt: "8 * length ts \<le> sum_list (map tree_len ts)"
    by (induction ts) (use tree_len_ge in \<open>auto intro: add_mono\<close>)
  have part: "tree_len y \<le> sum_list (map tree_len ts)" if "y \<in> set ts" for y
    using that by (simp add: member_le_sum_list)
  have kids: "constructChildren f (constructBox f False newTrackId) m (word_of_nat ?n)
      (length ?pre) (word_of_nat 8) = Inr (parsed_list (length ?pre) 8 ts, m)"
  proof (rule constructChildren_parsed)
    fix y pre' post' and maxSz' :: u32 assume y: "y \<in> set ts" "m = pre' @ ser y @ post'" "tree_len y \<le> unat maxSz'"
    show "constructBox f False newTrackId m (length pre') maxSz' = Inr (parsed (length pre') y, m)"
    proof (rule Node.IH [OF y(1) _ _ y(2,3)])
      show "tree_ok y" using ok(2) y(1) by (simp add: list_all_iff)
      show "tree_len y < 2 ^ 32" "tree_len y \<le> f" using part [OF y(1)] f(2) Node.prems(2) by simp_all
    qed
  next
    show "m = ?pre @ concat (map ser ts) @ post" using Node.prems(3) by simp
    show "8 + sum_list (map tree_len ts) = unat (word_of_nat ?n :: u32)"
      using Node.prems(2) unat_word_of_nat32 [of ?n] by simp
    show "length ts < f" using cnt f(2) by simp
  qed (rule ok(2))
  have t: "length t = 4" using ok(1) by (rule is_container_length)
  note rd = read_header_mid [of m pre "word_of_nat ?n" t "concat (map ser ts) @ post"]
  show ?case
    using Node.prems(3) f(1) big rd t kids ok(1) by (simp add: add.assoc)
qed

lemma parsed_list_append:
  "parsed_list p cur (xs @ ys) =
     parsed_list p cur xs @ parsed_list (p + sum_list (map tree_len xs)) (cur + sum_list (map tree_len xs)) ys"
  by (induction xs arbitrary: p cur) (simp_all add: add.assoc)

lemma length_concat_ser:
  "list_all tree_ok ts \<Longrightarrow> length (concat (map ser ts)) = sum_list (map tree_len ts)"
  by (induction ts) (simp_all add: length_ser)

lemma length_parsed_list [simp]: "length (parsed_list p cur ts) = length ts"
  by (induction ts arbitrary: p cur) simp_all

text \<open>The loop of \<open>parseBuffer\<close> over complete boxes, up to whatever follows them.\<close>

lemma parse_boxes_parsed:
  assumes "list_all tree_ok ts" and "buffer s = pre @ concat (map ser ts) @ post"
    and "bufSize s = length (buffer s)" and "bufSize s < 2 ^ 32"
    and "sum_list (map tree_len ts) + k = fuel" and "0 < k"
  shows "\<exists>j \<ge> k. parse_boxes fuel correctBoxSize newTrackId (length pre) s
    = parse_boxes j correctBoxSize newTrackId (length pre + sum_list (map tree_len ts))
        (s\<lparr>boxes := boxes s @ parsed_list (length pre) (length pre) ts\<rparr>)"
  using assms
proof (induction ts arbitrary: s pre fuel k)
  case Nil
  then show ?case by auto
next
  case (Cons x xs)
  from Cons.prems(1) have x: "tree_ok x" and xs: "list_all tree_ok xs" by simp_all
  have len: "tree_len x + sum_list (map tree_len xs) \<le> bufSize s - length pre" "length pre < bufSize s"
    using Cons.prems(1,2,3) tree_len_ge [of x] by (simp_all add: length_ser length_concat_ser)
  from Cons.prems(5) tree_len_ge [of x] obtain f
    where f: "fuel = Suc f" "tree_len x \<le> f" "sum_list (map tree_len xs) + k \<le> f"
    by (cases fuel) (use \<open>0 < k\<close> in auto)
  have left: "unat (word_of_nat (bufSize s - length pre) :: u32) = bufSize s - length pre"
    by (rule unat_word_of_nat32) (use Cons.prems(4) in simp)
  have here: "constructBox f correctBoxSize newTrackId (buffer s) (length pre)
      (word_of_nat (bufSize s - length pre)) = Inr (parsed (length pre) x, buffer s)"
    by (rule constructBox_parsed [where post = "concat (map ser xs) @ post"])
      (use x f len left Cons.prems(2,4) in simp_all)
  have size: "unat (getSize (parsed (length pre) x)) = tree_len x"
    using len Cons.prems(4) by (simp add: getSize_parsed unat_word_of_nat32)
  let ?s = "s\<lparr>boxes := boxes s @ [setOffset (word_of_nat (length pre)) (parsed (length pre) x)]\<rparr>"
  have step: "parse_boxes fuel correctBoxSize newTrackId (length pre) s
      = parse_boxes f correctBoxSize newTrackId (length (pre @ ser x)) ?s"
    using f here size len tree_len_ge [of x] x
    by (simp add: length_ser)
  have "f = sum_list (map tree_len xs) + (f - sum_list (map tree_len xs))" using f by simp
  then have "\<exists>j \<ge> f - sum_list (map tree_len xs).
      parse_boxes f correctBoxSize newTrackId (length (pre @ ser x)) ?s
    = parse_boxes j correctBoxSize newTrackId (length (pre @ ser x) + sum_list (map tree_len xs))
        (?s\<lparr>boxes := boxes ?s @ parsed_list (length (pre @ ser x)) (length (pre @ ser x)) xs\<rparr>)"
    using Cons.IH [where s = ?s and pre = "pre @ ser x" and fuel = f
        and k = "f - sum_list (map tree_len xs)"] xs Cons.prems f x
    by (simp add: length_ser)
  then obtain j where "f - sum_list (map tree_len xs) \<le> j" and
      "parse_boxes f correctBoxSize newTrackId (length (pre @ ser x)) ?s
    = parse_boxes j correctBoxSize newTrackId (length (pre @ ser x) + sum_list (map tree_len xs))
        (?s\<lparr>boxes := boxes ?s @ parsed_list (length (pre @ ser x)) (length (pre @ ser x)) xs\<rparr>)"
    by blast
  then show ?case
    using f(3) x by (intro exI [of _ j]) (simp add: step length_ser add.assoc)
qed

lemma parse_boxes_done: "bufSize s \<le> cur \<Longrightarrow> 0 < j \<Longrightarrow> parse_boxes j c i cur s = Inr s"
  by (cases j) simp_all

definition segment_of :: "tree list \<Rightarrow> mem" where
  "segment_of ts = concat (map ser ts)"

lemma parseBuffer_parsed:
  assumes ok: "list_all tree_ok ts" and small: "length (segment_of ts) < 2 ^ 32"
    and fuel: "length (segment_of ts) < fuel"
  shows "parseBuffer fuel correctBoxSize newTrackId
      (setBuffer (segment_of ts) (length (segment_of ts)) new_iso_buffer)
    = Inr (ts \<noteq> [], \<lparr>boxes = parsed_list 0 0 ts, buffer = segment_of ts,
        bufSize = length (segment_of ts), chunkedBox = None\<rparr>)"
proof -
  let ?s = "setBuffer (segment_of ts) (length (segment_of ts)) new_iso_buffer"
  have len: "length (segment_of ts) = sum_list (map tree_len ts)"
    using ok by (simp add: segment_of_def length_concat_ser)
  obtain j where "fuel - sum_list (map tree_len ts) \<le> j"
    and "parse_boxes fuel correctBoxSize newTrackId (length []) ?s
      = parse_boxes j correctBoxSize newTrackId (length [] + sum_list (map tree_len ts))
          (?s\<lparr>boxes := boxes ?s @ parsed_list (length []) (length []) ts\<rparr>)"
    using parse_boxes_parsed [OF ok, of ?s "[]" "[]" "fuel - sum_list (map tree_len ts)" fuel
        correctBoxSize newTrackId] small fuel len
    by (auto simp: setBuffer_def segment_of_def)
  moreover have "0 < j" using calculation(1) fuel len by simp
  ultimately have "parse_boxes fuel correctBoxSize newTrackId 0 ?s = Inr (?s\<lparr>boxes := parsed_list 0 0 ts\<rparr>)"
    by (simp add: parse_boxes_done setBuffer_def new_iso_buffer_def len)
  then show ?thesis
    by (cases ts) (simp_all add: parseBuffer_def setBuffer_def new_iso_buffer_def)
qed


definition sample_segment :: "tree list" where
  "sample_segment = [Leaf (fourcc ''ftyp'') [1, 2], Node (fourcc ''moof'') [Node (fourcc ''traf'') []],
     Leaf (fourcc ''mdat'') [7, 8, 9]]"

lemma sample_segment_ok: "list_all tree_ok sample_segment" "length (segment_of sample_segment) = 37"
  by (simp_all add: sample_segment_def opaque_def is_container_def leaf_constructor_def fourcc_def
      segment_of_def)


section \<open>The queries on a parsed segment\<close>

lemma parseBoxInternal_skip:
  "\<forall>x \<in> set xs. tree_type x \<noteq> name \<Longrightarrow>
     parseBoxInternal m (parsed_list p cur xs @ bs) name = parseBoxInternal m bs name"
  by (induction xs arbitrary: p cur)
    (simp_all add: setOffset_def getType_def getType_parsed [unfolded getType_def])

lemma getBoxSizeInternal_skip:
  "\<forall>x \<in> set xs. tree_type x \<noteq> name \<Longrightarrow>
     getBoxSizeInternal (parsed_list p cur xs @ bs) name = getBoxSizeInternal bs name"
  by (induction xs arbitrary: p cur)
    (simp_all add: setOffset_def getType_def getType_parsed [unfolded getType_def])

lemma isInit_parsed_list:
  "list_ex (\<lambda>b. getType b = name) (parsed_list p cur ts) \<longleftrightarrow> (\<exists>x \<in> set ts. tree_type x = name)"
  by (induction ts arbitrary: p cur)
    (simp_all add: setOffset_def getType_def getType_parsed [unfolded getType_def])

text \<open>The queries on a parsed segment find what was written: \<open>isInitSegment\<close> holds exactly when
  the segment has a top-level \<open>ftyp\<close> box, and when it has an \<open>mdat\<close> box the size query returns the size of
  the first one and \<open>parseMdatBox\<close> copies out exactly its payload.\<close>

theorem parsed_segment_queries:
  assumes ok: "list_all tree_ok ts" and small: "length (segment_of ts) < 2 ^ 32"
    and fuel: "length (segment_of ts) < fuel"
    and parse: "parseBuffer fuel correctBoxSize newTrackId
      (setBuffer (segment_of ts) (length (segment_of ts)) new_iso_buffer) = Inr (r, s)"
    and ts: "ts = before @ Leaf (fourcc ''mdat'') payload # after"
    and first: "\<forall>x \<in> set before. tree_type x \<noteq> fourcc ''mdat''"
  shows "(isInitSegment s \<longleftrightarrow> (\<exists>x \<in> set ts. tree_type x = fourcc ''ftyp'')) \<and>
    getMdatBoxSize s = Some (word_of_nat (8 + length payload)) \<and>
    parseMdatBox s = Inr (Some payload)"
proof -
  let ?mdat = "Leaf (fourcc ''mdat'') payload" and ?c = "sum_list (map tree_len before)"
  have s: "boxes s = parsed_list 0 0 ts" "buffer s = segment_of ts"
    using parse unfolding parseBuffer_parsed [OF ok small fuel] by auto
  have split: "boxes s = parsed_list 0 0 before @ setOffset (word_of_nat ?c) (parsed ?c ?mdat)
      # parsed_list (?c + tree_len ?mdat) (?c + tree_len ?mdat) after"
    by (simp only: s ts parsed_list_append parsed_list.simps add_0)
  have pre: "length (concat (map ser before)) = ?c"
    using ok ts by (simp add: length_concat_ser)
  have seg: "segment_of ts = (concat (map ser before) @ u32_be (word_of_nat (8 + length payload))
      @ fourcc ''mdat'') @ payload @ concat (map ser after)"
    by (simp add: segment_of_def ts)
  have n: "?c + 8 + length payload < 2 ^ 32"
    using small pre by (simp add: seg)
  have "unat (word_of_nat ?c + 8 :: u32) = ?c + 8"
    using n unat_word_of_nat32 [of "?c + 8"] by (simp add: add.commute)
  moreover have "unat (word_of_nat (8 + length payload) - 8 :: u32) = length payload"
    using n unat_word_of_nat32 [of "length payload"] by simp
  moreover have "mem_read (buffer s) (?c + 8) (length payload) = Inr payload"
    using mem_read_mid [of "concat (map ser before) @ u32_be (word_of_nat (8 + length payload))
      @ fourcc ''mdat''" payload "concat (map ser after)"] pre by (simp add: s seg)
  ultimately have "parseMdatBox s = Inr (Some payload)"
    unfolding parseMdatBox_def split parseBoxInternal_skip [OF first]
    by (simp add: setOffset_def getType_def getSize_def getOffset_def based_header_def new_header_def
        del: of_nat_add)
  moreover have "getMdatBoxSize s = Some (word_of_nat (8 + length payload))"
    unfolding getMdatBoxSize_def split getBoxSizeInternal_skip [OF first]
    by (simp add: setOffset_def getType_def getSize_def based_header_def new_header_def)
  moreover have "isInitSegment s \<longleftrightarrow> (\<exists>x \<in> set ts. tree_type x = fourcc ''ftyp'')"
    by (simp add: isInitSegment_def s isInit_parsed_list)
  ultimately show ?thesis by blast
qed

theorem parsed_segment_queries_witness:
  "\<exists>s. parseBuffer 38 False (-1) (setBuffer (segment_of sample_segment) 37 new_iso_buffer) = Inr (True, s)
     \<and> isInitSegment s \<and> parseMdatBox s = Inr (Some [7, 8, 9])"
proof -
  obtain r s where s: "parseBuffer 38 False (-1)
      (setBuffer (segment_of sample_segment) (length (segment_of sample_segment)) new_iso_buffer) = Inr (r, s)"
    using parseBuffer_parsed [OF sample_segment_ok(1), of 38 False "-1"] by (simp add: sample_segment_ok)
  have r: "r" using s parseBuffer_parsed [OF sample_segment_ok(1), of 38 False "-1"]
    by (simp add: sample_segment_ok) (simp add: sample_segment_def)
  have "isInitSegment s \<and> parseMdatBox s = Inr (Some [7, 8, 9])"
    using parsed_segment_queries [OF sample_segment_ok(1) _ _ s, of "take 2 sample_segment" "[7, 8, 9]" "[]"]
    by (simp add: sample_segment_ok) (simp add: sample_segment_def fourcc_def)
  then show ?thesis using s r by (auto simp: sample_segment_ok)
qed

section \<open>Incomplete boxes\<close>

text \<open>A segment that ends inside a box (its size field says more than is left) is parsed up to
  that box, which is kept with its announced size and recorded as the chunked box.\<close>

theorem parseBuffer_chunked:
  assumes ok: "list_all tree_ok ts" and t: "length t = 4" and cut: "8 + length part < unat sz"
    and seg: "seg = segment_of ts @ u32_be sz @ t @ part" and small: "length seg < 2 ^ 32"
    and fuel: "length seg < fuel"
  shows "\<exists>s. parseBuffer fuel False newTrackId (setBuffer seg (length seg) new_iso_buffer) = Inr (True, s)
    \<and> buffer s = seg \<and> length (boxes s) = length ts + 1
    \<and> getChunkedfBox s = Some (setOffset (word_of_nat (length (segment_of ts))) (Box (new_header sz t) Plain))"
proof -
  let ?s = "setBuffer seg (length seg) new_iso_buffer" and ?n = "length (segment_of ts)"
  have n: "?n = sum_list (map tree_len ts)" using ok by (simp add: segment_of_def length_concat_ser)
  have len: "length seg = ?n + 8 + length part" using t by (simp add: seg)
  obtain j where j: "fuel - ?n \<le> j"
    and run: "parse_boxes fuel False newTrackId 0 ?s
      = parse_boxes j False newTrackId ?n (?s\<lparr>boxes := parsed_list 0 0 ts\<rparr>)"
    using parse_boxes_parsed [OF ok, of ?s "[]" "u32_be sz @ t @ part" "fuel - ?n" fuel False newTrackId]
      small fuel len n seg
    by (auto simp: setBuffer_def segment_of_def new_iso_buffer_def)
  obtain i where i: "j = Suc (Suc (Suc i))" using j fuel len by (intro that [of "j - 3"]) simp
  have w: "unat (word_of_nat (8 + length part) :: u32) = 8 + length part"
    by (rule unat_word_of_nat32) (use small len in simp)
  have "constructBox (Suc (Suc i)) False newTrackId seg ?n (word_of_nat (8 + length part))
      = Inr (Box (new_header sz t) Plain, seg)"
    using read_header_mid [of seg "segment_of ts" sz t part] seg t cut w
    by (simp add: word_less_nat_alt del: of_nat_add)
  with run i show ?thesis
    using len cut
    by (simp add: parseBuffer_def setBuffer_def new_iso_buffer_def getSize_def new_header_def
        getChunkedfBox_def nth_append del: of_nat_add)
qed

theorem parseBuffer_chunked_witness:
  "\<exists>s. parseBuffer 11 False (-1) (setBuffer (u32_be 100 @ fourcc ''mdat'' @ [1, 2]) 10 new_iso_buffer)
     = Inr (True, s) \<and> getChunkedfBox s = Some (Box (new_header 100 (fourcc ''mdat'')) Plain)"
  using parseBuffer_chunked [of "[]" "fourcc ''mdat''" "[1, 2]" 100 _ 11 "-1", OF _ _ _ refl]
  by (simp add: segment_of_def) (auto simp: setOffset_def new_header_def)

section \<open>Fuel\<close>

lemma constructChildren_fuel:
  assumes child: "\<And>m p z. fuel_le (child m p z) (child' m p z)"
  shows "f \<le> f' \<Longrightarrow> fuel_le (constructChildren f child m sz ptr cur) (constructChildren f' child' m sz ptr cur)"
proof (induction f arbitrary: f' m ptr cur)
  case (Suc f)
  then obtain g where "f' = Suc g" "f \<le> g" by (cases f') auto
  with Suc.IH child show ?case by (auto intro!: fuel_intros)
qed (simp add: fuel_intros)

lemma constructTrakChildren_fuel:
  assumes child: "\<And>m p z. fuel_le (child m p z) (child' m p z)"
  shows "f \<le> f' \<Longrightarrow> fuel_le (constructTrakChildren f child m sz ptr cur i tid)
      (constructTrakChildren f' child' m sz ptr cur i tid)"
proof (induction f arbitrary: f' m ptr cur tid)
  case (Suc f)
  then obtain g where "f' = Suc g" "f \<le> g" by (cases f') auto
  with Suc.IH child show ?case by (auto intro!: fuel_intros)
qed (simp add: fuel_intros)

lemma constructBox_fuel:
  "f \<le> f' \<Longrightarrow> fuel_le (constructBox f c i m p z) (constructBox f' c i m p z)"
proof (induction f arbitrary: f' c i m p z)
  case (Suc f)
  then obtain g where g: "f' = Suc g" "f \<le> g" by (cases f') auto
  have IH: "fuel_le (constructBox f c i m p z) (constructBox g c i m p z)" for c i m p z
    using Suc.IH g(2) by blast
  show ?case
    unfolding g(1) constructBox.simps
    by (intro fuel_intros constructChildren_fuel constructTrakChildren_fuel IH g(2))
qed (simp add: fuel_intros)

lemma parse_boxes_fuel: "f \<le> f' \<Longrightarrow> fuel_le (parse_boxes f c i cur s) (parse_boxes f' c i cur s)"
proof (induction f arbitrary: f' cur s)
  case (Suc f)
  then obtain g where g: "f' = Suc g" "f \<le> g" by (cases f') auto
  show ?case
    unfolding g(1) parse_boxes.simps Let_def
    by (intro fuel_intros constructBox_fuel Suc.IH g(2))
qed (simp add: fuel_intros)

text \<open>Fuel only decides how long the parser may run: once a run of \<open>parseBuffer\<close> has ended, with a
  result or a fault, every run with more fuel ends in the same way.\<close>

theorem parseBuffer_fuel_mono:
  assumes "parseBuffer fuel c i s \<noteq> Inl OutOfFuel" and "fuel \<le> fuel'"
  shows "parseBuffer fuel' c i s = parseBuffer fuel c i s"
proof (rule fuel_le_result [OF _ assms(1)])
  show "fuel_le (parseBuffer fuel c i s) (parseBuffer fuel' c i s)"
    unfolding parseBuffer_def by (intro fuel_intros parse_boxes_fuel assms(2))
qed

theorem parseBuffer_fuel_mono_witness:
  "parseBuffer 1000 False (-1) (setBuffer (segment_of sample_segment) 37 new_iso_buffer)
     = parseBuffer 38 False (-1) (setBuffer (segment_of sample_segment) 37 new_iso_buffer)"
  by (rule parseBuffer_fuel_mono)
    (use parseBuffer_parsed [OF sample_segment_ok(1), of 38 False "-1"] in \<open>simp_all add: sample_segment_ok\<close>)

section \<open>A box of size zero\<close>

lemma constructBox_zero_size:
  assumes "read_u32 m p = Inr 0" and "mem_read m (p + 4) 4 = Inr t" and "opaque t" and "8 \<le> maxSz"
  shows "constructBox (Suc f) c i m p maxSz = Inr (Box (new_header 0 t) Plain, m)"
proof -
  have "\<not> maxSz < 4" "\<not> maxSz < 8" using assms(4) by (auto simp: word_le_nat_alt word_less_nat_alt)
  then show ?thesis using assms by (simp add: opaque_def)
qed

lemma parse_boxes_zero_size:
  assumes "read_u32 (buffer s) cur = Inr 0" and "mem_read (buffer s) (cur + 4) 4 = Inr t" and "opaque t"
    and "cur + 8 \<le> bufSize s" and "bufSize s < 2 ^ 32"
  shows "parse_boxes fuel c i cur s = Inl OutOfFuel"
  using assms
proof (induction fuel arbitrary: s)
  case (Suc fuel)
  have left: "unat (word_of_nat (bufSize s - cur) :: u32) = bufSize s - cur"
    by (rule unat_word_of_nat32) (use Suc.prems(5) in simp)
  have room: "8 \<le> bufSize s - cur" using Suc.prems(4) by simp
  then have "8 \<le> (word_of_nat (bufSize s - cur) :: u32)"
    unfolding word_le_nat_alt left by simp
  then obtain g where g: "constructBox fuel c i (buffer s) cur (word_of_nat (bufSize s - cur)) = Inl OutOfFuel
      \<or> constructBox fuel c i (buffer s) cur (word_of_nat (bufSize s - cur))
        = Inr (Box (new_header 0 g) Plain, buffer s)"
    using constructBox_zero_size [OF Suc.prems(1,2,3)] by (cases fuel) auto
  have "cur < bufSize s" using Suc.prems(4) by simp
  moreover have "unat (getSize (Box (new_header 0 g) Plain)) = 0" by (simp add: getSize_def new_header_def)
  moreover have "parse_boxes fuel c i cur (s\<lparr>boxes := bs, buffer := buffer s, chunkedBox := ch\<rparr>) = Inl OutOfFuel"
    for bs ch
    by (rule Suc.IH) (use Suc.prems in simp_all)
  ultimately show ?case using g by (auto simp: Let_def)
qed simp

lemma constructChildren_zero_size:
  assumes "\<And>z. 8 \<le> z \<Longrightarrow> \<exists>b. child m ptr z = Inr (b, m) \<and> getSize b = 0" and "cur < sz" "8 \<le> sz - cur"
  shows "constructChildren fuel child m sz ptr cur = Inl OutOfFuel"
proof (induction fuel)
  case (Suc fuel)
  obtain b where "child m ptr (sz - cur) = Inr (b, m)" "getSize b = 0"
    using assms(1) [OF assms(3)] by blast
  with Suc assms(2) show ?case by simp
qed simp

text \<open>A box whose size field is zero hangs the parser: after any number of complete boxes, a header
  of size zero keeps \<open>parseBuffer\<close> at the same offset for ever, so no amount of fuel is enough.\<close>

theorem parseBuffer_zero_size_diverges:
  assumes ok: "list_all tree_ok ts" and t: "length t = 4" "opaque t"
    and seg: "seg = segment_of ts @ u32_be 0 @ t @ rest" and small: "length seg < 2 ^ 32"
  shows "parseBuffer fuel c i (setBuffer seg (length seg) new_iso_buffer) = Inl OutOfFuel"
proof (rule ccontr)
  let ?s = "setBuffer seg (length seg) new_iso_buffer" and ?n = "length (segment_of ts)"
  let ?F = "fuel + length seg + 1"
  assume ends: "parseBuffer fuel c i ?s \<noteq> Inl OutOfFuel"
  have "fuel_le (parseBuffer fuel c i ?s) (parseBuffer ?F c i ?s)"
    unfolding parseBuffer_def by (intro fuel_intros parse_boxes_fuel) simp
  with ends have same: "parseBuffer ?F c i ?s \<noteq> Inl OutOfFuel"
    using fuel_le_result by metis
  have n: "?n = sum_list (map tree_len ts)" using ok by (simp add: segment_of_def length_concat_ser)
  have buf: "buffer ?s = [] @ concat (map ser ts) @ u32_be 0 @ t @ rest" "bufSize ?s = length (buffer ?s)"
    "bufSize ?s < 2 ^ 32" "boxes ?s = []"
    using seg small by (simp_all only: setBuffer_def segment_of_def new_iso_buffer_def iso_buffer.simps append_Nil)
  have left: "sum_list (map tree_len ts) + (?F - ?n) = ?F" "0 < ?F - ?n" using n seg by simp_all
  obtain j where run: "parse_boxes ?F c i 0 ?s
      = parse_boxes j c i ?n (?s\<lparr>boxes := parsed_list 0 0 ts\<rparr>)"
    using parse_boxes_parsed [OF ok buf(1-3) left, of c i]
    unfolding n buf(4) list.size(3) append_Nil plus_nat.add_0 by blast
  have "parse_boxes j c i ?n (?s\<lparr>boxes := parsed_list 0 0 ts\<rparr>) = Inl OutOfFuel"
    by (rule parse_boxes_zero_size [where t = t])
      (use read_header_mid [of seg "segment_of ts" 0 t rest] seg t small in \<open>simp_all add: setBuffer_def\<close>)
  with run same show False by (simp add: parseBuffer_def)
qed

theorem parseBuffer_zero_size_diverges_witness:
  "parseBuffer 1000000 False (-1) (setBuffer (u32_be 0 @ fourcc ''free'') 8 new_iso_buffer) = Inl OutOfFuel"
  using parseBuffer_zero_size_diverges [of "[]" "fourcc ''free''" _ "[]" 1000000 False "-1", OF _ _ _ refl]
  by (simp add: segment_of_def opaque_def is_container_def leaf_constructor_def fourcc_def)

end
