(* ===== verification/Isobmff_Rewrite.thy ===== *)
theory Isobmff_Rewrite
  imports Isobmff_Box
begin

text \<open>
  What the in-place rewriting operations of \<^verbatim>\<open>playerisobmff/playerisobmffbox.cpp\<close> do to the
  segment: a setter is read back by the constructor of the box and touches no other byte; a
  truncation turns the rest of a sample table into a skip box, so that the boxes still tile the
  segment.
\<close>

section \<open>Fields after a write\<close>

lemma write_u32_same: "write_u32 m p v = Inr m' \<Longrightarrow> read_u32 m' p = Inr v"
  unfolding write_u32_def read_u32_def by (rule u32c.read_after_write)

lemma write_u64_same: "write_u64 m p v = Inr m' \<Longrightarrow> read_u64 m' p = Inr v"
  unfolding write_u64_def read_u64_def by (rule u64c.read_after_write)

lemma write_u32_other:
  "write_u32 m p v = Inr m' \<Longrightarrow> q + n \<le> p \<or> p + 4 \<le> q \<Longrightarrow> mem_read m' q n = mem_read m q n"
  unfolding write_u32_def by (rule u32c.read_other_field)

lemma write_u64_other:
  "write_u64 m p v = Inr m' \<Longrightarrow> q + n \<le> p \<or> p + 8 \<le> q \<Longrightarrow> mem_read m' q n = mem_read m q n"
  unfolding write_u64_def by (rule u64c.read_other_field)

lemma write_u32_ok: "p + 4 \<le> length m \<Longrightarrow> \<exists>m'. write_u32 m p v = Inr m'"
  unfolding write_u32_def by (rule mem_write_ok) simp

lemma write_u64_ok: "p + 8 \<le> length m \<Longrightarrow> \<exists>m'. write_u64 m p v = Inr m'"
  unfolding write_u64_def by (rule mem_write_ok) simp

lemma write_u32_length: "write_u32 m p v = Inr m' \<Longrightarrow> length m' = length m"
  unfolding write_u32_def by (rule mem_write_length)

lemma write_u64_length: "write_u64 m p v = Inr m' \<Longrightarrow> length m' = length m"
  unfolding write_u64_def by (rule mem_write_length)

lemma read_u32_ok: "read_u32 m p = Inr v \<Longrightarrow> p + 4 \<le> length m"
  by (auto simp: read_u32_def mem_read_def split: if_splits)

lemma read_u64_ok: "read_u64 m p = Inr v \<Longrightarrow> p + 8 \<le> length m"
  by (auto simp: read_u64_def mem_read_def split: if_splits)

text \<open>The field readers see only the bytes of their field.\<close>

lemma readers_cong:
  "mem_read m' p 1 = mem_read m p 1 \<Longrightarrow> read_u8 m' p = read_u8 m p"
  "mem_read m' p 3 = mem_read m p 3 \<Longrightarrow> read_flags m' p = read_flags m p"
  "mem_read m' p 4 = mem_read m p 4 \<Longrightarrow> read_u32 m' p = read_u32 m p"
  by (simp_all add: read_u8_def read_flags_def read_u32_def)

lemma fourcc_skip_length [simp]: "length (fourcc ''skip'') = 4"
  by (simp add: fourcc_def)

lemma write_skip_box_spec:
  assumes "p + 8 \<le> length m"
  obtains m' where "write_skip_box m p sz = Inr m'" and "length m' = length m"
    and "read_u32 m' p = Inr sz" and "mem_read m' (p + 4) 4 = Inr (fourcc ''skip'')"
    and "\<And>q n. q + n \<le> p \<or> p + 8 \<le> q \<Longrightarrow> mem_read m' q n = mem_read m q n"
proof -
  obtain m1 where m1: "write_u32 m p sz = Inr m1" using write_u32_ok [of p m sz] assms by auto
  have len: "length m1 = length m" using m1 by (rule write_u32_length)
  obtain m2 where m2: "mem_write m1 (p + 4) (fourcc ''skip'') = Inr m2"
    using mem_write_ok [of "p + 4" "fourcc ''skip''" m1] assms len by auto
  show thesis
  proof (rule that)
    show "write_skip_box m p sz = Inr m2" by (simp add: write_skip_box_def m1 m2)
    show "length m2 = length m" using mem_write_length [OF m2] len by simp
    show "read_u32 m2 p = Inr sz"
      using readers_cong(3) [of m2 p m1] mem_read_write_other [OF m2, of p 4] write_u32_same [OF m1] by simp
    show "mem_read m2 (p + 4) 4 = Inr (fourcc ''skip'')"
      using mem_read_write_same [OF m2] unfolding fourcc_skip_length .
    show "mem_read m2 q n = mem_read m q n" if "q + n \<le> p \<or> p + 8 \<le> q" for q n
      using that mem_read_write_other [OF m2, of q n] write_u32_other [OF m1, of q n] by auto
  qed
qed

section \<open>Setters\<close>

text \<open>\<open>untouched_outside m m' p n\<close>: the \<open>n\<close> bytes at \<open>p\<close> are the only ones in which \<open>m'\<close> may differ
  from \<open>m\<close>.\<close>

definition untouched_outside :: "mem \<Rightarrow> mem \<Rightarrow> nat \<Rightarrow> nat \<Rightarrow> bool" where
  "untouched_outside m m' p n \<longleftrightarrow>
     length m' = length m \<and> take p m' = take p m \<and> drop (p + n) m' = drop (p + n) m"

lemma mem_write_untouched_outside:
  "mem_write m p bs = Inr m' \<Longrightarrow> untouched_outside m m' p (length bs)"
  by (auto simp: mem_write_def untouched_outside_def split: if_splits)

lemma write_u32_untouched: "write_u32 m p v = Inr m' \<Longrightarrow> untouched_outside m m' p 4"
  using mem_write_untouched_outside [of m p "u32_be v"] by (simp add: write_u32_def)

lemma write_u64_untouched: "write_u64 m p v = Inr m' \<Longrightarrow> untouched_outside m m' p 8"
  using mem_write_untouched_outside [of m p "u64_be v"] by (simp add: write_u64_def)

lemma ucast_u64_u32_u64: "unat (x :: u64) < 2 ^ 32 \<Longrightarrow> ucast (ucast x :: u32) = x"
  by (simp add: word_unat_eq_iff unsigned_ucast_eq unsigned_take_bit_eq take_bit_nat_eq_self less_trans [of _ "2 ^ 32" "2 ^ 64"])

lemma tfdt_cases:
  assumes "constructTfdtBox sz m p = Inr (Box h (Tfdt b))"
  shows "baseMDT_loc b = Some (p + 4)" and "read_u8 m p = Inr (full_version b)"
    and "read_flags m (p + 1) = Inr (full_flags b)" and "h = new_header sz (fourcc ''tfdt'')"
    and "if full_version b = 1 then read_u64 m (p + 4) = Inr (baseMDT b)
      else \<exists>x. read_u32 m (p + 4) = Inr x \<and> baseMDT b = ucast x"
  using assms by (auto simp: constructTfdtBox_def bindE_eq_Inr split: if_splits)

text \<open>Restamping a fragment: when a \<open>tfdt\<close> box was parsed at \<open>p\<close>, \<open>setBaseMDT\<close> always succeeds, it
  changes at most the eight (version 1) or four bytes of the field, and parsing the box again gives
  the same box with the new base media decode time, reduced to 32 bits where the field has only 32.\<close>

theorem tfdt_setBaseMDT_roundtrip:
  assumes box: "constructTfdtBox sz m p = Inr (Box h (Tfdt b))"
  shows "\<exists>m'. tfdt_setBaseMDT b mdt m = Inr (b\<lparr>baseMDT := mdt\<rparr>, m')
     \<and> untouched_outside m m' (p + 4) (if full_version b = 1 then 8 else 4)
     \<and> constructTfdtBox sz m' p = Inr (Box h (Tfdt (b\<lparr>baseMDT :=
           if full_version b = 1 then mdt else ucast (ucast mdt :: u32)\<rparr>)))"
proof (cases "full_version b = 1")
  case True
  note c = tfdt_cases [OF box]
  have "read_u64 m (p + 4) = Inr (baseMDT b)" using c(5) True by simp
  then obtain m' where w: "write_u64 m (p + 4) mdt = Inr m'"
    using write_u64_ok [of "p + 4" m mdt] read_u64_ok by blast
  have "read_u8 m' p = read_u8 m p" "read_flags m' (p + 1) = read_flags m (p + 1)"
    by (rule readers_cong, rule write_u64_other [OF w], simp)+
  moreover have "read_u64 m' (p + 4) = Inr mdt" using w by (rule write_u64_same)
  ultimately have "constructTfdtBox sz m' p = Inr (Box h (Tfdt (b\<lparr>baseMDT := mdt\<rparr>)))"
    using c True by (simp add: constructTfdtBox_def)
  then show ?thesis using True c(1) w write_u64_untouched [OF w] by (simp add: tfdt_setBaseMDT_def)
next
  case False
  note c = tfdt_cases [OF box]
  obtain x where "read_u32 m (p + 4) = Inr x" using c(5) False by auto
  then obtain m' where w: "write_u32 m (p + 4) (ucast mdt) = Inr m'"
    using write_u32_ok [of "p + 4" m "ucast mdt"] read_u32_ok by blast
  have "read_u8 m' p = read_u8 m p" "read_flags m' (p + 1) = read_flags m (p + 1)"
    by (rule readers_cong, rule write_u32_other [OF w], simp)+
  moreover have "read_u32 m' (p + 4) = Inr (ucast mdt)" using w by (rule write_u32_same)
  ultimately have "constructTfdtBox sz m' p
      = Inr (Box h (Tfdt (b\<lparr>baseMDT := ucast (ucast mdt :: u32)\<rparr>)))"
    using c False by (simp add: constructTfdtBox_def)
  then show ?thesis using False c(1) w write_u32_untouched [OF w] by (simp add: tfdt_setBaseMDT_def)
qed

definition sample_tfdt :: mem where
  "sample_tfdt = [0, 0, 0, 20] @ fourcc ''tfdt'' @ [1, 0, 0, 0] @ u64_be 77"

theorem tfdt_setBaseMDT_roundtrip_witness:
  "\<exists>b m'. constructTfdtBox 20 sample_tfdt 8 = Inr (Box (new_header 20 (fourcc ''tfdt'')) (Tfdt b))
     \<and> tfdt_setBaseMDT b 99 sample_tfdt = Inr (b\<lparr>baseMDT := 99\<rparr>, m')
     \<and> constructTfdtBox 20 m' 8 = Inr (Box (new_header 20 (fourcc ''tfdt'')) (Tfdt (b\<lparr>baseMDT := 99\<rparr>)))"
proof -
  let ?b = "\<lparr>full_version = 1, full_flags = be_u32 [0, 0, 0, 0], baseMDT = 77, baseMDT_loc = Some 12\<rparr> :: tfdt_box"
  have "constructTfdtBox 20 sample_tfdt 8 = Inr (Box (new_header 20 (fourcc ''tfdt'')) (Tfdt ?b))"
    by (simp add: constructTfdtBox_def read_u8_def read_flags_def read_u64_def mem_read_def sample_tfdt_def
        fourcc_def)
  with tfdt_setBaseMDT_roundtrip [OF this, of 99] show ?thesis by auto
qed

section \<open>Truncation\<close>

text \<open>The box at \<open>p\<close> with size \<open>old\<close> was cut to size \<open>new\<close>, and a skip box fills the rest exactly.\<close>

definition skip_fills :: "mem \<Rightarrow> nat \<Rightarrow> u32 \<Rightarrow> u32 \<Rightarrow> bool" where
  "skip_fills m p new old \<longleftrightarrow>
     read_u32 m p = Inr new \<and> read_u32 m (p + unat new) = Inr (old - new)
     \<and> mem_read m (p + unat new + 4) 4 = Inr (fourcc ''skip'')"

lemma cut_with_skip:
  assumes room: "p + unat old \<le> length m" and new: "8 \<le> unat new" "unat new + 8 \<le> unat old"
    and sz: "write_u32 m p new = Inr m1"
  obtains m2 where "write_skip_box m1 (p + unat new) (old - new) = Inr m2" "length m2 = length m"
    "skip_fills m2 p new old"
    "\<And>q n. p + 4 \<le> q \<Longrightarrow> q + n \<le> p + unat new \<Longrightarrow> mem_read m2 q n = mem_read m q n"
    "\<And>q n. q + n \<le> p \<or> p + unat new + 8 \<le> q \<Longrightarrow> mem_read m2 q n = mem_read m q n"
proof -
  have len1: "length m1 = length m" using sz by (rule write_u32_length)
  obtain m2 where m2: "write_skip_box m1 (p + unat new) (old - new) = Inr m2" "length m2 = length m1"
    "read_u32 m2 (p + unat new) = Inr (old - new)" "mem_read m2 (p + unat new + 4) 4 = Inr (fourcc ''skip'')"
    "\<And>q n. q + n \<le> p + unat new \<or> p + unat new + 8 \<le> q \<Longrightarrow> mem_read m2 q n = mem_read m1 q n"
    using write_skip_box_spec [of "p + unat new" m1 "old - new"] room new len1 by auto
  show thesis
  proof (rule that [OF m2(1)])
    show "length m2 = length m" using m2(2) len1 by simp
    show "skip_fills m2 p new old"
      using m2(3,4) readers_cong(3) [OF m2(5) [of p 4]] write_u32_same [OF sz] new
      by (simp add: skip_fills_def)
    show "mem_read m2 q n = mem_read m q n" if "p + 4 \<le> q" "q + n \<le> p + unat new" for q n
      using that m2(5) [of q n] write_u32_other [OF sz, of q n] by simp
    show "mem_read m2 q n = mem_read m q n" if "q + n \<le> p \<or> p + unat new + 8 \<le> q" for q n
      using that m2(5) [of q n] write_u32_other [OF sz, of q n] by auto
  qed
qed

text \<open>A run whose size accounts for all of its samples: the sizes do not wrap.\<close>

definition trun_extent :: "box_header \<Rightarrow> trun_box \<Rightarrow> nat \<Rightarrow> mem \<Rightarrow> bool" where
  "trun_extent h b p m \<longleftrightarrow>
     box_base h = Some p \<and> sample_count_loc b = p + 12 \<and> p + unat (box_size h) \<le> length m
     \<and> 16 + unat (sample_count b) * unat (bytes_per_sample (full_flags b)) \<le> unat (box_size h)"

lemma unat_mult_no_wrap: "unat (a :: u32) * unat b < 2 ^ 32 \<Longrightarrow> unat (a * b) = unat a * unat b"
  by (simp add: unat_mult_lem [THEN iffD1])

lemma unat_bytes_per_sample_le: "unat (bytes_per_sample f) \<le> 16"
  by (simp add: bytes_per_sample_def)

definition truncated_size :: "box_header \<Rightarrow> trun_box \<Rightarrow> u32" where
  "truncated_size h b = box_size h - sample_count b * bytes_per_sample (full_flags b)
     + bytes_per_sample (full_flags b)"

lemma truncated_size_unat:
  assumes "trun_extent h b p m" and "1 < sample_count b"
  defines "w \<equiv> bytes_per_sample (full_flags b)"
  shows "unat (truncated_size h b) = unat (box_size h) - (unat (sample_count b) - 1) * unat w"
    and "unat (box_size h - truncated_size h b) = (unat (sample_count b) - 1) * unat w"
    and "box_size h - truncated_size h b = sample_count b * w - w"
proof -
  let ?n = "unat (sample_count b)" and ?S = "unat (box_size h)"
  have ext: "16 + ?n * unat w \<le> ?S" using assms(1) by (simp add: trun_extent_def w_def)
  have S: "?S < 2 ^ 32" using unsigned_less [of "box_size h", where ?'a = nat] by simp
  have n: "1 < ?n" using assms(2) by (simp add: word_less_nat_alt)
  have tab: "unat (sample_count b * w) = ?n * unat w"
    by (rule unat_mult_no_wrap) (use ext S in linarith)
  have rest: "(?n - 1) * unat w + unat w = ?n * unat w"
    using n by (cases ?n) simp_all
  have "sample_count b * w \<le> box_size h" using ext tab by (simp add: word_le_nat_alt)
  then have u1: "unat (box_size h - sample_count b * w) = ?S - ?n * unat w"
    using unat_sub tab by metis
  have "unat (truncated_size h b) = ?S - ?n * unat w + unat w"
    unfolding truncated_size_def w_def [symmetric]
    by (subst unat_add_lem [THEN iffD1]) (use u1 ext S rest in simp_all)
  then show t: "unat (truncated_size h b) = ?S - (?n - 1) * unat w" using rest ext by simp
  show d: "box_size h - truncated_size h b = sample_count b * w - w"
    by (simp add: truncated_size_def w_def)
  have "unat w \<le> ?n * unat w" using rest by linarith
  then have "w \<le> sample_count b * w" unfolding word_le_nat_alt tab .
  then show "unat (box_size h - truncated_size h b) = (?n - 1) * unat w"
    using d tab rest unat_sub [of w "sample_count b * w"] by simp
qed

text \<open>C32: \<open>TrunIsoBmffBox::truncate\<close> on a run of several samples whose size accounts for them: when the
  samples after the first occupy at least eight bytes, the call succeeds, the box shrinks by exactly
  their bytes, a skip box of that size follows it, so that both together still cover the old box, the
  sample count in the segment and in the object is one, the header, flags and first sample are
  unchanged, and so is everything before the box.\<close>

theorem trun_truncate_spec:
  assumes ext: "trun_extent h b p m" and many: "1 < sample_count b"
    and rest: "8 \<le> (unat (sample_count b) - 1) * unat (bytes_per_sample (full_flags b))"
  shows "\<exists>m'. trun_truncate h b m = Inr (h\<lparr>box_size := truncated_size h b\<rparr>, b\<lparr>sample_count := 1\<rparr>, m')
     \<and> length m' = length m \<and> skip_fills m' p (truncated_size h b) (box_size h)
     \<and> unat (box_size h - truncated_size h b)
         = (unat (sample_count b) - 1) * unat (bytes_per_sample (full_flags b))
     \<and> read_u32 m' (p + 12) = Inr 1
     \<and> mem_read m' (p + 4) 8 = mem_read m (p + 4) 8
     \<and> mem_read m' (p + 16) (unat (truncated_size h b) - 16)
         = mem_read m (p + 16) (unat (truncated_size h b) - 16)
     \<and> mem_read m' 0 p = mem_read m 0 p"
proof -
  let ?w = "bytes_per_sample (full_flags b)" and ?n = "unat (sample_count b)"
  let ?T = "truncated_size h b"
  note sz = truncated_size_unat [OF ext many]
  have base: "box_base h = Some p" and loc: "sample_count_loc b = p + 12"
    and fits: "p + unat (box_size h) \<le> length m" and all: "16 + ?n * unat ?w \<le> unat (box_size h)"
    using ext by (auto simp: trun_extent_def)
  have n1: "1 < ?n" using many by (simp add: word_less_nat_alt)
  then have "(?n - 1) * unat ?w + unat ?w = ?n * unat ?w" by (cases ?n) simp_all
  with all sz(1) rest have T: "16 \<le> unat ?T" "unat ?T + 8 \<le> unat (box_size h)" by linarith+
  obtain m1 where m1: "write_u32 m (p + 12) 1 = Inr m1"
    using write_u32_ok [of "p + 12" m 1] fits T by auto
  have len1: "length m1 = length m" using m1 by (rule write_u32_length)
  obtain m2 where m2: "write_u32 m1 p ?T = Inr m2"
    using write_u32_ok [of p m1 ?T] fits T len1 by auto
  obtain m3 where m3: "write_skip_box m2 (p + unat ?T) (box_size h - ?T) = Inr m3"
    "length m3 = length m1" "skip_fills m3 p ?T (box_size h)"
    "\<And>q n. p + 4 \<le> q \<Longrightarrow> q + n \<le> p + unat ?T \<Longrightarrow> mem_read m3 q n = mem_read m1 q n"
    "\<And>q n. q + n \<le> p \<or> p + unat ?T + 8 \<le> q \<Longrightarrow> mem_read m3 q n = mem_read m1 q n"
    using cut_with_skip [OF _ _ T(2) m2] fits T(1) len1 by auto
  have "8 \<le> box_size h - ?T" using sz(2) rest by (simp add: word_le_nat_alt)
  then have run: "trun_truncate h b m = Inr (h\<lparr>box_size := ?T\<rparr>, b\<lparr>sample_count := 1\<rparr>, m3)"
    using many base loc m1 m2 m3(1)
    by (simp add: trun_truncate_def setSize_def truncated_size_def [symmetric] sz(3) [symmetric])
  have "read_u32 m3 (p + 12) = Inr 1"
    using readers_cong(3) [OF m3(4) [of "p + 12" 4]] T(1) write_u32_same [OF m1] by simp
  moreover have "mem_read m3 (p + 4) 8 = mem_read m (p + 4) 8"
    using m3(4) [of "p + 4" 8] T(1) write_u32_other [OF m1, of "p + 4" 8] by simp
  moreover have "mem_read m3 (p + 16) (unat ?T - 16) = mem_read m (p + 16) (unat ?T - 16)"
    using m3(4) [of "p + 16" "unat ?T - 16"] T(1) write_u32_other [OF m1, of "p + 16" "unat ?T - 16"] by simp
  moreover have "mem_read m3 0 p = mem_read m 0 p"
    using m3(5) [of 0 p] write_u32_other [OF m1, of 0 p] by simp
  ultimately show ?thesis using run m3(2,3) len1 sz(2) by auto
qed

definition sample_trun :: trun_box where
  "sample_trun = \<lparr>full_version = 0, full_flags = 0x300, trun_duration = 30, sample_count = 3,
     sample_count_loc = 12, first_sample_duration_loc = Some 16, mFirstSampleSize = 5\<rparr>"

definition sample_trun_header :: box_header where
  "sample_trun_header = \<lparr>box_base = Some 0, box_offset = 0, box_size = 40, box_type = fourcc ''trun''\<rparr>"

theorem trun_truncate_spec_witness:
  "\<exists>m'. trun_truncate sample_trun_header sample_trun (replicate 40 0)
       = Inr (sample_trun_header\<lparr>box_size := 24\<rparr>, sample_trun\<lparr>sample_count := 1\<rparr>, m')
     \<and> skip_fills m' 0 24 40"
proof -
  have f: "has_flag 0x300 TRUN_SAMPLE_DURATION" "has_flag 0x300 TRUN_SAMPLE_SIZE"
    "\<not> has_flag 0x300 TRUN_SAMPLE_FLAGS" "\<not> has_flag 0x300 TRUN_SAMPLE_CTO"
    by (simp_all add: has_flag_def TRUN_SAMPLE_DURATION_def TRUN_SAMPLE_SIZE_def TRUN_SAMPLE_FLAGS_def
        TRUN_SAMPLE_CTO_def)
  have w: "bytes_per_sample (full_flags sample_trun) = 8"
    using f by (simp add: bytes_per_sample_def sample_trun_def)
  have T: "truncated_size sample_trun_header sample_trun = 24"
    by (simp add: truncated_size_def w) (simp add: sample_trun_def sample_trun_header_def)
  have "trun_extent sample_trun_header sample_trun 0 (replicate 40 0)"
    by (simp add: trun_extent_def w) (simp add: sample_trun_def sample_trun_header_def)
  from trun_truncate_spec [OF this] show ?thesis
    unfolding T w by (auto simp: sample_trun_def sample_trun_header_def)
qed

text \<open>\<open>SencIsoBmffBox::truncate\<close> on a table of several entries: when the first entry ends inside the
  box with at least eight bytes left, the call succeeds, the box is cut right after the first entry,
  a skip box fills the rest exactly, and the entry count in the segment and the object is one.\<close>

theorem senc_truncate_spec:
  assumes base: "box_base h = Some p" and loc: "senc_sampleCountLoc b = p + 12"
    and many: "1 < senc_numSamples b" and first: "0 < firstSampleSize"
    and room: "16 + unat firstSampleSize + 8 \<le> unat (box_size h)"
    and fits: "p + unat (box_size h) \<le> length m"
  shows "\<exists>m'. senc_truncate h b firstSampleSize m = Inr (b\<lparr>senc_numSamples := 1\<rparr>, m')
     \<and> length m' = length m \<and> skip_fills m' p (16 + firstSampleSize) (box_size h)
     \<and> unat (16 + firstSampleSize) = 16 + unat firstSampleSize
     \<and> read_u32 m' (p + 12) = Inr 1
     \<and> mem_read m' (p + 16) (unat firstSampleSize) = mem_read m (p + 16) (unat firstSampleSize)"
proof -
  let ?k = "unat firstSampleSize" and ?S = "unat (box_size h)"
  have S: "?S < 2 ^ 32" using unsigned_less [of "box_size h", where ?'a = nat] by simp
  have new: "word_of_nat (16 + ?k) = 16 + firstSampleSize" by simp
  have N: "unat (16 + firstSampleSize) = 16 + ?k"
    by (subst unat_add_lem [THEN iffD1]) (use S room in simp_all)
  have nend: "p + 12 + 4 + ?k - p = 16 + ?k" "p + 12 + 4 + ?k = p + unat (16 + firstSampleSize)" using N by simp_all
  have le: "16 + firstSampleSize \<le> box_size h" using N room by (simp add: word_le_nat_alt)
  have big: "8 \<le> box_size h - (16 + firstSampleSize)"
    unfolding word_le_nat_alt unat_sub [OF le] N using room by simp
  obtain m1 where m1: "write_u32 m p (16 + firstSampleSize) = Inr m1"
    using write_u32_ok [of p m "16 + firstSampleSize"] fits room by auto
  obtain m2 where m2: "write_skip_box m1 (p + unat (16 + firstSampleSize)) (box_size h - (16 + firstSampleSize)) = Inr m2"
    "length m2 = length m" "skip_fills m2 p (16 + firstSampleSize) (box_size h)"
    "\<And>q n. p + 4 \<le> q \<Longrightarrow> q + n \<le> p + unat (16 + firstSampleSize) \<Longrightarrow> mem_read m2 q n = mem_read m q n"
    by (rule cut_with_skip [OF fits _ _ m1]) (use N room in auto)
  obtain m3 where m3: "write_u32 m2 (p + 12) 1 = Inr m3"
    using write_u32_ok [of "p + 12" m2 1] fits room m2(2) by auto
  have run: "senc_truncate h b firstSampleSize m = Inr (b\<lparr>senc_numSamples := 1\<rparr>, m3)"
    unfolding senc_truncate_def base loc option.case Let_def nend new
    using many word_gt_0 [THEN iffD1, OF first] big m1 m2(1) m3 loc by simp
  have "skip_fills m3 p (16 + firstSampleSize) (box_size h)"
    using m2(3) N unfolding skip_fills_def
    by (simp add: readers_cong(3) [OF write_u32_other [OF m3]] write_u32_other [OF m3])
  moreover have "mem_read m3 (p + 16) ?k = mem_read m (p + 16) ?k"
    using write_u32_other [OF m3, of "p + 16" ?k] m2(4) [of "p + 16" ?k] N by simp
  ultimately show ?thesis using run write_u32_same [OF m3] write_u32_length [OF m3] m2(2) N by auto
qed

theorem senc_truncate_spec_witness:
  "\<exists>m'. senc_truncate \<lparr>box_base = Some 0, box_offset = 0, box_size = 48, box_type = fourcc ''senc''\<rparr>
      \<lparr>full_version = 0, full_flags = 0, senc_sampleCountLoc = 12, senc_numSamples = 4\<rparr> 8 (replicate 48 0)
    = Inr (\<lparr>full_version = 0, full_flags = 0, senc_sampleCountLoc = 12, senc_numSamples = 1\<rparr>, m')
    \<and> skip_fills m' 0 24 48"
  using senc_truncate_spec [of "\<lparr>box_base = Some 0, box_offset = 0, box_size = 48, box_type = fourcc ''senc''\<rparr>"
      0 "\<lparr>full_version = 0, full_flags = 0, senc_sampleCountLoc = 12, senc_numSamples = 4\<rparr>" 8 "replicate 48 0"]
  by auto

text \<open>\<open>SaizIsoBmffBox::truncate\<close> does not test for an empty table as the other two truncations do: on
  a \<open>saiz\<close> box with no samples it writes a size one byte too large into the box and plants a skip box
  that claims \<open>2\<^sup>3\<^sup>2 - 1\<close> bytes one byte behind the end of the box, over whatever follows it.\<close>

theorem saiz_truncate_empty_table:
  assumes base: "box_base h = Some p" and loc: "saiz_sampleCountLoc b + 4 \<le> p + unat (box_size h)"
    and none: "saiz_numSamples b = 0" and low: "p + 4 \<le> saiz_sampleCountLoc b"
    and size: "unat (box_size h) + 1 < 2 ^ 32" and fits: "p + unat (box_size h) + 9 \<le> length m"
  shows "\<exists>m'. saiz_truncate h b m = Inr (b\<lparr>saiz_numSamples := 1\<rparr>, m')
     \<and> read_u32 m' p = Inr (box_size h + 1)
     \<and> read_u32 m' (p + unat (box_size h) + 1) = Inr (- 1)
     \<and> mem_read m' (p + unat (box_size h) + 5) 4 = Inr (fourcc ''skip'')"
proof -
  let ?N = "box_size h + 1"
  have N: "unat ?N = unat (box_size h) + 1"
    by (subst unat_add_lem [THEN iffD1]) (use size in simp_all)
  have new: "box_size h - (0 - 1) = ?N" "box_size h - ?N = - 1" by simp_all
  have big: "(8 :: u32) \<le> - 1" by (rule word_order.extremum)
  obtain m1 where m1: "write_u32 m p ?N = Inr m1" using write_u32_ok [of p m ?N] fits by auto
  have len1: "length m1 = length m" using m1 by (rule write_u32_length)
  obtain m2 where m2: "write_skip_box m1 (p + unat ?N) (- 1) = Inr m2" "length m2 = length m1"
    "read_u32 m2 (p + unat ?N) = Inr (- 1)" "mem_read m2 (p + unat ?N + 4) 4 = Inr (fourcc ''skip'')"
    "\<And>q n. q + n \<le> p + unat ?N \<or> p + unat ?N + 8 \<le> q \<Longrightarrow> mem_read m2 q n = mem_read m1 q n"
    using write_skip_box_spec [of "p + unat ?N" m1 "- 1"] fits len1 N by auto
  obtain m3 where m3: "write_u32 m2 (saiz_sampleCountLoc b) 1 = Inr m3"
    using write_u32_ok [of "saiz_sampleCountLoc b" m2 1] fits loc m2(2) len1 by auto
  have run: "saiz_truncate h b m = Inr (b\<lparr>saiz_numSamples := 1\<rparr>, m3)"
    unfolding saiz_truncate_def Let_def none new using base big m1 m2(1) m3 by simp
  have "read_u32 m3 p = read_u32 m1 p"
    using readers_cong(3) [OF write_u32_other [OF m3, of p 4]] readers_cong(3) [OF m2(5) [of p 4]] low loc N
    by simp
  then have "read_u32 m3 p = Inr ?N" using write_u32_same [OF m1] by simp
  moreover have "read_u32 m3 (p + unat ?N) = Inr (- 1)"
    using readers_cong(3) [OF write_u32_other [OF m3, of "p + unat ?N" 4]] m2(3) loc N by simp
  moreover have "mem_read m3 (p + unat ?N + 4) 4 = Inr (fourcc ''skip'')"
    using write_u32_other [OF m3, of "p + unat ?N + 4" 4] m2(4) loc N by simp
  ultimately show ?thesis using run N by (auto simp: ac_simps)
qed

theorem saiz_truncate_empty_table_witness:
  "\<exists>m'. saiz_truncate \<lparr>box_base = Some 0, box_offset = 0, box_size = 17, box_type = fourcc ''saiz''\<rparr>
      \<lparr>full_version = 0, full_flags = 0, saiz_sampleCountLoc = 13, saiz_numSamples = 0, firstSampleInfoSize = 0\<rparr>
      (replicate 40 0)
    = Inr (\<lparr>full_version = 0, full_flags = 0, saiz_sampleCountLoc = 13, saiz_numSamples = 1, firstSampleInfoSize = 0\<rparr>, m')
    \<and> read_u32 m' 18 = Inr (- 1)"
  using saiz_truncate_empty_table [of "\<lparr>box_base = Some 0, box_offset = 0, box_size = 17, box_type = fourcc ''saiz''\<rparr>"
      0 "\<lparr>full_version = 0, full_flags = 0, saiz_sampleCountLoc = 13, saiz_numSamples = 0, firstSampleInfoSize = 0\<rparr>"
      "replicate 40 0"]
  by auto

section \<open>The duration of a run\<close>

text \<open>The specification of the sample loop: sample \<open>i\<close> lies \<open>i\<close> strides behind the first, and its
  duration, when present, is its first field.\<close>

definition sample_stride :: "u32 \<Rightarrow> nat" where
  "sample_stride f = unat (bytes_per_sample f)"

definition sample_duration_at :: "mem \<Rightarrow> nat \<Rightarrow> u64" where
  "sample_duration_at m p = ucast (be_u32 (take 4 (drop p m)))"

lemma sample_stride_eq:
  "sample_stride f = (if has_flag f TRUN_SAMPLE_DURATION then 4 else 0) + (if has_flag f TRUN_SAMPLE_SIZE then 4 else 0)
     + (if has_flag f TRUN_SAMPLE_FLAGS then 4 else 0) + (if has_flag f TRUN_SAMPLE_CTO then 4 else 0)"
  by (simp add: sample_stride_def bytes_per_sample_def)

lemma read_u32_in: "p + 4 \<le> length m \<Longrightarrow> read_u32 m p = Inr (be_u32 (take 4 (drop p m)))"
  by (simp add: read_u32_def mem_read_def)

lemma trun_samples_sum:
  assumes "has_flag f TRUN_SAMPLE_DURATION" and "ptr + n * sample_stride f \<le> length m"
  shows "\<exists>l s. trun_samples m f n b ptr tot loc fsize
     = Inr (tot + (\<Sum>i<n. sample_duration_at m (ptr + i * sample_stride f)), l, s)
     \<and> (l = (if b \<and> 0 < n then Some ptr else loc))"
  using assms(2)
proof (induction n arbitrary: b ptr tot loc fsize)
  case (Suc n)
  let ?d = "sample_duration_at m"
  have st: "4 \<le> sample_stride f" using assms(1) by (simp add: sample_stride_eq)
  have in1: "ptr + sample_stride f + n * sample_stride f \<le> length m" using Suc.prems by simp
  define next_ptr where "next_ptr = ptr + sample_stride f"
  have sum: "(\<Sum>i<Suc n. ?d (ptr + i * sample_stride f))
      = ?d ptr + (\<Sum>i<n. ?d (next_ptr + i * sample_stride f))"
    unfolding sum.lessThan_Suc_shift next_ptr_def by (simp add: add.assoc)
  let ?s = "if has_flag f TRUN_SAMPLE_SIZE \<and> b then be_u32 (take 4 (drop (ptr + 4) m)) else fsize"
  have step: "trun_samples m f (Suc n) b ptr tot loc fsize
      = trun_samples m f n False next_ptr (tot + ?d ptr) (if b then Some ptr else loc) ?s"
    using assms(1) in1 st
    by (cases "has_flag f TRUN_SAMPLE_SIZE")
      (simp_all add: read_u32_in sample_duration_at_def next_ptr_def sample_stride_eq Let_def add.assoc)
  obtain l s' where rest: "trun_samples m f n False next_ptr (tot + ?d ptr) (if b then Some ptr else loc) ?s
      = Inr (tot + ?d ptr + (\<Sum>i<n. ?d (next_ptr + i * sample_stride f)), l, s')"
    "l = (if False \<and> 0 < n then Some next_ptr else if b then Some ptr else loc)"
    using Suc.IH [of next_ptr False "tot + ?d ptr" "if b then Some ptr else loc" ?s] in1
    by (auto simp: next_ptr_def)
  show ?case using rest unfolding step sum by (simp add: add.assoc)
qed simp

definition trun_table :: "u32 \<Rightarrow> nat \<Rightarrow> nat" where
  "trun_table f ptr = ptr + 8 + (if has_flag f TRUN_DATA_OFFSET then 4 else 0)
     + (if has_flag f TRUN_FIRST_SAMPLE_FLAGS then 4 else 0)"

text \<open>A run with per-sample durations that lies inside the segment parses without a fault; its
  duration is the sum, modulo \<open>2\<^sup>6\<^sup>4\<close>, of the durations of all of its samples, read one stride apart from
  behind the optional fields, and the location of the first duration is the start of the table.\<close>

theorem constructTrunBox_duration:
  assumes hd: "read_u8 m p = Inr v" "read_flags m (p + 1) = Inr f" "read_u32 m (p + 4) = Inr count"
    and dur: "has_flag f TRUN_SAMPLE_DURATION"
    and fits: "trun_table f p + unat count * sample_stride f \<le> length m"
  shows "\<exists>b. constructTrunBox sz m p = Inr (Box (based_header sz (fourcc ''trun'') p) (Trun b))
     \<and> trun_duration b = (\<Sum>i<unat count. sample_duration_at m (trun_table f p + i * sample_stride f))
     \<and> sample_count b = count
     \<and> first_sample_duration_loc b = (if count = 0 then None else Some (trun_table f p))"
  using trun_samples_sum [OF dur fits, of True 0 None 0] hd
  by (auto simp: constructTrunBox_def trun_table_def unat_gt_0 word_neq_0_conv [symmetric])

definition sample_run :: mem where
  "sample_run = [0, 0, 1, 0] @ u32_be 2 @ u32_be 5 @ u32_be 7"

theorem constructTrunBox_duration_witness:
  "\<exists>b. constructTrunBox 24 sample_run 0 = Inr (Box (based_header 24 (fourcc ''trun'') 0) (Trun b))
     \<and> trun_duration b = 12"
proof -
  have f: "be_u32 [0, 0, 1, 0] = 0x100" by (simp add: be_u32_def)
  have fl: "has_flag 0x100 TRUN_SAMPLE_DURATION" "\<not> has_flag 0x100 TRUN_SAMPLE_SIZE"
    "\<not> has_flag 0x100 TRUN_SAMPLE_FLAGS" "\<not> has_flag 0x100 TRUN_SAMPLE_CTO"
    "\<not> has_flag 0x100 TRUN_DATA_OFFSET" "\<not> has_flag 0x100 TRUN_FIRST_SAMPLE_FLAGS"
    by (simp_all add: has_flag_def TRUN_SAMPLE_DURATION_def TRUN_SAMPLE_SIZE_def TRUN_SAMPLE_FLAGS_def
        TRUN_SAMPLE_CTO_def TRUN_DATA_OFFSET_def TRUN_FIRST_SAMPLE_FLAGS_def)
  have "take 3 (drop 1 sample_run) = [0, 1, 0]" "take 4 (drop 4 sample_run) = u32_be 2"
    by (simp_all add: sample_run_def u32_be_def)
  then have hd: "read_u8 sample_run 0 = Inr 0" "read_flags sample_run (0 + 1) = Inr 0x100"
    "read_u32 sample_run (0 + 4) = Inr 2"
    using f by (simp_all add: read_u8_def read_flags_def read_u32_def mem_read_def) (simp_all add: sample_run_def)
  have st: "sample_stride 0x100 = 4" "trun_table 0x100 0 = 8"
    using fl by (simp_all add: sample_stride_eq trun_table_def)
  have d: "sample_duration_at sample_run 8 = 5" "sample_duration_at sample_run 12 = 7"
    by (simp_all add: sample_duration_at_def sample_run_def)
  have u2: "unat (2 :: u32) = 2" by simp
  have idx: "{..<2 :: nat} = {0, 1}" by auto
  have "trun_table 0x100 0 + unat (2 :: u32) * sample_stride 0x100 \<le> length sample_run"
    unfolding u2 st by (simp add: sample_run_def)
  from constructTrunBox_duration [OF hd fl(1) this, of 24] show ?thesis
    unfolding st u2 idx using d by auto
qed

end
