(* ===== verification/Mp4_Demux.thy ===== *)
theory Mp4_Demux
  imports Isobmff_Box
begin

text \<open>
  The demultiplexer of \<^verbatim>\<open>mp4demux/mp4demux.hpp\<close> (class \<^verbatim>\<open>Mp4Demux\<close>) and the restamping function of
  \<^verbatim>\<open>mp4demux/mp4demux.cpp\<close>. The members of the class are a record that the parsing methods pass on; the
  segment is a constant memory, and \<^verbatim>\<open>ptr\<close>, \<^verbatim>\<open>moof_ptr\<close> are offsets into it. The record's fields have the
  prefix \<open>md\<close>, those of \<^verbatim>\<open>InitializationHeaderInfo\<close> the prefix \<open>ih\<close>.

  Times in seconds are kept as the numerator and denominator of the division that the code does in
  floating point; rounding is not modelled. A failed \<^verbatim>\<open>assert\<close> is the fault \<open>AssertFail\<close>. Whether
  \<^verbatim>\<open>malloc\<close> returns a block for a size is the parameter \<open>mallocOk\<close>. Members that the constructor leaves
  unset start with any value: the constructor takes the record they come from.
\<close>

section \<open>Data\<close>

definition MultiChar_Constant :: "string \<Rightarrow> u32" where
  "MultiChar_Constant s = be_u32 (fourcc s)"

datatype seconds = ZeroSeconds | Quotient u64 u32

record mp4_sample =
  sample_ptr :: int
  sample_len :: u64
  sample_pts :: seconds
  sample_dts :: seconds
  sample_duration :: seconds

record init_header_info =
  ih_channel_count :: u16
  ih_samplesize :: u16
  ih_samplerate :: u16
  ih_object_type_id :: byte
  ih_stream_type :: byte
  ih_upStream :: byte
  ih_buffer_size :: u16
  ih_maxBitrate :: u32
  ih_avgBitrate :: u32
  ih_width :: u16
  ih_height :: u16
  ih_frame_count :: u16
  ih_depth :: u16
  ih_horizresolution :: u32
  ih_vertresolution :: u32
  ih_stream_format :: u32
  ih_data_reference_index :: u32
  ih_codec_type :: u32
  ih_codec_data_len :: nat
  ih_codec_data :: "byte list option"

record mp4_demux =
  md_timescale :: u32
  md_info :: init_header_info
  md_samples :: "mp4_sample list"
  md_moof_ptr :: "nat option"
  md_ptr :: nat
  md_version :: byte
  md_flags :: u32
  md_baseMediaDecodeTime :: u64
  md_fragment_duration :: u32
  md_track_id :: u32
  md_base_data_offset :: u64
  md_default_sample_description_index :: u32
  md_default_sample_duration :: u32
  md_default_sample_size :: u32
  md_default_sample_flags :: u32
  md_creation_time :: u64
  md_modification_time :: u64
  md_duration :: u32
  md_rate :: u32
  md_volume :: u32
  md_matrix :: "u32 list"
  md_width :: u32
  md_height :: u32
  md_language :: u16

section \<open>Reading\<close>

definition ReadBytes :: "mem \<Rightarrow> nat \<Rightarrow> mp4_demux \<Rightarrow> (u64 \<times> mp4_demux) res" where
  "ReadBytes m n s =
     bindE (mem_read m (md_ptr s) n) (\<lambda>bs. Inr (read_bytes bs, s\<lparr>md_ptr := md_ptr s + n\<rparr>))"

definition ReadU8 :: "mem \<Rightarrow> mp4_demux \<Rightarrow> (byte \<times> mp4_demux) res" where
  "ReadU8 m s = bindE (read_u8 m (md_ptr s)) (\<lambda>b. Inr (b, s\<lparr>md_ptr := md_ptr s + 1\<rparr>))"

definition ReadU16 :: "mem \<Rightarrow> mp4_demux \<Rightarrow> (u16 \<times> mp4_demux) res" where
  "ReadU16 m s = bindE (ReadBytes m 2 s) (\<lambda>(v, s'). Inr (ucast v, s'))"

definition ReadU32 :: "mem \<Rightarrow> mp4_demux \<Rightarrow> (u32 \<times> mp4_demux) res" where
  "ReadU32 m s = bindE (ReadBytes m 4 s) (\<lambda>(v, s'). Inr (ucast v, s'))"

definition ReadU64 :: "mem \<Rightarrow> mp4_demux \<Rightarrow> (u64 \<times> mp4_demux) res" where
  "ReadU64 m s = ReadBytes m 8 s"

definition SkipBytes :: "nat \<Rightarrow> mp4_demux \<Rightarrow> mp4_demux" where
  "SkipBytes n s = s\<lparr>md_ptr := md_ptr s + n\<rparr>"

definition ReadHeader :: "mem \<Rightarrow> mp4_demux \<Rightarrow> mp4_demux res" where
  "ReadHeader m s =
     bindE (ReadU8 m s) (\<lambda>(v, s1).
     bindE (ReadBytes m 3 (s1\<lparr>md_version := v\<rparr>)) (\<lambda>(f, s2). Inr (s2\<lparr>md_flags := ucast f\<rparr>)))"

text \<open>The width of the time fields of a versioned box.\<close>

definition time_width :: "mp4_demux \<Rightarrow> nat" where
  "time_width s = (if md_version s = 1 then 8 else 4)"

primrec read_matrix :: "mem \<Rightarrow> nat \<Rightarrow> mp4_demux \<Rightarrow> (u32 list \<times> mp4_demux) res" where
  "read_matrix m 0 s = Inr ([], s)"
| "read_matrix m (Suc n) s =
     bindE (ReadU32 m s) (\<lambda>(v, s1). bindE (read_matrix m n s1) (\<lambda>(vs, s2). Inr (v # vs, s2)))"

definition when_flag :: "u32 \<Rightarrow> (mp4_demux \<Rightarrow> mp4_demux res) \<Rightarrow> mp4_demux \<Rightarrow> mp4_demux res" where
  "when_flag f act s = (if has_flag (md_flags s) f then act s else Inr s)"

section \<open>The boxes of a fragment\<close>

definition parseMovieFragmentHeaderBox :: "mem \<Rightarrow> mp4_demux \<Rightarrow> mp4_demux res" where
  "parseMovieFragmentHeaderBox m s =
     bindE (ReadHeader m s) (\<lambda>s1. bindE (ReadU32 m s1) (\<lambda>(_, s2). Inr s2))"

definition parseTrackFragmentHeaderBox :: "mem \<Rightarrow> mp4_demux \<Rightarrow> mp4_demux res" where
  "parseTrackFragmentHeaderBox m s =
     bindE (ReadHeader m s) (\<lambda>s1.
     bindE (ReadU32 m s1) (\<lambda>(tid, s2).
     bindE (when_flag 0x00001 (\<lambda>s. bindE (ReadU64 m s) (\<lambda>(v, s'). Inr (s'\<lparr>md_base_data_offset := v\<rparr>)))
              (s2\<lparr>md_track_id := tid\<rparr>)) (\<lambda>s3.
     bindE (when_flag 0x00002 (\<lambda>s. bindE (ReadU32 m s) (\<lambda>(v, s').
              Inr (s'\<lparr>md_default_sample_description_index := v\<rparr>))) s3) (\<lambda>s4.
     bindE (when_flag 0x00008 (\<lambda>s. bindE (ReadU32 m s) (\<lambda>(v, s').
              Inr (s'\<lparr>md_default_sample_duration := v\<rparr>))) s4) (\<lambda>s5.
     bindE (when_flag 0x00010 (\<lambda>s. bindE (ReadU32 m s) (\<lambda>(v, s').
              Inr (s'\<lparr>md_default_sample_size := v\<rparr>))) s5) (\<lambda>s6.
     when_flag 0x00020 (\<lambda>s. bindE (ReadU32 m s) (\<lambda>(v, s').
              Inr (s'\<lparr>md_default_sample_flags := v\<rparr>))) s6))))))"

definition parseTrackFragmentBaseMediaDecodeTimeBox :: "mem \<Rightarrow> mp4_demux \<Rightarrow> mp4_demux res" where
  "parseTrackFragmentBaseMediaDecodeTimeBox m s =
     bindE (ReadHeader m s) (\<lambda>s1.
     bindE (ReadBytes m (time_width s1) s1) (\<lambda>(v, s2). Inr (s2\<lparr>md_baseMediaDecodeTime := v\<rparr>)))"

text \<open>One turn of the sample loop: the sample it appends, and the decode time and data pointer of the
  next one.\<close>

definition parse_sample ::
  "mem \<Rightarrow> u64 \<Rightarrow> int \<Rightarrow> mp4_demux \<Rightarrow> (u64 \<times> int \<times> mp4_demux) res" where
  "parse_sample m dts data_ptr s =
     bindE (if has_flag (md_flags s) 0x0100
            then bindE (ReadU32 m s) (\<lambda>(d, s'). Inr (d, Quotient (ucast d) (md_timescale s), s'))
            else Inr (md_default_sample_duration s, ZeroSeconds, s)) (\<lambda>(dur, dur_s, s1).
     bindE (if has_flag (md_flags s) 0x0200 then ReadU32 m s1
            else Inr (md_default_sample_size s, s1)) (\<lambda>(len, s2).
     bindE (if has_flag (md_flags s) 0x0400 then ReadU32 m s2 else Inr (0, s2)) (\<lambda>(_, s3).
     bindE (if has_flag (md_flags s) 0x0800 then ReadU32 m s3 else Inr (0, s3)) (\<lambda>(cto, s4).
     let sample = \<lparr>sample_ptr = data_ptr, sample_len = ucast len,
           sample_pts = Quotient (dts + scast cto) (md_timescale s),
           sample_dts = Quotient dts (md_timescale s), sample_duration = dur_s\<rparr>
     in Inr (dts + ucast dur, data_ptr + int (unat len),
             s4\<lparr>md_samples := md_samples s4 @ [sample]\<rparr>)))))"

primrec parse_samples :: "mem \<Rightarrow> nat \<Rightarrow> u64 \<Rightarrow> int \<Rightarrow> mp4_demux \<Rightarrow> mp4_demux res" where
  "parse_samples m 0 dts data_ptr s = Inr s"
| "parse_samples m (Suc n) dts data_ptr s =
     bindE (parse_sample m dts data_ptr s) (\<lambda>(dts', data_ptr', s'). parse_samples m n dts' data_ptr' s')"

definition parseTrackFragmentRunBox :: "mem \<Rightarrow> mp4_demux \<Rightarrow> mp4_demux res" where
  "parseTrackFragmentRunBox m s =
     bindE (ReadHeader m s) (\<lambda>s1.
     bindE (ReadU32 m s1) (\<lambda>(sample_count, s2).
     if \<not> has_flag (md_flags s2) 0x0001 then Inl AssertFail
     else
       bindE (ReadU32 m s2) (\<lambda>(data_offset, s3).
       case md_moof_ptr s3 of
         None \<Rightarrow> Inl NullDeref
       | Some moof \<Rightarrow>
           bindE (if has_flag (md_flags s3) 0x0004 then bindE (ReadU32 m s3) (\<lambda>(_, s'). Inr s')
                  else Inr s3) (\<lambda>s4.
           parse_samples m (unat sample_count) (md_baseMediaDecodeTime s4) (int moof + sint data_offset) s4))))"

section \<open>The boxes of a movie header\<close>

definition parseMovieHeaderBox :: "mem \<Rightarrow> mp4_demux \<Rightarrow> mp4_demux res" where
  "parseMovieHeaderBox m s =
     bindE (ReadHeader m s) (\<lambda>s1.
     bindE (ReadBytes m (time_width s1) s1) (\<lambda>(ct, s2).
     bindE (ReadBytes m (time_width s1) (s2\<lparr>md_creation_time := ct\<rparr>)) (\<lambda>(mt, s3).
     bindE (ReadU32 m (s3\<lparr>md_modification_time := mt\<rparr>)) (\<lambda>(ts, s4).
     bindE (ReadU32 m (s4\<lparr>md_timescale := ts\<rparr>)) (\<lambda>(d, s5).
     bindE (ReadU32 m (s5\<lparr>md_duration := d\<rparr>)) (\<lambda>(r, s6).
     bindE (ReadU32 m (s6\<lparr>md_rate := r\<rparr>)) (\<lambda>(v, s7).
     bindE (read_matrix m 9 (SkipBytes 8 (s7\<lparr>md_volume := v\<rparr>))) (\<lambda>(mx, s8).
     Inr (s8\<lparr>md_matrix := mx\<rparr>)))))))))"

definition parseMovieExtendsHeader :: "mem \<Rightarrow> mp4_demux \<Rightarrow> mp4_demux res" where
  "parseMovieExtendsHeader m s =
     bindE (ReadHeader m s) (\<lambda>s1.
     bindE (ReadU32 m s1) (\<lambda>(d, s2). Inr (s2\<lparr>md_fragment_duration := d\<rparr>)))"

definition parseTrackExtendsBox :: "mem \<Rightarrow> mp4_demux \<Rightarrow> mp4_demux res" where
  "parseTrackExtendsBox m s =
     bindE (ReadHeader m s) (\<lambda>s1.
     bindE (ReadU32 m s1) (\<lambda>(tid, s2).
     bindE (ReadU32 m (s2\<lparr>md_track_id := tid\<rparr>)) (\<lambda>(i, s3).
     bindE (ReadU32 m (s3\<lparr>md_default_sample_description_index := i\<rparr>)) (\<lambda>(d, s4).
     bindE (ReadU32 m (s4\<lparr>md_default_sample_duration := d\<rparr>)) (\<lambda>(z, s5).
     bindE (ReadU32 m (s5\<lparr>md_default_sample_size := z\<rparr>)) (\<lambda>(f, s6).
     Inr (s6\<lparr>md_default_sample_flags := f\<rparr>)))))))"

definition parseTrackHeader :: "mem \<Rightarrow> mp4_demux \<Rightarrow> mp4_demux res" where
  "parseTrackHeader m s =
     bindE (ReadHeader m s) (\<lambda>s1.
     bindE (ReadBytes m (time_width s1) s1) (\<lambda>(ct, s2).
     bindE (ReadBytes m (time_width s1) (s2\<lparr>md_creation_time := ct\<rparr>)) (\<lambda>(mt, s3).
     bindE (ReadU32 m (s3\<lparr>md_modification_time := mt\<rparr>)) (\<lambda>(tid, s4).
     bindE (read_matrix m 9 (SkipBytes (20 + time_width s1) (s4\<lparr>md_track_id := tid\<rparr>))) (\<lambda>(mx, s5).
     bindE (ReadU32 m (s5\<lparr>md_matrix := mx\<rparr>)) (\<lambda>(w, s6).
     bindE (ReadU32 m (s6\<lparr>md_width := w\<rparr>)) (\<lambda>(h, s7).
     Inr (s7\<lparr>md_height := h\<rparr>))))))))"

definition parseMediaHeaderBox :: "mem \<Rightarrow> mp4_demux \<Rightarrow> mp4_demux res" where
  "parseMediaHeaderBox m s =
     bindE (ReadHeader m s) (\<lambda>s1.
     bindE (ReadBytes m (time_width s1) s1) (\<lambda>(ct, s2).
     bindE (ReadBytes m (time_width s1) (s2\<lparr>md_creation_time := ct\<rparr>)) (\<lambda>(mt, s3).
     bindE (ReadU32 m (s3\<lparr>md_modification_time := mt\<rparr>)) (\<lambda>(ts, s4).
     bindE (ReadU32 m (s4\<lparr>md_timescale := ts\<rparr>)) (\<lambda>(d, s5).
     bindE (ReadU16 m (s5\<lparr>md_duration := d\<rparr>)) (\<lambda>(l, s6).
     Inr (s6\<lparr>md_language := l\<rparr>)))))))"

section \<open>Stream formats and codec data\<close>

definition visual_format :: "u32 \<Rightarrow> bool" where
  "visual_format t = (t = MultiChar_Constant ''hev1'' \<or> t = MultiChar_Constant ''avc1''
     \<or> t = MultiChar_Constant ''hvc1'')"

definition audio_format :: "u32 \<Rightarrow> bool" where
  "audio_format t = (t = MultiChar_Constant ''mp4a'' \<or> t = MultiChar_Constant ''ec-3'')"

text \<open>The recursive call \<^verbatim>\<open>DemuxHelper\<close> is the argument \<open>walk\<close>, since it and the functions below call
  each other.\<close>

definition parseSampleDescriptionBox ::
  "mem \<Rightarrow> (nat \<Rightarrow> mp4_demux \<Rightarrow> mp4_demux res) \<Rightarrow> nat \<Rightarrow> mp4_demux \<Rightarrow> mp4_demux res" where
  "parseSampleDescriptionBox m walk next_box s =
     bindE (ReadHeader m s) (\<lambda>s1.
     bindE (ReadU32 m s1) (\<lambda>(count, s2).
     if count = 1 then walk next_box s2 else Inl AssertFail))"

definition parse_visual_entry :: "mem \<Rightarrow> mp4_demux \<Rightarrow> mp4_demux res" where
  "parse_visual_entry m s =
     bindE (ReadU32 m (SkipBytes 4 s)) (\<lambda>(ref, s1).
     bindE (ReadU16 m (SkipBytes 16 s1)) (\<lambda>(w, s2).
     bindE (ReadU16 m s2) (\<lambda>(h, s3).
     bindE (ReadU32 m s3) (\<lambda>(hres, s4).
     bindE (ReadU32 m s4) (\<lambda>(vres, s5).
     bindE (ReadU16 m (SkipBytes 4 s5)) (\<lambda>(frames, s6).
     bindE (ReadU16 m (SkipBytes 32 s6)) (\<lambda>(d, s7).
     bindE (ReadU16 m s7) (\<lambda>(pad, s8).
     if pad = 0xffff then
       Inr (s8\<lparr>md_info := (md_info s8)\<lparr>ih_data_reference_index := ref, ih_width := w, ih_height := h,
              ih_horizresolution := hres, ih_vertresolution := vres, ih_frame_count := frames,
              ih_depth := d\<rparr>\<rparr>)
     else Inl AssertFail))))))))"

definition parse_audio_entry :: "mem \<Rightarrow> mp4_demux \<Rightarrow> mp4_demux res" where
  "parse_audio_entry m s =
     bindE (ReadU32 m (SkipBytes 4 s)) (\<lambda>(ref, s1).
     bindE (ReadU16 m (SkipBytes 8 s1)) (\<lambda>(channels, s2).
     bindE (ReadU16 m s2) (\<lambda>(bits, s3).
     bindE (ReadU16 m (SkipBytes 4 s3)) (\<lambda>(hz, s4).
     Inr (SkipBytes 2 (s4\<lparr>md_info := (md_info s4)\<lparr>ih_data_reference_index := ref,
       ih_channel_count := channels, ih_samplesize := bits, ih_samplerate := hz\<rparr>\<rparr>))))))"

definition parseStreamFormat ::
  "mem \<Rightarrow> (nat \<Rightarrow> mp4_demux \<Rightarrow> mp4_demux res) \<Rightarrow> u32 \<Rightarrow> nat \<Rightarrow> mp4_demux \<Rightarrow> mp4_demux res" where
  "parseStreamFormat m walk t next_box s =
     (let s0 = s\<lparr>md_info := (md_info s)\<lparr>ih_stream_format := t\<rparr>\<rparr> in
      bindE (if visual_format t then parse_visual_entry m s0
             else if audio_format t then parse_audio_entry m s0
             else Inl AssertFail) (\<lambda>s1. walk next_box s1))"

text \<open>The variable-length size of a descriptor: seven bits per octet, the top bit says that more
  follow. The loop ends because it leaves the memory otherwise.\<close>

function readLen :: "mem \<Rightarrow> nat \<Rightarrow> u32 \<Rightarrow> (u32 \<times> nat) res" where
  "readLen m p rc =
     (if length m \<le> p then Inl OutOfBounds
      else let rc' = push_bit 7 rc OR ucast (m ! p AND 0x7f)
           in if m ! p AND 0x80 = 0 then Inr (rc', p + 1) else readLen m (p + 1) rc')"
  by pat_completeness auto
termination by (relation "measure (\<lambda>(m, p, rc). length m - p)") auto

declare readLen.simps [simp del]

definition store_codec_data :: "(nat \<Rightarrow> bool) \<Rightarrow> mem \<Rightarrow> nat \<Rightarrow> mp4_demux \<Rightarrow> (bool \<times> mp4_demux) res" where
  "store_codec_data mallocOk m n s =
     (if mallocOk n then
        bindE (mem_read m (md_ptr s) n) (\<lambda>bs.
        Inr (True, s\<lparr>md_info := (md_info s)\<lparr>ih_codec_data_len := n, ih_codec_data := Some bs\<rparr>\<rparr>))
      else Inr (False, s\<lparr>md_info := (md_info s)\<lparr>ih_codec_data_len := n, ih_codec_data := None\<rparr>\<rparr>))"

definition parse_decoder_config :: "mem \<Rightarrow> mp4_demux \<Rightarrow> mp4_demux res" where
  "parse_decoder_config m s =
     bindE (ReadU8 m s) (\<lambda>(oti, s1).
     bindE (ReadU8 m s1) (\<lambda>(st, s2).
     bindE (ReadU8 m s2) (\<lambda>(up, s3).
     bindE (ReadU16 m s3) (\<lambda>(buf, s4).
     bindE (ReadU32 m s4) (\<lambda>(mx, s5).
     bindE (ReadU32 m s5) (\<lambda>(av, s6).
     Inr (s6\<lparr>md_info := (md_info s6)\<lparr>ih_object_type_id := oti, ih_stream_type := st, ih_upStream := up,
       ih_buffer_size := buf, ih_maxBitrate := mx, ih_avgBitrate := av\<rparr>\<rparr>)))))))"

primrec parseCodecConfigHelper ::
  "nat \<Rightarrow> (nat \<Rightarrow> bool) \<Rightarrow> mem \<Rightarrow> nat \<Rightarrow> mp4_demux \<Rightarrow> mp4_demux res" where
  "parseCodecConfigHelper 0 mallocOk m next_box s = Inl OutOfFuel"
| "parseCodecConfigHelper (Suc fuel) mallocOk m next_box s =
     (if md_ptr s < next_box then
        bindE (ReadU8 m s) (\<lambda>(tag, s1).
        bindE (readLen m (md_ptr s1) 0) (\<lambda>(len, p).
        let s2 = s1\<lparr>md_ptr := p\<rparr>; fin = p + unat len in
        bindE (if tag = 0x03 then parseCodecConfigHelper fuel mallocOk m fin (SkipBytes 3 s2)
               else if tag = 0x04 then
                 bindE (parse_decoder_config m s2) (\<lambda>s3. parseCodecConfigHelper fuel mallocOk m fin s3)
               else if tag = 0x05 then
                 bindE (store_codec_data mallocOk m (unat len) s2) (\<lambda>(ok, s3).
                   Inr (if ok then SkipBytes (unat len) s3 else s3))
               else if tag = 0x06 then Inr (SkipBytes (unat len) s2)
               else Inl AssertFail) (\<lambda>s4.
        if md_ptr s4 = fin then parseCodecConfigHelper fuel mallocOk m next_box s4 else Inl AssertFail)))
      else Inr s)"

text \<open>The boxes \<open>hvcC\<close>, \<open>dec3\<close> and \<open>avcC\<close> are copied whole. Their length is \<^verbatim>\<open>next - ptr\<close>, which for a box
  shorter than its header is negative and becomes a huge \<^verbatim>\<open>size_t\<close>; no such block lies in the memory.\<close>

definition parseCodecConfiguration ::
  "nat \<Rightarrow> (nat \<Rightarrow> bool) \<Rightarrow> mem \<Rightarrow> u32 \<Rightarrow> nat \<Rightarrow> mp4_demux \<Rightarrow> mp4_demux res" where
  "parseCodecConfiguration fuel mallocOk m t next_box s =
     (let s0 = s\<lparr>md_info := (md_info s)\<lparr>ih_codec_type := t\<rparr>\<rparr> in
      if t = MultiChar_Constant ''esds'' then parseCodecConfigHelper fuel mallocOk m next_box (SkipBytes 4 s0)
      else let n = nat ((int next_box - int (md_ptr s0)) mod 2 ^ 64)
           in bindE (store_codec_data mallocOk m n s0) (\<lambda>(_, s1). Inr s1))"

section \<open>Walking the boxes\<close>

definition codec_box :: "u32 \<Rightarrow> bool" where
  "codec_box t = (t = MultiChar_Constant ''hvcC'' \<or> t = MultiChar_Constant ''dec3''
     \<or> t = MultiChar_Constant ''avcC'' \<or> t = MultiChar_Constant ''esds'')"

definition walked_box :: "u32 \<Rightarrow> bool" where
  "walked_box t = (t = MultiChar_Constant ''traf'' \<or> t = MultiChar_Constant ''moov''
     \<or> t = MultiChar_Constant ''trak'' \<or> t = MultiChar_Constant ''minf'' \<or> t = MultiChar_Constant ''dinf''
     \<or> t = MultiChar_Constant ''mvex'' \<or> t = MultiChar_Constant ''mdia'' \<or> t = MultiChar_Constant ''stbl'')"

definition parse_by_type ::
  "nat \<Rightarrow> (nat \<Rightarrow> bool) \<Rightarrow> mem \<Rightarrow> (nat \<Rightarrow> mp4_demux \<Rightarrow> mp4_demux res) \<Rightarrow> u32 \<Rightarrow> nat \<Rightarrow> mp4_demux
     \<Rightarrow> mp4_demux res" where
  "parse_by_type fuel mallocOk m walk t next_box s =
     (if visual_format t \<or> audio_format t then parseStreamFormat m walk t next_box s
      else if codec_box t then parseCodecConfiguration fuel mallocOk m t next_box s
      else if t = MultiChar_Constant ''mfhd'' then parseMovieFragmentHeaderBox m s
      else if t = MultiChar_Constant ''tfhd'' then parseTrackFragmentHeaderBox m s
      else if t = MultiChar_Constant ''trun'' then parseTrackFragmentRunBox m s
      else if t = MultiChar_Constant ''tfdt'' then parseTrackFragmentBaseMediaDecodeTimeBox m s
      else if t = MultiChar_Constant ''mvhd'' then parseMovieHeaderBox m s
      else if t = MultiChar_Constant ''mehd'' then parseMovieExtendsHeader m s
      else if t = MultiChar_Constant ''trex'' then parseTrackExtendsBox m s
      else if t = MultiChar_Constant ''tkhd'' then parseTrackHeader m s
      else if t = MultiChar_Constant ''mdhd'' then parseMediaHeaderBox m s
      else if t = MultiChar_Constant ''stsd'' then parseSampleDescriptionBox m walk next_box s
      else if t = MultiChar_Constant ''moof'' then walk next_box (s\<lparr>md_moof_ptr := Some (md_ptr s - 8)\<rparr>)
      else if walked_box t then walk next_box s
      else Inr s)"

primrec DemuxHelper :: "nat \<Rightarrow> (nat \<Rightarrow> bool) \<Rightarrow> mem \<Rightarrow> nat \<Rightarrow> mp4_demux \<Rightarrow> mp4_demux res" where
  "DemuxHelper 0 mallocOk m fin s = Inl OutOfFuel"
| "DemuxHelper (Suc fuel) mallocOk m fin s =
     (if md_ptr s < fin then
        bindE (ReadU32 m s) (\<lambda>(sz, s1).
        let next_box = md_ptr s1 + unat sz - 4 in
        bindE (ReadU32 m s1) (\<lambda>(t, s2).
        bindE (parse_by_type fuel mallocOk m (DemuxHelper fuel mallocOk m) t next_box s2) (\<lambda>s3.
        DemuxHelper fuel mallocOk m fin (s3\<lparr>md_ptr := next_box\<rparr>))))
      else Inr s)"

definition clear_info :: "init_header_info \<Rightarrow> init_header_info" where
  "clear_info h = h\<lparr>ih_channel_count := 0, ih_samplesize := 0, ih_samplerate := 0, ih_width := 0,
     ih_height := 0, ih_frame_count := 0, ih_depth := 0, ih_horizresolution := 0, ih_vertresolution := 0,
     ih_stream_format := 0, ih_data_reference_index := 0, ih_codec_type := 0, ih_codec_data_len := 0,
     ih_codec_data := None\<rparr>"

definition Mp4Demux :: "nat \<Rightarrow> (nat \<Rightarrow> bool) \<Rightarrow> mp4_demux \<Rightarrow> mem \<Rightarrow> u32 \<Rightarrow> mp4_demux res" where
  "Mp4Demux fuel mallocOk garbage m tscale =
     DemuxHelper fuel mallocOk m (length m)
       (garbage\<lparr>md_info := clear_info (md_info garbage), md_samples := [], md_ptr := 0,
                md_moof_ptr := None, md_timescale := tscale\<rparr>)"

section \<open>Reading the result\<close>

definition mp4_count :: "mp4_demux \<Rightarrow> int" where
  "mp4_count s = sint (word_of_nat (length (md_samples s)) :: u32)"

definition get_sample :: "mp4_demux \<Rightarrow> int \<Rightarrow> mp4_sample res" where
  "get_sample s part =
     (if 0 \<le> part \<and> nat part < length (md_samples s) then Inr (md_samples s ! nat part) else Inl OutOfBounds)"

definition getPtr :: "mp4_demux \<Rightarrow> int \<Rightarrow> int res" where
  "getPtr s part = bindE (get_sample s part) (\<lambda>x. Inr (sample_ptr x))"

definition getLen :: "mp4_demux \<Rightarrow> int \<Rightarrow> u64 res" where
  "getLen s part = bindE (get_sample s part) (\<lambda>x. Inr (sample_len x))"

definition getPts :: "mp4_demux \<Rightarrow> int \<Rightarrow> seconds res" where
  "getPts s part = bindE (get_sample s part) (\<lambda>x. Inr (sample_pts x))"

definition getDts :: "mp4_demux \<Rightarrow> int \<Rightarrow> seconds res" where
  "getDts s part = bindE (get_sample s part) (\<lambda>x. Inr (sample_dts x))"

definition getDuration :: "mp4_demux \<Rightarrow> int \<Rightarrow> seconds res" where
  "getDuration s part = bindE (get_sample s part) (\<lambda>x. Inr (sample_duration x))"

text \<open>\<open>setCaps\<close>: the media type and the fields it describes the codec with; for a codec it does not
  know it sets nothing.\<close>

datatype caps_value = CapsString string | CapsBool bool | CapsInt int | CapsFraction int int
  | CapsBuffer "byte list"

definition codec_buffer :: "init_header_info \<Rightarrow> caps_value" where
  "codec_buffer h = CapsBuffer (case ih_codec_data h of None \<Rightarrow> [] | Some bs \<Rightarrow> bs)"

definition video_caps :: "string \<Rightarrow> init_header_info \<Rightarrow> (string \<times> caps_value) list" where
  "video_caps fmt h = [(''stream-format'', CapsString fmt), (''alignment'', CapsString ''au''),
     (''codec_data'', codec_buffer h), (''width'', CapsInt (uint (ih_width h))),
     (''height'', CapsInt (uint (ih_height h))), (''pixel-aspect-ratio'', CapsFraction 1 1)]"

definition setCaps :: "mp4_demux \<Rightarrow> (string \<times> (string \<times> caps_value) list) option" where
  "setCaps s =
     (let h = md_info s in
      if ih_codec_type h = 0x68766343 then Some (''video/x-h265'', video_caps ''hvc1'' h)
      else if ih_codec_type h = 0x61766343 then Some (''video/x-h264'', video_caps ''avc'' h)
      else if ih_codec_type h = 0x65736473 then
        Some (''audio/mpeg'', [(''mpegversion'', CapsInt 4), (''framed'', CapsBool True),
          (''stream-format'', CapsString ''raw''), (''codec_data'', codec_buffer h)])
      else if ih_codec_type h = 0x64656333 then
        Some (''audio/x-eac3'', [(''framed'', CapsBool True), (''rate'', CapsInt (uint (ih_samplerate h))),
          (''channels'', CapsInt (uint (ih_channel_count h)))])
      else None)"

section \<open>Restamping in place\<close>

primrec WriteBytes :: "mem \<Rightarrow> nat \<Rightarrow> nat \<Rightarrow> u64 \<Rightarrow> mem res" where
  "WriteBytes m p 0 v = Inr m"
| "WriteBytes m p (Suc n) v =
     bindE (mem_write m (p + n) [ucast (v AND 0xff)]) (\<lambda>m'. WriteBytes m' p n (drop_bit 8 v))"

definition adjust_container :: "u32 \<Rightarrow> bool" where
  "adjust_container t = (walked_box t \<or> t = MultiChar_Constant ''moof'')"

definition adjust_tfdt :: "mem \<Rightarrow> nat \<Rightarrow> u64 \<Rightarrow> (u64 \<times> mem) res" where
  "adjust_tfdt m p delta =
     bindE (read_u8 m p) (\<lambda>v.
     let sz = (if v = 1 then 8 else 4) in
     bindE (mem_read m (p + 1) 3) (\<lambda>_.
     bindE (mem_read m (p + 4) sz) (\<lambda>bs.
     let t = read_bytes bs + delta in
     bindE (WriteBytes m (p + 4) sz t) (\<lambda>m'. Inr (t, m')))))"

text \<open>The loop of \<open>mp4_AdjustMediaDecodeTime\<close>: \<open>fin\<close> is the end of the range, \<open>base\<close> the decode time
  found so far. The length of a child range is \<^verbatim>\<open>next - ptr\<close>; a negative one puts the end before the
  start, as adding the huge unsigned length to the pointer does.\<close>

primrec mp4_adjust_loop :: "nat \<Rightarrow> mem \<Rightarrow> nat \<Rightarrow> nat \<Rightarrow> u64 \<Rightarrow> u64 \<Rightarrow> (u64 \<times> mem) res" where
  "mp4_adjust_loop 0 m p fin base delta = Inl OutOfFuel"
| "mp4_adjust_loop (Suc fuel) m p fin base delta =
     (if p < fin \<and> base = 0 then
        bindE (mem_read m p 4) (\<lambda>sz.
        let next_box = p + unat (ucast (read_bytes sz) :: u32) in
        bindE (mem_read m (p + 4) 4) (\<lambda>ty.
        let t = ucast (read_bytes ty) in
        if t = MultiChar_Constant ''tfdt'' then adjust_tfdt m (p + 8) delta
        else
          bindE (if adjust_container t then mp4_adjust_loop fuel m (p + 8) next_box 0 delta
                 else Inr (base, m)) (\<lambda>(base', m').
          mp4_adjust_loop fuel m' next_box fin base' delta)))
      else Inr (base, m))"

definition mp4_AdjustMediaDecodeTime :: "nat \<Rightarrow> mem \<Rightarrow> nat \<Rightarrow> nat \<Rightarrow> u64 \<Rightarrow> (u64 \<times> mem) res" where
  "mp4_AdjustMediaDecodeTime fuel m p len delta = mp4_adjust_loop fuel m p (p + len) 0 delta"

end
