(* ===== verification/Mp4_Samples.thy ===== *)
theory Mp4_Samples
  imports Mp4_Demux
begin

text \<open>
  What \<^verbatim>\<open>Mp4Demux\<close> extracts: the samples of a run are those that were written, laid out one behind
  the other; a whole fragment yields them with the times of its \<open>tfdt\<close> box. The codec descriptor parser
  always ends; the box walk does not when a box has size zero.
\<close>

section \<open>Fields at a position\<close>

definition holds_at :: "mem \<Rightarrow> nat \<Rightarrow> byte list \<Rightarrow> bool" where
  "holds_at m p bs \<longleftrightarrow> p + length bs \<le> length m \<and> take (length bs) (drop p m) = bs"

lemma holds_at_append [mem_simps]:
  "holds_at m p (xs @ ys) \<longleftrightarrow> holds_at m p xs \<and> holds_at m (p + length xs) ys"
proof -
  have "take (length xs + length ys) (drop p m) = take (length xs) (drop p m) @ take (length ys) (drop (p + length xs) m)"
    by (simp add: take_add add.commute)
  moreover have "length (take (length xs) (drop p m)) = length xs" if "p + length xs \<le> length m"
    using that by simp
  ultimately show ?thesis by (auto simp: holds_at_def)
qed

lemma holds_at_mid: "holds_at (pre @ bs @ post) (length pre) bs"
  by (simp add: holds_at_def)

lemma holds_at_whole: "holds_at m 0 m"
  by (simp add: holds_at_def)

lemma holds_at_read: "holds_at m p bs \<Longrightarrow> n = length bs \<Longrightarrow> mem_read m p n = Inr bs"
  by (simp add: holds_at_def mem_read_def)

lemma ReadBytes_at: "holds_at m (md_ptr s) bs \<Longrightarrow> n = length bs \<Longrightarrow>
    ReadBytes m n s = Inr (read_bytes bs, s\<lparr>md_ptr := md_ptr s + length bs\<rparr>)"
  by (simp add: ReadBytes_def holds_at_read)

lemma ucast_u32_u64_u32 [simp]: "ucast (ucast (v :: u32) :: u64) = v"
  by (rule bit_word_eqI) (auto simp: bit_simps)

lemma ReadU32_at: "holds_at m (md_ptr s) (u32_be v) \<Longrightarrow> ReadU32 m s = Inr (v, s\<lparr>md_ptr := md_ptr s + 4\<rparr>)"
  by (simp add: ReadU32_def ReadBytes_at read_bytes_u32)

lemma ReadU64_at: "holds_at m (md_ptr s) (u64_be v) \<Longrightarrow> ReadU64 m s = Inr (v, s\<lparr>md_ptr := md_ptr s + 8\<rparr>)"
  by (simp add: ReadU64_def ReadBytes_at read_bytes_u64)

text \<open>The four bytes of version and flags.\<close>

definition version_flags :: "byte \<Rightarrow> u32 \<Rightarrow> byte list" where
  "version_flags v f = v # tl (u32_be f)"

lemma length_version_flags [simp]: "length (version_flags v f) = 4"
  by (simp add: version_flags_def u32_be_def)

lemma read_bytes_flags: "f < 0x1000000 \<Longrightarrow> ucast (read_bytes (tl (u32_be f))) = f"
proof -
  assume f: "f < 0x1000000"
  have "take_bit 24 f = f"
  proof -
    have "unat f < 2 ^ 24" using f by (simp add: word_less_nat_alt)
    then show ?thesis by (simp add: word_unat_eq_iff unsigned_take_bit_eq take_bit_nat_eq_self)
  qed
  then have top: "\<not> bit f n" if "24 \<le> n" for n
    using that by (metis bit_take_bit_iff leD)
  show ?thesis
  proof (rule bit_word_eqI)
    fix n assume n: "n < LENGTH(32)"
    consider "n < 8" | "8 \<le> n" "n < 16" | "16 \<le> n" "n < 24" | "24 \<le> n" by linarith
    then show "bit (ucast (read_bytes (tl (u32_be f))) :: u32) n = bit f n"
      using n top [of n] by cases
        (auto simp: read_bytes_def read_step_def u32_be_def bit_simps word_bit_high push_bit_or)
  qed
qed

lemma ReadHeader_at:
  assumes "holds_at m (md_ptr s) (version_flags v f)" and "f < 0x1000000"
  shows "ReadHeader m s = Inr (s\<lparr>md_version := v, md_flags := f, md_ptr := md_ptr s + 4\<rparr>)"
proof -
  have h: "holds_at m (md_ptr s) ([v] @ tl (u32_be f))" using assms(1) by (simp add: version_flags_def)
  have l: "length (tl (u32_be f)) = 3" by (simp add: u32_be_def)
  from h have v: "holds_at m (md_ptr s) [v]" and f: "holds_at m (md_ptr s + 1) (tl (u32_be f))"
    unfolding holds_at_append by simp_all
  show ?thesis
    using holds_at_read [OF v] ReadBytes_at [of m "s\<lparr>md_ptr := md_ptr s + 1, md_version := v\<rparr>", OF _ l [symmetric]] f l
    by (simp add: ReadHeader_def ReadU8_def read_u8_def read_bytes_flags assms(2))
qed

section \<open>The samples of a run\<close>

text \<open>A table entry: duration, size, flags and composition time offset. \<open>entry_bytes\<close> writes the fields
  that the run's flags announce.\<close>

record trun_entry =
  en_duration :: u32
  en_size :: u32
  en_flags :: u32
  en_cto :: u32

definition opt_u32 :: "u32 \<Rightarrow> u32 \<Rightarrow> u32 \<Rightarrow> byte list" where
  "opt_u32 f flag v = (if has_flag f flag then u32_be v else [])"

definition entry_bytes :: "u32 \<Rightarrow> trun_entry \<Rightarrow> byte list" where
  "entry_bytes f e = opt_u32 f 0x0100 (en_duration e) @ opt_u32 f 0x0200 (en_size e)
     @ opt_u32 f 0x0400 (en_flags e) @ opt_u32 f 0x0800 (en_cto e)"

definition entry_duration :: "mp4_demux \<Rightarrow> u32 \<Rightarrow> trun_entry \<Rightarrow> u32" where
  "entry_duration s f e = (if has_flag f 0x0100 then en_duration e else md_default_sample_duration s)"

definition entry_size :: "mp4_demux \<Rightarrow> u32 \<Rightarrow> trun_entry \<Rightarrow> u32" where
  "entry_size s f e = (if has_flag f 0x0200 then en_size e else md_default_sample_size s)"

definition entry_cto :: "u32 \<Rightarrow> trun_entry \<Rightarrow> u32" where
  "entry_cto f e = (if has_flag f 0x0800 then en_cto e else 0)"

fun entry_samples :: "mp4_demux \<Rightarrow> u32 \<Rightarrow> u64 \<Rightarrow> int \<Rightarrow> trun_entry list \<Rightarrow> mp4_sample list" where
  "entry_samples s f dts p [] = []"
| "entry_samples s f dts p (e # es) =
     \<lparr>sample_ptr = p, sample_len = ucast (entry_size s f e),
      sample_pts = Quotient (dts + scast (entry_cto f e)) (md_timescale s),
      sample_dts = Quotient dts (md_timescale s),
      sample_duration = (if has_flag f 0x0100 then Quotient (ucast (en_duration e)) (md_timescale s)
                         else ZeroSeconds)\<rparr>
     # entry_samples s f (dts + ucast (entry_duration s f e)) (p + int (unat (entry_size s f e))) es"

lemma length_opt_u32 [simp]: "length (opt_u32 f flag v) = (if has_flag f flag then 4 else 0)"
  by (simp add: opt_u32_def)

lemma parse_sample_at:
  assumes "holds_at m (md_ptr s) (entry_bytes (md_flags s) e)"
  shows "parse_sample m dts p s
    = Inr (dts + ucast (entry_duration s (md_flags s) e), p + int (unat (entry_size s (md_flags s) e)),
        s\<lparr>md_ptr := md_ptr s + length (entry_bytes (md_flags s) e),
          md_samples := md_samples s @ entry_samples s (md_flags s) dts p [e]\<rparr>)"
proof -
  let ?f = "md_flags s"
  have f: "holds_at m (md_ptr s) (opt_u32 ?f 0x0100 (en_duration e))"
    "holds_at m (md_ptr s + length (opt_u32 ?f 0x0100 (en_duration e))) (opt_u32 ?f 0x0200 (en_size e))"
    "holds_at m (md_ptr s + length (opt_u32 ?f 0x0100 (en_duration e)) + length (opt_u32 ?f 0x0200 (en_size e)))
      (opt_u32 ?f 0x0400 (en_flags e))"
    "holds_at m (md_ptr s + length (opt_u32 ?f 0x0100 (en_duration e)) + length (opt_u32 ?f 0x0200 (en_size e))
        + length (opt_u32 ?f 0x0400 (en_flags e))) (opt_u32 ?f 0x0800 (en_cto e))"
    using assms by (simp_all only: entry_bytes_def holds_at_append add.assoc)
  show ?thesis
    by (cases "has_flag ?f 0x0100"; cases "has_flag ?f 0x0200"; cases "has_flag ?f 0x0400";
        cases "has_flag ?f 0x0800"; insert f;
        simp add: parse_sample_def opt_u32_def ReadU32_at entry_bytes_def entry_duration_def entry_size_def
          entry_cto_def)
qed

lemma entry_samples_cong:
  "md_timescale s' = md_timescale s \<Longrightarrow> md_default_sample_duration s' = md_default_sample_duration s
    \<Longrightarrow> md_default_sample_size s' = md_default_sample_size s
    \<Longrightarrow> entry_samples s' f dts p es = entry_samples s f dts p es"
  by (induction es arbitrary: dts p) (simp_all add: entry_size_def entry_duration_def)

lemma entry_samples_update [simp]:
  "entry_samples (s\<lparr>md_ptr := q\<rparr>) f dts p es = entry_samples s f dts p es"
  "entry_samples (s\<lparr>md_samples := xs\<rparr>) f dts p es = entry_samples s f dts p es"
  "entry_samples (s\<lparr>md_version := v\<rparr>) f dts p es = entry_samples s f dts p es"
  "entry_samples (s\<lparr>md_flags := g\<rparr>) f dts p es = entry_samples s f dts p es"
  "entry_samples (s\<lparr>md_track_id := t\<rparr>) f dts p es = entry_samples s f dts p es"
  "entry_samples (s\<lparr>md_moof_ptr := mp\<rparr>) f dts p es = entry_samples s f dts p es"
  "entry_samples (s\<lparr>md_default_sample_flags := fl\<rparr>) f dts p es = entry_samples s f dts p es"
  "entry_samples (s\<lparr>md_baseMediaDecodeTime := mdt\<rparr>) f dts p es = entry_samples s f dts p es"
  by (induction es arbitrary: dts p) (simp_all add: entry_size_def entry_duration_def)

lemma parse_samples_at:
  assumes "holds_at m (md_ptr s) (concat (map (entry_bytes (md_flags s)) es))"
  shows "parse_samples m (length es) dts p s
    = Inr (s\<lparr>md_ptr := md_ptr s + length (concat (map (entry_bytes (md_flags s)) es)),
        md_samples := md_samples s @ entry_samples s (md_flags s) dts p es\<rparr>)"
  using assms
proof (induction es arbitrary: s dts p)
  case (Cons e es)
  let ?s = "s\<lparr>md_ptr := md_ptr s + length (entry_bytes (md_flags s) e),
          md_samples := md_samples s @ entry_samples s (md_flags s) dts p [e]\<rparr>"
  from Cons.prems have h: "holds_at m (md_ptr s) (entry_bytes (md_flags s) e)"
    "holds_at m (md_ptr ?s) (concat (map (entry_bytes (md_flags ?s)) es))"
    by (simp_all add: holds_at_append)
  have "parse_samples m (length (e # es)) dts p s = parse_samples m (length es)
      (dts + ucast (entry_duration s (md_flags s) e)) (p + int (unat (entry_size s (md_flags s) e))) ?s"
    using parse_sample_at [OF h(1), of dts p] by (simp del: entry_samples.simps)
  also note Cons.IH [OF h(2)]
  finally show ?case by (simp add: add.assoc)
qed simp

definition trun_bytes :: "byte \<Rightarrow> u32 \<Rightarrow> u32 \<Rightarrow> u32 \<Rightarrow> trun_entry list \<Rightarrow> byte list" where
  "trun_bytes v f data_offset first_flags es =
     version_flags v f @ u32_be (word_of_nat (length es)) @ u32_be data_offset @ opt_u32 f 0x0004 first_flags
     @ concat (map (entry_bytes f) es)"

lemma parse_trun_at:
  assumes h: "holds_at m (md_ptr s) (trun_bytes v f off ff es)" and f: "f < 0x1000000" "has_flag f 0x0001"
    and n: "length es < 2 ^ 32" and moof: "md_moof_ptr s = Some moof"
  shows "parseTrackFragmentRunBox m s
    = Inr (s\<lparr>md_version := v, md_flags := f, md_ptr := md_ptr s + length (trun_bytes v f off ff es),
        md_samples := md_samples s @ entry_samples s f (md_baseMediaDecodeTime s) (int moof + sint off) es\<rparr>)"
proof -
  let ?p = "md_ptr s"
  let ?s = "s\<lparr>md_version := v, md_flags := f, md_ptr := 12 + ?p + length (opt_u32 f 0x0004 ff)\<rparr>"
  from h have h1: "holds_at m ?p (version_flags v f)"
    and h2: "holds_at m (4 + ?p) (u32_be (word_of_nat (length es)))"
    and h3: "holds_at m (8 + ?p) (u32_be off)" and h4: "holds_at m (12 + ?p) (opt_u32 f 0x0004 ff)"
    and h5: "holds_at m (md_ptr ?s) (concat (map (entry_bytes (md_flags ?s)) es))"
    unfolding trun_bytes_def holds_at_append by (simp_all add: ac_simps)
  have cnt: "unat (word_of_nat (length es) :: u32) = length es" using n by (simp add: unat_of_nat)
  let ?at = "\<lambda>k. s\<lparr>md_version := v, md_flags := f, md_ptr := k + ?p\<rparr>"
  have r1: "ReadU32 m (s\<lparr>md_version := v, md_flags := f, md_ptr := ?p + 4\<rparr>)
      = Inr (word_of_nat (length es), ?at 8)"
    using ReadU32_at [of m "?at 4"] h2 by (simp add: ac_simps)
  have r2: "ReadU32 m (?at 8) = Inr (off, ?at 12)"
    using ReadU32_at [of m "?at 8"] h3 by (simp add: ac_simps)
  have opt: "(if has_flag f 0x0004 then bindE (ReadU32 m (?at 12)) (\<lambda>(_, s'). Inr s') else Inr (?at 12)) = Inr ?s"
    using h4 ReadU32_at [of m "?at 12"] by (cases "has_flag f 0x0004") (simp_all add: opt_u32_def ac_simps)
  have "parseTrackFragmentRunBox m s = parse_samples m (length es) (md_baseMediaDecodeTime s)
      (int moof + sint off) ?s"
    using opt f moof
    by (simp add: parseTrackFragmentRunBox_def ReadHeader_at [OF h1] r1 r2 cnt del: length_opt_u32)
  also have "\<dots> = Inr (s\<lparr>md_version := v, md_flags := f, md_ptr := ?p + length (trun_bytes v f off ff es),
        md_samples := md_samples s @ entry_samples s f (md_baseMediaDecodeTime s) (int moof + sint off) es\<rparr>)"
    using parse_samples_at [OF h5] by (simp add: trun_bytes_def ac_simps)
  finally show ?thesis .
qed

section \<open>A whole fragment\<close>

definition box_bytes :: "string \<Rightarrow> byte list \<Rightarrow> byte list" where
  "box_bytes t payload = u32_be (word_of_nat (8 + length payload)) @ fourcc t @ payload"

lemma length_fourcc [simp]: "length (fourcc t) = length t"
  by (simp add: fourcc_def)

lemma DemuxHelper_done: "fin \<le> md_ptr s \<Longrightarrow> DemuxHelper (Suc fuel) mallocOk m fin s = Inr s"
  by simp

lemma DemuxHelper_box:
  assumes h: "holds_at m (md_ptr s) (box_bytes t payload)" and t: "length t = 4"
    and sz: "8 + length payload < 2 ^ 32" and fin: "md_ptr s < fin"
  shows "DemuxHelper (Suc fuel) mallocOk m fin s =
    bindE (parse_by_type fuel mallocOk m (DemuxHelper fuel mallocOk m) (MultiChar_Constant t)
             (md_ptr s + length (box_bytes t payload)) (s\<lparr>md_ptr := md_ptr s + 8\<rparr>)) (\<lambda>s3.
    DemuxHelper fuel mallocOk m fin (s3\<lparr>md_ptr := md_ptr s + length (box_bytes t payload)\<rparr>))"
proof -
  from h have h1: "holds_at m (md_ptr s) (u32_be (word_of_nat (8 + length payload)))"
    and h2: "holds_at m (md_ptr s + 4) (fourcc t)"
    unfolding box_bytes_def holds_at_append by simp_all
  have n: "unat (word_of_nat (8 + length payload) :: u32) = 8 + length payload"
    using sz by (simp add: unat_of_nat del: of_nat_add)
  have "holds_at m (md_ptr s + 4) (u32_be (MultiChar_Constant t))"
    using h2 t by (simp add: MultiChar_Constant_def u32_be_be_u32)
  then show ?thesis
    using fin t ReadU32_at [OF h1] n by (simp add: ReadU32_at box_bytes_def Let_def ac_simps del: of_nat_add)
qed

lemma type_codes [simp]:
  "MultiChar_Constant ''hev1'' = 0x68657631" "MultiChar_Constant ''avc1'' = 0x61766331"
  "MultiChar_Constant ''hvc1'' = 0x68766331" "MultiChar_Constant ''mp4a'' = 0x6d703461"
  "MultiChar_Constant ''ec-3'' = 0x65632d33" "MultiChar_Constant ''hvcC'' = 0x68766343"
  "MultiChar_Constant ''dec3'' = 0x64656333" "MultiChar_Constant ''avcC'' = 0x61766343"
  "MultiChar_Constant ''esds'' = 0x65736473" "MultiChar_Constant ''mfhd'' = 0x6d666864"
  "MultiChar_Constant ''tfhd'' = 0x74666864" "MultiChar_Constant ''trun'' = 0x7472756e"
  "MultiChar_Constant ''tfdt'' = 0x74666474" "MultiChar_Constant ''mvhd'' = 0x6d766864"
  "MultiChar_Constant ''mehd'' = 0x6d656864" "MultiChar_Constant ''trex'' = 0x74726578"
  "MultiChar_Constant ''tkhd'' = 0x746b6864" "MultiChar_Constant ''mdhd'' = 0x6d646864"
  "MultiChar_Constant ''stsd'' = 0x73747364" "MultiChar_Constant ''moof'' = 0x6d6f6f66"
  "MultiChar_Constant ''traf'' = 0x74726166" "MultiChar_Constant ''moov'' = 0x6d6f6f76"
  "MultiChar_Constant ''trak'' = 0x7472616b" "MultiChar_Constant ''minf'' = 0x6d696e66"
  "MultiChar_Constant ''dinf'' = 0x64696e66" "MultiChar_Constant ''mvex'' = 0x6d766578"
  "MultiChar_Constant ''mdia'' = 0x6d646961" "MultiChar_Constant ''stbl'' = 0x7374626c"
  "MultiChar_Constant ''mdat'' = 0x6d646174" "MultiChar_Constant ''free'' = 0x66726565"
  by (simp_all add: MultiChar_Constant_def fourcc_def be_u32_def)

lemmas type_tests = visual_format_def audio_format_def codec_box_def walked_box_def

lemma parse_by_type_simps:
  "parse_by_type fuel mo m walk (MultiChar_Constant ''mfhd'') n s = parseMovieFragmentHeaderBox m s"
  "parse_by_type fuel mo m walk (MultiChar_Constant ''tfhd'') n s = parseTrackFragmentHeaderBox m s"
  "parse_by_type fuel mo m walk (MultiChar_Constant ''tfdt'') n s = parseTrackFragmentBaseMediaDecodeTimeBox m s"
  "parse_by_type fuel mo m walk (MultiChar_Constant ''trun'') n s = parseTrackFragmentRunBox m s"
  "parse_by_type fuel mo m walk (MultiChar_Constant ''traf'') n s = walk n s"
  "parse_by_type fuel mo m walk (MultiChar_Constant ''moof'') n s = walk n (s\<lparr>md_moof_ptr := Some (md_ptr s - 8)\<rparr>)"
  "parse_by_type fuel mo m walk (MultiChar_Constant ''mdat'') n s = Inr s"
  by (simp_all add: parse_by_type_def type_tests)

definition tfhd_bytes :: "u32 \<Rightarrow> u32 \<Rightarrow> u32 \<Rightarrow> u32 \<Rightarrow> byte list" where
  "tfhd_bytes tid dur sz fl = version_flags 0 0x38 @ u32_be tid @ u32_be dur @ u32_be sz @ u32_be fl"

definition tfdt_bytes :: "u64 \<Rightarrow> byte list" where
  "tfdt_bytes mdt = version_flags 1 0 @ u64_be mdt"

definition mfhd_bytes :: "u32 \<Rightarrow> byte list" where
  "mfhd_bytes sq = version_flags 0 0 @ u32_be sq"

lemma parse_mfhd_at:
  assumes "holds_at m (md_ptr s) (mfhd_bytes sq)"
  shows "parseMovieFragmentHeaderBox m s
    = Inr (s\<lparr>md_version := 0, md_flags := 0, md_ptr := md_ptr s + 8\<rparr>)"
proof -
  from assms have h: "holds_at m (md_ptr s) (version_flags 0 0)" "holds_at m (md_ptr s + 4) (u32_be sq)"
    unfolding mfhd_bytes_def holds_at_append by simp_all
  show ?thesis
    using ReadHeader_at [OF h(1)] h(2) by (simp add: parseMovieFragmentHeaderBox_def ReadU32_at)
qed

lemma parse_tfdt_at:
  assumes "holds_at m (md_ptr s) (tfdt_bytes mdt)"
  shows "parseTrackFragmentBaseMediaDecodeTimeBox m s
    = Inr (s\<lparr>md_version := 1, md_flags := 0, md_ptr := md_ptr s + 12, md_baseMediaDecodeTime := mdt\<rparr>)"
proof -
  from assms have h: "holds_at m (md_ptr s) (version_flags 1 0)" "holds_at m (md_ptr s + 4) (u64_be mdt)"
    unfolding tfdt_bytes_def holds_at_append by simp_all
  show ?thesis
    using ReadHeader_at [OF h(1)] ReadU64_at [of m "s\<lparr>md_version := 1, md_flags := 0, md_ptr := md_ptr s + 4\<rparr>" mdt] h(2)
    by (simp add: parseTrackFragmentBaseMediaDecodeTimeBox_def time_width_def ReadU64_def)
qed

lemma flags_38: "has_flag 0x38 0x8" "has_flag 0x38 0x10" "has_flag 0x38 0x20" "\<not> has_flag 0x38 1" "\<not> has_flag 0x38 2"
  by (simp_all add: has_flag_def)

lemma parse_tfhd_at:
  assumes "holds_at m (md_ptr s) (tfhd_bytes tid dur sz fl)"
  shows "parseTrackFragmentHeaderBox m s
    = Inr (s\<lparr>md_version := 0, md_flags := 0x38, md_ptr := md_ptr s + 20, md_track_id := tid,
        md_default_sample_duration := dur, md_default_sample_size := sz, md_default_sample_flags := fl\<rparr>)"
proof -
  let ?p = "md_ptr s"
  from assms have h: "holds_at m ?p (version_flags 0 0x38)" "holds_at m (4 + ?p) (u32_be tid)"
    "holds_at m (8 + ?p) (u32_be dur)" "holds_at m (12 + ?p) (u32_be sz)" "holds_at m (16 + ?p) (u32_be fl)"
    unfolding tfhd_bytes_def holds_at_append by (simp_all add: ac_simps)
  let ?s = "s\<lparr>md_version := 0, md_flags := 0x38, md_ptr := ?p + 4\<rparr>"
  have "ReadHeader m s = Inr ?s" by (rule ReadHeader_at [OF h(1)]) simp
  then show ?thesis
    using h(2-5) by (simp add: parseTrackFragmentHeaderBox_def when_flag_def flags_38 ReadU32_at ac_simps)
qed

lemma length_box_bytes [simp]: "length (box_bytes t payload) = 8 + length payload + (length t - 4)"
  if "4 \<le> length t"
  using that by (simp add: box_bytes_def)

lemma holds_at_payload:
  assumes "holds_at m p (box_bytes t payload)" and "length t = 4"
  shows "holds_at m (p + 8) payload"
  using assms unfolding box_bytes_def holds_at_append by (simp add: ac_simps)

definition traf_payload ::
  "u32 \<Rightarrow> u32 \<Rightarrow> u32 \<Rightarrow> u32 \<Rightarrow> u64 \<Rightarrow> byte \<Rightarrow> u32 \<Rightarrow> u32 \<Rightarrow> u32 \<Rightarrow> trun_entry list \<Rightarrow> byte list" where
  "traf_payload tid dur sz fl mdt v f off ff es =
     box_bytes ''tfhd'' (tfhd_bytes tid dur sz fl) @ box_bytes ''tfdt'' (tfdt_bytes mdt)
     @ box_bytes ''trun'' (trun_bytes v f off ff es)"

lemma demux_traf:
  assumes h: "holds_at m (md_ptr s) (traf_payload tid dur sz fl mdt v f off ff es)"
    and f: "f < 0x1000000" "has_flag f 0x0001" and moof: "md_moof_ptr s = Some q"
    and small: "length (traf_payload tid dur sz fl mdt v f off ff es) < 2 ^ 32" "length es < 2 ^ 32"
  shows "\<exists>s'. DemuxHelper (Suc (Suc (Suc (Suc fuel)))) mo m
      (md_ptr s + length (traf_payload tid dur sz fl mdt v f off ff es)) s = Inr s'
    \<and> md_samples s' = md_samples s @ entry_samples
        (s\<lparr>md_default_sample_duration := dur, md_default_sample_size := sz\<rparr>) f mdt (int q + sint off) es"
proof -
  let ?p = "md_ptr s" and ?e = "trun_bytes v f off ff es"
  let ?fin = "?p + length (traf_payload tid dur sz fl mdt v f off ff es)"
  have len: "length (tfhd_bytes tid dur sz fl) = 20" "length (tfdt_bytes mdt) = 12"
    by (simp_all add: tfhd_bytes_def tfdt_bytes_def)
  then have fin: "?fin = ?p + 56 + length ?e"
    by (simp add: traf_payload_def)
  let ?s0 = "s\<lparr>md_ptr := ?p + 8\<rparr>"
  let ?s1 = "s\<lparr>md_version := 0, md_flags := 0x38, md_track_id := tid, md_default_sample_duration := dur,
      md_default_sample_size := sz, md_default_sample_flags := fl, md_ptr := ?p + 28\<rparr>"
  let ?s2 = "?s1\<lparr>md_version := 1, md_flags := 0, md_baseMediaDecodeTime := mdt, md_ptr := ?p + 48\<rparr>"
  let ?s3 = "?s2\<lparr>md_version := v, md_flags := f,
      md_samples := md_samples s @ entry_samples ?s2 f mdt (int q + sint off) es, md_ptr := ?p + 56 + length ?e\<rparr>"
  from h len have h1: "holds_at m (md_ptr s) (box_bytes ''tfhd'' (tfhd_bytes tid dur sz fl))"
    and h2: "holds_at m (md_ptr ?s1) (box_bytes ''tfdt'' (tfdt_bytes mdt))"
    and h3: "holds_at m (md_ptr ?s2) (box_bytes ''trun'' ?e)"
    unfolding traf_payload_def holds_at_append by (simp_all add: ac_simps)
  have p1: "parseTrackFragmentHeaderBox m ?s0 = Inr ?s1"
    using parse_tfhd_at [of m ?s0] holds_at_payload [OF h1] by (simp add: ac_simps)
  have p2: "parseTrackFragmentBaseMediaDecodeTimeBox m (?s1\<lparr>md_ptr := ?p + 36\<rparr>) = Inr ?s2"
    using parse_tfdt_at [of m "?s1\<lparr>md_ptr := ?p + 36\<rparr>"] holds_at_payload [OF h2] by (simp add: ac_simps)
  have p3: "parseTrackFragmentRunBox m (?s2\<lparr>md_ptr := ?p + 56\<rparr>) = Inr ?s3"
    using parse_trun_at [of m "?s2\<lparr>md_ptr := ?p + 56\<rparr>", OF _ f small(2)] holds_at_payload [OF h3] moof
    by (simp add: ac_simps)
  have e: "8 + length ?e < 2 ^ 32" using small fin by (simp add: traf_payload_def)
  have "DemuxHelper (Suc (Suc (Suc (Suc fuel)))) mo m ?fin s = DemuxHelper (Suc (Suc (Suc fuel))) mo m ?fin ?s1"
    by (subst DemuxHelper_box [OF h1]) (use p1 in \<open>simp_all add: len fin parse_by_type_simps ac_simps del: DemuxHelper.simps type_codes\<close>)
  also have "\<dots> = DemuxHelper (Suc (Suc fuel)) mo m ?fin ?s2"
    by (subst DemuxHelper_box [OF h2]) (use p2 in \<open>simp_all add: len fin parse_by_type_simps ac_simps del: DemuxHelper.simps type_codes\<close>)
  also have "\<dots> = DemuxHelper (Suc fuel) mo m ?fin ?s3"
    by (subst DemuxHelper_box [OF h3]) (use p3 e in \<open>simp_all add: len fin parse_by_type_simps ac_simps del: DemuxHelper.simps type_codes\<close>)
  also have "\<dots> = Inr ?s3" by (rule DemuxHelper_done) (simp add: fin)
  finally show ?thesis
    by (intro exI [of _ ?s3] conjI) (simp_all add: entry_samples_cong
        [of "s\<lparr>md_track_id := tid, md_default_sample_duration := dur, md_default_sample_size := sz\<rparr>"
            "s\<lparr>md_default_sample_duration := dur, md_default_sample_size := sz\<rparr>"])
qed

definition moof_payload :: "u32 \<Rightarrow> byte list \<Rightarrow> byte list" where
  "moof_payload sq traf = box_bytes ''mfhd'' (mfhd_bytes sq) @ box_bytes ''traf'' traf"

definition fragment_bytes :: "u32 \<Rightarrow> byte list \<Rightarrow> byte list \<Rightarrow> byte list" where
  "fragment_bytes sq traf data = box_bytes ''moof'' (moof_payload sq traf) @ box_bytes ''mdat'' data"

lemma demux_fragment:
  fixes garbage :: mp4_demux
  assumes f: "f < 0x1000000" "has_flag f 0x0001"
    and m: "m = fragment_bytes sq (traf_payload tid dur sz fl mdt v f off ff es) data"
    and small: "length m < 2 ^ 32" and n: "length es < 2 ^ 32" and fuel: "8 \<le> fuel"
  shows "\<exists>s. Mp4Demux fuel mo garbage m ts = Inr s
    \<and> md_samples s = entry_samples
        (garbage\<lparr>md_timescale := ts, md_default_sample_duration := dur, md_default_sample_size := sz\<rparr>)
        f mdt (sint off) es"
proof -
  let ?traf = "traf_payload tid dur sz fl mdt v f off ff es"
  let ?g = "garbage\<lparr>md_info := clear_info (md_info garbage), md_samples := [], md_moof_ptr := None,
      md_timescale := ts, md_ptr := 0\<rparr>"
  have lm: "length (mfhd_bytes sq) = 8" by (simp add: mfhd_bytes_def)
  then have len: "length (moof_payload sq ?traf) = 24 + length ?traf" "length m = 40 + length ?traf + length data"
    by (simp_all add: m moof_payload_def fragment_bytes_def)
  obtain k where k: "fuel = Suc (Suc (Suc (Suc (Suc (Suc (Suc (Suc k)))))))"
    by (rule that [of "fuel - 8"]) (use fuel in simp)
  have h: "holds_at m 0 (box_bytes ''moof'' (moof_payload sq ?traf))"
    "holds_at m (32 + length ?traf) (box_bytes ''mdat'' data)"
    using holds_at_whole [of m] len lm unfolding m fragment_bytes_def holds_at_append by simp_all
  have h2: "holds_at m 8 (box_bytes ''mfhd'' (mfhd_bytes sq))" "holds_at m 24 (box_bytes ''traf'' ?traf)"
    using holds_at_payload [OF h(1)] lm unfolding moof_payload_def holds_at_append by simp_all
  let ?s1 = "?g\<lparr>md_ptr := 8, md_moof_ptr := Some 0\<rparr>"
  let ?s2 = "?s1\<lparr>md_version := 0, md_flags := 0, md_ptr := 24\<rparr>"
  have p1: "parseMovieFragmentHeaderBox m (?s1\<lparr>md_ptr := 16\<rparr>) = Inr (?s2\<lparr>md_ptr := 24\<rparr>)"
    using parse_mfhd_at [of m "?s1\<lparr>md_ptr := 16\<rparr>" sq] holds_at_payload [OF h2(1)] by simp
  obtain s3 where s3: "DemuxHelper (Suc (Suc (Suc (Suc (Suc k))))) mo m (md_ptr (?s2\<lparr>md_ptr := 32\<rparr>) + length ?traf)
      (?s2\<lparr>md_ptr := 32\<rparr>) = Inr s3"
    "md_samples s3 = entry_samples (?s2\<lparr>md_ptr := 32, md_default_sample_duration := dur, md_default_sample_size := sz\<rparr>)
      f mdt (int 0 + sint off) es"
    using demux_traf [of m "?s2\<lparr>md_ptr := 32\<rparr>" tid dur sz fl mdt v f off ff es 0 "Suc k" mo] f n
      holds_at_payload [OF h2(2)] small len by auto
  have b0: "holds_at m (md_ptr ?g) (box_bytes ''moof'' (moof_payload sq ?traf))"
    and b1: "holds_at m (md_ptr ?s1) (box_bytes ''mfhd'' (mfhd_bytes sq))"
    and b2: "holds_at m (md_ptr ?s2) (box_bytes ''traf'' ?traf)"
    and b3: "holds_at m (md_ptr (s3\<lparr>md_ptr := 32 + length ?traf\<rparr>)) (box_bytes ''mdat'' data)"
    using h h2 by simp_all
  let ?D = "\<lambda>n fin s. DemuxHelper n mo m fin s" and ?e = "32 + length ?traf"
  have in1: "?D (Suc (Suc (Suc (Suc (Suc (Suc (Suc k))))))) ?e ?s1 = ?D (Suc (Suc (Suc (Suc (Suc (Suc k)))))) ?e ?s2"
    by (subst DemuxHelper_box [OF b1])
      (use p1 lm in \<open>simp_all add: parse_by_type_simps del: DemuxHelper.simps type_codes\<close>)
  have in2: "?D (Suc (Suc (Suc (Suc (Suc (Suc k)))))) ?e ?s2 = ?D (Suc (Suc (Suc (Suc (Suc k))))) ?e (s3\<lparr>md_ptr := ?e\<rparr>)"
    by (subst DemuxHelper_box [OF b2])
      (use s3(1) small len in \<open>simp_all add: parse_by_type_simps del: DemuxHelper.simps type_codes\<close>)
  have "Mp4Demux fuel mo garbage m ts = ?D fuel (length m) ?g"
    unfolding Mp4Demux_def by (rule arg_cong [where f = "DemuxHelper fuel mo m (length m)"]) simp
  also have "\<dots> = ?D (Suc (Suc (Suc (Suc (Suc (Suc (Suc k))))))) (length m) (s3\<lparr>md_ptr := ?e\<rparr>)"
    unfolding k by (subst DemuxHelper_box [OF b0])
      (use in1 in2 DemuxHelper_done small len in
        \<open>simp_all add: parse_by_type_simps del: DemuxHelper.simps type_codes\<close>)
  also have "\<dots> = ?D (Suc (Suc (Suc (Suc (Suc (Suc k)))))) (length m) (s3\<lparr>md_ptr := length m\<rparr>)"
    by (subst DemuxHelper_box [OF b3])
      (use small len in \<open>simp_all add: parse_by_type_simps ac_simps del: DemuxHelper.simps type_codes\<close>)
  also have "\<dots> = Inr (s3\<lparr>md_ptr := length m\<rparr>)" by (rule DemuxHelper_done) simp
  finally show ?thesis
    using s3(2) by (auto intro: entry_samples_cong)
qed

text \<open>C5: Demultiplexing a media fragment (\<open>moof\<close> with \<open>mfhd\<close> and a \<open>traf\<close> of \<open>tfhd\<close>, \<open>tfdt\<close> and \<open>trun\<close>,
  then \<open>mdat\<close>) recovers exactly the samples of the run that was written, whatever the run's flags and
  number of samples: data pointers accumulate from the data offset by the sample sizes, decode times from
  the \<open>tfdt\<close> time by the durations, presentation times add the signed composition offset, and
  \<open>tfhd\<close> defaults stand in for fields the run leaves out. Members the constructor leaves unset do
  not matter.\<close>

theorem Mp4Demux_fragment_roundtrip:
  fixes garbage :: mp4_demux
  assumes "f < 0x1000000" and "has_flag f 0x0001"
    and "m = fragment_bytes sq (traf_payload tid dur sz fl mdt v f off ff es) data"
    and "length m < 2 ^ 32" and "length es < 2 ^ 32" and "8 \<le> fuel"
  shows "\<exists>s. Mp4Demux fuel mallocOk garbage m ts = Inr s
    \<and> md_samples s = entry_samples
        (garbage\<lparr>md_timescale := ts, md_default_sample_duration := dur, md_default_sample_size := sz\<rparr>)
        f mdt (sint off) es"
  using assms by (rule demux_fragment)

theorem Mp4Demux_fragment_roundtrip_witness:
  "\<exists>garbage s. Mp4Demux 8 (\<lambda>_. True) garbage
      (fragment_bytes 7 (traf_payload 1 3000 100 0 9000 0 0x201 500 0
        [\<lparr>en_duration = 0, en_size = 20, en_flags = 0, en_cto = 0\<rparr>,
         \<lparr>en_duration = 0, en_size = 30, en_flags = 0, en_cto = 0\<rparr>]) [1, 2, 3]) 90000 = Inr s
    \<and> map sample_ptr (md_samples s) = [500, 520]
    \<and> map sample_dts (md_samples s) = [Quotient 9000 90000, Quotient 12000 90000]"
proof -
  have f: "has_flag 0x201 0x200" "\<not> has_flag 0x201 0x100" "has_flag 0x201 1" "\<not> has_flag 0x201 4"
    "\<not> has_flag 0x201 0x400" "\<not> has_flag 0x201 0x800"
    by (simp_all add: has_flag_def)
  let ?es = "[\<lparr>en_duration = 0, en_size = 20, en_flags = 0, en_cto = 0\<rparr>,
         \<lparr>en_duration = 0, en_size = 30, en_flags = 0, en_cto = 0\<rparr>] :: trun_entry list"
  have "length (fragment_bytes 7 (traf_payload 1 3000 100 0 9000 0 0x201 500 0 ?es) [1, 2, 3]) < 2 ^ 32"
    by (simp add: fragment_bytes_def traf_payload_def moof_payload_def mfhd_bytes_def tfhd_bytes_def
        tfdt_bytes_def trun_bytes_def entry_bytes_def f)
  from Mp4Demux_fragment_roundtrip [OF _ f(3) refl this, of 8 "\<lambda>_. True" undefined 90000] show ?thesis
    by - (rule exI [of _ "undefined :: mp4_demux"], auto simp: entry_size_def entry_duration_def entry_cto_def f)
qed

section \<open>The layout of any run\<close>

fun contiguous :: "mp4_sample list \<Rightarrow> int \<Rightarrow> bool" where
  "contiguous [] p = True"
| "contiguous (x # xs) p = (sample_ptr x = p \<and> contiguous xs (p + int (unat (sample_len x))))"

lemma ReadU32_moves: "ReadU32 m s = Inr (v, s') \<Longrightarrow> s' = s\<lparr>md_ptr := md_ptr s + 4\<rparr>"
  by (auto simp: ReadU32_def ReadBytes_def bindE_eq_Inr)

lemma ReadU32_ptr:
  "ReadU32 m s = Inr (v, s') \<Longrightarrow> md_ptr t = md_ptr s \<Longrightarrow> ReadU32 m t = Inr (v, t\<lparr>md_ptr := md_ptr t + 4\<rparr>)"
  by (auto simp: ReadU32_def ReadBytes_def bindE_eq_Inr)

lemma ReadHeader_moves:
  "ReadHeader m s = Inr s' \<Longrightarrow> s' = s\<lparr>md_version := md_version s', md_flags := md_flags s', md_ptr := md_ptr s + 4\<rparr>"
  by (auto simp: ReadHeader_def ReadU8_def ReadBytes_def bindE_eq_Inr)

text \<open>The states that differ from \<open>s\<close> in the read position only.\<close>

definition moved :: "mp4_demux \<Rightarrow> mp4_demux \<Rightarrow> bool" where
  "moved s s' \<longleftrightarrow> (\<exists>q. s' = s\<lparr>md_ptr := q\<rparr>)"

lemma moved_refl: "moved s s" unfolding moved_def by (rule exI [of _ "md_ptr s"]) simp

lemma moved_trans: "moved s s1 \<Longrightarrow> moved s1 s2 \<Longrightarrow> moved s s2"
  by (auto simp: moved_def)

lemma ReadU32_moved: "ReadU32 m s = Inr (v, s') \<Longrightarrow> moved s s'"
  by (auto simp: moved_def dest!: ReadU32_moves)

lemma unat_ucast_u32_u64 [simp]: "unat (ucast (w :: u32) :: u64) = unat w"
  by (simp add: unsigned_ucast_eq take_bit_nat_eq_self less_trans [OF unsigned_less])

lemma uint_ucast_u32_u64 [simp]: "uint (ucast (w :: u32) :: u64) = uint w"
  using unat_ucast_u32_u64 [of w] by (simp only: uint_nat)

lemma parse_sample_appends:
  assumes "parse_sample m dts p s = Inr (dts', p', s')"
  shows "\<exists>x. md_samples s' = md_samples s @ [x] \<and> sample_ptr x = p \<and> p' = p + int (unat (sample_len x))"
proof -
  from assms obtain dur dur_s s1 len s2 fl s3 cto s4 where
    r: "(if has_flag (md_flags s) 0x0100
            then bindE (ReadU32 m s) (\<lambda>(d, s'). Inr (d, Quotient (ucast d) (md_timescale s), s'))
            else Inr (md_default_sample_duration s, ZeroSeconds, s)) = Inr (dur, dur_s, s1)"
    "(if has_flag (md_flags s) 0x0200 then ReadU32 m s1 else Inr (md_default_sample_size s, s1)) = Inr (len, s2)"
    "(if has_flag (md_flags s) 0x0400 then ReadU32 m s2 else Inr (0, s2)) = Inr (fl, s3)"
    "(if has_flag (md_flags s) 0x0800 then ReadU32 m s3 else Inr (0, s3)) = Inr (cto, s4)"
    and x: "p' = p + int (unat len)" "s' = s4\<lparr>md_samples := md_samples s4 @ [\<lparr>sample_ptr = p, sample_len = ucast len,
           sample_pts = Quotient (dts + scast cto) (md_timescale s),
           sample_dts = Quotient dts (md_timescale s), sample_duration = dur_s\<rparr>]\<rparr>"
    by (clarsimp simp: parse_sample_def Let_def bindE_eq_Inr split del: if_split)
  have "moved s s1" using r(1) by (auto simp: bindE_eq_Inr moved_refl ReadU32_moved split: if_splits)
  moreover have "moved s1 s2" using r(2) by (auto simp: moved_refl ReadU32_moved split: if_splits)
  moreover have "moved s2 s3" using r(3) by (auto simp: moved_refl ReadU32_moved split: if_splits)
  moreover have "moved s3 s4" using r(4) by (auto simp: moved_refl ReadU32_moved split: if_splits)
  ultimately have "moved s s4" by (blast intro: moved_trans)
  then have "md_samples s4 = md_samples s" by (auto simp: moved_def)
  then show ?thesis using x by simp
qed

lemma parse_samples_contiguous:
  "parse_samples m n dts p s = Inr s' \<Longrightarrow>
    \<exists>xs. md_samples s' = md_samples s @ xs \<and> length xs = n \<and> contiguous xs p"
proof (induction n arbitrary: dts p s)
  case (Suc n)
  from Suc.prems obtain dts' p' s1 where 1: "parse_sample m dts p s = Inr (dts', p', s1)"
    and 2: "parse_samples m n dts' p' s1 = Inr s'"
    by (auto simp: bindE_eq_Inr)
  from parse_sample_appends [OF 1] Suc.IH [OF 2] show ?case by fastforce
qed simp

text \<open>Whatever the bytes of a \<open>trun\<close> box and the state before it: if parsing succeeds, it only appends
  samples, as many as the box announces, and their data lies in consecutive ranges from the \<open>moof\<close>
  position plus the data offset, without gap or overlap.\<close>

theorem trun_samples_contiguous:
  assumes "parseTrackFragmentRunBox m s = Inr s'"
  shows "\<exists>count off moof xs. ReadU32 m (s\<lparr>md_ptr := md_ptr s + 4\<rparr>) = Inr (count, s\<lparr>md_ptr := md_ptr s + 8\<rparr>)
    \<and> ReadU32 m (s\<lparr>md_ptr := md_ptr s + 8\<rparr>) = Inr (off, s\<lparr>md_ptr := md_ptr s + 12\<rparr>)
    \<and> md_moof_ptr s = Some moof \<and> md_samples s' = md_samples s @ xs
    \<and> length xs = unat count \<and> contiguous xs (int moof + sint off)"
proof -
  from assms obtain s1 where h: "ReadHeader m s = Inr s1"
    and k: "bindE (ReadU32 m s1) (\<lambda>(sample_count, s2).
     if \<not> has_flag (md_flags s2) 0x0001 then Inl AssertFail
     else
       bindE (ReadU32 m s2) (\<lambda>(data_offset, s3).
       case md_moof_ptr s3 of
         None \<Rightarrow> Inl NullDeref
       | Some moof \<Rightarrow>
           bindE (if has_flag (md_flags s3) 0x0004 then bindE (ReadU32 m s3) (\<lambda>(_, s'). Inr s')
                  else Inr s3) (\<lambda>s4.
           parse_samples m (unat sample_count) (md_baseMediaDecodeTime s4) (int moof + sint data_offset) s4))) = Inr s'"
    unfolding parseTrackFragmentRunBox_def bindE_eq_Inr by blast
  obtain v g where s1: "s1 = s\<lparr>md_version := v, md_flags := g, md_ptr := md_ptr s + 4\<rparr>"
    using ReadHeader_moves [OF h] by blast
  obtain count s2 where c: "ReadU32 m s1 = Inr (count, s2)" using k by (cases "ReadU32 m s1") auto
  note s2 = ReadU32_moves [OF c]
  from k c obtain off s3 where o: "ReadU32 m s2 = Inr (off, s3)"
    by (cases "ReadU32 m s2") (auto split: if_splits)
  note s3 = ReadU32_moves [OF o]
  obtain moof where moof: "md_moof_ptr s = Some moof"
    using k c o s1 s2 s3 by (cases "md_moof_ptr s") (auto split: if_splits)
  obtain s4 where s4: "moved s3 s4"
    and p: "parse_samples m (unat count) (md_baseMediaDecodeTime s4) (int moof + sint off) s4 = Inr s'"
  proof (cases "has_flag (md_flags s3) 4")
    case True
    with k c o moof s1 s2 s3 obtain x s4 where "ReadU32 m s3 = Inr (x, s4)"
      by (cases "ReadU32 m s3") (auto split: if_splits)
    with True k c o moof s1 s2 s3 ReadU32_moved [OF this] that [of s4] show thesis
      by (simp split: if_splits)
  next
    case False
    with k c o moof s1 s2 s3 that [of s3] show thesis by (simp add: moved_refl split: if_splits)
  qed
  have "md_samples s4 = md_samples s" using s4 s1 s2 s3 by (auto simp: moved_def)
  moreover have "ReadU32 m (s\<lparr>md_ptr := md_ptr s + 4\<rparr>) = Inr (count, s\<lparr>md_ptr := md_ptr s + 8\<rparr>)"
    using ReadU32_ptr [OF c, of "s\<lparr>md_ptr := md_ptr s + 4\<rparr>"] s1 by simp
  moreover have "ReadU32 m (s\<lparr>md_ptr := md_ptr s + 8\<rparr>) = Inr (off, s\<lparr>md_ptr := md_ptr s + 12\<rparr>)"
    using ReadU32_ptr [OF o, of "s\<lparr>md_ptr := md_ptr s + 8\<rparr>"] s1 s2 by simp
  ultimately show ?thesis using parse_samples_contiguous [OF p] moof by auto
qed

theorem trun_samples_contiguous_witness:
  "\<exists>e s s' xs. parseTrackFragmentRunBox (trun_bytes 0 1 40 0 [e, e]) s = Inr s'
    \<and> md_samples s' = md_samples s @ xs \<and> length xs = 2 \<and> contiguous xs 40"
proof -
  define e where "e = \<lparr>en_duration = 0, en_size = 0, en_flags = 0, en_cto = 0\<rparr>"
  let ?s = "undefined\<lparr>md_ptr := 0, md_moof_ptr := Some 0\<rparr> :: mp4_demux" and ?m = "trun_bytes 0 1 40 0 [e, e]"
  have f: "has_flag 1 1" by (simp add: has_flag_def)
  obtain s' where run: "parseTrackFragmentRunBox ?m ?s = Inr s'"
    using parse_trun_at [of ?m ?s 0 1 40 0 "[e, e]" 0] holds_at_whole [of ?m] f by auto
  from trun_samples_contiguous [OF run] obtain count off moof xs where
    r: "ReadU32 ?m (?s\<lparr>md_ptr := md_ptr ?s + 4\<rparr>) = Inr (count, ?s\<lparr>md_ptr := md_ptr ?s + 8\<rparr>)"
    "ReadU32 ?m (?s\<lparr>md_ptr := md_ptr ?s + 8\<rparr>) = Inr (off, ?s\<lparr>md_ptr := md_ptr ?s + 12\<rparr>)"
    "md_moof_ptr ?s = Some moof" "md_samples s' = md_samples ?s @ xs"
    "length xs = unat count" "contiguous xs (int moof + sint off)" by blast
  have h: "holds_at ?m 4 (u32_be 2)" "holds_at ?m 8 (u32_be 40)"
    using holds_at_whole [of ?m] unfolding trun_bytes_def holds_at_append by simp_all
  have "count = 2" "off = 40"
    using r(1,2) ReadU32_at [of ?m "?s\<lparr>md_ptr := 4\<rparr>" 2] ReadU32_at [of ?m "?s\<lparr>md_ptr := 8\<rparr>" 40] h by simp_all
  then show ?thesis using run r(3-6) by (intro exI [of _ e] exI [of _ ?s] exI [of _ s'] exI [of _ xs]) simp
qed

end
