(* ===== verification/Mp4_Walk.thy ===== *)
theory Mp4_Walk
  imports Mp4_Samples Isobmff_Rewrite
begin

text \<open>
  Termination of the two loops of \<^verbatim>\<open>mp4demux/mp4demux.hpp\<close> over sizes taken from the input, and the
  restamping function of \<^verbatim>\<open>mp4demux/mp4demux.cpp\<close>.
\<close>

section \<open>The codec descriptor parser ends\<close>

lemma readLen_advances: "readLen m p rc = Inr (v, q) \<Longrightarrow> p < q \<and> q \<le> length m"
proof (induction m p rc rule: readLen.induct)
  case (1 m p rc)
  then show ?case by (subst (asm) readLen.simps) (auto simp: Let_def split: if_splits)
qed

lemma readLen_no_fuel: "readLen m p rc \<noteq> Inl OutOfFuel"
proof (induction m p rc rule: readLen.induct)
  case (1 m p rc)
  then show ?case by (subst readLen.simps) (auto simp: Let_def)
qed

lemma mem_read_no_fuel [simp]: "mem_read m p n \<noteq> Inl OutOfFuel"
  by (simp add: mem_read_def)

lemma Read_no_fuel [simp]:
  "read_u8 m p \<noteq> Inl OutOfFuel" "ReadU8 m s \<noteq> Inl OutOfFuel" "ReadBytes m n s \<noteq> Inl OutOfFuel"
  "ReadU16 m s \<noteq> Inl OutOfFuel" "ReadU32 m s \<noteq> Inl OutOfFuel" "ReadU64 m s \<noteq> Inl OutOfFuel"
  by (auto simp: read_u8_def ReadU8_def ReadBytes_def ReadU16_def ReadU32_def ReadU64_def bindE_eq_Inl)

lemma bindE_no_fuel:
  "r \<noteq> Inl OutOfFuel \<Longrightarrow> (\<And>x. r = Inr x \<Longrightarrow> f x \<noteq> Inl OutOfFuel) \<Longrightarrow> bindE r f \<noteq> Inl OutOfFuel"
  by (cases r) auto

lemma Read_advances:
  "ReadU8 m s = Inr (b, s') \<Longrightarrow> md_ptr s \<le> md_ptr s'"
  "ReadU16 m s = Inr (h, s') \<Longrightarrow> md_ptr s \<le> md_ptr s'"
  "ReadU32 m s = Inr (w, s') \<Longrightarrow> md_ptr s \<le> md_ptr s'"
  by (auto simp: ReadU8_def ReadU16_def ReadU32_def ReadBytes_def bindE_eq_Inr)

lemma parse_decoder_config_no_fuel: "parse_decoder_config m s \<noteq> Inl OutOfFuel"
  unfolding parse_decoder_config_def split_def by (intro bindE_no_fuel Read_no_fuel) simp

lemma parse_decoder_config_advances:
  assumes "parse_decoder_config m s = Inr s'"
  shows "md_ptr s \<le> md_ptr s'"
proof -
  from assms obtain o1 s1 where 1: "ReadU8 m s = Inr (o1, s1)"
    by (cases "ReadU8 m s") (auto simp: parse_decoder_config_def)
  from assms 1 obtain o2 s2 where 2: "ReadU8 m s1 = Inr (o2, s2)"
    by (cases "ReadU8 m s1") (auto simp: parse_decoder_config_def)
  from assms 1 2 obtain o3 s3 where 3: "ReadU8 m s2 = Inr (o3, s3)"
    by (cases "ReadU8 m s2") (auto simp: parse_decoder_config_def)
  from assms 1 2 3 obtain o4 s4 where 4: "ReadU16 m s3 = Inr (o4, s4)"
    by (cases "ReadU16 m s3") (auto simp: parse_decoder_config_def)
  from assms 1 2 3 4 obtain o5 s5 where 5: "ReadU32 m s4 = Inr (o5, s5)"
    by (cases "ReadU32 m s4") (auto simp: parse_decoder_config_def)
  from assms 1 2 3 4 5 obtain o6 s6 where 6: "ReadU32 m s5 = Inr (o6, s6)"
    by (cases "ReadU32 m s5") (auto simp: parse_decoder_config_def)
  have "md_ptr s' = md_ptr s6" using assms 1 2 3 4 5 6 by (simp add: parse_decoder_config_def, fastforce)
  then show ?thesis
    using Read_advances(1) [OF 1] Read_advances(1) [OF 2] Read_advances(1) [OF 3] Read_advances(2) [OF 4]
      Read_advances(3) [OF 5] Read_advances(3) [OF 6] by linarith
qed

lemma store_codec_data_ends:
  "store_codec_data mo m n s \<noteq> Inl OutOfFuel"
  "store_codec_data mo m n s = Inr (ok, s') \<Longrightarrow> md_ptr s' = md_ptr s"
  by (auto simp: store_codec_data_def bindE_eq_Inl bindE_eq_Inr split: if_splits)

lemma ReadU8_advances: "ReadU8 m s = Inr (b, s') \<Longrightarrow> s' = s\<lparr>md_ptr := md_ptr s + 1\<rparr> \<and> md_ptr s < length m"
  by (auto simp: ReadU8_def read_u8_def mem_read_def bindE_eq_Inr split: if_splits)

text \<open>Each descriptor takes at least two bytes of the memory before it opens another one.\<close>

lemma codec_config_ends:
  "length m - md_ptr s < fuel \<Longrightarrow> parseCodecConfigHelper fuel mo m fin s \<noteq> Inl OutOfFuel
    \<and> (\<forall>s'. parseCodecConfigHelper fuel mo m fin s = Inr s' \<longrightarrow> md_ptr s \<le> md_ptr s')"
proof (induction fuel arbitrary: fin s)
  case (Suc fuel)
  show ?case
  proof (cases "md_ptr s < fin")
    case True
    show ?thesis
    proof (cases "ReadU8 m s")
      case (Inl e)
      then have "e \<noteq> OutOfFuel" using Read_no_fuel(2) [of m s] by auto
      then show ?thesis using Inl True by simp
    next
      case (Inr r)
      then obtain tag s1 where r1: "ReadU8 m s = Inr (tag, s1)" by (cases r) auto
      note a1 = ReadU8_advances [OF r1]
      show ?thesis
      proof (cases "readLen m (md_ptr s1) 0")
        case (Inl e)
        then have "e \<noteq> OutOfFuel" using readLen_no_fuel [of m "md_ptr s1" 0] by auto
        then show ?thesis using Inl True r1 by simp
      next
        case (Inr r)
        then obtain len p where r2: "readLen m (md_ptr s1) 0 = Inr (len, p)" by (cases r) auto
        note a2 = readLen_advances [OF r2]
        let ?s2 = "s1\<lparr>md_ptr := p\<rparr>" and ?fin = "p + unat len"
        define body where "body =
              (if tag = 0x03 then parseCodecConfigHelper fuel mo m ?fin (SkipBytes 3 ?s2)
               else if tag = 0x04 then
                 bindE (parse_decoder_config m ?s2) (\<lambda>s3. parseCodecConfigHelper fuel mo m ?fin s3)
               else if tag = 0x05 then
                 bindE (store_codec_data mo m (unat len) ?s2) (\<lambda>(ok, s3).
                   Inr (if ok then SkipBytes (unat len) s3 else s3))
               else if tag = 0x06 then Inr (SkipBytes (unat len) ?s2)
               else Inl AssertFail)"
        have run: "parseCodecConfigHelper (Suc fuel) mo m fin s = bindE body (\<lambda>s4.
            if md_ptr s4 = ?fin then parseCodecConfigHelper fuel mo m fin s4 else Inl AssertFail)"
          using True r1 r2 by (simp add: body_def Let_def)
        have left: "length m - p < fuel" using Suc.prems a1 a2 by auto
        have IH: "parseCodecConfigHelper fuel mo m fin' t \<noteq> Inl OutOfFuel
            \<and> (\<forall>s'. parseCodecConfigHelper fuel mo m fin' t = Inr s' \<longrightarrow> md_ptr t \<le> md_ptr s')"
          if "p \<le> md_ptr t" for fin' t
          by (rule Suc.IH) (use left that in linarith)
        have "bindE (parse_decoder_config m ?s2) (\<lambda>s3. parseCodecConfigHelper fuel mo m ?fin s3) \<noteq> Inl OutOfFuel"
          by (rule bindE_no_fuel [OF parse_decoder_config_no_fuel])
            (use IH parse_decoder_config_advances [of m ?s2] in auto)
        moreover have "bindE (store_codec_data mo m (unat len) ?s2) (\<lambda>(ok, s3).
            Inr (if ok then SkipBytes (unat len) s3 else s3)) \<noteq> Inl OutOfFuel"
          by (rule bindE_no_fuel [OF store_codec_data_ends(1)]) auto
        ultimately have "body \<noteq> Inl OutOfFuel"
          using IH by (simp add: body_def SkipBytes_def)
        moreover have rest: "parseCodecConfigHelper fuel mo m fin s4 \<noteq> Inl OutOfFuel"
          "parseCodecConfigHelper fuel mo m fin s4 = Inr s' \<Longrightarrow> md_ptr s \<le> md_ptr s'"
          if "md_ptr s4 = ?fin" for s4 s'
          using IH [of s4 fin] that a1 a2 by auto
        ultimately show ?thesis
          unfolding run by (cases body) (auto split: if_splits)
      qed
    qed
  qed simp
qed simp

text \<open>\<open>parseCodecConfigHelper\<close> always returns, on any bytes, at any position and nesting: with more fuel
  than there are bytes left in the segment it never runs out. It ends with a result, an access
  outside the segment or a failed assertion.\<close>

theorem parseCodecConfigHelper_ends:
  assumes "length m - md_ptr s < fuel"
  shows "parseCodecConfigHelper fuel mallocOk m fin s \<noteq> Inl OutOfFuel"
  using codec_config_ends [OF assms] by blast

theorem parseCodecConfigHelper_ends_witness:
  "\<exists>s. parseCodecConfigHelper 5 (\<lambda>_. True) [6, 1, 9, 4] 4 s \<noteq> Inl OutOfFuel"
  by (rule exI, rule parseCodecConfigHelper_ends) simp

section \<open>A box of size zero stops the walk\<close>

text \<open>ISO base media files may end in an \<open>mdat\<close> box of size zero, meaning ``up to the end of the
  file''. \<open>DemuxHelper\<close> does not know the convention: at such a box it stays where it is for ever, in
  any state and with any amount of fuel.\<close>

theorem DemuxHelper_zero_size_mdat_diverges:
  assumes h: "holds_at m (md_ptr s) (u32_be 0 @ fourcc ''mdat'')" and fin: "md_ptr s < fin"
  shows "DemuxHelper fuel mallocOk m fin s = Inl OutOfFuel"
proof (induction fuel)
  case (Suc fuel)
  from h have h1: "holds_at m (md_ptr s) (u32_be 0)" and h2: "holds_at m (md_ptr s + 4) (fourcc ''mdat'')"
    unfolding holds_at_append by simp_all
  have "u32_be (MultiChar_Constant ''mdat'') = fourcc ''mdat''"
    unfolding MultiChar_Constant_def by (rule u32_be_be_u32) simp
  then have r2: "ReadU32 m (s\<lparr>md_ptr := md_ptr s + 4\<rparr>)
      = Inr (MultiChar_Constant ''mdat'', s\<lparr>md_ptr := md_ptr s + 8\<rparr>)"
    using ReadU32_at [of m "s\<lparr>md_ptr := md_ptr s + 4\<rparr>" "MultiChar_Constant ''mdat''"] h2 by (simp del: type_codes)
  show ?case
    using fin Suc.IH ReadU32_at [OF h1] r2
    by (simp add: Let_def parse_by_type_simps del: type_codes)
qed simp

theorem DemuxHelper_zero_size_mdat_diverges_witness:
  "\<exists>s. DemuxHelper 100000 (\<lambda>_. True) (u32_be 0 @ fourcc ''mdat'') 8 s = Inl OutOfFuel"
proof -
  let ?s = "undefined\<lparr>md_ptr := 0\<rparr> :: mp4_demux"
  have "DemuxHelper 100000 (\<lambda>_. True) (u32_be 0 @ fourcc ''mdat'') 8 ?s = Inl OutOfFuel"
    by (rule DemuxHelper_zero_size_mdat_diverges) (simp_all add: holds_at_def)
  then show ?thesis ..
qed

section \<open>Restamping\<close>














end
