(* ===== verification/Scheduler.thy ===== *)
theory Scheduler
  imports Player_Prelude "HOL-Library.Sublist"
begin

text \<open>
  The task scheduler of \<^verbatim>\<open>PlayerScheduler.cpp\<close>: a queue of tasks, the worker thread that executes them
  and any number of client threads. What the code does in one go under \<^verbatim>\<open>mQMutex\<close> is one step; the
  execution mutex \<^verbatim>\<open>mExMutex\<close>, which is held across steps, is part of the state. Unlocked accesses to
  \<^verbatim>\<open>mSchedulerRunning\<close> are steps of their own. A client call is a list of sections, which the client
  executes one by one, interleaved with the other threads; a call of \<^verbatim>\<open>std::unique_lock\<close> that throws
  and the assignment to a joinable \<^verbatim>\<open>std::thread\<close>, which terminates the program, set \<open>sc_fault\<close>.

  \<open>sc_scheduled\<close> and \<open>sc_started\<close> are history: every task that was queued and every task whose function
  was called, in order.
\<close>

section \<open>State\<close>

definition INT_MAX :: int where "INT_MAX = 2147483647"
definition PLAYER_SCHEDULER_ID_MAX_VALUE :: int where "PLAYER_SCHEDULER_ID_MAX_VALUE = INT_MAX"
definition PLAYER_SCHEDULER_ID_DEFAULT :: int where "PLAYER_SCHEDULER_ID_DEFAULT = 1"
definition PLAYER_TASK_ID_INVALID :: int where "PLAYER_TASK_ID_INVALID = 0"

record task =
  task_id :: int
  task_name :: string
  task_data :: nat

text \<open>Where the worker thread is: about to test \<^verbatim>\<open>mSchedulerRunning\<close>; in \<^verbatim>\<open>mQCond.wait\<close>; before taking
  the execution lock; before taking the queue lock again; executing a task; gone.\<close>

datatype worker = NotStarted | AtTop | Waiting | WantEx | HaveEx | Running task | Exited

datatype ex_owner = Free | ByWorker | ByClients

datatype outcome = NoResult | TaskId int | Removed bool

datatype sect =
    StartThread
  | TestRunning task
  | Push task
  | ClearQueue
  | SetStopped
  | TestLockOut
  | LockEx
  | UnlockEx
  | SetLockOut bool
  | Notify
  | Join
  | RemoveId int

record sched =
  sc_queue :: "task list"
  sc_running :: bool
  sc_joinable :: bool
  sc_worker :: worker
  sc_exMutex :: ex_owner
  sc_exLock :: bool
  sc_nextId :: int
  sc_currentId :: int
  sc_lockOut :: bool
  sc_todo :: "nat \<Rightarrow> sect list"
  sc_result :: "nat \<Rightarrow> outcome"
  sc_fault :: "fault option"
  sc_scheduled :: "task list"
  sc_started :: "task list"

definition new_scheduler :: sched where
  "new_scheduler = \<lparr>sc_queue = [], sc_running = False, sc_joinable = False, sc_worker = NotStarted,
     sc_exMutex = Free, sc_exLock = False, sc_nextId = PLAYER_SCHEDULER_ID_DEFAULT,
     sc_currentId = PLAYER_TASK_ID_INVALID, sc_lockOut = False, sc_todo = (\<lambda>_. []),
     sc_result = (\<lambda>_. NoResult), sc_fault = None, sc_scheduled = [], sc_started = []\<rparr>"

section \<open>The calls of a client\<close>

definition StartScheduler :: "sect list" where "StartScheduler = [StartThread]"

definition ScheduleTask :: "task \<Rightarrow> sect list" where "ScheduleTask obj = [TestRunning obj]"

definition RemoveAllTasks :: "sect list" where "RemoveAllTasks = [ClearQueue]"

definition SuspendScheduler :: "sect list" where "SuspendScheduler = [LockEx, SetLockOut True]"

definition ResumeScheduler :: "sect list" where "ResumeScheduler = [UnlockEx, SetLockOut False]"

definition RemoveTask :: "int \<Rightarrow> sect list" where "RemoveTask i = [RemoveId i]"

definition EnableScheduleTask :: "sect list" where "EnableScheduleTask = [SetLockOut False]"

definition StopScheduler :: "sect list" where
  "StopScheduler = [SetStopped, TestLockOut] @ RemoveAllTasks @ ResumeScheduler @ [Notify, Join]"

datatype call = CallStart | CallSchedule task | CallRemoveAll | CallSuspend | CallResume | CallRemove int
  | CallEnable | CallStop

fun program :: "call \<Rightarrow> sect list" where
  "program CallStart = StartScheduler"
| "program (CallSchedule obj) = ScheduleTask obj"
| "program CallRemoveAll = RemoveAllTasks"
| "program CallSuspend = SuspendScheduler"
| "program CallResume = ResumeScheduler"
| "program (CallRemove i) = RemoveTask i"
| "program CallEnable = EnableScheduleTask"
| "program CallStop = StopScheduler"

section \<open>The sections\<close>

definition wake :: "worker \<Rightarrow> worker" where
  "wake w = (if w = Waiting then AtTop else w)"

definition push_task :: "task \<Rightarrow> sched \<Rightarrow> outcome \<times> sched" where
  "push_task obj s =
     (if \<not> sc_lockOut s then
        let i = sc_nextId s;
            n = (if i + 1 \<ge> PLAYER_SCHEDULER_ID_MAX_VALUE then PLAYER_SCHEDULER_ID_DEFAULT else i + 1);
            t = obj\<lparr>task_id := i\<rparr>
        in (TaskId i, s\<lparr>sc_nextId := n, sc_queue := sc_queue s @ [t], sc_worker := wake (sc_worker s),
                        sc_scheduled := sc_scheduled s @ [t]\<rparr>)
      else (TaskId PLAYER_TASK_ID_INVALID, s))"

fun erase_id :: "int \<Rightarrow> task list \<Rightarrow> (task list) option" where
  "erase_id i [] = None"
| "erase_id i (t # ts) = (if task_id t = i then Some ts else map_option (\<lambda>ts'. t # ts') (erase_id i ts))"

definition remove_task :: "int \<Rightarrow> sched \<Rightarrow> outcome \<times> sched" where
  "remove_task i s =
     (if i \<noteq> PLAYER_TASK_ID_INVALID \<and> sc_currentId s \<noteq> i then
        (case erase_id i (sc_queue s) of
           None \<Rightarrow> (Removed False, s)
         | Some q \<Rightarrow> (Removed True, s\<lparr>sc_queue := q\<rparr>))
      else (Removed False, s))"

text \<open>One section of client \<open>c\<close>, already taken off its list; \<open>None\<close> when the client has to wait.\<close>

fun run_sect :: "nat \<Rightarrow> sect \<Rightarrow> sched \<Rightarrow> sched option" where
  "run_sect c StartThread s =
     Some (if sc_joinable s then s\<lparr>sc_fault := Some Thrown\<rparr>
           else s\<lparr>sc_worker := AtTop, sc_joinable := True, sc_running := True\<rparr>)"
| "run_sect c (TestRunning obj) s =
     Some (if sc_running s then s\<lparr>sc_todo := (sc_todo s)(c := Push obj # sc_todo s c)\<rparr>
           else s\<lparr>sc_result := (sc_result s)(c := TaskId PLAYER_TASK_ID_INVALID)\<rparr>)"
| "run_sect c (Push obj) s =
     Some (let (r, s') = push_task obj s in s'\<lparr>sc_result := (sc_result s')(c := r)\<rparr>)"
| "run_sect c ClearQueue s = Some (s\<lparr>sc_queue := []\<rparr>)"
| "run_sect c SetStopped s = Some (s\<lparr>sc_running := False\<rparr>)"
| "run_sect c TestLockOut s =
     Some (if sc_lockOut s then s else s\<lparr>sc_todo := (sc_todo s)(c := SuspendScheduler @ sc_todo s c)\<rparr>)"
| "run_sect c LockEx s =
     (if sc_exLock s then Some (s\<lparr>sc_fault := Some Thrown\<rparr>)
      else if sc_exMutex s = Free then Some (s\<lparr>sc_exMutex := ByClients, sc_exLock := True\<rparr>)
      else None)"
| "run_sect c UnlockEx s =
     Some (if sc_exLock s then s\<lparr>sc_exMutex := Free, sc_exLock := False\<rparr>
           else s\<lparr>sc_fault := Some Thrown\<rparr>)"
| "run_sect c (SetLockOut b) s = Some (s\<lparr>sc_lockOut := b\<rparr>)"
| "run_sect c Notify s = Some (s\<lparr>sc_worker := wake (sc_worker s)\<rparr>)"
| "run_sect c Join s =
     (if \<not> sc_joinable s then Some s
      else if sc_worker s = Exited then Some (s\<lparr>sc_joinable := False\<rparr>) else None)"
| "run_sect c (RemoveId i) s =
     Some (let (r, s') = remove_task i s in s'\<lparr>sc_result := (sc_result s')(c := r)\<rparr>)"

definition client_step :: "nat \<Rightarrow> sched \<Rightarrow> sched option" where
  "client_step c s =
     (if sc_fault s \<noteq> None then None
      else case sc_todo s c of
        [] \<Rightarrow> None
      | x # xs \<Rightarrow> run_sect c x (s\<lparr>sc_todo := (sc_todo s)(c := xs)\<rparr>))"

section \<open>The worker\<close>

definition ExecuteAsyncTask :: "sched \<Rightarrow> sched option" where
  "ExecuteAsyncTask s =
     (if sc_fault s \<noteq> None then None
      else case sc_worker s of
        NotStarted \<Rightarrow> None
      | AtTop \<Rightarrow>
          Some (if \<not> sc_running s then s\<lparr>sc_worker := Exited\<rparr>
                else if sc_queue s = [] then s\<lparr>sc_worker := Waiting\<rparr>
                else s\<lparr>sc_worker := WantEx\<rparr>)
      | Waiting \<Rightarrow> None
      | WantEx \<Rightarrow>
          (if sc_exMutex s = Free then Some (s\<lparr>sc_exMutex := ByWorker, sc_worker := HaveEx\<rparr>) else None)
      | HaveEx \<Rightarrow>
          Some (case sc_queue s of
              [] \<Rightarrow> s\<lparr>sc_exMutex := Free, sc_worker := AtTop\<rparr>
            | obj # q \<Rightarrow>
                if task_id obj \<noteq> PLAYER_TASK_ID_INVALID
                then s\<lparr>sc_queue := q, sc_currentId := task_id obj, sc_worker := Running obj,
                       sc_started := sc_started s @ [obj]\<rparr>
                else s\<lparr>sc_queue := q, sc_exMutex := Free, sc_worker := AtTop\<rparr>)
      | Running obj \<Rightarrow> Some (s\<lparr>sc_exMutex := Free, sc_worker := AtTop\<rparr>)
      | Exited \<Rightarrow> None)"

text \<open>A step of the system: a client starts a call or executes a section, the worker moves, or the wait
  on the condition variable ends without a notification.\<close>

inductive sched_step :: "sched \<Rightarrow> sched \<Rightarrow> bool" where
  call: "sc_todo s c = [] \<Longrightarrow> sc_fault s = None
    \<Longrightarrow> sched_step s (s\<lparr>sc_todo := (sc_todo s)(c := program f)\<rparr>)"
| client: "client_step c s = Some s' \<Longrightarrow> sched_step s s'"
| worker: "ExecuteAsyncTask s = Some s' \<Longrightarrow> sched_step s s'"
| spurious: "sc_worker s = Waiting \<Longrightarrow> sc_fault s = None \<Longrightarrow> sched_step s (s\<lparr>sc_worker := AtTop\<rparr>)"

inductive_simps sched_step_simps: "sched_step s s'"

section \<open>The invariant\<close>

definition holds_ex :: "worker \<Rightarrow> bool" where
  "holds_ex w = (case w of HaveEx \<Rightarrow> True | Running t \<Rightarrow> True | _ \<Rightarrow> False)"

definition valid_id :: "int \<Rightarrow> bool" where
  "valid_id i \<longleftrightarrow> PLAYER_SCHEDULER_ID_DEFAULT \<le> i \<and> i < PLAYER_SCHEDULER_ID_MAX_VALUE"

definition lock_inv :: "sched \<Rightarrow> bool" where
  "lock_inv s \<longleftrightarrow> (sc_exLock s \<longleftrightarrow> sc_exMutex s = ByClients) \<and> (holds_ex (sc_worker s) \<longleftrightarrow> sc_exMutex s = ByWorker)
     \<and> (\<not> sc_joinable s \<longrightarrow> sc_worker s = NotStarted \<or> sc_worker s = Exited)"

definition queue_inv :: "sched \<Rightarrow> bool" where
  "queue_inv s \<longleftrightarrow> valid_id (sc_nextId s) \<and> subseq (sc_started s @ sc_queue s) (sc_scheduled s)
     \<and> list_all (\<lambda>t. valid_id (task_id t)) (sc_scheduled s)
     \<and> (int (length (sc_scheduled s)) + 1 < PLAYER_SCHEDULER_ID_MAX_VALUE \<longrightarrow>
          map task_id (sc_scheduled s) = map int [1..<length (sc_scheduled s) + 1]
          \<and> sc_nextId s = int (length (sc_scheduled s)) + 1)"

lemma valid_id_first [simp]: "valid_id PLAYER_SCHEDULER_ID_DEFAULT"
  by (simp add: valid_id_def PLAYER_SCHEDULER_ID_DEFAULT_def PLAYER_SCHEDULER_ID_MAX_VALUE_def INT_MAX_def)

lemma lock_inv_init: "lock_inv new_scheduler"
  by (simp add: lock_inv_def new_scheduler_def holds_ex_def)

lemma queue_inv_init: "queue_inv new_scheduler"
  by (simp add: queue_inv_def new_scheduler_def) (simp add: PLAYER_SCHEDULER_ID_DEFAULT_def)

lemma holds_ex_simps [simp]:
  "\<not> holds_ex NotStarted" "\<not> holds_ex AtTop" "\<not> holds_ex Waiting" "\<not> holds_ex WantEx" "holds_ex HaveEx"
  "holds_ex (Running t)" "\<not> holds_ex Exited" "holds_ex (wake w) = holds_ex w"
  by (simp_all add: holds_ex_def wake_def)

lemma wake_gone [simp]: "wake w = NotStarted \<longleftrightarrow> w = NotStarted" "wake w = Exited \<longleftrightarrow> w = Exited"
  by (simp_all add: wake_def)

lemma lock_inv_update [simp]:
  "lock_inv (s\<lparr>sc_todo := f\<rparr>) = lock_inv s" "lock_inv (s\<lparr>sc_result := r\<rparr>) = lock_inv s"
  "lock_inv (s\<lparr>sc_queue := q\<rparr>) = lock_inv s" "lock_inv (s\<lparr>sc_fault := e\<rparr>) = lock_inv s"
  "lock_inv (s\<lparr>sc_running := b\<rparr>) = lock_inv s" "lock_inv (s\<lparr>sc_lockOut := b\<rparr>) = lock_inv s"
  "lock_inv (s\<lparr>sc_worker := wake (sc_worker s)\<rparr>) = lock_inv s"
  by (simp_all add: lock_inv_def)

lemma queue_inv_update [simp]:
  "queue_inv (s\<lparr>sc_todo := f\<rparr>) = queue_inv s" "queue_inv (s\<lparr>sc_result := r\<rparr>) = queue_inv s"
  "queue_inv (s\<lparr>sc_fault := e\<rparr>) = queue_inv s" "queue_inv (s\<lparr>sc_worker := w\<rparr>) = queue_inv s"
  "queue_inv (s\<lparr>sc_running := b\<rparr>) = queue_inv s" "queue_inv (s\<lparr>sc_lockOut := b\<rparr>) = queue_inv s"
  "queue_inv (s\<lparr>sc_joinable := b\<rparr>) = queue_inv s" "queue_inv (s\<lparr>sc_exMutex := x\<rparr>) = queue_inv s"
  "queue_inv (s\<lparr>sc_exLock := b\<rparr>) = queue_inv s" "queue_inv (s\<lparr>sc_currentId := i\<rparr>) = queue_inv s"
  by (simp_all add: queue_inv_def)

lemma lock_inv_push: "lock_inv (snd (push_task obj s)) = lock_inv s"
  by (simp add: push_task_def Let_def lock_inv_def)

lemma lock_inv_remove: "lock_inv (snd (remove_task i s)) = lock_inv s"
  by (simp add: remove_task_def split: option.splits)

lemma lock_inv_sect: "lock_inv s \<Longrightarrow> run_sect c x s = Some s' \<Longrightarrow> lock_inv s'"
proof (cases x)
  case StartThread
  then show "lock_inv s \<Longrightarrow> run_sect c x s = Some s' \<Longrightarrow> lock_inv s'"
    by (auto simp: lock_inv_def split: if_splits)
next
  case LockEx
  then show "lock_inv s \<Longrightarrow> run_sect c x s = Some s' \<Longrightarrow> lock_inv s'"
    by (auto simp: lock_inv_def split: if_splits)
next
  case UnlockEx
  then show "lock_inv s \<Longrightarrow> run_sect c x s = Some s' \<Longrightarrow> lock_inv s'"
    by (auto simp: lock_inv_def split: if_splits)
next
  case Join
  then show "lock_inv s \<Longrightarrow> run_sect c x s = Some s' \<Longrightarrow> lock_inv s'"
    by (auto simp: lock_inv_def split: if_splits)
qed (use lock_inv_push lock_inv_remove in \<open>auto simp: split_def Let_def split: if_splits\<close>)

lemma erase_id_SomeD:
  "erase_id i ts = Some ts' \<Longrightarrow>
    \<exists>pre t post. ts = pre @ t # post \<and> task_id t = i \<and> i \<notin> task_id ` set pre \<and> ts' = pre @ post"
proof (induction ts arbitrary: ts')
  case (Cons t ts)
  show ?case
  proof (cases "task_id t = i")
    case True
    then show ?thesis using Cons.prems by (intro exI [of _ "[]"]) auto
  next
    case False
    then obtain us where us: "erase_id i ts = Some us" "ts' = t # us" using Cons.prems by auto
    from Cons.IH [OF us(1)] obtain pre u post where "ts = pre @ u # post" "task_id u = i"
      "i \<notin> task_id ` set pre" "us = pre @ post" by blast
    with False us(2) show ?thesis by (intro exI [of _ "t # pre"]) auto
  qed
qed simp

lemma erase_id_subseq: "erase_id i ts = Some ts' \<Longrightarrow> subseq ts' ts"
  by (induction ts arbitrary: ts') (auto split: if_splits)

lemma queue_inv_shrink:
  assumes "queue_inv s" and "subseq q (sc_queue s)"
  shows "queue_inv (s\<lparr>sc_queue := q\<rparr>)"
  using assms subseq_order.trans [OF list_emb_append_mono [OF subseq_order.refl assms(2)]]
  by (auto simp: queue_inv_def)

lemma queue_inv_push:
  assumes "queue_inv s"
  shows "queue_inv (snd (push_task obj s))"
proof (cases "sc_lockOut s")
  case False
  let ?t = "obj\<lparr>task_id := sc_nextId s\<rparr>" and ?n = "length (sc_scheduled s)"
  have "subseq ((sc_started s @ sc_queue s) @ [?t]) (sc_scheduled s @ [?t])"
    using assms by (intro list_emb_append_mono) (simp_all add: queue_inv_def)
  moreover have "valid_id (sc_nextId s)" using assms by (simp add: queue_inv_def)
  moreover have "map task_id (sc_scheduled s @ [?t]) = map int [1..<Suc ?n + 1]"
    "sc_nextId s + 1 = int (Suc ?n) + 1" "\<not> PLAYER_SCHEDULER_ID_MAX_VALUE \<le> sc_nextId s + 1"
    if "int (Suc ?n) + 1 < PLAYER_SCHEDULER_ID_MAX_VALUE"
    using assms that by (auto simp: queue_inv_def)
  ultimately show ?thesis
    using assms False
    by (auto simp: queue_inv_def push_task_def Let_def valid_id_def PLAYER_SCHEDULER_ID_DEFAULT_def
        PLAYER_SCHEDULER_ID_MAX_VALUE_def INT_MAX_def)
qed (use assms in \<open>simp add: push_task_def\<close>)

lemma queue_inv_remove: "queue_inv s \<Longrightarrow> queue_inv (snd (remove_task i s))"
  by (auto simp: remove_task_def intro: queue_inv_shrink erase_id_subseq split: option.splits)

lemma queue_inv_sect: "queue_inv s \<Longrightarrow> run_sect c x s = Some s' \<Longrightarrow> queue_inv s'"
  using queue_inv_push queue_inv_remove queue_inv_shrink [of s "[]"]
  by (cases x) (auto simp: split_def Let_def split: if_splits)

lemma queue_inv_start:
  assumes "queue_inv s" and "sc_queue s = t # q"
  shows "queue_inv (s\<lparr>sc_queue := q, sc_started := sc_started s @ [t]\<rparr>)"
  using assms by (simp add: queue_inv_def)

lemma worker_inv:
  assumes "lock_inv s" and "queue_inv s" and "ExecuteAsyncTask s = Some s'"
  shows "lock_inv s' \<and> queue_inv s'"
proof (cases "sc_worker s")
  case HaveEx
  show ?thesis
  proof (cases "sc_queue s")
    case Nil
    then show ?thesis using assms HaveEx by (auto simp: ExecuteAsyncTask_def lock_inv_def split: if_splits)
  next
    case (Cons t q)
    have "queue_inv (s\<lparr>sc_queue := q\<rparr>)" using assms(2) Cons by (intro queue_inv_shrink) auto
    then show ?thesis
      using assms HaveEx Cons queue_inv_start [OF assms(2) Cons]
      by (auto simp: ExecuteAsyncTask_def lock_inv_def queue_inv_def split: if_splits)
  qed
qed (use assms in \<open>auto simp: ExecuteAsyncTask_def lock_inv_def split: if_splits\<close>)

definition sched_inv :: "sched \<Rightarrow> bool" where
  "sched_inv s \<longleftrightarrow> lock_inv s \<and> queue_inv s"

interpretation scheduler: invariant_system sched_step new_scheduler sched_inv
proof
  show "sched_inv new_scheduler" by (simp add: sched_inv_def lock_inv_init queue_inv_init)
  fix s s' assume inv: "sched_inv s" and "sched_step s s'"
  from this(2) show "sched_inv s'"
  proof cases
    case (call c f)
    then show ?thesis using inv by (simp add: sched_inv_def)
  next
    case (client c)
    then obtain x xs where run: "run_sect c x (s\<lparr>sc_todo := (sc_todo s)(c := xs)\<rparr>) = Some s'"
      by (auto simp: client_step_def split: if_splits list.splits)
    then show ?thesis
      using inv lock_inv_sect [OF _ run] queue_inv_sect [OF _ run] by (simp add: sched_inv_def)
  next
    case worker
    then show ?thesis using inv worker_inv unfolding sched_inv_def by blast
  next
    case spurious
    then show ?thesis using inv by (auto simp: sched_inv_def lock_inv_def)
  qed
qed

section \<open>Mutual exclusion\<close>

lemma push_task_started [simp]: "sc_started (snd (push_task obj s)) = sc_started s"
  by (simp add: push_task_def Let_def)

lemma remove_task_started [simp]: "sc_started (snd (remove_task i s)) = sc_started s"
  by (simp add: remove_task_def split: option.splits)

lemma client_step_started: "client_step c s = Some s' \<Longrightarrow> sc_started s' = sc_started s"
proof -
  have "run_sect c x t = Some t' \<Longrightarrow> sc_started t' = sc_started t" for x t t'
    by (cases x) (auto simp: split_def Let_def split: if_splits)
  then show "client_step c s = Some s' \<Longrightarrow> sc_started s' = sc_started s"
    by (auto simp: client_step_def split: if_splits list.splits)
qed

text \<open>C7: Suspending works: in every state of every interleaving in which the scheduler is suspended (its
  execution lock is held between \<open>SuspendScheduler\<close> and \<open>ResumeScheduler\<close>), no task is being executed, and
  no step of any thread starts one.\<close>

theorem suspended_no_execution:
  assumes "reaches sched_step new_scheduler s" and "sc_exLock s"
  shows "(\<forall>t. sc_worker s \<noteq> Running t) \<and> (\<forall>s'. sched_step s s' \<longrightarrow> sc_started s' = sc_started s)"
proof -
  have inv: "lock_inv s" using scheduler.reachable_inv [OF assms(1)] by (simp add: sched_inv_def)
  with assms(2) have w: "\<not> holds_ex (sc_worker s)" by (auto simp: lock_inv_def)
  have "sc_started s' = sc_started s" if "sched_step s s'" for s'
    using that
  proof cases
    case worker
    then show ?thesis using w by (auto simp: ExecuteAsyncTask_def split: if_splits worker.splits)
  qed (use client_step_started in auto)
  then show ?thesis using w by auto
qed

text \<open>A run of clients and worker with a suspended scheduler, for the witnesses.\<close>

definition do_call :: "nat \<Rightarrow> call \<Rightarrow> sched \<Rightarrow> sched" where
  "do_call c f s = s\<lparr>sc_todo := (sc_todo s)(c := program f)\<rparr>"

lemma reaches_call:
  "reaches sched_step r s \<Longrightarrow> sc_todo s c = [] \<Longrightarrow> sc_fault s = None \<Longrightarrow> reaches sched_step r (do_call c f s)"
  unfolding do_call_def by (rule reaches.step, assumption, rule sched_step.call)

lemma reaches_client: "reaches sched_step r s \<Longrightarrow> client_step c s = Some s' \<Longrightarrow> reaches sched_step r s'"
  by (rule reaches.step, assumption, rule sched_step.client)

lemma reaches_worker: "reaches sched_step r s \<Longrightarrow> ExecuteAsyncTask s = Some s' \<Longrightarrow> reaches sched_step r s'"
  by (rule reaches.step, assumption, rule sched_step.worker)

definition suspended_state :: sched where
  "suspended_state = new_scheduler\<lparr>sc_exMutex := ByClients, sc_exLock := True, sc_lockOut := True\<rparr>"

lemma suspended_reachable: "reaches sched_step new_scheduler suspended_state"
proof -
  let ?a = "do_call 0 CallSuspend new_scheduler"
  have a: "reaches sched_step new_scheduler ?a"
    by (rule reaches_call [OF reaches.start]) (simp_all add: new_scheduler_def)
  have "client_step 0 ?a = Some (?a\<lparr>sc_todo := (\<lambda>_. [])(0 := [SetLockOut True]), sc_exMutex := ByClients, sc_exLock := True\<rparr>)"
    by (simp add: client_step_def do_call_def SuspendScheduler_def new_scheduler_def)
  note b = reaches_client [OF a this]
  show ?thesis
    by (rule reaches_client [OF b, of 0])
      (simp add: client_step_def do_call_def new_scheduler_def suspended_state_def fun_eq_iff)
qed

theorem suspended_no_execution_witness:
  "reaches sched_step new_scheduler suspended_state \<and> sc_exLock suspended_state
    \<and> (\<forall>t. sc_worker suspended_state \<noteq> Running t)"
  using suspended_no_execution [OF suspended_reachable] suspended_reachable by (auto simp: suspended_state_def)

section \<open>Order and identity of tasks\<close>

text \<open>C38: In every reachable state the tasks that were started, followed by those still queued, are a
  subsequence of the tasks in the order they were scheduled: no task is started twice, none
  overtakes an earlier one, and nothing is started that was not scheduled.\<close>

theorem tasks_start_in_order:
  assumes "reaches sched_step new_scheduler s"
  shows "subseq (sc_started s @ sc_queue s) (sc_scheduled s)"
  using scheduler.reachable_inv [OF assms] by (simp add: sched_inv_def queue_inv_def)

definition scheduled_once :: sched where
  "scheduled_once = new_scheduler\<lparr>sc_worker := AtTop, sc_joinable := True, sc_running := True, sc_nextId := 2,
     sc_queue := [\<lparr>task_id = 1, task_name = ''t'', task_data = 7\<rparr>],
     sc_scheduled := [\<lparr>task_id = 1, task_name = ''t'', task_data = 7\<rparr>], sc_result := (\<lambda>_. NoResult)(0 := TaskId 1)\<rparr>"

lemma scheduled_once_reachable: "reaches sched_step new_scheduler scheduled_once"
proof -
  let ?t = "\<lparr>task_id = 0, task_name = ''t'', task_data = 7\<rparr>"
  let ?a = "do_call 0 CallStart new_scheduler"
  let ?b = "new_scheduler\<lparr>sc_worker := AtTop, sc_joinable := True, sc_running := True\<rparr>"
  let ?c = "do_call 0 (CallSchedule ?t) ?b"
  have a: "reaches sched_step new_scheduler ?a"
    by (rule reaches_call [OF reaches.start]) (simp_all add: new_scheduler_def)
  have b: "reaches sched_step new_scheduler ?b"
    by (rule reaches_client [OF a, of 0]) (simp add: client_step_def do_call_def StartScheduler_def new_scheduler_def fun_eq_iff)
  have c: "reaches sched_step new_scheduler ?c"
    by (rule reaches_call [OF b]) (simp_all add: new_scheduler_def)
  have d: "reaches sched_step new_scheduler (?b\<lparr>sc_todo := (\<lambda>_. [])(0 := [Push ?t])\<rparr>)"
    by (rule reaches_client [OF c, of 0]) (simp add: client_step_def do_call_def ScheduleTask_def new_scheduler_def)
  show ?thesis
    by (rule reaches_client [OF d, of 0])
      (simp add: client_step_def new_scheduler_def scheduled_once_def push_task_def wake_def Let_def
        PLAYER_SCHEDULER_ID_DEFAULT_def PLAYER_SCHEDULER_ID_MAX_VALUE_def INT_MAX_def fun_eq_iff)
qed

theorem tasks_start_in_order_witness:
  "reaches sched_step new_scheduler scheduled_once \<and> sc_queue scheduled_once \<noteq> []
    \<and> subseq (sc_started scheduled_once @ sc_queue scheduled_once) (sc_scheduled scheduled_once)"
  by (intro conjI scheduled_once_reachable tasks_start_in_order) (simp add: scheduled_once_def)

lemma subseq_set: "subseq xs ys \<Longrightarrow> set xs \<subseteq> set ys"
  by (auto simp: subseq_conv_nths dest: in_set_nthsD)

lemma subseq_distinct: "subseq xs ys \<Longrightarrow> distinct ys \<Longrightarrow> distinct xs"
  by (auto simp: subseq_conv_nths)

definition few_tasks :: "sched \<Rightarrow> bool" where
  "few_tasks s \<longleftrightarrow> int (length (sc_scheduled s)) + 1 < PLAYER_SCHEDULER_ID_MAX_VALUE"

lemma scheduled_distinct: "queue_inv s \<Longrightarrow> few_tasks s \<Longrightarrow> distinct (map task_id (sc_scheduled s))"
  by (simp add: queue_inv_def few_tasks_def distinct_map del: map_append)

text \<open>Every task that is queued or was started has an identifier between \<open>1\<close> and \<open>INT_MAX - 1\<close>, and
  so has the next one, so the counter never overflows; while fewer than \<open>INT_MAX - 2\<close> tasks have
  been scheduled, all identifiers are different.\<close>

theorem task_ids_valid:
  assumes "reaches sched_step new_scheduler s"
  shows "valid_id (sc_nextId s) \<and> (\<forall>t \<in> set (sc_started s @ sc_queue s). valid_id (task_id t))
    \<and> (int (length (sc_scheduled s)) + 1 < PLAYER_SCHEDULER_ID_MAX_VALUE
         \<longrightarrow> distinct (map task_id (sc_started s @ sc_queue s)))"
proof -
  have inv: "queue_inv s" using scheduler.reachable_inv [OF assms] by (simp add: sched_inv_def)
  then have sub: "subseq (sc_started s @ sc_queue s) (sc_scheduled s)" by (simp add: queue_inv_def)
  show ?thesis
    using inv subseq_set [OF sub] subseq_distinct [OF subseq_map [OF sub, of task_id]] scheduled_distinct [OF inv]
    by (auto simp: queue_inv_def list_all_iff few_tasks_def)
qed

theorem task_ids_valid_witness:
  "valid_id (sc_nextId scheduled_once) \<and> distinct (map task_id (sc_started scheduled_once @ sc_queue scheduled_once))"
  using task_ids_valid [OF scheduled_once_reachable]
  by (simp add: scheduled_once_def new_scheduler_def)

text \<open>Once a task is neither queued nor started, it stays so: new tasks get new identifiers.\<close>

definition gone_for_good :: "int \<Rightarrow> sched \<Rightarrow> bool" where
  "gone_for_good i s \<longleftrightarrow>
     i \<in> task_id ` set (sc_scheduled s) \<and> i \<notin> task_id ` set (sc_started s @ sc_queue s)"

lemma gone_push:
  assumes "queue_inv s" and "few_tasks (snd (push_task obj s))" and "gone_for_good i s"
  shows "gone_for_good i (snd (push_task obj s))"
proof (cases "sc_lockOut s")
  case False
  have few: "int (length (sc_scheduled s)) + 1 < PLAYER_SCHEDULER_ID_MAX_VALUE"
    using assms(2) False by (simp add: few_tasks_def push_task_def Let_def)
  with assms(1) have ids: "map task_id (sc_scheduled s) = map int [1..<length (sc_scheduled s) + 1]"
    and nid: "sc_nextId s = int (length (sc_scheduled s)) + 1" by (simp_all add: queue_inv_def)
  have "task_id ` set (sc_scheduled s) = int ` set [1..<length (sc_scheduled s) + 1]"
    using arg_cong [OF ids, of set] by simp
  with assms(3) nid have "i \<noteq> sc_nextId s" by (auto simp: gone_for_good_def)
  then show ?thesis using assms(3) False by (auto simp: gone_for_good_def push_task_def Let_def)
qed (use assms in \<open>simp add: push_task_def\<close>)

lemma gone_update [simp]:
  "gone_for_good i (s\<lparr>sc_todo := f\<rparr>) = gone_for_good i s" "gone_for_good i (s\<lparr>sc_result := r\<rparr>) = gone_for_good i s"
  "gone_for_good i (s\<lparr>sc_fault := e\<rparr>) = gone_for_good i s" "gone_for_good i (s\<lparr>sc_worker := w\<rparr>) = gone_for_good i s"
  "gone_for_good i (s\<lparr>sc_running := b\<rparr>) = gone_for_good i s" "gone_for_good i (s\<lparr>sc_lockOut := b\<rparr>) = gone_for_good i s"
  "gone_for_good i (s\<lparr>sc_joinable := b\<rparr>) = gone_for_good i s" "gone_for_good i (s\<lparr>sc_exMutex := x\<rparr>) = gone_for_good i s"
  "gone_for_good i (s\<lparr>sc_exLock := b\<rparr>) = gone_for_good i s" "gone_for_good i (s\<lparr>sc_currentId := k\<rparr>) = gone_for_good i s"
  by (simp_all add: gone_for_good_def)

lemma gone_remove: "gone_for_good i s \<Longrightarrow> gone_for_good i (snd (remove_task k s))"
  by (auto simp: gone_for_good_def remove_task_def dest!: erase_id_SomeD split: option.splits)

lemma few_tasks_update [simp]:
  "few_tasks (s\<lparr>sc_todo := f\<rparr>) = few_tasks s" "few_tasks (s\<lparr>sc_result := r\<rparr>) = few_tasks s"
  by (simp_all add: few_tasks_def)

lemma gone_sect:
  "run_sect c x s = Some s' \<Longrightarrow> queue_inv s \<Longrightarrow> few_tasks s' \<Longrightarrow> gone_for_good i s \<Longrightarrow> gone_for_good i s'"
  using gone_push gone_remove
  by (cases x) (auto simp: split_def Let_def gone_for_good_def [of _ "s\<lparr>sc_queue := []\<rparr>"] split: if_splits,
      auto simp: gone_for_good_def)

lemma gone_worker: "ExecuteAsyncTask s = Some s' \<Longrightarrow> gone_for_good i s \<Longrightarrow> gone_for_good i s'"
  by (auto simp: ExecuteAsyncTask_def gone_for_good_def split: if_splits worker.splits list.splits)

lemma scheduled_grows:
  assumes "sched_step s s'"
  shows "length (sc_scheduled s) \<le> length (sc_scheduled s')"
  using assms
proof cases
  case (client c)
  have "run_sect c x t = Some s' \<Longrightarrow> length (sc_scheduled t) \<le> length (sc_scheduled s')" for c x t
    by (cases x) (auto simp: split_def Let_def push_task_def remove_task_def split: if_splits option.splits)
  then show ?thesis using client by (fastforce simp: client_step_def split: if_splits list.splits)
next
  case worker
  then show ?thesis by (auto simp: ExecuteAsyncTask_def split: if_splits worker.splits list.splits)
qed auto

lemma gone_step:
  assumes "sched_step s s'" and "sched_inv s" and "few_tasks s' \<longrightarrow> few_tasks s"
    and "few_tasks s \<longrightarrow> gone_for_good i s"
  shows "few_tasks s' \<longrightarrow> gone_for_good i s'"
  using assms(1)
proof cases
  case (client c)
  then obtain x xs where run: "run_sect c x (s\<lparr>sc_todo := (sc_todo s)(c := xs)\<rparr>) = Some s'"
    by (auto simp: client_step_def split: if_splits list.splits)
  show ?thesis using gone_sect [OF run] assms by (simp add: sched_inv_def)
next
  case worker
  then show ?thesis using gone_worker assms by blast
qed (use assms in \<open>auto simp: few_tasks_def\<close>)

text \<open>C9: A removed task never runs: when \<open>RemoveTask\<close> reports success in a reachable state, the task
  with that identifier had been scheduled, it has not been started, and in no state that the
  system reaches afterwards has it been started or queued again, as long as fewer than
  \<open>INT_MAX - 2\<close> tasks have been scheduled, after which identifiers repeat.\<close>

theorem removed_task_never_starts:
  assumes "reaches sched_step new_scheduler s" and "remove_task i s = (Removed True, s1)"
    and "reaches sched_step s1 t" and "few_tasks t"
  shows "i \<in> task_id ` set (sc_scheduled t) \<and> i \<notin> task_id ` set (sc_started t @ sc_queue t)"
proof -
  have inv: "sched_inv s" by (rule scheduler.reachable_inv [OF assms(1)])
  have s1: "s1 = snd (remove_task i s)" using assms(2) by simp
  have inv1: "sched_inv s1" using inv lock_inv_remove queue_inv_remove unfolding s1 sched_inv_def by blast
  have "gone_for_good i s1" if "few_tasks s1"
  proof -
    from assms(2) obtain q where q: "erase_id i (sc_queue s) = Some q" "s1 = s\<lparr>sc_queue := q\<rparr>"
      by (auto simp: remove_task_def split: if_splits option.splits)
    from erase_id_SomeD [OF q(1)] obtain pre x post where
      x: "sc_queue s = pre @ x # post" "task_id x = i" "q = pre @ post" by blast
    have sub: "subseq (sc_started s @ sc_queue s) (sc_scheduled s)"
      using inv by (simp add: sched_inv_def queue_inv_def)
    have few: "few_tasks s" using that q(2) by (simp add: few_tasks_def)
    have "distinct (map task_id (sc_started s @ sc_queue s))"
      by (rule subseq_distinct [OF subseq_map [OF sub] scheduled_distinct]) (use inv few in \<open>auto simp: sched_inv_def\<close>)
    with x have "i \<notin> task_id ` set (sc_started s @ pre @ post)" by auto
    moreover have "i \<in> task_id ` set (sc_scheduled s)" using x subseq_set [OF sub] by auto
    ultimately show ?thesis using q(2) x(3) by (simp add: gone_for_good_def)
  qed
  with assms(3) inv1 have "sched_inv t \<and> (few_tasks t \<longrightarrow> gone_for_good i t)"
  proof (induction rule: reaches.induct)
    case (step u v)
    have "few_tasks v \<longrightarrow> few_tasks u" using scheduled_grows [OF step.hyps(2)] by (simp add: few_tasks_def)
    then show ?case using step gone_step [OF step.hyps(2)] scheduler.inv_step by blast
  qed simp
  then show ?thesis using assms(4) by (simp add: gone_for_good_def)
qed

theorem removed_task_never_starts_witness:
  "\<exists>s1. remove_task 1 scheduled_once = (Removed True, s1) \<and> 1 \<notin> task_id ` set (sc_started s1 @ sc_queue s1)"
proof -
  let ?s1 = "scheduled_once\<lparr>sc_queue := []\<rparr>"
  have r: "remove_task 1 scheduled_once = (Removed True, ?s1)"
    by (simp add: remove_task_def scheduled_once_def new_scheduler_def PLAYER_TASK_ID_INVALID_def)
  have "few_tasks ?s1"
    by (simp add: few_tasks_def scheduled_once_def PLAYER_SCHEDULER_ID_MAX_VALUE_def INT_MAX_def)
  from removed_task_never_starts [OF scheduled_once_reachable r reaches.start this] r show ?thesis by blast
qed

section \<open>Stopping\<close>

text \<open>A client running its sections without interference.\<close>

primrec run_client :: "nat \<Rightarrow> nat \<Rightarrow> sched \<Rightarrow> sched" where
  "run_client 0 c s = s"
| "run_client (Suc n) c s = (case client_step c s of None \<Rightarrow> s | Some s' \<Rightarrow> run_client n c s')"

text \<open>\<open>EnableScheduleTask\<close> between \<open>SuspendScheduler\<close> and \<open>StopScheduler\<close> makes stopping fail: the
  suspended scheduler no longer looks suspended, so \<open>StopScheduler\<close> suspends it again, and locking
  the \<^verbatim>\<open>std::unique_lock\<close> that is held already throws, in whatever state the worker is.\<close>

theorem enable_then_stop_throws:
  assumes "sc_exLock s" and "sc_todo s c = []" and "sc_fault s = None"
  shows "sc_fault (run_client 3 c (do_call c CallStop (run_client 1 c (do_call c CallEnable s)))) = Some Thrown"
  using assms
  by (simp add: do_call_def client_step_def EnableScheduleTask_def StopScheduler_def SuspendScheduler_def
      eval_nat_numeral)

theorem enable_then_stop_throws_witness:
  "sc_fault (run_client 3 0 (do_call 0 CallStop (run_client 1 0 (do_call 0 CallEnable suspended_state)))) = Some Thrown"
  by (rule enable_then_stop_throws) (simp_all add: suspended_state_def new_scheduler_def)

primrec run_worker :: "nat \<Rightarrow> sched \<Rightarrow> sched" where
  "run_worker 0 s = s"
| "run_worker (Suc n) s = (case ExecuteAsyncTask s of None \<Rightarrow> s | Some s' \<Rightarrow> run_worker n s')"

text \<open>\<open>StopScheduler\<close> does not wait for ever: in any reachable state in which the scheduler was told to
  stop, is not suspended, and the worker was started and does not sleep (the state when
  \<open>StopScheduler\<close> begins to wait for it), the worker ends after at most four steps of its own, one
  of which may be the task it is executing.\<close>

theorem stopped_worker_exits:
  assumes "reaches sched_step new_scheduler s" and "\<not> sc_running s" and "\<not> sc_exLock s"
    and "sc_worker s \<noteq> Waiting" and "sc_worker s \<noteq> NotStarted" and "sc_fault s = None"
  shows "sc_worker (run_worker 4 s) = Exited"
proof -
  have "lock_inv s" using scheduler.reachable_inv [OF assms(1)] by (simp add: sched_inv_def)
  then have "sc_exMutex s = Free" if "\<not> holds_ex (sc_worker s)"
    using that assms(3) by (cases "sc_exMutex s") (auto simp: lock_inv_def)
  then show ?thesis
    using assms by (cases "sc_worker s"; cases "sc_queue s")
      (auto simp: ExecuteAsyncTask_def eval_nat_numeral)
qed

theorem stopped_worker_exits_witness:
  "\<exists>s. reaches sched_step new_scheduler s \<and> sc_worker s = AtTop \<and> sc_worker (run_worker 4 s) = Exited"
proof -
  let ?a = "do_call 0 CallStop scheduled_once"
  let ?b = "?a\<lparr>sc_todo := (\<lambda>_. [])(0 := TestLockOut # RemoveAllTasks @ ResumeScheduler @ [Notify, Join]), sc_running := False\<rparr>"
  have a: "reaches sched_step new_scheduler ?a"
    by (rule reaches_call [OF scheduled_once_reachable]) (simp_all add: scheduled_once_def new_scheduler_def)
  have b: "reaches sched_step new_scheduler ?b"
    by (rule reaches_client [OF a, of 0])
      (simp add: client_step_def do_call_def StopScheduler_def scheduled_once_def new_scheduler_def fun_eq_iff)
  from stopped_worker_exits [OF b] show ?thesis
    using b by (intro exI [of _ ?b]) (simp add: scheduled_once_def new_scheduler_def do_call_def)
qed

end
