(* ===== verification/Handler_Control.thy ===== *)
theory Handler_Control
  imports Player_Prelude
begin

text \<open>
  \<^verbatim>\<open>GstHandlerControl.cpp\<close> and \<^verbatim>\<open>GstHandlerControl.h\<close>: the controllers that count the running instances of
  GStreamer handlers, and the movable scope helpers that do the counting. Controllers and helper objects
  have numbers; \<open>hc_helper h\<close> is the \<^verbatim>\<open>mpController\<close> of helper \<open>h\<close>, \<open>None\<close> for a null pointer and for an object
  that does not exist. Every method runs under \<^verbatim>\<open>mSync\<close> and is one step.

  Two fields are history: \<open>hc_active\<close> holds the helpers whose handler was told to go on by
  \<open>returnStraightAway\<close>, and \<open>hc_done c\<close> says that \<open>waitForDone\<close> on \<open>c\<close> returned true while the
  controller was disabled and that it has not been enabled since.
\<close>

record control =
  mEnabled :: bool
  mInstanceCount :: int
  mLoggedNegative :: bool

record handlers =
  hc_control :: "nat \<Rightarrow> control"
  hc_helper :: "nat \<Rightarrow> nat option"
  hc_active :: "nat set"
  hc_done :: "nat \<Rightarrow> bool"

definition GstHandlerControl :: control where
  "GstHandlerControl = \<lparr>mEnabled = True, mInstanceCount = 0, mLoggedNegative = False\<rparr>"

definition new_handlers :: handlers where
  "new_handlers = \<lparr>hc_control = (\<lambda>_. GstHandlerControl), hc_helper = (\<lambda>_. None), hc_active = {}, hc_done = (\<lambda>_. False)\<rparr>"

section \<open>The controller\<close>

definition handlerEnd :: "control \<Rightarrow> control" where
  "handlerEnd k =
     (let n = mInstanceCount k - 1
      in if n < 0 then k\<lparr>mInstanceCount := 0, mLoggedNegative := True\<rparr> else k\<lparr>mInstanceCount := n\<rparr>)"

definition isEnabled :: "control \<Rightarrow> bool" where "isEnabled k = mEnabled k"

definition enable :: "control \<Rightarrow> control" where "enable k = k\<lparr>mEnabled := True\<rparr>"

definition disable :: "control \<Rightarrow> control" where "disable k = k\<lparr>mEnabled := False\<rparr>"

definition instancesRunning :: "control \<Rightarrow> int" where "instancesRunning k = mInstanceCount k"

definition on_control :: "nat \<Rightarrow> (control \<Rightarrow> control) \<Rightarrow> handlers \<Rightarrow> handlers" where
  "on_control c f s = s\<lparr>hc_control := (hc_control s)(c := f (hc_control s c))\<rparr>"

definition getScopeHelper :: "nat \<Rightarrow> nat \<Rightarrow> handlers \<Rightarrow> handlers" where
  "getScopeHelper c h s =
     (on_control c (\<lambda>k. k\<lparr>mInstanceCount := mInstanceCount k + 1\<rparr>) s)\<lparr>hc_helper := (hc_helper s)(h := Some c)\<rparr>"

section \<open>The scope helper\<close>

definition signal_end :: "nat \<Rightarrow> handlers \<Rightarrow> handlers" where
  "signal_end h s = (case hc_helper s h of None \<Rightarrow> s | Some c \<Rightarrow> on_control c handlerEnd s)"

text \<open>The handler that owns \<open>g\<close> now owns \<open>h\<close>.\<close>

definition hand_over :: "nat \<Rightarrow> nat \<Rightarrow> nat set \<Rightarrow> nat set" where
  "hand_over g h A = (if g \<in> A \<and> h \<noteq> g then insert h (A - {g}) else A - {g, h})"

definition move_construct :: "nat \<Rightarrow> nat \<Rightarrow> handlers \<Rightarrow> handlers" where
  "move_construct h other s =
     s\<lparr>hc_helper := (hc_helper s)(h := hc_helper s other, other := None),
       hc_active := hand_over other h (hc_active s)\<rparr>"

definition move_assign :: "nat \<Rightarrow> nat \<Rightarrow> handlers \<Rightarrow> handlers" where
  "move_assign h other s =
     (let s1 = signal_end h s
      in s1\<lparr>hc_helper := (hc_helper s1)(h := hc_helper s1 other, other := None),
            hc_active := hand_over other h (hc_active s1)\<rparr>)"

definition destroy_helper :: "nat \<Rightarrow> handlers \<Rightarrow> handlers" where
  "destroy_helper h s =
     (let s1 = signal_end h s in s1\<lparr>hc_helper := (hc_helper s1)(h := None), hc_active := hc_active s1 - {h}\<rparr>)"

definition returnStraightAway :: "nat \<Rightarrow> handlers \<Rightarrow> bool" where
  "returnStraightAway h s =
     (case hc_helper s h of None \<Rightarrow> True | Some c \<Rightarrow> \<not> isEnabled (hc_control s c))"

text \<open>\<open>waitForDone\<close> disables the controller, waits with the lock released, and returns with the lock
  held: true exactly when no instance is running, else false once the time is over.\<close>

definition waitForDone_begin :: "nat \<Rightarrow> handlers \<Rightarrow> handlers" where
  "waitForDone_begin c s = on_control c disable s"

definition waitForDone_result :: "nat \<Rightarrow> bool \<Rightarrow> handlers \<Rightarrow> bool option" where
  "waitForDone_result c timeOver s =
     (if mInstanceCount (hc_control s c) \<noteq> 0 \<and> \<not> timeOver then None
      else Some (mInstanceCount (hc_control s c) = 0))"

section \<open>Steps\<close>

inductive handler_step :: "handlers \<Rightarrow> handlers \<Rightarrow> bool" where
  enter: "hc_helper s h = None \<Longrightarrow> h \<notin> hc_active s \<Longrightarrow> handler_step s (getScopeHelper c h s)"
| test: "\<not> returnStraightAway h s \<Longrightarrow> handler_step s (s\<lparr>hc_active := insert h (hc_active s)\<rparr>)"
| move: "hc_helper s h = None \<Longrightarrow> h \<noteq> g \<Longrightarrow> handler_step s (move_construct h g s)"
| assign: "handler_step s (move_assign h g s)"
| destroy: "handler_step s (destroy_helper h s)"
| enable: "handler_step s ((on_control c enable s)\<lparr>hc_done := (hc_done s)(c := False)\<rparr>)"
| disable: "handler_step s (on_control c disable s)"
| wait_begin: "handler_step s (waitForDone_begin c s)"
| wait_done: "waitForDone_result c t s = Some True
    \<Longrightarrow> handler_step s (s\<lparr>hc_done := (hc_done s)(c := hc_done s c \<or> \<not> isEnabled (hc_control s c))\<rparr>)"

section \<open>The invariant\<close>

definition holders :: "handlers \<Rightarrow> nat \<Rightarrow> nat set" where
  "holders s c = {h. hc_helper s h = Some c}"

definition handler_inv :: "handlers \<Rightarrow> bool" where
  "handler_inv s \<longleftrightarrow>
     finite {h. hc_helper s h \<noteq> None} \<and> (\<forall>h \<in> hc_active s. hc_helper s h \<noteq> None)
     \<and> (\<forall>c. mInstanceCount (hc_control s c) = int (card (holders s c)) \<and> \<not> mLoggedNegative (hc_control s c)
          \<and> (hc_done s c \<longrightarrow> \<not> mEnabled (hc_control s c) \<and> (\<forall>h \<in> hc_active s. hc_helper s h \<noteq> Some c)))"

lemma handler_invI:
  assumes "finite {h. hc_helper s h \<noteq> None}" and "\<And>h. h \<in> hc_active s \<Longrightarrow> hc_helper s h \<noteq> None"
    and "\<And>c. mInstanceCount (hc_control s c) = int (card (holders s c))"
    and "\<And>c. \<not> mLoggedNegative (hc_control s c)"
    and "\<And>c. hc_done s c \<Longrightarrow> \<not> mEnabled (hc_control s c)"
    and "\<And>c h. hc_done s c \<Longrightarrow> h \<in> hc_active s \<Longrightarrow> hc_helper s h \<noteq> Some c"
  shows "handler_inv s"
  using assms by (simp add: handler_inv_def)

lemma handler_invD:
  assumes "handler_inv s"
  shows "finite {h. hc_helper s h \<noteq> None}" and "h \<in> hc_active s \<Longrightarrow> hc_helper s h \<noteq> None"
    and "mInstanceCount (hc_control s c) = int (card (holders s c))"
    and "\<not> mLoggedNegative (hc_control s c)"
    and "hc_done s c \<Longrightarrow> \<not> mEnabled (hc_control s c)"
    and "hc_done s c \<Longrightarrow> h \<in> hc_active s \<Longrightarrow> hc_helper s h \<noteq> Some c"
  using assms by (auto simp: handler_inv_def)

lemma holders_finite: "handler_inv s \<Longrightarrow> finite (holders s c)"
  unfolding handler_inv_def holders_def by (rule finite_subset [of _ "{h. hc_helper s h \<noteq> None}"]) auto

lemma control_on [simp]:
  "hc_control (on_control c f s) d = (if d = c then f (hc_control s c) else hc_control s d)"
  "hc_helper (on_control c f s) = hc_helper s" "hc_active (on_control c f s) = hc_active s"
  "hc_done (on_control c f s) = hc_done s"
  by (simp_all add: on_control_def)

lemma handlerEnd_counts:
  assumes "handler_inv s" and "hc_helper s h = Some c"
  shows "mInstanceCount (handlerEnd (hc_control s c)) = int (card (holders s c - {h}))"
    and "\<not> mLoggedNegative (handlerEnd (hc_control s c))"
    and "mEnabled (handlerEnd (hc_control s c)) = mEnabled (hc_control s c)"
proof -
  have fin: "finite (holders s c)" using assms(1) by (rule holders_finite)
  have h: "h \<in> holders s c" using assms(2) by (simp add: holders_def)
  have "int (card (holders s c)) = int (card (holders s c - {h})) + 1"
    using card_Suc_Diff1 [OF fin h] by simp
  moreover have "mInstanceCount (hc_control s c) = int (card (holders s c))" "\<not> mLoggedNegative (hc_control s c)"
    using assms(1) by (auto simp: handler_inv_def)
  ultimately show "mInstanceCount (handlerEnd (hc_control s c)) = int (card (holders s c - {h}))"
    and "\<not> mLoggedNegative (handlerEnd (hc_control s c))"
    and "mEnabled (handlerEnd (hc_control s c)) = mEnabled (hc_control s c)"
    by (auto simp: handlerEnd_def Let_def)
qed

text \<open>Taking helper \<open>h\<close> out of use keeps the invariant: both the destructor and the move assignment begin
  with it.\<close>

lemma inv_destroy:
  assumes inv: "handler_inv s"
  shows "handler_inv (destroy_helper h s)"
proof (cases "hc_helper s h")
  case None
  then have "destroy_helper h s = s\<lparr>hc_helper := (hc_helper s)(h := None), hc_active := hc_active s - {h}\<rparr>"
    by (simp add: destroy_helper_def signal_end_def)
  moreover have "(hc_helper s)(h := None) = hc_helper s" using None by auto
  ultimately show ?thesis using inv by (auto simp: handler_inv_def holders_def)
next
  case (Some c)
  let ?s = "destroy_helper h s"
  have hlp: "hc_helper ?s = (hc_helper s)(h := None)" and act: "hc_active ?s = hc_active s - {h}"
    and dn: "hc_done ?s = hc_done s"
    and ctl: "hc_control ?s d = (if d = c then handlerEnd (hc_control s c) else hc_control s d)" for d
    using Some by (simp_all add: destroy_helper_def signal_end_def)
  have hold: "holders ?s d = (if d = c then holders s c - {h} else holders s d)" for d
    using Some by (auto simp: holders_def hlp)
  have "finite {k. hc_helper ?s k \<noteq> None}"
    by (rule finite_subset [of _ "{k. hc_helper s k \<noteq> None}"]) (use inv in \<open>auto simp: hlp handler_inv_def\<close>)
  then show ?thesis
    using inv handlerEnd_counts [OF inv Some] unfolding handler_inv_def act dn
    by (auto simp: hlp ctl hold)
qed

lemma inv_move:
  assumes inv: "handler_inv s" and free: "hc_helper s h = None" and ne: "h \<noteq> g"
  shows "handler_inv (move_construct h g s)"
proof -
  let ?s = "move_construct h g s"
  have hold: "card (holders ?s c) = card (holders s c)" for c
  proof (cases "hc_helper s g = Some c")
    case True
    have "holders ?s c = insert h (holders s c - {g})"
      using True free ne by (auto simp: holders_def move_construct_def)
    moreover have "g \<in> holders s c" "h \<notin> holders s c - {g}" using True free by (simp_all add: holders_def)
    ultimately show ?thesis
      using holders_finite [OF inv, of c] card_Suc_Diff1 [of "holders s c" g] by (metis card_insert_disjoint finite_Diff)
  next
    case False
    then have "holders ?s c = holders s c" using free ne by (auto simp: holders_def move_construct_def)
    then show ?thesis by simp
  qed
  show ?thesis
  proof (rule handler_invI)
    show "finite {k. hc_helper ?s k \<noteq> None}"
      by (rule finite_subset [of _ "insert h {k. hc_helper s k \<noteq> None}"])
        (use handler_invD(1) [OF inv] in \<open>auto simp: move_construct_def\<close>)
    show "hc_helper ?s k \<noteq> None" if "k \<in> hc_active ?s" for k
      using that handler_invD(2) [OF inv] ne
      by (auto simp: move_construct_def hand_over_def split: if_splits)
    show "mInstanceCount (hc_control ?s c) = int (card (holders ?s c))" for c
      unfolding hold using handler_invD(3) [OF inv] by (simp add: move_construct_def)
    show "\<not> mLoggedNegative (hc_control ?s c)" for c
      using handler_invD(4) [OF inv] by (simp add: move_construct_def)
    show "\<not> mEnabled (hc_control ?s c)" if "hc_done ?s c" for c
      using that handler_invD(5) [OF inv] by (simp add: move_construct_def)
    show "hc_helper ?s k \<noteq> Some c" if "hc_done ?s c" "k \<in> hc_active ?s" for c k
      using that handler_invD(6) [OF inv, of c] ne
      by (auto simp: move_construct_def hand_over_def split: if_splits)
  qed
qed

text \<open>A move assignment is the end of what the target held, followed by a move into a free helper.\<close>

lemma hand_over_other: "h \<noteq> g \<Longrightarrow> hand_over g h (A - {h}) = hand_over g h A"
  by (auto simp: hand_over_def)

lemma move_assign_destroy:
  "h \<noteq> g \<Longrightarrow> move_assign h g s = move_construct h g (destroy_helper h s)"
  by (auto simp: move_assign_def move_construct_def destroy_helper_def Let_def signal_end_def hand_over_other
      split: option.splits)

lemma move_assign_self: "move_assign h h s = destroy_helper h s"
  by (auto simp: move_assign_def destroy_helper_def Let_def hand_over_def)

lemma inv_assign: "handler_inv s \<Longrightarrow> handler_inv (move_assign h g s)"
proof (cases "h = g")
  case False
  assume "handler_inv s"
  then have "handler_inv (destroy_helper h s)" by (rule inv_destroy)
  then show ?thesis
    unfolding move_assign_destroy [OF False] by (rule inv_move [OF _ _ False]) (simp add: destroy_helper_def Let_def)
qed (simp add: move_assign_self inv_destroy)

lemma inv_enter:
  assumes inv: "handler_inv s" and free: "hc_helper s h = None" "h \<notin> hc_active s"
  shows "handler_inv (getScopeHelper c h s)"
proof -
  let ?s = "getScopeHelper c h s"
  have hold: "holders ?s d = (if d = c then insert h (holders s c) else holders s d)" for d
    using free by (auto simp: holders_def getScopeHelper_def)
  have new: "h \<notin> holders s c" using free by (simp add: holders_def)
  show ?thesis
  proof (rule handler_invI)
    show "finite {k. hc_helper ?s k \<noteq> None}"
      by (rule finite_subset [of _ "insert h {k. hc_helper s k \<noteq> None}"])
        (use handler_invD(1) [OF inv] in \<open>auto simp: getScopeHelper_def\<close>)
    show "mInstanceCount (hc_control ?s d) = int (card (holders ?s d))" for d
      unfolding hold using handler_invD(3) [OF inv] new holders_finite [OF inv]
      by (simp add: getScopeHelper_def)
  qed (use handler_invD [OF inv] free in \<open>auto simp: getScopeHelper_def split: if_splits\<close>)
qed

lemma inv_update:
  assumes inv: "handler_inv s" and "\<And>d. mInstanceCount (k d) = mInstanceCount (hc_control s d)"
    and "\<And>d. mLoggedNegative (k d) = mLoggedNegative (hc_control s d)"
    and "\<And>d. dn d \<Longrightarrow> \<not> mEnabled (k d)"
    and "\<And>d h. dn d \<Longrightarrow> h \<in> hc_active s \<Longrightarrow> hc_helper s h \<noteq> Some d"
  shows "handler_inv (s\<lparr>hc_control := k, hc_done := dn\<rparr>)"
  using assms handler_invD [OF inv] by (intro handler_invI) (auto simp: holders_def)

lemma active_holds: "handler_inv s \<Longrightarrow> mInstanceCount (hc_control s c) = 0 \<Longrightarrow> hc_helper s h \<noteq> Some c"
  using handler_invD(3) [of s c] holders_finite [of s c] by (auto simp: holders_def)

interpretation handler_system: invariant_system handler_step new_handlers handler_inv
proof
  show "handler_inv new_handlers"
    by (simp add: handler_inv_def new_handlers_def GstHandlerControl_def holders_def)
  fix s s' assume inv: "handler_inv s" and "handler_step s s'"
  from this(2) show "handler_inv s'"
  proof cases
    case (enter h c)
    then show ?thesis using inv_enter [OF inv] by simp
  next
    case (test h)
    then obtain c where "hc_helper s h = Some c" "mEnabled (hc_control s c)"
      by (auto simp: returnStraightAway_def isEnabled_def split: option.splits)
    then show ?thesis using handler_invD [OF inv] unfolding test(1)
      by (intro handler_invI) (auto simp: holders_def)
  next
    case (move h g)
    then show ?thesis using inv_move [OF inv] by simp
  next
    case (assign h g)
    then show ?thesis using inv_assign [OF inv] by simp
  next
    case (destroy h)
    then show ?thesis using inv_destroy [OF inv] by simp
  next
    case (enable c)
    then show ?thesis
      using inv_update [OF inv, of "(hc_control s)(c := enable (hc_control s c))" "(hc_done s)(c := False)"]
        handler_invD(5,6) [OF inv] by (auto simp: on_control_def enable_def split: if_splits)
  next
    case (disable c)
    then show ?thesis
      using inv_update [OF inv, of "(hc_control s)(c := disable (hc_control s c))" "hc_done s"]
        handler_invD(5,6) [OF inv] by (auto simp: on_control_def disable_def)
  next
    case (wait_begin c)
    then show ?thesis
      using inv_update [OF inv, of "(hc_control s)(c := disable (hc_control s c))" "hc_done s"]
        handler_invD(5,6) [OF inv] by (auto simp: on_control_def disable_def waitForDone_begin_def)
  next
    case (wait_done c t)
    then have zero: "mInstanceCount (hc_control s c) = 0"
      by (auto simp: waitForDone_result_def split: if_splits)
    let ?dn = "(hc_done s)(c := hc_done s c \<or> \<not> isEnabled (hc_control s c))"
    have "handler_inv (s\<lparr>hc_control := hc_control s, hc_done := ?dn\<rparr>)"
      by (rule inv_update [OF inv])
        (use handler_invD(5,6) [OF inv] active_holds [OF inv zero] in \<open>auto simp: isEnabled_def split: if_splits\<close>)
    then show ?thesis unfolding wait_done(1) by simp
  qed
qed

text \<open>The instance count is exact in every interleaving of handlers that enter, move their helpers by
  construction or assignment (to themselves included) and leave: each controller counts precisely the
  helpers that refer to it, and the correction of a negative count is never needed.\<close>

theorem instance_count_exact:
  assumes "reaches handler_step new_handlers s"
  shows "instancesRunning (hc_control s c) = int (card {h. hc_helper s h = Some c})
    \<and> \<not> mLoggedNegative (hc_control s c)"
  using handler_invD(3,4) [OF handler_system.reachable_inv [OF assms]]
  by (simp add: instancesRunning_def holders_def)

theorem instance_count_exact_witness:
  "instancesRunning (hc_control (getScopeHelper 4 1 new_handlers) 4)
     = int (card {h. hc_helper (getScopeHelper 4 1 new_handlers) h = Some 4})"
proof -
  have "reaches handler_step new_handlers (getScopeHelper 4 1 new_handlers)"
    by (rule reaches.step [OF reaches.start], rule handler_step.enter) (simp_all add: new_handlers_def)
  from instance_count_exact [OF this] show ?thesis by blast
qed

text \<open>C10: \<open>waitForDone\<close> keeps its promise: once it has returned true on a disabled controller, and until the
  controller is enabled again, no handler of that controller is acting, in whatever way handlers
  come and go afterwards. Handlers that still enter return straight away.\<close>

theorem waitForDone_excludes_handlers:
  assumes "reaches handler_step new_handlers s" and "hc_done s c"
  shows "(\<forall>h \<in> hc_active s. hc_helper s h \<noteq> Some c) \<and> (\<forall>h. hc_helper s h = Some c \<longrightarrow> returnStraightAway h s)"
  using handler_invD(5,6) [OF handler_system.reachable_inv [OF assms(1)] assms(2)]
  by (auto simp: returnStraightAway_def isEnabled_def)

theorem waitForDone_excludes_handlers_witness:
  "\<exists>s. hc_done s 4 \<and> hc_helper s 1 = Some 4 \<and> returnStraightAway 1 s"
proof -
  let ?a = "waitForDone_begin 4 new_handlers"
  let ?b = "?a\<lparr>hc_done := (hc_done ?a)(4 := hc_done ?a 4 \<or> \<not> isEnabled (hc_control ?a 4))\<rparr>"
  let ?c = "getScopeHelper 4 1 ?b"
  have a: "reaches handler_step new_handlers ?a"
    by (rule reaches.step [OF reaches.start], rule handler_step.wait_begin)
  have b: "reaches handler_step new_handlers ?b"
    by (rule reaches.step [OF a], rule handler_step.wait_done [of 4 False])
      (simp add: waitForDone_result_def waitForDone_begin_def disable_def new_handlers_def GstHandlerControl_def)
  have c: "reaches handler_step new_handlers ?c"
    by (rule reaches.step [OF b], rule handler_step.enter) (simp_all add: new_handlers_def waitForDone_begin_def)
  have d: "hc_done ?c 4" "hc_helper ?c 1 = Some 4"
    by (simp_all add: getScopeHelper_def waitForDone_begin_def disable_def isEnabled_def)
  from waitForDone_excludes_handlers [OF c d(1)] d show ?thesis by blast
qed

end
