(* ===== verification/Subtec_Packet.thy ===== *)
theory Subtec_Packet
  imports Player_Prelude
begin

text \<open>
  The datagrams of the subtitle renderer: \<^verbatim>\<open>subtec/libsubtec/SubtecPacket.hpp\<close>, \<^verbatim>\<open>TtmlPacket.hpp\<close>,
  \<^verbatim>\<open>WebVttPacket.hpp\<close> and \<^verbatim>\<open>ClosedCaptionsPacket.hpp\<close>. A packet object is its buffer and its counter. All
  numbers are little-endian. The receiver is another program: \<open>read_packet\<close> states the layout that the
  comments of the header files document, as a decoder.
\<close>

section \<open>Little-endian numbers\<close>

definition u32_le :: "u32 \<Rightarrow> byte list" where
  "u32_le v = [ucast v, ucast (drop_bit 8 v), ucast (drop_bit 16 v), ucast (drop_bit 24 v)]"

definition le_u32 :: "byte list \<Rightarrow> u32" where
  "le_u32 bs = be_u32 (rev bs)"

lemma u32_le_rev: "u32_le v = rev (u32_be v)"
  by (simp add: u32_le_def u32_be_def)

definition u64_le :: "u64 \<Rightarrow> byte list" where
  "u64_le v = u32_le (ucast v) @ u32_le (ucast (drop_bit 32 v))"

definition le_u64 :: "byte list \<Rightarrow> u64" where
  "le_u64 bs = be_u64 (rev bs)"

interpretation u32le: byte_codec u32_le le_u32 4
  by unfold_locales (simp_all add: u32_le_rev le_u32_def)

interpretation u64le: byte_codec u64_le le_u64 8
proof
  fix v :: u64
  have r: "u64_le v = rev (u64_be v)" by (simp add: u64_le_def u64_be_def u32_le_rev)
  show "length (u64_le v) = 8" unfolding r by simp
  show "le_u64 (u64_le v) = v" unfolding r by (simp add: le_u64_def)
qed

section \<open>Packet types\<close>

datatype packet_type = ZERO | PES_DATA | TIMESTAMP | RESET_ALL | RESET_CHANNEL | SUBTITLE_SELECTION
  | TELETEXT_SELECTION | TTML_SELECTION | TTML_DATA | TTML_TIMESTAMP | CC_DATA | PAUSE | RESUME | MUTE
  | UNMUTE | WEBVTT_SELECTION | WEBVTT_DATA | WEBVTT_TIMESTAMP | CC_SET_ATTRIBUTE | INVALID

fun type_code :: "packet_type \<Rightarrow> u32" where
  "type_code ZERO = 0"
| "type_code PES_DATA = 1"
| "type_code TIMESTAMP = 2"
| "type_code RESET_ALL = 3"
| "type_code RESET_CHANNEL = 4"
| "type_code SUBTITLE_SELECTION = 5"
| "type_code TELETEXT_SELECTION = 6"
| "type_code TTML_SELECTION = 7"
| "type_code TTML_DATA = 8"
| "type_code TTML_TIMESTAMP = 9"
| "type_code CC_DATA = 10"
| "type_code PAUSE = 11"
| "type_code RESUME = 12"
| "type_code MUTE = 13"
| "type_code UNMUTE = 14"
| "type_code WEBVTT_SELECTION = 15"
| "type_code WEBVTT_DATA = 16"
| "type_code WEBVTT_TIMESTAMP = 17"
| "type_code CC_SET_ATTRIBUTE = 18"
| "type_code INVALID = 0xFFFFFFFF"

record packet =
  m_buffer :: "byte list"
  pkt_counter :: u32

definition new_packet :: "u32 \<Rightarrow> packet" where
  "new_packet counter = \<lparr>m_buffer = [], pkt_counter = counter\<rparr>"

definition default_packet :: packet where
  "default_packet = new_packet 0xFFFFFFFF"

definition append32 :: "u32 \<Rightarrow> packet \<Rightarrow> packet" where
  "append32 v p = p\<lparr>m_buffer := m_buffer p @ u32_le v\<rparr>"

definition append64 :: "u64 \<Rightarrow> packet \<Rightarrow> packet" where
  "append64 v p = append32 (ucast (drop_bit 32 v)) (append32 (ucast v) p)"

definition appendType :: "packet_type \<Rightarrow> packet \<Rightarrow> packet" where
  "appendType t p = append32 (type_code t) p"

definition append_data :: "byte list \<Rightarrow> packet \<Rightarrow> packet" where
  "append_data bs p = p\<lparr>m_buffer := m_buffer p @ bs\<rparr>"

text \<open>The mask in \<open>getType\<close> applies after the shift, so only the first byte counts.\<close>

definition getType_packet :: "packet \<Rightarrow> u32" where
  "getType_packet p =
     (if 4 \<le> length (m_buffer p) then
        (\<Sum>i \<leftarrow> [0..<4]. push_bit (i * 8) (ucast (m_buffer p ! i)) AND 0xFF)
      else 0)"

definition type_strings :: "(packet_type \<times> string) list" where
  "type_strings = [(PES_DATA, ''PES_DATA''), (TIMESTAMP, ''TIMESTAMP''), (RESET_ALL, ''RESET_ALL''),
     (RESET_CHANNEL, ''RESET_CHANNEL''), (SUBTITLE_SELECTION, ''SUBTITLE_SELECTION''),
     (TELETEXT_SELECTION, ''TELETEXT_SELECTION''), (TTML_SELECTION, ''TTML_SELECTION''),
     (TTML_DATA, ''TTML_DATA''), (TTML_TIMESTAMP, ''TTML_TIMESTAMP''),
     (WEBVTT_SELECTION, ''WEBVTT_SELECTION''), (WEBVTT_DATA, ''WEBVTT_DATA''),
     (WEBVTT_TIMESTAMP, ''WEBVTT_TIMESTAMP''), (CC_DATA, ''CC_DATA''), (PAUSE, ''PAUSE''),
     (RESUME, ''RESUME''), (MUTE, ''MUTE''), (UNMUTE, ''UNMUTE''),
     (CC_SET_ATTRIBUTE, ''CC_SET_ATTRIBUTE''), (INVALID, ''INVALID'')]"

definition getTypeString :: "u32 \<Rightarrow> string" where
  "getTypeString t =
     (case find (\<lambda>(k, _). type_code k = t) type_strings of Some (_, s) \<Rightarrow> s | None \<Rightarrow> ''UNKNOWN'')"

section \<open>The packets\<close>

definition header32 :: "packet_type \<Rightarrow> u32 \<Rightarrow> u32 \<Rightarrow> packet \<Rightarrow> packet" where
  "header32 t counter sz p = append32 sz (append32 counter (appendType t p))"

definition PausePacket :: "u32 \<Rightarrow> u32 \<Rightarrow> packet" where
  "PausePacket channelId counter = append32 channelId (header32 PAUSE counter 4 (new_packet counter))"

definition ResumePacket :: "u32 \<Rightarrow> u32 \<Rightarrow> packet" where
  "ResumePacket channelId counter = append32 channelId (header32 RESUME counter 4 (new_packet counter))"

definition MutePacket :: "u32 \<Rightarrow> u32 \<Rightarrow> packet" where
  "MutePacket channelId counter = append32 channelId (header32 MUTE counter 4 (new_packet counter))"

definition UnmutePacket :: "u32 \<Rightarrow> u32 \<Rightarrow> packet" where
  "UnmutePacket channelId counter = append32 channelId (header32 UNMUTE counter 4 (new_packet counter))"

definition ResetAllPacket :: packet where
  "ResetAllPacket = header32 RESET_ALL 0 0 (new_packet 0)"

definition ResetChannelPacket :: "u32 \<Rightarrow> u32 \<Rightarrow> packet" where
  "ResetChannelPacket channelId counter =
     append32 channelId (header32 RESET_CHANNEL counter 4 (new_packet counter))"

definition NUMBER_OF_ATTRIBUTES :: nat where "NUMBER_OF_ATTRIBUTES = 14"

definition CCSetAttributePacket :: "u32 \<Rightarrow> u32 \<Rightarrow> u32 \<Rightarrow> u32 \<Rightarrow> u32 list \<Rightarrow> packet" where
  "CCSetAttributePacket channelId counter ccType attribType attributesValues =
     fold append32 attributesValues
       (append32 attribType (append32 ccType (append32 channelId
         (header32 CC_SET_ATTRIBUTE counter (word_of_nat ((NUMBER_OF_ATTRIBUTES + 3) * 4)) (new_packet counter)))))"

definition TtmlSelectionPacket :: "u32 \<Rightarrow> u32 \<Rightarrow> u32 \<Rightarrow> u32 \<Rightarrow> packet" where
  "TtmlSelectionPacket channelId counter width height =
     append32 height (append32 width (append32 channelId (header32 TTML_SELECTION counter 12 (new_packet counter))))"

definition TtmlDataPacket :: "u32 \<Rightarrow> u32 \<Rightarrow> u64 \<Rightarrow> byte list \<Rightarrow> packet" where
  "TtmlDataPacket channelId counter dataOffset dataBuffer =
     append_data dataBuffer (append64 dataOffset (append32 channelId
       (header32 TTML_DATA counter (word_of_nat (8 + 4 + length dataBuffer)) (new_packet counter))))"

definition TtmlTimestampPacket :: "u32 \<Rightarrow> u32 \<Rightarrow> u64 \<Rightarrow> packet" where
  "TtmlTimestampPacket channelId counter timestamp =
     append64 timestamp (append32 channelId (header32 TTML_TIMESTAMP counter 12 (new_packet counter)))"

definition WebVttSelectionPacket :: "u32 \<Rightarrow> u32 \<Rightarrow> u32 \<Rightarrow> u32 \<Rightarrow> packet" where
  "WebVttSelectionPacket channelId counter width height =
     append32 height (append32 width (append32 channelId (header32 WEBVTT_SELECTION counter 12 (new_packet counter))))"

definition WebVttDataPacket :: "u32 \<Rightarrow> u32 \<Rightarrow> u64 \<Rightarrow> byte list \<Rightarrow> packet" where
  "WebVttDataPacket channelId counter timeOffsetMs dataBuffer =
     append_data dataBuffer (append64 timeOffsetMs (append32 channelId
       (header32 WEBVTT_DATA counter (word_of_nat (8 + 4 + length dataBuffer)) (new_packet counter))))"

definition WebVttTimestampPacket :: "u32 \<Rightarrow> u32 \<Rightarrow> u64 \<Rightarrow> packet" where
  "WebVttTimestampPacket channelId counter timestamp =
     append64 timestamp (append32 channelId (header32 WEBVTT_TIMESTAMP counter 12 (new_packet counter)))"

text \<open>The closed caption packets use the default constructor, so their counter field keeps its largest value
  and only the bytes carry the counter.\<close>

definition CC_DATA_HEADER_LEN :: nat where "CC_DATA_HEADER_LEN = 16"
definition CC_CHANNEL_TYPE :: u32 where "CC_CHANNEL_TYPE = 3"

definition ClosedCaptionsPacket :: "u32 \<Rightarrow> u32 \<Rightarrow> u32 option \<Rightarrow> byte list \<Rightarrow> packet" where
  "ClosedCaptionsPacket channelId counter ptsValue dat =
     append_data dat
       (append32 (case ptsValue of Some v \<Rightarrow> v | None \<Rightarrow> 0)
         (append32 (if ptsValue = None then 0 else 1) (append32 CC_CHANNEL_TYPE (append32 channelId
           (header32 CC_DATA counter (word_of_nat (CC_DATA_HEADER_LEN + length dat)) default_packet)))))"

definition CC_SELECTION_LEN :: u32 where "CC_SELECTION_LEN = 16"
definition CC_USERDATA_SUBTITLE_TYPE :: u32 where "CC_USERDATA_SUBTITLE_TYPE = 3"

datatype cea = Type_608 | Type_708

fun cea_code :: "cea \<Rightarrow> u32" where
  "cea_code Type_608 = 0"
| "cea_code Type_708 = 1"

definition ClosedCaptionsActiveTypePacket :: "u32 \<Rightarrow> u32 \<Rightarrow> cea \<Rightarrow> u32 \<Rightarrow> packet" where
  "ClosedCaptionsActiveTypePacket channelId counter t service =
     append32 service (append32 (cea_code t) (append32 CC_USERDATA_SUBTITLE_TYPE (append32 channelId
       (header32 SUBTITLE_SELECTION counter CC_SELECTION_LEN default_packet))))"

section \<open>Messages\<close>

text \<open>What a client may send, and the packet that the code builds for it.\<close>

datatype message =
    Pause | Resume | Mute | Unmute | ResetAll | ResetChannel
  | SetAttribute u32 u32 "u32 list"
  | TtmlSelection u32 u32 | TtmlData u64 "byte list" | TtmlTimestamp u64
  | WebVttSelection u32 u32 | WebVttData u64 "byte list" | WebVttTimestamp u64
  | Captions "u32 option" "byte list"
  | ActiveType cea u32

fun packet_of :: "u32 \<Rightarrow> u32 \<Rightarrow> message \<Rightarrow> packet" where
  "packet_of ch n Pause = PausePacket ch n"
| "packet_of ch n Resume = ResumePacket ch n"
| "packet_of ch n Mute = MutePacket ch n"
| "packet_of ch n Unmute = UnmutePacket ch n"
| "packet_of ch n ResetAll = ResetAllPacket"
| "packet_of ch n ResetChannel = ResetChannelPacket ch n"
| "packet_of ch n (SetAttribute t a vs) = CCSetAttributePacket ch n t a vs"
| "packet_of ch n (TtmlSelection w h) = TtmlSelectionPacket ch n w h"
| "packet_of ch n (TtmlData off bs) = TtmlDataPacket ch n off bs"
| "packet_of ch n (TtmlTimestamp ts) = TtmlTimestampPacket ch n ts"
| "packet_of ch n (WebVttSelection w h) = WebVttSelectionPacket ch n w h"
| "packet_of ch n (WebVttData off bs) = WebVttDataPacket ch n off bs"
| "packet_of ch n (WebVttTimestamp ts) = WebVttTimestampPacket ch n ts"
| "packet_of ch n (Captions pts bs) = ClosedCaptionsPacket ch n pts bs"
| "packet_of ch n (ActiveType t s) = ClosedCaptionsActiveTypePacket ch n t s"

section \<open>The layout\<close>

fun message_type :: "message \<Rightarrow> packet_type" where
  "message_type Pause = PAUSE"
| "message_type Resume = RESUME"
| "message_type Mute = MUTE"
| "message_type Unmute = UNMUTE"
| "message_type ResetAll = RESET_ALL"
| "message_type ResetChannel = RESET_CHANNEL"
| "message_type (SetAttribute t a vs) = CC_SET_ATTRIBUTE"
| "message_type (TtmlSelection w h) = TTML_SELECTION"
| "message_type (TtmlData off bs) = TTML_DATA"
| "message_type (TtmlTimestamp ts) = TTML_TIMESTAMP"
| "message_type (WebVttSelection w h) = WEBVTT_SELECTION"
| "message_type (WebVttData off bs) = WEBVTT_DATA"
| "message_type (WebVttTimestamp ts) = WEBVTT_TIMESTAMP"
| "message_type (Captions pts bs) = CC_DATA"
| "message_type (ActiveType t s) = SUBTITLE_SELECTION"

fun message_body :: "u32 \<Rightarrow> message \<Rightarrow> byte list" where
  "message_body ch ResetAll = []"
| "message_body ch (SetAttribute t a vs) = u32_le ch @ u32_le t @ u32_le a @ concat (map u32_le vs)"
| "message_body ch (TtmlSelection w h) = u32_le ch @ u32_le w @ u32_le h"
| "message_body ch (TtmlData off bs) = u32_le ch @ u64_le off @ bs"
| "message_body ch (TtmlTimestamp ts) = u32_le ch @ u64_le ts"
| "message_body ch (WebVttSelection w h) = u32_le ch @ u32_le w @ u32_le h"
| "message_body ch (WebVttData off bs) = u32_le ch @ u64_le off @ bs"
| "message_body ch (WebVttTimestamp ts) = u32_le ch @ u64_le ts"
| "message_body ch (Captions pts bs) = u32_le ch @ u32_le CC_CHANNEL_TYPE
     @ u32_le (if pts = None then 0 else 1) @ u32_le (case pts of Some v \<Rightarrow> v | None \<Rightarrow> 0) @ bs"
| "message_body ch (ActiveType t s) = u32_le ch @ u32_le CC_USERDATA_SUBTITLE_TYPE @ u32_le (cea_code t) @ u32_le s"
| "message_body ch msg = u32_le ch"

definition sent_counter :: "u32 \<Rightarrow> message \<Rightarrow> u32" where
  "sent_counter n msg = (if msg = ResetAll then 0 else n)"

text \<open>The messages that the types of the code admit: the attributes are an array of fixed size, and the
  data of a message leaves room for its size field.\<close>

fun sendable :: "message \<Rightarrow> bool" where
  "sendable (SetAttribute t a vs) = (length vs = NUMBER_OF_ATTRIBUTES)"
| "sendable (TtmlData off bs) = (length bs + 12 < 2 ^ 32)"
| "sendable (WebVttData off bs) = (length bs + 12 < 2 ^ 32)"
| "sendable (Captions pts bs) = (length bs + 16 < 2 ^ 32)"
| "sendable msg = True"

lemma m_buffer_append [simp]:
  "m_buffer (append32 v p) = m_buffer p @ u32_le v"
  "m_buffer (append64 w p) = m_buffer p @ u64_le w"
  "m_buffer (append_data bs p) = m_buffer p @ bs"
  "m_buffer (new_packet n) = []" "m_buffer default_packet = []"
  by (simp_all add: append32_def append64_def append_data_def new_packet_def default_packet_def u64_le_def)

lemma m_buffer_header [simp]:
  "m_buffer (header32 t n sz p) = m_buffer p @ u32_le (type_code t) @ u32_le n @ u32_le sz"
  by (simp add: header32_def appendType_def)

lemma m_buffer_fold: "m_buffer (fold append32 vs p) = m_buffer p @ concat (map u32_le vs)"
  by (induction vs arbitrary: p) simp_all

lemma length_le [simp]: "length (u32_le v) = 4" "length (u64_le w) = 8"
  by (rule u32le.enc_length, rule u64le.enc_length)

lemma length_concat_u32_le: "length (concat (map u32_le vs)) = 4 * length vs"
  by (induction vs) simp_all

lemmas packet_defs = PausePacket_def ResumePacket_def MutePacket_def UnmutePacket_def ResetAllPacket_def
  ResetChannelPacket_def CCSetAttributePacket_def TtmlSelectionPacket_def TtmlDataPacket_def
  TtmlTimestampPacket_def WebVttSelectionPacket_def WebVttDataPacket_def WebVttTimestampPacket_def
  ClosedCaptionsPacket_def ClosedCaptionsActiveTypePacket_def CC_DATA_HEADER_LEN_def CC_SELECTION_LEN_def
  NUMBER_OF_ATTRIBUTES_def

lemma packet_framed:
  assumes "sendable msg"
  shows "m_buffer (packet_of ch n msg) = u32_le (type_code (message_type msg)) @ u32_le (sent_counter n msg)
    @ u32_le (word_of_nat (length (message_body ch msg))) @ message_body ch msg"
  using assms
  by (cases msg) (simp_all add: packet_defs m_buffer_fold sent_counter_def length_concat_u32_le add.commute)

section \<open>Decoding\<close>

definition le_at :: "byte list \<Rightarrow> nat \<Rightarrow> u32" where
  "le_at bs i = le_u32 (take 4 (drop i bs))"

definition le64_at :: "byte list \<Rightarrow> nat \<Rightarrow> u64" where
  "le64_at bs i = le_u64 (take 8 (drop i bs))"

fun le_list :: "byte list \<Rightarrow> u32 list" where
  "le_list (a # b # c # d # bs) = le_u32 [a, b, c, d] # le_list bs"
| "le_list bs = []"

definition read_body :: "u32 \<Rightarrow> byte list \<Rightarrow> message option" where
  "read_body t b =
     (if t = type_code PAUSE then Some Pause else if t = type_code RESUME then Some Resume
      else if t = type_code MUTE then Some Mute else if t = type_code UNMUTE then Some Unmute
      else if t = type_code RESET_ALL then Some ResetAll
      else if t = type_code RESET_CHANNEL then Some ResetChannel
      else if t = type_code CC_SET_ATTRIBUTE then Some (SetAttribute (le_at b 4) (le_at b 8) (le_list (drop 12 b)))
      else if t = type_code TTML_SELECTION then Some (TtmlSelection (le_at b 4) (le_at b 8))
      else if t = type_code TTML_DATA then Some (TtmlData (le64_at b 4) (drop 12 b))
      else if t = type_code TTML_TIMESTAMP then Some (TtmlTimestamp (le64_at b 4))
      else if t = type_code WEBVTT_SELECTION then Some (WebVttSelection (le_at b 4) (le_at b 8))
      else if t = type_code WEBVTT_DATA then Some (WebVttData (le64_at b 4) (drop 12 b))
      else if t = type_code WEBVTT_TIMESTAMP then Some (WebVttTimestamp (le64_at b 4))
      else if t = type_code CC_DATA then
        Some (Captions (if le_at b 8 = 0 then None else Some (le_at b 12)) (drop 16 b))
      else if t = type_code SUBTITLE_SELECTION then
        Some (ActiveType (if le_at b 8 = 0 then Type_608 else Type_708) (le_at b 12))
      else None)"

definition read_packet :: "byte list \<Rightarrow> (u32 \<times> u32 \<times> message) option" where
  "read_packet bs =
     (let b = drop 12 bs in
      if length bs < 12 \<or> unat (le_at bs 8) \<noteq> length b then None
      else map_option (\<lambda>msg. (le_at bs 4, if b = [] then 0 else le_at b 0, msg)) (read_body (le_at bs 0) b))"

lemma le_at_simps [simp]:
  "le_at (u32_le v) 0 = v" "le_at (u32_le v @ r) 0 = v"
  "4 \<le> i \<Longrightarrow> le_at (u32_le v @ r) i = le_at r (i - 4)"
  by (simp_all add: le_at_def u32le.decode_prefix u32le.dec_enc)

lemma le64_at_simps [simp]:
  "le64_at (u64_le v) 0 = v" "le64_at (u64_le v @ r) 0 = v"
  "4 \<le> i \<Longrightarrow> le64_at (u32_le u @ r) i = le64_at r (i - 4)"
  by (simp_all add: le64_at_def u64le.decode_prefix u64le.dec_enc)

lemma drop_le [simp]:
  "4 \<le> i \<Longrightarrow> drop i (u32_le v @ r) = drop (i - 4) r"
  "8 \<le> i \<Longrightarrow> drop i (u64_le w @ r) = drop (i - 8) r"
  by simp_all

lemma le_list_concat [simp]: "le_list (concat (map u32_le vs)) = vs"
proof (induction vs)
  case (Cons v vs)
  have "le_u32 [ucast v, ucast (drop_bit 8 v), ucast (drop_bit 16 v), ucast (drop_bit 24 v)] = v"
    using u32le.dec_enc [of v] by (simp only: u32_le_def)
  then show ?case using Cons by (simp add: u32_le_def)
qed simp

lemma body_size: "sendable msg \<Longrightarrow> length (message_body ch msg) < 2 ^ 32"
  by (cases msg) (simp_all add: length_concat_u32_le NUMBER_OF_ATTRIBUTES_def)

lemma cea_read: "(if cea_code t = 0 then Type_608 else Type_708) = t"
  by (cases t) simp_all

lemma read_body_body:
  "sendable msg \<Longrightarrow> read_body (type_code (message_type msg)) (message_body ch msg) = Some msg"
  by (cases msg) (auto simp: read_body_def cea_read split: option.splits)

lemma packet_roundtrip_core:
  assumes "sendable msg"
  shows "read_packet (m_buffer (packet_of ch n msg))
    = Some (sent_counter n msg, if msg = ResetAll then 0 else ch, msg)"
proof -
  let ?b = "message_body ch msg"
  have sz: "unat (word_of_nat (length ?b) :: u32) = length ?b"
    using body_size [OF assms, of ch] by (simp add: unat_of_nat)
  have ch: "(if ?b = [] then 0 else le_at ?b 0) = (if msg = ResetAll then 0 else ch)"
  proof -
    have "u32_le ch \<noteq> []" by (simp add: u32_le_def)
    then show ?thesis by (cases msg) simp_all
  qed
  show ?thesis
    unfolding packet_framed [OF assms] read_packet_def Let_def
    using read_body_body [OF assms, of ch] sz unfolding ch [symmetric] by simp
qed

text \<open>C36: Every packet that the code can build is read back completely by a decoder of the documented
  layout: the type, the packet counter, the channel (none for a reset of all channels), and every
  argument of the message; in particular the size field is exactly the number of bytes that follow
  it, so a receiver never reads past the datagram or leaves bytes over.\<close>

theorem packet_roundtrip:
  assumes "sendable msg"
  shows "read_packet (m_buffer (packet_of ch n msg))
    = Some (sent_counter n msg, if msg = ResetAll then 0 else ch, msg)"
  using assms by (rule packet_roundtrip_core)

theorem packet_roundtrip_witness:
  "read_packet (m_buffer (packet_of 3 9 (TtmlData 500 [1, 2, 3]))) = Some (9, 3, TtmlData 500 [1, 2, 3])"
  using packet_roundtrip [of "TtmlData 500 [1, 2, 3]" 3 9] by (simp add: sent_counter_def)

end
