(* ===== verification/Subtec_Sender.thy ===== *)
theory Subtec_Sender
  imports Subtec_Packet "HOL-Library.Sublist"
begin

text \<open>
  \<^verbatim>\<open>subtec/libsubtec/SubtecChannel.cpp\<close>, \<^verbatim>\<open>SubtecChannel.hpp\<close> and \<^verbatim>\<open>PacketSender.cpp\<close>: channels that number
  their packets, and the sender with its queue, its thread and its socket.

  The results of the socket calls are parameters: a step of the sender thread takes the results its system
  calls have. The sender thread, one client in \<open>Close\<close> and any number of clients in the other calls take
  turns; what a thread does while it holds \<^verbatim>\<open>mPktMutex\<close> is a step, except that the thread keeps the mutex
  while it empties the queue and goes back to waiting, where the atomic flag \<^verbatim>\<open>running\<close> can change under it.
\<close>

section \<open>Channels\<close>

record channel =
  m_channelId :: u32
  m_counter :: u32

definition getNextChannelId :: "u32 \<Rightarrow> u32 \<times> u32" where
  "getNextChannelId nextId = (nextId, nextId + 1)"

definition SubtecChannel :: "u32 \<Rightarrow> channel \<times> u32" where
  "SubtecChannel nextId =
     (let (i, nextId') = getNextChannelId nextId in (\<lparr>m_channelId = i, m_counter = 0\<rparr>, nextId'))"

datatype channel_type = TTML | WEBVTT | CC

definition SubtecChannelFactory :: "channel_type \<Rightarrow> u32 \<Rightarrow> (channel option \<times> u32)" where
  "SubtecChannelFactory t nextId =
     (case t of
        CC \<Rightarrow> (None, nextId)
      | _ \<Rightarrow> (let (c, nextId') = SubtecChannel nextId in (Some c, nextId')))"

text \<open>\<open>SendResetAllPacket\<close> restarts the counter; every other message takes the next number.\<close>

definition channel_send :: "message \<Rightarrow> channel \<Rightarrow> packet \<times> channel" where
  "channel_send msg c =
     (if msg = ResetAll then (ResetAllPacket, c\<lparr>m_counter := 1\<rparr>)
      else (packet_of (m_channelId c) (m_counter c) msg, c\<lparr>m_counter := m_counter c + 1\<rparr>))"

fun channel_sends :: "message list \<Rightarrow> channel \<Rightarrow> packet list \<times> channel" where
  "channel_sends [] c = ([], c)"
| "channel_sends (msg # msgs) c =
     (let (p, c1) = channel_send msg c; (ps, c2) = channel_sends msgs c1 in (p # ps, c2))"

lemma channel_sends_append:
  "channel_sends (xs @ ys) c =
    (fst (channel_sends xs c) @ fst (channel_sends ys (snd (channel_sends xs c))),
     snd (channel_sends ys (snd (channel_sends xs c))))"
  by (induction xs arbitrary: c) (simp_all add: split_def Let_def)

lemma channel_sends_counters:
  "ResetAll \<notin> set msgs \<Longrightarrow> channel_sends msgs c =
    (map (\<lambda>(i, msg). packet_of (m_channelId c) (m_counter c + word_of_nat i) msg) (enumerate 0 msgs),
     c\<lparr>m_counter := m_counter c + word_of_nat (length msgs)\<rparr>)"
proof (induction msgs arbitrary: c)
  case (Cons msg msgs)
  have shift: "enumerate (Suc 0) msgs = map (\<lambda>(i, y). (Suc i, y)) (enumerate 0 msgs)"
    by (simp add: enumerate_Suc_eq map_eq_conv apfst_def map_prod_def split_def)
  show ?case
    using Cons by (auto simp: channel_send_def Let_def shift split_def ac_simps)
qed simp

lemma channel_id_kept: "m_channelId (snd (channel_sends msgs c)) = m_channelId c"
  by (induction msgs arbitrary: c) (simp_all add: split_def Let_def channel_send_def)

text \<open>After a reset of all channels a channel numbers its packets \<open>1, 2, 3, \<dots>\<close> without a gap, whatever was
  sent before the reset, and every packet carries the number of the channel; the receiver's decoder
  reads both back together with the message.\<close>

theorem channel_numbers_packets:
  assumes "ResetAll \<notin> set msgs" and "\<forall>msg \<in> set msgs. sendable msg" and "i < length msgs"
  shows "read_packet (m_buffer (fst (channel_sends (before @ ResetAll # msgs) c) ! (length before + 1 + i)))
    = Some (1 + word_of_nat i, m_channelId c, msgs ! i)"
proof -
  let ?c = "snd (channel_sends before c)"
  let ?d = "?c\<lparr>m_counter := 1\<rparr>"
  have len: "length (fst (channel_sends before c)) = length before"
    by (induction before arbitrary: c) (simp_all add: split_def Let_def)
  have "fst (channel_sends (before @ ResetAll # msgs) c)
      = fst (channel_sends before c) @ ResetAllPacket # fst (channel_sends msgs ?d)"
    by (simp add: channel_sends_append split_def Let_def channel_send_def)
  then have "fst (channel_sends (before @ ResetAll # msgs) c) ! (length before + 1 + i)
      = fst (channel_sends msgs ?d) ! i"
    using len by (simp add: nth_append)
  also have "\<dots> = packet_of (m_channelId c) (1 + word_of_nat i) (msgs ! i)"
    using assms(3) by (simp add: channel_sends_counters [OF assms(1)] nth_enumerate_eq channel_id_kept)
  finally have p: "fst (channel_sends (before @ ResetAll # msgs) c) ! (length before + 1 + i)
      = packet_of (m_channelId c) (1 + word_of_nat i) (msgs ! i)" .
  have m: "msgs ! i \<in> set msgs" using assms(3) by simp
  then have "msgs ! i \<noteq> ResetAll" "sendable (msgs ! i)" using assms(1,2) by auto
  then show ?thesis
    unfolding p using packet_roundtrip_core [of "msgs ! i" "m_channelId c" "1 + word_of_nat i"]
    by (simp add: sent_counter_def)
qed

theorem channel_numbers_packets_witness:
  "read_packet (m_buffer (fst (channel_sends [Mute, ResetAll, Pause, TtmlSelection 5 6] \<lparr>m_channelId = 7, m_counter = 40\<rparr>) ! 3))
    = Some (2, 7, TtmlSelection 5 6)"
  using channel_numbers_packets [of "[Pause, TtmlSelection 5 6]" 1 "[Mute]" "\<lparr>m_channelId = 7, m_counter = 40\<rparr>"]
  by (simp del: channel_sends.simps add: numeral_3_eq_3)

section \<open>One datagram\<close>

text \<open>The system calls of \<open>sendPacket\<close>, with their results as arguments.\<close>

datatype syscall = SetSendBuffer nat | WriteBytes "byte list" | Connect

record sock_results =
  setsockopt_ok :: bool
  write_ok :: bool

record sock =
  mSockBufSize :: nat
  mPktWriteFailCtr :: nat
  sk_calls :: "syscall list"

definition MAX_SNDBUF_SIZE :: nat where "MAX_SNDBUF_SIZE = 8 * 1024 * 1024"

definition grow_buffer :: "sock_results \<Rightarrow> nat \<Rightarrow> sock \<Rightarrow> sock" where
  "grow_buffer r n k =
     (if mSockBufSize k < n \<and> n < MAX_SNDBUF_SIZE then
        k\<lparr>mSockBufSize := if setsockopt_ok r then n else mSockBufSize k, sk_calls := sk_calls k @ [SetSendBuffer n]\<rparr>
      else k)"

definition sendPacket :: "sock_results \<Rightarrow> packet \<Rightarrow> sock \<Rightarrow> sock" where
  "sendPacket r p k =
     (let k1 = grow_buffer r (length (m_buffer p)) k;
          ctr = (if write_ok r then 0 else mPktWriteFailCtr k1 + 1);
          k2 = k1\<lparr>sk_calls := sk_calls k1 @ [WriteBytes (m_buffer p)]\<rparr>
      in if 5 < ctr then k2\<lparr>mPktWriteFailCtr := 0, sk_calls := sk_calls k2 @ [Connect]\<rparr>
         else k2\<lparr>mPktWriteFailCtr := ctr\<rparr>)"

definition connects :: "sock \<Rightarrow> nat" where
  "connects k = length (filter (\<lambda>c. c = Connect) (sk_calls k))"

lemma sendPacket_failed:
  assumes "\<not> write_ok r" and "mPktWriteFailCtr k \<le> 5"
  shows "mPktWriteFailCtr (sendPacket r p k) = (mPktWriteFailCtr k + 1) mod 6"
    and "connects (sendPacket r p k) = connects k + (mPktWriteFailCtr k + 1) div 6"
proof -
  have "mPktWriteFailCtr k \<in> {0, 1, 2, 3, 4, 5}" using assms(2) by auto
  then show "mPktWriteFailCtr (sendPacket r p k) = (mPktWriteFailCtr k + 1) mod 6"
    and "connects (sendPacket r p k) = connects k + (mPktWriteFailCtr k + 1) div 6"
    using assms(1) by (auto simp: sendPacket_def grow_buffer_def Let_def connects_def)
qed

text \<open>While every write fails the socket is reconnected at every sixth failed packet, not at every fifth as
  the comment in the code says: after \<open>n\<close> failures in a row there have been \<open>n div 6\<close> reconnects.\<close>

theorem reconnect_every_sixth_failure:
  assumes "mPktWriteFailCtr k = 0" and "\<forall>r \<in> set rs. \<not> write_ok (fst r)"
  shows "connects (fold (\<lambda>(r, p). sendPacket r p) rs k) = connects k + length rs div 6"
proof -
  have "mPktWriteFailCtr (fold (\<lambda>(r, p). sendPacket r p) rs k) = length rs mod 6
      \<and> connects (fold (\<lambda>(r, p). sendPacket r p) rs k) = connects k + length rs div 6"
    using assms(2)
  proof (induction rs rule: rev_induct)
    case (snoc x rs)
    obtain r p where x: "x = (r, p)" by (cases x)
    let ?k = "fold (\<lambda>(r, p). sendPacket r p) rs k"
    have IH: "mPktWriteFailCtr ?k = length rs mod 6" "connects ?k = connects k + length rs div 6"
      using snoc by auto
    have f: "\<not> write_ok r" using snoc.prems x by simp
    have le: "mPktWriteFailCtr ?k \<le> 5" using IH(1) by simp
    have m: "(length rs mod 6 + 1) mod 6 = (length rs + 1) mod 6"
      "length rs div 6 + (length rs mod 6 + 1) div 6 = (length rs + 1) div 6"
      by (simp add: mod_Suc_eq) presburger
    show ?case
      using sendPacket_failed [OF f le, of p] IH m by (simp add: x)
  qed (use assms(1) in simp)
  then show ?thesis by blast
qed

theorem reconnect_every_sixth_failure_witness:
  "connects (fold (\<lambda>(r, p). sendPacket r p) (replicate 5 (\<lparr>setsockopt_ok = True, write_ok = False\<rparr>, ResetAllPacket))
     \<lparr>mSockBufSize = 100, mPktWriteFailCtr = 0, sk_calls = []\<rparr>) = 0"
  using reconnect_every_sixth_failure [of "\<lparr>mSockBufSize = 100, mPktWriteFailCtr = 0, sk_calls = []\<rparr>"
      "replicate 5 (\<lparr>setsockopt_ok = True, write_ok = False\<rparr>, ResetAllPacket)"]
  by (simp add: connects_def)

section \<open>The sender\<close>

datatype sender_thread = NoThread | Started | WaitCv | Woken | Draining | Looping | Ended

datatype closer = NotClosing | ClNotify | ClJoin | ClSocket

record sender =
  ps_queue :: "packet list"
  ps_running :: bool
  ps_thread :: sender_thread
  ps_joinable :: bool
  ps_sock :: sock
  mSubtecSocketHandle :: int
  ps_closed :: "int list"
  ps_closer :: closer
  ps_terminated :: bool
  ps_pushed :: "packet list"
  ps_sent :: "packet list"

definition PacketSender :: sender where
  "PacketSender = \<lparr>ps_queue = [], ps_running = False, ps_thread = NoThread, ps_joinable = False,
     ps_sock = \<lparr>mSockBufSize = 0, mPktWriteFailCtr = 0, sk_calls = []\<rparr>, mSubtecSocketHandle = - 1, ps_closed = [],
     ps_closer = NotClosing, ps_terminated = False, ps_pushed = [], ps_sent = []\<rparr>"

definition notify_sender :: "sender_thread \<Rightarrow> sender_thread" where
  "notify_sender t = (if t = WaitCv then Woken else t)"

definition mutex_free :: "sender \<Rightarrow> bool" where
  "mutex_free s \<longleftrightarrow> ps_thread s \<noteq> Draining \<and> ps_thread s \<noteq> Looping"

definition SendPacket :: "packet \<Rightarrow> sender \<Rightarrow> sender" where
  "SendPacket p s = s\<lparr>ps_queue := ps_queue s @ [p], ps_thread := notify_sender (ps_thread s),
     ps_pushed := ps_pushed s @ [p]\<rparr>"

definition flushPacketQueue :: "sender \<Rightarrow> sender" where
  "flushPacketQueue s = s\<lparr>ps_queue := []\<rparr>"

text \<open>\<open>Init\<close>: the arguments are the results of \<^verbatim>\<open>socket\<close>, the buffer size that \<^verbatim>\<open>getsockopt\<close> reports, and
  whether the socket connects and the thread starts. \<open>ps_closed\<close> logs the calls of \<^verbatim>\<open>::close\<close>: a socket that
  does not connect is closed, but its handle is kept. Assigning to a thread object that still is
  joinable ends the process.\<close>

definition initSocket :: "int \<Rightarrow> nat \<Rightarrow> bool \<Rightarrow> sender \<Rightarrow> bool \<times> sender" where
  "initSocket fd sndbuf connected s =
     (if fd = - 1 then (False, s\<lparr>mSubtecSocketHandle := - 1\<rparr>)
      else
        let s1 = s\<lparr>mSubtecSocketHandle := fd, ps_sock := (ps_sock s)\<lparr>mSockBufSize := sndbuf div 2\<rparr>\<rparr>
        in if \<not> connected then (False, s1\<lparr>ps_closed := ps_closed s1 @ [fd]\<rparr>) else (True, s1))"

definition initSenderTask :: "bool \<Rightarrow> sender \<Rightarrow> bool \<times> sender" where
  "initSenderTask threadOk s =
     (if \<not> threadOk then (False, s)
      else if ps_joinable s then (False, s\<lparr>ps_terminated := True\<rparr>)
      else (True, s\<lparr>ps_thread := Started, ps_joinable := True\<rparr>))"

definition PacketSender_Init :: "int \<Rightarrow> nat \<Rightarrow> bool \<Rightarrow> bool \<Rightarrow> sender \<Rightarrow> bool \<times> sender" where
  "PacketSender_Init fd sndbuf connected threadOk s =
     (if ps_running s then (True, s)
      else
        let (ok, s1) = initSocket fd sndbuf connected s
        in if ok then initSenderTask threadOk s1 else (False, s1))"

lemmas init_defs = PacketSender_Init_def initSocket_def initSenderTask_def

text \<open>The steps of \<open>senderTask\<close>.\<close>

definition senderTask :: "sock_results \<Rightarrow> sender \<Rightarrow> sender option" where
  "senderTask r s =
     (case ps_thread s of
        Started \<Rightarrow> Some (s\<lparr>ps_running := True, ps_thread := WaitCv\<rparr>)
      | Woken \<Rightarrow> Some (s\<lparr>ps_thread := Draining\<rparr>)
      | Draining \<Rightarrow>
          (case ps_queue s of
             p # q \<Rightarrow> Some (s\<lparr>ps_sock := sendPacket r p (ps_sock s), ps_queue := q, ps_sent := ps_sent s @ [p]\<rparr>)
           | [] \<Rightarrow> Some (s\<lparr>ps_thread := if ps_running s then Looping else Ended\<rparr>))
      | Looping \<Rightarrow> Some (s\<lparr>ps_running := True, ps_thread := WaitCv\<rparr>)
      | _ \<Rightarrow> None)"

text \<open>The steps of \<open>Close\<close>: clear the flag, notify, join, close the socket.\<close>

definition closeSenderTask :: "sender \<Rightarrow> sender option" where
  "closeSenderTask s =
     (case ps_closer s of
        NotClosing \<Rightarrow>
          Some (if ps_running s then s\<lparr>ps_running := False, ps_closer := ClNotify\<rparr> else s\<lparr>ps_closer := ClSocket\<rparr>)
      | ClNotify \<Rightarrow>
          Some (s\<lparr>ps_thread := notify_sender (ps_thread s),
                  ps_closer := if ps_joinable s then ClJoin else ClSocket\<rparr>)
      | ClJoin \<Rightarrow>
          (if ps_thread s = Ended then Some (s\<lparr>ps_joinable := False, ps_closer := ClSocket\<rparr>) else None)
      | ClSocket \<Rightarrow> Some (s\<lparr>ps_closed := (if mSubtecSocketHandle s \<noteq> 0 then ps_closed s @ [mSubtecSocketHandle s] else ps_closed s),
                  mSubtecSocketHandle := 0, ps_closer := NotClosing\<rparr>))"

inductive sender_step :: "sender \<Rightarrow> sender \<Rightarrow> bool" where
  send: "mutex_free s \<Longrightarrow> sender_step s (SendPacket p s)"
| flush: "mutex_free s \<Longrightarrow> sender_step s (flushPacketQueue s)"
| init: "\<not> ps_terminated s \<Longrightarrow> sender_step s (snd (PacketSender_Init fd n c t s))"
| thread: "senderTask r s = Some s' \<Longrightarrow> sender_step s s'"
| spurious: "ps_thread s = WaitCv \<Longrightarrow> sender_step s (s\<lparr>ps_thread := Woken\<rparr>)"
| close: "closeSenderTask s = Some s' \<Longrightarrow> sender_step s s'"

definition order_inv :: "sender \<Rightarrow> bool" where
  "order_inv s \<longleftrightarrow> subseq (ps_sent s @ ps_queue s) (ps_pushed s)"

interpretation sender_system: invariant_system sender_step PacketSender order_inv
proof
  show "order_inv PacketSender" by (simp add: order_inv_def PacketSender_def)
  fix s s' assume inv: "order_inv s" and "sender_step s s'"
  from this(2) show "order_inv s'"
  proof cases
    case (send p)
    have "subseq ((ps_sent s @ ps_queue s) @ [p]) (ps_pushed s @ [p])"
      using inv by (intro list_emb_append_mono) (simp_all add: order_inv_def)
    then show ?thesis by (simp add: send order_inv_def SendPacket_def)
  next
    case flush
    have "subseq (ps_sent s @ []) (ps_pushed s)"
      using inv subseq_order.trans [OF list_emb_append_mono [OF subseq_order.refl list_emb_Nil]]
      unfolding order_inv_def by blast
    then show ?thesis by (simp add: flush order_inv_def flushPacketQueue_def)
  next
    case (init fd n c t)
    then show ?thesis using inv by (simp add: order_inv_def init_defs Let_def)
  next
    case (thread r)
    then show ?thesis using inv
      by (auto simp: order_inv_def senderTask_def split: sender_thread.splits list.splits)
  next
    case spurious
    then show ?thesis using inv by (simp add: order_inv_def)
  next
    case close
    then show ?thesis using inv
      by (auto simp: order_inv_def closeSenderTask_def split: closer.splits if_splits)
  qed
qed

text \<open>C39: The sender keeps the order: in every interleaving the packets written to the socket, followed by the
  queue, are a subsequence of the packets handed to \<open>SendPacket\<close>; none is written twice or out of order.\<close>

theorem packets_sent_in_order:
  assumes "reaches sender_step PacketSender s"
  shows "subseq (ps_sent s @ ps_queue s) (ps_pushed s)"
  using sender_system.reachable_inv [OF assms] by (simp add: order_inv_def)

definition sending_state :: "packet \<Rightarrow> sender" where
  "sending_state p = SendPacket p (PacketSender\<lparr>ps_sock := \<lparr>mSockBufSize = 50, mPktWriteFailCtr = 0, sk_calls = []\<rparr>,
     mSubtecSocketHandle := 7, ps_thread := Started, ps_joinable := True\<rparr>)"

lemma sending_reachable: "reaches sender_step PacketSender (sending_state p)"
proof -
  have "reaches sender_step PacketSender (snd (PacketSender_Init 7 100 True True PacketSender))"
    by (rule reaches.step [OF reaches.start], rule sender_step.init) (simp add: PacketSender_def)
  then have "reaches sender_step PacketSender (SendPacket p (snd (PacketSender_Init 7 100 True True PacketSender)))"
    by (rule reaches.step, intro sender_step.send)
      (simp add: mutex_free_def init_defs PacketSender_def Let_def)
  then show ?thesis by (simp add: sending_state_def init_defs PacketSender_def Let_def)
qed

theorem packets_sent_in_order_witness:
  "reaches sender_step PacketSender (sending_state ResetAllPacket)
    \<and> subseq (ps_sent (sending_state ResetAllPacket) @ ps_queue (sending_state ResetAllPacket)) [ResetAllPacket]"
  using packets_sent_in_order [OF sending_reachable [of ResetAllPacket]] sending_reachable [of ResetAllPacket]
  by (simp add: sending_state_def SendPacket_def PacketSender_def)

text \<open>A packet can be stranded: the thread waits without testing the queue first, so a packet that was
  queued before the thread reached its first wait stays in the queue while the thread sleeps.\<close>

theorem first_packet_stranded:
  "\<exists>s. reaches sender_step PacketSender s \<and> ps_queue s = [p] \<and> ps_thread s = WaitCv
    \<and> (\<forall>r. senderTask r s = None)"
proof -
  let ?s = "(sending_state p)\<lparr>ps_running := True, ps_thread := WaitCv\<rparr>"
  have "reaches sender_step PacketSender ?s"
    by (rule reaches.step [OF sending_reachable [of p]], rule sender_step.thread)
      (simp add: senderTask_def sending_state_def SendPacket_def notify_sender_def)
  then show ?thesis
    by (intro exI [of _ ?s]) (simp add: senderTask_def sending_state_def SendPacket_def PacketSender_def)
qed

text \<open>The state in which the flag that \<open>Close\<close> cleared was set again before the thread tested it.\<close>

definition close_lost :: "sender \<Rightarrow> bool" where
  "close_lost s \<longleftrightarrow> ps_closer s = ClJoin \<and> ps_running s
     \<and> ps_thread s \<in> {WaitCv, Woken, Draining, Looping}"

lemma close_lost_step:
  assumes "sender_step s s'" and "close_lost s"
  shows "close_lost s'"
  using assms(1)
proof cases
  case (thread r)
  then show ?thesis using assms(2)
    by (auto simp: close_lost_def senderTask_def split: sender_thread.splits list.splits)
next
  case close
  then show ?thesis using assms(2) by (auto simp: close_lost_def closeSenderTask_def)
qed (use assms(2) in \<open>auto simp: close_lost_def SendPacket_def flushPacketQueue_def notify_sender_def
      init_defs\<close>)

lemma close_lost_reachable: "\<exists>s. reaches sender_step PacketSender s \<and> close_lost s"
proof -
  define b where "b = PacketSender\<lparr>ps_sock := \<lparr>mSockBufSize = 50, mPktWriteFailCtr = 0, sk_calls = []\<rparr>,
     mSubtecSocketHandle := 7, ps_joinable := True\<rparr>"
  define st where "st = (\<lambda>t run cl. b\<lparr>ps_thread := t, ps_running := run, ps_closer := cl\<rparr>)"
  note d = st_def b_def PacketSender_def
  have 1: "reaches sender_step PacketSender (st Started False NotClosing)"
  proof -
    have "st Started False NotClosing = snd (PacketSender_Init 7 100 True True PacketSender)"
      by (simp add: d init_defs Let_def)
    moreover have "sender_step PacketSender (snd (PacketSender_Init 7 100 True True PacketSender))"
      by (rule sender_step.init) (simp add: PacketSender_def)
    ultimately show ?thesis using reaches.step [OF reaches.start] by metis
  qed
  have 2: "reaches sender_step PacketSender (st WaitCv True NotClosing)"
    by (rule reaches.step [OF 1], rule sender_step.thread) (simp add: d senderTask_def)
  have 3: "reaches sender_step PacketSender (st Woken True NotClosing)"
    using reaches.step [OF 2 sender_step.spurious] by (simp add: d)
  have 4: "reaches sender_step PacketSender (st Draining True NotClosing)"
    by (rule reaches.step [OF 3], rule sender_step.thread) (simp add: d senderTask_def)
  have 5: "reaches sender_step PacketSender (st Looping True NotClosing)"
    by (rule reaches.step [OF 4], rule sender_step.thread) (simp add: d senderTask_def)
  have 6: "reaches sender_step PacketSender (st Looping False ClNotify)"
    by (rule reaches.step [OF 5], rule sender_step.close) (simp add: d closeSenderTask_def)
  have 7: "reaches sender_step PacketSender (st Looping False ClJoin)"
    by (rule reaches.step [OF 6], rule sender_step.close) (simp add: d closeSenderTask_def notify_sender_def)
  have 8: "reaches sender_step PacketSender (st WaitCv True ClJoin)"
    by (rule reaches.step [OF 7], rule sender_step.thread) (simp add: d senderTask_def)
  then show ?thesis by (intro exI [of _ "st WaitCv True ClJoin"]) (simp add: close_lost_def d)
qed

text \<open>\<open>Close\<close> can hang for good: there is a reachable state in which it waits for the thread, and from which
  it waits in every state that any further steps lead to, because the thread set \<^verbatim>\<open>running\<close> again after
  \<open>Close\<close> had cleared it.\<close>

theorem close_can_hang:
  "\<exists>s. reaches sender_step PacketSender s \<and> ps_closer s = ClJoin
    \<and> (\<forall>t. reaches sender_step s t \<longrightarrow> ps_closer t = ClJoin \<and> closeSenderTask t = None)"
proof -
  obtain s where s: "reaches sender_step PacketSender s" "close_lost s" using close_lost_reachable by blast
  have "close_lost t" if "reaches sender_step s t" for t
    using that s(2) by (induction rule: reaches.induct) (auto intro: close_lost_step)
  moreover have "ps_closer t = ClJoin \<and> closeSenderTask t = None" if "close_lost t" for t
    using that by (auto simp: close_lost_def closeSenderTask_def)
  ultimately show ?thesis using s by blast
qed

theorem close_can_hang_witness:
  "\<exists>s. reaches sender_step PacketSender s \<and> ps_closer s = ClJoin \<and> closeSenderTask s = None"
  using close_can_hang reaches.start by metis

end
