(* ===== verification/Text_Style.thy ===== *)
theory Text_Style
  imports Subtec_Packet
begin

text \<open>
  \<^verbatim>\<open>subtec/subtecparser/TextStyleAttributes.cpp\<close>: the caption style options of a JSON object as attribute
  values and the mask that says which of them are set. The JSON library is a parameter: \<open>parse_json\<close> gives
  the lookup of string members, or \<open>None\<close> when it throws the parse exception.
\<close>

section \<open>Enumerations\<close>

datatype FontSize = FONT_SIZE_EMBEDDED | FONT_SIZE_SMALL | FONT_SIZE_STANDARD | FONT_SIZE_LARGE | FONT_SIZE_EXTRALARGE

fun font_size_code :: "FontSize \<Rightarrow> u32" where
  "font_size_code FONT_SIZE_EMBEDDED = - 1"
| "font_size_code FONT_SIZE_SMALL = 0"
| "font_size_code FONT_SIZE_STANDARD = 1"
| "font_size_code FONT_SIZE_LARGE = 2"
| "font_size_code FONT_SIZE_EXTRALARGE = 3"

datatype FontStyle = FONT_STYLE_EMBEDDED | FONT_STYLE_DEFAULT | FONT_STYLE_MONOSPACED_SERIF
  | FONT_STYLE_PROPORTIONAL_SERIF | FONT_STYLE_MONOSPACED_SANSSERIF | FONT_STYLE_PROPORTIONAL_SANSSERIF
  | FONT_STYLE_CASUAL | FONT_STYLE_CURSIVE | FONT_STYLE_SMALL_CAPITALS

fun font_style_code :: "FontStyle \<Rightarrow> u32" where
  "font_style_code FONT_STYLE_EMBEDDED = - 1"
| "font_style_code FONT_STYLE_DEFAULT = 0"
| "font_style_code FONT_STYLE_MONOSPACED_SERIF = 1"
| "font_style_code FONT_STYLE_PROPORTIONAL_SERIF = 2"
| "font_style_code FONT_STYLE_MONOSPACED_SANSSERIF = 3"
| "font_style_code FONT_STYLE_PROPORTIONAL_SANSSERIF = 4"
| "font_style_code FONT_STYLE_CASUAL = 5"
| "font_style_code FONT_STYLE_CURSIVE = 6"
| "font_style_code FONT_STYLE_SMALL_CAPITALS = 7"

datatype EdgeType = EDGE_TYPE_EMBEDDED | EDGE_TYPE_NONE | EDGE_TYPE_RAISED | EDGE_TYPE_DEPRESSED
  | EDGE_TYPE_UNIFORM | EDGE_TYPE_SHADOW_LEFT | EDGE_TYPE_SHADOW_RIGHT

fun edge_type_code :: "EdgeType \<Rightarrow> u32" where
  "edge_type_code EDGE_TYPE_EMBEDDED = - 1"
| "edge_type_code EDGE_TYPE_NONE = 0"
| "edge_type_code EDGE_TYPE_RAISED = 1"
| "edge_type_code EDGE_TYPE_DEPRESSED = 2"
| "edge_type_code EDGE_TYPE_UNIFORM = 3"
| "edge_type_code EDGE_TYPE_SHADOW_LEFT = 4"
| "edge_type_code EDGE_TYPE_SHADOW_RIGHT = 5"

datatype Opacity = OPACITY_EMBEDDED | OPACITY_SOLID | OPACITY_FLASHING | OPACITY_TRANSLUCENT | OPACITY_TRANSPARENT

fun opacity_code :: "Opacity \<Rightarrow> u32" where
  "opacity_code OPACITY_EMBEDDED = - 1"
| "opacity_code OPACITY_SOLID = 0"
| "opacity_code OPACITY_FLASHING = 1"
| "opacity_code OPACITY_TRANSLUCENT = 2"
| "opacity_code OPACITY_TRANSPARENT = 3"

definition ColorMapTable :: "(string \<times> u32) list" where
  "ColorMapTable = [(''black'', 0x00000000), (''white'', 0x00FFFFFF), (''red'', 0x00FF0000),
     (''green'', 0x0000FF00), (''blue'', 0x000000FF), (''yellow'', 0x00FFFF00), (''magenta'', 0x00FF00FF),
     (''cyan'', 0x0000FFFF), (''auto'', 0xFF000000)]"

section \<open>Reading a value\<close>

definition tolower :: "char \<Rightarrow> char" where
  "tolower c = (let n = (of_char c :: nat) in if 65 \<le> n \<and> n \<le> 90 then char_of (n + 32) else c)"

definition lower_case :: "string \<Rightarrow> string" where
  "lower_case s = map tolower s"

definition getFontSize :: "string \<Rightarrow> FontSize option" where
  "getFontSize input0 =
     (if input0 = [] then None
      else let input = lower_case input0 in
        if input = ''small'' then Some FONT_SIZE_SMALL
        else if input = ''standard'' \<or> input = ''medium'' then Some FONT_SIZE_STANDARD
        else if input = ''large'' then Some FONT_SIZE_LARGE
        else if input = ''extra_large'' then Some FONT_SIZE_EXTRALARGE
        else if input = ''auto'' then Some FONT_SIZE_EMBEDDED
        else None)"

definition getFontStyle :: "string \<Rightarrow> FontStyle option" where
  "getFontStyle input0 =
     (if input0 = [] then None
      else let input = lower_case input0 in
        if input = ''default'' then Some FONT_STYLE_DEFAULT
        else if input = ''monospaced_serif'' \<or> input = ''monospaced serif'' then Some FONT_STYLE_MONOSPACED_SERIF
        else if input = ''proportional_serif'' \<or> input = ''proportional serif'' then Some FONT_STYLE_PROPORTIONAL_SERIF
        else if input = ''monospaced_sanserif'' \<or> input = ''monospaced sans serif'' then Some FONT_STYLE_MONOSPACED_SANSSERIF
        else if input = ''proportional_sanserif'' \<or> input = ''proportional sans serif'' then Some FONT_STYLE_PROPORTIONAL_SANSSERIF
        else if input = ''casual'' then Some FONT_STYLE_CASUAL
        else if input = ''cursive'' then Some FONT_STYLE_CURSIVE
        else if input = ''smallcaps'' \<or> input = ''small capital'' then Some FONT_STYLE_SMALL_CAPITALS
        else if input = ''auto'' then Some FONT_STYLE_EMBEDDED
        else None)"

definition getColor :: "string \<Rightarrow> u32 option" where
  "getColor input0 = (if input0 = [] then None else map_of ColorMapTable (lower_case input0))"

definition getEdgeType :: "string \<Rightarrow> EdgeType option" where
  "getEdgeType input0 =
     (if input0 = [] then None
      else let input = lower_case input0 in
        if input = ''none'' then Some EDGE_TYPE_NONE
        else if input = ''raised'' then Some EDGE_TYPE_RAISED
        else if input = ''depressed'' then Some EDGE_TYPE_DEPRESSED
        else if input = ''uniform'' then Some EDGE_TYPE_UNIFORM
        else if input = ''drop_shadow_left'' \<or> input = ''left drop shadow'' then Some EDGE_TYPE_SHADOW_LEFT
        else if input = ''drop_shadow_right'' \<or> input = ''right drop shadow'' then Some EDGE_TYPE_SHADOW_RIGHT
        else if input = ''auto'' then Some EDGE_TYPE_EMBEDDED
        else None)"

definition getOpacity :: "string \<Rightarrow> Opacity option" where
  "getOpacity input0 =
     (if input0 = [] then None
      else let input = lower_case input0 in
        if input = ''solid'' then Some OPACITY_SOLID
        else if input = ''flash'' then Some OPACITY_FLASHING
        else if input = ''translucent'' then Some OPACITY_TRANSLUCENT
        else if input = ''transparent'' then Some OPACITY_TRANSPARENT
        else if input = ''auto'' then Some OPACITY_EMBEDDED
        else None)"

section \<open>All options\<close>

definition FONT_COLOR_ARR_POSITION :: nat where "FONT_COLOR_ARR_POSITION = 0"
definition BACKGROUND_COLOR_ARR_POSITION :: nat where "BACKGROUND_COLOR_ARR_POSITION = 1"
definition FONT_OPACITY_ARR_POSITION :: nat where "FONT_OPACITY_ARR_POSITION = 2"
definition BACKGROUND_OPACITY_ARR_POSITION :: nat where "BACKGROUND_OPACITY_ARR_POSITION = 3"
definition FONT_STYLE_ARR_POSITION :: nat where "FONT_STYLE_ARR_POSITION = 4"
definition FONT_SIZE_ARR_POSITION :: nat where "FONT_SIZE_ARR_POSITION = 5"
definition WIN_COLOR_ARR_POSITION :: nat where "WIN_COLOR_ARR_POSITION = 10"
definition WIN_OPACITY_ARR_POSITION :: nat where "WIN_OPACITY_ARR_POSITION = 11"
definition EDGE_TYPE_ARR_POSITION :: nat where "EDGE_TYPE_ARR_POSITION = 12"
definition EDGE_COLOR_ARR_POSITION :: nat where "EDGE_COLOR_ARR_POSITION = 13"

text \<open>The options in the order the code looks for them: the JSON member, the position, the reader.\<close>

definition style_options :: "(string \<times> nat \<times> (string \<Rightarrow> u32 option)) list" where
  "style_options =
     [(''penSize'', FONT_SIZE_ARR_POSITION, \<lambda>v. map_option font_size_code (getFontSize v)),
      (''fontStyle'', FONT_STYLE_ARR_POSITION, \<lambda>v. map_option font_style_code (getFontStyle v)),
      (''textForegroundColor'', FONT_COLOR_ARR_POSITION, getColor),
      (''textBackgroundColor'', BACKGROUND_COLOR_ARR_POSITION, getColor),
      (''textEdgeStyle'', EDGE_TYPE_ARR_POSITION, \<lambda>v. map_option edge_type_code (getEdgeType v)),
      (''textEdgeColor'', EDGE_COLOR_ARR_POSITION, getColor),
      (''textBackgroundOpacity'', BACKGROUND_OPACITY_ARR_POSITION, \<lambda>v. map_option opacity_code (getOpacity v)),
      (''textForegroundOpacity'', FONT_OPACITY_ARR_POSITION, \<lambda>v. map_option opacity_code (getOpacity v)),
      (''windowFillColor'', WIN_COLOR_ARR_POSITION, getColor),
      (''windowFillOpacity'', WIN_OPACITY_ARR_POSITION, \<lambda>v. map_option opacity_code (getOpacity v))]"

definition read_option :: "(string \<Rightarrow> string option) \<Rightarrow> string \<times> nat \<times> (string \<Rightarrow> u32 option)
    \<Rightarrow> u32 list \<times> u32 \<Rightarrow> u32 list \<times> u32" where
  "read_option json opt st =
     (let (key, pos, reader) = opt; (vals, msk) = st in
      case json key of
        None \<Rightarrow> (vals, msk)
      | Some v \<Rightarrow> (case reader v of
            None \<Rightarrow> (vals, msk)
          | Some x \<Rightarrow> (vals[pos := x], msk OR push_bit pos 1)))"

definition getAttributes ::
  "(string \<Rightarrow> (string \<Rightarrow> string option) option) \<Rightarrow> string \<Rightarrow> u32 list \<Rightarrow> int \<times> u32 list \<times> u32" where
  "getAttributes parse_json options attributesValues =
     (if options = [] then (- 1, attributesValues, 0)
      else case parse_json options of
        None \<Rightarrow> (- 1, attributesValues, 0)
      | Some json \<Rightarrow> (0, fold (read_option json) style_options (attributesValues, 0)))"

section \<open>What is extracted\<close>

definition option_value :: "(string \<Rightarrow> string option) \<Rightarrow> nat \<Rightarrow> u32 option" where
  "option_value json p =
     (case find (\<lambda>(key, pos, reader). pos = p) style_options of
        None \<Rightarrow> None
      | Some (key, pos, reader) \<Rightarrow> Option.bind (json key) reader)"

lemma fold_read_option:
  assumes "distinct (map (fst \<circ> snd) opts)" and "\<forall>(k, pos, r) \<in> set opts. pos < length vals \<and> pos < 32"
    and "p < length vals" and "p < 32"
  shows "let x = (case find (\<lambda>(k, pos, r). pos = p) opts of None \<Rightarrow> None | Some (k, pos, r) \<Rightarrow> Option.bind (json k) r);
      st = fold (read_option json) opts (vals, msk)
    in length (fst st) = length vals
      \<and> fst st ! p = (case x of None \<Rightarrow> vals ! p | Some v \<Rightarrow> v) \<and> bit (snd st) p = (bit msk p \<or> x \<noteq> None)"
  using assms
proof (induction opts arbitrary: vals msk)
  case (Cons opt opts)
  obtain k q r where o: "opt = (k, q, r)" by (cases opt)
  define vm where "vm = read_option json opt (vals, msk)"
  obtain vals' msk' where st: "vm = (vals', msk')" by (cases vm)
  have q: "q < length vals" "q < 32" using Cons.prems(2) o by auto
  have step: "length vals' = length vals"
    "vals' ! p = (if q = p then (case Option.bind (json k) r of None \<Rightarrow> vals ! p | Some v \<Rightarrow> v) else vals ! p)"
    "bit msk' p = (bit msk p \<or> q = p \<and> Option.bind (json k) r \<noteq> None)"
    using st q Cons.prems(3,4) unfolding vm_def o
    by (auto simp: read_option_def bit_simps split: option.splits)
  have IH: "let x = (case find (\<lambda>(k, pos, r). pos = p) opts of None \<Rightarrow> None | Some (k, pos, r) \<Rightarrow> Option.bind (json k) r);
      st = fold (read_option json) opts (vals', msk')
    in length (fst st) = length vals'
      \<and> fst st ! p = (case x of None \<Rightarrow> vals' ! p | Some v \<Rightarrow> v) \<and> bit (snd st) p = (bit msk' p \<or> x \<noteq> None)"
    by (rule Cons.IH) (use Cons.prems step in auto)
  have fresh: "find (\<lambda>(k, pos, r). pos = p) opts = None" if "q = p"
    using Cons.prems(1) that by (force simp: o find_None_iff)
  have run: "fold (read_option json) (opt # opts) (vals, msk) = fold (read_option json) opts (vals', msk')"
    using st by (simp add: vm_def)
  show ?case
    unfolding run using IH step fresh by (cases "q = p") (auto simp: Let_def o split: option.splits)
qed simp

lemma style_positions:
  "distinct (map (fst \<circ> snd) style_options)" "\<forall>(k, pos, r) \<in> set style_options. pos < 14 \<and> pos < 32"
  by (simp_all add: style_options_def FONT_COLOR_ARR_POSITION_def BACKGROUND_COLOR_ARR_POSITION_def
      FONT_OPACITY_ARR_POSITION_def BACKGROUND_OPACITY_ARR_POSITION_def FONT_STYLE_ARR_POSITION_def
      FONT_SIZE_ARR_POSITION_def WIN_COLOR_ARR_POSITION_def WIN_OPACITY_ARR_POSITION_def
      EDGE_TYPE_ARR_POSITION_def EDGE_COLOR_ARR_POSITION_def)

text \<open>\<open>getAttributes\<close> on a JSON object: for each of the 14 positions of the attribute array, the mask has the
  bit of the position exactly if the option of the position is present with a value the code
  understands; then the array holds the code of that value, and otherwise the old element is kept.\<close>

theorem getAttributes_spec:
  assumes "options \<noteq> []" and "parse_json options = Some json" and "length vals = NUMBER_OF_ATTRIBUTES"
    and "p < NUMBER_OF_ATTRIBUTES"
  shows "\<exists>vals' msk. getAttributes parse_json options vals = (0, vals', msk)
    \<and> length vals' = NUMBER_OF_ATTRIBUTES
    \<and> (bit msk p \<longleftrightarrow> option_value json p \<noteq> None)
    \<and> vals' ! p = (case option_value json p of None \<Rightarrow> vals ! p | Some v \<Rightarrow> v)"
  using fold_read_option [OF style_positions(1), of vals p json 0] style_positions(2) assms
  by (cases "fold (read_option json) style_options (vals, 0)")
    (simp add: getAttributes_def option_value_def Let_def NUMBER_OF_ATTRIBUTES_def)

definition sample_style :: "string \<Rightarrow> string option" where
  "sample_style k = (if k = ''penSize'' then Some ''LARGE'' else if k = ''windowFillColor'' then Some ''pink'' else None)"

theorem getAttributes_spec_witness:
  "\<exists>vals' msk. getAttributes (\<lambda>_. Some sample_style) ''{}'' (replicate 14 9) = (0, vals', msk)
    \<and> bit msk 5 \<and> vals' ! 5 = 2"
proof -
  have "option_value sample_style 5 = Some 2" by code_simp
  then show ?thesis
    using getAttributes_spec [of "''{}''" "\<lambda>_. Some sample_style" sample_style "replicate 14 9" 5]
    by (auto simp: NUMBER_OF_ATTRIBUTES_def)
qed

end
