(* ===== verification/Json_Object.thy ===== *)
theory Json_Object
  imports Base_Conversion
begin

text \<open>
  \<^verbatim>\<open>drm/DrmJsonObject.cpp\<close> and \<^verbatim>\<open>playerJsonObject/PlayerJsonObject.cpp\<close>, two copies of one wrapper of the cJSON
  library. The library is the parameter: a record with its functions over a type \<open>'j\<close> of items and \<open>'d\<close> of doubles. An
  item is a value here, so adding gives the new container; sharing of items between wrappers is not modelled. A
  creation or addition that fails for want of memory gives \<open>None\<close>.

  \<open>cjson_ok\<close> states the documented behaviour that the properties rely on.
\<close>

section \<open>Text and bytes\<close>

definition byte_of_char :: "char \<Rightarrow> byte" where
  "byte_of_char c = word_of_nat (of_char c)"

definition char_of_byte :: "byte \<Rightarrow> char" where
  "char_of_byte b = char_of (unat b)"

abbreviation bytes_of :: "string \<Rightarrow> byte list" where
  "bytes_of s \<equiv> map byte_of_char s"

abbreviation text_of :: "byte list \<Rightarrow> string" where
  "text_of bs \<equiv> map char_of_byte bs"

lemma char_of_byte_of_char [simp]: "char_of_byte (byte_of_char c) = c"
  by (simp add: char_of_byte_def byte_of_char_def unat_of_nat)

lemma byte_of_char_of_byte [simp]: "byte_of_char (char_of_byte b) = b"
  using unsigned_less [of b, where ?'a = nat] by (simp add: char_of_byte_def byte_of_char_def)

lemma text_of_bytes_of [simp]: "text_of (bytes_of s) = s"
  by (induction s) simp_all

lemma bytes_of_text_of [simp]: "bytes_of (text_of bs) = bs"
  by (induction bs) simp_all

lemma char_of_byte_zero [simp]: "char_of_byte 0 = CHR 0x00"
  by (simp add: char_of_byte_def char_of_def)

section \<open>The library\<close>

record ('j, 'd) cjson =
  cJSON_Parse :: "string \<Rightarrow> 'j option"
  cJSON_Print :: "'j \<Rightarrow> string option"
  cJSON_PrintUnformatted :: "'j \<Rightarrow> string option"
  cJSON_CreateObject :: "'j option"
  cJSON_CreateArray :: "'j option"
  cJSON_CreateString :: "string \<Rightarrow> 'j option"
  cJSON_CreateBool :: "bool \<Rightarrow> 'j option"
  cJSON_CreateNumber :: "'d \<Rightarrow> 'j option"
  cJSON_AddItemToArray :: "'j \<Rightarrow> 'j \<Rightarrow> 'j option"
  cJSON_AddItemToObject :: "'j \<Rightarrow> string \<Rightarrow> 'j \<Rightarrow> 'j option"
  cJSON_GetObjectItem :: "'j \<Rightarrow> string \<Rightarrow> 'j option"
  cJSON_children :: "'j \<Rightarrow> 'j list"
  cJSON_GetStringValue :: "'j \<Rightarrow> string option"
  cJSON_IsNumber :: "'j \<Rightarrow> bool"
  cJSON_IsArray :: "'j \<Rightarrow> bool"
  cJSON_IsString :: "'j \<Rightarrow> bool"
  cJSON_IsObject :: "'j \<Rightarrow> bool"
  valuedouble :: "'j \<Rightarrow> 'd"
  double_of_int :: "int \<Rightarrow> 'd"
  int_of_double :: "'d \<Rightarrow> int"

definition cjson_ok :: "('j, 'd) cjson \<Rightarrow> bool" where
  "cjson_ok lib \<longleftrightarrow>
     (\<forall>s j. cJSON_CreateString lib s = Some j \<longrightarrow> cJSON_GetStringValue lib j = Some s)
     \<and> (\<forall>ob name j ob'. cJSON_GetObjectItem lib ob name = None \<longrightarrow> cJSON_AddItemToObject lib ob name j = Some ob'
          \<longrightarrow> cJSON_GetObjectItem lib ob' name = Some j)
     \<and> (\<forall>arr j arr'. cJSON_AddItemToArray lib arr j = Some arr' \<longrightarrow> cJSON_children lib arr' = cJSON_children lib arr @ [j])
     \<and> (\<forall>arr. cJSON_CreateArray lib = Some arr \<longrightarrow> cJSON_children lib arr = [])"

lemma cjson_okD:
  assumes "cjson_ok lib"
  shows "cJSON_CreateString lib s = Some j \<Longrightarrow> cJSON_GetStringValue lib j = Some s"
    and "cJSON_GetObjectItem lib ob name = None \<Longrightarrow> cJSON_AddItemToObject lib ob name j = Some ob'
      \<Longrightarrow> cJSON_GetObjectItem lib ob' name = Some j"
    and "cJSON_AddItemToArray lib arr j = Some arr' \<Longrightarrow> cJSON_children lib arr' = cJSON_children lib arr @ [j]"
    and "cJSON_CreateArray lib = Some arr \<Longrightarrow> cJSON_children lib arr = []"
  using assms by (auto simp: cjson_ok_def)

section \<open>Adding\<close>

datatype encoding = ENCODING_STRING | ENCODING_BASE64 | ENCODING_BASE64_URL

definition add_json :: "('j, 'd) cjson \<Rightarrow> string \<Rightarrow> 'j option \<Rightarrow> 'j \<Rightarrow> bool \<times> 'j" where
  "add_json lib name value ob =
     (case value of
        None \<Rightarrow> (False, ob)
      | Some v \<Rightarrow> (case cJSON_AddItemToObject lib ob (cstr name) v of None \<Rightarrow> (False, ob) | Some ob' \<Rightarrow> (True, ob')))"

definition add_bytes ::
  "('j, 'd) cjson \<Rightarrow> (nat \<Rightarrow> bool) \<Rightarrow> string \<Rightarrow> byte list \<Rightarrow> encoding \<Rightarrow> 'j \<Rightarrow> bool \<times> 'j" where
  "add_bytes lib malloc_ok name values enc ob =
     (case enc of
        ENCODING_STRING \<Rightarrow> add_json lib name (cJSON_CreateString lib (cstr (text_of values))) ob
      | ENCODING_BASE64 \<Rightarrow>
          (case base64_Encode malloc_ok values of
             None \<Rightarrow> (False, ob)
           | Some e \<Rightarrow> add_json lib name (cJSON_CreateString lib (cstr e)) ob)
      | ENCODING_BASE64_URL \<Rightarrow>
          (case base64_URL_Encode malloc_ok values of
             None \<Rightarrow> (False, ob)
           | Some e \<Rightarrow> add_json lib name (cJSON_CreateString lib (cstr e)) ob))"

definition add_string ::
  "('j, 'd) cjson \<Rightarrow> (nat \<Rightarrow> bool) \<Rightarrow> string \<Rightarrow> string \<Rightarrow> encoding \<Rightarrow> 'j \<Rightarrow> bool \<times> 'j" where
  "add_string lib malloc_ok name value enc ob =
     (if enc = ENCODING_STRING then add_json lib name (cJSON_CreateString lib (cstr value)) ob
      else add_bytes lib malloc_ok name (bytes_of value) enc ob)"

fun add_items :: "('j, 'd) cjson \<Rightarrow> 'j option list \<Rightarrow> 'j \<Rightarrow> 'j option" where
  "add_items lib [] arr = Some arr"
| "add_items lib (None # items) arr = None"
| "add_items lib (Some j # items) arr =
     (case cJSON_AddItemToArray lib arr j of None \<Rightarrow> None | Some arr' \<Rightarrow> add_items lib items arr')"

definition add_array :: "('j, 'd) cjson \<Rightarrow> string \<Rightarrow> 'j option list \<Rightarrow> 'j \<Rightarrow> bool \<times> 'j" where
  "add_array lib name items ob =
     (case cJSON_CreateArray lib of
        None \<Rightarrow> (False, ob)
      | Some arr \<Rightarrow>
          (case add_items lib items arr of None \<Rightarrow> (False, ob) | Some arr' \<Rightarrow> add_json lib name (Some arr') ob))"

definition add_strings :: "('j, 'd) cjson \<Rightarrow> string \<Rightarrow> string list \<Rightarrow> 'j \<Rightarrow> bool \<times> 'j" where
  "add_strings lib name values ob = add_array lib name (map (\<lambda>v. cJSON_CreateString lib (cstr v)) values) ob"

definition add_objects :: "('j, 'd) cjson \<Rightarrow> string \<Rightarrow> 'j list \<Rightarrow> 'j \<Rightarrow> bool \<times> 'j" where
  "add_objects lib name values ob = add_array lib name (map Some values) ob"

definition add_bool :: "('j, 'd) cjson \<Rightarrow> string \<Rightarrow> bool \<Rightarrow> 'j \<Rightarrow> bool \<times> 'j" where
  "add_bool lib name value ob = add_json lib name (cJSON_CreateBool lib value) ob"

definition add_int :: "('j, 'd) cjson \<Rightarrow> string \<Rightarrow> int \<Rightarrow> 'j \<Rightarrow> bool \<times> 'j" where
  "add_int lib name value ob = add_json lib name (cJSON_CreateNumber lib (double_of_int lib value)) ob"

definition add_double :: "('j, 'd) cjson \<Rightarrow> string \<Rightarrow> 'd \<Rightarrow> 'j \<Rightarrow> bool \<times> 'j" where
  "add_double lib name value ob = add_json lib name (cJSON_CreateNumber lib value) ob"

definition print_json :: "('j, 'd) cjson \<Rightarrow> 'j \<Rightarrow> string" where
  "print_json lib ob = (case cJSON_Print lib ob of Some s \<Rightarrow> cstr s | None \<Rightarrow> [])"

definition print_UnFormatted :: "('j, 'd) cjson \<Rightarrow> 'j \<Rightarrow> string" where
  "print_UnFormatted lib ob = (case cJSON_PrintUnformatted lib ob of Some s \<Rightarrow> cstr s | None \<Rightarrow> [])"

section \<open>Reading\<close>

text \<open>An output parameter is an argument and a result.\<close>

definition PlayerJsonObject :: "('j, 'd) cjson \<Rightarrow> string \<Rightarrow> 'j res" where
  "PlayerJsonObject lib jsonStr =
     (case cJSON_Parse lib (cstr jsonStr) of None \<Rightarrow> Inl Thrown | Some j \<Rightarrow> Inr j)"

definition get_item :: "('j, 'd) cjson \<Rightarrow> 'j \<Rightarrow> string \<Rightarrow> 'j option" where
  "get_item lib ob name = cJSON_GetObjectItem lib ob (cstr name)"

definition get_object :: "('j, 'd) cjson \<Rightarrow> 'j \<Rightarrow> string \<Rightarrow> 'j \<Rightarrow> bool \<times> 'j" where
  "get_object lib ob name value = (case get_item lib ob name of Some j \<Rightarrow> (True, j) | None \<Rightarrow> (False, value))"

definition get_objects :: "('j, 'd) cjson \<Rightarrow> 'j \<Rightarrow> string \<Rightarrow> bool \<times> 'j list" where
  "get_objects lib ob name = (True, case get_item lib ob name of Some j \<Rightarrow> cJSON_children lib j | None \<Rightarrow> [])"

definition get_string :: "('j, 'd) cjson \<Rightarrow> 'j \<Rightarrow> string \<Rightarrow> string \<Rightarrow> bool \<times> string" where
  "get_string lib ob name value =
     (case Option.bind (get_item lib ob name) (cJSON_GetStringValue lib) of
        Some s \<Rightarrow> (True, cstr s)
      | None \<Rightarrow> (False, value))"

definition get_int :: "('j, 'd) cjson \<Rightarrow> 'j \<Rightarrow> string \<Rightarrow> int \<Rightarrow> bool \<times> int" where
  "get_int lib ob name value =
     (case get_item lib ob name of Some j \<Rightarrow> (True, int_of_double lib (valuedouble lib j)) | None \<Rightarrow> (False, value))"

definition get_double :: "('j, 'd) cjson \<Rightarrow> 'j \<Rightarrow> string \<Rightarrow> 'd \<Rightarrow> bool \<times> 'd" where
  "get_double lib ob name value =
     (case get_item lib ob name of
        Some j \<Rightarrow> if cJSON_IsNumber lib j then (True, valuedouble lib j) else (False, value)
      | None \<Rightarrow> (False, value))"

definition get_strings :: "('j, 'd) cjson \<Rightarrow> 'j \<Rightarrow> string \<Rightarrow> string list \<Rightarrow> bool \<times> string list" where
  "get_strings lib ob name values =
     (case get_item lib ob name of
        None \<Rightarrow> (False, values)
      | Some j \<Rightarrow>
          let found = List.map_filter (cJSON_GetStringValue lib) (cJSON_children lib j)
          in (found \<noteq> [], values @ map cstr found))"

definition get_bytes ::
  "('j, 'd) cjson \<Rightarrow> (nat \<Rightarrow> bool) \<Rightarrow> 'j \<Rightarrow> string \<Rightarrow> encoding \<Rightarrow> byte list \<Rightarrow> bool \<times> byte list" where
  "get_bytes lib malloc_ok ob name enc values =
     (case get_string lib ob name [] of
        (False, _) \<Rightarrow> (False, values)
      | (True, strValue) \<Rightarrow>
          (case enc of
             ENCODING_STRING \<Rightarrow> (False, bytes_of strValue)
           | ENCODING_BASE64 \<Rightarrow>
               (case base64_Decode malloc_ok strValue of Some d \<Rightarrow> (True, d) | None \<Rightarrow> (False, []))
           | ENCODING_BASE64_URL \<Rightarrow>
               (case base64_URL_Decode malloc_ok strValue of Some d \<Rightarrow> (True, d) | None \<Rightarrow> (False, []))))"

definition is_type :: "('j, 'd) cjson \<Rightarrow> (('j, 'd) cjson \<Rightarrow> 'j \<Rightarrow> bool) \<Rightarrow> 'j \<Rightarrow> string \<Rightarrow> bool" where
  "is_type lib test ob name = (case get_item lib ob name of Some j \<Rightarrow> test lib j | None \<Rightarrow> False)"

definition isArray :: "('j, 'd) cjson \<Rightarrow> 'j \<Rightarrow> string \<Rightarrow> bool" where
  "isArray lib = is_type lib cJSON_IsArray"

definition isString :: "('j, 'd) cjson \<Rightarrow> 'j \<Rightarrow> string \<Rightarrow> bool" where
  "isString lib = is_type lib cJSON_IsString"

definition isNumber :: "('j, 'd) cjson \<Rightarrow> 'j \<Rightarrow> string \<Rightarrow> bool" where
  "isNumber lib = is_type lib cJSON_IsNumber"

definition isObject :: "('j, 'd) cjson \<Rightarrow> 'j \<Rightarrow> string \<Rightarrow> bool" where
  "isObject lib = is_type lib cJSON_IsObject"

section \<open>Properties\<close>

lemma add_json_get:
  assumes "cjson_ok lib" and "get_item lib ob name = None" and "add_json lib name value ob = (True, ob')"
  shows "\<exists>j. value = Some j \<and> get_item lib ob' name = Some j"
  using assms(2,3) cjson_okD(2) [OF assms(1)]
  by (auto simp: add_json_def get_item_def split: option.splits)

lemma base64_Encode_clean:
  assumes "base64_Encode malloc_ok bs = Some e"
  shows "cstr e = e"
proof -
  obtain k where "e = base64_unpadded bs @ replicate k (CHR ''='')"
    using assms base64_encode_loop_unpadded [of bs] unfolding base64_Encode_def
    by (metis option.distinct(1) option.inject)
  moreover have "CHR 0x00 \<notin> set (base64_unpadded bs @ replicate k (CHR ''=''))"
    using base64_unpadded_chars base64_alphabet_clean by fastforce
  ultimately show ?thesis using cstr_clean by blast
qed

text \<open>Bytes that are added to a JSON object in base64 or base64url are read back unchanged under the same
  name, for every byte string and every library that keeps what it is given.\<close>

theorem json_bytes_roundtrip:
  assumes lib: "cjson_ok lib" and fresh: "get_item lib ob name = None"
    and enc: "enc \<in> {ENCODING_BASE64, ENCODING_BASE64_URL}"
    and add: "add_bytes lib (\<lambda>_. True) name bs enc ob = (True, ob')"
  shows "get_bytes lib (\<lambda>_. True) ob' name enc values = (True, bs)"
proof -
  let ?encoded = "if enc = ENCODING_BASE64 then base64_Encode (\<lambda>_. True) bs else base64_URL_Encode (\<lambda>_. True) bs"
  obtain e where e: "?encoded = Some e" and a: "add_json lib name (cJSON_CreateString lib (cstr e)) ob = (True, ob')"
    using enc add by (auto simp: add_bytes_def split: option.splits)
  have idem: "cstr (cstr s) = cstr s" for s by (simp add: cstr_def takeWhile_idem)
  have clean: "cstr e = e"
    using e base64_Encode_clean [of "\<lambda>_. True" bs e]
    by (auto simp: base64_URL_Encode_def idem split: if_splits)
  obtain j where j: "cJSON_CreateString lib e = Some j" "get_item lib ob' name = Some j"
    using add_json_get [OF lib fresh a] clean by auto
  have "get_string lib ob' name [] = (True, e)"
    using j cjson_okD(1) [OF lib] clean by (simp add: get_string_def)
  then show ?thesis
    using enc e base64_Decode_Encode [of "\<lambda>_. True" bs e] base64_URL_Decode_Encode [of "\<lambda>_. True" bs e]
    by (auto simp: get_bytes_def)
qed

text \<open>Reading bytes in plain encoding never succeeds: the value is delivered, but the result is false, present
  or not.\<close>

theorem get_bytes_plain_fails:
  "fst (get_bytes lib malloc_ok ob name ENCODING_STRING values) = False"
  by (simp add: get_bytes_def split: prod.splits bool.splits)

section \<open>A library for the witnesses\<close>

datatype json = JNumber int | JBool bool | JString string | JArray "json list" | JObject "(string \<times> json) list"

fun tree_child :: "json \<Rightarrow> json list" where
  "tree_child (JArray js) = js"
| "tree_child (JObject kvs) = map snd kvs"
| "tree_child _ = []"

fun tree_item :: "json \<Rightarrow> string \<Rightarrow> json option" where
  "tree_item (JObject kvs) k = map_of kvs k"
| "tree_item _ k = None"

fun tree_add :: "json \<Rightarrow> string \<Rightarrow> json \<Rightarrow> json option" where
  "tree_add (JObject kvs) k j = Some (JObject (kvs @ [(k, j)]))"
| "tree_add _ k j = None"

fun tree_append :: "json \<Rightarrow> json \<Rightarrow> json option" where
  "tree_append (JArray js) j = Some (JArray (js @ [j]))"
| "tree_append _ j = None"

fun tree_string :: "json \<Rightarrow> string option" where
  "tree_string (JString s) = Some s"
| "tree_string _ = None"

definition tree_cjson :: "(json, int) cjson" where
  "tree_cjson = \<lparr>cJSON_Parse = (\<lambda>_. None), cJSON_Print = (\<lambda>_. None), cJSON_PrintUnformatted = (\<lambda>_. None),
     cJSON_CreateObject = Some (JObject []), cJSON_CreateArray = Some (JArray []),
     cJSON_CreateString = Some \<circ> JString, cJSON_CreateBool = Some \<circ> JBool, cJSON_CreateNumber = Some \<circ> JNumber,
     cJSON_AddItemToArray = tree_append, cJSON_AddItemToObject = tree_add, cJSON_GetObjectItem = tree_item,
     cJSON_children = tree_child, cJSON_GetStringValue = tree_string,
     cJSON_IsNumber = (\<lambda>j. case j of JNumber _ \<Rightarrow> True | _ \<Rightarrow> False),
     cJSON_IsArray = (\<lambda>j. case j of JArray _ \<Rightarrow> True | _ \<Rightarrow> False),
     cJSON_IsString = (\<lambda>j. case j of JString _ \<Rightarrow> True | _ \<Rightarrow> False),
     cJSON_IsObject = (\<lambda>j. case j of JObject _ \<Rightarrow> True | _ \<Rightarrow> False),
     valuedouble = (\<lambda>j. case j of JNumber n \<Rightarrow> n | _ \<Rightarrow> 0), double_of_int = id, int_of_double = id\<rparr>"

lemma tree_cjson_ok: "cjson_ok tree_cjson"
proof -
  have "tree_item ob k = None \<Longrightarrow> tree_add ob k j = Some ob' \<Longrightarrow> tree_item ob' k = Some j" for ob k j ob'
    by (cases ob) (auto simp: map_add_def split: option.splits)
  moreover have "tree_append arr j = Some arr' \<Longrightarrow> tree_child arr' = tree_child arr @ [j]" for arr j arr'
    by (cases arr) auto
  ultimately show ?thesis by (auto simp: cjson_ok_def tree_cjson_def)
qed

theorem json_bytes_roundtrip_witness:
  "get_bytes tree_cjson (\<lambda>_. True) (JObject [(''k'', JString ''-_8'')]) ''k'' ENCODING_BASE64_URL [] = (True, [0xfb, 0xff])"
proof -
  have "base64_Encode (\<lambda>_. True) [0xfb, 0xff] = Some ''+/8=''"
    by (simp add: base64_Encode_def base64_quad_def base64_digit_def char_at_def base64_alphabet_def)
  then have "base64_URL_Encode (\<lambda>_. True) [0xfb, 0xff] = Some ''-_8''"
    by (simp add: base64_URL_Encode_def url_char_def cstr_def)
  then have "add_bytes tree_cjson (\<lambda>_. True) ''k'' [0xfb, 0xff] ENCODING_BASE64_URL (JObject [])
      = (True, JObject [(''k'', JString ''-_8'')])"
    by (simp add: add_bytes_def add_json_def tree_cjson_def cstr_def)
  from json_bytes_roundtrip [OF tree_cjson_ok _ _ this, of "[]"] show ?thesis
    by (simp add: get_item_def tree_cjson_def)
qed

end
