(* ===== verification/Drm_Helper.thy ===== *)
theory Drm_Helper
  imports Player_Utils Json_Object
begin

text \<open>
  The DRM helpers of \<^verbatim>\<open>drm/helper/\<close>, \<^verbatim>\<open>drm/DrmInfo.h\<close> and \<^verbatim>\<open>drm/DrmUtils.cpp\<close>: what the program reads out
  of the protection data of a stream (the PSSH box), per DRM system, and the engine that selects the
  helper. The classes derived from \<^verbatim>\<open>DrmHelper\<close> are one record with the class as a field; a virtual function is a
  definition by cases on the class. PSSH data are read through the bounds-checked byte memory.

  Parameters: \<open>uuid_unparse\<close> is \<^verbatim>\<open>uuid_unparse_lower\<close> of libuuid, \<open>malloc_ok\<close> says which allocations succeed, and
  the record \<open>cjson\<close> holds the functions of the cJSON library.
\<close>

section \<open>Searching\<close>

text \<open>\<open>find_str pat s\<close> is \<^verbatim>\<open>s.find(pat)\<close>: the first position where \<open>pat\<close> occurs, \<open>None\<close> for \<^verbatim>\<open>npos\<close>.\<close>

fun find_str :: "string \<Rightarrow> string \<Rightarrow> nat option" where
  "find_str pat [] = (if pat = [] then Some 0 else None)"
| "find_str pat (c # s) =
     (if take (length pat) (c # s) = pat then Some 0 else map_option Suc (find_str pat s))"

section \<open>DRM information\<close>

datatype drm_method = eMETHOD_NONE | eMETHOD_AES_128

datatype media_format = eMEDIAFORMAT_HLS | eMEDIAFORMAT_DASH | eMEDIAFORMAT_PROGRESSIVE | eMEDIAFORMAT_HLS_MP4
  | eMEDIAFORMAT_OTA | eMEDIAFORMAT_HDMI | eMEDIAFORMAT_COMPOSITE | eMEDIAFORMAT_SMOOTHSTREAMINGMEDIA
  | eMEDIAFORMAT_RMF | eMEDIAFORMAT_UNKNOWN

record drm_info =
  di_method :: drm_method
  mediaFormat :: media_format
  useFirst16BytesAsIV :: bool
  bPropagateUriParams :: bool
  bUseMediaSequenceIV :: bool
  bDecryptClearSamplesRequired :: bool
  di_iv :: "byte list"
  masterManifestURL :: string
  manifestURL :: string
  keyURI :: string
  keyFormat :: string
  systemUUID :: string
  initData :: string

definition DrmInfo :: drm_info where
  "DrmInfo = \<lparr>di_method = eMETHOD_NONE, mediaFormat = eMEDIAFORMAT_HLS, useFirst16BytesAsIV = False,
     bPropagateUriParams = True, bUseMediaSequenceIV = True, bDecryptClearSamplesRequired = True,
     di_iv = replicate 16 0, masterManifestURL = [], manifestURL = [], keyURI = [], keyFormat = [],
     systemUUID = [], initData = []\<rparr>"

text \<open>The assignment operator leaves two members of the left-hand side alone.\<close>

definition DrmInfo_assign :: "drm_info \<Rightarrow> drm_info \<Rightarrow> drm_info" where
  "DrmInfo_assign this other = other\<lparr>bPropagateUriParams := bPropagateUriParams this,
     bUseMediaSequenceIV := bUseMediaSequenceIV this\<rparr>"

definition PLAYREADY_UUID :: string where "PLAYREADY_UUID = ''9a04f079-9840-4286-ab92-e65be0885f95''"
definition WIDEVINE_UUID :: string where "WIDEVINE_UUID = ''edef8ba9-79d6-4ace-a3c8-27dcd51d21ed''"
definition CLEARKEY_UUID :: string where "CLEARKEY_UUID = ''1077efec-c0b2-4d02-ace3-3c1e52e2fb4b''"
definition VERIMATRIX_UUID :: string where "VERIMATRIX_UUID = ''9a27dd82-fde2-4725-8cbc-4234aa06ec09''"

definition CLEARKEY_OCDM_ID :: string where "CLEARKEY_OCDM_ID = ''org.w3.clearkey''"
definition WIDEVINE_OCDM_ID :: string where "WIDEVINE_OCDM_ID = ''com.widevine.alpha''"
definition PLAYREADY_OCDM_ID :: string where "PLAYREADY_OCDM_ID = ''com.microsoft.playready''"
definition VERIMATRIX_OCDM_ID :: string where "VERIMATRIX_OCDM_ID = ''com.verimatrix.ott''"

section \<open>Utilities\<close>

definition swapBytes :: "nat \<Rightarrow> nat \<Rightarrow> byte list \<Rightarrow> byte list" where
  "swapBytes pos1 pos2 bs = bs[pos1 := bs ! pos2, pos2 := bs ! pos1]"

definition convertEndianness :: "byte list \<Rightarrow> byte list" where
  "convertEndianness original =
     swapBytes 6 7 (swapBytes 4 5 (swapBytes 1 2 (swapBytes 0 3 (take 16 original))))"

definition extractWVContentMetadataFromPssh :: "mem \<Rightarrow> string res" where
  "extractWVContentMetadataFromPssh psshData =
     bindE (mem_read psshData 28 4) (\<lambda>bs.
     let content_id_size = be_u32 bs in
     if 28 + 4 + content_id_size \<le> word_of_nat (length psshData)
     then bindE (mem_read psshData 32 (unat content_id_size)) (\<lambda>d. Inr (text_of d))
     else Inr [])"

section \<open>The helpers\<close>

datatype helper_class = ClearKeyHelper | WidevineDrmHelper | PlayReadyHelper | VerimatrixHelper | VanillaDrmHelper

record helper =
  h_class :: helper_class
  mDrmInfo :: drm_info
  mInitData :: "byte list"
  mKeyID :: "byte list"
  mKeyIDs :: "byte list list"
  mContentMetadata :: string
  mDefaultKeySlot :: int
  protectionScheme :: u32
  bOutputProtectionEnabled :: bool
  mStrInitDataFormated :: string

definition new_helper :: "helper_class \<Rightarrow> drm_info \<Rightarrow> helper" where
  "new_helper c info = \<lparr>h_class = c, mDrmInfo = info, mInitData = [], mKeyID = [], mKeyIDs = [],
     mContentMetadata = [], mDefaultKeySlot = - 1, protectionScheme = 0, bOutputProtectionEnabled = False,
     mStrInitDataFormated = []\<rparr>"

definition ocdmSystemId :: "helper \<Rightarrow> string" where
  "ocdmSystemId h =
     (case h_class h of
        ClearKeyHelper \<Rightarrow> CLEARKEY_OCDM_ID
      | WidevineDrmHelper \<Rightarrow> WIDEVINE_OCDM_ID
      | PlayReadyHelper \<Rightarrow> PLAYREADY_OCDM_ID
      | VerimatrixHelper \<Rightarrow> VERIMATRIX_OCDM_ID
      | VanillaDrmHelper \<Rightarrow> [])"

text \<open>\<open>mKeyIDs\<close> is the map from \<open>0, 1, \<dots>\<close> to the key ids; the code only ever stores at an index up to its
  size, so the map is a list.\<close>

definition store_key :: "nat \<Rightarrow> byte list \<Rightarrow> helper \<Rightarrow> helper" where
  "store_key i k h = h\<lparr>mKeyIDs := (if i < length (mKeyIDs h) then (mKeyIDs h)[i := k] else mKeyIDs h @ [k])\<rparr>"

subsection \<open>Widevine\<close>

definition systemID_WideVine :: "byte list" where
  "systemID_WideVine =
     [0xed, 0xef, 0x8b, 0xa9, 0x79, 0xd6, 0x4a, 0xce, 0xa3, 0xc8, 0x27, 0xdc, 0xd5, 0x1d, 0x21, 0xed]"

definition READ_U32 :: "mem \<Rightarrow> nat \<Rightarrow> u32 res" where
  "READ_U32 m p = bindE (mem_read m p 4) (\<lambda>bs. Inr (be_u32 bs))"

text \<open>A number in base 128, least significant group first. The group is shifted as an \<^verbatim>\<open>int\<close>; a shift by its
  width or more is undefined.\<close>

function ParseMultiInt :: "mem \<Rightarrow> nat \<Rightarrow> nat \<Rightarrow> u64 \<Rightarrow> (u64 \<times> nat) res" where
  "ParseMultiInt m p shift iVal =
     (if p < length m then
        if 32 \<le> shift then Inl Undefined
        else
          let code = m ! p;
              iVal' = iVal OR scast (push_bit shift (ucast (code AND 0x7f)) :: u32)
          in if code AND 0x80 = 0 then Inr (iVal', p + 1) else ParseMultiInt m (p + 1) (shift + 7) iVal'
      else Inr (iVal, p))"
  by pat_completeness auto
termination by (relation "measure (\<lambda>(m, p, _, _). length m - p)") auto

lemma ParseMultiInt_moves: "ParseMultiInt m p shift iVal = Inr (v, q) \<Longrightarrow> p \<le> q"
proof (induction m p shift iVal rule: ParseMultiInt.induct)
  case (1 m p shift iVal)
  from "1.prems" show ?case
    by (subst (asm) ParseMultiInt.simps) (auto simp: Let_def split: if_splits dest!: "1.IH" [OF _ _ refl refl])
qed

declare ParseMultiInt.simps [simp del]

text \<open>The fields of the data of a version 0 box; \<open>kidCount\<close> key ids have been stored so far. What a log line prints
  of a field is left out.\<close>

function wv_fields :: "mem \<Rightarrow> nat \<Rightarrow> nat \<Rightarrow> bool \<Rightarrow> helper \<Rightarrow> (bool \<times> helper) res" where
  "wv_fields m p kidCount rc h =
     (if p < length m then
        let fieldType = m ! p in
        if fieldType \<in> {0x38, 0x50, 0x08} then
          bindE (ParseMultiInt m (p + 1) 0 0) (\<lambda>(_, q). wv_fields m q kidCount rc h)
        else if fieldType = 0x48 then
          bindE (ParseMultiInt m (p + 1) 0 0) (\<lambda>(v, q). wv_fields m q kidCount rc (h\<lparr>protectionScheme := ucast v\<rparr>))
        else if fieldType \<in> {0x22, 0x12} then
          bindE (mem_read m (p + 1) 1) (\<lambda>sz.
          let fieldSize = unat (hd sz); q = p + 2 in
          if 0 < fieldSize \<and> q + fieldSize \<le> length m
          then wv_fields m (q + fieldSize) (kidCount + 1) True (store_key kidCount (take fieldSize (drop q m)) h)
          else wv_fields m (q + fieldSize) kidCount rc h)
        else if fieldType \<in> {0x32, 0x2a, 0x1a} then
          bindE (mem_read m (p + 1) 1) (\<lambda>sz. wv_fields m (p + 2 + unat (hd sz)) kidCount rc h)
        else wv_fields m (p + 1) kidCount rc h
      else Inr (rc, h))"
  by pat_completeness auto
termination
  by (relation "measure (\<lambda>(m, p, _, _, _). length m - p)") (auto dest: ParseMultiInt_moves)

declare wv_fields.simps [simp del]

primrec wv_key_table :: "nat \<Rightarrow> mem \<Rightarrow> nat \<Rightarrow> nat \<Rightarrow> helper \<Rightarrow> helper res" where
  "wv_key_table 0 m p i h = Inr h"
| "wv_key_table (Suc n) m p i h =
     bindE (mem_read m p 16) (\<lambda>k. wv_key_table n m (p + 16) (i + 1) (store_key i k h))"

definition MultiChar_pssh :: u32 where "MultiChar_pssh = 0x70737368"

definition Widevine_parsePssh :: "mem \<Rightarrow> helper \<Rightarrow> (bool \<times> helper) res" where
  "Widevine_parsePssh m h0 =
     (let h = h0\<lparr>mInitData := m\<rparr> in
      bindE (READ_U32 m 0) (\<lambda>boxSize.
      if boxSize \<noteq> word_of_nat (length m) then Inr (False, h)
      else
        bindE (READ_U32 m 4) (\<lambda>boxType.
        if boxType \<noteq> MultiChar_pssh then Inr (False, h)
        else
          bindE (READ_U32 m 8) (\<lambda>versionAndFlags.
          bindE (mem_read m 12 16) (\<lambda>systemID.
          if systemID \<noteq> systemID_WideVine then Inr (False, h)
          else
            let psshDataVer = drop_bit 24 versionAndFlags in
            if psshDataVer = 0 then
              bindE (READ_U32 m 28) (\<lambda>_. wv_fields m 32 0 False h)
            else if psshDataVer = 1 then
              bindE (READ_U32 m 28) (\<lambda>kidCount.
              bindE (wv_key_table (unat kidCount) m 32 0 h) (\<lambda>h'. Inr (kidCount \<noteq> 0, h')))
            else Inr (False, h))))))"

definition setDefaultKeyID :: "string \<Rightarrow> helper \<Rightarrow> helper" where
  "setDefaultKeyID cencData h =
     (if h_class h = WidevineDrmHelper then
        fold (\<lambda>(i, k) h. if k = bytes_of cencData then h\<lparr>mDefaultKeySlot := int i\<rparr> else h)
          (enumerate 0 (mKeyIDs h)) h
      else h)"

subsection \<open>PlayReady\<close>

definition findSubstr :: "string \<Rightarrow> string \<Rightarrow> string \<Rightarrow> string" where
  "findSubstr dat start fin =
     (case find_str start dat of
        None \<Rightarrow> []
      | Some first \<Rightarrow>
          let subStr = drop (first + length start) dat in
          (case find_str fin subStr of None \<Rightarrow> [] | Some l \<Rightarrow> take l subStr))"

definition prop_end :: string where "prop_end = [CHR 0x22]"

definition extractKeyID :: "string \<Rightarrow> string" where
  "extractKeyID doc =
     (let version = findSubstr doc (''version='' @ prop_end) prop_end;
          info = findSubstr doc ''<PROTECTINFO>'' ''</PROTECTINFO>'';
          first_kid = (\<lambda>kids. findSubstr (findSubstr kids ''<KID'' ''</KID>'') (''VALUE='' @ prop_end) prop_end)
      in if version = ''4.0.0.0'' then findSubstr doc ''<KID>'' ''</KID>''
         else if version = ''4.1.0.0'' then first_kid info
         else if version = ''4.2.0.0'' then first_kid (findSubstr info ''<KIDS>'' ''</KIDS>'')
         else if version = ''4.3.0.0''
           then first_kid (findSubstr (findSubstr doc ''<PROTECTINFO'' ''</PROTECTINFO>'') ''<KIDS>'' ''</KIDS>'')
         else [])"

definition extractMetaData :: "string \<Rightarrow> string" where
  "extractMetaData doc =
     findSubstr doc (''<ckm:policy xmlns:ckm='' @ prop_end @ ''urn:ccp:ckm'' @ prop_end @ ''>'') ''</ckm:policy>''"

definition PlayReady_parsePssh ::
  "(byte list \<Rightarrow> string) \<Rightarrow> (nat \<Rightarrow> bool) \<Rightarrow> mem \<Rightarrow> helper \<Rightarrow> (bool \<times> helper) res" where
  "PlayReady_parsePssh uuid_unparse malloc_ok m h0 =
     (if m = [] then Inr (False, h0)
      else
        let cleaned = malloc_ok (length m + 1);
            h = h0\<lparr>mInitData := m, mStrInitDataFormated :=
                  (if cleaned then text_of (filter (\<lambda>b. b \<noteq> 0) m) else mStrInitDataFormated h0)\<rparr>;
            keyData = (if cleaned then extractKeyID (mStrInitDataFormated h) else []);
            finish = (\<lambda>res h'. Inr (res, h'\<lparr>mContentMetadata := extractMetaData (mStrInitDataFormated h)\<rparr>))
        in if keyData = [] then finish False h
           else case base64_Decode malloc_ok keyData of
             None \<Rightarrow> finish False h
           | Some decoded \<Rightarrow>
               if length decoded \<noteq> 16 then finish False h
               else finish True
                 (h\<lparr>mKeyID := take 36 (bytes_of (uuid_unparse (convertEndianness decoded)) @ replicate 37 0)\<rparr>))"

subsection \<open>ClearKey and Verimatrix\<close>

definition ClearKey_parsePssh :: "mem \<Rightarrow> helper \<Rightarrow> (bool \<times> helper) res" where
  "ClearKey_parsePssh m h =
     bindE (mem_read m 32 16) (\<lambda>k. Inr (True, h\<lparr>mInitData := m, mKeyID := k\<rparr>))"

definition KEYURL_TAG_START :: string where "KEYURL_TAG_START = ''<KeyUrl><![CDATA[''"
definition KEYURL_TAG_END :: string where "KEYURL_TAG_END = '']]></KeyUrl>''"

text \<open>\<^verbatim>\<open>substr\<close> takes the length as an unsigned number: an end tag before the start tag means the rest of the
  string; a start behind the end of the string throws.\<close>

definition Verimatrix_parsePssh :: "mem \<Rightarrow> helper \<Rightarrow> (bool \<times> helper) res" where
  "Verimatrix_parsePssh m h0 =
     (let h = h0\<lparr>mInitData := m\<rparr> in
      if mediaFormat (mDrmInfo h) = eMEDIAFORMAT_HLS then Inr (True, h)
      else if length m < 52 then Inr (False, h)
      else
        let pssh = cstr (text_of (drop 52 m)) in
        (case (find_str KEYURL_TAG_START pssh, find_str KEYURL_TAG_END pssh) of
           (Some sp0, Some ep) \<Rightarrow>
             let sp = sp0 + length KEYURL_TAG_START;
                 keyfile = (if sp \<le> ep then take (ep - sp) (drop sp pssh) else drop sp pssh)
             in Inr (True, h\<lparr>mKeyID := bytes_of keyfile\<rparr>)
         | _ \<Rightarrow> Inr (False, h)))"

section \<open>The interface of the helpers\<close>

definition parsePssh :: "(byte list \<Rightarrow> string) \<Rightarrow> (nat \<Rightarrow> bool) \<Rightarrow> mem \<Rightarrow> helper \<Rightarrow> (bool \<times> helper) res" where
  "parsePssh uuid_unparse malloc_ok m h =
     (case h_class h of
        ClearKeyHelper \<Rightarrow> ClearKey_parsePssh m h
      | WidevineDrmHelper \<Rightarrow> Widevine_parsePssh m h
      | PlayReadyHelper \<Rightarrow> PlayReady_parsePssh uuid_unparse malloc_ok m h
      | VerimatrixHelper \<Rightarrow> Verimatrix_parsePssh m h
      | VanillaDrmHelper \<Rightarrow> Inr (False, h))"

definition CLEARKEY_KEY_ID :: string where "CLEARKEY_KEY_ID = ''1''"

text \<open>\<open>keyID\<close> is the caller's vector, which some of the helpers leave alone.\<close>

definition getKey :: "helper \<Rightarrow> byte list \<Rightarrow> byte list" where
  "getKey h keyID =
     (case h_class h of
        ClearKeyHelper \<Rightarrow>
          if mediaFormat (mDrmInfo h) = eMEDIAFORMAT_DASH then mKeyID h else bytes_of CLEARKEY_KEY_ID
      | WidevineDrmHelper \<Rightarrow>
          if 0 \<le> mDefaultKeySlot h \<and> nat (mDefaultKeySlot h) < length (mKeyIDs h)
          then mKeyIDs h ! nat (mDefaultKeySlot h)
          else if mKeyIDs h \<noteq> [] then hd (mKeyIDs h)
          else keyID
      | PlayReadyHelper \<Rightarrow> mKeyID h
      | VerimatrixHelper \<Rightarrow>
          if mediaFormat (mDrmInfo h) = eMEDIAFORMAT_HLS then bytes_of (keyURI (mDrmInfo h))
          else if mediaFormat (mDrmInfo h) = eMEDIAFORMAT_DASH then mKeyID h
          else []
      | VanillaDrmHelper \<Rightarrow> keyID)"

definition getKeys :: "helper \<Rightarrow> byte list list" where
  "getKeys h = (if h_class h = WidevineDrmHelper then mKeyIDs h else [])"

definition getDrmMetaData :: "helper \<Rightarrow> string" where
  "getDrmMetaData h =
     (if h_class h \<in> {WidevineDrmHelper, PlayReadyHelper, VerimatrixHelper} then mContentMetadata h else [])"

definition setDrmMetaData :: "string \<Rightarrow> helper \<Rightarrow> helper" where
  "setDrmMetaData metaData h =
     (case h_class h of
        WidevineDrmHelper \<Rightarrow> h\<lparr>mContentMetadata := metaData\<rparr>
      | VerimatrixHelper \<Rightarrow> h\<lparr>mContentMetadata := metaData\<rparr>
      | PlayReadyHelper \<Rightarrow> if mContentMetadata h = [] then h\<lparr>mContentMetadata := metaData\<rparr> else h
      | _ \<Rightarrow> h)"

definition isHdcp22Required :: "helper \<Rightarrow> bool" where
  "isHdcp22Required h = bOutputProtectionEnabled h"

definition isExternalLicense :: "helper \<Rightarrow> bool" where
  "isExternalLicense h \<longleftrightarrow> h_class h \<in> {VerimatrixHelper, VanillaDrmHelper}"

definition isClearDecrypt :: "helper \<Rightarrow> bool" where
  "isClearDecrypt h \<longleftrightarrow> h_class h \<in> {ClearKeyHelper, VanillaDrmHelper}"

definition compare_helper :: "helper \<Rightarrow> helper option \<Rightarrow> bool" where
  "compare_helper h other =
     (case other of
        None \<Rightarrow> False
      | Some g \<Rightarrow>
          systemUUID (mDrmInfo h) = systemUUID (mDrmInfo g) \<and> mediaFormat (mDrmInfo h) = mediaFormat (mDrmInfo g)
          \<and> ocdmSystemId h = ocdmSystemId g \<and> getDrmMetaData h = getDrmMetaData g
          \<and> getKey h [] \<in> set (if getKeys g = [] then [getKey g []] else getKeys g))"

section \<open>License requests\<close>

datatype license_method = DRM_RETRIEVE | GET_LICENSE | POST_LICENSE

record license_request =
  lr_method :: license_method
  lr_url :: string
  lr_payload :: string
  lr_headers :: "(string \<times> string list) list"
  licenseAnonymousRequest :: bool

record challenge_info =
  ci_data :: "string option"
  ci_url :: string
  ci_accessToken :: string

text \<open>\<open>resolveURL\<close> of \<^verbatim>\<open>ClearKeyHelper.cpp\<close> is a copy of \<open>ResolveURL\<close>.\<close>

definition clearkey_resolveURL :: "string \<Rightarrow> string \<Rightarrow> string \<Rightarrow> bool \<Rightarrow> string res" where
  "clearkey_resolveURL dst base uri propagate = ResolveURL dst base (Some uri) propagate"

definition createInitData :: "('j, 'd) cjson \<Rightarrow> helper \<Rightarrow> byte list \<Rightarrow> byte list res" where
  "createInitData lib h out =
     (case h_class h of
        ClearKeyHelper \<Rightarrow>
          if mediaFormat (mDrmInfo h) = eMEDIAFORMAT_DASH then Inr (mInitData h)
          else (case cJSON_CreateObject lib of
              None \<Rightarrow> Inr out
            | Some ob \<Rightarrow>
                let (ok, ob') = add_strings lib ''kids'' [CLEARKEY_KEY_ID] ob
                in Inr (if ok then bytes_of (print_json lib ob') @ out else out))
      | WidevineDrmHelper \<Rightarrow> Inr (mInitData h)
      | PlayReadyHelper \<Rightarrow> Inr (mInitData h)
      | VerimatrixHelper \<Rightarrow>
          if mediaFormat (mDrmInfo h) = eMEDIAFORMAT_HLS
          then Inr (bytes_of (''{'' @ [CHR 0x22] @ ''contentType'' @ [CHR 0x22] @ '' : '' @ [CHR 0x22] @ ''HLS'' @ [CHR 0x22] @ ''}''))
          else if mediaFormat (mDrmInfo h) = eMEDIAFORMAT_DASH
          then Inr (bytes_of (''{'' @ [CHR 0x22] @ ''contentType'' @ [CHR 0x22] @ '' : '' @ [CHR 0x22] @ ''DASH'' @ [CHR 0x22] @ ''}''))
          else Inl Undefined
      | VanillaDrmHelper \<Rightarrow> Inr out)"

definition playready_challenge ::
  "('j, 'd) cjson \<Rightarrow> (nat \<Rightarrow> bool) \<Rightarrow> helper \<Rightarrow> challenge_info \<Rightarrow> bool \<Rightarrow> string \<Rightarrow> 'j \<Rightarrow> 'j" where
  "playready_challenge lib malloc_ok h ci anonymous dat ob =
     (let o1 = snd (add_string lib malloc_ok ''keySystem'' ''playReady'' ENCODING_STRING ob);
          o2 = snd (add_string lib malloc_ok ''mediaUsage'' ''stream'' ENCODING_STRING o1);
          o3 = snd (add_bytes lib malloc_ok ''licenseRequest'' (bytes_of dat) ENCODING_BASE64 o2);
          o4 = snd (add_string lib malloc_ok ''contentMetadata'' (mContentMetadata h) ENCODING_BASE64 o3)
      in if ci_accessToken ci \<noteq> [] \<and> \<not> anonymous
         then snd (add_string lib malloc_ok ''accessToken'' (ci_accessToken ci) ENCODING_STRING o4) else o4)"

definition generateLicenseRequest ::
  "('j, 'd) cjson \<Rightarrow> (nat \<Rightarrow> bool) \<Rightarrow> helper \<Rightarrow> challenge_info \<Rightarrow> license_request \<Rightarrow> license_request res" where
  "generateLicenseRequest lib malloc_ok h ci req =
     (let post = req\<lparr>lr_method := POST_LICENSE\<rparr>;
          with_url = (\<lambda>r. if lr_url r = [] then r\<lparr>lr_url := ci_url ci\<rparr> else r)
      in case h_class h of
        ClearKeyHelper \<Rightarrow>
          bindE (if lr_url req = [] then
                   if keyURI (mDrmInfo h) \<noteq> [] then
                     bindE (clearkey_resolveURL [] (manifestURL (mDrmInfo h)) (keyURI (mDrmInfo h))
                              (bPropagateUriParams (mDrmInfo h))) (\<lambda>u. Inr (post\<lparr>lr_url := u\<rparr>))
                   else Inr (post\<lparr>lr_url := ci_url ci\<rparr>)
                 else Inr post) (\<lambda>r.
          Inr (case ci_data ci of None \<Rightarrow> r | Some d \<Rightarrow> r\<lparr>lr_payload := d\<rparr>))
      | WidevineDrmHelper \<Rightarrow>
          (case ci_data ci of
             None \<Rightarrow> Inl NullDeref
           | Some d \<Rightarrow> Inr ((with_url post)\<lparr>lr_headers := [(''Content-Type:'', [''application/octet-stream''])], lr_payload := d\<rparr>))
      | PlayReadyHelper \<Rightarrow>
          let r = (with_url post)\<lparr>lr_headers := [(''Content-Type:'', [''text/xml; charset=utf-8''])]\<rparr> in
          (case ci_data ci of
             None \<Rightarrow> if mContentMetadata h \<noteq> [] then Inl NullDeref else Inr r
           | Some d \<Rightarrow>
               Inr (r\<lparr>lr_payload :=
                 (if mContentMetadata h \<noteq> [] then
                    (case cJSON_CreateObject lib of
                       None \<Rightarrow> []
                     | Some ob \<Rightarrow> print_json lib (playready_challenge lib malloc_ok h ci (licenseAnonymousRequest req) d ob))
                  else d)\<rparr>))
      | VerimatrixHelper \<Rightarrow> Inr (req\<lparr>lr_method := DRM_RETRIEVE, lr_url := [], lr_payload := []\<rparr>)
      | VanillaDrmHelper \<Rightarrow> Inr req)"

definition transformLicenseResponse :: "('j, 'd) cjson \<Rightarrow> (nat \<Rightarrow> bool) \<Rightarrow> helper \<Rightarrow> string \<Rightarrow> string" where
  "transformLicenseResponse lib malloc_ok h response =
     (case h_class h of
        ClearKeyHelper \<Rightarrow>
          if mediaFormat (mDrmInfo h) \<in> {eMEDIAFORMAT_HLS, eMEDIAFORMAT_HLS_MP4} then
            (case cJSON_CreateObject lib of
               None \<Rightarrow> []
             | Some ob \<Rightarrow>
                 let k1 = snd (add_string lib malloc_ok ''alg'' ''cbc'' ENCODING_STRING ob);
                     k2 = snd (add_bytes lib malloc_ok ''k'' (bytes_of response) ENCODING_BASE64_URL k1);
                     k3 = snd (add_bytes lib malloc_ok ''kid'' (bytes_of CLEARKEY_KEY_ID) ENCODING_BASE64_URL k2)
                 in print_json lib (snd (add_objects lib ''keys'' [k3] ob)))
          else response
      | VerimatrixHelper \<Rightarrow>
          if mediaFormat (mDrmInfo h) = eMEDIAFORMAT_HLS then keyURI (mDrmInfo h)
          else if mediaFormat (mDrmInfo h) = eMEDIAFORMAT_DASH then text_of (mKeyID h)
          else response
      | _ \<Rightarrow> response)"

section \<open>The engine\<close>

definition isDRM :: "helper_class \<Rightarrow> drm_info \<Rightarrow> bool" where
  "isDRM c info =
     (case c of
        ClearKeyHelper \<Rightarrow> di_method info = eMETHOD_AES_128 \<and> mediaFormat info \<in> {eMEDIAFORMAT_DASH, eMEDIAFORMAT_HLS_MP4}
      | WidevineDrmHelper \<Rightarrow> (WIDEVINE_UUID = systemUUID info \<or> WIDEVINE_OCDM_ID = keyFormat info)
          \<and> mediaFormat info \<in> {eMEDIAFORMAT_DASH, eMEDIAFORMAT_HLS_MP4}
      | PlayReadyHelper \<Rightarrow> (systemUUID info = PLAYREADY_UUID \<or> keyFormat info = PLAYREADY_OCDM_ID)
          \<and> mediaFormat info \<in> {eMEDIAFORMAT_DASH, eMEDIAFORMAT_HLS_MP4}
      | VerimatrixHelper \<Rightarrow> (VERIMATRIX_UUID = systemUUID info \<or> VERIMATRIX_OCDM_ID = keyFormat info)
          \<and> mediaFormat info \<in> {eMEDIAFORMAT_DASH, eMEDIAFORMAT_HLS}
      | VanillaDrmHelper \<Rightarrow> False)"

record factory =
  f_class :: helper_class
  mWeighting :: int

definition DEFAULT_WEIGHTING :: int where "DEFAULT_WEIGHTING = 50"

definition helper_factory :: "helper_class \<Rightarrow> factory" where
  "helper_factory c = \<lparr>f_class = c, mWeighting = (if c = ClearKeyHelper then DEFAULT_WEIGHTING * 2 else DEFAULT_WEIGHTING)\<rparr>"

definition registerFactory :: "factory \<Rightarrow> factory list \<Rightarrow> factory list" where
  "registerFactory f factories = sort_key mWeighting (factories @ [f])"

definition hasDRM :: "factory list \<Rightarrow> drm_info \<Rightarrow> bool" where
  "hasDRM factories info = list_ex (\<lambda>f. isDRM (f_class f) info) factories"

definition createHelper :: "factory list \<Rightarrow> drm_info \<Rightarrow> helper option" where
  "createHelper factories info =
     (case find (\<lambda>f. isDRM (f_class f) info) factories of
        None \<Rightarrow> None
      | Some f \<Rightarrow> if isDRM (f_class f) info then Some (new_helper (f_class f) info) else None)"

fun system_id :: "helper_class \<Rightarrow> string" where
  "system_id ClearKeyHelper = CLEARKEY_UUID"
| "system_id WidevineDrmHelper = WIDEVINE_UUID"
| "system_id PlayReadyHelper = PLAYREADY_UUID"
| "system_id VerimatrixHelper = VERIMATRIX_UUID"
| "system_id VanillaDrmHelper = []"

definition getSystemIds :: "factory list \<Rightarrow> string list" where
  "getSystemIds factories = map (\<lambda>f. system_id (f_class f)) factories"

end
