(* ===== verification/Drm_Pssh.thy ===== *)
theory Drm_Pssh
  imports Drm_Helper "HOL-Library.Multiset"
begin

text \<open>
  What the DRM helpers read out of protection data: round trips for the two Widevine box versions and the PlayReady
  header, the reads outside the data that a wrong count or size causes, and the selection of the helper.
\<close>

section \<open>Widevine, version 1\<close>

definition wv_box :: "byte \<Rightarrow> byte list \<Rightarrow> mem" where
  "wv_box version payload = u32_be (word_of_nat (28 + length payload)) @ u32_be MultiChar_pssh @ [version, 0, 0, 0]
     @ systemID_WideVine @ payload"

lemma length_wv_system [simp]: "length systemID_WideVine = 16"
  by (simp add: systemID_WideVine_def)

lemma READ_U32_at: "READ_U32 (pre @ u32_be v @ post) (length pre) = Inr v"
  by (simp add: READ_U32_def mem_read_def)

lemma READ_U32_short: "length m < p + 4 \<Longrightarrow> READ_U32 m p = Inl OutOfBounds"
  by (simp add: READ_U32_def mem_read_def)

text \<open>The header of a box is accepted; what follows depends on the version.\<close>

lemma length_wv_box: "length (wv_box version payload) = 28 + length payload"
  by (simp add: wv_box_def)

lemma wv_box_reads:
  "READ_U32 (wv_box version payload) 0 = Inr (word_of_nat (28 + length payload))"
  "READ_U32 (wv_box version payload) 4 = Inr MultiChar_pssh"
  "READ_U32 (wv_box version payload) 8 = Inr (be_u32 [version, 0, 0, 0])"
  "mem_read (wv_box version payload) 12 16 = Inr systemID_WideVine"
  by (simp_all add: wv_box_def READ_U32_def mem_read_def)

lemma wv_version: "drop_bit 24 (be_u32 [version, 0, 0, 0]) = (ucast version :: u32)"
  by (rule bit_word_eqI) (auto simp: be_u32_def bit_simps word_bit_high dest: bit_imp_le_length)

lemma ucast_version: "(ucast version :: u32) = ucast (w :: byte) \<longleftrightarrow> version = w"
proof
  have "ucast (ucast v :: u32) = v" for v :: byte
    by (rule bit_word_eqI) (auto simp: bit_simps)
  then show "version = w" if "(ucast version :: u32) = ucast w" using that by metis
qed simp

lemma wv_header:
  "Widevine_parsePssh (wv_box version payload) h =
    (if version = 0 then bindE (READ_U32 (wv_box version payload) 28) (\<lambda>_.
       wv_fields (wv_box version payload) 32 0 False (h\<lparr>mInitData := wv_box version payload\<rparr>))
     else if version = 1 then bindE (READ_U32 (wv_box version payload) 28) (\<lambda>n.
       bindE (wv_key_table (unat n) (wv_box version payload) 32 0 (h\<lparr>mInitData := wv_box version payload\<rparr>))
         (\<lambda>h'. Inr (n \<noteq> 0, h')))
     else Inr (False, h\<lparr>mInitData := wv_box version payload\<rparr>))"
  using ucast_version [of version 0] ucast_version [of version 1]
  by (simp add: Widevine_parsePssh_def Let_def wv_box_reads wv_version length_wv_box)

lemma store_key_append: "length (mKeyIDs h) = i \<Longrightarrow> store_key i k h = h\<lparr>mKeyIDs := mKeyIDs h @ [k]\<rparr>"
  by (simp add: store_key_def)

lemma wv_key_table_keys:
  assumes "\<forall>k \<in> set keys. length k = 16" and "i = length (mKeyIDs h)"
  shows "wv_key_table (length keys) (pre @ concat keys @ post) (length pre) i h
    = Inr (h\<lparr>mKeyIDs := mKeyIDs h @ keys\<rparr>)"
  using assms
proof (induction keys arbitrary: pre i h)
  case (Cons k keys)
  have r: "mem_read (pre @ concat (k # keys) @ post) (length pre) 16 = Inr k"
    using Cons.prems(1) by (simp add: mem_read_def)
  show ?case
    using Cons.prems Cons.IH [of "i + 1" "h\<lparr>mKeyIDs := mKeyIDs h @ [k]\<rparr>" "pre @ k"] r
    by (simp add: store_key_append)
qed simp

lemma wv_key_table_overrun:
  "0 < n \<Longrightarrow> length m < p + 16 * n \<Longrightarrow> wv_key_table n m p i h = Inl OutOfBounds"
proof (induction n arbitrary: p i h)
  case (Suc n)
  show ?case
  proof (cases "n = 0")
    case False
    then have "wv_key_table n m (p + 16) (i + 1) h' = Inl OutOfBounds" for h'
      using Suc by simp
    then show ?thesis by (simp add: mem_read_def)
  qed (use Suc in \<open>simp add: mem_read_def\<close>)
qed simp

text \<open>A version 1 Widevine box with any list of key ids is read back: the helper holds exactly these key ids in
  order and the result says whether there is one; the data after the table does not matter.\<close>

theorem widevine_v1_roundtrip:
  assumes keys: "\<forall>k \<in> set keys. length k = 16" and none: "mKeyIDs h = []"
    and small: "32 + 16 * length keys + length rest < 2 ^ 32"
    and m: "m = wv_box 1 (u32_be (word_of_nat (length keys)) @ concat keys @ rest)"
  shows "Widevine_parsePssh m h = Inr (keys \<noteq> [], h\<lparr>mInitData := m, mKeyIDs := keys\<rparr>)"
proof -
  have len: "length (concat keys) = 16 * length keys"
    using keys by (induction keys) simp_all
  let ?payload = "u32_be (word_of_nat (length keys)) @ concat keys @ rest"
  have n: "READ_U32 m 28 = Inr (word_of_nat (length keys))"
    by (simp add: m wv_box_def READ_U32_def mem_read_def)
  have u: "unat (word_of_nat (length keys) :: u32) = length keys"
    using small by (simp add: unat_of_nat)
  then have nz: "(word_of_nat (length keys) :: u32) \<noteq> 0 \<longleftrightarrow> keys \<noteq> []"
    by (metis length_0_conv unat_eq_zero)
  define pre where "pre = take 32 m"
  have m': "m = pre @ concat keys @ rest" "length pre = 32"
    by (simp_all add: m wv_box_def pre_def)
  have "wv_key_table (length keys) m 32 0 (h\<lparr>mInitData := m\<rparr>) = Inr (h\<lparr>mInitData := m, mKeyIDs := keys\<rparr>)"
    using wv_key_table_keys [OF keys, of 0 "h\<lparr>mInitData := m\<rparr>" pre rest] m' none by simp
  then show ?thesis
    using wv_header [of 1 ?payload h] n u nz by (simp add: m [symmetric])
qed

theorem widevine_v1_roundtrip_witness:
  "Widevine_parsePssh (wv_box 1 (u32_be 1 @ replicate 16 7 @ [])) (new_helper WidevineDrmHelper DrmInfo)
    = Inr (True, (new_helper WidevineDrmHelper DrmInfo)\<lparr>mInitData := wv_box 1 (u32_be 1 @ replicate 16 7),
        mKeyIDs := [replicate 16 7]\<rparr>)"
  using widevine_v1_roundtrip [of "[replicate 16 7]" "new_helper WidevineDrmHelper DrmInfo" "[]"]
  by (simp add: new_helper_def)

text \<open>The count of a version 1 box is trusted: when the box is too short for the number of key ids that it announces
  the parser reads behind its end.\<close>

theorem widevine_v1_count_overrun:
  assumes "0 < unat n" and "length rest < 16 * unat n" and "m = wv_box 1 (u32_be n @ rest)"
  shows "Widevine_parsePssh m h = Inl OutOfBounds"
proof -
  have r: "READ_U32 m 28 = Inr n"
    by (simp add: assms(3) wv_box_def READ_U32_def mem_read_def)
  have "wv_key_table (unat n) m 32 0 (h\<lparr>mInitData := m\<rparr>) = Inl OutOfBounds"
    using assms by (intro wv_key_table_overrun) (simp_all add: length_wv_box)
  then show ?thesis
    using wv_header [of 1 "u32_be n @ rest" h] r by (simp add: assms(3) [symmetric])
qed

theorem widevine_v1_count_overrun_witness:
  "Widevine_parsePssh (wv_box 1 (u32_be 2 @ replicate 16 7)) (new_helper WidevineDrmHelper DrmInfo) = Inl OutOfBounds"
  by (rule widevine_v1_count_overrun [of 2 "replicate 16 7"]) simp_all

section \<open>Widevine, version 0\<close>

text \<open>The data of a version 0 box are the fields of a protocol buffer: a field type and a number in base 128 or a
  length and bytes.\<close>

datatype wv_field = WvKeyId "byte list" | WvContentId "byte list" | WvScheme nat | WvNumber byte nat | WvText byte "byte list"

fun varint :: "nat \<Rightarrow> byte list" where
  "varint n = (if n < 128 then [word_of_nat n] else (word_of_nat (n mod 128) OR 0x80) # varint (n div 128))"

declare varint.simps [simp del]

fun wv_field_bytes :: "wv_field \<Rightarrow> byte list" where
  "wv_field_bytes (WvKeyId k) = 0x12 # word_of_nat (length k) # k"
| "wv_field_bytes (WvContentId k) = 0x22 # word_of_nat (length k) # k"
| "wv_field_bytes (WvScheme n) = 0x48 # varint n"
| "wv_field_bytes (WvNumber t n) = t # varint n"
| "wv_field_bytes (WvText t bs) = t # word_of_nat (length bs) # bs"

fun wv_field_ok :: "wv_field \<Rightarrow> bool" where
  "wv_field_ok (WvKeyId k) = (0 < length k \<and> length k < 256)"
| "wv_field_ok (WvContentId k) = (0 < length k \<and> length k < 256)"
| "wv_field_ok (WvScheme n) = (n < 2 ^ 32)"
| "wv_field_ok (WvNumber t n) = (t \<in> {0x38, 0x50, 0x08} \<and> n < 2 ^ 32)"
| "wv_field_ok (WvText t bs) = (t \<in> {0x32, 0x2a, 0x1a} \<and> length bs < 256)"

fun wv_field_id :: "wv_field \<Rightarrow> byte list option" where
  "wv_field_id (WvKeyId k) = Some k"
| "wv_field_id (WvContentId k) = Some k"
| "wv_field_id _ = None"

fun wv_field_scheme :: "wv_field \<Rightarrow> nat option" where
  "wv_field_scheme (WvScheme n) = Some n"
| "wv_field_scheme _ = None"

definition wv_ids :: "wv_field list \<Rightarrow> byte list list" where
  "wv_ids fs = List.map_filter wv_field_id fs"

definition wv_scheme :: "u32 \<Rightarrow> wv_field list \<Rightarrow> u32" where
  "wv_scheme s fs = foldl (\<lambda>s n. word_of_nat n) s (List.map_filter wv_field_scheme fs)"

lemma word_of_nat_split:
  "(word_of_nat n :: u32) = word_of_nat (n mod 128) OR push_bit 7 (word_of_nat (n div 128))"
proof (rule bit_word_eqI)
  fix i assume "i < LENGTH(32)"
  have "bit n i \<longleftrightarrow> bit (take_bit 7 n) i \<or> 7 \<le> i \<and> bit (drop_bit 7 n) (i - 7)"
    by (cases "i < 7") (simp_all add: bit_take_bit_iff bit_drop_bit_eq)
  then have "bit n i \<longleftrightarrow> bit (n mod 128) i \<or> 7 \<le> i \<and> bit (n div 128) (i - 7)"
    by (simp add: take_bit_eq_mod drop_bit_eq_div)
  then show "bit (word_of_nat n :: u32) i = bit (word_of_nat (n mod 128) OR push_bit 7 (word_of_nat (n div 128)) :: u32) i"
    using \<open>i < LENGTH(32)\<close> by (auto simp: bit_simps)
qed

lemma byte_masks: "(w :: byte) AND 0x7f = take_bit 7 w" "(w :: byte) AND 0x80 = 0 \<longleftrightarrow> \<not> bit w 7"
  using and_exp_eq_0_iff_not_bit [of w 7] by (simp_all add: take_bit_eq_mask mask_eq_exp_minus_1)

lemma nat_bits_below: "k < 2 ^ j \<Longrightarrow> j \<le> i \<Longrightarrow> \<not> bit k i" for k :: nat
  by (metis bit_take_bit_iff linorder_not_le take_bit_nat_eq_self)

lemma last_group:
  assumes "k < 128"
  shows "\<not> bit (word_of_nat k :: byte) 7" "(ucast (take_bit 7 (word_of_nat k :: byte)) :: u32) = word_of_nat k"
proof -
  have b: "\<not> bit k i" if "7 \<le> i" for i using nat_bits_below [of k 7 i] assms that by simp
  show "\<not> bit (word_of_nat k :: byte) 7" using b by (simp add: bit_simps)
  show "(ucast (take_bit 7 (word_of_nat k :: byte)) :: u32) = word_of_nat k"
  proof (rule bit_word_eqI)
    fix i assume "i < LENGTH(32)"
    then show "bit (ucast (take_bit 7 (word_of_nat k :: byte)) :: u32) i = bit (word_of_nat k :: u32) i"
      using b [of i] by (cases "i < 7") (auto simp: bit_simps)
  qed
qed

lemma more_group:
  assumes "k < 128"
  shows "bit (word_of_nat k OR 0x80 :: byte) 7" "(ucast (take_bit 7 (word_of_nat k OR 0x80 :: byte)) :: u32) = word_of_nat k"
proof -
  have h: "(0x80 :: byte) = push_bit 7 1" by simp
  show "bit (word_of_nat k OR 0x80 :: byte) 7" unfolding h by (simp add: bit_simps del: push_bit_of_1)
  show "(ucast (take_bit 7 (word_of_nat k OR 0x80 :: byte)) :: u32) = word_of_nat k"
  proof (rule bit_word_eqI)
    fix i assume "i < LENGTH(32)"
    have b: "\<not> bit k i" if "7 \<le> i" for i using nat_bits_below [of k 7 i] assms that by simp
    show "bit (ucast (take_bit 7 (word_of_nat k OR 0x80 :: byte)) :: u32) i = bit (word_of_nat k :: u32) i"
      unfolding h using b [of i] \<open>i < LENGTH(32)\<close> by (cases "i < 7") (auto simp: bit_simps simp del: push_bit_of_1)
  qed
qed

lemma low_group: "(ucast (iVal OR scast (w :: u32) :: u64) :: u32) = ucast iVal OR w"
  by (rule bit_word_eqI) (auto simp: bit_simps)

text \<open>The low 32 bits of what the parser has read.\<close>

lemma ParseMultiInt_varint:
  assumes "n * 2 ^ shift < 2 ^ 32" and "shift < 32" and "drop p m = varint n @ rest"
  shows "\<exists>v. ParseMultiInt m p shift iVal = Inr (v, p + length (varint n))
    \<and> (ucast v :: u32) = ucast iVal OR push_bit shift (word_of_nat n)"
  using assms
proof (induction n arbitrary: shift p iVal rule: varint.induct)
  case (1 n)
  have "varint n \<noteq> []" by (simp add: varint.simps [of n])
  then have ne: "p < length m" using "1.prems"(3) by (metis append_is_Nil_conv drop_eq_Nil linorder_not_le)
  then have d: "drop p m = m ! p # drop (p + 1) m" by (simp add: Cons_nth_drop_Suc)
  show ?case
  proof (cases "n < 128")
    case True
    then have "m ! p = word_of_nat n" using d "1.prems"(3) by (simp add: varint.simps [of n])
    then show ?thesis
      using True "1.prems"(2) ne
      by (subst ParseMultiInt.simps) (simp add: Let_def low_group last_group byte_masks varint.simps [of n])
  next
    case False
    then have b: "m ! p = word_of_nat (n mod 128) OR 0x80" and r: "drop (p + 1) m = varint (n div 128) @ rest"
      using d "1.prems"(3) by (simp_all add: varint.simps [of n])
    have s7: "shift + 7 < 32"
    proof (rule ccontr)
      assume "\<not> shift + 7 < 32"
      then have "(2 :: nat) ^ 25 \<le> 2 ^ shift" by (intro power_increasing) auto
      then have "128 * 2 ^ 25 \<le> n * 2 ^ shift" using False by (intro mult_le_mono) auto
      then show False using "1.prems"(1) by simp
    qed
    have le: "n div 128 * 2 ^ (shift + 7) < 2 ^ 32"
    proof -
      have "n div 128 * 2 ^ (shift + 7) = (n div 128 * 128) * 2 ^ shift" by (simp add: power_add)
      also have "\<dots> \<le> n * 2 ^ shift" by (intro mult_le_mono) auto
      finally show ?thesis using "1.prems"(1) by simp
    qed
    let ?iVal = "iVal OR scast (push_bit shift (ucast (m ! p AND 0x7f)) :: u32)"
    obtain v where v: "ParseMultiInt m (p + 1) (shift + 7) ?iVal = Inr (v, p + 1 + length (varint (n div 128)))"
      "(ucast v :: u32) = ucast ?iVal OR push_bit (shift + 7) (word_of_nat (n div 128))"
      using "1.IH" [OF False le s7 r] by blast
    have step: "ParseMultiInt m p shift iVal = ParseMultiInt m (p + 1) (shift + 7) ?iVal"
      using "1.prems"(2) ne b more_group(1) [of "n mod 128"]
      by (subst ParseMultiInt.simps) (simp add: Let_def byte_masks)
    have "(ucast v :: u32) = ucast iVal OR push_bit shift (word_of_nat (n mod 128))
        OR push_bit (shift + 7) (word_of_nat (n div 128))"
      using v(2) b by (simp add: low_group byte_masks more_group last_group(2) [of "n mod 128"] or.assoc)
    also have "\<dots> = ucast iVal OR push_bit shift (word_of_nat n)"
      unfolding word_of_nat_split [of n] push_bit_or push_bit_push_bit by (simp add: or.assoc add.commute)
    finally show ?thesis using v(1) step False by (simp add: varint.simps [of n])
  qed
qed

lemma ParseMultiInt_number:
  assumes "n < 2 ^ 32" and "drop p m = varint n @ rest"
  obtains v where "ParseMultiInt m p 0 0 = Inr (v, p + length (varint n))" "(ucast v :: u32) = word_of_nat n"
  using ParseMultiInt_varint [of n 0 p m rest 0] assms by auto

lemma drop_field: "drop p m = xs @ ys \<Longrightarrow> drop (p + length xs) m = ys"
  by (metis add.commute append_eq_conv_conj drop_drop)

lemma wv_field_step:
  assumes ok: "wv_field_ok f" and d: "drop p m = wv_field_bytes f @ rest" and kc: "kidCount = length (mKeyIDs h)"
  shows "wv_fields m p kidCount rc h =
    wv_fields m (p + length (wv_field_bytes f)) (kidCount + length (wv_ids [f])) (rc \<or> wv_ids [f] \<noteq> [])
      (h\<lparr>mKeyIDs := mKeyIDs h @ wv_ids [f], protectionScheme := wv_scheme (protectionScheme h) [f]\<rparr>)"
proof -
  have ne: "p < length m" and fst: "m ! p = hd (wv_field_bytes f)" and tl: "drop (p + 1) m = tl (wv_field_bytes f) @ rest"
  proof -
    have n: "wv_field_bytes f \<noteq> []" by (cases f) simp_all
    then show l: "p < length m" using d by (metis append_is_Nil_conv drop_eq_Nil linorder_not_le)
    from d n Cons_nth_drop_Suc [OF l] show "m ! p = hd (wv_field_bytes f)" "drop (p + 1) m = tl (wv_field_bytes f) @ rest"
      by (cases "wv_field_bytes f"; simp)+
  qed
  have upd: "h = h\<lparr>mKeyIDs := mKeyIDs h, protectionScheme := protectionScheme h\<rparr>" by simp
  have keys: ?thesis if f: "f \<in> {WvKeyId k, WvContentId k}" for k
  proof -
    have k: "0 < length k" "length k < 256" "unat (word_of_nat (length k) :: byte) = length k"
      using f ok by (auto simp: unat_of_nat)
    from f tl have s: "drop (p + 1) m = word_of_nat (length k) # k @ rest" by auto
    then have "length m - (p + 1) = Suc (length k + length rest)" by (metis length_Cons length_append length_drop)
    then have l: "p + 2 + length k \<le> length m" by simp
    have r: "mem_read m (p + 1) 1 = Inr [word_of_nat (length k)]" using s l by (simp add: mem_read_def)
    have "drop (p + 2) m = k @ rest" using drop_field [of "p + 1" m "[word_of_nat (length k)]" "k @ rest"] s by simp
    then have "take (length k) (drop (p + 2) m) = k" by simp
    then show ?thesis
      using f fst ne r k kc l
      by (subst wv_fields.simps) (auto simp: wv_ids_def wv_scheme_def store_key_append List.map_filter_def add.assoc)
  qed
  show ?thesis
  proof (cases f)
    case (WvScheme n)
    obtain v where "ParseMultiInt m (p + 1) 0 0 = Inr (v, p + 1 + length (varint n))" "(ucast v :: u32) = word_of_nat n"
      by (rule ParseMultiInt_number [of n "p + 1" m rest]) (use WvScheme ok tl in auto)
    then show ?thesis
      using WvScheme fst ne by (subst wv_fields.simps) (simp add: wv_ids_def wv_scheme_def List.map_filter_def)
  next
    case (WvNumber t n)
    obtain v where "ParseMultiInt m (p + 1) 0 0 = Inr (v, p + 1 + length (varint n))"
      by (rule ParseMultiInt_number [of n "p + 1" m rest]) (use WvNumber ok tl in auto)
    then show ?thesis
      using WvNumber fst ne ok by (subst wv_fields.simps) (auto simp: wv_ids_def wv_scheme_def List.map_filter_def)
  next
    case (WvText t bs)
    have k: "unat (word_of_nat (length bs) :: byte) = length bs" using WvText ok by (simp add: unat_of_nat)
    have r: "mem_read m (p + 1) 1 = Inr [word_of_nat (length bs)]"
    proof -
      have s: "drop (p + 1) m = word_of_nat (length bs) # bs @ rest" using WvText tl by simp
      then have "length m - (p + 1) = Suc (length bs + length rest)" by (metis length_Cons length_append length_drop)
      then show ?thesis using s by (simp add: mem_read_def)
    qed
    show ?thesis
      using WvText fst ne ok r k by (subst wv_fields.simps) (auto simp: wv_ids_def wv_scheme_def List.map_filter_def)
  qed (use keys in blast)+
qed

lemma wv_ids_Cons: "wv_ids (f # fs) = wv_ids [f] @ wv_ids fs"
  by (simp add: wv_ids_def List.map_filter_def)

lemma wv_scheme_Cons: "wv_scheme s (f # fs) = wv_scheme (wv_scheme s [f]) fs"
  by (simp add: wv_scheme_def List.map_filter_def)

lemma wv_fields_all:
  assumes "\<forall>f \<in> set fs. wv_field_ok f" and "drop p m = concat (map wv_field_bytes fs)" and "length m \<le> p + length (drop p m)"
    and "kidCount = length (mKeyIDs h)"
  shows "wv_fields m p kidCount rc h = Inr (rc \<or> wv_ids fs \<noteq> [],
    h\<lparr>mKeyIDs := mKeyIDs h @ wv_ids fs, protectionScheme := wv_scheme (protectionScheme h) fs\<rparr>)"
  using assms
proof (induction fs arbitrary: p kidCount rc h)
  case Nil
  then show ?case by (subst wv_fields.simps) (simp add: wv_ids_def wv_scheme_def List.map_filter_def)
next
  case (Cons f fs)
  have d: "drop p m = wv_field_bytes f @ concat (map wv_field_bytes fs)" using Cons.prems(2) by simp
  then have rest: "drop (p + length (wv_field_bytes f)) m = concat (map wv_field_bytes fs)" by (rule drop_field)
  have r: "length m \<le> p + length (wv_field_bytes f) + length (drop (p + length (wv_field_bytes f)) m)"
    using Cons.prems(3) d by simp
  let ?h = "h\<lparr>mKeyIDs := mKeyIDs h @ wv_ids [f], protectionScheme := wv_scheme (protectionScheme h) [f]\<rparr>"
  have "wv_fields m p kidCount rc h
      = wv_fields m (p + length (wv_field_bytes f)) (kidCount + length (wv_ids [f])) (rc \<or> wv_ids [f] \<noteq> []) ?h"
    using Cons.prems(1) by (intro wv_field_step [OF _ d Cons.prems(4)]) simp
  also have "\<dots> = Inr ((rc \<or> wv_ids [f] \<noteq> []) \<or> wv_ids fs \<noteq> [],
      ?h\<lparr>mKeyIDs := mKeyIDs ?h @ wv_ids fs, protectionScheme := wv_scheme (protectionScheme ?h) fs\<rparr>)"
    using Cons.prems by (intro Cons.IH [OF _ rest r]) simp_all
  finally show ?case
    by (simp add: wv_ids_Cons [of f fs] wv_scheme_Cons [of _ f fs] disj_assoc)
qed

lemma widevine_v0_parse:
  assumes ok: "\<forall>f \<in> set fs. wv_field_ok f" and none: "mKeyIDs h = []"
    and m: "m = wv_box 0 (u32_be datasize @ concat (map wv_field_bytes fs))"
  shows "Widevine_parsePssh m h = Inr (wv_ids fs \<noteq> [],
    h\<lparr>mInitData := m, mKeyIDs := wv_ids fs, protectionScheme := wv_scheme (protectionScheme h) fs\<rparr>)"
proof -
  have r: "READ_U32 m 28 = Inr datasize"
    by (simp add: m wv_box_def READ_U32_def mem_read_def)
  have d: "drop 32 m = concat (map wv_field_bytes fs)" by (simp add: m wv_box_def)
  have "wv_fields m 32 0 False (h\<lparr>mInitData := m\<rparr>) = Inr (wv_ids fs \<noteq> [],
      h\<lparr>mInitData := m, mKeyIDs := wv_ids fs, protectionScheme := wv_scheme (protectionScheme h) fs\<rparr>)"
    using wv_fields_all [OF ok d, of 0 "h\<lparr>mInitData := m\<rparr>" False] none by simp
  then show ?thesis
    using wv_header [of 0 "u32_be datasize @ concat (map wv_field_bytes fs)" h] r by (simp add: m [symmetric])
qed

text \<open>A version 0 Widevine box with any list of well-formed fields is read back: the helper holds the key ids and
  content ids in order and the last protection scheme, other fields are skipped, and the result says whether there
  was an id.\<close>

theorem widevine_v0_roundtrip:
  assumes ok: "\<forall>f \<in> set fs. wv_field_ok f" and none: "mKeyIDs h = []"
    and m: "m = wv_box 0 (u32_be datasize @ concat (map wv_field_bytes fs))"
  shows "Widevine_parsePssh m h = Inr (wv_ids fs \<noteq> [],
    h\<lparr>mInitData := m, mKeyIDs := wv_ids fs, protectionScheme := wv_scheme (protectionScheme h) fs\<rparr>)"
  using assms by (rule widevine_v0_parse)

theorem widevine_v0_roundtrip_witness:
  "Widevine_parsePssh (wv_box 0 (u32_be 0 @ wv_field_bytes (WvNumber 8 1) @ wv_field_bytes (WvKeyId (replicate 16 7))
      @ wv_field_bytes (WvScheme 1667392371)))
      (new_helper WidevineDrmHelper DrmInfo)
    = Inr (True, (new_helper WidevineDrmHelper DrmInfo)\<lparr>mInitData := wv_box 0 (u32_be 0 @ wv_field_bytes (WvNumber 8 1)
        @ wv_field_bytes (WvKeyId (replicate 16 7)) @ wv_field_bytes (WvScheme 1667392371)),
      mKeyIDs := [replicate 16 7], protectionScheme := 1667392371\<rparr>)"
  using widevine_v0_roundtrip [of "[WvNumber 8 1, WvKeyId (replicate 16 7), WvScheme 1667392371]"
      "new_helper WidevineDrmHelper DrmInfo" _ 0]
  by (simp add: new_helper_def wv_ids_def wv_scheme_def List.map_filter_def del: wv_field_bytes.simps)

section \<open>PlayReady\<close>

lemma find_str_first:
  assumes "find_str pat (pre @ pat) = Some (length pre)"
  shows "find_str pat (pre @ pat @ rest) = Some (length pre)"
  using assms
proof (induction pre)
  case Nil
  show ?case
  proof (cases "pat @ rest")
    case (Cons a l)
    then have "take (length pat) (a # l) = pat" by (metis append_eq_conv_conj)
    with Cons show ?thesis by simp
  qed simp
next
  case (Cons c pre)
  have "length pat \<le> length ((c # pre) @ pat)" by simp
  then have "take (length pat) ((c # pre) @ pat @ rest) = take (length pat) ((c # pre) @ pat)"
    by (metis append_assoc append_take_drop_id diff_is_0_eq self_append_conv take0 take_append)
  then show ?case using Cons by (auto split: if_splits)
qed

lemma find_str_absent:
  "pat \<noteq> [] \<Longrightarrow> hd pat \<notin> set pre \<Longrightarrow> find_str pat (pre @ pat) = Some (length pre)"
proof (induction pre)
  case Nil
  then show ?case by (cases pat) auto
qed (cases pat; auto)

lemma findSubstr_between:
  assumes "find_str start (pre @ start) = Some (length pre)" "fin \<noteq> []" "hd fin \<notin> set x"
  shows "findSubstr (pre @ start @ x @ fin @ post) start fin = x"
  using find_str_first [OF assms(1), of "x @ fin @ post"] find_str_first [OF find_str_absent [OF assms(2,3)], of post]
  by (simp add: findSubstr_def)

text \<open>The text of a header of version 4.0: the first version attribute and the first \<^verbatim>\<open><KID>\<close> element count.\<close>

definition pr_document :: "string \<Rightarrow> string \<Rightarrow> string \<Rightarrow> string \<Rightarrow> string" where
  "pr_document attrs mid kid post = attrs @ (''version='' @ prop_end) @ ''4.0.0.0'' @ prop_end @ mid @ ''<KID>'' @ kid @ ''</KID>'' @ post"

lemma pr_document_kid:
  assumes "find_str (''version='' @ prop_end) (attrs @ (''version='' @ prop_end)) = Some (length attrs)"
    and pre: "pre = attrs @ (''version='' @ prop_end) @ ''4.0.0.0'' @ prop_end @ mid"
    and "find_str ''<KID>'' (pre @ ''<KID>'') = Some (length pre)" and "CHR 0x3C \<notin> set kid"
  shows "extractKeyID (pr_document attrs mid kid post) = kid"
proof -
  have "findSubstr (pr_document attrs mid kid post) (''version='' @ prop_end) prop_end = ''4.0.0.0''"
    unfolding pr_document_def using assms(1) by (intro findSubstr_between) (simp_all add: prop_end_def)
  moreover have "findSubstr (pr_document attrs mid kid post) ''<KID>'' ''</KID>'' = kid"
  proof -
    have "pr_document attrs mid kid post = pre @ ''<KID>'' @ kid @ ''</KID>'' @ post"
      by (simp only: pr_document_def pre append_assoc)
    then show ?thesis using findSubstr_between [OF assms(3), of "''</KID>''" kid post] assms(4) by simp
  qed
  ultimately show ?thesis by (simp add: extractKeyID_def Let_def)
qed

lemma base64_Encode_no_angle: "base64_Encode malloc_ok src = Some cs \<Longrightarrow> CHR 0x3C \<notin> set cs"
proof -
  assume e: "base64_Encode malloc_ok src = Some cs"
  obtain k where k: "base64_encode_loop src = base64_unpadded src @ replicate k (CHR ''='')"
    using base64_encode_loop_unpadded by blast
  have "cs = base64_encode_loop src" using e by (simp add: base64_Encode_def split: if_splits)
  then have "c \<in> set base64_alphabet \<or> c = CHR ''=''" if "c \<in> set cs" for c
    using k that base64_unpadded_chars [of c src] by (auto split: if_splits)
  moreover have "CHR 0x3C \<notin> set base64_alphabet" by (simp add: base64_alphabet_def)
  ultimately show ?thesis by force
qed

text \<open>A PlayReady header of version 4.0 that carries the base64 form of a 16 byte key id is read back: the helper's
  key id is the text that libuuid makes of the key id with its first three groups in the other byte order, and the
  content metadata are the policy element of the header.\<close>

theorem playready_roundtrip:
  assumes doc: "text_of (filter (\<lambda>b. b \<noteq> 0) m) = pr_document attrs mid kid post"
    and v: "find_str (''version='' @ prop_end) (attrs @ (''version='' @ prop_end)) = Some (length attrs)"
    and pre: "pre = attrs @ (''version='' @ prop_end) @ ''4.0.0.0'' @ prop_end @ mid"
    and k: "find_str ''<KID>'' (pre @ ''<KID>'') = Some (length pre)"
    and enc: "base64_Encode malloc_ok key = Some kid" and len: "length key = 16" and mem: "\<forall>n. malloc_ok n"
    and uuid: "length (uuid_unparse (convertEndianness key)) = 36"
  shows "PlayReady_parsePssh uuid_unparse malloc_ok m h = Inr (True, h\<lparr>mInitData := m,
    mStrInitDataFormated := pr_document attrs mid kid post,
    mKeyID := bytes_of (uuid_unparse (convertEndianness key)),
    mContentMetadata := extractMetaData (pr_document attrs mid kid post)\<rparr>)"
proof -
  have ext: "extractKeyID (pr_document attrs mid kid post) = kid"
    using pr_document_kid [OF v pre k base64_Encode_no_angle [OF enc]] .
  have dec: "base64_Decode malloc_ok kid = Some key"
    using base64_Decode_Encode [OF enc] mem by simp
  have "kid \<noteq> []"
    using enc len by (cases key rule: base64_encode_loop.cases)
      (auto simp: base64_Encode_def base64_quad_def split: if_splits)
  moreover have "m \<noteq> []" using doc by (auto simp: pr_document_def)
  ultimately show ?thesis
    using doc ext dec len mem uuid by (simp add: PlayReady_parsePssh_def Let_def)
qed

theorem playready_roundtrip_witness:
  "PlayReady_parsePssh (\<lambda>_. replicate 36 CHR ''7'') (\<lambda>_. True)
      (concat (map (\<lambda>b. [b, 0]) (bytes_of (pr_document ''<WRMHEADER '' ''><DATA>'' ''BwcHBwcHBwcHBwcHBwcHBw=='' ''</DATA>''))))
      (new_helper PlayReadyHelper DrmInfo)
    = Inr (True, (new_helper PlayReadyHelper DrmInfo)\<lparr>
        mInitData := concat (map (\<lambda>b. [b, 0]) (bytes_of (pr_document ''<WRMHEADER '' ''><DATA>'' ''BwcHBwcHBwcHBwcHBwcHBw=='' ''</DATA>''))),
        mStrInitDataFormated := pr_document ''<WRMHEADER '' ''><DATA>'' ''BwcHBwcHBwcHBwcHBwcHBw=='' ''</DATA>'',
        mKeyID := bytes_of (replicate 36 CHR ''7''),
        mContentMetadata := extractMetaData (pr_document ''<WRMHEADER '' ''><DATA>'' ''BwcHBwcHBwcHBwcHBwcHBw=='' ''</DATA>'')\<rparr>)"
  by (rule playready_roundtrip [where key = "replicate 16 7"
        and pre = "''<WRMHEADER '' @ (''version='' @ prop_end) @ ''4.0.0.0'' @ prop_end @ ''><DATA>''"],
      code_simp, code_simp, code_simp, code_simp, code_simp, code_simp, simp, code_simp)

section \<open>The engine\<close>

lemma find_sorted_unique:
  assumes "distinct fs" and "x \<in> set fs" and "P x"
    and least: "\<forall>y \<in> set fs. P y \<and> y \<noteq> x \<longrightarrow> key x < (key y :: int)" and "sorted (map key fs)"
  shows "find P fs = Some x"
  using assms
proof (induction fs)
  case (Cons y fs)
  show ?case
  proof (cases "P y")
    case True
    have "y = x"
    proof (rule ccontr)
      assume "y \<noteq> x"
      then have "key x < key y" "x \<in> set fs" using Cons.prems True by auto
      then show False using Cons.prems(5) by auto
    qed
    then show ?thesis using True by simp
  next
    case False
    then show ?thesis using Cons by auto
  qed
qed simp

definition builtin :: "helper_class set" where
  "builtin = {ClearKeyHelper, WidevineDrmHelper, PlayReadyHelper, VerimatrixHelper}"

text \<open>Helper selection does not depend on the order in which the four factories register (static initialisers of
  four files): for information that at most one of Widevine, PlayReady and Verimatrix accepts, every registration
  order gives this one, or else ClearKey if it accepts, or else no helper.\<close>

theorem helper_order_irrelevant:
  assumes order: "distinct cs" "set cs = builtin"
    and one: "\<forall>a \<in> {WidevineDrmHelper, PlayReadyHelper, VerimatrixHelper}.
      \<forall>b \<in> {WidevineDrmHelper, PlayReadyHelper, VerimatrixHelper}. isDRM a info \<and> isDRM b info \<longrightarrow> a = b"
  shows "createHelper (fold registerFactory (map helper_factory cs) []) info =
    (if isDRM WidevineDrmHelper info then Some (new_helper WidevineDrmHelper info)
     else if isDRM PlayReadyHelper info then Some (new_helper PlayReadyHelper info)
     else if isDRM VerimatrixHelper info then Some (new_helper VerimatrixHelper info)
     else if isDRM ClearKeyHelper info then Some (new_helper ClearKeyHelper info) else None)"
proof -
  let ?fs = "fold registerFactory (map helper_factory cs) []"
  have mset: "mset (fold registerFactory gs fs) = mset gs + mset fs" for gs fs
    by (induction gs arbitrary: fs) (simp_all add: registerFactory_def)
  have sorted: "sorted (map mWeighting (fold registerFactory gs fs))" if "sorted (map mWeighting fs)" for gs fs
    using that by (induction gs arbitrary: fs) (simp_all add: registerFactory_def)
  have inj: "inj helper_factory" by (rule injI) (simp add: helper_factory_def)
  have fs: "mset ?fs = mset (map helper_factory cs)" using mset [of "map helper_factory cs" "[]"] by simp
  then have set_fs: "set ?fs = helper_factory ` builtin" using order by (metis set_map set_mset_mset)
  have dist: "distinct ?fs"
    using order inj fs by (metis distinct_map inj_on_subset mset_eq_imp_distinct_iff subset_UNIV)
  have cls: "f_class (helper_factory c) = c" for c by (simp add: helper_factory_def)
  let ?P = "\<lambda>f. isDRM (f_class f) info"
  have pick: "createHelper ?fs info = Some (new_helper c info)"
    if c: "c \<in> builtin" "isDRM c info"
      and least: "\<forall>d \<in> builtin. isDRM d info \<and> d \<noteq> c \<longrightarrow> mWeighting (helper_factory c) < mWeighting (helper_factory d)" for c
  proof -
    have "find ?P ?fs = Some (helper_factory c)"
      using c least dist sorted [of "[]"] unfolding set_fs [symmetric]
      by (intro find_sorted_unique [where key = mWeighting]) (auto simp: set_fs cls)
    then show ?thesis using c by (simp add: createHelper_def cls)
  qed
  have none: "createHelper ?fs info = None" if "\<forall>d \<in> builtin. \<not> isDRM d info"
  proof -
    have "find ?P ?fs = None" using that by (simp add: find_None_iff set_fs cls)
    then show ?thesis by (simp add: createHelper_def)
  qed
  have special: "createHelper ?fs info = Some (new_helper c info)"
    if c: "c \<in> {WidevineDrmHelper, PlayReadyHelper, VerimatrixHelper}" "isDRM c info" for c
  proof (rule pick)
    show "c \<in> builtin" using c by (auto simp: builtin_def)
    have "d = ClearKeyHelper" if "d \<in> builtin" "isDRM d info" "d \<noteq> c" for d
      using one c that by (auto simp: builtin_def)
    then show "\<forall>d \<in> builtin. isDRM d info \<and> d \<noteq> c \<longrightarrow> mWeighting (helper_factory c) < mWeighting (helper_factory d)"
      using c by (auto simp: helper_factory_def DEFAULT_WEIGHTING_def)
  qed (rule c)
  show ?thesis
  proof (cases "\<exists>c \<in> {WidevineDrmHelper, PlayReadyHelper, VerimatrixHelper}. isDRM c info")
    case True
    then show ?thesis using special [of WidevineDrmHelper] special [of PlayReadyHelper] special [of VerimatrixHelper]
      by (simp split: if_split) blast
  next
    case False
    then have "createHelper ?fs info = Some (new_helper ClearKeyHelper info)" if "isDRM ClearKeyHelper info"
      using that by (intro pick) (auto simp: builtin_def)
    moreover have "createHelper ?fs info = None" if "\<not> isDRM ClearKeyHelper info"
      using that False by (intro none) (auto simp: builtin_def)
    ultimately show ?thesis using False by simp
  qed
qed

theorem helper_order_irrelevant_witness:
  "createHelper (fold registerFactory (map helper_factory [ClearKeyHelper, VerimatrixHelper, PlayReadyHelper, WidevineDrmHelper]) [])
     (DrmInfo\<lparr>systemUUID := PLAYREADY_UUID, mediaFormat := eMEDIAFORMAT_DASH, di_method := eMETHOD_AES_128\<rparr>)
   = Some (new_helper PlayReadyHelper (DrmInfo\<lparr>systemUUID := PLAYREADY_UUID, mediaFormat := eMEDIAFORMAT_DASH, di_method := eMETHOD_AES_128\<rparr>))"
  by (subst helper_order_irrelevant)
    (auto simp: builtin_def isDRM_def DrmInfo_def PLAYREADY_UUID_def WIDEVINE_UUID_def VERIMATRIX_UUID_def
      WIDEVINE_OCDM_ID_def VERIMATRIX_OCDM_ID_def)

section \<open>Byte order and metadata\<close>

lemma convertEndianness_length: "length bs = 16 \<Longrightarrow> length (convertEndianness bs) = 16"
  by (simp add: convertEndianness_def swapBytes_def)

lemma convertEndianness_involution: "length bs = 16 \<Longrightarrow> convertEndianness (convertEndianness bs) = bs"
  by (rule nth_equalityI) (auto simp: convertEndianness_def swapBytes_def nth_list_update)

text \<open>The size of the content metadata in a Widevine box is added to its offset in 32 bits: a size within 32 of
  \<open>2^32\<close> wraps, passes the test against the length of the data, and the copy reads behind the data.\<close>

theorem wv_metadata_wraps:
  assumes "length m = 32 + length rest" and "drop 28 m = u32_be n @ rest" and "2 ^ 32 - 32 \<le> unat n"
    and "length rest < 2 ^ 20"
  shows "extractWVContentMetadataFromPssh m = Inl OutOfBounds"
proof -
  have r: "mem_read m 28 4 = Inr (u32_be n)" using assms(1,2) by (simp add: mem_read_def)
  have l: "unat n < 2 ^ 32" using unsigned_less [of n, where ?'a = nat] by simp
  have "unat (28 + 4 + n) = (32 + unat n) mod 2 ^ 32" by (simp add: unat_word_ariths)
  also have "\<dots> = 32 + unat n - 2 ^ 32" using l assms(3) by (subst mod_if) (simp add: mod_if)
  finally have "unat (28 + 4 + n) < 32" using l assms(3) by simp
  moreover have "unat (word_of_nat (length m) :: u32) = 32 + length rest"
    unfolding assms(1) unat_of_nat using assms(4) by simp
  ultimately have "28 + 4 + n \<le> (word_of_nat (length m) :: u32)" by (simp add: word_le_nat_alt)
  moreover have "mem_read m 32 (unat n) = Inl OutOfBounds" using assms by (simp add: mem_read_def)
  ultimately show ?thesis using r by (simp add: extractWVContentMetadataFromPssh_def Let_def)
qed

theorem wv_metadata_wraps_witness:
  "extractWVContentMetadataFromPssh (replicate 28 0 @ u32_be 0xFFFFFFFF @ [1]) = Inl OutOfBounds"
  by (rule wv_metadata_wraps [where rest = "[1]" and n = "0xFFFFFFFF"]) simp_all

end
