(* ===== verification/ClearKey_Session.thy ===== *)
theory ClearKey_Session
  imports Drm_Helper
begin

text \<open>
  \<^verbatim>\<open>drm/ClearKeyDrmSession.cpp\<close>: the session that decrypts samples with a key from a JSON license. The OpenSSL
  cipher is the parameter \<open>evp\<close> (\<open>evp_ok\<close>: AES in counter mode is the exclusive or with a key stream), cJSON the
  parameter \<open>lib\<close>, \<open>malloc_ok\<close> says which allocations succeed and \<open>gst_buffer_map\<close> which buffers can be mapped.
  Memory that is overrun is a fault.
\<close>

section \<open>The session\<close>

datatype key_state = KEY_INIT | KEY_PENDING | KEY_READY | KEY_ERROR | KEY_CLOSED | KEY_ERROR_EMPTY_SESSION_ID

record ck_session =
  m_eKeyState :: key_state
  m_keyStr :: "byte list option"
  m_keyLen :: nat
  m_keyId :: "byte list option"
  mOpensslCtx :: bool

text \<open>\<open>mOpensslCtx\<close> is whether the cipher context is allocated; \<open>m_keyIdLen\<close> is the length of \<open>m_keyId\<close>.\<close>

definition initDRMSession :: "ck_session \<Rightarrow> ck_session" where
  "initDRMSession s = s\<lparr>mOpensslCtx := True\<rparr>"

definition ClearKeySession :: ck_session where
  "ClearKeySession = initDRMSession
     \<lparr>m_eKeyState = KEY_INIT, m_keyStr = None, m_keyLen = 0, m_keyId = None, mOpensslCtx = False\<rparr>"

definition setKeyId :: "byte list \<Rightarrow> ck_session \<Rightarrow> ck_session" where
  "setKeyId keyId s = s\<lparr>m_keyId := Some keyId\<rparr>"

text \<open>\<^verbatim>\<open>strncpy\<close> copies up to the first zero byte and fills the rest with zeros.\<close>

fun strncpy :: "mem \<Rightarrow> nat \<Rightarrow> nat \<Rightarrow> byte list res" where
  "strncpy m p 0 = Inr []"
| "strncpy m p (Suc n) =
     bindE (mem_read m p 1) (\<lambda>b. if hd b = 0 then Inr (replicate (Suc n) 0)
       else bindE (strncpy m (p + 1) n) (\<lambda>bs. Inr (hd b # bs)))"

definition extractKeyIdFromPssh :: "mem \<Rightarrow> byte list res" where
  "extractKeyIdFromPssh psshData = strncpy psshData 32 16"

definition generateDRMSession :: "mem option \<Rightarrow> ck_session \<Rightarrow> ck_session res" where
  "generateDRMSession initd s =
     (case initd of
        None \<Rightarrow> Inr (s\<lparr>m_eKeyState := KEY_ERROR\<rparr>)
      | Some d \<Rightarrow>
          if d = [] then Inr (s\<lparr>m_eKeyState := KEY_ERROR\<rparr>)
          else bindE (extractKeyIdFromPssh d) (\<lambda>keyId.
            Inr (if length keyId \<noteq> 16 then s\<lparr>m_eKeyState := KEY_ERROR\<rparr> else setKeyId keyId s)))"


section \<open>License\<close>

definition add_or_keep :: "'a \<Rightarrow> 'a option \<Rightarrow> 'a" where
  "add_or_keep old new = (case new of None \<Rightarrow> old | Some x \<Rightarrow> x)"

definition generateKeyRequest ::
  "('j, 'd) cjson \<Rightarrow> (nat \<Rightarrow> bool) \<Rightarrow> ck_session \<Rightarrow> string option \<times> ck_session" where
  "generateKeyRequest lib malloc_ok s =
     (case m_keyId s of
        None \<Rightarrow> (None, s)
      | Some keyId \<Rightarrow>
          if keyId = [] then (None, s)
          else (case (base64_URL_Encode malloc_ok keyId, cJSON_CreateObject lib, cJSON_CreateArray lib) of
              (Some urlEncodedkeyId, Some licenseRequest, Some keyIds) \<Rightarrow>
                let add = (\<lambda>ob name item. add_or_keep ob (Option.bind item (cJSON_AddItemToObject lib ob name)));
                    kids = add_or_keep keyIds (Option.bind (cJSON_CreateString lib urlEncodedkeyId) (cJSON_AddItemToArray lib keyIds));
                    request = add (add licenseRequest ''kids'' (Some kids)) ''type'' (cJSON_CreateString lib ''temporary'')
                in (case cJSON_PrintUnformatted lib request of
                      None \<Rightarrow> (None, s)
                    | Some requestBody \<Rightarrow> (Some (cstr requestBody), s\<lparr>m_eKeyState := KEY_PENDING\<rparr>))
            | _ \<Rightarrow> (None, s)))"

text \<open>The string value of an item that is not a string is \<^verbatim>\<open>NULL\<close>, and its length is taken.\<close>

definition string_value :: "('j, 'd) cjson \<Rightarrow> 'j \<Rightarrow> string res" where
  "string_value lib j = (case cJSON_GetStringValue lib j of None \<Rightarrow> Inl NullDeref | Some s \<Rightarrow> Inr (cstr s))"

definition decoded :: "byte list option \<Rightarrow> byte list" where
  "decoded r = (case r of None \<Rightarrow> [] | Some bs \<Rightarrow> bs)"

definition accept_key ::
  "('j, 'd) cjson \<Rightarrow> (nat \<Rightarrow> bool) \<Rightarrow> 'j \<Rightarrow> 'j \<Rightarrow> ck_session \<Rightarrow> (int \<times> ck_session) res" where
  "accept_key lib malloc_ok keyJsonObj keyIdJsonObj s =
     bindE (string_value lib keyIdJsonObj) (\<lambda>keyIdStr.
     if decoded (base64_URL_Decode malloc_ok keyIdStr) = decoded (m_keyId s) then
       bindE (string_value lib keyJsonObj) (\<lambda>keyJsonStr.
       let key = base64_URL_Decode malloc_ok keyJsonStr in
       Inr (if length (decoded key) = 16
            then (1, s\<lparr>m_keyStr := key, m_keyLen := 16, m_eKeyState := KEY_READY\<rparr>)
            else (0, s\<lparr>m_keyStr := None, m_eKeyState := KEY_ERROR\<rparr>)))
     else Inr (0, s\<lparr>m_eKeyState := KEY_ERROR\<rparr>))"

definition processDRMKey ::
  "('j, 'd) cjson \<Rightarrow> (nat \<Rightarrow> bool) \<Rightarrow> string option \<Rightarrow> ck_session \<Rightarrow> (int \<times> ck_session) res" where
  "processDRMKey lib malloc_ok key s =
     (case key of
        None \<Rightarrow> Inr (0, s)
      | Some keyDataStr \<Rightarrow>
          if m_eKeyState s \<noteq> KEY_PENDING then Inr (0, s)
          else (case cJSON_Parse lib (cstr keyDataStr) of
              None \<Rightarrow> Inr (0, s\<lparr>m_eKeyState := KEY_ERROR\<rparr>)
            | Some licenseResponse \<Rightarrow>
                (case cJSON_GetObjectItem lib licenseResponse ''keys'' of
                   None \<Rightarrow> Inr (0, s)
                 | Some keysArray \<Rightarrow>
                     (case cJSON_children lib keysArray of
                        [] \<Rightarrow> Inr (0, s\<lparr>m_eKeyState := KEY_ERROR\<rparr>)
                      | keyEntry # _ \<Rightarrow>
                          (case (cJSON_GetObjectItem lib keyEntry ''k'', cJSON_GetObjectItem lib keyEntry ''kid'') of
                             (Some keyJsonObj, Some keyIdJsonObj) \<Rightarrow> accept_key lib malloc_ok keyJsonObj keyIdJsonObj s
                           | _ \<Rightarrow> Inr (0, s\<lparr>m_eKeyState := KEY_ERROR\<rparr>))))))"

section \<open>Decryption\<close>

record evp =
  EVP_DecryptInit_ex :: "byte list option \<Rightarrow> byte list \<Rightarrow> bool"
  EVP_DecryptUpdate :: "byte list option \<Rightarrow> byte list \<Rightarrow> byte list \<Rightarrow> bool \<times> byte list"
  EVP_DecryptFinal_ex :: "byte list option \<Rightarrow> byte list \<Rightarrow> byte list \<Rightarrow> bool"

definition xor_bytes :: "byte list \<Rightarrow> byte list \<Rightarrow> byte list" where
  "xor_bytes xs ys = map2 (XOR) xs ys"

definition evp_ok :: "evp \<Rightarrow> (byte list \<Rightarrow> byte list \<Rightarrow> nat \<Rightarrow> byte list) \<Rightarrow> bool" where
  "evp_ok evp keystream \<longleftrightarrow>
     (\<forall>k iv n. length (keystream k iv n) = n)
     \<and> (\<forall>k iv payload. length k = 16 \<longrightarrow> length iv = 16 \<longrightarrow> EVP_DecryptInit_ex evp (Some k) iv
        \<and> EVP_DecryptUpdate evp (Some k) iv payload = (True, xor_bytes payload (keystream k iv (length payload)))
        \<and> EVP_DecryptFinal_ex evp (Some k) iv payload)"

text \<open>The result is the status, 0 for success, and the payload, which is decrypted in place. What the library writes is
  put into a buffer of zeros that replaces the payload even when the library fails.\<close>

definition decrypt :: "evp \<Rightarrow> (nat \<Rightarrow> bool) \<Rightarrow> ck_session \<Rightarrow> byte list \<Rightarrow> byte list \<Rightarrow> (int \<times> byte list) res" where
  "decrypt evp malloc_ok s iv payload =
     (if m_eKeyState s \<noteq> KEY_READY \<or> \<not> malloc_ok (length payload) then Inr (1, payload)
      else if length iv = 8 \<and> malloc_ok 16 \<or> length iv = 16 then
        if length iv = 16 \<and> \<not> malloc_ok 16 then Inl NullDeref
        else if \<not> mOpensslCtx s then Inl NullDeref
        else
          let ivBuff = take 16 (iv @ replicate 8 0); zeros = replicate (length payload) 0 in
          if \<not> EVP_DecryptInit_ex evp (m_keyStr s) ivBuff then Inr (1, zeros)
          else
            let (ok, out) = EVP_DecryptUpdate evp (m_keyStr s) ivBuff payload;
                decryptedDataBuf = take (length payload) (out @ drop (length out) zeros)
            in Inr (if ok \<and> EVP_DecryptFinal_ex evp (m_keyStr s) ivBuff payload then 0 else 1, decryptedDataBuf)
      else Inr (1, payload))"

text \<open>A subsample is a 16 bit count of clear bytes and a 32 bit count of encrypted bytes.\<close>

definition read_subsample :: "mem \<Rightarrow> (u16 \<times> u32 \<times> mem) option" where
  "read_subsample sub =
     (if 6 \<le> length sub then Some (be_u16 (take 2 sub), be_u32 (take 4 (drop 2 sub)), drop 6 sub) else None)"

text \<open>\<open>acc\<close> is what has been copied to \<open>pbData\<close>, a block of the size of the buffer (\<open>None\<close> if it could not be
  allocated). The offset in the buffer and the sum of the counts are 32 bit.\<close>

fun gather :: "nat \<Rightarrow> mem \<Rightarrow> mem \<Rightarrow> bool \<Rightarrow> u32 \<Rightarrow> byte list \<Rightarrow> u32 \<Rightarrow> (byte list \<times> u32) res" where
  "gather 0 sub buf allocated iCurrSource acc cbData = Inr (acc, cbData)"
| "gather (Suc i) sub buf allocated iCurrSource acc cbData =
     (case read_subsample sub of
        None \<Rightarrow> Inr (acc, 0)
      | Some (nBytesClear, nBytesEncrypted, sub') \<Rightarrow>
          if \<not> allocated then Inl NullDeref
          else
            let src = iCurrSource + ucast nBytesClear in
            bindE (mem_read buf (unat src) (unat nBytesEncrypted)) (\<lambda>bs.
            if length buf < length acc + length bs then Inl OutOfBounds
            else gather i sub' buf allocated (src + nBytesEncrypted) (acc @ bs) (cbData + nBytesEncrypted)))"

fun scatter :: "nat \<Rightarrow> mem \<Rightarrow> mem \<Rightarrow> nat \<Rightarrow> mem \<Rightarrow> u32 \<Rightarrow> (int \<times> mem) res" where
  "scatter 0 sub buf target pbData iCurrSource = Inr (0, buf)"
| "scatter (Suc i) sub buf target pbData iCurrSource =
     (case read_subsample sub of
        None \<Rightarrow> Inr (1, buf)
      | Some (nBytesClear, nBytesEncrypted, sub') \<Rightarrow>
          let pos = target + unat nBytesClear in
          bindE (mem_read pbData (unat iCurrSource) (unat nBytesEncrypted)) (\<lambda>bs.
          bindE (mem_write buf pos bs) (\<lambda>buf'.
          scatter i sub' buf' (pos + unat nBytesEncrypted) pbData (iCurrSource + nBytesEncrypted))))"

definition decrypt_buffer ::
  "evp \<Rightarrow> (nat \<Rightarrow> bool) \<Rightarrow> (mem \<Rightarrow> bool) \<Rightarrow> ck_session \<Rightarrow> mem option \<Rightarrow> mem option \<Rightarrow> nat \<Rightarrow> mem option
    \<Rightarrow> (int \<times> mem option) res" where
  "decrypt_buffer evp malloc_ok gst_buffer_map s ivBuffer buffer subSampleCount subSamplesBuffer =
     (case (ivBuffer, buffer, if subSampleCount = 0 then Some [] else subSamplesBuffer) of
        (Some iv, Some buf, Some sub) \<Rightarrow>
          if \<not> (gst_buffer_map buf \<and> gst_buffer_map iv \<and> (subSampleCount = 0 \<or> gst_buffer_map sub)) then Inr (1, buffer)
          else if subSampleCount = 0 then
            let cbData = unat (word_of_nat (length buf) :: u32) in
            if cbData = 0 then Inr (1, buffer)
            else bindE (decrypt evp malloc_ok s iv (take cbData buf)) (\<lambda>(retVal, out).
              Inr (retVal, Some (out @ drop cbData buf)))
          else
            bindE (gather subSampleCount sub buf (malloc_ok (length buf)) 0 [] 0) (\<lambda>(pbData, cbData).
            if cbData = 0 then Inr (1, buffer)
            else bindE (decrypt evp malloc_ok s iv (take (unat cbData) pbData)) (\<lambda>(retVal, out).
              if retVal = 0
              then bindE (scatter subSampleCount sub buf 0 (out @ drop (unat cbData) pbData) 0) (\<lambda>(r, buf'). Inr (r, Some buf'))
              else Inr (retVal, buffer)))
      | _ \<Rightarrow> Inr (1, buffer))"

definition getState :: "ck_session \<Rightarrow> key_state" where
  "getState s = m_eKeyState s"

definition clearDecryptContext :: "ck_session \<Rightarrow> ck_session" where
  "clearDecryptContext s = s\<lparr>m_keyId := None, m_keyStr := None,
     m_keyLen := (if m_keyStr s \<noteq> None then 0 else m_keyLen s), mOpensslCtx := False, m_eKeyState := KEY_INIT\<rparr>"

section \<open>State of a session\<close>













section \<open>The key id\<close>


lemma strncpy_cut:
  assumes "drop p m = k @ 0 # rest" and "0 \<notin> set k" and "length k < n" and "p \<le> length m"
  shows "strncpy m p n = Inr (k @ replicate (n - length k) 0)"
  using assms
proof (induction m p n arbitrary: k rule: strncpy.induct)
  case (2 m p n)
  have l: "p < length m" using "2.prems"(1) by (metis append_is_Nil_conv drop_eq_Nil list.distinct(1) linorder_not_le)
  have d: "m ! p = hd (k @ 0 # rest)" "drop (p + 1) m = tl (k @ 0 # rest)"
    using Cons_nth_drop_Suc [OF l] "2.prems"(1) by (metis list.sel(1), metis list.sel(3) Suc_eq_plus1)
  have r: "mem_read m p 1 = Inr [m ! p]" using l by (simp add: mem_read_def take_Suc_conv_app_nth hd_drop_conv_nth take_Suc)
  show ?case
  proof (cases k)
    case Nil
    then show ?thesis using r d by simp
  next
    case (Cons b k')
    then have "strncpy m (p + 1) n = Inr (k' @ replicate (n - length k') 0)"
      using "2.IH" [OF r, of k'] d "2.prems" l by auto
    then show ?thesis using r d Cons "2.prems"(2) by auto
  qed
qed simp

text \<open>\<open>jwk_response\<close>: the license text holds the key and its id, both in base64url, in the first entry of \<^verbatim>\<open>keys\<close>.\<close>

definition jwk_response :: "('j, 'd) cjson \<Rightarrow> string \<Rightarrow> byte list \<Rightarrow> byte list \<Rightarrow> bool" where
  "jwk_response lib txt kid key \<longleftrightarrow>
     (case Option.bind (cJSON_Parse lib (cstr txt)) (\<lambda>r. cJSON_GetObjectItem lib r ''keys'') of
        None \<Rightarrow> False
      | Some arr \<Rightarrow>
          (case cJSON_children lib arr of
             [] \<Rightarrow> False
           | e # _ \<Rightarrow>
               Option.bind (cJSON_GetObjectItem lib e ''k'') (cJSON_GetStringValue lib) = base64_URL_Encode (\<lambda>_. True) key
               \<and> Option.bind (cJSON_GetObjectItem lib e ''kid'') (cJSON_GetStringValue lib) = base64_URL_Encode (\<lambda>_. True) kid))"

lemma base64_URL_Encode_text:
  "\<exists>t. base64_URL_Encode (\<lambda>_. True) bs = Some t \<and> cstr t = t \<and> base64_URL_Decode (\<lambda>_. True) t = Some bs"
proof -
  have "base64_URL_Encode (\<lambda>_. True) bs \<noteq> None" by (simp add: base64_URL_Encode_def base64_Encode_def)
  then obtain t where t: "base64_URL_Encode (\<lambda>_. True) bs = Some t" by blast
  moreover have "cstr t = t" using t by (auto simp: base64_URL_Encode_def cstr_def takeWhile_idem dest: set_takeWhileD)
  ultimately show ?thesis using base64_URL_Decode_Encode [OF t] by simp
qed

lemma processDRMKey_jwk:
  assumes "m_eKeyState s = KEY_PENDING" and "jwk_response lib txt kid key"
  shows "processDRMKey lib (\<lambda>_. True) (Some txt) s =
    Inr (if kid \<noteq> decoded (m_keyId s) then (0, s\<lparr>m_eKeyState := KEY_ERROR\<rparr>)
         else if length key = 16 then (1, s\<lparr>m_keyStr := Some key, m_keyLen := 16, m_eKeyState := KEY_READY\<rparr>)
         else (0, s\<lparr>m_keyStr := None, m_eKeyState := KEY_ERROR\<rparr>))"
proof -
  obtain a where a: "base64_URL_Encode (\<lambda>_. True) key = Some a" "cstr a = a" "base64_URL_Decode (\<lambda>_. True) a = Some key"
    using base64_URL_Encode_text by blast
  obtain b where b: "base64_URL_Encode (\<lambda>_. True) kid = Some b" "cstr b = b" "base64_URL_Decode (\<lambda>_. True) b = Some kid"
    using base64_URL_Encode_text by blast
  obtain r arr e es kj ij where
    "cJSON_Parse lib (cstr txt) = Some r" "cJSON_GetObjectItem lib r ''keys'' = Some arr" "cJSON_children lib arr = e # es"
    "cJSON_GetObjectItem lib e ''k'' = Some kj" "cJSON_GetStringValue lib kj = Some a"
    "cJSON_GetObjectItem lib e ''kid'' = Some ij" "cJSON_GetStringValue lib ij = Some b"
    using assms(2) a(1) b(1) by (auto simp: jwk_response_def bind_eq_Some_conv split: option.splits list.splits)
  then show ?thesis
    using assms(1) a b by (auto simp: processDRMKey_def accept_key_def string_value_def decoded_def [of "Some _"] Let_def)
qed


text \<open>A key id with a zero byte before its last nonzero byte is cut by the session: the license for the right key id
  is rejected and the session is in error.\<close>

theorem ck_zero_in_key_id_rejected:
  assumes m: "drop 32 m = (pre @ 0 # suf) @ rest" "length (pre @ 0 # suf) = 16" "0 \<notin> set pre" "\<exists>b \<in> set suf. b \<noteq> 0"
    and session: "generateDRMSession (Some m) s = Inr s1" and request: "generateKeyRequest lib malloc_ok s1 = (Some req, s2)"
    and license: "jwk_response lib txt (pre @ 0 # suf) key"
  shows "processDRMKey lib (\<lambda>_. True) (Some txt) s2 = Inr (0, s2\<lparr>m_eKeyState := KEY_ERROR\<rparr>)"
proof -
  have l: "32 \<le> length m" using m(1) by (metis append_is_Nil_conv drop_eq_Nil list.distinct(1) linorder_not_le nat_le_linear)
  have "strncpy m 32 16 = Inr (pre @ replicate (16 - length pre) 0)"
    using m l by (intro strncpy_cut [where rest = "suf @ rest"]) auto
  then have "m_keyId s1 = Some (pre @ replicate (16 - length pre) 0)"
    using session m by (auto simp: generateDRMSession_def extractKeyIdFromPssh_def setKeyId_def split: if_splits)
  then have id: "m_keyId s2 = Some (pre @ replicate (16 - length pre) 0)" "m_eKeyState s2 = KEY_PENDING"
    using request by (auto simp: generateKeyRequest_def Let_def split: option.splits if_splits)
  have "pre @ 0 # suf \<noteq> pre @ replicate (16 - length pre) 0"
  proof
    assume "pre @ 0 # suf = pre @ replicate (16 - length pre) 0"
    then have "set (0 # suf) \<subseteq> {0}" by (metis same_append_eq set_replicate_conv_if empty_subsetI order_refl)
    then show False using m(4) by auto
  qed
  then show ?thesis using processDRMKey_jwk [OF id(2) license] id(1) by (simp add: decoded_def)
qed

text \<open>For every format but DASH the clear key helper makes the init data \<^verbatim>\<open>{"kids":["1"]}\<close>, and the session looks for
  the key id behind its end.\<close>

theorem ck_hls_init_data_overrun:
  assumes "h_class h = ClearKeyHelper" "mediaFormat (mDrmInfo h) \<noteq> eMEDIAFORMAT_DASH"
    and "createInitData lib h [] = Inr initd" and "0 < length initd" "length initd \<le> 32"
  shows "generateDRMSession (Some initd) s = Inl OutOfBounds"
proof -
  have "mem_read initd 32 1 = Inl OutOfBounds" using assms by (simp add: mem_read_def)
  then have "strncpy initd 32 16 = Inl OutOfBounds"
    using strncpy.simps(2) [of initd 32 15] by (simp del: strncpy.simps)
  then show ?thesis using assms by (auto simp: generateDRMSession_def extractKeyIdFromPssh_def)
qed

section \<open>Samples\<close>

text \<open>A sample is a list of subsamples, each with its clear and its encrypted part.\<close>

fun subsample_table :: "(mem \<times> mem) list \<Rightarrow> mem" where
  "subsample_table [] = []"
| "subsample_table ((c, x) # parts) = u16_be (word_of_nat (length c)) @ u32_be (word_of_nat (length x)) @ subsample_table parts"

definition sample_bytes :: "(mem \<times> mem) list \<Rightarrow> mem" where
  "sample_bytes parts = concat (map (\<lambda>(c, x). c @ x) parts)"

text \<open>\<open>with_payload parts e\<close> has the bytes of \<open>e\<close>, in order, in place of the encrypted parts.\<close>

fun with_payload :: "(mem \<times> mem) list \<Rightarrow> mem \<Rightarrow> (mem \<times> mem) list" where
  "with_payload [] e = []"
| "with_payload ((c, x) # parts) e = (c, take (length x) e) # with_payload parts (drop (length x) e)"

definition payload :: "(mem \<times> mem) list \<Rightarrow> mem" where
  "payload parts = concat (map snd parts)"

definition part_ok :: "mem \<times> mem \<Rightarrow> bool" where
  "part_ok p \<longleftrightarrow> length (fst p) < 2 ^ 16 \<and> length (snd p) < 2 ^ 32"

lemma sample_bytes_simps [simp]: "sample_bytes [] = []" "sample_bytes ((c, x) # parts) = c @ x @ sample_bytes parts"
  by (simp_all add: sample_bytes_def)

lemma payload_simps [simp]: "payload [] = []" "payload ((c, x) # parts) = x @ payload parts"
  by (simp_all add: payload_def)

lemma payload_with: "length e = length (payload parts) \<Longrightarrow> payload (with_payload parts e) = e"
  by (induction parts e rule: with_payload.induct) simp_all

lemma with_payload_with:
  "length e = length (payload parts) \<Longrightarrow> with_payload (with_payload parts e) (payload parts) = parts"
  by (induction parts e rule: with_payload.induct) simp_all

lemma table_with: "length e = length (payload parts) \<Longrightarrow> subsample_table (with_payload parts e) = subsample_table parts"
  by (induction parts e rule: with_payload.induct) simp_all

lemma length_with [simp]: "length (with_payload parts e) = length parts"
  by (induction parts e rule: with_payload.induct) simp_all

lemma part_ok_with:
  "length e = length (payload parts) \<Longrightarrow> \<forall>p \<in> set parts. part_ok p \<Longrightarrow> \<forall>p \<in> set (with_payload parts e). part_ok p"
proof (induction parts e rule: with_payload.induct)
  case (2 c x parts e)
  have "part_ok (c, take (length x) e)" using 2(3) by (simp add: part_ok_def min_less_iff_disj)
  moreover have "\<forall>p \<in> set (with_payload parts (drop (length x) e)). part_ok p"
    using 2(2,3) by (intro 2(1)) simp_all
  ultimately show ?case by simp
qed simp

lemma payload_le: "length (payload parts) \<le> length (sample_bytes parts)"
  by (induction parts) auto

lemma read_subsample_part:
  "part_ok (c, x) \<Longrightarrow> read_subsample (subsample_table ((c, x) # parts) @ r)
    = Some (word_of_nat (length c), word_of_nat (length x), subsample_table parts @ r)"
  by (simp add: read_subsample_def)

lemma part_sizes:
  assumes "part_ok (c, x)"
  shows "unat (word_of_nat (length c) :: u16) = length c" "unat (word_of_nat (length x) :: u32) = length x"
    "ucast (word_of_nat (length c) :: u16) = (word_of_nat (length c) :: u32)"
proof -
  show "unat (word_of_nat (length c) :: u16) = length c" "unat (word_of_nat (length x) :: u32) = length x"
    using assms by (simp_all add: part_ok_def unat_of_nat)
  then have "unat (ucast (word_of_nat (length c) :: u16) :: u32) = unat (word_of_nat (length c) :: u32)"
    using assms by (simp add: part_ok_def unsigned_ucast_eq unat_of_nat take_bit_nat_eq_self)
  then show "ucast (word_of_nat (length c) :: u16) = (word_of_nat (length c) :: u32)"
    by (simp only: word_unat_eq_iff)
qed

lemma gather_parts:
  assumes "\<forall>p \<in> set parts. part_ok p" and "buf = pre @ sample_bytes parts @ post" and "length buf < 2 ^ 32"
    and "length acc \<le> length pre"
  shows "gather (length parts) (subsample_table parts @ r) buf True (word_of_nat (length pre)) acc cb
    = Inr (acc @ payload parts, cb + word_of_nat (length (payload parts)))"
  using assms
proof (induction parts arbitrary: pre acc cb)
  case (Cons p parts)
  obtain c x where p: "p = (c, x)" by (cases p)
  have ok: "part_ok (c, x)" using Cons.prems(1) p by simp
  have src: "(word_of_nat (length pre) :: u32) + ucast (word_of_nat (length c) :: u16) = word_of_nat (length (pre @ c))"
    by (simp add: part_sizes [OF ok])
  have u: "unat (word_of_nat (length (pre @ c)) :: u32) = length (pre @ c)"
    using Cons.prems(2,3) p by (subst unat_of_nat) simp
  have rd: "mem_read buf (length (pre @ c)) (length x) = Inr x"
    using Cons.prems(2) p by (simp add: mem_read_def)
  have nxt: "(word_of_nat (length (pre @ c)) :: u32) + word_of_nat (length x) = word_of_nat (length (pre @ c @ x))"
    by (simp add: add.assoc)
  have "gather (length parts) (subsample_table parts @ r) buf True (word_of_nat (length (pre @ c @ x))) (acc @ x)
      (cb + word_of_nat (length x))
    = Inr ((acc @ x) @ payload parts, cb + word_of_nat (length x) + word_of_nat (length (payload parts)))"
    using Cons.prems p by (intro Cons.IH) auto
  moreover have "length acc + length x \<le> length buf" using Cons.prems p by simp
  ultimately show ?case
    unfolding p list.size gather.simps add_0_right add_Suc_right read_subsample_part [OF ok] option.case prod.case Let_def
    using src u rd nxt part_sizes(2) [OF ok] length_append [of x "payload parts"]
    by (simp add: add.assoc del: length_append)
qed simp

lemma scatter_parts:
  assumes "\<forall>p \<in> set parts. part_ok p" and "length pb < 2 ^ 32" and "pb = fore @ e @ q" and "length e = length (payload parts)"
  shows "scatter (length parts) (subsample_table parts @ r) (pre @ sample_bytes parts @ post) (length pre) pb (word_of_nat (length fore))
    = Inr (0, pre @ sample_bytes (with_payload parts e) @ post)"
  using assms
proof (induction parts arbitrary: pre fore e)
  case (Cons p parts)
  obtain c x where p: "p = (c, x)" by (cases p)
  have ok: "part_ok (c, x)" using Cons.prems(1) p by simp
  let ?e1 = "take (length x) e" and ?e2 = "drop (length x) e"
  have le: "length x \<le> length e" using Cons.prems(4) p by simp
  have u: "unat (word_of_nat (length fore) :: u32) = length fore"
    using Cons.prems(2,3) by (subst unat_of_nat) simp
  have rd: "mem_read pb (length fore) (length x) = Inr ?e1"
    using Cons.prems(3) le by (simp add: mem_read_def)
  have wr: "mem_write (pre @ sample_bytes (p # parts) @ post) (length pre + length c) ?e1
      = Inr ((pre @ c @ ?e1) @ sample_bytes parts @ post)"
    using le p by (simp add: mem_write_def)
  have nxt: "(word_of_nat (length fore) :: u32) + word_of_nat (length x) = word_of_nat (length (fore @ ?e1))"
    using le by simp
  have "scatter (length parts) (subsample_table parts @ r) ((pre @ c @ ?e1) @ sample_bytes parts @ post) (length (pre @ c @ ?e1))
      pb (word_of_nat (length (fore @ ?e1)))
    = Inr (0, (pre @ c @ ?e1) @ sample_bytes (with_payload parts ?e2) @ post)"
    using Cons.prems p le by (intro Cons.IH) auto
  moreover have "length (pre @ c @ ?e1) = length pre + length c + length x" using le by simp
  ultimately show ?case
    using wr u rd nxt part_sizes [OF ok] unfolding p
    by (simp add: read_subsample_part [OF ok] Let_def add.assoc del: subsample_table.simps)
qed simp

lemma length_xor_bytes [simp]: "length (xor_bytes xs ys) = min (length xs) (length ys)"
  by (simp add: xor_bytes_def)

lemma xor_bytes_twice: "length xs = length ys \<Longrightarrow> xor_bytes (xor_bytes xs ys) ys = xs"
  by (induction xs ys rule: list_induct2) (simp_all add: xor_bytes_def xor.assoc)

definition iv_ok :: "mem \<Rightarrow> bool" where
  "iv_ok iv \<longleftrightarrow> length iv = 8 \<or> length iv = 16"

definition counter_block :: "mem \<Rightarrow> mem" where
  "counter_block iv = take 16 (iv @ replicate 8 0)"

lemma decrypt_ready:
  assumes "evp_ok evp ks" "iv_ok iv" "m_eKeyState s = KEY_READY" "m_keyStr s = Some k" "length k = 16" "mOpensslCtx s"
  shows "decrypt evp (\<lambda>_. True) s iv pl = Inr (0, xor_bytes pl (ks k (counter_block iv) (length pl)))"
proof -
  have "length (counter_block iv) = 16" using assms(2) by (auto simp: iv_ok_def counter_block_def)
  then show ?thesis
    using assms by (auto simp: decrypt_def evp_ok_def iv_ok_def counter_block_def Let_def)
qed

text \<open>C28: Subsample decryption undoes subsample encryption: for a ready session and any sample with a nonempty
  encrypted part, in which the encrypted parts together are the exclusive or of the plain bytes with the key stream,
  the buffer is afterwards the plain sample, clear parts untouched.\<close>

theorem ck_decrypt_roundtrip:
  assumes evp: "evp_ok evp ks" and iv: "iv_ok iv"
    and s: "m_eKeyState s = KEY_READY" "m_keyStr s = Some k" "length k = 16" "mOpensslCtx s"
    and parts: "\<forall>p \<in> set parts. part_ok p" "payload parts \<noteq> []" "length (sample_bytes parts) < 2 ^ 32"
    and c: "c = xor_bytes (payload parts) (ks k (counter_block iv) (length (payload parts)))"
  shows "decrypt_buffer evp (\<lambda>_. True) (\<lambda>_. True) s (Some iv) (Some (sample_bytes (with_payload parts c)))
      (length parts) (Some (subsample_table parts))
    = Inr (0, Some (sample_bytes parts))"
proof -
  let ?cs = "with_payload parts c" and ?p = "payload parts"
  have ksl: "length (ks k (counter_block iv) n) = n" for n using evp by (simp add: evp_ok_def)
  have lc: "length c = length ?p" by (simp add: c ksl)
  have tab: "subsample_table ?cs = subsample_table parts" and pc: "payload ?cs = c"
    using lc by (simp_all add: table_with payload_with)
  have same: "length (sample_bytes (with_payload ps e)) = length (sample_bytes ps)" if "length e = length (payload ps)" for ps e
    using that by (induction ps e rule: with_payload.induct) auto
  have okc: "\<forall>p \<in> set ?cs. part_ok p" using part_ok_with [OF lc parts(1)] .
  have small: "length ?p < 2 ^ 32" using payload_le [of parts] parts(3) by simp
  have u: "unat (word_of_nat (length ?p) :: u32) = length ?p" using small by (subst unat_of_nat) simp
  have g: "gather (length parts) (subsample_table parts) (sample_bytes ?cs) True 0 [] 0 = Inr (c, word_of_nat (length c))"
    using gather_parts [OF okc, of "sample_bytes ?cs" "[]" "[]" "[]" "[]" 0] parts(3) same [OF lc] tab pc by simp
  have d: "decrypt evp (\<lambda>_. True) s iv c = Inr (0, ?p)"
    using decrypt_ready [OF evp iv s, of c] by (simp add: lc c xor_bytes_twice ksl)
  have sc: "scatter (length parts) (subsample_table parts) (sample_bytes ?cs) 0 ?p 0 = Inr (0, sample_bytes parts)"
    using scatter_parts [OF okc small, of "[]" ?p "[]" "[]" "[]" "[]"] tab pc lc by (simp add: with_payload_with)
  have "parts \<noteq> []" using parts(2) by auto
  moreover have "(word_of_nat (length c) :: u32) \<noteq> 0" using u parts(2) lc by (metis length_0_conv unat_eq_zero)
  ultimately show ?thesis using g d sc u lc by (simp add: decrypt_buffer_def)
qed

text \<open>A sample without encrypted bytes is reported as not decrypted, although the key is ready and the buffer is
  already plain.\<close>

theorem ck_clear_sample_fails:
  assumes "\<forall>p \<in> set parts. part_ok p" "payload parts = []" "length (sample_bytes parts) < 2 ^ 32"
  shows "decrypt_buffer evp (\<lambda>_. True) (\<lambda>_. True) s (Some iv) (Some (sample_bytes parts)) (length parts)
      (Some (subsample_table parts))
    = Inr (1, Some (sample_bytes parts))"
proof (cases "parts = []")
  case False
  have "gather (length parts) (subsample_table parts) (sample_bytes parts) True 0 [] 0 = Inr ([], 0)"
    using gather_parts [OF assms(1), of "sample_bytes parts" "[]" "[]" "[]" "[]" 0] assms(2,3) by simp
  then show ?thesis using False by (simp add: decrypt_buffer_def)
qed (simp add: decrypt_buffer_def)

text \<open>The counts of the subsample table are not compared with the size of the buffer: a first entry that exceeds
  it makes the copy read behind the buffer.\<close>

theorem ck_subsample_overrun:
  assumes "part_ok (c, x)" and "length buf < length c + length x" and "0 < n" and "table = subsample_table [(c, x)] @ rest"
  shows "decrypt_buffer evp (\<lambda>_. True) (\<lambda>_. True) s (Some iv) (Some buf) n (Some table) = Inl OutOfBounds"
proof -
  obtain i where i: "n = Suc i" using assms(3) by (cases n) auto
  have "unat (word_of_nat (length c) :: u32) = length c"
    using assms(1) by (subst unat_of_nat) (simp add: part_ok_def)
  then have "gather n table buf True 0 [] 0 = Inl OutOfBounds"
    using assms(2) part_sizes [OF assms(1)] read_subsample_part [OF assms(1), of "[]" rest]
    by (simp add: i assms(4) Let_def mem_read_def del: subsample_table.simps)
  then show ?thesis using assms(3) by (simp add: decrypt_buffer_def)
qed

lemma context_kept:
  "generateDRMSession d s = Inr s' \<Longrightarrow> mOpensslCtx s' = mOpensslCtx s"
  "generateKeyRequest lib malloc_ok s = (r, s') \<Longrightarrow> mOpensslCtx s' = mOpensslCtx s"
  by (auto simp: generateDRMSession_def generateKeyRequest_def setKeyId_def bindE_eq_Inr Let_def split: option.splits if_splits)

lemma context_kept_license: "processDRMKey lib malloc_ok key s = Inr (r, s') \<Longrightarrow> mOpensslCtx s' = mOpensslCtx s"
proof -
  have "accept_key lib malloc_ok kj ij s = Inr (r, s') \<Longrightarrow> mOpensslCtx s' = mOpensslCtx s" for kj ij
    by (cases "string_value lib ij"; cases "string_value lib kj") (auto simp: accept_key_def Let_def split: if_splits)
  then show "processDRMKey lib malloc_ok key s = Inr (r, s') \<Longrightarrow> mOpensslCtx s' = mOpensslCtx s"
    by (auto simp: processDRMKey_def split: option.splits if_splits list.splits)
qed

lemma accepted_ready: "processDRMKey lib malloc_ok key s = Inr (1, s') \<Longrightarrow> m_eKeyState s' = KEY_READY"
proof -
  have "accept_key lib malloc_ok kj ij s = Inr (1, s') \<Longrightarrow> m_eKeyState s' = KEY_READY" for kj ij
    by (cases "string_value lib ij"; cases "string_value lib kj") (auto simp: accept_key_def Let_def split: if_splits)
  then show "processDRMKey lib malloc_ok key s = Inr (1, s') \<Longrightarrow> m_eKeyState s' = KEY_READY"
    by (auto simp: processDRMKey_def split: option.splits if_splits list.splits)
qed

text \<open>A session that is cleared and then used for another key becomes ready but cannot decrypt: clearing frees the
  cipher context and nothing allocates it again.\<close>

theorem ck_cleared_session_crashes:
  assumes "generateDRMSession d (clearDecryptContext s) = Inr s1"
    and "generateKeyRequest lib malloc_ok s1 = (r, s2)" and "processDRMKey lib malloc_ok key s2 = Inr (1, s3)" and "iv_ok iv"
  shows "m_eKeyState s3 = KEY_READY \<and> decrypt evp (\<lambda>_. True) s3 iv pl = Inl NullDeref"
proof -
  have "\<not> mOpensslCtx s3"
    using context_kept(1) [OF assms(1)] context_kept(2) [OF assms(2)] context_kept_license [OF assms(3)]
    by (simp add: clearDecryptContext_def)
  then show ?thesis using accepted_ready [OF assms(3)] assms(4) by (auto simp: decrypt_def iv_ok_def)
qed

section \<open>Concrete sessions\<close>

definition license_lib :: "(json, int) cjson" where
  "license_lib = tree_cjson\<lparr>cJSON_PrintUnformatted := (\<lambda>_. Some ''request''),
     cJSON_Print := (\<lambda>_. Some ''{ kids: 1 }''),
     cJSON_Parse := (\<lambda>_. Some (JObject [(''keys'', JArray [JObject
       [(''k'', JString ''CQkJCQkJCQkJCQkJCQkJCQ''), (''kid'', JString ''BwcHBwcHBwcHBwcHBwcHBw'')]])]))\<rparr>"

definition ready_session :: ck_session where
  "ready_session = ClearKeySession\<lparr>m_eKeyState := KEY_READY, m_keyStr := Some (replicate 16 9), m_keyLen := 16\<rparr>"

definition pending_session :: ck_session where
  "pending_session = ClearKeySession\<lparr>m_eKeyState := KEY_PENDING, m_keyId := Some (replicate 16 7)\<rparr>"


definition zero_evp :: evp where
  "zero_evp = \<lparr>EVP_DecryptInit_ex = (\<lambda>_ _. True), EVP_DecryptUpdate = (\<lambda>_ _ d. (True, xor_bytes d (replicate (length d) 1))),
     EVP_DecryptFinal_ex = (\<lambda>_ _ _. True)\<rparr>"


theorem ck_zero_in_key_id_rejected_witness:
  "processDRMKey (license_lib\<lparr>cJSON_Parse := (\<lambda>_. Some (JObject [(''keys'', JArray [JObject
       [(''k'', JString ''CQkJCQkJCQkJCQkJCQkJCQ''), (''kid'', JString ''BwAHBwcHBwcHBwcHBwcHBw'')]])]))\<rparr>)
     (\<lambda>_. True) (Some ''license'') (pending_session\<lparr>m_keyId := Some (7 # replicate 15 0)\<rparr>)
    = Inr (0, pending_session\<lparr>m_keyId := Some (7 # replicate 15 0), m_eKeyState := KEY_ERROR\<rparr>)"
  by (rule ck_zero_in_key_id_rejected [of "replicate 32 1 @ [7, 0] @ replicate 14 7" "[7]" "replicate 14 7" "[]" ClearKeySession
        "ClearKeySession\<lparr>m_keyId := Some (7 # replicate 15 0)\<rparr>" _ "\<lambda>_. True" "''request''" _ _ "replicate 16 9",
        THEN trans]) code_simp+

theorem ck_hls_init_data_overrun_witness:
  "generateDRMSession (Some (bytes_of ''{ kids: 1 }'')) ClearKeySession = Inl OutOfBounds"
  by (rule ck_hls_init_data_overrun [of "new_helper ClearKeyHelper DrmInfo" license_lib]) code_simp+

theorem ck_decrypt_roundtrip_witness:
  "decrypt_buffer zero_evp (\<lambda>_. True) (\<lambda>_. True) ready_session (Some (replicate 8 5))
      (Some [10, 11, 2 XOR 1, 12, 3 XOR 1]) (Suc (Suc 0)) (Some (subsample_table [([10, 11], [2]), ([12], [3])]))
    = Inr (0, Some [10, 11, 2, 12, 3])"
  using ck_decrypt_roundtrip [of zero_evp "\<lambda>_ _ n. replicate n 1" "replicate 8 5" ready_session "replicate 16 9"
      "[([10, 11], [2]), ([12], [3])]" "[3, 2]"]
  by (simp add: evp_ok_def zero_evp_def iv_ok_def ready_session_def ClearKeySession_def initDRMSession_def part_ok_def
      xor_bytes_def)

theorem ck_clear_sample_fails_witness:
  "decrypt_buffer zero_evp (\<lambda>_. True) (\<lambda>_. True) ready_session (Some (replicate 8 5)) (Some [10, 11]) 1
      (Some (subsample_table [([10, 11], [])]))
    = Inr (1, Some [10, 11])"
  using ck_clear_sample_fails [of "[([10, 11], [])]" zero_evp ready_session "replicate 8 5"]
  by (simp add: part_ok_def)

theorem ck_subsample_overrun_witness:
  "decrypt_buffer zero_evp (\<lambda>_. True) (\<lambda>_. True) ready_session (Some (replicate 8 5)) (Some [10, 11]) 1
      (Some (subsample_table [([10, 11], [1])]))
    = Inl OutOfBounds"
  by (rule ck_subsample_overrun [of "[10, 11]" "[1]" _ _ _ "[]"]) (simp_all add: part_ok_def)

theorem ck_cleared_session_crashes_witness:
  "m_eKeyState (ready_session\<lparr>m_keyId := Some (replicate 16 7), mOpensslCtx := False\<rparr>) = KEY_READY
    \<and> decrypt zero_evp (\<lambda>_. True) (ready_session\<lparr>m_keyId := Some (replicate 16 7), mOpensslCtx := False\<rparr>) (replicate 8 5) [1]
      = Inl NullDeref"
  by (rule ck_cleared_session_crashes [of "Some (replicate 32 1 @ replicate 16 7)" ClearKeySession
        "(clearDecryptContext ClearKeySession)\<lparr>m_keyId := Some (replicate 16 7)\<rparr>" license_lib "\<lambda>_. True" "Some ''request''"
        "pending_session\<lparr>mOpensslCtx := False\<rparr>" "Some ''license''"]) code_simp+

end
