(* ===== verification/Security_Session.thy ===== *)
theory Security_Session
  imports Player_Prelude
begin

text \<open>
  \<^verbatim>\<open>externals/contentsecuritymanager/ContentSecurityManagerSession.cpp\<close>: sessions with the security manager, which are
  closed when the last object that refers to them goes away. The shared pointers are a store: an object address
  per handle, the objects that are alive, and the registry of weak pointers by session id. \<open>ReleaseSession\<close>, which
  closes a session, is recorded in the order of the calls.

  The abstract model has one optional session id per handle; the last lemmas show that the store refines it.
\<close>

section \<open>The store\<close>

record sm_object =
  mID :: int
  mInputSummaryHash :: nat

record sec_store =
  handles :: "nat option list"
  objects :: "nat \<rightharpoonup> sm_object"
  instances :: "int \<rightharpoonup> nat"
  next_address :: nat
  released :: "int list"

definition empty_store :: sec_store where
  "empty_store = \<lparr>handles = [], objects = Map.empty, instances = Map.empty, next_address = 0, released = []\<rparr>"

definition use_count :: "sec_store \<Rightarrow> nat \<Rightarrow> nat" where
  "use_count st a = length (filter (\<lambda>h. h = Some a) (handles st))"

text \<open>A shared pointer that is overwritten or destroyed destroys its object when no other one is left.\<close>

definition destroy_object :: "nat \<Rightarrow> sec_store \<Rightarrow> sec_store" where
  "destroy_object a st =
     (case objects st a of
        None \<Rightarrow> st
      | Some ob \<Rightarrow> st\<lparr>objects := (objects st)(a := None),
                    released := (if 0 < mID ob then released st @ [mID ob] else released st)\<rparr>)"

definition set_handle :: "nat \<Rightarrow> nat option \<Rightarrow> sec_store \<Rightarrow> sec_store" where
  "set_handle i p st =
     (let st' = st\<lparr>handles := (handles st)[i := p]\<rparr> in
      case handles st ! i of
        None \<Rightarrow> st'
      | Some a \<Rightarrow> if use_count st' a = 0 then destroy_object a st' else st')"

definition new_handle :: "nat option \<Rightarrow> sec_store \<Rightarrow> sec_store" where
  "new_handle p st = st\<lparr>handles := handles st @ [p]\<rparr>"

section \<open>Operations\<close>

definition remove_expired :: "sec_store \<Rightarrow> sec_store" where
  "remove_expired st = st\<lparr>instances := (\<lambda>i. case instances st i of
       None \<Rightarrow> None | Some a \<Rightarrow> if objects st a = None then None else Some a)\<rparr>"

definition getInstance :: "int \<Rightarrow> nat \<Rightarrow> sec_store \<Rightarrow> nat option \<times> sec_store" where
  "getInstance sessionID inputSummaryHash st0 =
     (let st = remove_expired st0 in
      if 0 < sessionID then
        (case Option.bind (instances st sessionID) (\<lambda>a. map_option (Pair a) (objects st a)) of
           Some (a, ob) \<Rightarrow>
             (Some a, if mInputSummaryHash ob \<noteq> inputSummaryHash
                      then st\<lparr>objects := (objects st)(a \<mapsto> ob\<lparr>mInputSummaryHash := inputSummaryHash\<rparr>)\<rparr> else st)
         | None \<Rightarrow>
             let a = next_address st in
             (Some a, st\<lparr>objects := (objects st)(a \<mapsto> \<lparr>mID = sessionID, mInputSummaryHash = inputSummaryHash\<rparr>),
                instances := (instances st)(sessionID \<mapsto> a), next_address := a + 1\<rparr>))
      else (None, st))"

text \<open>The two constructors, the copy constructor and the assignment operator. Assignment of an object to itself locks
  one mutex twice.\<close>

definition ContentSecurityManagerSession :: "int \<Rightarrow> nat \<Rightarrow> sec_store \<Rightarrow> sec_store" where
  "ContentSecurityManagerSession sessionID inputSummaryHash st =
     (let (p, st') = getInstance sessionID inputSummaryHash st in new_handle p st')"

definition invalid_session :: "sec_store \<Rightarrow> sec_store" where
  "invalid_session st = new_handle None st"

definition copy_session :: "nat \<Rightarrow> sec_store \<Rightarrow> sec_store" where
  "copy_session other st = new_handle (handles st ! other) st"

definition assign_session :: "nat \<Rightarrow> nat \<Rightarrow> sec_store \<Rightarrow> sec_store res" where
  "assign_session this other st = (if this = other then Inl Undefined else Inr (set_handle this (handles st ! other) st))"

text \<open>The destructor leaves a handle that no pointer is in.\<close>

definition setSessionInvalid :: "nat \<Rightarrow> sec_store \<Rightarrow> sec_store" where
  "setSessionInvalid this st = set_handle this None st"

definition getSessionID :: "nat \<Rightarrow> sec_store \<Rightarrow> int" where
  "getSessionID this st =
     (case Option.bind (handles st ! this) (objects st) of None \<Rightarrow> - 1 | Some ob \<Rightarrow> mID ob)"

definition getInputSummaryHash :: "nat \<Rightarrow> sec_store \<Rightarrow> nat" where
  "getInputSummaryHash this st =
     (case Option.bind (handles st ! this) (objects st) of None \<Rightarrow> 0 | Some ob \<Rightarrow> mInputSummaryHash ob)"

definition isSessionValid :: "nat \<Rightarrow> sec_store \<Rightarrow> bool" where
  "isSessionValid this st \<longleftrightarrow> handles st ! this \<noteq> None"

section \<open>Well-formed stores\<close>

text \<open>Handles point to live objects, every live object has a handle, a positive id under which it is registered, and an
  address below the next one; the registry entry of a live object has its id.\<close>

definition live_id :: "sec_store \<Rightarrow> nat \<Rightarrow> int option" where
  "live_id st a = map_option mID (objects st a)"

definition sec_wf :: "sec_store \<Rightarrow> bool" where
  "sec_wf st \<longleftrightarrow>
     (\<forall>a. Some a \<in> set (handles st) \<longleftrightarrow> live_id st a \<noteq> None)
     \<and> (\<forall>a x. live_id st a = Some x \<longrightarrow> 0 < x \<and> instances st x = Some a)
     \<and> (\<forall>x a. instances st x = Some a \<longrightarrow> a < next_address st \<and> (\<forall>y. live_id st a = Some y \<longrightarrow> y = x))"

lemma sec_wfD:
  assumes "sec_wf st"
  shows "Some a \<in> set (handles st) \<longleftrightarrow> live_id st a \<noteq> None"
    and "live_id st a = Some x \<Longrightarrow> 0 < x"
    and "live_id st a = Some x \<Longrightarrow> instances st x = Some a"
    and "live_id st a = Some x \<Longrightarrow> a < next_address st"
    and "instances st x = Some a \<Longrightarrow> a < next_address st"
    and "instances st x = Some a \<Longrightarrow> live_id st a = Some y \<Longrightarrow> y = x"
  using assms unfolding sec_wf_def by blast+

text \<open>Two live objects never have the same id.\<close>

lemma sec_wf_unique: "sec_wf st \<Longrightarrow> live_id st a = Some x \<Longrightarrow> live_id st b = Some x \<Longrightarrow> a = b"
  by (metis option.inject sec_wfD(3))

lemma use_count_zero: "use_count st a = 0 \<longleftrightarrow> Some a \<notin> set (handles st)"
  by (auto simp: use_count_def filter_empty_conv)

section \<open>The abstract model\<close>

record sec_spec =
  ids :: "int option list"
  closed :: "int list"

definition abs_sec :: "sec_store \<Rightarrow> sec_spec" where
  "abs_sec st = \<lparr>ids = map (\<lambda>h. Option.bind h (live_id st)) (handles st), closed = released st\<rparr>"

definition spec_put :: "nat \<Rightarrow> int option \<Rightarrow> sec_spec \<Rightarrow> sec_spec" where
  "spec_put i p sp =
     (let sp' = sp\<lparr>ids := (ids sp)[i := p]\<rparr> in
      case ids sp ! i of
        None \<Rightarrow> sp'
      | Some x \<Rightarrow> if Some x \<in> set (ids sp') then sp' else sp'\<lparr>closed := closed sp @ [x]\<rparr>)"

definition spec_add :: "int option \<Rightarrow> sec_spec \<Rightarrow> sec_spec" where
  "spec_add p sp = sp\<lparr>ids := ids sp @ [p]\<rparr>"

text \<open>The calls of a client; the numbers are handles.\<close>

datatype sec_op = SecNew int nat | SecInvalid | SecCopy nat | SecAssign nat nat | SecReset nat

fun sec_op_ok :: "nat \<Rightarrow> sec_op \<Rightarrow> bool" where
  "sec_op_ok n (SecNew x h) = True"
| "sec_op_ok n SecInvalid = True"
| "sec_op_ok n (SecCopy i) = (i < n)"
| "sec_op_ok n (SecAssign i j) = (i < n \<and> j < n \<and> i \<noteq> j)"
| "sec_op_ok n (SecReset i) = (i < n)"

fun sec_exec :: "sec_op \<Rightarrow> sec_store \<Rightarrow> sec_store res" where
  "sec_exec (SecNew x h) st = Inr (ContentSecurityManagerSession x h st)"
| "sec_exec SecInvalid st = Inr (invalid_session st)"
| "sec_exec (SecCopy i) st = Inr (copy_session i st)"
| "sec_exec (SecAssign i j) st = assign_session i j st"
| "sec_exec (SecReset i) st = Inr (setSessionInvalid i st)"

fun spec_exec :: "sec_op \<Rightarrow> sec_spec \<Rightarrow> sec_spec" where
  "spec_exec (SecNew x h) sp = spec_add (if 0 < x then Some x else None) sp"
| "spec_exec SecInvalid sp = spec_add None sp"
| "spec_exec (SecCopy i) sp = spec_add (ids sp ! i) sp"
| "spec_exec (SecAssign i j) sp = spec_put i (ids sp ! j) sp"
| "spec_exec (SecReset i) sp = spec_put i None sp"

section \<open>Refinement\<close>

lemma remove_expired_same [simp]:
  "handles (remove_expired st) = handles st" "objects (remove_expired st) = objects st"
  "released (remove_expired st) = released st" "next_address (remove_expired st) = next_address st"
  by (simp_all add: remove_expired_def)

lemma live_remove_expired [simp]: "live_id (remove_expired st) = live_id st"
  by (simp add: live_id_def fun_eq_iff)

lemma instances_remove_expired:
  "instances (remove_expired st) x = Some a \<longleftrightarrow> instances st x = Some a \<and> live_id st a \<noteq> None"
  by (auto simp: remove_expired_def live_id_def split: option.splits)

lemma remove_expired_wf: "sec_wf st \<Longrightarrow> sec_wf (remove_expired st)"
  unfolding sec_wf_def by (auto simp: instances_remove_expired)

lemma abs_remove_expired [simp]: "abs_sec (remove_expired st) = abs_sec st"
  by (simp add: abs_sec_def)

text \<open>A live object for the id is found, otherwise a new one is made; either way the id of the pointer is right and the
  ids of the other handles stay.\<close>

lemma new_session_fresh:
  assumes wf: "sec_wf st" and x: "0 < x" and none: "\<forall>a. live_id st a \<noteq> Some x"
    and ob: "mID ob = x" and a: "a = next_address st"
    and st': "st' = new_handle (Some a) (st\<lparr>objects := (objects st)(a \<mapsto> ob),
      instances := (instances st)(x \<mapsto> a), next_address := a + 1\<rparr>)"
  shows "sec_wf st' \<and> abs_sec st' = spec_add (Some x) (abs_sec st)"
proof
  have fresh: "live_id st a = None" using sec_wfD(4) [OF wf, of a] by (cases "live_id st a") (auto simp: a)
  have reg: "instances st y \<noteq> Some a" for y using sec_wfD(5) [OF wf, of y a] by (auto simp: a)
  have not_in: "Some a \<notin> set (handles st)" using sec_wfD(1) [OF wf, of a] fresh(1) by simp
  have live: "live_id st' = (live_id st)(a := Some x)" using ob by (simp add: st' live_id_def fun_eq_iff new_handle_def)
  have parts: "handles st' = handles st @ [Some a]" "instances st' = (instances st)(x \<mapsto> a)" "next_address st' = Suc a"
    by (simp_all add: st' new_handle_def)
  show "sec_wf st'"
    unfolding sec_wf_def live parts
    using sec_wfD [OF wf] x none reg by (auto simp: a less_Suc_eq)
  have "map (\<lambda>h. Option.bind h (live_id st')) (handles st) = map (\<lambda>h. Option.bind h (live_id st)) (handles st)"
  proof (rule map_cong [OF refl])
    fix h assume h: "h \<in> set (handles st)"
    show "Option.bind h (live_id st') = Option.bind h (live_id st)" by (cases h) (use h not_in in \<open>auto simp: live\<close>)
  qed
  then show "abs_sec st' = spec_add (Some x) (abs_sec st)"
    by (simp add: abs_sec_def spec_add_def parts) (simp add: live, simp add: st' new_handle_def)
qed

lemma new_session_found:
  assumes wf: "sec_wf st" and a: "instances st x = Some a" "objects st a = Some ob"
    and ob': "mID ob' = mID ob" and st': "st' = new_handle (Some a) (st\<lparr>objects := (objects st)(a \<mapsto> ob')\<rparr>)"
  shows "sec_wf st' \<and> abs_sec st' = spec_add (Some x) (abs_sec st)"
proof
  have x: "live_id st a = Some x" using sec_wfD(6) [OF wf a(1)] a(2) by (auto simp: live_id_def)
  have live: "live_id st' = live_id st" using a(2) ob' by (auto simp: st' live_id_def fun_eq_iff new_handle_def)
  have parts: "handles st' = handles st @ [Some a]" "instances st' = instances st" "next_address st' = next_address st"
    by (simp_all add: st' new_handle_def)
  show "sec_wf st'"
    unfolding sec_wf_def live parts using sec_wfD [OF wf] x by auto
  show "abs_sec st' = spec_add (Some x) (abs_sec st)"
    using x by (simp add: abs_sec_def spec_add_def parts live) (simp add: st' new_handle_def)
qed

lemma new_session_wf_abs:
  assumes wf0: "sec_wf st"
  shows "sec_wf (ContentSecurityManagerSession x h st)
    \<and> abs_sec (ContentSecurityManagerSession x h st) = spec_add (if 0 < x then Some x else None) (abs_sec st)"
proof (cases "0 < x")
  case False
  have "live_id (new_handle None st) = live_id st" for st by (simp add: new_handle_def live_id_def fun_eq_iff)
  then show ?thesis
    using False remove_expired_wf [OF wf0]
    by (simp add: ContentSecurityManagerSession_def getInstance_def Let_def sec_wf_def abs_sec_def spec_add_def)
      (simp add: new_handle_def)
next
  case True
  let ?st = "remove_expired st"
  have wf: "sec_wf ?st" by (rule remove_expired_wf [OF wf0])
  show ?thesis
  proof (cases "Option.bind (instances ?st x) (\<lambda>a. map_option (Pair a) (objects ?st a))")
    case None
    have "live_id ?st b \<noteq> Some x" for b
    proof
      assume live: "live_id ?st b = Some x"
      then have "instances ?st x = Some b" by (rule sec_wfD(3) [OF wf])
      then show False using None live by (auto simp: live_id_def)
    qed
    then show ?thesis
      using True None new_session_fresh [OF wf True _ _ refl refl, of "\<lparr>mID = x, mInputSummaryHash = h\<rparr>"]
      by (simp add: ContentSecurityManagerSession_def getInstance_def Let_def)
  next
    case (Some p)
    then obtain a ob where p: "p = (a, ob)" and a: "instances ?st x = Some a" "objects ?st a = Some ob"
      by (auto simp: bind_eq_Some_conv)
    have same: "?st\<lparr>objects := (objects ?st)(a \<mapsto> ob)\<rparr> = ?st" using a(2) by (simp add: fun_upd_idem)
    show ?thesis
      using True Some p new_session_found [OF wf a _ refl, of "ob\<lparr>mInputSummaryHash := h\<rparr>"]
        new_session_found [OF wf a refl refl] same
      by (auto simp: ContentSecurityManagerSession_def getInstance_def Let_def simp del: remove_expired_same)
  qed
qed

text \<open>Overwriting a handle: the object that it pointed to is destroyed when no other handle points to it, which is when
  its id is not held any more.\<close>

lemma live_destroy [simp]: "live_id (destroy_object a st) = (live_id st)(a := None)"
  by (auto simp: destroy_object_def live_id_def fun_eq_iff split: option.splits)

lemma destroy_same [simp]:
  "handles (destroy_object a st) = handles st" "instances (destroy_object a st) = instances st"
  "next_address (destroy_object a st) = next_address st"
  by (simp_all add: destroy_object_def split: option.splits)

lemma set_list_update: "i < length xs \<Longrightarrow> xs ! i \<noteq> y \<Longrightarrow> y \<in> set (xs[i := z]) \<longleftrightarrow> y = z \<or> y \<in> set xs"
  by (metis in_set_conv_nth length_list_update nth_list_update_eq nth_list_update_neq)

lemma set_handle_wf_abs:
  assumes wf: "sec_wf st" and i: "i < length (handles st)" and p: "p = None \<or> p \<in> set (handles st)"
  shows "sec_wf (set_handle i p st)
    \<and> abs_sec (set_handle i p st) = spec_put i (Option.bind p (live_id st)) (abs_sec st)"
proof (cases "handles st ! i")
  case None
  let ?st = "st\<lparr>handles := (handles st)[i := p]\<rparr>"
  have eq: "set_handle i p st = ?st" by (simp add: set_handle_def None)
  have live: "live_id ?st = live_id st" by (simp add: live_id_def fun_eq_iff)
  have mem: "Some a \<in> set (handles ?st) \<longleftrightarrow> Some a \<in> set (handles st)" for a
    using p set_list_update [of i "handles st" "Some a" p] i None by auto
  have "sec_wf ?st" using sec_wfD [OF wf] unfolding sec_wf_def live mem by auto
  moreover have "abs_sec ?st = spec_put i (Option.bind p (live_id st)) (abs_sec st)"
    using i None by (simp add: abs_sec_def live spec_put_def Let_def map_update)
  ultimately show ?thesis using eq by simp
next
  case (Some b)
  let ?st = "st\<lparr>handles := (handles st)[i := p]\<rparr>"
  have live: "live_id ?st = live_id st" by (simp add: live_id_def fun_eq_iff)
  have b_in: "Some b \<in> set (handles st)" using Some i by (metis nth_mem)
  then obtain x where x: "live_id st b = Some x" using sec_wfD(1) [OF wf, of b] by auto
  have others: "Some a \<in> set (handles ?st) \<longleftrightarrow> Some a \<in> set (handles st)" if "a \<noteq> b" for a
    using p set_list_update [of i "handles st" "Some a" p] i Some that by auto
  have ids: "ids (abs_sec ?st) = (ids (abs_sec st))[i := Option.bind p (live_id st)]"
    by (simp add: abs_sec_def live map_update)
  have old: "ids (abs_sec st) ! i = Some x" using i Some x by (simp add: abs_sec_def)
  have held: "Some x \<in> set (ids (abs_sec ?st)) \<longleftrightarrow> Some b \<in> set (handles ?st)"
  proof
    assume "Some x \<in> set (ids (abs_sec ?st))"
    then obtain h where "h \<in> set (handles ?st)" "Option.bind h (live_id st) = Some x" by (auto simp: abs_sec_def live)
    moreover then obtain c where "h = Some c" "live_id st c = Some x" by (auto simp: bind_eq_Some_conv)
    ultimately show "Some b \<in> set (handles ?st)" using sec_wf_unique [OF wf _ x] by metis
  next
    assume "Some b \<in> set (handles ?st)"
    then show "Some x \<in> set (ids (abs_sec ?st))" using x by (force simp: abs_sec_def live)
  qed
  show ?thesis
  proof (cases "Some b \<in> set (handles ?st)")
    case True
    then have eq: "set_handle i p st = ?st" by (simp add: set_handle_def Some use_count_zero)
    have mem: "Some a \<in> set (handles ?st) \<longleftrightarrow> Some a \<in> set (handles st)" for a
      using others True b_in by (cases "a = b") auto
    have "sec_wf ?st" using sec_wfD [OF wf] unfolding sec_wf_def live mem by auto
    moreover have "abs_sec ?st = spec_put i (Option.bind p (live_id st)) (abs_sec st)"
      using held True ids old by (simp add: spec_put_def) (simp add: abs_sec_def)
    ultimately show ?thesis using eq by simp
  next
    case False
    then have eq: "set_handle i p st = destroy_object b ?st" by (simp add: set_handle_def Some use_count_zero)
    have "sec_wf (destroy_object b ?st)"
      unfolding sec_wf_def live_destroy live destroy_same
      using sec_wfD [OF wf] others False by auto
    moreover have "abs_sec (destroy_object b ?st) = spec_put i (Option.bind p (live_id st)) (abs_sec st)"
    proof -
      obtain ob where ob: "objects st b = Some ob" "mID ob = x" using x by (auto simp: live_id_def)
      have "0 < x" using sec_wfD(2) [OF wf x] .
      then have rel: "released (destroy_object b ?st) = released st @ [x]" using ob by (simp add: destroy_object_def)
      have "map (\<lambda>h. Option.bind h ((live_id st)(b := None))) (handles ?st) = map (\<lambda>h. Option.bind h (live_id st)) (handles ?st)"
      proof (rule map_cong [OF refl])
        fix h assume h: "h \<in> set (handles ?st)"
        show "Option.bind h ((live_id st)(b := None)) = Option.bind h (live_id st)" by (cases h) (use h False in auto)
      qed
      then have "ids (abs_sec (destroy_object b ?st)) = ids (abs_sec ?st)"
        unfolding abs_sec_def live_destroy live destroy_same by simp
      then show ?thesis using held False ids old rel by (simp add: spec_put_def Let_def) (simp add: abs_sec_def)
    qed
    ultimately show ?thesis using eq by simp
  qed
qed

lemma new_none_wf_abs: "sec_wf st \<Longrightarrow> sec_wf (new_handle None st) \<and> abs_sec (new_handle None st) = spec_add None (abs_sec st)"
proof -
  assume wf: "sec_wf st"
  have live: "live_id (new_handle None st) = live_id st" by (simp add: new_handle_def live_id_def fun_eq_iff)
  have "sec_wf (new_handle None st)"
    unfolding sec_wf_def live using sec_wfD [OF wf] by (auto simp: new_handle_def)
  then show ?thesis by (simp add: abs_sec_def live spec_add_def) (simp add: new_handle_def)
qed

lemma copy_wf_abs:
  assumes wf: "sec_wf st" and i: "i < length (handles st)"
  shows "sec_wf (copy_session i st) \<and> abs_sec (copy_session i st) = spec_add (ids (abs_sec st) ! i) (abs_sec st)"
proof -
  have live: "live_id (copy_session i st) = live_id st" by (simp add: copy_session_def new_handle_def live_id_def fun_eq_iff)
  have mem: "Some a \<in> set (handles (copy_session i st)) \<longleftrightarrow> Some a \<in> set (handles st)" for a
    using i by (auto simp: copy_session_def new_handle_def dest: nth_mem)
  have "sec_wf (copy_session i st)"
    unfolding sec_wf_def live mem using sec_wfD [OF wf] by (auto simp: copy_session_def new_handle_def)
  then show ?thesis using i by (simp add: abs_sec_def live spec_add_def) (simp add: copy_session_def new_handle_def)
qed

lemma sec_exec_refines:
  assumes wf: "sec_wf st" and ok: "sec_op_ok (length (handles st)) op"
  shows "\<exists>st'. sec_exec op st = Inr st' \<and> sec_wf st' \<and> abs_sec st' = spec_exec op (abs_sec st)"
proof (cases op)
  case (SecNew x h)
  then show ?thesis using new_session_wf_abs [OF wf, of x h] by simp
next
  case SecInvalid
  then show ?thesis using new_none_wf_abs [OF wf] by (simp add: invalid_session_def)
next
  case (SecCopy i)
  then show ?thesis using copy_wf_abs [OF wf] ok by simp
next
  case (SecAssign i j)
  then show ?thesis
    using set_handle_wf_abs [OF wf, of i "handles st ! j"] ok by (auto simp: assign_session_def abs_sec_def)
next
  case (SecReset i)
  then show ?thesis using set_handle_wf_abs [OF wf, of i None] ok by (simp add: setSessionInvalid_def)
qed

fun sec_run :: "sec_op list \<Rightarrow> sec_store \<Rightarrow> sec_store res" where
  "sec_run [] st = Inr st"
| "sec_run (op # ops) st = bindE (sec_exec op st) (sec_run ops)"

fun sec_ops_ok :: "nat \<Rightarrow> sec_op list \<Rightarrow> bool" where
  "sec_ops_ok n [] = True"
| "sec_ops_ok n (op # ops) =
     (sec_op_ok n op \<and> sec_ops_ok (case op of SecAssign _ _ \<Rightarrow> n | SecReset _ \<Rightarrow> n | _ \<Rightarrow> n + 1) ops)"

lemma length_spec_exec:
  "length (ids (spec_exec op sp)) = (case op of SecAssign _ _ \<Rightarrow> length (ids sp) | SecReset _ \<Rightarrow> length (ids sp) | _ \<Rightarrow> length (ids sp) + 1)"
  by (cases op) (auto simp: spec_add_def spec_put_def Let_def split: option.split)

lemma length_ids [simp]: "length (ids (abs_sec st)) = length (handles st)"
  by (simp add: abs_sec_def)

lemma sec_run_refines_from:
  "sec_wf st \<Longrightarrow> sec_ops_ok (length (handles st)) ops \<Longrightarrow>
    \<exists>st'. sec_run ops st = Inr st' \<and> sec_wf st' \<and> abs_sec st' = fold spec_exec ops (abs_sec st)"
proof (induction ops arbitrary: st)
  case (Cons op ops)
  obtain st' where st': "sec_exec op st = Inr st'" "sec_wf st'" "abs_sec st' = spec_exec op (abs_sec st)"
    using sec_exec_refines [OF Cons.prems(1)] Cons.prems(2) by auto
  have "length (handles st') = (case op of SecAssign _ _ \<Rightarrow> length (handles st) | SecReset _ \<Rightarrow> length (handles st) | _ \<Rightarrow> length (handles st) + 1)"
    using length_spec_exec [of op "abs_sec st"] st'(3) length_ids by metis
  then show ?case using Cons.IH [OF st'(2)] Cons.prems(2) st' by (auto split: sec_op.splits)
qed simp

lemma empty_store_wf: "sec_wf empty_store"
  by (simp add: sec_wf_def empty_store_def live_id_def)

text \<open>C31: The shared pointers, the registry of weak pointers and the destructors together implement the simple model in
  which every session object just holds an optional id and a session is closed when the last object that holds its id
  lets go: for every sequence of constructions, copies, assignments and invalidations.\<close>

theorem sec_run_refines:
  assumes "sec_ops_ok 0 ops"
  shows "\<exists>st. sec_run ops empty_store = Inr st \<and> sec_wf st
    \<and> abs_sec st = fold spec_exec ops \<lparr>ids = [], closed = []\<rparr>"
  using sec_run_refines_from [OF empty_store_wf, of ops] assms by (simp add: abs_sec_def empty_store_def)

theorem sec_run_refines_witness:
  "\<exists>st. sec_run [SecNew 7 1, SecNew 7 2, SecReset 0, SecReset 1] empty_store = Inr st \<and> sec_wf st
    \<and> abs_sec st = \<lparr>ids = [None, None], closed = [7]\<rparr>"
  using sec_run_refines [of "[SecNew 7 1, SecNew 7 2, SecReset 0, SecReset 1]"]
  by (simp add: spec_add_def spec_put_def)

text \<open>A session that is held by some object is closed by a call exactly when after the call no object holds it any
  more.\<close>

theorem sec_closed_when_last:
  assumes "sec_wf st" and "sec_op_ok (length (handles st)) op" and "sec_exec op st = Inr st'"
    and held: "Some x \<in> set (ids (abs_sec st))"
  shows "released st' = released st @ [x] \<longleftrightarrow> Some x \<notin> set (ids (abs_sec st'))"
proof -
  have spec: "abs_sec st' = spec_exec op (abs_sec st)" using sec_exec_refines [OF assms(1,2)] assms(3) by auto
  have rel: "released st = closed (abs_sec st)" "released st' = closed (abs_sec st')" by (simp_all add: abs_sec_def)
  have put: "closed (spec_put i p sp) = closed sp @ [x] \<longleftrightarrow> Some x \<notin> set (ids (spec_put i p sp))"
    if "Some x \<in> set (ids sp)" "i < length (ids sp)" for i p sp
  proof (cases "ids sp ! i")
    case None
    then have "Some x \<in> set ((ids sp)[i := p])"
      using that set_list_update [of i "ids sp" "Some x" p] by simp
    then show ?thesis using None by (simp add: spec_put_def)
  next
    case (Some y)
    show ?thesis
    proof (cases "y = x")
      case False
      then have "Some x \<in> set ((ids sp)[i := p])"
        using that Some set_list_update [of i "ids sp" "Some x" p] by simp
      then show ?thesis using Some False by (simp add: spec_put_def Let_def)
    qed (use Some in \<open>simp add: spec_put_def Let_def\<close>)
  qed
  show ?thesis
    using put held assms(2) unfolding rel spec by (cases op) (simp_all add: spec_add_def)
qed

theorem sec_closed_when_last_witness:
  "released (setSessionInvalid 0 (ContentSecurityManagerSession 7 1 empty_store)) = [7]"
proof -
  let ?s = "ContentSecurityManagerSession 7 1 empty_store"
  have wf: "sec_wf ?s" using new_session_wf_abs [OF empty_store_wf] by blast
  have s: "handles ?s = [Some 0]" "live_id ?s 0 = Some 7" "released ?s = []"
    by (simp_all add: ContentSecurityManagerSession_def getInstance_def Let_def new_handle_def empty_store_def
        remove_expired_def live_id_def)
  have "ids (abs_sec (setSessionInvalid 0 ?s)) = [None]"
    using s by (simp add: setSessionInvalid_def set_handle_def use_count_def Let_def abs_sec_def)
  then show ?thesis
    using sec_closed_when_last [OF wf, of "SecReset 0" "setSessionInvalid 0 ?s" 7] s by (simp add: abs_sec_def)
qed

end
