(* ===== verification/Drm_Session_Manager.thy ===== *)
theory Drm_Session_Manager
  imports Complex_Main ClearKey_Session
begin

text \<open>
  \<^verbatim>\<open>drm/DrmSessionManager.cpp\<close> and \<^verbatim>\<open>drm/DrmSessionFactory.cpp\<close>: the slots that hold the DRM sessions of a player, the
  key ids that are cached per slot, and the calls to the security manager for the watermark. The mutexes make each
  operation atomic; an operation is a function on the state.

  A session of any class is a record with what the manager reads of it. The environment \<open>env\<close> holds what the classes
  behind the virtual functions and the callbacks of the player do, \<open>now\<close> is the clock, and a security session is
  its id (\<open>Security_Session\<close> shows that the shared pointers behave like that). The pointer that the program returns
  is the slot of the session.
\<close>

section \<open>State\<close>

record drm_session =
  ds_keySystem :: string
  ds_state :: key_state
  ds_sec :: "int option"
  ds_outputProtection :: bool
  ds_keyId :: "byte list"

record session_context =
  sc_data :: "byte list"
  sc_session :: "drm_session option"

record key_slot =
  kd_data :: "byte list list"
  creationTime :: int
  isFailedKeyId :: bool
  isPrimaryKeyId :: bool

datatype csm_call = UpdateSessionState int bool | VideoWindowSize int int int | PlaybackSpeedState int int real

record drm_config =
  mUseSecManager :: bool
  mEnablePROutputProtection :: bool
  mPropagateURIParam :: bool
  mIsFakeTune :: bool
  mIsWVKIDWorkaround :: bool

record manager =
  drmSessionContexts :: "session_context list"
  cachedKeyIDs :: "key_slot list"
  accessToken :: "string option"
  sessionMgrActive :: bool
  mMaxDRMSessions :: nat
  config :: drm_config
  mContentSecurityManagerSession :: "int option"
  mIsVideoOnMute :: bool
  mCurrentSpeed :: int
  mFirstFrameSeen :: bool
  mCustomData :: string
  csm_calls :: "csm_call list"

definition KeyID :: key_slot where
  "KeyID = \<lparr>kd_data = [], creationTime = 0, isFailedKeyId = False, isPrimaryKeyId = False\<rparr>"

definition DrmSessionContext :: session_context where
  "DrmSessionContext = \<lparr>sc_data = [], sc_session = None\<rparr>"

definition DrmSessionManager :: "nat \<Rightarrow> manager" where
  "DrmSessionManager maxDrmSessions = \<lparr>drmSessionContexts = replicate maxDrmSessions DrmSessionContext,
     cachedKeyIDs = replicate maxDrmSessions KeyID, accessToken = None, sessionMgrActive = True,
     mMaxDRMSessions = maxDrmSessions,
     config = \<lparr>mUseSecManager = False, mEnablePROutputProtection = False, mPropagateURIParam = False, mIsFakeTune = False,
       mIsWVKIDWorkaround = False\<rparr>,
     mContentSecurityManagerSession = None, mIsVideoOnMute = False, mCurrentSpeed = 0, mFirstFrameSeen = False,
     mCustomData = [], csm_calls = []\<rparr>"

definition UpdateDRMConfig :: "bool \<Rightarrow> bool \<Rightarrow> bool \<Rightarrow> bool \<Rightarrow> bool \<Rightarrow> manager \<Rightarrow> manager" where
  "UpdateDRMConfig useSecManager enablePROutputProtection propagateURIParam isFakeTune wideVineKIDWorkaround m =
     m\<lparr>config := \<lparr>mUseSecManager = useSecManager, mEnablePROutputProtection = enablePROutputProtection,
       mPropagateURIParam = propagateURIParam, mIsFakeTune = isFakeTune, mIsWVKIDWorkaround = wideVineKIDWorkaround\<rparr>\<rparr>"

definition clearSessionData :: "manager \<Rightarrow> manager" where
  "clearSessionData m = m\<lparr>
     drmSessionContexts := map (\<lambda>c. if sc_session c \<noteq> None then DrmSessionContext else c) (drmSessionContexts m),
     cachedKeyIDs := map (\<lambda>_. KeyID) (cachedKeyIDs m)\<rparr>"

definition setSessionMgrState :: "bool \<Rightarrow> manager \<Rightarrow> manager" where
  "setSessionMgrState active m = m\<lparr>sessionMgrActive := active\<rparr>"

definition clear_failed :: "key_slot \<Rightarrow> key_slot" where
  "clear_failed k = (if isFailedKeyId k then k\<lparr>kd_data := [], isFailedKeyId := False, creationTime := 0\<rparr> else k)
     \<lparr>isPrimaryKeyId := False\<rparr>"

definition clearFailedKeyIds :: "manager \<Rightarrow> manager" where
  "clearFailedKeyIds m = m\<lparr>cachedKeyIDs := map clear_failed (cachedKeyIDs m)\<rparr>"

definition clearAccessToken :: "manager \<Rightarrow> manager" where
  "clearAccessToken m = m\<lparr>accessToken := None\<rparr>"

definition clearDrmSession :: "bool \<Rightarrow> manager \<Rightarrow> manager" where
  "clearDrmSession forceClearSession m = m\<lparr>drmSessionContexts :=
     map2 (\<lambda>k c. if isFailedKeyId k \<or> forceClearSession then c\<lparr>sc_session := None\<rparr> else c)
       (cachedKeyIDs m) (drmSessionContexts m)\<rparr>"

definition UpdateMaxDRMSessions :: "nat \<Rightarrow> manager \<Rightarrow> manager" where
  "UpdateMaxDRMSessions maxSessions m =
     (if mMaxDRMSessions m \<noteq> maxSessions
      then (clearSessionData m)\<lparr>mMaxDRMSessions := maxSessions,
        drmSessionContexts := replicate maxSessions DrmSessionContext, cachedKeyIDs := replicate maxSessions KeyID\<rparr>
      else m)"

section \<open>Watermark\<close>

definition csm :: "csm_call \<Rightarrow> manager \<Rightarrow> manager" where
  "csm c m = m\<lparr>csm_calls := csm_calls m @ [c]\<rparr>"

definition setVideoWindowSize :: "int \<Rightarrow> int \<Rightarrow> manager \<Rightarrow> manager" where
  "setVideoWindowSize width height m =
     (case mContentSecurityManagerSession m of None \<Rightarrow> m | Some sid \<Rightarrow> csm (VideoWindowSize sid width height) m)"

definition setPlaybackSpeedState :: "bool \<Rightarrow> real \<Rightarrow> int \<Rightarrow> real \<Rightarrow> bool \<Rightarrow> manager \<Rightarrow> manager" where
  "setPlaybackSpeedState live currentLatency speed positionMs firstFrameSeen m0 =
     (let m = m0\<lparr>mCurrentSpeed := speed, mFirstFrameSeen := firstFrameSeen \<or> mFirstFrameSeen m0\<rparr> in
      case mContentSecurityManagerSession m of
        None \<Rightarrow> m
      | Some sid \<Rightarrow>
          if \<not> mIsVideoOnMute m \<and> mFirstFrameSeen m
          then csm (PlaybackSpeedState sid speed (if live then - currentLatency else positionMs)) m
          else m)"

definition setVideoMute :: "bool \<Rightarrow> real \<Rightarrow> bool \<Rightarrow> real \<Rightarrow> manager \<Rightarrow> manager" where
  "setVideoMute live currentLatency isVideoOnMute positionMs m0 =
     (let m = m0\<lparr>mIsVideoOnMute := isVideoOnMute\<rparr> in
      case mContentSecurityManagerSession m of
        None \<Rightarrow> m
      | Some sid \<Rightarrow>
          let m' = csm (UpdateSessionState sid (\<not> isVideoOnMute)) m in
          if \<not> isVideoOnMute then setPlaybackSpeedState live currentLatency (mCurrentSpeed m') positionMs False m' else m')"

definition hideWatermarkOnDetach :: "manager \<Rightarrow> manager" where
  "hideWatermarkOnDetach m =
     (case mContentSecurityManagerSession m of None \<Rightarrow> m | Some sid \<Rightarrow> csm (UpdateSessionState sid False) m)
       \<lparr>mFirstFrameSeen := False\<rparr>"

definition notifyCleanup :: "manager \<Rightarrow> manager" where
  "notifyCleanup m =
     (case mContentSecurityManagerSession m of
        None \<Rightarrow> m
      | Some sid \<Rightarrow> (csm (UpdateSessionState sid False) m)\<lparr>mContentSecurityManagerSession := None, mCurrentSpeed := 0,
          mFirstFrameSeen := False\<rparr>)"

text \<open>\<open>find_from pat s p\<close> is \<^verbatim>\<open>s.find(pat, p)\<close>.\<close>

definition find_from :: "string \<Rightarrow> string \<Rightarrow> nat \<Rightarrow> nat option" where
  "find_from pat s p = (if p \<le> length s then map_option ((+) p) (find_str pat (drop p s)) else None)"

definition extractSubstring :: "string \<Rightarrow> string \<Rightarrow> string \<Rightarrow> string" where
  "extractSubstring parentStr startStr endStr =
     (case find_str startStr parentStr of
        None \<Rightarrow> []
      | Some startPos \<Rightarrow>
          let offset = length (cstr startStr) in
          (case find_from endStr parentStr (startPos + offset + 1) of
             None \<Rightarrow> []
           | Some endPos \<Rightarrow> take (endPos - (startPos + offset)) (drop (startPos + offset) parentStr)))"

section \<open>Sessions\<close>

datatype session_class = ClearKeySession_class | OCDMBasicSessionAdapter | OCDMGSTSessionAdapter

definition session_class_of :: "bool \<Rightarrow> bool \<Rightarrow> helper \<Rightarrow> session_class option" where
  "session_class_of USE_OPENCDM_ADAPTER USE_CLEARKEY h =
     (if USE_OPENCDM_ADAPTER then
        if isClearDecrypt h then
          if USE_CLEARKEY \<and> ocdmSystemId h = CLEARKEY_OCDM_ID then Some ClearKeySession_class else Some OCDMBasicSessionAdapter
        else Some OCDMGSTSessionAdapter
      else if ocdmSystemId h = CLEARKEY_OCDM_ID \<and> USE_CLEARKEY then Some ClearKeySession_class
      else None)"

text \<open>\<open>new_session\<close> is the constructor of a class, \<open>waitForState\<close> waits for a ready key, \<open>generate_session\<close> is the virtual function
  \<^verbatim>\<open>generateDRMSession\<close> with init data and custom data, \<open>AcquireLicenseCb\<close> and \<open>ContentUpdateCb\<close> are the callbacks of the
  player; the former gives the key state, the session and the security session afterwards.\<close>

record ('j, 'd) dsm_env =
  use_opencdm :: bool
  use_clearkey :: bool
  json :: "('j, 'd) cjson"
  new_session :: "session_class \<Rightarrow> helper \<Rightarrow> drm_session"
  waitForState :: "drm_session \<Rightarrow> bool \<times> drm_session"
  generate_session :: "drm_session \<Rightarrow> byte list \<Rightarrow> string \<Rightarrow> drm_session"
  AcquireLicenseCb :: "helper \<Rightarrow> nat \<Rightarrow> drm_session \<Rightarrow> key_state \<times> drm_session \<times> int option"
  ContentUpdateCb :: "helper \<Rightarrow> byte list \<Rightarrow> int \<Rightarrow> string"

definition GetDrmSession :: "('j, 'd) dsm_env \<Rightarrow> helper \<Rightarrow> drm_session option" where
  "GetDrmSession env h = map_option (\<lambda>c. new_session env c h) (session_class_of (use_opencdm env) (use_clearkey env) h)"

datatype drm_err = MW_FAILED_TO_GET_KEYID | MW_DRM_INIT_FAILED | MW_DRM_SESSIONID_EMPTY | MW_DRM_DATA_BIND_FAILED
  | MW_CORRUPT_DRM_METADATA

section \<open>Slots\<close>

fun first_index :: "('a \<Rightarrow> bool) \<Rightarrow> 'a list \<Rightarrow> nat option" where
  "first_index P [] = None"
| "first_index P (x # xs) = (if P x then Some 0 else map_option Suc (first_index P xs))"

definition key_slot_of :: "byte list \<Rightarrow> key_slot list \<Rightarrow> nat option" where
  "key_slot_of keyId slots = first_index (\<lambda>k. keyId \<in> set (kd_data k)) slots"

definition IsKeyIdProcessed :: "byte list \<Rightarrow> bool \<Rightarrow> manager \<Rightarrow> bool \<times> bool" where
  "IsKeyIdProcessed keyId status m =
     (case key_slot_of keyId (cachedKeyIDs m) of
        None \<Rightarrow> (False, status)
      | Some slot \<Rightarrow> (True, \<not> isFailedKeyId (cachedKeyIDs m ! slot)))"

text \<open>The first slot that is not primary, and then the first of the oldest of the slots from there on.\<close>

definition oldest_from :: "key_slot list \<Rightarrow> nat \<Rightarrow> nat" where
  "oldest_from slots start =
     fold (\<lambda>i s. if creationTime (slots ! i) < creationTime (slots ! s) then i else s) [start + 1..<length slots] start"

definition free_slot :: "key_slot list \<Rightarrow> nat option" where
  "free_slot slots = map_option (oldest_from slots) (first_index (\<lambda>k. \<not> isPrimaryKeyId k) slots)"

definition update_key :: "nat \<Rightarrow> (key_slot \<Rightarrow> key_slot) \<Rightarrow> manager \<Rightarrow> manager" where
  "update_key i f m = m\<lparr>cachedKeyIDs := (cachedKeyIDs m)[i := f (cachedKeyIDs m ! i)]\<rparr>"

definition update_context :: "nat \<Rightarrow> (session_context \<Rightarrow> session_context) \<Rightarrow> manager \<Rightarrow> manager" where
  "update_context i f m = m\<lparr>drmSessionContexts := (drmSessionContexts m)[i := f (drmSessionContexts m ! i)]\<rparr>"

definition mark_failed :: "nat \<Rightarrow> manager \<Rightarrow> manager" where
  "mark_failed i = update_key i (\<lambda>k. k\<lparr>isFailedKeyId := True\<rparr>)"

record drm_outcome =
  oc_code :: key_state
  oc_err :: "drm_err option"
  oc_slot :: "nat option"
  oc_helper :: helper
  oc_manager :: manager

section \<open>Getting a session\<close>

text \<open>The three parts of \<open>getDrmSession\<close>: the slot with its cached key ids, a new session for the slot, and the
  session that is there.\<close>

definition select_slot :: "int \<Rightarrow> bool \<Rightarrow> helper \<Rightarrow> manager \<Rightarrow> (nat \<times> manager) option" where
  "select_slot now isPrimarySession h m =
     (let keyId = getKey h [];
          keyIds = (if getKeys h = [] then [keyId] else getKeys h);
          touch = (\<lambda>k. k\<lparr>creationTime := now, isPrimaryKeyId := isPrimarySession\<rparr>)
      in case key_slot_of keyId (cachedKeyIDs m) of
           Some slot \<Rightarrow>
             if isFailedKeyId (cachedKeyIDs m ! slot) then None
             else Some (slot, update_key slot touch m)
         | None \<Rightarrow>
             map_option (\<lambda>slot. (slot, update_key slot (\<lambda>k. touch (k\<lparr>kd_data := keyIds, isFailedKeyId := False\<rparr>)) m))
               (free_slot (cachedKeyIDs m)))"

definition create_in_slot :: "('j, 'd) dsm_env \<Rightarrow> nat \<Rightarrow> drm_err option \<Rightarrow> helper \<Rightarrow> manager \<Rightarrow> drm_outcome res" where
  "create_in_slot env slot err h m =
     (let keyId = getKey h [] in
      case GetDrmSession env h of
        None \<Rightarrow>
          if use_opencdm env then Inl NullDeref
          else Inr \<lparr>oc_code = KEY_ERROR, oc_err = Some MW_DRM_INIT_FAILED, oc_slot = Some slot, oc_helper = h,
            oc_manager = update_context slot (\<lambda>c. c\<lparr>sc_session := None\<rparr>) m\<rparr>
      | Some ds \<Rightarrow>
          let protect = (ocdmSystemId h = PLAYREADY_OCDM_ID \<and> mEnablePROutputProtection (config m));
              ds1 = (if protect then ds\<lparr>ds_outputProtection := True\<rparr> else ds);
              ds2 = (if use_opencdm env then ds1\<lparr>ds_keyId := keyId\<rparr> else ds1)
          in Inr \<lparr>oc_code = ds_state ds, oc_err = err, oc_slot = Some slot,
               oc_helper = (if protect then h\<lparr>bOutputProtectionEnabled := True\<rparr> else h),
               oc_manager = update_context slot (\<lambda>c. c\<lparr>sc_data := keyId, sc_session := Some ds2\<rparr>) m\<rparr>)"

definition getDrmSession ::
  "('j, 'd) dsm_env \<Rightarrow> int \<Rightarrow> bool \<Rightarrow> drm_err option \<Rightarrow> helper \<Rightarrow> manager \<Rightarrow> drm_outcome res" where
  "getDrmSession env now isPrimarySession err h m0 =
     (let reply = (\<lambda>code err slot m. Inr \<lparr>oc_code = code, oc_err = err, oc_slot = slot, oc_helper = h, oc_manager = m\<rparr>) in
      if getKey h [] = [] then reply KEY_ERROR (Some MW_FAILED_TO_GET_KEYID) None m0
      else case select_slot now isPrimarySession h m0 of
        None \<Rightarrow> reply KEY_ERROR err None m0
      | Some (slot, m) \<Rightarrow>
          let ctx = drmSessionContexts m ! slot in
          (case sc_session ctx of
             None \<Rightarrow> create_in_slot env slot err h m
           | Some ds \<Rightarrow>
               if ocdmSystemId h \<noteq> ds_keySystem ds \<or> sc_data ctx \<notin> set (kd_data (cachedKeyIDs m ! slot))
               then create_in_slot env slot err h m
               else
                 (case ds_state ds of
                    KEY_READY \<Rightarrow>
                      (case ds_sec ds of
                         Some sid \<Rightarrow>
                           if mContentSecurityManagerSession m = None
                           then reply KEY_READY err (Some slot)
                             (csm (UpdateSessionState sid True) (m\<lparr>mContentSecurityManagerSession := Some sid\<rparr>))
                           else reply KEY_READY err (Some slot) m
                       | None \<Rightarrow> reply KEY_READY err (Some slot) m)
                  | KEY_INIT \<Rightarrow> reply KEY_INIT err (Some slot) m
                  | KEY_PENDING \<Rightarrow>
                      let (ok, ds') = waitForState env ds;
                          m' = update_context slot (\<lambda>c. c\<lparr>sc_session := Some ds'\<rparr>) m
                      in if ok then reply KEY_READY err (Some slot) m' else reply KEY_ERROR err (Some slot) (mark_failed slot m')
                  | _ \<Rightarrow> reply KEY_ERROR err (Some slot) (mark_failed slot m))))"

definition initializeDrmSession ::
  "('j, 'd) dsm_env \<Rightarrow> helper \<Rightarrow> nat \<Rightarrow> drm_err option \<Rightarrow> manager \<Rightarrow> (key_state \<times> drm_err option \<times> manager) res" where
  "initializeDrmSession env h slot err m =
     bindE (createInitData (json env) h []) (\<lambda>drmInitData.
     case sc_session (drmSessionContexts m ! slot) of
       None \<Rightarrow> Inl NullDeref
     | Some ds \<Rightarrow>
         let ds' = generate_session env ds drmInitData (mCustomData m); code = ds_state ds'
         in Inr (code,
              if code = KEY_INIT then err
              else if code = KEY_ERROR_EMPTY_SESSION_ID then Some MW_DRM_SESSIONID_EMPTY
              else Some MW_DRM_DATA_BIND_FAILED,
              update_context slot (\<lambda>c. c\<lparr>sc_session := Some ds'\<rparr>) m))"

text \<open>The result is the slot of the session, or none for the null pointer, with the error code and the state.\<close>

definition acquire ::
  "('j, 'd) dsm_env \<Rightarrow> helper \<Rightarrow> nat \<Rightarrow> drm_err option \<Rightarrow> manager \<Rightarrow> (nat option \<times> drm_err option \<times> manager) res" where
  "acquire env h slot err m =
     (case sc_session (drmSessionContexts m ! slot) of
        None \<Rightarrow> Inl NullDeref
      | Some ds \<Rightarrow>
          let (code, ds', sid) = AcquireLicenseCb env h slot ds;
              m' = (update_context slot (\<lambda>c. c\<lparr>sc_session := Some ds'\<rparr>) m)\<lparr>mContentSecurityManagerSession := sid\<rparr>
          in if code \<noteq> KEY_READY then Inr (None, err, mark_failed slot m')
             else if sid \<noteq> None
             then Inr (Some slot, err, update_context slot (\<lambda>c. c\<lparr>sc_session := Some (ds'\<lparr>ds_sec := sid\<rparr>)\<rparr>) m')
             else Inr (Some slot, err, m'))"

definition createDrmSession ::
  "('j, 'd) dsm_env \<Rightarrow> int \<Rightarrow> drm_err option \<Rightarrow> helper option \<Rightarrow> bool \<Rightarrow> manager
    \<Rightarrow> (nat option \<times> drm_err option \<times> manager) res" where
  "createDrmSession env now err drmHelper has_instance m0 =
     (case drmHelper of
        None \<Rightarrow> Inr (None, err, m0)
      | Some h0 \<Rightarrow>
          if \<not> has_instance \<or> \<not> sessionMgrActive m0 then Inr (None, err, m0)
          else
            bindE (getDrmSession env now False err h0 m0) (\<lambda>oc.
            let code = oc_code oc; h = oc_helper oc;
                unusable = (code \<noteq> KEY_INIT \<or> oc_slot oc = None);
                m = (oc_manager oc)\<lparr>mCustomData :=
                  ContentUpdateCb env h (getKey h []) (if code = KEY_READY \<or> unusable then 0 else - 1)\<rparr>
            in case oc_slot oc of
                 None \<Rightarrow> Inr (None, oc_err oc, m)
               | Some slot \<Rightarrow>
                   if code = KEY_READY then Inr (Some slot, oc_err oc, m)
                   else if code \<noteq> KEY_INIT then Inr (None, oc_err oc, m)
                   else
                     bindE (initializeDrmSession env h slot (oc_err oc) m) (\<lambda>(code', err', m').
                     if code' \<noteq> KEY_INIT \<or> mIsFakeTune (config m') then Inr (None, err', mark_failed slot m')
                     else acquire env h slot err' m')))"

text \<open>The public entry with protection data. Its argument \<^verbatim>\<open>isPrimarySession\<close> is not passed on.\<close>

definition createDrmSession_pssh ::
  "('j, 'd) dsm_env \<Rightarrow> int \<Rightarrow> factory list \<Rightarrow> (byte list \<Rightarrow> string) \<Rightarrow> drm_err option \<Rightarrow> string \<Rightarrow> media_format \<Rightarrow> mem
    \<Rightarrow> string option \<Rightarrow> bool \<Rightarrow> bool \<Rightarrow> manager \<Rightarrow> (nat option \<times> drm_err option \<times> manager) res" where
  "createDrmSession_pssh env now factories uuid_unparse err systemId format initd contentMetadata has_player isPrimarySession m =
     (let drmInfo = DrmInfo\<lparr>di_method := eMETHOD_AES_128, mediaFormat := format, systemUUID := systemId,
                      bPropagateUriParams := mPropagateURIParam (config m)\<rparr>
      in if \<not> hasDRM factories drmInfo then Inr (None, err, m)
         else (case createHelper factories drmInfo of
             None \<Rightarrow> Inl NullDeref
           | Some h0 \<Rightarrow>
               let h = (case contentMetadata of None \<Rightarrow> h0 | Some d \<Rightarrow> setDrmMetaData (cstr d) h0) in
               bindE (parsePssh uuid_unparse (\<lambda>_. True) initd h) (\<lambda>(ok, h').
               if \<not> ok then Inr (None, Some MW_CORRUPT_DRM_METADATA, m)
               else createDrmSession env now err (Some h') has_player m)))"

end
