(* ===== verification/Drm_Manager_Props.thy ===== *)
theory Drm_Manager_Props
  imports Drm_Session_Manager
begin

text \<open>
  Properties of the DRM session manager: the tables keep their size and no slot is ever primary, a key id is cached
  in one slot only, which slot is evicted, what becomes of key ids that failed or succeeded, and when the security
  manager is told about the playback speed.
\<close>

section \<open>What the operations do to the cached key ids\<close>

definition key_data :: "manager \<Rightarrow> byte list list list" where
  "key_data m = map kd_data (cachedKeyIDs m)"

definition primaries :: "manager \<Rightarrow> bool list" where
  "primaries m = map isPrimaryKeyId (cachedKeyIDs m)"

text \<open>\<open>same_keys\<close>: the same key ids in the same slots and tables of the same size.\<close>

definition same_keys :: "manager \<Rightarrow> manager \<Rightarrow> bool" where
  "same_keys m m' \<longleftrightarrow> key_data m' = key_data m \<and> primaries m' = primaries m
     \<and> length (drmSessionContexts m') = length (drmSessionContexts m) \<and> mMaxDRMSessions m' = mMaxDRMSessions m
     \<and> sessionMgrActive m' = sessionMgrActive m"

named_theorems same_intros

lemma same_refl [simp, same_intros]: "same_keys m m"
  by (simp add: same_keys_def)

lemma same_trans: "same_keys a b \<Longrightarrow> same_keys b c \<Longrightarrow> same_keys a c"
  by (simp add: same_keys_def)

lemma same_update_context [same_intros]: "same_keys m m' \<Longrightarrow> same_keys m (update_context i f m')"
  by (simp add: same_keys_def update_context_def key_data_def primaries_def)

lemma same_mark_failed [same_intros]: "same_keys m m' \<Longrightarrow> same_keys m (mark_failed i m')"
proof -
  have "map g (cachedKeyIDs (mark_failed i m')) = map g (cachedKeyIDs m')"
    if "\<And>k. g (k\<lparr>isFailedKeyId := True\<rparr>) = g k" for g :: "key_slot \<Rightarrow> 'x"
    using that by (cases "i < length (cachedKeyIDs m')") (simp_all add: mark_failed_def update_key_def map_update list_update_same_conv list_update_beyond)
  from this [of kd_data] this [of isPrimaryKeyId]
  show "same_keys m m' \<Longrightarrow> same_keys m (mark_failed i m')"
    by (simp add: same_keys_def key_data_def primaries_def) (simp add: mark_failed_def update_key_def)
qed

lemma same_csm [same_intros]: "same_keys m m' \<Longrightarrow> same_keys m (csm c m')"
  by (simp add: same_keys_def csm_def key_data_def primaries_def)

lemma same_fields [same_intros]:
  "same_keys m m' \<Longrightarrow> same_keys m (m'\<lparr>mContentSecurityManagerSession := s\<rparr>)"
  "same_keys m m' \<Longrightarrow> same_keys m (m'\<lparr>mCustomData := c\<rparr>)"
  "same_keys m m' \<Longrightarrow> same_keys m (m'\<lparr>mCurrentSpeed := n\<rparr>)"
  "same_keys m m' \<Longrightarrow> same_keys m (m'\<lparr>mFirstFrameSeen := b\<rparr>)"
  "same_keys m m' \<Longrightarrow> same_keys m (m'\<lparr>mIsVideoOnMute := b\<rparr>)"
  by (simp_all add: same_keys_def key_data_def primaries_def)

lemma same_create_in_slot: "create_in_slot env slot err h m = Inr oc \<Longrightarrow> same_keys m (oc_manager oc) \<and> oc_slot oc = Some slot"
  by (auto simp: create_in_slot_def Let_def intro!: same_intros split: option.splits if_splits)

lemma getDrmSession_cases:
  assumes "getDrmSession env now p err h m = Inr oc"
  shows "oc_slot oc = None \<and> oc_manager oc = m \<and> oc_code oc = KEY_ERROR
    \<or> (\<exists>slot m1. select_slot now p h m = Some (slot, m1) \<and> oc_slot oc = Some slot \<and> same_keys m1 (oc_manager oc))"
  using assms same_create_in_slot [of env _ err h]
  by (auto simp: getDrmSession_def Let_def intro!: same_intros split: if_splits option.splits prod.splits key_state.splits)

lemma same_initialize: "initializeDrmSession env h slot err m = Inr (c, e, m') \<Longrightarrow> same_keys m m'"
  by (auto simp: initializeDrmSession_def Let_def bindE_eq_Inr intro!: same_intros split: option.splits)

lemma same_acquire: "acquire env h slot err m = Inr (r, e, m') \<Longrightarrow> same_keys m m' \<and> (r = None \<or> r = Some slot)"
  by (auto simp: acquire_def Let_def intro!: same_intros split: option.splits prod.splits if_splits)

lemma createDrmSession_keys:
  assumes "createDrmSession env now err dh inst m = Inr (r, e, m')"
  shows "same_keys m m' \<and> r = None
    \<or> (\<exists>h slot m1. dh = Some h \<and> select_slot now False h m = Some (slot, m1) \<and> same_keys m1 m' \<and> (r = None \<or> r = Some slot))"
proof (cases "\<exists>h. dh = Some h \<and> inst \<and> sessionMgrActive m")
  case False
  then show ?thesis using assms by (auto simp: createDrmSession_def split: option.splits if_splits)
next
  case True
  then obtain h oc where h: "dh = Some h" and oc: "getDrmSession env now False err h m = Inr oc"
    using assms by (auto simp: createDrmSession_def bindE_eq_Inr)
  let ?m = "\<lambda>d. (oc_manager oc)\<lparr>mCustomData := d\<rparr>"
  show ?thesis
    using getDrmSession_cases [OF oc]
  proof (elim disjE exE conjE)
    assume "oc_slot oc = None" "oc_manager oc = m"
    then show ?thesis using assms oc True h
      by (auto simp: createDrmSession_def Let_def intro!: same_intros)
  next
    fix slot m1 assume s: "select_slot now False h m = Some (slot, m1)" "oc_slot oc = Some slot" "same_keys m1 (oc_manager oc)"
    have "same_keys m1 m' \<and> (r = None \<or> r = Some slot)"
      using assms oc True h s(2,3)
      by (auto simp: createDrmSession_def Let_def bindE_eq_Inr intro!: same_intros split: if_splits
          dest!: same_initialize same_acquire intro: same_trans)
    then show ?thesis using h s(1) by blast
  qed
qed

section \<open>Slots\<close>

lemma first_index_Some: "first_index P xs = Some i \<Longrightarrow> i < length xs \<and> P (xs ! i) \<and> (\<forall>j < i. \<not> P (xs ! j))"
proof (induction xs arbitrary: i)
  case (Cons x xs)
  show ?case
  proof (cases "P x")
    case False
    then obtain k where k: "i = Suc k" "first_index P xs = Some k" using Cons.prems by auto
    then show ?thesis using Cons.IH [OF k(2)] False by (auto simp: less_Suc_eq_0_disj)
  qed (use Cons.prems in auto)
qed simp

lemma first_index_None: "first_index P xs = None \<longleftrightarrow> (\<forall>x \<in> set xs. \<not> P x)"
  by (induction xs) auto

lemma first_index_eq: "i < length xs \<Longrightarrow> P (xs ! i) \<Longrightarrow> (\<And>j. j < length xs \<Longrightarrow> P (xs ! j) \<Longrightarrow> j = i) \<Longrightarrow> first_index P xs = Some i"
  by (metis first_index_None first_index_Some nth_mem option.exhaust)

text \<open>The scan gives the oldest slot from the start on, the first of them if there are several.\<close>

lemma oldest_scan:
  assumes "s = fold (\<lambda>i s. if creationTime (slots ! i) < creationTime (slots ! s) then i else s) [start + 1..<n] start" and "start < n"
  shows "start \<le> s \<and> s < n \<and> (\<forall>j. start \<le> j \<and> j < n \<longrightarrow> creationTime (slots ! s) \<le> creationTime (slots ! j))
    \<and> (\<forall>j. start \<le> j \<and> j < s \<longrightarrow> creationTime (slots ! s) < creationTime (slots ! j))"
  using assms
proof (induction n arbitrary: s)
  case (Suc n)
  show ?case
  proof (cases "start < n")
    case False
    then have "start = n" using Suc.prems(2) by simp
    then show ?thesis using Suc.prems(1) by (auto simp: le_less_Suc_eq)
  next
    case True
    let ?t = "fold (\<lambda>i s. if creationTime (slots ! i) < creationTime (slots ! s) then i else s) [start + 1..<n] start"
    have t: "start \<le> ?t" "?t < n" "\<forall>j. start \<le> j \<and> j < n \<longrightarrow> creationTime (slots ! ?t) \<le> creationTime (slots ! j)"
      "\<forall>j. start \<le> j \<and> j < ?t \<longrightarrow> creationTime (slots ! ?t) < creationTime (slots ! j)"
      using Suc.IH [OF refl True] by blast+
    have s: "s = (if creationTime (slots ! n) < creationTime (slots ! ?t) then n else ?t)"
      using Suc.prems(1) True by simp
    show ?thesis
    proof (cases "creationTime (slots ! n) < creationTime (slots ! ?t)")
      case True
      then show ?thesis using s t by (auto simp: less_Suc_eq)
    next
      case False
      then show ?thesis using s t by (auto simp: less_Suc_eq)
    qed
  qed
qed simp

lemma oldest_from_least:
  assumes "start < length slots" and "s = oldest_from slots start"
  shows "start \<le> s \<and> s < length slots
    \<and> (\<forall>j. start \<le> j \<and> j < length slots \<longrightarrow> creationTime (slots ! s) \<le> creationTime (slots ! j))
    \<and> (\<forall>j. start \<le> j \<and> j < s \<longrightarrow> creationTime (slots ! s) < creationTime (slots ! j))"
  using oldest_scan [of s slots start "length slots"] assms by (simp add: oldest_from_def)

lemma key_slot_ofD:
  "key_slot_of k slots = Some s \<Longrightarrow> s < length slots \<and> k \<in> set (kd_data (slots ! s))"
  unfolding key_slot_of_def by (drule first_index_Some) simp


lemma free_slot_less: "free_slot slots = Some s \<Longrightarrow> s < length slots"
  using oldest_from_least [OF _ refl] by (auto simp: free_slot_def dest!: first_index_Some)

text \<open>The key ids that a helper caches.\<close>

definition helper_keys :: "helper \<Rightarrow> byte list list" where
  "helper_keys h = (if getKeys h = [] then [getKey h []] else getKeys h)"

lemma getKey_in_keys: "getKey h [] \<in> set (helper_keys h)"
  by (cases "h_class h") (auto simp: helper_keys_def getKey_def getKeys_def)

lemma select_slot_cases:
  assumes "select_slot now p h m = Some (slot, m1)"
  obtains (cached) "key_slot_of (getKey h []) (cachedKeyIDs m) = Some slot" "\<not> isFailedKeyId (cachedKeyIDs m ! slot)"
      "m1 = update_key slot (\<lambda>k. k\<lparr>creationTime := now, isPrimaryKeyId := p\<rparr>) m" "slot < length (cachedKeyIDs m)"
    | (evict) "key_slot_of (getKey h []) (cachedKeyIDs m) = None" "free_slot (cachedKeyIDs m) = Some slot"
      "m1 = update_key slot (\<lambda>k. k\<lparr>kd_data := helper_keys h, isFailedKeyId := False, creationTime := now, isPrimaryKeyId := p\<rparr>) m"
      "slot < length (cachedKeyIDs m)"
  using assms key_slot_ofD free_slot_less
  by (auto simp: select_slot_def Let_def helper_keys_def split: option.splits if_splits)

lemma update_key_parts:
  assumes "i < length (cachedKeyIDs m)"
  shows "key_data (update_key i f m) = (key_data m)[i := kd_data (f (cachedKeyIDs m ! i))]"
    "primaries (update_key i f m) = (primaries m)[i := isPrimaryKeyId (f (cachedKeyIDs m ! i))]"
    "drmSessionContexts (update_key i f m) = drmSessionContexts m" "mMaxDRMSessions (update_key i f m) = mMaxDRMSessions m"
    "sessionMgrActive (update_key i f m) = sessionMgrActive m"
  by (simp_all add: update_key_def key_data_def primaries_def map_update)

lemma select_slot_parts:
  assumes "select_slot now p h m = Some (slot, m1)"
  shows "slot < length (cachedKeyIDs m)" "primaries m1 = (primaries m)[slot := p]" "drmSessionContexts m1 = drmSessionContexts m"
    "mMaxDRMSessions m1 = mMaxDRMSessions m" "length (cachedKeyIDs m1) = length (cachedKeyIDs m)"
    "key_data m1 = (if key_slot_of (getKey h []) (cachedKeyIDs m) = None then (key_data m)[slot := helper_keys h] else key_data m)"
    "sessionMgrActive m1 = sessionMgrActive m"
proof -
  have id: "(map f xs)[i := f (xs ! i)] = map f xs" for f :: "key_slot \<Rightarrow> 'x" and xs i
    by (metis list_update_id map_update)
  have "slot < length (cachedKeyIDs m) \<and> primaries m1 = (primaries m)[slot := p] \<and> drmSessionContexts m1 = drmSessionContexts m
    \<and> mMaxDRMSessions m1 = mMaxDRMSessions m \<and> length (cachedKeyIDs m1) = length (cachedKeyIDs m)
    \<and> key_data m1 = (if key_slot_of (getKey h []) (cachedKeyIDs m) = None then (key_data m)[slot := helper_keys h] else key_data m)
    \<and> sessionMgrActive m1 = sessionMgrActive m"
    using assms
  proof (cases rule: select_slot_cases)
    case cached
    have "length (cachedKeyIDs m1) = length (cachedKeyIDs m)" using cached(3) by (simp add: update_key_def)
    then show ?thesis using cached by (simp add: update_key_parts) (simp add: key_data_def id)
  next
    case evict
    have "length (cachedKeyIDs m1) = length (cachedKeyIDs m)" using evict(3) by (simp add: update_key_def)
    then show ?thesis using evict by (simp add: update_key_parts)
  qed
  then show "slot < length (cachedKeyIDs m)" "primaries m1 = (primaries m)[slot := p]" "drmSessionContexts m1 = drmSessionContexts m"
    "mMaxDRMSessions m1 = mMaxDRMSessions m" "length (cachedKeyIDs m1) = length (cachedKeyIDs m)"
    "key_data m1 = (if key_slot_of (getKey h []) (cachedKeyIDs m) = None then (key_data m)[slot := helper_keys h] else key_data m)"
    "sessionMgrActive m1 = sessionMgrActive m"
    by blast+
qed

section \<open>Reachable states\<close>

text \<open>Any call of the player, with any environment of \<open>E\<close>, time and arguments; \<open>P\<close> restricts the helpers.\<close>

inductive mgr_step :: "(helper \<Rightarrow> bool) \<Rightarrow> ('j, 'd) dsm_env set \<Rightarrow> manager \<Rightarrow> manager \<Rightarrow> bool" for P E where
  ms_config: "mgr_step P E m (UpdateDRMConfig a b c d e m)"
| ms_clear: "mgr_step P E m (clearSessionData m)"
| ms_state: "mgr_step P E m (setSessionMgrState b m)"
| ms_failed: "mgr_step P E m (clearFailedKeyIds m)"
| ms_token: "mgr_step P E m (clearAccessToken m)"
| ms_drm: "mgr_step P E m (clearDrmSession b m)"
| ms_max: "mgr_step P E m (UpdateMaxDRMSessions n m)"
| ms_window: "mgr_step P E m (setVideoWindowSize w ht m)"
| ms_speed: "mgr_step P E m (setPlaybackSpeedState live lat speed pos first m)"
| ms_mute: "mgr_step P E m (setVideoMute live lat mute pos m)"
| ms_hide: "mgr_step P E m (hideWatermarkOnDetach m)"
| ms_notify: "mgr_step P E m (notifyCleanup m)"
| ms_create: "(\<And>h. dh = Some h \<Longrightarrow> P h) \<Longrightarrow> env \<in> E \<Longrightarrow> createDrmSession env now err dh inst m = Inr (r, e, m') \<Longrightarrow> mgr_step P E m m'"
| ms_pssh: "(\<And>h. P h) \<Longrightarrow> env \<in> E \<Longrightarrow> createDrmSession_pssh env now fs uuid err sid format initd meta player primary m = Inr (r, e, m')
    \<Longrightarrow> mgr_step P E m m'"

inductive_cases mgr_stepE: "mgr_step P E m m'"

lemma createDrmSession_pssh_is:
  assumes "createDrmSession_pssh env now fs uuid err sid format initd meta player primary m = Inr (r, e, m')"
  shows "m' = m \<or> (\<exists>h. createDrmSession env now err (Some h) player m = Inr (r, e, m'))"
  using assms by (auto simp: createDrmSession_pssh_def Let_def bindE_eq_Inr split: if_splits option.splits)

text \<open>Every step keeps the cached keys, empties slots, starts anew, or selects a slot for a helper.\<close>

definition fewer_keys :: "manager \<Rightarrow> manager \<Rightarrow> bool" where
  "fewer_keys m m' \<longleftrightarrow> length (cachedKeyIDs m') = length (cachedKeyIDs m) \<and> length (drmSessionContexts m') = length (drmSessionContexts m)
     \<and> mMaxDRMSessions m' = mMaxDRMSessions m
     \<and> (\<forall>i < length (cachedKeyIDs m). (kd_data (cachedKeyIDs m' ! i) = [] \<or> kd_data (cachedKeyIDs m' ! i) = kd_data (cachedKeyIDs m ! i))
          \<and> (isPrimaryKeyId (cachedKeyIDs m' ! i) \<longrightarrow> isPrimaryKeyId (cachedKeyIDs m ! i)))"

definition fresh_tables :: "manager \<Rightarrow> bool" where
  "fresh_tables m \<longleftrightarrow> cachedKeyIDs m = replicate (mMaxDRMSessions m) KeyID \<and> length (drmSessionContexts m) = mMaxDRMSessions m"

lemma same_fewer: "same_keys m m' \<Longrightarrow> fewer_keys m m'"
  unfolding same_keys_def fewer_keys_def key_data_def primaries_def
  by (metis length_map nth_map)

lemma same_watermark:
  "same_keys m (setVideoWindowSize w ht m)" "same_keys m (setPlaybackSpeedState live lat speed pos first m)"
  "same_keys m (setVideoMute live lat mute pos m)" "same_keys m (hideWatermarkOnDetach m)" "same_keys m (notifyCleanup m)"
  by (auto simp: setVideoWindowSize_def setPlaybackSpeedState_def setVideoMute_def hideWatermarkOnDetach_def notifyCleanup_def
      Let_def intro!: same_intros split: option.split)

lemma fewer_clears:
  "fewer_keys m (UpdateDRMConfig a b c d e m)" "fewer_keys m (clearSessionData m)" "fewer_keys m (setSessionMgrState s m)"
  "fewer_keys m (clearFailedKeyIds m)" "fewer_keys m (clearAccessToken m)"
  "length (cachedKeyIDs m) = length (drmSessionContexts m) \<Longrightarrow> fewer_keys m (clearDrmSession f m)"
  by (simp_all add: fewer_keys_def UpdateDRMConfig_def clearSessionData_def setSessionMgrState_def clearFailedKeyIds_def
      clear_failed_def clearAccessToken_def clearDrmSession_def KeyID_def)

lemma mgr_step_effect:
  assumes "mgr_step P E m m'" and "length (cachedKeyIDs m) = length (drmSessionContexts m)"
  shows "fewer_keys m m' \<or> fresh_tables m' \<or> (\<exists>now h slot m1. P h \<and> select_slot now False h m = Some (slot, m1) \<and> same_keys m1 m')"
proof -
  have max: "fewer_keys m (UpdateMaxDRMSessions n m) \<or> fresh_tables (UpdateMaxDRMSessions n m)" for n
    by (simp add: UpdateMaxDRMSessions_def fresh_tables_def fewer_keys_def)
  show ?thesis
    using assms(1)
  proof cases
    case ms_create
    then show ?thesis using createDrmSession_keys [OF ms_create(3)] same_fewer by blast
  next
    case ms_pssh
    then show ?thesis
      using createDrmSession_pssh_is [OF ms_pssh(3)] createDrmSession_keys same_fewer same_refl by metis
  next
    case (ms_max n)
    then show ?thesis using max [of n] by blast
  qed (use fewer_clears assms(2) same_watermark same_fewer in auto)
qed

section \<open>Invariants\<close>

definition tables_ok :: "manager \<Rightarrow> bool" where
  "tables_ok m \<longleftrightarrow> length (cachedKeyIDs m) = mMaxDRMSessions m \<and> length (drmSessionContexts m) = mMaxDRMSessions m
     \<and> (\<forall>k \<in> set (cachedKeyIDs m). \<not> isPrimaryKeyId k)"

text \<open>No key id is cached in two slots.\<close>

definition keys_once :: "manager \<Rightarrow> bool" where
  "keys_once m \<longleftrightarrow> (\<forall>i j k. i < length (cachedKeyIDs m) \<longrightarrow> j < length (cachedKeyIDs m) \<longrightarrow>
     k \<in> set (kd_data (cachedKeyIDs m ! i)) \<longrightarrow> k \<in> set (kd_data (cachedKeyIDs m ! j)) \<longrightarrow> i = j)"

lemma tables_ok_iff:
  "tables_ok m \<longleftrightarrow> length (cachedKeyIDs m) = mMaxDRMSessions m \<and> length (drmSessionContexts m) = mMaxDRMSessions m
     \<and> (\<forall>i < length (cachedKeyIDs m). \<not> isPrimaryKeyId (cachedKeyIDs m ! i))"
  by (auto simp: tables_ok_def all_set_conv_all_nth)

lemma fewer_tables: "fewer_keys m m' \<Longrightarrow> tables_ok m \<Longrightarrow> tables_ok m'"
  by (auto simp: fewer_keys_def tables_ok_iff)


lemma fresh_tables_ok: "fresh_tables m \<Longrightarrow> tables_ok m \<and> keys_once m"
  by (auto simp: fresh_tables_def tables_ok_def keys_once_def KeyID_def)

lemma primaries_ok: "(\<forall>k \<in> set (cachedKeyIDs m). \<not> isPrimaryKeyId k) \<longleftrightarrow> True \<notin> set (primaries m)"
  by (auto simp: primaries_def)

lemma select_tables:
  assumes "select_slot now False h m = Some (slot, m1)" "tables_ok m"
  shows "tables_ok m1"
proof -
  note parts = select_slot_parts [OF assms(1)]
  have "True \<notin> set (primaries m)" using assms(2) by (simp add: tables_ok_def primaries_ok)
  then have "True \<notin> set (primaries m1)"
    unfolding parts(2) using set_update_subset_insert [of "primaries m" slot False] by auto
  then show ?thesis using assms(2) parts by (simp add: tables_ok_def primaries_ok)
qed



lemma mgr_step_tables: "mgr_step P E m m' \<Longrightarrow> tables_ok m \<Longrightarrow> tables_ok m'"
  using mgr_step_effect [of P E m m'] fewer_tables fresh_tables_ok select_tables same_fewer
  by (metis tables_ok_def)


lemma new_manager: "tables_ok (DrmSessionManager n) \<and> keys_once (DrmSessionManager n)"
  by (auto simp: DrmSessionManager_def tables_ok_def keys_once_def KeyID_def)

text \<open>Whatever the player calls, the tables of key ids and of sessions have the configured number of slots and no slot
  is marked as primary: a session that the player asks to be primary is not protected from eviction.\<close>

theorem manager_tables_ok:
  assumes "(mgr_step (\<lambda>_. True) E)\<^sup>*\<^sup>* (DrmSessionManager n) m"
  shows "tables_ok m"
  using assms by induction (use new_manager mgr_step_tables in blast)+


section \<open>Eviction\<close>

text \<open>A key id that is not cached goes to the slot that was used least recently, the first of them: its sessions
  and keys are the ones that are lost.\<close>

theorem oldest_slot_evicted:
  assumes "tables_ok m" and "key_slot_of (getKey h []) (cachedKeyIDs m) = None"
    and "select_slot now False h m = Some (slot, m1)"
  shows "slot < mMaxDRMSessions m \<and> key_data m1 = (key_data m)[slot := helper_keys h]
    \<and> (\<forall>j < mMaxDRMSessions m. creationTime (cachedKeyIDs m ! slot) \<le> creationTime (cachedKeyIDs m ! j)
        \<and> (j < slot \<longrightarrow> creationTime (cachedKeyIDs m ! slot) < creationTime (cachedKeyIDs m ! j)))"
proof -
  have len: "length (cachedKeyIDs m) = mMaxDRMSessions m" using assms(1) by (simp add: tables_ok_def)
  have free: "free_slot (cachedKeyIDs m) = Some slot"
    using assms(3) by (cases rule: select_slot_cases) (use assms(2) in auto)
  then obtain s where s: "first_index (\<lambda>k. \<not> isPrimaryKeyId k) (cachedKeyIDs m) = Some s"
    by (auto simp: free_slot_def)
  have "s = 0"
  proof (rule ccontr)
    assume "s \<noteq> 0"
    then have "isPrimaryKeyId (cachedKeyIDs m ! 0)" "0 < length (cachedKeyIDs m)" using first_index_Some [OF s] by auto
    then show False using assms(1) by (auto simp: tables_ok_iff)
  qed
  moreover have "slot = oldest_from (cachedKeyIDs m) s" using free s by (simp add: free_slot_def)
  ultimately show ?thesis
    using oldest_from_least [of 0 "cachedKeyIDs m" slot] select_slot_parts(1,6) [OF assms(3)] assms(2) len by simp
qed

text \<open>The scan for an older slot does not ask whether that slot is primary: a primary slot behind the first other
  one that was used least recently is taken.\<close>

theorem primary_slot_evicted:
  assumes "first_index (\<lambda>k. \<not> isPrimaryKeyId k) slots = Some s"
    and "s < p" "p < length slots" "isPrimaryKeyId (slots ! p)"
    and "\<forall>j. s \<le> j \<and> j < length slots \<and> j \<noteq> p \<longrightarrow> creationTime (slots ! p) < creationTime (slots ! j)"
  shows "free_slot slots = Some p"
proof -
  let ?o = "oldest_from slots s"
  have o: "s \<le> ?o" "?o < length slots" "creationTime (slots ! ?o) \<le> creationTime (slots ! p)"
    using oldest_from_least [of s slots ?o] assms(2,3) by auto
  have "?o = p"
  proof (rule ccontr)
    assume "?o \<noteq> p"
    then have "creationTime (slots ! p) < creationTime (slots ! ?o)" using assms(5) o by blast
    then show False using o(3) by simp
  qed
  then show ?thesis using assms(1) by (simp add: free_slot_def)
qed

section \<open>Failed and ready keys\<close>

lemma key_slot_unfold: "key_slot_of k slots = first_index (\<lambda>ks. k \<in> set ks) (map kd_data slots)"
  unfolding key_slot_of_def by (induction slots) auto

lemma same_key_slot: "same_keys m m' \<Longrightarrow> key_slot_of k (cachedKeyIDs m') = key_slot_of k (cachedKeyIDs m)"
  by (simp add: key_slot_unfold same_keys_def key_data_def)

lemma first_index_update:
  "first_index P xs = None \<Longrightarrow> i < length xs \<Longrightarrow> P y \<Longrightarrow> first_index P (xs[i := y]) = Some i"
  by (rule first_index_eq) (auto simp: first_index_None nth_list_update split: if_splits)

text \<open>After the selection the key id is found in the selected slot, which is not failed.\<close>

lemma select_slot_finds:
  assumes "select_slot now p h m = Some (slot, m1)"
  shows "key_slot_of (getKey h []) (cachedKeyIDs m1) = Some slot \<and> \<not> isFailedKeyId (cachedKeyIDs m1 ! slot)
    \<and> slot < length (cachedKeyIDs m1)"
  using assms
proof (cases rule: select_slot_cases)
  case cached
  then have "key_data m1 = key_data m" using select_slot_parts(6) [OF assms] by simp
  then show ?thesis using cached by (simp add: key_slot_unfold key_data_def) (simp add: update_key_def)
next
  case evict
  have "key_data m1 = (key_data m)[slot := helper_keys h]" using evict(1) select_slot_parts(6) [OF assms] by simp
  then have "key_slot_of (getKey h []) (cachedKeyIDs m1) = Some slot"
    using evict(1,4) getKey_in_keys [of h] by (simp add: key_slot_unfold key_data_def first_index_update)
  then show ?thesis using evict by (simp add: update_key_def)
qed

lemma failed_mark:
  "slot < length (cachedKeyIDs m) \<Longrightarrow> isFailedKeyId (cachedKeyIDs (mark_failed slot m) ! slot)"
  by (simp add: mark_failed_def update_key_def)

lemma same_keys_length: "same_keys m m' \<Longrightarrow> length (cachedKeyIDs m') = length (cachedKeyIDs m)"
  unfolding same_keys_def key_data_def by (metis length_map)

lemma marked_same: "same_keys m m2 \<Longrightarrow> \<exists>m3. same_keys m m3 \<and> mark_failed i m2 = mark_failed i m3"
  by blast

lemma acquire_failed:
  "acquire env h slot err m = Inr (None, e, m') \<Longrightarrow> \<exists>m2. same_keys m m2 \<and> m' = mark_failed slot m2"
  by (auto simp: acquire_def Let_def intro!: marked_same same_intros split: option.splits prod.splits if_splits)

lemma createDrmSession_init:
  assumes "getDrmSession env now False err h m = Inr oc" "oc_code oc = KEY_INIT" "oc_slot oc = Some slot" "sessionMgrActive m"
  shows "createDrmSession env now err (Some h) True m =
    bindE (initializeDrmSession env (oc_helper oc) slot (oc_err oc)
        ((oc_manager oc)\<lparr>mCustomData := ContentUpdateCb env (oc_helper oc) (getKey (oc_helper oc) []) (- 1)\<rparr>)) (\<lambda>(code', err', m').
      if code' \<noteq> KEY_INIT \<or> mIsFakeTune (config m') then Inr (None, err', mark_failed slot m')
      else acquire env (oc_helper oc) slot err' m')"
  using assms by (simp add: createDrmSession_def Let_def)

text \<open>When the session of a helper could not be initialised or its license could not be acquired, its key id is
  recorded as failed.\<close>

theorem failed_key_recorded:
  assumes get: "getDrmSession env now False err h m = Inr oc" "oc_code oc = KEY_INIT"
    and create: "createDrmSession env now err (Some h) True m = Inr (None, e, m')" and active: "sessionMgrActive m"
  shows "IsKeyIdProcessed (getKey h []) status m' = (True, False)"
proof -
  obtain slot m1 where s: "select_slot now False h m = Some (slot, m1)" "oc_slot oc = Some slot" "same_keys m1 (oc_manager oc)"
    using getDrmSession_cases [OF get(1)] get(2) by auto
  have "\<exists>m2. same_keys m1 m2 \<and> m' = mark_failed slot m2"
  proof -
    let ?m = "(oc_manager oc)\<lparr>mCustomData := ContentUpdateCb env (oc_helper oc) (getKey (oc_helper oc) []) (- 1)\<rparr>"
    have "same_keys m1 ?m" using s(3) by (rule same_fields)
    moreover obtain c e1 m2 where i: "initializeDrmSession env (oc_helper oc) slot (oc_err oc) ?m = Inr (c, e1, m2)"
      and r: "(if c \<noteq> KEY_INIT \<or> mIsFakeTune (config m2) then Inr (None, e1, mark_failed slot m2)
        else acquire env (oc_helper oc) slot e1 m2) = Inr (None, e, m')"
      using create unfolding createDrmSession_init [OF get s(2) active] bindE_eq_Inr by auto
    ultimately have m2: "same_keys m1 m2" using same_initialize [OF i] same_trans by blast
    show ?thesis
    proof (cases "c \<noteq> KEY_INIT \<or> mIsFakeTune (config m2)")
      case False
      then have "acquire env (oc_helper oc) slot e1 m2 = Inr (None, e, m')" using r by simp
      then show ?thesis using acquire_failed same_trans [OF m2] by blast
    qed (use r m2 in auto)
  qed
  then obtain m2 where m2: "same_keys m1 m2" "m' = mark_failed slot m2" by blast
  have "key_slot_of (getKey h []) (cachedKeyIDs m') = Some slot"
    using select_slot_finds [OF s(1)] same_key_slot [OF same_mark_failed [OF m2(1)]] m2(2) by simp
  moreover have "isFailedKeyId (cachedKeyIDs m' ! slot)"
    using select_slot_finds [OF s(1)] same_keys_length [OF m2(1)] m2(2) failed_mark by simp
  ultimately show ?thesis by (simp add: IsKeyIdProcessed_def)
qed


text \<open>A session that is ready in its slot, with a key system and a key id.\<close>

definition ready_in :: "string \<Rightarrow> byte list \<Rightarrow> nat \<Rightarrow> manager \<Rightarrow> bool" where
  "ready_in system keyId slot m \<longleftrightarrow>
     (\<exists>ds. slot < length (drmSessionContexts m) \<and> sc_session (drmSessionContexts m ! slot) = Some ds \<and> ds_state ds = KEY_READY
        \<and> ds_keySystem ds = system \<and> sc_data (drmSessionContexts m ! slot) \<in> set (kd_data (cachedKeyIDs m ! slot)))
     \<and> key_slot_of keyId (cachedKeyIDs m) = Some slot \<and> \<not> isFailedKeyId (cachedKeyIDs m ! slot)"

text \<open>While a key id has a ready session in a slot, asking for it again by a helper of the same key system gives that
  slot without error: no session is made, initialised or licensed, the sessions and the cached key ids stay, and the
  slot becomes the youngest.\<close>

theorem ready_session_reused:
  assumes ready: "ready_in (ocdmSystemId h) (getKey h []) slot m" and ne: "getKey h [] \<noteq> []" and active: "sessionMgrActive m"
  shows "\<exists>m'. createDrmSession env now err (Some h) True m = Inr (Some slot, err, m')
    \<and> drmSessionContexts m' = drmSessionContexts m \<and> key_data m' = key_data m
    \<and> creationTime (cachedKeyIDs m' ! slot) = now \<and> ready_in (ocdmSystemId h) (getKey h []) slot m'"
proof -
  obtain ds where ds: "slot < length (drmSessionContexts m)" "sc_session (drmSessionContexts m ! slot) = Some ds"
    "ds_state ds = KEY_READY" "ds_keySystem ds = ocdmSystemId h"
    "sc_data (drmSessionContexts m ! slot) \<in> set (kd_data (cachedKeyIDs m ! slot))"
    and k: "key_slot_of (getKey h []) (cachedKeyIDs m) = Some slot" "\<not> isFailedKeyId (cachedKeyIDs m ! slot)"
    using ready by (auto simp: ready_in_def)
  have l: "slot < length (cachedKeyIDs m)" using key_slot_ofD [OF k(1)] by simp
  let ?m1 = "update_key slot (\<lambda>k. k\<lparr>creationTime := now, isPrimaryKeyId := False\<rparr>) m"
  have sel: "select_slot now False h m = Some (slot, ?m1)" using k by (simp add: select_slot_def Let_def)
  have data: "key_data ?m1 = key_data m" using select_slot_parts(6) [OF sel] k(1) by simp
  have slot1: "cachedKeyIDs ?m1 ! slot = (cachedKeyIDs m ! slot)\<lparr>creationTime := now, isPrimaryKeyId := False\<rparr>"
    using l by (simp add: update_key_def)
  have ctx: "drmSessionContexts ?m1 = drmSessionContexts m" by (simp add: update_key_def)
  have keep: "ready_in (ocdmSystemId h) (getKey h []) slot ?m1"
    using ds k slot1 ctx data by (simp add: ready_in_def key_slot_unfold key_data_def)
  define m2 where "m2 = (case ds_sec ds of
      Some sid \<Rightarrow> if mContentSecurityManagerSession m = None
        then csm (UpdateSessionState sid True) (?m1\<lparr>mContentSecurityManagerSession := Some sid\<rparr>) else ?m1
    | None \<Rightarrow> ?m1)"
  have sec: "mContentSecurityManagerSession ?m1 = mContentSecurityManagerSession m" by (simp add: update_key_def)
  have get: "getDrmSession env now False err h m
      = Inr \<lparr>oc_code = KEY_READY, oc_err = err, oc_slot = Some slot, oc_helper = h, oc_manager = m2\<rparr>"
    using ne sel ds slot1 ctx sec unfolding m2_def
    by (cases "mContentSecurityManagerSession m"; cases "ds_sec ds"; simp add: getDrmSession_def Let_def)
  have m2: "drmSessionContexts m2 = drmSessionContexts ?m1" "cachedKeyIDs m2 = cachedKeyIDs ?m1"
    by (simp_all add: m2_def csm_def split: option.split)
  let ?m' = "m2\<lparr>mCustomData := ContentUpdateCb env h (getKey h []) 0\<rparr>"
  have "createDrmSession env now err (Some h) True m = Inr (Some slot, err, ?m')"
    using active get by (simp add: createDrmSession_def Let_def)
  moreover have "drmSessionContexts ?m' = drmSessionContexts m \<and> key_data ?m' = key_data m
      \<and> creationTime (cachedKeyIDs ?m' ! slot) = now"
    using m2 ctx data slot1 by (simp add: key_data_def)
  moreover have "ready_in (ocdmSystemId h) (getKey h []) slot ?m'"
    using keep m2 by (simp add: ready_in_def)
  ultimately show ?thesis by blast
qed

section \<open>Watermark\<close>

text \<open>The calls that concern the watermark, and whether a call says that the first frame was seen.\<close>

datatype wm_op = WmSpeed bool real int real bool | WmMute bool real bool real | WmHide | WmNotify | WmWindow int int

fun wm_exec :: "wm_op \<Rightarrow> manager \<Rightarrow> manager" where
  "wm_exec (WmSpeed live lat speed pos first) m = setPlaybackSpeedState live lat speed pos first m"
| "wm_exec (WmMute live lat mute pos) m = setVideoMute live lat mute pos m"
| "wm_exec WmHide m = hideWatermarkOnDetach m"
| "wm_exec WmNotify m = notifyCleanup m"
| "wm_exec (WmWindow w ht) m = setVideoWindowSize w ht m"

fun first_frame :: "wm_op \<Rightarrow> bool" where
  "first_frame (WmSpeed _ _ _ _ first) = first"
| "first_frame _ = False"

fun is_speed :: "csm_call \<Rightarrow> bool" where
  "is_speed (PlaybackSpeedState _ _ _) = True"
| "is_speed _ = False"

definition speed_calls :: "manager \<Rightarrow> csm_call list" where
  "speed_calls m = filter is_speed (csm_calls m)"

lemma wm_exec_silent:
  assumes "\<not> mFirstFrameSeen m" "\<not> first_frame op"
  shows "\<not> mFirstFrameSeen (wm_exec op m) \<and> speed_calls (wm_exec op m) = speed_calls m"
  using assms
  by (cases op) (auto simp: setPlaybackSpeedState_def setVideoMute_def hideWatermarkOnDetach_def notifyCleanup_def
      setVideoWindowSize_def csm_def speed_calls_def Let_def split: option.split)

text \<open>After the watermark was hidden on detach, no playback speed reaches the security manager before a call says
  that a first frame was seen, whatever is muted, unmuted or sped up in between.\<close>

theorem hidden_watermark_silent:
  assumes "\<forall>op \<in> set ops. \<not> first_frame op"
  shows "speed_calls (fold wm_exec ops (hideWatermarkOnDetach m)) = speed_calls m"
proof -
  have run: "\<not> mFirstFrameSeen x \<Longrightarrow> speed_calls (fold wm_exec ops x) = speed_calls x" for x
    using assms by (induction ops arbitrary: x) (simp_all add: wm_exec_silent)
  have "\<not> mFirstFrameSeen (hideWatermarkOnDetach m)" by (simp add: hideWatermarkOnDetach_def)
  moreover have "speed_calls (hideWatermarkOnDetach m) = speed_calls m"
    by (simp add: hideWatermarkOnDetach_def speed_calls_def csm_def split: option.split)
  ultimately show ?thesis using run by simp
qed

text \<open>Unmuting a video whose first frame was seen tells the security manager that the session is active and then the
  speed that was set last, at the position given; for live playback the position is the negated latency.\<close>

theorem unmute_restores_speed:
  assumes "mContentSecurityManagerSession m = Some sid" "mFirstFrameSeen m"
  shows "csm_calls (setVideoMute live lat False pos (setPlaybackSpeedState live' lat' speed pos' first (setVideoMute live'' lat'' True pos'' m)))
    = csm_calls m @ [UpdateSessionState sid False, UpdateSessionState sid True,
        PlaybackSpeedState sid speed (if live then - lat else pos)]"
  using assms by (simp add: setVideoMute_def setPlaybackSpeedState_def csm_def Let_def)

section \<open>A concrete player\<close>

definition demo_env :: "(json, int) dsm_env" where
  "demo_env = \<lparr>use_opencdm = True, use_clearkey = False, json = tree_cjson,
     new_session = (\<lambda>_ h. \<lparr>ds_keySystem = ocdmSystemId h, ds_state = KEY_INIT, ds_sec = None, ds_outputProtection = False, ds_keyId = []\<rparr>),
     waitForState = (\<lambda>ds. (False, ds)), generate_session = (\<lambda>ds _ _. ds),
     AcquireLicenseCb = (\<lambda>_ _ ds. (KEY_ERROR, ds, None)), ContentUpdateCb = (\<lambda>_ _ _. [])\<rparr>"

definition demo_helper :: "byte \<Rightarrow> helper" where
  "demo_helper k = (new_helper PlayReadyHelper DrmInfo)\<lparr>mKeyID := [k]\<rparr>"

definition demo_ready :: manager where
  "demo_ready = (DrmSessionManager 1)\<lparr>
     drmSessionContexts := [\<lparr>sc_data = [7], sc_session = Some \<lparr>ds_keySystem = PLAYREADY_OCDM_ID, ds_state = KEY_READY, ds_sec = None,
       ds_outputProtection = False, ds_keyId = [7]\<rparr>\<rparr>],
     cachedKeyIDs := [\<lparr>kd_data = [[7]], creationTime = 1, isFailedKeyId = False, isPrimaryKeyId = False\<rparr>]\<rparr>"

definition demo_failed :: manager where
  "demo_failed = (DrmSessionManager 1)\<lparr>
     cachedKeyIDs := [\<lparr>kd_data = [[7]], creationTime = 1, isFailedKeyId = True, isPrimaryKeyId = False\<rparr>]\<rparr>"

theorem manager_tables_ok_witness: "tables_ok (UpdateMaxDRMSessions 3 (DrmSessionManager 2))"
  by (rule manager_tables_ok [of "{demo_env}" 2], rule r_into_rtranclp, rule ms_max)


lemma demo_select:
  "select_slot 5 False (demo_helper 9) demo_ready = Some (0, demo_ready\<lparr>cachedKeyIDs :=
     [\<lparr>kd_data = [[9]], creationTime = 5, isFailedKeyId = False, isPrimaryKeyId = False\<rparr>]\<rparr>)"
  by (simp add: select_slot_def key_slot_of_def free_slot_def oldest_from_def demo_ready_def demo_helper_def update_key_def
      getKey_def getKeys_def new_helper_def)

lemma demo_ok: "tables_ok demo_ready" "tables_ok demo_failed" "keys_once demo_failed"
  by (simp_all add: tables_ok_def keys_once_def demo_ready_def demo_failed_def DrmSessionManager_def)

theorem oldest_slot_evicted_witness:
  "key_data (demo_ready\<lparr>cachedKeyIDs := [\<lparr>kd_data = [[9]], creationTime = 5, isFailedKeyId = False, isPrimaryKeyId = False\<rparr>]\<rparr>)
    = [[[7]]][0 := [[9]]]"
proof -
  have "key_slot_of (getKey (demo_helper 9) []) (cachedKeyIDs demo_ready) = None"
    by (simp add: key_slot_of_def demo_ready_def demo_helper_def getKey_def new_helper_def)
  from oldest_slot_evicted [OF demo_ok(1) this demo_select] show ?thesis
    by (simp add: key_data_def)
qed

theorem primary_slot_evicted_witness:
  "free_slot [KeyID\<lparr>creationTime := 9\<rparr>, KeyID\<lparr>creationTime := 2, isPrimaryKeyId := True\<rparr>] = Some 1"
  by (rule primary_slot_evicted [of _ 0]) (auto simp: KeyID_def less_Suc_eq)

theorem failed_key_recorded_witness:
  "case createDrmSession demo_env 5 None (Some (demo_helper 7)) True (DrmSessionManager 1) of
     Inr (r, e, m') \<Rightarrow> IsKeyIdProcessed [7] True m' = (True, False) | Inl _ \<Rightarrow> False"
proof -
  let ?m = "DrmSessionManager 1"
  have act: "sessionMgrActive ?m" by (simp add: DrmSessionManager_def)
  obtain oc where oc: "getDrmSession demo_env 5 False None (demo_helper 7) ?m = Inr oc" "oc_code oc = KEY_INIT"
    by (simp add: getDrmSession_def select_slot_def key_slot_of_def free_slot_def oldest_from_def demo_helper_def update_key_def
      getKey_def getKeys_def new_helper_def DrmSessionManager_def KeyID_def DrmSessionContext_def create_in_slot_def
      GetDrmSession_def session_class_of_def demo_env_def Let_def isClearDecrypt_def ocdmSystemId_def)
  obtain e m' where c: "createDrmSession demo_env 5 None (Some (demo_helper 7)) True ?m = Inr (None, e, m')"
    by (simp add: createDrmSession_def getDrmSession_def select_slot_def key_slot_of_def free_slot_def oldest_from_def
      demo_helper_def update_key_def getKey_def getKeys_def new_helper_def DrmSessionManager_def KeyID_def
      DrmSessionContext_def create_in_slot_def GetDrmSession_def session_class_of_def demo_env_def Let_def isClearDecrypt_def
      ocdmSystemId_def update_context_def initializeDrmSession_def createInitData_def acquire_def mark_failed_def)
  have "getKey (demo_helper 7) [] = [7]" by (simp add: demo_helper_def getKey_def new_helper_def)
  then show ?thesis using failed_key_recorded [OF oc c act, of True] c by simp
qed


theorem ready_session_reused_witness:
  "\<exists>m'. createDrmSession demo_env 5 None (Some (demo_helper 7)) True demo_ready = Inr (Some 0, None, m')
    \<and> drmSessionContexts m' = drmSessionContexts demo_ready"
proof -
  have "ready_in (ocdmSystemId (demo_helper 7)) (getKey (demo_helper 7) []) 0 demo_ready"
    by (simp add: ready_in_def demo_ready_def demo_helper_def getKey_def new_helper_def key_slot_of_def ocdmSystemId_def)
  moreover have "getKey (demo_helper 7) [] \<noteq> []" by (simp add: demo_helper_def getKey_def new_helper_def)
  moreover have "sessionMgrActive demo_ready" by (simp add: demo_ready_def DrmSessionManager_def)
  ultimately show ?thesis using ready_session_reused [of "demo_helper 7" 0 demo_ready demo_env 5 None] by blast
qed

theorem hidden_watermark_silent_witness:
  "speed_calls (fold wm_exec [WmMute True 1 False 2, WmSpeed False 0 1 3 False]
      (hideWatermarkOnDetach (demo_ready\<lparr>mContentSecurityManagerSession := Some 4\<rparr>)))
    = speed_calls (demo_ready\<lparr>mContentSecurityManagerSession := Some 4\<rparr>)"
  by (rule hidden_watermark_silent) simp

theorem unmute_restores_speed_witness:
  "csm_calls (setVideoMute True 2 False 3 (setPlaybackSpeedState False 0 4 5 False (setVideoMute False 0 True 0
      (demo_ready\<lparr>mContentSecurityManagerSession := Some 9, mFirstFrameSeen := True\<rparr>))))
    = [UpdateSessionState 9 False, UpdateSessionState 9 True, PlaybackSpeedState 9 4 (- 2)]"
  using unmute_restores_speed [of "demo_ready\<lparr>mContentSecurityManagerSession := Some 9, mFirstFrameSeen := True\<rparr>" 9 True 2 3 False 0 4 5 False
      False 0 0]
  by (simp add: demo_ready_def DrmSessionManager_def)

end
