(* ===== verification/CC_Manager.thy ===== *)
theory CC_Manager
  imports Subtec_Sender Json_Object Player_Utils
begin

text \<open>
  \<^verbatim>\<open>closedcaptions/PlayerCCManager.cpp\<close> and \<^verbatim>\<open>closedcaptions/subtec/\<close>: the manager of closed captions, which keeps
  whether captions are on, their track and their style, and sends packets to the renderer through a channel of
  \<open>Subtec_Sender\<close>. The state holds the messages in the order in which they are sent.

  Parameters (record \<open>cc_env\<close>): whether the caption reader of the platform and the connection to the renderer
  start, and the JSON library.
\<close>

section \<open>Attributes\<close>

text \<open>The bits of the mask in the order of the packet.\<close>

datatype attrib = FONT_COLOR | BACKGROUND_COLOR | FONT_OPACITY | BACKGROUND_OPACITY | FONT_STYLE | FONT_SIZE | FONT_ITALIC
  | FONT_UNDERLINE | BORDER_TYPE | BORDER_COLOR | WIN_COLOR | WIN_OPACITY | EDGE_TYPE | EDGE_COLOR

definition masks :: "attrib list" where
  "masks = [FONT_COLOR, BACKGROUND_COLOR, FONT_OPACITY, BACKGROUND_OPACITY, FONT_STYLE, FONT_SIZE, FONT_ITALIC,
     FONT_UNDERLINE, BORDER_TYPE, BORDER_COLOR, WIN_COLOR, WIN_OPACITY, EDGE_TYPE, EDGE_COLOR]"

fun attrib_bit :: "attrib \<Rightarrow> nat" where
  "attrib_bit FONT_COLOR = 0" | "attrib_bit BACKGROUND_COLOR = 1" | "attrib_bit FONT_OPACITY = 2"
| "attrib_bit BACKGROUND_OPACITY = 3" | "attrib_bit FONT_STYLE = 4" | "attrib_bit FONT_SIZE = 5"
| "attrib_bit FONT_ITALIC = 6" | "attrib_bit FONT_UNDERLINE = 7" | "attrib_bit BORDER_TYPE = 8"
| "attrib_bit BORDER_COLOR = 9" | "attrib_bit WIN_COLOR = 10" | "attrib_bit WIN_OPACITY = 11"
| "attrib_bit EDGE_TYPE = 12" | "attrib_bit EDGE_COLOR = 13"

definition attrib_mask :: "attrib \<Rightarrow> u16" where
  "attrib_mask a = push_bit (attrib_bit a) 1"

text \<open>A colour has its value and name; the other attributes are enumerations, of which \<open>- 1\<close> is \<^verbatim>\<open>EMBEDDED\<close>, and the font
  style is a name.\<close>

record cc_color =
  rgb :: u32
  color_name :: string

record cc_attributes =
  charBgColor :: cc_color
  charFgColor :: cc_color
  winColor :: cc_color
  charBgOpacity :: int
  charFgOpacity :: int
  winOpacity :: int
  fontSize :: int
  fontStyle :: string
  fontItalic :: int
  fontUnderline :: int
  borderType :: int
  borderColor :: cc_color
  edgeType :: int
  edgeColor :: cc_color

definition GSW_CC_EMBEDDED_COLOR :: u32 where "GSW_CC_EMBEDDED_COLOR = 0xff000000"

definition createDefaultAttributes :: cc_attributes where
  "createDefaultAttributes = (let c = \<lparr>rgb = GSW_CC_EMBEDDED_COLOR, color_name = []\<rparr> in
     \<lparr>charBgColor = c, charFgColor = c, winColor = c, charBgOpacity = - 1, charFgOpacity = - 1, winOpacity = - 1,
      fontSize = - 1, fontStyle = ''embedded'', fontItalic = - 1, fontUnderline = - 1, borderType = - 1, borderColor = c,
      edgeType = - 1, edgeColor = c\<rparr>)"

definition cc_font_style_codes :: "(string \<times> u32) list" where
  "cc_font_style_codes = [(''Default'', 0), (''MonospacedSerif'', 1), (''ProportionalSerif'', 2), (''MonospacedSansSerif'', 3),
     (''ProportionalSansSerif'', 4), (''Casual'', 5), (''Cursive'', 6), (''SmallCapital'', 7)]"

definition cc_font_style_code :: "string \<Rightarrow> u32" where
  "cc_font_style_code s = (case map_of cc_font_style_codes s of Some v \<Rightarrow> v | None \<Rightarrow> 0)"

fun getValue :: "cc_attributes \<Rightarrow> attrib \<Rightarrow> u32" where
  "getValue x BACKGROUND_COLOR = rgb (charBgColor x)"
| "getValue x FONT_COLOR = rgb (charFgColor x)"
| "getValue x WIN_COLOR = rgb (winColor x)"
| "getValue x BACKGROUND_OPACITY = word_of_int (charBgOpacity x)"
| "getValue x FONT_OPACITY = word_of_int (charFgOpacity x)"
| "getValue x WIN_OPACITY = word_of_int (winOpacity x)"
| "getValue x FONT_SIZE = word_of_int (fontSize x)"
| "getValue x FONT_STYLE = cc_font_style_code (fontStyle x)"
| "getValue x FONT_ITALIC = word_of_int (fontItalic x)"
| "getValue x FONT_UNDERLINE = word_of_int (fontUnderline x)"
| "getValue x BORDER_TYPE = word_of_int (borderType x)"
| "getValue x BORDER_COLOR = rgb (borderColor x)"
| "getValue x EDGE_TYPE = word_of_int (edgeType x)"
| "getValue x EDGE_COLOR = rgb (edgeColor x)"

fun setValue :: "cc_attributes \<Rightarrow> attrib \<Rightarrow> cc_attributes \<Rightarrow> cc_attributes" where
  "setValue x BACKGROUND_COLOR cur = cur\<lparr>charBgColor := charBgColor x\<rparr>"
| "setValue x FONT_COLOR cur = cur\<lparr>charFgColor := charFgColor x\<rparr>"
| "setValue x WIN_COLOR cur = cur\<lparr>winColor := winColor x\<rparr>"
| "setValue x BACKGROUND_OPACITY cur = cur\<lparr>charBgOpacity := charBgOpacity x\<rparr>"
| "setValue x FONT_OPACITY cur = cur\<lparr>charFgOpacity := charFgOpacity x\<rparr>"
| "setValue x WIN_OPACITY cur = cur\<lparr>winOpacity := winOpacity x\<rparr>"
| "setValue x FONT_SIZE cur = cur\<lparr>fontSize := fontSize x\<rparr>"
| "setValue x FONT_STYLE cur = cur\<lparr>fontStyle := fontStyle x\<rparr>"
| "setValue x FONT_ITALIC cur = cur\<lparr>fontItalic := fontItalic x\<rparr>"
| "setValue x FONT_UNDERLINE cur = cur\<lparr>fontUnderline := fontUnderline x\<rparr>"
| "setValue x BORDER_TYPE cur = cur\<lparr>borderType := borderType x\<rparr>"
| "setValue x BORDER_COLOR cur = cur\<lparr>borderColor := borderColor x\<rparr>"
| "setValue x EDGE_TYPE cur = cur\<lparr>edgeType := edgeType x\<rparr>"
| "setValue x EDGE_COLOR cur = cur\<lparr>edgeColor := edgeColor x\<rparr>"

section \<open>Reading a style\<close>

definition lower :: "char \<Rightarrow> char" where
  "lower c = (let n = (of_char c :: nat) in if 65 \<le> n \<and> n \<le> 90 then char_of (n + 32) else c)"

text \<open>\<open>has_prefix s p\<close> is \<^verbatim>\<open>strncasecmp(s, p, strlen(p)) == 0\<close>.\<close>

definition has_prefix :: "string \<Rightarrow> string \<Rightarrow> bool" where
  "has_prefix s p \<longleftrightarrow> map lower (take (length p) (cstr s)) = map lower p"

text \<open>The first entry one of whose names the input starts with, else the old value.\<close>

fun pick :: "string \<Rightarrow> (string list \<times> 'a) list \<Rightarrow> 'a \<Rightarrow> 'a" where
  "pick s [] old = old"
| "pick s ((names, v) # rest) old = (if list_ex (has_prefix s) names then v else pick s rest old)"

definition supported_colors :: "(string \<times> u32) list" where
  "supported_colors = [(''BLACK'', 0x00000000), (''WHITE'', 0x00ffffff), (''RED'', 0x00FF0000), (''GREEN'', 0x0000FF00),
     (''BLUE'', 0x000000FF), (''YELLOW'', 0x00FFFF00), (''MAGENTA'', 0x00FF00FF), (''CYAN'', 0x0000FFFF), (''AUTO'', 0xFF000000)]"

definition cc_getColor :: "string \<Rightarrow> cc_color \<Rightarrow> cc_color" where
  "cc_getColor s old =
     (case find (\<lambda>(n, v). map lower n = map lower (take 32 (cstr s))) supported_colors of
        None \<Rightarrow> old
      | Some (n, v) \<Rightarrow> \<lparr>rgb = v, color_name = n\<rparr>)"

definition cc_getTextStyle :: "string \<Rightarrow> int \<Rightarrow> int" where
  "cc_getTextStyle s old = pick s [([''false''], 0), ([''true''], 1), ([''auto''], - 1)] old"

definition cc_getEdgeType :: "string \<Rightarrow> int \<Rightarrow> int" where
  "cc_getEdgeType s old = pick s [([''none''], 0), ([''raised''], 1), ([''depressed''], 2), ([''uniform''], 3),
     ([''drop_shadow_left'', ''Left drop shadow''], 4), ([''drop_shadow_right'', ''Right drop shadow''], 5), ([''auto''], - 1)] old"

definition cc_getFontStyle :: "string \<Rightarrow> string \<Rightarrow> string" where
  "cc_getFontStyle s old = pick s [([''default''], ''Default''),
     ([''monospaced_serif'', ''Monospaced serif''], ''MonospacedSerif''),
     ([''proportional_serif'', ''Proportional serif''], ''ProportionalSerif''),
     ([''monospaced_sanserif'', ''Monospaced sans serif''], ''MonospacedSansSerif''),
     ([''proportional_sanserif'', ''Proportional sans serif''], ''ProportionalSansSerif''),
     ([''casual''], ''Casual''), ([''cursive''], ''Cursive''), ([''smallcaps'', ''small capital''], ''SmallCapital''),
     ([''auto''], ''embedded'')] old"

definition cc_getFontSize :: "string \<Rightarrow> int \<Rightarrow> int" where
  "cc_getFontSize s old = pick s [([''small''], 0), ([''standard'', ''medium''], 1), ([''large''], 2), ([''extra_large''], 3),
     ([''auto''], - 1)] old"

definition cc_getOpacity :: "string \<Rightarrow> int \<Rightarrow> int" where
  "cc_getOpacity s old = pick s [([''solid''], 0), ([''flash''], 1), ([''translucent''], 2), ([''transparent''], 3), ([''auto''], - 1)] old"

text \<open>The options in the order of the code: name, attribute and what is read from the value. An empty value leaves
  the attribute alone.\<close>

definition cc_style_options :: "(string \<times> attrib \<times> (string \<Rightarrow> cc_attributes \<Rightarrow> cc_attributes)) list" where
  "cc_style_options = [
     (''fontStyle'', FONT_STYLE, \<lambda>s x. x\<lparr>fontStyle := cc_getFontStyle s (fontStyle x)\<rparr>),
     (''textEdgeColor'', EDGE_COLOR, \<lambda>s x. x\<lparr>edgeColor := cc_getColor s (edgeColor x)\<rparr>),
     (''textEdgeStyle'', EDGE_TYPE, \<lambda>s x. x\<lparr>edgeType := cc_getEdgeType s (edgeType x)\<rparr>),
     (''textForegroundColor'', FONT_COLOR, \<lambda>s x. x\<lparr>charFgColor := cc_getColor s (charFgColor x)\<rparr>),
     (''textForegroundOpacity'', FONT_OPACITY, \<lambda>s x. x\<lparr>charFgOpacity := cc_getOpacity s (charFgOpacity x)\<rparr>),
     (''textBackgroundColor'', BACKGROUND_COLOR, \<lambda>s x. x\<lparr>charBgColor := cc_getColor s (charBgColor x)\<rparr>),
     (''textBackgroundOpacity'', BACKGROUND_OPACITY, \<lambda>s x. x\<lparr>charBgOpacity := cc_getOpacity s (charBgOpacity x)\<rparr>),
     (''penItalicized'', FONT_ITALIC, \<lambda>s x. x\<lparr>fontItalic := cc_getTextStyle s (fontItalic x)\<rparr>),
     (''penSize'', FONT_SIZE, \<lambda>s x. x\<lparr>fontSize := cc_getFontSize s (fontSize x)\<rparr>),
     (''penUnderline'', FONT_UNDERLINE, \<lambda>s x. x\<lparr>fontUnderline := cc_getTextStyle s (fontUnderline x)\<rparr>),
     (''windowBorderEdgeColor'', BORDER_COLOR, \<lambda>s x. x\<lparr>borderColor := cc_getColor s (borderColor x)\<rparr>),
     (''windowBorderEdgeStyle'', BORDER_TYPE, \<lambda>s x. x\<lparr>borderType := cc_getEdgeType s (borderType x)\<rparr>),
     (''windowFillColor'', WIN_COLOR, \<lambda>s x. x\<lparr>winColor := cc_getColor s (winColor x)\<rparr>),
     (''windowFillOpacity'', WIN_OPACITY, \<lambda>s x. x\<lparr>winOpacity := cc_getOpacity s (winOpacity x)\<rparr>)]"

text \<open>\<open>input\<close> is what \<^verbatim>\<open>get\<close> finds for a name.\<close>

fun read_style :: "(string \<Rightarrow> string option) \<Rightarrow> (string \<times> attrib \<times> (string \<Rightarrow> cc_attributes \<Rightarrow> cc_attributes)) list
    \<Rightarrow> cc_attributes \<times> u16 \<Rightarrow> cc_attributes \<times> u16" where
  "read_style input [] r = r"
| "read_style input ((name, a, f) # opts) (x, m) =
     (case input name of
        None \<Rightarrow> read_style input opts (x, m)
      | Some s \<Rightarrow> read_style input opts (if s = [] then x else f s x, m OR attrib_mask a))"

section \<open>The manager\<close>

record ('j, 'd) cc_env =
  hal_ok :: "nat option \<Rightarrow> bool"
  comms_ok :: bool
  cc_json :: "('j, 'd) cjson"

record cc_manager =
  mOptions :: string
  mTrack :: string
  mLastTextTracks :: "string list"
  mEnabled :: bool
  mTrickplayStarted :: bool
  mParentalCtrlLocked :: bool
  mCCHandle :: "nat option"
  mRendererInitialized :: bool
  mHALInitialized :: bool
  mHandleUpdated :: bool
  mId :: int
  mIdSet :: "int list"
  currentAttributes :: cc_attributes
  cc_sent :: "message list"

definition cc_send :: "message \<Rightarrow> cc_manager \<Rightarrow> cc_manager" where
  "cc_send msg s = s\<lparr>cc_sent := cc_sent s @ [msg]\<rparr>"

definition closedCaptionDataCb :: "int \<Rightarrow> byte list \<Rightarrow> cc_manager \<Rightarrow> cc_manager" where
  "closedCaptionDataCb localPts ccData = cc_send (Captions (Some (word_of_int localPts)) ccData)"

definition sendCCSetAttribute :: "cc_attributes \<Rightarrow> u16 \<Rightarrow> u32 \<Rightarrow> cc_manager \<Rightarrow> cc_manager" where
  "sendCCSetAttribute x attribType ccType s =
     (let has = (\<lambda>a. attribType AND attrib_mask a \<noteq> 0) in
      cc_send (SetAttribute ccType (ucast attribType) (map (\<lambda>a. if has a then getValue x a else 0) masks))
        (s\<lparr>currentAttributes := fold (\<lambda>a cur. if has a then setValue x a cur else cur) masks (currentAttributes s)\<rparr>))"

definition EnsureHALInitialized :: "('j, 'd) cc_env \<Rightarrow> cc_manager \<Rightarrow> cc_manager" where
  "EnsureHALInitialized env s =
     (if (\<not> mHALInitialized s \<or> mHandleUpdated s) \<and> hal_ok env (mCCHandle s)
      then s\<lparr>mHALInitialized := True, mHandleUpdated := False\<rparr> else s)"

definition EnsureRendererCommsInitialized :: "('j, 'd) cc_env \<Rightarrow> cc_manager \<Rightarrow> cc_manager" where
  "EnsureRendererCommsInitialized env s =
     (if \<not> mRendererInitialized s \<and> comms_ok env then s\<lparr>mRendererInitialized := True\<rparr> else s)"

definition EnsureInitialized :: "('j, 'd) cc_env \<Rightarrow> cc_manager \<Rightarrow> cc_manager" where
  "EnsureInitialized env s = EnsureRendererCommsInitialized env (EnsureHALInitialized env s)"

definition StartRendering :: "cc_manager \<Rightarrow> cc_manager" where
  "StartRendering = cc_send Unmute"

definition StopRendering :: "cc_manager \<Rightarrow> cc_manager" where
  "StopRendering = cc_send Mute"

definition Stop :: "('j, 'd) cc_env \<Rightarrow> cc_manager \<Rightarrow> cc_manager" where
  "Stop env s = StopRendering (EnsureRendererCommsInitialized env s)"

definition Start :: "('j, 'd) cc_env \<Rightarrow> cc_manager \<Rightarrow> cc_manager" where
  "Start env s = StartRendering (EnsureInitialized env s)"

definition style_input :: "('j, 'd) cjson \<Rightarrow> 'j \<Rightarrow> string \<Rightarrow> string option" where
  "style_input lib ob name = (case get_string lib ob name [] of (True, s) \<Rightarrow> Some s | (False, _) \<Rightarrow> None)"

definition SetStyle :: "('j, 'd) cc_env \<Rightarrow> string \<Rightarrow> cc_manager \<Rightarrow> int \<times> cc_manager" where
  "SetStyle env options s0 =
     (let s = EnsureRendererCommsInitialized env s0 in
      if \<not> mEnabled s \<or> options = [] then (- 1, s)
      else (case PlayerJsonObject (cc_json env) options of
          Inl _ \<Rightarrow> (- 1, s)
        | Inr ob \<Rightarrow>
            let (x, attribsMask) = read_style (style_input (cc_json env) ob) cc_style_options (currentAttributes s, 0);
                s1 = s\<lparr>mOptions := options\<rparr>
            in (0, if attribsMask \<noteq> 0
                   then sendCCSetAttribute x attribsMask 0 (sendCCSetAttribute x attribsMask 1 s1) else s1)))"

definition EnsureRendererStateConsistency :: "('j, 'd) cc_env \<Rightarrow> cc_manager \<Rightarrow> cc_manager" where
  "EnsureRendererStateConsistency env s =
     (let s' = (if mEnabled s then Start env s else Stop env s) in snd (SetStyle env (mOptions s') s'))"

definition SetDigitalChannel :: "('j, 'd) cc_env \<Rightarrow> u32 \<Rightarrow> cc_manager \<Rightarrow> int \<times> cc_manager" where
  "SetDigitalChannel env i s = (0, EnsureRendererStateConsistency env (cc_send (ActiveType Type_708 i) s))"

definition SetAnalogChannel :: "('j, 'd) cc_env \<Rightarrow> u32 \<Rightarrow> cc_manager \<Rightarrow> int \<times> cc_manager" where
  "SetAnalogChannel env i s = (0, EnsureRendererStateConsistency env (cc_send (ActiveType Type_608 i) s))"

definition Init :: "('j, 'd) cc_env \<Rightarrow> nat option \<Rightarrow> cc_manager \<Rightarrow> int \<times> cc_manager" where
  "Init env handle s0 =
     (case handle of
        None \<Rightarrow> (- 1, s0)
      | Some h \<Rightarrow>
          let s = s0\<lparr>mHandleUpdated := (mCCHandle s0 \<noteq> Some h \<or> mHandleUpdated s0), mCCHandle := Some h\<rparr>
          in (0, if mEnabled s then Start env s else Stop env s))"

definition SetTrickplayStatus :: "('j, 'd) cc_env \<Rightarrow> bool \<Rightarrow> cc_manager \<Rightarrow> cc_manager" where
  "SetTrickplayStatus env on s =
     (if on then Stop env s else if mEnabled s then Start env s else s)\<lparr>mTrickplayStarted := on\<rparr>"

definition SetParentalControlStatus :: "('j, 'd) cc_env \<Rightarrow> bool \<Rightarrow> cc_manager \<Rightarrow> cc_manager" where
  "SetParentalControlStatus env locked s =
     (if locked then Stop env s else if mEnabled s then Start env s else s)\<lparr>mParentalCtrlLocked := locked\<rparr>"

text \<open>\<open>CheckCCHandle\<close> is not overridden by the manager of this renderer, it is always true.\<close>

definition SetStatus :: "('j, 'd) cc_env \<Rightarrow> bool \<Rightarrow> cc_manager \<Rightarrow> int \<times> cc_manager" where
  "SetStatus env enable s0 =
     (let s = s0\<lparr>mEnabled := enable\<rparr> in
      (0, if \<not> mTrickplayStarted s \<and> \<not> mParentalCtrlLocked s then if enable then Start env s else Stop env s else s))"

section \<open>Tracks\<close>

datatype cc_format = CC_DEFAULT | CC_608 | CC_708

text \<open>\<^verbatim>\<open>std::stoul\<close>: blanks, a sign, digits; it throws when there is no digit or the number is too large.\<close>

definition stoul :: "string \<Rightarrow> u64 res" where
  "stoul s =
     (let t = dropWhile is_space s;
          (neg, u) = (case t of c # r \<Rightarrow> if c = CHR ''-'' then (True, r) else if c = CHR ''+'' then (False, r) else (False, t)
                      | [] \<Rightarrow> (False, []));
          ds = takeWhile is_digit u; n = digits_value ds
      in if ds = [] \<or> 2 ^ 64 \<le> n then Inl Thrown
         else Inr (if neg then - word_of_nat n else word_of_nat n))"

definition digit_of :: "char \<Rightarrow> u32" where
  "digit_of c = word_of_int (int (of_char c) - 48)"

definition parse_track :: "string \<Rightarrow> (cc_format \<times> u32) res" where
  "parse_track track =
     (if track \<noteq> [] \<and> (of_char (hd track) :: nat) \<in> {49..54} then bindE (stoul track) (\<lambda>n. Inr (CC_DEFAULT, ucast n))
      else if 2 < length track \<and> player_StartsWith track ''CC'' then Inr (CC_608, digit_of (track ! 2))
      else if 3 < length track \<and> player_StartsWith track ''TXT'' then Inr (CC_608, digit_of (track ! 3) + 4)
      else if 4 < length track \<and> player_StartsWith track ''TEXT'' then Inr (CC_608, digit_of (track ! 4) + 4)
      else if 7 < length track \<and> player_StartsWith track ''SERVICE''
        then bindE (stoul (drop 7 track)) (\<lambda>n. Inr (CC_708, ucast n))
      else Inr (CC_DEFAULT, 0))"

definition SetTrack :: "('j, 'd) cc_env \<Rightarrow> string \<Rightarrow> cc_format \<Rightarrow> cc_manager \<Rightarrow> (int \<times> cc_manager) res" where
  "SetTrack env track format s0 =
     (let s = (EnsureRendererCommsInitialized env s0)\<lparr>mTrack := track\<rparr> in
      bindE (parse_track track) (\<lambda>(inferred, n).
      let forced = (format \<noteq> CC_DEFAULT \<and> inferred \<noteq> format);
          finalFormat = (if forced then format else inferred);
          trackNum = (if forced \<and> format = CC_608 \<and> 8 < n then 0 else n)
      in Inr (if finalFormat = CC_708 \<and> 0 < trackNum \<and> trackNum \<le> 63 then SetDigitalChannel env trackNum s
              else if finalFormat = CC_608 \<and> 0 < trackNum \<and> trackNum \<le> 8 then SetAnalogChannel env (1000 + (trackNum - 1)) s
              else (- 1, s))))"

definition RestoreCC :: "('j, 'd) cc_env \<Rightarrow> cc_manager \<Rightarrow> (int \<times> cc_manager) res" where
  "RestoreCC env s =
     (let trackId = (case mLastTextTracks s of
          [] \<Rightarrow> ''CC1''
        | t # _ \<Rightarrow> if mTrack s \<in> set (mLastTextTracks s) then mTrack s else if t = [] then ''CC1'' else t)
      in SetTrack env trackId CC_DEFAULT s)"

section \<open>Clients\<close>

definition GetId :: "cc_manager \<Rightarrow> int \<times> cc_manager" where
  "GetId s = (mId s + 1, s\<lparr>mId := mId s + 1, mIdSet := List.insert (mId s + 1) (mIdSet s)\<rparr>)"

definition Release :: "int \<Rightarrow> cc_manager \<Rightarrow> cc_manager" where
  "Release i s =
     (if i \<in> set (mIdSet s) then
        let s1 = s\<lparr>mIdSet := removeAll i (mIdSet s)\<rparr> in
        if mIdSet s1 = [] then
          let s2 = cc_send ResetChannel s1;
              s3 = (if mHALInitialized s2 then s2\<lparr>mHALInitialized := False, mCCHandle := None\<rparr> else s2)
          in s3\<lparr>mTrickplayStarted := False, mParentalCtrlLocked := False\<rparr>
        else s1
      else s)"

definition PlayerSubtecCCManager :: "('j, 'd) cc_env \<Rightarrow> cc_manager res" where
  "PlayerSubtecCCManager env =
     bindE (SetTrack env ''CC1'' CC_DEFAULT
       \<lparr>mOptions = [], mTrack = [], mLastTextTracks = [], mEnabled = False, mTrickplayStarted = False,
        mParentalCtrlLocked = False, mCCHandle = None, mRendererInitialized = False, mHALInitialized = False,
        mHandleUpdated = False, mId = 0, mIdSet = [], currentAttributes = createDefaultAttributes, cc_sent = []\<rparr>)
       (\<lambda>(_, s). Inr s)"

section \<open>Styles\<close>

lemma ensure_comms [simp]:
  "cc_sent (EnsureRendererCommsInitialized env s) = cc_sent s" "mEnabled (EnsureRendererCommsInitialized env s) = mEnabled s"
  "currentAttributes (EnsureRendererCommsInitialized env s) = currentAttributes s"
  "mOptions (EnsureRendererCommsInitialized env s) = mOptions s"
  "mParentalCtrlLocked (EnsureRendererCommsInitialized env s) = mParentalCtrlLocked s"
  by (simp_all add: EnsureRendererCommsInitialized_def)

lemma ensure_init [simp]:
  "cc_sent (EnsureInitialized env s) = cc_sent s" "mEnabled (EnsureInitialized env s) = mEnabled s"
  "currentAttributes (EnsureInitialized env s) = currentAttributes s" "mOptions (EnsureInitialized env s) = mOptions s"
  "mParentalCtrlLocked (EnsureInitialized env s) = mParentalCtrlLocked s"
  by (simp_all add: EnsureInitialized_def EnsureHALInitialized_def)

lemma attrib_bit_less: "attrib_bit a < 14"
  by (cases a) simp_all

lemma attrib_bit_inj [simp]: "attrib_bit a = attrib_bit b \<longleftrightarrow> a = b"
  by (cases a; cases b) simp_all

lemma masks_nth: "i < 14 \<Longrightarrow> attrib_bit (masks ! i) = i"
  by (auto simp: masks_def less_Suc_eq numeral_eq_Suc)

lemma masks_at: "masks ! attrib_bit a = a"
  by (cases a) (simp_all add: masks_def)

lemma length_masks [simp]: "length masks = 14"
  by (simp add: masks_def)

lemma set_masks: "a \<in> set masks"
  using masks_at [of a] attrib_bit_less [of a] by (metis length_masks nth_mem)

lemma has_attrib: "(m AND attrib_mask a \<noteq> 0) \<longleftrightarrow> bit (m :: u16) (attrib_bit a)"
  using and_exp_eq_0_iff_not_bit [of m "attrib_bit a"] by (simp add: attrib_mask_def push_bit_eq_mult)

text \<open>The attributes that the input gives.\<close>

definition given :: "(string \<Rightarrow> string option) \<Rightarrow> (string \<times> attrib \<times> 'f) list \<Rightarrow> attrib \<Rightarrow> bool" where
  "given input opts a \<longleftrightarrow> (\<exists>(name, b, f) \<in> set opts. b = a \<and> input name \<noteq> None)"

lemma given_Cons: "given input ((name, b, f) # opts) a \<longleftrightarrow> (b = a \<and> input name \<noteq> None) \<or> given input opts a"
  by (auto simp: given_def)

lemma bit_attrib_mask: "bit (attrib_mask b) (attrib_bit a) \<longleftrightarrow> b = a"
  using attrib_bit_less [of a] by (auto simp: attrib_mask_def bit_simps)

lemma read_style_mask:
  "bit (snd (read_style input opts (x, m))) (attrib_bit a) \<longleftrightarrow> bit m (attrib_bit a) \<or> given input opts a"
proof (induction opts arbitrary: x m)
  case (Cons e opts)
  obtain name b f where e: "e = (name, b, f)" by (cases e)
  show ?case
    by (cases "input name") (auto simp: e given_Cons Cons.IH bit_or_iff bit_attrib_mask simp del: attrib_bit_inj)
qed (simp add: given_def)

text \<open>One attribute of a set, as a set in which the others have their default; two sets with the same attributes are equal.\<close>

definition only :: "attrib \<Rightarrow> cc_attributes \<Rightarrow> cc_attributes" where
  "only a x = setValue x a createDefaultAttributes"

lemma only_eqI:
  assumes "\<And>a. only a x = only a y"
  shows "x = y"
  using assms [of BACKGROUND_COLOR] assms [of FONT_COLOR] assms [of WIN_COLOR] assms [of BACKGROUND_OPACITY]
    assms [of FONT_OPACITY] assms [of WIN_OPACITY] assms [of FONT_SIZE] assms [of FONT_STYLE] assms [of FONT_ITALIC]
    assms [of FONT_UNDERLINE] assms [of BORDER_TYPE] assms [of BORDER_COLOR] assms [of EDGE_TYPE] assms [of EDGE_COLOR]
  by (cases x; cases y) (simp add: only_def createDefaultAttributes_def Let_def)

lemma only_set: "only a (setValue y b x) = (if a = b then only a y else only a x)"
  by (cases a; cases b) (simp_all add: only_def createDefaultAttributes_def Let_def)

lemma only_fold:
  "only a (fold (\<lambda>b c. if P b then setValue x b c else c) as cur) = (if P a \<and> a \<in> set as then only a x else only a cur)"
  by (induction as arbitrary: cur) (auto simp: only_set)

text \<open>What an option changes is its own attribute.\<close>

lemma style_own: "(name, b, f) \<in> set cc_style_options \<Longrightarrow> a \<noteq> b \<Longrightarrow> only a (f s x) = only a x"
  by (cases a) (auto simp: cc_style_options_def only_def)

lemma read_style_others:
  "set opts \<subseteq> set cc_style_options \<Longrightarrow> \<not> given input opts a \<Longrightarrow> only a (fst (read_style input opts (x, m))) = only a x"
proof (induction opts arbitrary: x m)
  case (Cons e opts)
  obtain name b f where e: "e = (name, b, f)" by (cases e)
  have rest: "\<not> given input opts a" "set opts \<subseteq> set cc_style_options" "(name, b, f) \<in> set cc_style_options"
    using Cons.prems by (auto simp: e given_Cons)
  show ?case
  proof (cases "input name")
    case (Some s)
    then have "a \<noteq> b" using Cons.prems(2) by (auto simp: e given_Cons)
    then show ?thesis using Cons.IH [OF rest(2,1)] style_own [OF rest(3)] Some by (simp add: e)
  qed (use Cons.IH [OF rest(2,1)] in \<open>simp add: e\<close>)
qed simp

text \<open>A style that gives some option is sent to the renderer for digital and for analog captions. A receiver that
  decodes the two packets finds a mask with exactly the bits of the given options and, for each of the 14
  attributes, its value if it was given and 0 if not; the manager keeps the resulting attributes and the options.\<close>

theorem cc_style_packets:
  assumes on: "mEnabled s" "options \<noteq> []" and json: "PlayerJsonObject (cc_json env) options = Inr ob"
    and input: "input = style_input (cc_json env) ob" and r: "read_style input cc_style_options (currentAttributes s, 0) = (x, m)"
    and some: "given input cc_style_options a0"
    and vs: "vs = map (\<lambda>a. if given input cc_style_options a then getValue x a else 0) masks"
    and res: "SetStyle env options s = (ret, s')"
  shows "ret = 0 \<and> mOptions s' = options \<and> currentAttributes s' = x
    \<and> cc_sent s' = cc_sent s @ [SetAttribute 1 (ucast m) vs, SetAttribute 0 (ucast m) vs]
    \<and> (\<forall>a. bit m (attrib_bit a) \<longleftrightarrow> given input cc_style_options a)
    \<and> (\<forall>ch n t. read_packet (m_buffer (packet_of ch n (SetAttribute t (ucast m) vs))) = Some (n, ch, SetAttribute t (ucast m) vs))"
proof -
  have bits: "bit m (attrib_bit a) \<longleftrightarrow> given input cc_style_options a" for a
    using read_style_mask [of input cc_style_options "currentAttributes s" 0 a] r by simp
  then have nz: "m \<noteq> 0" using some by auto
  have P: "(m AND attrib_mask a \<noteq> 0) = given input cc_style_options a" for a using has_attrib bits by simp
  have keep: "fold (\<lambda>a c. if given input cc_style_options a then setValue x a c else c) masks cur = x"
    if "\<And>a. \<not> given input cc_style_options a \<Longrightarrow> only a cur = only a x" for cur
    by (rule only_eqI) (simp add: only_fold set_masks that)
  have "only a (currentAttributes s) = only a x" if "\<not> given input cc_style_options a" for a
    using read_style_others [OF order_refl that, of "currentAttributes s" 0] r by simp
  then have cur: "fold (\<lambda>a c. if given input cc_style_options a then setValue x a c else c) masks (currentAttributes s) = x"
    by (rule keep)
  have cur2: "fold (\<lambda>a c. if given input cc_style_options a then setValue x a c else c) masks x = x"
    by (rule keep) simp
  have dec: "read_packet (m_buffer (packet_of ch n (SetAttribute t (ucast m) vs))) = Some (n, ch, SetAttribute t (ucast m) vs)" for ch n t
    using packet_roundtrip_core [of "SetAttribute t (ucast m) vs" ch n] by (simp add: vs sent_counter_def NUMBER_OF_ATTRIBUTES_def)
  have "ret = 0 \<and> mOptions s' = options \<and> currentAttributes s' = x
    \<and> cc_sent s' = cc_sent s @ [SetAttribute 1 (ucast m) vs, SetAttribute 0 (ucast m) vs]"
    using res on json r nz unfolding input [symmetric]
    by (auto simp: SetStyle_def Let_def input [symmetric] sendCCSetAttribute_def P cc_send_def cur cur2 vs)
  then show ?thesis using bits dec by simp
qed

definition cc_lib :: "(json, int) cjson" where
  "cc_lib = tree_cjson\<lparr>cJSON_Parse := (\<lambda>_. Some (JObject [(''penSize'', JString ''large'')]))\<rparr>"

definition demo_cc_env :: "(json, int) cc_env" where
  "demo_cc_env = \<lparr>hal_ok = (\<lambda>_. True), comms_ok = True, cc_json = cc_lib\<rparr>"

definition demo_cc :: cc_manager where
  "demo_cc = \<lparr>mOptions = [], mTrack = [], mLastTextTracks = [], mEnabled = True, mTrickplayStarted = False,
     mParentalCtrlLocked = False, mCCHandle = None, mRendererInitialized = False, mHALInitialized = False,
     mHandleUpdated = False, mId = 0, mIdSet = [], currentAttributes = createDefaultAttributes, cc_sent = []\<rparr>"

theorem cc_style_packets_witness:
  "cc_sent (snd (SetStyle demo_cc_env ''style'' demo_cc))
    = [SetAttribute 1 0x20 [0, 0, 0, 0, 0, 2, 0, 0, 0, 0, 0, 0, 0, 0], SetAttribute 0 0x20 [0, 0, 0, 0, 0, 2, 0, 0, 0, 0, 0, 0, 0, 0]]"
proof -
  let ?ob = "JObject [(''penSize'', JString ''large'')]"
  let ?input = "style_input (cc_json demo_cc_env) ?ob"
  have parse: "PlayerJsonObject (cc_json demo_cc_env) ''style'' = Inr ?ob" by code_simp
  have r: "read_style ?input cc_style_options (currentAttributes demo_cc, 0) = (createDefaultAttributes\<lparr>fontSize := 2\<rparr>, 0x20)"
    by code_simp
  have g: "given ?input cc_style_options FONT_SIZE" by code_simp
  have on: "mEnabled demo_cc" "''style'' \<noteq> []" by (simp_all add: demo_cc_def)
  have vs: "map (\<lambda>a. if given ?input cc_style_options a then getValue (createDefaultAttributes\<lparr>fontSize := 2\<rparr>) a else 0) masks
      = [0, 0, 0, 0, 0, 2, 0, 0, 0, 0, 0, 0, 0, 0]"
    by code_simp
  have "cc_sent demo_cc = []" by (simp add: demo_cc_def)
  then show ?thesis
    using cc_style_packets [OF on parse refl r g refl surjective_pairing] by (simp add: vs)
qed

section \<open>Tracks\<close>

text \<open>What follows the choice of a service: the renderer is unmuted or muted, and the style is sent again.\<close>

definition no_selection :: "message list \<Rightarrow> bool" where
  "no_selection msgs \<longleftrightarrow> (\<forall>t n. ActiveType t n \<notin> set msgs)"

lemma SetStyle_sent: "\<exists>msgs. cc_sent (snd (SetStyle env options s)) = cc_sent s @ msgs \<and> no_selection msgs"
  by (auto simp: SetStyle_def Let_def sendCCSetAttribute_def cc_send_def no_selection_def split: sum.split prod.split)

lemma consistency_sent:
  "\<exists>msgs. cc_sent (EnsureRendererStateConsistency env s) = cc_sent s @ (if mEnabled s then Unmute else Mute) # msgs \<and> no_selection msgs"
proof -
  let ?s = "if mEnabled s then Start env s else Stop env s"
  obtain msgs where "cc_sent (snd (SetStyle env (mOptions ?s) ?s)) = cc_sent ?s @ msgs" "no_selection msgs"
    using SetStyle_sent by blast
  moreover have "cc_sent ?s = cc_sent s @ [if mEnabled s then Unmute else Mute]"
    by (simp add: Start_def Stop_def StartRendering_def StopRendering_def cc_send_def)
  ultimately show ?thesis by (auto simp: EnsureRendererStateConsistency_def Let_def)
qed

lemma SetDigitalChannel_sent:
  "\<exists>msgs. cc_sent (snd (SetDigitalChannel env i s)) = cc_sent s @ ActiveType Type_708 i # (if mEnabled s then Unmute else Mute) # msgs
    \<and> no_selection msgs"
  using consistency_sent [of env "cc_send (ActiveType Type_708 i) s"] by (simp add: SetDigitalChannel_def cc_send_def)

lemma SetAnalogChannel_sent:
  "\<exists>msgs. cc_sent (snd (SetAnalogChannel env i s)) = cc_sent s @ ActiveType Type_608 i # (if mEnabled s then Unmute else Mute) # msgs
    \<and> no_selection msgs"
  using consistency_sent [of env "cc_send (ActiveType Type_608 i) s"] by (simp add: SetAnalogChannel_def cc_send_def)

text \<open>Whatever track is set, either nothing is selected and the result is an error, or exactly one service is
  selected, digital with a number from 1 to 63 or analog with one of the eight numbers from 1000, and captions are
  then unmuted or muted as they are enabled.\<close>

theorem cc_track_bounds:
  assumes "SetTrack env track format s = Inr (ret, s')"
  shows "ret = - 1 \<and> cc_sent s' = cc_sent s
    \<or> ret = 0 \<and> (\<exists>t n msgs. cc_sent s' = cc_sent s @ ActiveType t n # (if mEnabled s then Unmute else Mute) # msgs \<and> no_selection msgs
        \<and> (t = Type_708 \<and> unat n \<in> {1..63} \<or> t = Type_608 \<and> unat n \<in> {1000..1007}))"
proof -
  let ?s = "(EnsureRendererCommsInitialized env s)\<lparr>mTrack := track\<rparr>"
  have s: "cc_sent ?s = cc_sent s" "mEnabled ?s = mEnabled s" by simp_all
  obtain inferred n0 where p: "parse_track track = Inr (inferred, n0)"
    using assms by (cases "parse_track track") (auto simp: SetTrack_def)
  define forced where "forced = (format \<noteq> CC_DEFAULT \<and> inferred \<noteq> format)"
  define f where "f = (if forced then format else inferred)"
  define n where "n = (if forced \<and> format = CC_608 \<and> 8 < n0 then 0 else n0)"
  have "SetTrack env track format s = Inr (if f = CC_708 \<and> 0 < n \<and> n \<le> 63 then SetDigitalChannel env n ?s
      else if f = CC_608 \<and> 0 < n \<and> n \<le> 8 then SetAnalogChannel env (1000 + (n - 1)) ?s else (- 1, ?s))"
    unfolding SetTrack_def p bindE_Inr Let_def prod.case forced_def f_def n_def ..
  then have r: "(ret, s') = (if f = CC_708 \<and> 0 < n \<and> n \<le> 63 then SetDigitalChannel env n ?s
      else if f = CC_608 \<and> 0 < n \<and> n \<le> 8 then SetAnalogChannel env (1000 + (n - 1)) ?s else (- 1, ?s))"
    using assms by simp
  consider (digital) "f = CC_708" "0 < n" "n \<le> 63" | (analog) "f = CC_608" "0 < n" "n \<le> 8"
    | (none) "\<not> (f = CC_708 \<and> 0 < n \<and> n \<le> 63)" "\<not> (f = CC_608 \<and> 0 < n \<and> n \<le> 8)" by blast
  then show ?thesis
  proof cases
    case digital
    then have "(ret, s') = SetDigitalChannel env n ?s" using r by simp
    then have d: "ret = 0" "s' = snd (SetDigitalChannel env n ?s)" by (simp_all add: SetDigitalChannel_def)
    moreover have "unat n \<in> {1..63}" using digital by (simp add: word_less_nat_alt word_le_nat_alt)
    ultimately show ?thesis using SetDigitalChannel_sent [of env n ?s] s by auto
  next
    case analog
    then have "(ret, s') = SetAnalogChannel env (1000 + (n - 1)) ?s" using r by simp
    then have d: "ret = 0" "s' = snd (SetAnalogChannel env (1000 + (n - 1)) ?s)" by (simp_all add: SetAnalogChannel_def)
    moreover have "unat (1000 + (n - 1)) \<in> {1000..1007}"
    proof -
      have b: "1 \<le> unat n" "unat n \<le> 8" using analog by (simp_all add: word_less_nat_alt word_le_nat_alt)
      have "unat (999 + n) = (999 + unat n) mod 2 ^ 32" by (simp add: unat_word_ariths)
      moreover have "1000 + (n - 1) = 999 + n" by simp
      ultimately show ?thesis using b by simp
    qed
    ultimately show ?thesis using SetAnalogChannel_sent [of env "1000 + (n - 1)" ?s] s by auto
  qed (use r s in auto)
qed

lemma stoul_decimal: "n < 2 ^ 64 \<Longrightarrow> stoul (decimal n) = Inr (word_of_nat n)"
proof -
  assume n: "n < 2 ^ 64"
  obtain c r where d: "decimal n = c # r" using decimal_ne by (cases "decimal n") auto
  have c: "\<not> is_space c" "c \<noteq> CHR ''-''" "c \<noteq> CHR ''+''"
    using decimal_digits [of n] digit_plain [of c] by (simp_all add: d)
  have "takeWhile is_digit (decimal n) = decimal n"
    using decimal_digits [of n] by (simp add: list_all_iff takeWhile_eq_all_conv)
  then show ?thesis
    using n c decimal_value [of n] by (simp add: stoul_def d)
qed

lemma ucast_number: "ucast (word_of_nat n :: u64) = (word_of_nat n :: u32)"
  by (rule bit_word_eqI) (auto simp: bit_simps)

text \<open>Every service from 1 to 63 can be selected as \<^verbatim>\<open>SERVICE\<close> and its number in decimal.\<close>

theorem cc_service_track:
  assumes "1 \<le> n" "n \<le> 63"
  shows "\<exists>s' msgs. SetTrack env (''SERVICE'' @ decimal n) CC_DEFAULT s = Inr (0, s')
    \<and> cc_sent s' = cc_sent s @ ActiveType Type_708 (word_of_nat n) # (if mEnabled s then Unmute else Mute) # msgs \<and> no_selection msgs"
proof -
  let ?s = "(EnsureRendererCommsInitialized env s)\<lparr>mTrack := ''SERVICE'' @ decimal n\<rparr>"
  have p: "parse_track (''SERVICE'' @ decimal n) = Inr (CC_708, word_of_nat n)"
    using stoul_decimal [of n] decimal_ne [of n] assms(2) by (simp add: parse_track_def ucast_number)
  have u: "unat (word_of_nat n :: u32) = n" using assms by (simp add: unat_of_nat)
  have "SetTrack env (''SERVICE'' @ decimal n) CC_DEFAULT s = Inr (SetDigitalChannel env (word_of_nat n) ?s)"
    using assms u unfolding SetTrack_def p by (simp add: Let_def word_less_nat_alt word_le_nat_alt)
  moreover have "SetDigitalChannel env (word_of_nat n) ?s = (0, snd (SetDigitalChannel env (word_of_nat n) ?s))"
    by (simp add: SetDigitalChannel_def)
  moreover obtain msgs where "no_selection msgs" "cc_sent (snd (SetDigitalChannel env (word_of_nat n) ?s))
      = cc_sent s @ ActiveType Type_708 (word_of_nat n) # (if mEnabled s then Unmute else Mute) # msgs"
    using SetDigitalChannel_sent [of env "word_of_nat n" ?s] by auto
  ultimately show ?thesis by metis
qed

theorem cc_service_track_witness:
  "\<exists>s' msgs. SetTrack demo_cc_env (''SERVICE'' @ decimal 63) CC_DEFAULT demo_cc = Inr (0, s')
    \<and> cc_sent s' = cc_sent demo_cc @ ActiveType Type_708 (word_of_nat 63) # (if mEnabled demo_cc then Unmute else Mute) # msgs
    \<and> no_selection msgs"
  by (rule cc_service_track) simp_all

theorem cc_track_bounds_witness:
  "case SetTrack demo_cc_env ''CC9'' CC_DEFAULT demo_cc of
     Inr (ret, s') \<Rightarrow> ret = - 1 \<and> cc_sent s' = [] \<or> ret = 0 \<and> cc_sent s' \<noteq> [] | Inl _ \<Rightarrow> False"
proof (cases "SetTrack demo_cc_env ''CC9'' CC_DEFAULT demo_cc")
  case (Inl e)
  moreover have "SetTrack demo_cc_env ''CC9'' CC_DEFAULT demo_cc \<noteq> Inl e"
    by (simp add: SetTrack_def parse_track_def Let_def)
  ultimately show ?thesis by simp
next
  case (Inr p)
  then obtain ret s' where p: "SetTrack demo_cc_env ''CC9'' CC_DEFAULT demo_cc = Inr (ret, s')" by (cases p) auto
  have "cc_sent demo_cc = []" by (simp add: demo_cc_def)
  then show ?thesis using cc_track_bounds [OF p] p by auto
qed

text \<open>A track given as a plain number from 1 to 63 for digital captions is accepted unless it is 7, 8 or 9, although all
  these services exist and the comment allows them: only a first digit from 1 to 6 counts as a number.\<close>

theorem cc_number_track:
  assumes "1 \<le> n" "n \<le> 63"
  shows "(\<exists>s'. SetTrack env (decimal n) CC_708 s = Inr (0, s')) \<longleftrightarrow> n \<notin> {7, 8, 9}"
proof -
  let ?s = "(EnsureRendererCommsInitialized env s)\<lparr>mTrack := decimal n\<rparr>"
  have c: "decimal n = (if n < 10 then [char_of (48 + n)] else [char_of (48 + n div 10), char_of (48 + n mod 10)])"
    using assms by (subst decimal.simps, subst decimal.simps) simp
  then have hd_n: "(of_char (hd (decimal n)) :: nat) = 48 + (if n < 10 then n else n div 10)"
    using assms by simp
  have nat_n: "unat (word_of_nat n :: u32) = n" using assms by (simp add: unat_of_nat)
  show ?thesis
  proof (cases "n \<in> {7, 8, 9}")
    case False
    then have "(of_char (hd (decimal n)) :: nat) \<in> {49..54}" using assms by (auto simp: hd_n)
    then have "parse_track (decimal n) = Inr (CC_DEFAULT, word_of_nat n)"
      using stoul_decimal [of n] decimal_ne [of n] assms(2) by (simp add: parse_track_def ucast_number)
    then have "SetTrack env (decimal n) CC_708 s = Inr (SetDigitalChannel env (word_of_nat n) ?s)"
      using assms nat_n by (simp add: SetTrack_def Let_def word_less_nat_alt word_le_nat_alt)
    then show ?thesis using False by (simp add: SetDigitalChannel_def)
  next
    case True
    then have "parse_track (decimal n) = Inr (CC_DEFAULT, 0)"
      using c by (auto simp: parse_track_def hd_n)
    then show ?thesis using True by (simp add: SetTrack_def Let_def)
  qed
qed

theorem cc_number_track_witness:
  "(\<exists>s'. SetTrack demo_cc_env (decimal 8) CC_708 demo_cc = Inr (0, s')) \<longleftrightarrow> (8 :: nat) \<notin> {7, 8, 9}"
  by (rule cc_number_track) simp_all

section \<open>Locks\<close>

text \<open>While parental control has locked the captions, switching them on or off sends nothing, and unlocking then shows
  them exactly if they were switched on last.\<close>

theorem cc_status_respects_lock:
  assumes "mParentalCtrlLocked s"
  shows "cc_sent (snd (SetStatus env b s)) = cc_sent s
    \<and> cc_sent (SetParentalControlStatus env False (snd (SetStatus env b s))) = cc_sent s @ (if b then [Unmute] else [])"
  using assms by (simp add: SetStatus_def SetParentalControlStatus_def Start_def StartRendering_def cc_send_def)

theorem cc_status_respects_lock_witness:
  "cc_sent (SetParentalControlStatus demo_cc_env False (snd (SetStatus demo_cc_env True (demo_cc\<lparr>mParentalCtrlLocked := True\<rparr>)))) = [Unmute]"
  using cc_status_respects_lock [of "demo_cc\<lparr>mParentalCtrlLocked := True\<rparr>" demo_cc_env True]
  by (simp add: demo_cc_def)

text \<open>The end of trick play shows enabled captions even if parental control has locked them, and so does setting a
  track: the lock is only looked at when captions are switched on.\<close>

theorem cc_shown_while_locked:
  assumes "mEnabled s"
  shows "(let s' = SetTrickplayStatus env False (SetParentalControlStatus env True s) in
      mParentalCtrlLocked s' \<and> last (cc_sent s') = Unmute)
    \<and> (let s' = snd (SetAnalogChannel env 1000 (SetParentalControlStatus env True s)) in Unmute \<in> set (drop (length (cc_sent s) + 1) (cc_sent s')))"
proof
  show "let s' = SetTrickplayStatus env False (SetParentalControlStatus env True s) in
      mParentalCtrlLocked s' \<and> last (cc_sent s') = Unmute"
    using assms by (simp add: Let_def SetTrickplayStatus_def SetParentalControlStatus_def Start_def StartRendering_def Stop_def
        StopRendering_def cc_send_def)
  let ?l = "SetParentalControlStatus env True s"
  have l: "mEnabled ?l" "cc_sent ?l = cc_sent s @ [Mute]"
    using assms by (simp_all add: SetParentalControlStatus_def Stop_def StopRendering_def cc_send_def)
  obtain msgs where "cc_sent (snd (SetAnalogChannel env 1000 ?l)) = cc_sent ?l @ ActiveType Type_608 1000 # Unmute # msgs"
    using SetAnalogChannel_sent [of env 1000 ?l] l(1) by auto
  then show "let s' = snd (SetAnalogChannel env 1000 ?l) in Unmute \<in> set (drop (length (cc_sent s) + 1) (cc_sent s'))"
    by (simp add: l(2))
qed

theorem cc_shown_while_locked_witness:
  "last (cc_sent (SetTrickplayStatus demo_cc_env False (SetParentalControlStatus demo_cc_env True demo_cc))) = Unmute"
  using cc_shown_while_locked [of demo_cc demo_cc_env] by (simp add: demo_cc_def Let_def)

end
