(* ===== verification/Gst_Base.thy ===== *)
theory Gst_Base
  imports Player_Prelude Complex_Main
begin

text \<open>
  What the GStreamer player and the platform interfaces share: the GStreamer values they use, the calls they
  make and the library itself. GStreamer is not under \<^verbatim>\<open>src/\<close>. What the code asks of it, and of the
  application through its callbacks, is recorded as a list of actions; what GStreamer answers is a parameter,
  a function of everything that was asked before, so that an answer can change from call to call.
\<close>

section \<open>Values\<close>

type_synonym elem = nat

datatype gst_state = GST_STATE_VOID_PENDING | GST_STATE_NULL | GST_STATE_READY | GST_STATE_PAUSED | GST_STATE_PLAYING

datatype change_return = GST_STATE_CHANGE_FAILURE | GST_STATE_CHANGE_SUCCESS | GST_STATE_CHANGE_ASYNC
  | GST_STATE_CHANGE_NO_PREROLL

datatype flow_return = GST_FLOW_OK | GST_FLOW_FLUSHING | GST_FLOW_EOS | GST_FLOW_ERROR

datatype stream_format = GST_FORMAT_INVALID | GST_FORMAT_MPEGTS | GST_FORMAT_ISO_BMFF | GST_FORMAT_AUDIO_ES_MP3
  | GST_FORMAT_AUDIO_ES_AAC | GST_FORMAT_AUDIO_ES_AC3 | GST_FORMAT_AUDIO_ES_EC3 | GST_FORMAT_AUDIO_ES_ATMOS
  | GST_FORMAT_AUDIO_ES_AC4 | GST_FORMAT_VIDEO_ES_H264 | GST_FORMAT_VIDEO_ES_HEVC | GST_FORMAT_VIDEO_ES_MPEG2
  | GST_FORMAT_SUBTITLE_WEBVTT | GST_FORMAT_SUBTITLE_TTML | GST_FORMAT_SUBTITLE_MP4 | GST_FORMAT_UNKNOWN

datatype gst_media_format = eGST_MEDIAFORMAT_HLS | eGST_MEDIAFORMAT_DASH | eGST_MEDIAFORMAT_PROGRESSIVE
  | eGST_MEDIAFORMAT_HLS_MP4 | eGST_MEDIAFORMAT_OTA | eGST_MEDIAFORMAT_HDMI | eGST_MEDIAFORMAT_COMPOSITE
  | eGST_MEDIAFORMAT_SMOOTHSTREAMINGMEDIA | eGST_MEDIAFORMAT_RMF | eGST_MEDIAFORMAT_UNKNOWN

text \<open>Media types index arrays, so they are numbers; the last one stands for an unknown type.\<close>

definition eGST_MEDIATYPE_VIDEO :: nat where "eGST_MEDIATYPE_VIDEO = 0"
definition eGST_MEDIATYPE_AUDIO :: nat where "eGST_MEDIATYPE_AUDIO = 1"
definition eGST_MEDIATYPE_SUBTITLE :: nat where "eGST_MEDIATYPE_SUBTITLE = 2"
definition eGST_MEDIATYPE_AUX_AUDIO :: nat where "eGST_MEDIATYPE_AUX_AUDIO = 3"
definition eGST_MEDIATYPE_DEFAULT :: nat where "eGST_MEDIATYPE_DEFAULT = 19"
definition GST_TRACK_COUNT :: nat where "GST_TRACK_COUNT = 4"
definition GST_NORMAL_PLAY_RATE :: int where "GST_NORMAL_PLAY_RATE = 1"

lemmas media_types = eGST_MEDIATYPE_VIDEO_def eGST_MEDIATYPE_AUDIO_def eGST_MEDIATYPE_SUBTITLE_def
  eGST_MEDIATYPE_AUX_AUDIO_def eGST_MEDIATYPE_DEFAULT_def GST_TRACK_COUNT_def

text \<open>\<^verbatim>\<open>GST_TIME_AS_MSECONDS\<close> of a signed time, and the conversion of seconds to a clock time.\<close>

definition ms_of_ns :: "int \<Rightarrow> int" where
  "ms_of_ns ns = (if 0 \<le> ns then ns div 1000000 else - (- ns div 1000000))"

definition clock_time :: "real \<Rightarrow> u64" where
  "clock_time secs = word_of_int \<lfloor>secs * 1000000000\<rfloor>"

section \<open>What is asked of GStreamer and of the application\<close>

datatype prop_value = PBool bool | PInt int | PReal real | PString string | PElem "elem option"

record gst_buffer =
  bf_data :: mem
  bf_pts :: u64
  bf_dts :: u64
  bf_duration :: u64
  bf_offset :: "int option"

datatype gst_event =
    OverrideEvent bool int int
  | ProtectionEvent nat
  | NewSegment u64 u64 int
  | TrickModeDisc int
  | InstantRateSeek real
  | CustomRateChange real
  | SubClockSync u64
  | PtsOffset u64
  | StepEvent

datatype interface_cb = FirstVideoFrameDisplayed | IdleCb | ProgressCb | FirstVideoFrameReceived | NotifyEOSCb
  | StartNewSubtitleStream nat

datatype msg_type = MESSAGE_ERROR | MESSAGE_WARNING | MESSAGE_EOS | MESSAGE_APPLICATION | MESSAGE_STATE_CHANGE

datatype app_event =
    Trigger interface_cb
  | TearDownCb bool nat
  | StopCb bool
  | FirstFrameCb nat bool bool
  | BusMessageCb msg_type bool bool bool
  | UnderflowCb nat
  | DecodeErrorCb int
  | PtsErrorCb bool bool
  | BufferingTimeoutCb bool bool bool
  | NeedDataCb nat
  | EnoughDataCb nat
  | SetGstElementCb "elem option"

datatype control_id = SyncControl | AsyncControl | CallbackControl

datatype gst_action =
    SetElementState elem gst_state
  | PollState elem
  | SeekElement elem real real
  | EndOfStream elem
  | PushBuffer elem gst_buffer
  | PushPadEvent elem gst_event
  | SendElementEvent elem gst_event
  | SetProp elem string prop_value
  | MakeElement string
  | AddToPipeline elem
  | RemoveFromPipeline elem
  | SinkAsync elem bool
  | Unref nat
  | AddTimer int
  | RemoveSource nat
  | RemovePadProbe nat nat
  | AddPadProbe elem
  | AddBusWatch nat
  | RemoveBusWatch nat
  | ConnectSignal elem string
  | DisconnectSignal elem nat
  | ControlEnable control_id
  | ControlDisable control_id
  | ControlWait control_id int
  | ToApp app_event

type_synonym history = "gst_action list"

text \<open>Whether a controller of the handlers is enabled, read off the history; waiting disables it.\<close>

fun control_after :: "control_id \<Rightarrow> gst_action \<Rightarrow> bool \<Rightarrow> bool" where
  "control_after c (ControlEnable d) b = (b \<or> c = d)"
| "control_after c (ControlDisable d) b = (b \<and> c \<noteq> d)"
| "control_after c (ControlWait d _) b = (b \<and> c \<noteq> d)"
| "control_after c _ b = b"

definition control_enabled :: "control_id \<Rightarrow> history \<Rightarrow> bool" where
  "control_enabled c h = fold (control_after c) h True"

section \<open>The library as a parameter\<close>

record gst_env =
  set_state_ret :: "history \<Rightarrow> change_return"
  get_state_ret :: "history \<Rightarrow> elem \<Rightarrow> change_return \<times> gst_state \<times> gst_state"
  target_state :: "history \<Rightarrow> elem \<Rightarrow> gst_state"
  seek_ret :: "history \<Rightarrow> bool"
  push_ret :: "history \<Rightarrow> flow_return"
  event_ret :: "history \<Rightarrow> bool"
  get_int :: "history \<Rightarrow> elem \<Rightarrow> string \<Rightarrow> int option"
  get_elem :: "history \<Rightarrow> elem \<Rightarrow> string \<Rightarrow> elem option"
  make_ret :: "history \<Rightarrow> elem option"
  timer_id :: "history \<Rightarrow> nat"
  clock_ms :: "history \<Rightarrow> int"
  query_position :: "history \<Rightarrow> elem \<Rightarrow> int option"
  query_segment :: "history \<Rightarrow> elem \<Rightarrow> int option"
  query_duration :: "history \<Rightarrow> elem \<Rightarrow> int option"
  queued_bytes :: "history \<Rightarrow> elem \<Rightarrow> nat"
  async_enabled :: "history \<Rightarrow> elem \<Rightarrow> bool"
  has_property :: "elem \<Rightarrow> string \<Rightarrow> bool"
  signal_id :: "history \<Rightarrow> nat"
  signal_connected :: "history \<Rightarrow> elem \<Rightarrow> nat \<Rightarrow> bool"
  in_pipeline :: "history \<Rightarrow> elem \<Rightarrow> bool"
  first_frame_cb :: "history \<Rightarrow> (bool \<times> bool) option"
  alloc_ok :: "history \<Rightarrow> bool"
  externals_active :: "history \<Rightarrow> bool"

end
