(* ===== verification/Soc_Interface.thy ===== *)
theory Soc_Interface
  imports Gst_Base
begin

text \<open>
  The platform interfaces of \<^verbatim>\<open>vendor/\<close>: how the platform is detected and, for each of the four platforms,
  which GStreamer elements are its sinks and decoders and how it differs in volume, rate, buffering and first frame
  handling. The classes are one record with a tag; a virtual method is one definition with a case per class.
  \<^verbatim>\<open>__APPLE__\<close> and \<^verbatim>\<open>UBUNTU\<close> are fields of the record, because the default class is compiled differently on
  these systems. Names of elements are C strings without a terminating zero.
\<close>

section \<open>Platforms\<close>

datatype platform = SOC_PLATFORM_DEFAULT | SOC_PLATFORM_AMLOGIC | SOC_PLATFORM_REALTEK | SOC_PLATFORM_BROADCOM

record soc =
  soc_platform :: platform
  mUsingWesterosSink :: bool
  on_apple :: bool
  on_ubuntu :: bool

definition soc_StartsWith :: "string \<Rightarrow> string \<Rightarrow> bool" where
  "soc_StartsWith inputStr prefix \<longleftrightarrow> take (length prefix) inputStr = prefix"

definition InferPlatformFromPluginScan :: "(string \<Rightarrow> bool) \<Rightarrow> platform" where
  "InferPlatformFromPluginScan registered =
     (if registered ''amlhalasink'' then SOC_PLATFORM_AMLOGIC
      else if registered ''omxeac3dec'' then SOC_PLATFORM_REALTEK
      else if registered ''brcmaudiodecoder'' then SOC_PLATFORM_BROADCOM
      else SOC_PLATFORM_DEFAULT)"

definition c_isspace :: "char \<Rightarrow> bool" where
  "c_isspace c \<longleftrightarrow> (of_char c :: nat) \<in> {32, 9, 10, 11, 12, 13}"

text \<open>The lines are what \<^verbatim>\<open>fgets\<close> gives; \<open>None\<close> when the file cannot be opened.\<close>

fun infer_from_lines :: "string list \<Rightarrow> platform" where
  "infer_from_lines [] = SOC_PLATFORM_DEFAULT"
| "infer_from_lines (buf # rest) =
     (if take 4 buf = ''SOC='' then
        let socName = takeWhile (\<lambda>c. \<not> c_isspace c) (drop 4 buf)
        in if socName = ''AMLOGIC'' then SOC_PLATFORM_AMLOGIC
           else if socName = ''RTK'' then SOC_PLATFORM_REALTEK
           else if socName = ''BRCM'' then SOC_PLATFORM_BROADCOM
           else infer_from_lines rest
      else infer_from_lines rest)"

definition InferPlatformFromDeviceProperties :: "string list option \<Rightarrow> platform" where
  "InferPlatformFromDeviceProperties file =
     (case file of None \<Rightarrow> SOC_PLATFORM_DEFAULT | Some ls \<Rightarrow> infer_from_lines ls)"

definition CreateSocInterface :: "bool \<Rightarrow> bool \<Rightarrow> string list option \<Rightarrow> (string \<Rightarrow> bool) \<Rightarrow> soc" where
  "CreateSocInterface apple ubuntu file registered =
     (let p = InferPlatformFromDeviceProperties file;
          q = (if p = SOC_PLATFORM_DEFAULT then InferPlatformFromPluginScan registered else p)
      in \<lparr>soc_platform = q, mUsingWesterosSink = False, on_apple = apple, on_ubuntu = ubuntu\<rparr>)"

definition SetWesterosSinkState :: "bool \<Rightarrow> soc \<Rightarrow> soc" where
  "SetWesterosSinkState status s = s\<lparr>mUsingWesterosSink := status\<rparr>"

section \<open>Constant answers\<close>

definition UseAppSrc :: "soc \<Rightarrow> bool" where
  "UseAppSrc s = (soc_platform s = SOC_PLATFORM_DEFAULT \<and> on_apple s)"
definition IsSupportedAC4 :: "soc \<Rightarrow> bool" where "IsSupportedAC4 s = (soc_platform s = SOC_PLATFORM_BROADCOM)"
definition UseWesterosSink :: "soc \<Rightarrow> bool" where "UseWesterosSink s = (soc_platform s \<noteq> SOC_PLATFORM_DEFAULT)"
definition IsAudioFragmentSyncSupported :: "soc \<Rightarrow> bool" where
  "IsAudioFragmentSyncSupported s = (soc_platform s = SOC_PLATFORM_REALTEK)"
definition IsPlaybackQualityFromSink :: "soc \<Rightarrow> bool" where
  "IsPlaybackQualityFromSink s = (soc_platform s = SOC_PLATFORM_REALTEK)"
definition EnableLiveLatencyCorrection :: "soc \<Rightarrow> bool" where
  "EnableLiveLatencyCorrection s = (soc_platform s = SOC_PLATFORM_REALTEK)"
definition RequiredQueuedFrames :: "soc \<Rightarrow> int" where
  "RequiredQueuedFrames s = (if soc_platform s = SOC_PLATFORM_REALTEK then 3 + 1 else 5 + 1)"
definition EnablePTSRestamp :: "soc \<Rightarrow> bool" where "EnablePTSRestamp s = (soc_platform s = SOC_PLATFORM_BROADCOM)"
definition IsFirstTuneWithWesteros :: "soc \<Rightarrow> bool" where
  "IsFirstTuneWithWesteros s = (soc_platform s = SOC_PLATFORM_REALTEK)"
definition SetPlatformPlaybackRate :: "soc \<Rightarrow> bool" where
  "SetPlatformPlaybackRate s = (soc_platform s \<in> {SOC_PLATFORM_REALTEK, SOC_PLATFORM_BROADCOM})"
definition SetRateCorrection :: "soc \<Rightarrow> bool" where "SetRateCorrection s = (soc_platform s = SOC_PLATFORM_BROADCOM)"
definition ResetTrickUTC :: "soc \<Rightarrow> bool" where "ResetTrickUTC s = (soc_platform s = SOC_PLATFORM_REALTEK)"
definition NotifyVideoFirstFrame :: "soc \<Rightarrow> bool" where
  "NotifyVideoFirstFrame s = (soc_platform s = SOC_PLATFORM_REALTEK)"
definition RequiredElementSetup :: "soc \<Rightarrow> bool" where
  "RequiredElementSetup s = (soc_platform s = SOC_PLATFORM_REALTEK)"
definition HasFirstAudioFrameCallback :: "soc \<Rightarrow> bool" where
  "HasFirstAudioFrameCallback s = (soc_platform s \<noteq> SOC_PLATFORM_REALTEK)"
definition IsVideoSinkHandleErrors :: "soc \<Rightarrow> bool" where
  "IsVideoSinkHandleErrors s = (soc_platform s = SOC_PLATFORM_REALTEK)"
definition IsSimulatorFirstFrame :: "soc \<Rightarrow> bool" where
  "IsSimulatorFirstFrame s = (soc_platform s = SOC_PLATFORM_DEFAULT)"
definition IsSimulatorSink :: "soc \<Rightarrow> bool" where
  "IsSimulatorSink s = (soc_platform s = SOC_PLATFORM_DEFAULT \<and> on_ubuntu s)"
definition ShouldTearDownForTrickplay :: "soc \<Rightarrow> bool" where
  "ShouldTearDownForTrickplay s = (soc_platform s = SOC_PLATFORM_DEFAULT \<and> (on_apple s \<or> on_ubuntu s))"
definition ResetNewSegmentEvent :: "soc \<Rightarrow> bool" where
  "ResetNewSegmentEvent s = (soc_platform s = SOC_PLATFORM_AMLOGIC)"
definition IsPlatformSegmentReady :: "soc \<Rightarrow> bool" where
  "IsPlatformSegmentReady s = (soc_platform s = SOC_PLATFORM_AMLOGIC)"
definition IsVideoMaster :: "soc \<Rightarrow> bool" where "IsVideoMaster s = (soc_platform s \<noteq> SOC_PLATFORM_AMLOGIC)"

lemmas soc_constants = UseAppSrc_def IsSupportedAC4_def UseWesterosSink_def IsAudioFragmentSyncSupported_def
  IsPlaybackQualityFromSink_def EnableLiveLatencyCorrection_def RequiredQueuedFrames_def EnablePTSRestamp_def
  IsFirstTuneWithWesteros_def SetPlatformPlaybackRate_def SetRateCorrection_def ResetTrickUTC_def
  NotifyVideoFirstFrame_def RequiredElementSetup_def HasFirstAudioFrameCallback_def IsVideoSinkHandleErrors_def
  IsSimulatorFirstFrame_def IsSimulatorSink_def ShouldTearDownForTrickplay_def ResetNewSegmentEvent_def
  IsPlatformSegmentReady_def IsVideoMaster_def

section \<open>Sinks and decoders by name\<close>

text \<open>The callers pass the name of an existing element, so the null test of the platform classes always passes.\<close>

definition IsVideoSink_default :: "soc \<Rightarrow> string \<Rightarrow> bool \<Rightarrow> bool" where
  "IsVideoSink_default s name isRialto =
     (mUsingWesterosSink s \<and> soc_StartsWith name ''westerossink'')"

definition IsVideoSink_amlogic :: "soc \<Rightarrow> string \<Rightarrow> bool \<Rightarrow> bool" where
  "IsVideoSink_amlogic s name isRialto =
     ((mUsingWesterosSink s \<and> soc_StartsWith name ''westerossink'') \<or> (isRialto \<and> soc_StartsWith name ''rialtomsevideosink''))"

definition IsVideoSink_realtek :: "soc \<Rightarrow> string \<Rightarrow> bool \<Rightarrow> bool" where
  "IsVideoSink_realtek s name isRialto =
     (soc_StartsWith name ''westerossink'' \<or> soc_StartsWith name ''rtkv1sink'' \<or> (isRialto \<and> soc_StartsWith name ''rialtomsevideosink''))"

definition IsVideoSink_brcm :: "soc \<Rightarrow> string \<Rightarrow> bool \<Rightarrow> bool" where
  "IsVideoSink_brcm s name isRialto =
     ((\<not> mUsingWesterosSink s \<and> soc_StartsWith name ''brcmvideosink'') \<or> (mUsingWesterosSink s \<and> soc_StartsWith name ''westerossink'')
       \<or> (isRialto \<and> soc_StartsWith name ''rialtomsevideosink''))"

definition IsVideoSink :: "soc \<Rightarrow> string \<Rightarrow> bool \<Rightarrow> bool" where
  "IsVideoSink s name isRialto =
     (case soc_platform s of
        SOC_PLATFORM_DEFAULT \<Rightarrow> IsVideoSink_default s name isRialto
      | SOC_PLATFORM_AMLOGIC \<Rightarrow> IsVideoSink_amlogic s name isRialto
      | SOC_PLATFORM_REALTEK \<Rightarrow> IsVideoSink_realtek s name isRialto
      | SOC_PLATFORM_BROADCOM \<Rightarrow> IsVideoSink_brcm s name isRialto)"

lemmas IsVideoSink_classes = IsVideoSink_def IsVideoSink_default_def IsVideoSink_amlogic_def IsVideoSink_realtek_def IsVideoSink_brcm_def

definition IsAudioSinkOrAudioDecoder_default :: "soc \<Rightarrow> string \<Rightarrow> bool \<Rightarrow> bool" where
  "IsAudioSinkOrAudioDecoder_default s name isRialto =
     False"

definition IsAudioSinkOrAudioDecoder_amlogic :: "soc \<Rightarrow> string \<Rightarrow> bool \<Rightarrow> bool" where
  "IsAudioSinkOrAudioDecoder_amlogic s name isRialto =
     soc_StartsWith name ''amlhalasink''"

definition IsAudioSinkOrAudioDecoder_realtek :: "soc \<Rightarrow> string \<Rightarrow> bool \<Rightarrow> bool" where
  "IsAudioSinkOrAudioDecoder_realtek s name isRialto =
     (soc_StartsWith name ''rtkaudiosink'' \<or> soc_StartsWith name ''alsasink'' \<or> soc_StartsWith name ''fakesink''
       \<or> (isRialto \<and> soc_StartsWith name ''rialtomseaudiosink''))"

definition IsAudioSinkOrAudioDecoder_brcm :: "soc \<Rightarrow> string \<Rightarrow> bool \<Rightarrow> bool" where
  "IsAudioSinkOrAudioDecoder_brcm s name isRialto =
     soc_StartsWith name ''brcmaudiodecoder''"

definition IsAudioSinkOrAudioDecoder :: "soc \<Rightarrow> string \<Rightarrow> bool \<Rightarrow> bool" where
  "IsAudioSinkOrAudioDecoder s name isRialto =
     (case soc_platform s of
        SOC_PLATFORM_DEFAULT \<Rightarrow> IsAudioSinkOrAudioDecoder_default s name isRialto
      | SOC_PLATFORM_AMLOGIC \<Rightarrow> IsAudioSinkOrAudioDecoder_amlogic s name isRialto
      | SOC_PLATFORM_REALTEK \<Rightarrow> IsAudioSinkOrAudioDecoder_realtek s name isRialto
      | SOC_PLATFORM_BROADCOM \<Rightarrow> IsAudioSinkOrAudioDecoder_brcm s name isRialto)"

lemmas IsAudioSinkOrAudioDecoder_classes = IsAudioSinkOrAudioDecoder_def IsAudioSinkOrAudioDecoder_default_def IsAudioSinkOrAudioDecoder_amlogic_def IsAudioSinkOrAudioDecoder_realtek_def IsAudioSinkOrAudioDecoder_brcm_def

definition IsVideoDecoder_default :: "soc \<Rightarrow> string \<Rightarrow> bool \<Rightarrow> bool" where
  "IsVideoDecoder_default s name isRialto =
     (if mUsingWesterosSink s then soc_StartsWith name ''westerossink'' else if isRialto then soc_StartsWith name ''rialtomsevideosink''
      else False)"

definition IsVideoDecoder_amlogic :: "soc \<Rightarrow> string \<Rightarrow> bool \<Rightarrow> bool" where
  "IsVideoDecoder_amlogic s name isRialto =
     (if mUsingWesterosSink s then soc_StartsWith name ''westerossink'' else if isRialto then soc_StartsWith name ''rialtomsevideosink''
      else False)"

definition IsVideoDecoder_realtek :: "soc \<Rightarrow> string \<Rightarrow> bool \<Rightarrow> bool" where
  "IsVideoDecoder_realtek s name isRialto =
     (soc_StartsWith name ''omxwmvdec'' \<or> soc_StartsWith name ''omxh26'' \<or> soc_StartsWith name ''omxav1dec'' \<or> soc_StartsWith name ''omxvp'' \<or> soc_StartsWith name ''omxmpeg'')"

definition IsVideoDecoder_brcm :: "soc \<Rightarrow> string \<Rightarrow> bool \<Rightarrow> bool" where
  "IsVideoDecoder_brcm s name isRialto =
     (if mUsingWesterosSink s then soc_StartsWith name ''westerossink'' else if isRialto then soc_StartsWith name ''rialtomsevideosink''
      else soc_StartsWith name ''brcmvideodecoder'')"

definition IsVideoDecoder :: "soc \<Rightarrow> string \<Rightarrow> bool \<Rightarrow> bool" where
  "IsVideoDecoder s name isRialto =
     (case soc_platform s of
        SOC_PLATFORM_DEFAULT \<Rightarrow> IsVideoDecoder_default s name isRialto
      | SOC_PLATFORM_AMLOGIC \<Rightarrow> IsVideoDecoder_amlogic s name isRialto
      | SOC_PLATFORM_REALTEK \<Rightarrow> IsVideoDecoder_realtek s name isRialto
      | SOC_PLATFORM_BROADCOM \<Rightarrow> IsVideoDecoder_brcm s name isRialto)"

lemmas IsVideoDecoder_classes = IsVideoDecoder_def IsVideoDecoder_default_def IsVideoDecoder_amlogic_def IsVideoDecoder_realtek_def IsVideoDecoder_brcm_def

definition IsAudioOrVideoDecoder_default :: "soc \<Rightarrow> string \<Rightarrow> bool \<Rightarrow> bool" where
  "IsAudioOrVideoDecoder_default s name isRialto =
     ((mUsingWesterosSink s \<and> soc_StartsWith name ''westerossink'') \<or> (isRialto \<and> soc_StartsWith name ''rialtomse''))"

definition IsAudioOrVideoDecoder_amlogic :: "soc \<Rightarrow> string \<Rightarrow> bool \<Rightarrow> bool" where
  "IsAudioOrVideoDecoder_amlogic s name isRialto =
     ((mUsingWesterosSink s \<and> soc_StartsWith name ''westerossink'') \<or> (isRialto \<and> soc_StartsWith name ''rialtomse''))"

definition IsAudioOrVideoDecoder_realtek :: "soc \<Rightarrow> string \<Rightarrow> bool \<Rightarrow> bool" where
  "IsAudioOrVideoDecoder_realtek s name isRialto =
     (soc_StartsWith name ''omx'' \<or> (isRialto \<and> soc_StartsWith name ''rialtomse''))"

definition IsAudioOrVideoDecoder_brcm :: "soc \<Rightarrow> string \<Rightarrow> bool \<Rightarrow> bool" where
  "IsAudioOrVideoDecoder_brcm s name isRialto =
     ((\<not> mUsingWesterosSink s \<and> soc_StartsWith name ''brcmvideodecoder'') \<or> soc_StartsWith name ''brcmaudiodecoder''
       \<or> (mUsingWesterosSink s \<and> soc_StartsWith name ''westerossink'') \<or> (isRialto \<and> soc_StartsWith name ''rialtomse''))"

definition IsAudioOrVideoDecoder :: "soc \<Rightarrow> string \<Rightarrow> bool \<Rightarrow> bool" where
  "IsAudioOrVideoDecoder s name isRialto =
     (case soc_platform s of
        SOC_PLATFORM_DEFAULT \<Rightarrow> IsAudioOrVideoDecoder_default s name isRialto
      | SOC_PLATFORM_AMLOGIC \<Rightarrow> IsAudioOrVideoDecoder_amlogic s name isRialto
      | SOC_PLATFORM_REALTEK \<Rightarrow> IsAudioOrVideoDecoder_realtek s name isRialto
      | SOC_PLATFORM_BROADCOM \<Rightarrow> IsAudioOrVideoDecoder_brcm s name isRialto)"

lemmas IsAudioOrVideoDecoder_classes = IsAudioOrVideoDecoder_def IsAudioOrVideoDecoder_default_def IsAudioOrVideoDecoder_amlogic_def IsAudioOrVideoDecoder_realtek_def IsAudioOrVideoDecoder_brcm_def

text \<open>The elements of the realtek platform that get the auxiliary audio properties.\<close>

definition contains_str :: "string \<Rightarrow> string \<Rightarrow> bool" where
  "contains_str haystack needle \<longleftrightarrow> list_ex (\<lambda>i. soc_StartsWith (drop i haystack) needle) [0..<length haystack + 1]"

definition SetAudioRoutingProperties :: "soc \<Rightarrow> elem \<Rightarrow> string \<Rightarrow> gst_action list" where
  "SetAudioRoutingProperties s source name =
     (if soc_platform s = SOC_PLATFORM_REALTEK
         \<and> list_ex (contains_str name) [''omxaacdec'', ''omxac3dec'', ''omxeac3dec'', ''omxmp3dec'', ''omxvorbisdec'', ''omxac4dec'']
      then [SetProp source ''audio-tunnel-mode'' (PBool False), SetProp source ''aux-audio'' (PBool True)] else [])"

section \<open>Calls to elements\<close>

text \<open>The names of the volume and the mute property and whether they belong to the sink bin.\<close>

definition SetAudioProperty_default :: "soc \<Rightarrow> string option \<times> string option \<times> bool" where
  "SetAudioProperty_default s  =
     (Some ''volume'', Some ''mute'', on_apple s)"

definition SetAudioProperty_amlogic :: "soc \<Rightarrow> string option \<times> string option \<times> bool" where
  "SetAudioProperty_amlogic s  =
     (Some ''stream-volume'', None, False)"

definition SetAudioProperty_realtek :: "soc \<Rightarrow> string option \<times> string option \<times> bool" where
  "SetAudioProperty_realtek s  =
     (Some ''volume'', Some ''mute'', True)"

definition SetAudioProperty_brcm :: "soc \<Rightarrow> string option \<times> string option \<times> bool" where
  "SetAudioProperty_brcm s  =
     (Some ''volume'', Some ''mute'', False)"

definition SetAudioProperty :: "soc \<Rightarrow> string option \<times> string option \<times> bool" where
  "SetAudioProperty s  =
     (case soc_platform s of
        SOC_PLATFORM_DEFAULT \<Rightarrow> SetAudioProperty_default s 
      | SOC_PLATFORM_AMLOGIC \<Rightarrow> SetAudioProperty_amlogic s 
      | SOC_PLATFORM_REALTEK \<Rightarrow> SetAudioProperty_realtek s 
      | SOC_PLATFORM_BROADCOM \<Rightarrow> SetAudioProperty_brcm s )"

lemmas SetAudioProperty_classes = SetAudioProperty_def SetAudioProperty_default_def SetAudioProperty_amlogic_def SetAudioProperty_realtek_def SetAudioProperty_brcm_def

definition SetSeamlessSwitch :: "soc \<Rightarrow> elem option \<Rightarrow> bool \<Rightarrow> gst_action list" where
  "SetSeamlessSwitch s sink v =
     (case sink of Some e \<Rightarrow> if soc_platform s = SOC_PLATFORM_AMLOGIC then [SetProp e ''seamless-switch'' (PBool v)] else []
      | None \<Rightarrow> [])"

definition AudioOnlyMode :: "gst_env \<Rightarrow> history \<Rightarrow> soc \<Rightarrow> elem \<Rightarrow> bool" where
  "AudioOnlyMode env h s sinkbin =
     (soc_platform s = SOC_PLATFORM_AMLOGIC \<and> (case get_int env h sinkbin ''n-audio'' of Some n \<Rightarrow> 0 < n | None \<Rightarrow> False))"

fun send_rate_seeks :: "gst_env \<Rightarrow> history \<Rightarrow> elem list \<Rightarrow> real \<Rightarrow> bool \<Rightarrow> bool \<times> gst_action list" where
  "send_rate_seeks env h [] r status = (status, [])"
| "send_rate_seeks env h (source # rest) r status =
     (let a = PushPadEvent source (InstantRateSeek r);
          (st, as) = send_rate_seeks env (h @ [a]) rest r (status \<or> event_ret env (h @ [a]))
      in (st, a # as))"

definition SetPlaybackRate_default ::
  "gst_env \<Rightarrow> history \<Rightarrow> soc \<Rightarrow> elem list \<Rightarrow> elem option \<Rightarrow> real \<Rightarrow> elem option \<Rightarrow> elem option \<Rightarrow> bool \<times> gst_action list" where
  "SetPlaybackRate_default env h s sources pipeline r video_dec audio_dec =
     (False, [])"

definition SetPlaybackRate_amlogic ::
  "gst_env \<Rightarrow> history \<Rightarrow> soc \<Rightarrow> elem list \<Rightarrow> elem option \<Rightarrow> real \<Rightarrow> elem option \<Rightarrow> elem option \<Rightarrow> bool \<times> gst_action list" where
  "SetPlaybackRate_amlogic env h s sources pipeline r video_dec audio_dec =
     send_rate_seeks env h sources r False"

definition SetPlaybackRate_realtek ::
  "gst_env \<Rightarrow> history \<Rightarrow> soc \<Rightarrow> elem list \<Rightarrow> elem option \<Rightarrow> real \<Rightarrow> elem option \<Rightarrow> elem option \<Rightarrow> bool \<times> gst_action list" where
  "SetPlaybackRate_realtek env h s sources pipeline r video_dec audio_dec =
     (case pipeline of
        None \<Rightarrow> (False, [])
      | Some p \<Rightarrow> let a = SendElementEvent p (CustomRateChange r) in (event_ret env (h @ [a]), [a]))"

definition SetPlaybackRate_brcm ::
  "gst_env \<Rightarrow> history \<Rightarrow> soc \<Rightarrow> elem list \<Rightarrow> elem option \<Rightarrow> real \<Rightarrow> elem option \<Rightarrow> elem option \<Rightarrow> bool \<times> gst_action list" where
  "SetPlaybackRate_brcm env h s sources pipeline r video_dec audio_dec =
     (let va = (case video_dec of None \<Rightarrow> [] | Some v \<Rightarrow> [SendElementEvent v (CustomRateChange r)]);
          vok = (va = [] \<or> event_ret env (h @ va));
          aa = (case audio_dec of None \<Rightarrow> [] | Some a \<Rightarrow> [SendElementEvent a (CustomRateChange r)]);
          aok = (aa = [] \<or> event_ret env (h @ va @ aa))
      in (vok \<and> aok, va @ aa))"

definition SetPlaybackRate ::
  "gst_env \<Rightarrow> history \<Rightarrow> soc \<Rightarrow> elem list \<Rightarrow> elem option \<Rightarrow> real \<Rightarrow> elem option \<Rightarrow> elem option \<Rightarrow> bool \<times> gst_action list" where
  "SetPlaybackRate env h s sources pipeline r video_dec audio_dec =
     (case soc_platform s of
        SOC_PLATFORM_DEFAULT \<Rightarrow> SetPlaybackRate_default env h s sources pipeline r video_dec audio_dec
      | SOC_PLATFORM_AMLOGIC \<Rightarrow> SetPlaybackRate_amlogic env h s sources pipeline r video_dec audio_dec
      | SOC_PLATFORM_REALTEK \<Rightarrow> SetPlaybackRate_realtek env h s sources pipeline r video_dec audio_dec
      | SOC_PLATFORM_BROADCOM \<Rightarrow> SetPlaybackRate_brcm env h s sources pipeline r video_dec audio_dec)"

lemmas SetPlaybackRate_classes = SetPlaybackRate_def SetPlaybackRate_default_def SetPlaybackRate_amlogic_def
  SetPlaybackRate_realtek_def SetPlaybackRate_brcm_def

definition SetAC4Tracks :: "elem \<Rightarrow> int \<Rightarrow> gst_action list" where
  "SetAC4Tracks src trackId = [SetProp src ''ac4-presentation-group-index'' (PInt trackId)]"

text \<open>The new audio sink, if it is one, and what is set on the element. The default class passes the address of
  the pointer where \<^verbatim>\<open>g_object_set\<close> expects the object, which is undefined.\<close>

definition ConfigureAudioSink_default :: "soc \<Rightarrow> elem option \<Rightarrow> elem \<Rightarrow> string \<Rightarrow> bool \<Rightarrow> (bool \<times> elem option \<times> gst_action list) res" where
  "ConfigureAudioSink_default s audio_sink src name decStreamSync =
     (if soc_StartsWith name ''amlhalasink'' then Inl Undefined else Inr (False, audio_sink, []))"

definition ConfigureAudioSink_amlogic :: "soc \<Rightarrow> elem option \<Rightarrow> elem \<Rightarrow> string \<Rightarrow> bool \<Rightarrow> (bool \<times> elem option \<times> gst_action list) res" where
  "ConfigureAudioSink_amlogic s audio_sink src name decStreamSync =
     Inr (if soc_StartsWith name ''amlhalasink'' then (True, Some src, [SetProp src ''disable-xrun'' (PBool True)])
          else (False, audio_sink, []))"

definition ConfigureAudioSink_realtek :: "soc \<Rightarrow> elem option \<Rightarrow> elem \<Rightarrow> string \<Rightarrow> bool \<Rightarrow> (bool \<times> elem option \<times> gst_action list) res" where
  "ConfigureAudioSink_realtek s audio_sink src name decStreamSync =
     Inr (if soc_StartsWith name ''rtkaudiosink'' \<or> soc_StartsWith name ''alsasink'' \<or> soc_StartsWith name ''fakesink''
          then (True, Some src, []) else (False, audio_sink, []))"

definition ConfigureAudioSink_brcm :: "soc \<Rightarrow> elem option \<Rightarrow> elem \<Rightarrow> string \<Rightarrow> bool \<Rightarrow> (bool \<times> elem option \<times> gst_action list) res" where
  "ConfigureAudioSink_brcm s audio_sink src name decStreamSync =
     Inr (if soc_StartsWith name ''brcmaudiosink'' then (True, Some src, [])
          else if contains_str name ''brcmaudiodecoder''
          then (False, audio_sink, [SetProp src ''limit_buffering_ms'' (PInt 1500), SetProp src ''limit_buffering'' (PInt 1),
                 SetProp src ''stream_sync_mode'' (PInt (if decStreamSync then 1 else 0))])
          else (False, audio_sink, []))"

definition ConfigureAudioSink :: "soc \<Rightarrow> elem option \<Rightarrow> elem \<Rightarrow> string \<Rightarrow> bool \<Rightarrow> (bool \<times> elem option \<times> gst_action list) res" where
  "ConfigureAudioSink s audio_sink src name decStreamSync =
     (case soc_platform s of
        SOC_PLATFORM_DEFAULT \<Rightarrow> ConfigureAudioSink_default s audio_sink src name decStreamSync
      | SOC_PLATFORM_AMLOGIC \<Rightarrow> ConfigureAudioSink_amlogic s audio_sink src name decStreamSync
      | SOC_PLATFORM_REALTEK \<Rightarrow> ConfigureAudioSink_realtek s audio_sink src name decStreamSync
      | SOC_PLATFORM_BROADCOM \<Rightarrow> ConfigureAudioSink_brcm s audio_sink src name decStreamSync)"

lemmas ConfigureAudioSink_classes = ConfigureAudioSink_def ConfigureAudioSink_default_def ConfigureAudioSink_amlogic_def ConfigureAudioSink_realtek_def ConfigureAudioSink_brcm_def

definition DisableAsyncAudio :: "gst_env \<Rightarrow> history \<Rightarrow> soc \<Rightarrow> elem option \<Rightarrow> int \<Rightarrow> bool \<Rightarrow> bool \<times> gst_action list" where
  "DisableAsyncAudio env h s audio_sink r isSeeking =
     (case audio_sink of
        Some e \<Rightarrow> if soc_platform s = SOC_PLATFORM_REALTEK \<and> (r > 1 \<or> r < 0 \<or> isSeeking) \<and> async_enabled env h e
                  then (True, [SinkAsync e False]) else (False, [])
      | None \<Rightarrow> (False, []))"

definition SetSinkAsync :: "soc \<Rightarrow> elem option \<Rightarrow> bool \<Rightarrow> gst_action list" where
  "SetSinkAsync s sink status =
     (case sink of Some e \<Rightarrow> if soc_platform s = SOC_PLATFORM_REALTEK then [SinkAsync e status] else [] | None \<Rightarrow> [])"

definition SetVideoBufferSize :: "soc \<Rightarrow> elem \<Rightarrow> int \<Rightarrow> gst_action list" where
  "SetVideoBufferSize s sink sz =
     (if soc_platform s = SOC_PLATFORM_REALTEK
      then [SetProp sink ''buffer-size'' (PInt sz), SetProp sink ''buffer-duration'' (PInt 3000000000)] else [])"

definition SetFreerunThreshold :: "soc \<Rightarrow> elem \<Rightarrow> gst_action list" where
  "SetFreerunThreshold s src = (if soc_platform s = SOC_PLATFORM_REALTEK then [SetProp src ''freerun-threshold'' (PInt 12)] else [])"

definition SetDecodeError :: "elem \<Rightarrow> gst_action list" where
  "SetDecodeError src = [SetProp src ''report_decode_errors'' (PBool True)]"

definition video_pts :: "gst_env \<Rightarrow> history \<Rightarrow> elem option \<Rightarrow> int" where
  "video_pts env h e =
     (case e of None \<Rightarrow> 0 | Some x \<Rightarrow> (case get_int env h x ''video-pts'' of Some v \<Rightarrow> v | None \<Rightarrow> 0))"

definition GetVideoPts_realtek :: "gst_env \<Rightarrow> history \<Rightarrow> elem option \<Rightarrow> int" where
  "GetVideoPts_realtek env h video_sink = video_pts env h video_sink"

definition GetVideoPts_base :: "gst_env \<Rightarrow> history \<Rightarrow> elem option \<Rightarrow> bool \<Rightarrow> int" where
  "GetVideoPts_base env h video_dec isWesteros = (if isWesteros then 1 else 2) * video_pts env h video_dec"

definition GetVideoPts :: "gst_env \<Rightarrow> history \<Rightarrow> soc \<Rightarrow> elem option \<Rightarrow> elem option \<Rightarrow> bool \<Rightarrow> int" where
  "GetVideoPts env h s video_sink video_dec isWesteros =
     (if soc_platform s = SOC_PLATFORM_REALTEK then GetVideoPts_realtek env h video_sink
      else GetVideoPts_base env h video_dec isWesteros)"

text \<open>The flags of the play bin: video 1, audio 2, text 4, soft volume 16, native audio 32, native video 64.\<close>

definition SetPlaybackFlags_default :: "soc \<Rightarrow> int \<Rightarrow> bool \<Rightarrow> int" where
  "SetPlaybackFlags_default s flags isSub =
     (if isSub then 4 else if on_apple s then flags else 1 + 2 + 16)"

definition SetPlaybackFlags_amlogic :: "soc \<Rightarrow> int \<Rightarrow> bool \<Rightarrow> int" where
  "SetPlaybackFlags_amlogic s flags isSub =
     (if isSub then 4 else 1 + 2 + 16)"

definition SetPlaybackFlags_realtek :: "soc \<Rightarrow> int \<Rightarrow> bool \<Rightarrow> int" where
  "SetPlaybackFlags_realtek s flags isSub =
     (if isSub then 4 else 1 + 2 + 32 + 64 + 16)"

definition SetPlaybackFlags_brcm :: "soc \<Rightarrow> int \<Rightarrow> bool \<Rightarrow> int" where
  "SetPlaybackFlags_brcm s flags isSub =
     (if isSub then 4 else 1 + 2 + 32 + 64)"

definition SetPlaybackFlags :: "soc \<Rightarrow> int \<Rightarrow> bool \<Rightarrow> int" where
  "SetPlaybackFlags s flags isSub =
     (case soc_platform s of
        SOC_PLATFORM_DEFAULT \<Rightarrow> SetPlaybackFlags_default s flags isSub
      | SOC_PLATFORM_AMLOGIC \<Rightarrow> SetPlaybackFlags_amlogic s flags isSub
      | SOC_PLATFORM_REALTEK \<Rightarrow> SetPlaybackFlags_realtek s flags isSub
      | SOC_PLATFORM_BROADCOM \<Rightarrow> SetPlaybackFlags_brcm s flags isSub)"

lemmas SetPlaybackFlags_classes = SetPlaybackFlags_def SetPlaybackFlags_default_def SetPlaybackFlags_amlogic_def SetPlaybackFlags_realtek_def SetPlaybackFlags_brcm_def

end
