(* ===== verification/Gst_Player.thy ===== *)
theory Gst_Player
  imports Soc_Interface Scheduler
begin

text \<open>
  The GStreamer player of \<^verbatim>\<open>InterfacePlayerRDK.cpp\<close>: its state and the operations that build, stop, flush and
  configure the pipeline. A player holds the scheduler of the theory \<open>Scheduler\<close>; scheduling and removing a task
  are the sections of that theory that the lock makes atomic. \<open>pl_trace\<close> is the history of all actions. Elements
  are numbers, a null pointer is \<open>None\<close>. Times in seconds, \<^verbatim>\<open>double\<close> in the code, are exact reals.
\<close>

section \<open>State\<close>

text \<open>\<^verbatim>\<open>Configs\<close>, the fields that the modelled code reads.\<close>

record configs =
  cf_media :: gst_media_format
  cf_eosInjectionStopOnly :: bool
  cf_enableDisconnectSignals :: bool
  cf_framesToQueue :: int
  cf_vodTrickModeFPS :: int
  cf_enableGstPosQuery :: bool
  cf_enablePTSReStamp :: bool
  cf_enableRectPropertyCfg :: bool
  cf_audioDecoderStreamSync :: bool
  cf_gstreamerBufferingBeforePlay :: bool
  cf_seiTimeCode :: bool
  cf_useWesterosSink :: bool
  cf_useRialtoSink :: bool
  cf_gstLogging :: bool
  cf_monitorAV :: bool
  cf_disableUnderflow :: bool
  cf_audioOnlyMode :: bool
  cf_progressTimer :: real
  cf_avsyncPositiveMs :: int
  cf_avsyncNegativeMs :: int
  cf_avJumpMs :: int
  cf_gstreamerSubsEnabled :: bool
  cf_tcpServerSink :: bool
  cf_tcpPort :: int
  cf_appSrcForProgressivePlayback :: bool
  cf_seamlessAudioSwitch :: bool
  cf_videoBufBytes :: int
  cf_audioBufBytes :: int
  cf_useMp4Demux :: bool
  cf_networkProxy :: string

record gst_media_stream =
  st_sinkbin :: "elem option"
  st_source :: "elem option"
  st_format :: stream_format
  st_pendingSeek :: bool
  st_resetPosition :: bool
  st_bufferUnderrun :: bool
  st_eosReached :: bool
  st_sourceConfigured :: bool
  st_trackId :: int
  st_firstBufferProcessed :: bool
  st_demuxPad :: nat
  st_demuxProbeId :: nat

definition new_media_stream :: gst_media_stream where
  "new_media_stream = \<lparr>st_sinkbin = None, st_source = None, st_format = GST_FORMAT_INVALID, st_pendingSeek = False,
     st_resetPosition = False, st_bufferUnderrun = False, st_eosReached = False, st_sourceConfigured = False,
     st_trackId = - 1, st_firstBufferProcessed = False, st_demuxPad = 0, st_demuxProbeId = 0\<rparr>"

record task_control =
  taskID :: int
  taskIsPending :: bool

text \<open>\<^verbatim>\<open>MonitorAVState\<close>; the description is \<open>None\<close> for the null pointer.\<close>

record monitor_state =
  mo_tLastReported :: int
  mo_tLastSampled :: int
  mo_description :: "string option"
  mo_position :: "int \<times> int"
  mo_happy :: bool

record gst_signal =
  sg_instance :: "elem option"
  sg_id :: nat

record player =
  pl_cfg :: configs
  pl_soc :: soc
  pl_stream :: "gst_media_stream list"
  pipeline :: "elem option"
  bus :: "nat option"
  video_dec :: "elem option"
  audio_dec :: "elem option"
  video_sink :: "elem option"
  audio_sink :: "elem option"
  subtitle_sink :: "elem option"
  pl_task_pool :: bool
  pl_rate :: int
  pl_zoom :: int
  videoMuted :: bool
  audioMuted :: bool
  subtitleMuted :: bool
  audioVolume :: real
  firstProgressCallbackIdleTask :: task_control
  firstVideoFrameDisplayedCallbackTask :: task_control
  periodicProgressCallbackIdleTaskId :: nat
  bufferingTimeoutTimerId :: nat
  ptsCheckForEosOnUnderflowIdleTaskId :: nat
  eosCallbackIdleTaskId :: int
  eosCallbackIdleTaskPending :: bool
  firstFrameCallbackIdleTaskId :: int
  firstFrameCallbackIdleTaskPending :: bool
  firstFrameReceived :: bool
  firstVideoFrameReceived :: bool
  firstAudioFrameReceived :: bool
  pendingPlayState :: bool
  decoderHandleNotified :: bool
  protectionEvent :: "nat option list"
  using_westerossink :: bool
  usingRialtoSink :: bool
  videoRectangle :: string
  pauseOnStartPlayback :: bool
  eosSignalled :: bool
  buffering_enabled :: bool
  buffering_in_progress :: bool
  buffering_timeout_cnt :: u32
  buffering_target_state :: gst_state
  lastKnownPTS :: int
  ptsUpdatedTimeMS :: int
  numberOfVideoBuffersSent :: int
  segmentStart :: int
  positionQuery :: bool
  pl_paused :: bool
  pipelineState :: gst_state
  firstTuneWithWesterosSinkOff :: bool
  decodeErrorMsgTimeMS :: int
  decodeErrorCBCount :: int
  forwardAudioBuffers :: bool
  enableSEITimeCode :: bool
  NumberOfTracks :: int
  filterAudioDemuxBuffers :: bool
  seekPosition :: real
  monitorAVstate :: monitor_state
  mCallBackIdentifiers :: "gst_signal list"
  trickTeardown :: bool
  PipelineSetToReady :: bool
  mFirstFrameRequired :: bool
  mPauseInjector :: bool
  mScheduler :: sched
  pl_trace :: history

section \<open>The constructor\<close>

definition new_task_control :: task_control where "new_task_control = \<lparr>taskID = 0, taskIsPending = False\<rparr>"

definition new_monitor_state :: monitor_state where
  "new_monitor_state = \<lparr>mo_tLastReported = 0, mo_tLastSampled = 0, mo_description = None, mo_position = (0, 0),
     mo_happy = False\<rparr>"

text \<open>The constructor starts the scheduler. It leaves \<^verbatim>\<open>trickTeardown\<close>, \<^verbatim>\<open>PipelineSetToReady\<close> and
  \<^verbatim>\<open>mFirstFrameRequired\<close> uninitialised: their first values are an argument.\<close>

definition InterfacePlayerRDK :: "bool \<times> bool \<times> bool \<Rightarrow> configs \<Rightarrow> soc \<Rightarrow> sched \<Rightarrow> player" where
  "InterfacePlayerRDK garbage cfg s started = \<lparr>pl_cfg = cfg\<lparr>cf_framesToQueue := RequiredQueuedFrames s\<rparr>, pl_soc = s,
     pl_stream = replicate GST_TRACK_COUNT new_media_stream, pipeline = None, bus = None, video_dec = None, audio_dec = None,
     video_sink = None, audio_sink = None, subtitle_sink = None, pl_task_pool = False, pl_rate = GST_NORMAL_PLAY_RATE,
     pl_zoom = 0, videoMuted = False, audioMuted = False, subtitleMuted = False, audioVolume = 1,
     firstProgressCallbackIdleTask = new_task_control, firstVideoFrameDisplayedCallbackTask = new_task_control,
     periodicProgressCallbackIdleTaskId = 0, bufferingTimeoutTimerId = 0, ptsCheckForEosOnUnderflowIdleTaskId = 0,
     eosCallbackIdleTaskId = 0, eosCallbackIdleTaskPending = False, firstFrameCallbackIdleTaskId = 0,
     firstFrameCallbackIdleTaskPending = False, firstFrameReceived = False, firstVideoFrameReceived = False,
     firstAudioFrameReceived = False, pendingPlayState = False, decoderHandleNotified = False,
     protectionEvent = replicate GST_TRACK_COUNT None, using_westerossink = False, usingRialtoSink = False,
     videoRectangle = [], pauseOnStartPlayback = False, eosSignalled = False, buffering_enabled = False,
     buffering_in_progress = False, buffering_timeout_cnt = 0, buffering_target_state = GST_STATE_NULL, lastKnownPTS = 0,
     ptsUpdatedTimeMS = 0, numberOfVideoBuffersSent = 0, segmentStart = 0, positionQuery = False, pl_paused = False,
     pipelineState = GST_STATE_NULL, firstTuneWithWesterosSinkOff = False, decodeErrorMsgTimeMS = 0, decodeErrorCBCount = 0,
     forwardAudioBuffers = False, enableSEITimeCode = True, NumberOfTracks = 0, filterAudioDemuxBuffers = False,
     seekPosition = 0, monitorAVstate = new_monitor_state, mCallBackIdentifiers = [], trickTeardown = fst garbage,
     PipelineSetToReady = fst (snd garbage), mFirstFrameRequired = snd (snd garbage), mPauseInjector = False,
     mScheduler = started, pl_trace = []\<rparr>"

section \<open>Actions and streams\<close>

definition emit :: "gst_action \<Rightarrow> player \<Rightarrow> player" where
  "emit a p = p\<lparr>pl_trace := pl_trace p @ [a]\<rparr>"

definition emits :: "gst_action list \<Rightarrow> player \<Rightarrow> player" where
  "emits as p = p\<lparr>pl_trace := pl_trace p @ as\<rparr>"

definition notify_app :: "app_event \<Rightarrow> player \<Rightarrow> player" where
  "notify_app ev p = emit (ToApp ev) p"

definition get_stream :: "nat \<Rightarrow> player \<Rightarrow> gst_media_stream" where
  "get_stream i p = pl_stream p ! i"

definition on_stream :: "nat \<Rightarrow> (gst_media_stream \<Rightarrow> gst_media_stream) \<Rightarrow> player \<Rightarrow> player" where
  "on_stream i f p = p\<lparr>pl_stream := (pl_stream p)[i := f (pl_stream p ! i)]\<rparr>"

definition on_streams :: "(gst_media_stream \<Rightarrow> gst_media_stream) \<Rightarrow> player \<Rightarrow> player" where
  "on_streams f p = p\<lparr>pl_stream := map f (pl_stream p)\<rparr>"

definition unref_opt :: "elem option \<Rightarrow> gst_action list" where
  "unref_opt e = (case e of None \<Rightarrow> [] | Some x \<Rightarrow> [Unref x])"

definition IsPipelinePaused :: "player \<Rightarrow> bool" where "IsPipelinePaused p = pl_paused p"

definition EnablePendingPlayState :: "player \<Rightarrow> player" where
  "EnablePendingPlayState p = p\<lparr>pendingPlayState := True\<rparr>"

definition SetPauseOnStartPlayback :: "bool \<Rightarrow> player \<Rightarrow> player" where
  "SetPauseOnStartPlayback b p = p\<lparr>pauseOnStartPlayback := b\<rparr>"

definition SetPendingSeek :: "bool \<Rightarrow> player \<Rightarrow> player" where
  "SetPendingSeek b p = on_streams (\<lambda>s. s\<lparr>st_pendingSeek := b\<rparr>) p"

definition SetSeekPosition :: "real \<Rightarrow> player \<Rightarrow> player" where
  "SetSeekPosition positionSecs p = on_streams (\<lambda>s. s\<lparr>st_pendingSeek := True\<rparr>) (p\<lparr>seekPosition := positionSecs\<rparr>)"

definition ResetGstEvents :: "player \<Rightarrow> player" where
  "ResetGstEvents p = on_streams (\<lambda>s. s\<lparr>st_resetPosition := True, st_pendingSeek := False, st_eosReached := False,
     st_firstBufferProcessed := False\<rparr>) p"

definition SetTrickTearDown :: "bool \<Rightarrow> player \<Rightarrow> player" where
  "SetTrickTearDown b p = p\<lparr>trickTeardown := b\<rparr>"

definition ResetEOSSignalledFlag :: "player \<Rightarrow> player" where "ResetEOSSignalledFlag p = p\<lparr>eosSignalled := False\<rparr>"

definition ResetFirstFrame :: "player \<Rightarrow> player" where "ResetFirstFrame p = p\<lparr>firstFrameReceived := False\<rparr>"

definition DisableDecoderHandleNotified :: "player \<Rightarrow> player" where
  "DisableDecoderHandleNotified p = p\<lparr>decoderHandleNotified := False\<rparr>"

definition PauseInjector :: "player \<Rightarrow> player" where "PauseInjector p = p\<lparr>mPauseInjector := True\<rparr>"

definition ResumeInjector :: "player \<Rightarrow> player" where "ResumeInjector p = p\<lparr>mPauseInjector := False\<rparr>"

text \<open>\<^verbatim>\<open>GstPlayer_SignalEOS\<close> for one stream and for all of them.\<close>

definition SignalEOS :: "nat \<Rightarrow> player \<Rightarrow> player" where
  "SignalEOS i p = (case st_source (get_stream i p) of None \<Rightarrow> p | Some e \<Rightarrow> emit (EndOfStream e) p)"

definition SignalEOS_all :: "player \<Rightarrow> player" where
  "SignalEOS_all p = (case pipeline p of None \<Rightarrow> p | Some _ \<Rightarrow> fold SignalEOS [0..<GST_TRACK_COUNT] p)"

section \<open>Timers and tasks\<close>

text \<open>A reference to a field is its selector and its update. The kinds of tasks are numbers, the payload of a task
  of the scheduler.\<close>

definition FIRST_FRAME_TASK :: nat where "FIRST_FRAME_TASK = 0"
definition EOS_TASK :: nat where "EOS_TASK = 1"
definition IDLE_TASK :: nat where "IDLE_TASK = 2"
definition FRAME_DISPLAYED_TASK :: nat where "FRAME_DISPLAYED_TASK = 3"

lemmas task_kinds = FIRST_FRAME_TASK_def EOS_TASK_def IDLE_TASK_def FRAME_DISPLAYED_TASK_def

definition schedule_task :: "nat \<Rightarrow> player \<Rightarrow> int \<times> player" where
  "schedule_task kind p =
     (if sc_running (mScheduler p) then
        (case push_task \<lparr>task_id = 0, task_name = [], task_data = kind\<rparr> (mScheduler p) of
           (TaskId i, s) \<Rightarrow> (i, p\<lparr>mScheduler := s\<rparr>) | (_, s) \<Rightarrow> (PLAYER_TASK_ID_INVALID, p\<lparr>mScheduler := s\<rparr>))
      else (PLAYER_TASK_ID_INVALID, p))"

definition unschedule_task :: "int \<Rightarrow> player \<Rightarrow> player" where
  "unschedule_task i p = p\<lparr>mScheduler := snd (remove_task i (mScheduler p))\<rparr>"

definition TimerRemove :: "(player \<Rightarrow> nat) \<Rightarrow> ((nat \<Rightarrow> nat) \<Rightarrow> player \<Rightarrow> player) \<Rightarrow> player \<Rightarrow> player" where
  "TimerRemove get upd p = (if get p \<noteq> 0 then upd (\<lambda>_. 0) (emit (RemoveSource (get p)) p) else p)"

definition TimerAdd :: "gst_env \<Rightarrow> int \<Rightarrow> (player \<Rightarrow> nat) \<Rightarrow> ((nat \<Rightarrow> nat) \<Rightarrow> player \<Rightarrow> player) \<Rightarrow> player \<Rightarrow> player" where
  "TimerAdd env repeatTimeout get upd p =
     (if get p = 0 then let p = emit (AddTimer repeatTimeout) p in upd (\<lambda>_. timer_id env (pl_trace p)) p else p)"

definition TimerIsRunning :: "(player \<Rightarrow> nat) \<Rightarrow> player \<Rightarrow> bool" where "TimerIsRunning get p \<longleftrightarrow> get p \<noteq> 0"

definition IdleTaskRemove ::
  "(player \<Rightarrow> task_control) \<Rightarrow> ((task_control \<Rightarrow> task_control) \<Rightarrow> player \<Rightarrow> player) \<Rightarrow> player \<Rightarrow> bool \<times> player" where
  "IdleTaskRemove get upd p =
     (if taskID (get p) \<noteq> 0
      then (True, upd (\<lambda>_. \<lparr>taskID = 0, taskIsPending = False\<rparr>) (unschedule_task (taskID (get p)) p))
      else (False, upd (\<lambda>t. t\<lparr>taskIsPending := False\<rparr>) p))"

definition IdleTaskClearFlags :: "((task_control \<Rightarrow> task_control) \<Rightarrow> player \<Rightarrow> player) \<Rightarrow> player \<Rightarrow> player" where
  "IdleTaskClearFlags upd p = upd (\<lambda>_. \<lparr>taskID = 0, taskIsPending = False\<rparr>) p"

definition IdleTaskAdd ::
  "(player \<Rightarrow> task_control) \<Rightarrow> ((task_control \<Rightarrow> task_control) \<Rightarrow> player \<Rightarrow> player) \<Rightarrow> nat \<Rightarrow> player \<Rightarrow> bool \<times> player" where
  "IdleTaskAdd get upd kind p =
     (if taskID (get p) = 0
      then let (i, q) = schedule_task kind p in (i \<noteq> 0, upd (\<lambda>_. \<lparr>taskID = i, taskIsPending = (i \<noteq> 0)\<rparr>) q)
      else (False, p))"

section \<open>Stopping\<close>

definition SetStateWithWarnings :: "gst_env \<Rightarrow> elem option \<Rightarrow> gst_state \<Rightarrow> player \<Rightarrow> change_return \<times> player" where
  "SetStateWithWarnings env element targetState p =
     (case element of
        None \<Rightarrow> (GST_STATE_CHANGE_FAILURE, p)
      | Some e \<Rightarrow> let q = emit (SetElementState e targetState) p in (set_state_ret env (pl_trace q), q))"

definition RemoveProbe :: "nat \<Rightarrow> player \<Rightarrow> player" where
  "RemoveProbe i p =
     (let s = get_stream i p
      in if st_demuxProbeId s \<noteq> 0 \<and> st_demuxPad s \<noteq> 0
         then on_stream i (\<lambda>s. s\<lparr>st_demuxProbeId := 0, st_demuxPad := 0\<rparr>)
                (emit (RemovePadProbe (st_demuxPad s) (st_demuxProbeId s)) p)
         else p)"

definition RemoveProbes :: "player \<Rightarrow> player" where "RemoveProbes p = fold RemoveProbe [0..<GST_TRACK_COUNT] p"

definition disconnect_signal :: "gst_env \<Rightarrow> history \<Rightarrow> gst_signal \<Rightarrow> gst_action list" where
  "disconnect_signal env h d =
     (case sg_instance d of
        None \<Rightarrow> []
      | Some e \<Rightarrow> if sg_id d \<noteq> 0 \<and> in_pipeline env h e \<and> signal_connected env h e (sg_id d) then [DisconnectSignal e (sg_id d)]
                  else [])"

definition DisconnectSignals :: "gst_env \<Rightarrow> player \<Rightarrow> player" where
  "DisconnectSignals env p =
     (let p = (if cf_enableDisconnectSignals (pl_cfg p)
               then fold (\<lambda>d p. emits (disconnect_signal env (pl_trace p) d) p) (mCallBackIdentifiers p) p else p)
      in p\<lparr>mCallBackIdentifiers := []\<rparr>)"

text \<open>Releases the elements of the stream that are known outside of it.\<close>

definition clear_stream_elements :: "nat \<Rightarrow> player \<Rightarrow> player" where
  "clear_stream_elements i p =
     (if i = eGST_MEDIATYPE_VIDEO
      then (emits (unref_opt (video_dec p) @ unref_opt (video_sink p)) p)\<lparr>video_dec := None, video_sink := None\<rparr>
      else if i = eGST_MEDIATYPE_AUDIO
      then (emits (unref_opt (audio_dec p) @ unref_opt (audio_sink p)) p)\<lparr>audio_dec := None, audio_sink := None\<rparr>
      else if i = eGST_MEDIATYPE_SUBTITLE
      then (emits (unref_opt (subtitle_sink p)) p)\<lparr>subtitle_sink := None\<rparr>
      else p)"

definition detach_sinkbin :: "gst_env \<Rightarrow> nat \<Rightarrow> player \<Rightarrow> player" where
  "detach_sinkbin env i p =
     (case pipeline p of
        None \<Rightarrow> p
      | Some _ \<Rightarrow>
          let p = p\<lparr>buffering_in_progress := False\<rparr>
          in case st_sinkbin (get_stream i p) of
               None \<Rightarrow> p
             | Some e \<Rightarrow> emit (RemoveFromPipeline e) (snd (SetStateWithWarnings env (Some e) GST_STATE_NULL p)))"

definition release_stream :: "gst_env \<Rightarrow> nat \<Rightarrow> player \<Rightarrow> player" where
  "release_stream env i p =
     (if st_format (get_stream i p) = GST_FORMAT_INVALID then p
      else
        let p = detach_sinkbin env i p;
            p = (if i = eGST_MEDIATYPE_VIDEO then p\<lparr>decoderHandleNotified := False\<rparr> else p);
            s = get_stream i p;
            p = emits (unref_opt (st_sinkbin s) @ unref_opt (st_source s)) p
        in on_stream i (\<lambda>s. s\<lparr>st_format := GST_FORMAT_INVALID, st_sinkbin := None, st_source := None,
             st_sourceConfigured := False\<rparr>) p)"

definition TearDownStream :: "gst_env \<Rightarrow> nat \<Rightarrow> player \<Rightarrow> player" where
  "TearDownStream env i p =
     (let p = notify_app (TearDownCb True i) p;
          p = RemoveProbe i p;
          p = on_stream i (\<lambda>s. s\<lparr>st_bufferUnderrun := False, st_eosReached := False\<rparr>) p;
          p = release_stream env i p;
          p = clear_stream_elements i p
      in notify_app (TearDownCb False i) p)"

definition DestroyPipeline :: "player \<Rightarrow> player" where
  "DestroyPipeline p =
     (let p = (emits (unref_opt (pipeline p)) p)\<lparr>pipeline := None\<rparr>;
          p = (case bus p of None \<Rightarrow> p | Some b \<Rightarrow> (emits [RemoveBusWatch b, Unref b] p)\<lparr>bus := None\<rparr>)
      in p\<lparr>pl_task_pool := False, positionQuery := False, decoderHandleNotified := False, NumberOfTracks := 0\<rparr>)"

definition stop_eos_task :: "player \<Rightarrow> player" where
  "stop_eos_task p =
     (if eosCallbackIdleTaskPending p
      then (unschedule_task (eosCallbackIdleTaskId p) p)\<lparr>eosCallbackIdleTaskPending := False,
             eosCallbackIdleTaskId := PLAYER_TASK_ID_INVALID\<rparr>
      else p)"

definition stop_first_frame_task :: "player \<Rightarrow> player" where
  "stop_first_frame_task p =
     (if firstFrameCallbackIdleTaskPending p
      then (unschedule_task (firstFrameCallbackIdleTaskId p) p)\<lparr>firstFrameCallbackIdleTaskPending := False,
             firstFrameCallbackIdleTaskId := PLAYER_TASK_ID_INVALID\<rparr>
      else p)"

definition stop_timers :: "player \<Rightarrow> player" where
  "stop_timers p =
     TimerRemove ptsCheckForEosOnUnderflowIdleTaskId ptsCheckForEosOnUnderflowIdleTaskId_update
       (TimerRemove bufferingTimeoutTimerId bufferingTimeoutTimerId_update p)"

text \<open>The tasks and timers that \<^verbatim>\<open>Stop\<close> removes.\<close>

definition stop_tasks :: "player \<Rightarrow> player" where
  "stop_tasks p =
     (let p = snd (IdleTaskRemove firstProgressCallbackIdleTask firstProgressCallbackIdleTask_update p);
          p = TimerRemove periodicProgressCallbackIdleTaskId periodicProgressCallbackIdleTaskId_update p;
          p = stop_timers p;
          p = stop_eos_task p;
          p = stop_first_frame_task p
      in snd (IdleTaskRemove firstVideoFrameDisplayedCallbackTask firstVideoFrameDisplayedCallbackTask_update p))"

definition stop_pipeline :: "gst_env \<Rightarrow> player \<Rightarrow> player" where
  "stop_pipeline env p =
     (case pipeline p of
        None \<Rightarrow> p
      | Some e \<Rightarrow>
          let p = (if cf_eosInjectionStopOnly (pl_cfg p) then SignalEOS_all p else p)
          in snd (SetStateWithWarnings env (Some e) GST_STATE_NULL (p\<lparr>buffering_in_progress := False\<rparr>)))"

text \<open>The handlers that \<^verbatim>\<open>Stop\<close> disables and waits for, in this order. The last wait names the bus messages
  again, although it is there for the signal handlers.\<close>

definition stop_handlers :: "gst_env \<Rightarrow> player \<Rightarrow> player" where
  "stop_handlers env p =
     (let p = emits [ControlWait SyncControl 50, ControlWait AsyncControl 50, ControlDisable CallbackControl] p;
          p = DisconnectSignals env p
      in emit (ControlWait AsyncControl 100) p)"

definition Stop_player :: "gst_env \<Rightarrow> bool \<Rightarrow> player \<Rightarrow> player" where
  "Stop_player env keepLastFrame p =
     (let p = emits [ControlDisable SyncControl, ControlDisable AsyncControl] p;
          p = (case bus p of None \<Rightarrow> p | Some b \<Rightarrow> emit (RemoveBusWatch b) p);
          p = (if keepLastFrame then p
               else p\<lparr>firstFrameReceived := False, firstVideoFrameReceived := False, firstAudioFrameReceived := False\<rparr>);
          p = stop_tasks p;
          p = stop_handlers env p;
          p = RemoveProbes p;
          p = stop_pipeline env p;
          p = (if externals_active env (pl_trace p) then notify_app (SetGstElementCb None) p else p);
          p = fold (TearDownStream env) [0..<GST_TRACK_COUNT] p;
          p = DestroyPipeline p
      in p\<lparr>pl_rate := GST_NORMAL_PLAY_RATE, lastKnownPTS := 0, segmentStart := 0, pl_paused := False,
           pipelineState := GST_STATE_NULL, audioMuted := False, videoMuted := False, subtitleMuted := False,
           audioVolume := 1\<rparr>)"

section \<open>Flushing\<close>

text \<open>\<open>stopCb\<close> is what the application does when it is asked to stop the player for a recovery.\<close>

definition recovery_stop :: "(player \<Rightarrow> player) \<Rightarrow> int \<Rightarrow> player \<Rightarrow> player" where
  "recovery_stop stopCb rate p = (stopCb (notify_app (StopCb True) p))\<lparr>pl_rate := rate\<rparr>"

definition not_running :: "change_return \<times> gst_state \<times> gst_state \<Rightarrow> bool" where
  "not_running r = (case r of (ret, current, _) \<Rightarrow>
     current \<notin> {GST_STATE_PLAYING, GST_STATE_PAUSED} \<or> ret = GST_STATE_CHANGE_FAILURE)"

definition flush_position :: "player \<Rightarrow> int \<Rightarrow> real \<Rightarrow> real" where
  "flush_position p rate position =
     (if st_format (get_stream eGST_MEDIATYPE_VIDEO p) = GST_FORMAT_ISO_BMFF \<and> cf_media (pl_cfg p) \<noteq> eGST_MEDIAFORMAT_PROGRESSIVE
         \<and> (IsSimulatorSink (pl_soc p) \<or> usingRialtoSink p) \<and> rate \<noteq> GST_NORMAL_PLAY_RATE
      then 0 else position)"

definition flush_seek :: "gst_env \<Rightarrow> elem \<Rightarrow> real \<Rightarrow> int \<Rightarrow> bool \<Rightarrow> player \<Rightarrow> player" where
  "flush_seek env pl position rate bAsyncModify p =
     (let p = ResetGstEvents p;
          playRate = (if cf_media (pl_cfg p) = eGST_MEDIAFORMAT_PROGRESSIVE then of_int rate else 1);
          p = emit (SeekElement pl playRate (flush_position p rate position)) p;
          p = (if seek_ret env (pl_trace p) then p else SetPendingSeek True p);
          p = (if usingRialtoSink p \<and> audio_sink p \<noteq> None \<and> rate \<noteq> GST_NORMAL_PLAY_RATE
               then SignalEOS eGST_MEDIATYPE_AUDIO p else p);
          p = (if bAsyncModify then emits (SetSinkAsync (pl_soc p) (audio_sink p) True) p else p)
      in p\<lparr>eosSignalled := False, numberOfVideoBuffersSent := 0\<rparr>)"

definition flush_begin :: "real \<Rightarrow> int \<Rightarrow> player \<Rightarrow> player" where
  "flush_begin position rate p =
     (let p = p\<lparr>pl_rate := rate\<rparr>;
          p = on_stream eGST_MEDIATYPE_VIDEO (\<lambda>s. s\<lparr>st_bufferUnderrun := False\<rparr>) p;
          p = on_stream eGST_MEDIATYPE_AUDIO (\<lambda>s. s\<lparr>st_bufferUnderrun := False\<rparr>) p;
          p = stop_eos_task p;
          p = TimerRemove ptsCheckForEosOnUnderflowIdleTaskId ptsCheckForEosOnUnderflowIdleTaskId_update p;
          p = TimerRemove bufferingTimeoutTimerId bufferingTimeoutTimerId_update p
      in SetSeekPosition position p)"

definition Flush_player ::
  "gst_env \<Rightarrow> (player \<Rightarrow> player) \<Rightarrow> real \<Rightarrow> int \<Rightarrow> bool \<Rightarrow> bool \<Rightarrow> player \<Rightarrow> bool \<times> player" where
  "Flush_player env stopCb position rate shouldTearDown isAppSeek p =
     (let p = flush_begin position rate p
      in case pipeline p of
           None \<Rightarrow> (False, p)
         | Some pl \<Rightarrow>
             let (bAsyncModify, p) =
                   (if usingRialtoSink p then (False, p)
                    else let (b, as) = DisableAsyncAudio env (pl_trace p) (pl_soc p) (audio_sink p) rate isAppSeek;
                             p = emits as p
                         in (b, if audio_sink p \<noteq> None then SignalEOS eGST_MEDIATYPE_AUDIO p else p));
                 p = emit (PollState pl) p
             in if not_running (get_state_ret env (pl_trace p) pl)
                then (False,
                  if shouldTearDown
                  then recovery_stop stopCb rate (if rate > GST_NORMAL_PLAY_RATE then SetTrickTearDown True p else p)
                  else p)
                else if shouldTearDown
                  \<and> (case audio_dec p of None \<Rightarrow> False | Some d \<Rightarrow> not_running (get_state_ret env (pl_trace p) d))
                then (False, recovery_stop stopCb rate p)
                else (True, flush_seek env pl position rate bAsyncModify p))"

text \<open>The seek of a single track; the returned rate is always the normal one.\<close>

definition FlushTrack :: "nat \<Rightarrow> real \<Rightarrow> real \<Rightarrow> real \<Rightarrow> player \<Rightarrow> int \<times> player" where
  "FlushTrack mediaType pos audioDelta subDelta p =
     (let audio = (mediaType = eGST_MEDIATYPE_AUDIO);
          p = (if audio then (emits (SetSeamlessSwitch (pl_soc p) (audio_sink p) True) p)\<lparr>filterAudioDemuxBuffers := True\<rparr> else p);
          pos = pos + (if audio then audioDelta else subDelta);
          p = (case st_source (get_stream mediaType p) of None \<Rightarrow> p | Some e \<Rightarrow> emit (SeekElement e 1 pos) p)
      in (GST_NORMAL_PLAY_RATE, p))"

section \<open>Building a pipeline\<close>

definition DEFAULT_BUFFERING_MAX_CNT :: u32 where "DEFAULT_BUFFERING_MAX_CNT = 100"

definition CreatePipeline :: "gst_env \<Rightarrow> int \<Rightarrow> player \<Rightarrow> bool \<times> player" where
  "CreatePipeline env PipelinePriority p =
     (let p = (if pipeline p \<noteq> None \<or> bus p \<noteq> None then DestroyPipeline p else p);
          p = emit (MakeElement ''pipeline'') p;
          p = p\<lparr>pipeline := make_ret env (pl_trace p)\<rparr>
      in if pipeline p = None then (False, p)
         else
           let p = emit (MakeElement ''bus'') p;
               p = p\<lparr>bus := make_ret env (pl_trace p)\<rparr>;
               p = (if PipelinePriority \<ge> 0 then p\<lparr>pl_task_pool := True\<rparr> else p)
           in case bus p of
                None \<Rightarrow> (False, p)
              | Some b \<Rightarrow>
                  (True, (emits [ControlEnable AsyncControl, AddBusWatch b, ControlEnable SyncControl] p)
                    \<lparr>buffering_enabled := cf_gstreamerBufferingBeforePlay (pl_cfg p), buffering_in_progress := False,
                     buffering_timeout_cnt := DEFAULT_BUFFERING_MAX_CNT, buffering_target_state := GST_STATE_NULL,
                     positionQuery := True, enableSEITimeCode := cf_seiTimeCode (pl_cfg p)\<rparr>))"

text \<open>The first part of \<^verbatim>\<open>ConfigurePipeline\<close>: the flags of the sinks, and which tracks have to be set up.\<close>

definition configure_sinks :: "bool \<Rightarrow> int \<Rightarrow> player \<Rightarrow> player" where
  "configure_sinks forwardAudioToAux rate p =
     (let p = p\<lparr>forwardAudioBuffers := forwardAudioToAux\<rparr>;
          p = (if cf_useWesterosSink (pl_cfg p)
               then p\<lparr>using_westerossink := True, pl_soc := SetWesterosSinkState True (pl_soc p)\<rparr>
               else p\<lparr>using_westerossink := False, firstTuneWithWesterosSinkOff := IsFirstTuneWithWesteros (pl_soc p)\<rparr>);
          p = p\<lparr>usingRialtoSink := cf_useRialtoSink (pl_cfg p)\<rparr>
      in if rate \<noteq> - 9999 then p\<lparr>pl_rate := rate\<rparr> else p)"

definition configure_track ::
  "gst_env \<Rightarrow> stream_format list \<Rightarrow> bool \<Rightarrow> nat \<Rightarrow> bool list \<times> player \<Rightarrow> bool list \<times> player" where
  "configure_track env newFormat bESChangeStatus i cp =
     (let (conf, p) = cp;
          new_track = (st_format (get_stream i p) \<noteq> newFormat ! i \<and> newFormat ! i \<noteq> GST_FORMAT_INVALID);
          p = (if new_track then p\<lparr>NumberOfTracks := NumberOfTracks p + 1\<rparr> else p);
          trick = (ShouldTearDownForTrickplay (pl_soc p) \<and> (pl_rate p > 1 \<or> pl_rate p < 0));
          c = (if trick then i = eGST_MEDIATYPE_VIDEO else new_track);
          p = (if trick \<and> i \<noteq> eGST_MEDIATYPE_VIDEO then TearDownStream env i p else p);
          c = (c \<or> (bESChangeStatus \<and> i = eGST_MEDIATYPE_AUDIO))
      in (conf @ [c], on_stream i (\<lambda>s. s\<lparr>st_resetPosition := True, st_eosReached := False, st_firstBufferProcessed := False\<rparr>) p))"

text \<open>Sets up the tracks; the result is \<open>False\<close> when a track other than the subtitles failed, which ends the call.
  \<open>setup\<close> is \<^verbatim>\<open>InterfacePlayer_SetupStream\<close>.\<close>

fun setup_tracks ::
  "gst_env \<Rightarrow> (nat \<Rightarrow> player \<Rightarrow> int \<times> player) \<Rightarrow> stream_format list \<Rightarrow> int \<Rightarrow> (nat \<times> bool) list \<Rightarrow> player \<Rightarrow> bool \<times> player" where
  "setup_tracks env setup newFormat trackId [] p = (True, p)"
| "setup_tracks env setup newFormat trackId ((i, c) # rest) p =
     (if (c \<and> newFormat ! i \<noteq> GST_FORMAT_INVALID) \<or> (trickTeardown p \<and> i = eGST_MEDIATYPE_AUDIO)
      then
        let p = TearDownStream env i (p\<lparr>trickTeardown := False\<rparr>);
            p = on_stream i (\<lambda>s. s\<lparr>st_format := newFormat ! i, st_trackId := trackId\<rparr>) p;
            (r, p) = setup i p
        in if r \<noteq> 0 \<and> i \<noteq> eGST_MEDIATYPE_SUBTITLE then (False, p) else setup_tracks env setup newFormat trackId rest p
      else setup_tracks env setup newFormat trackId rest p)"

text \<open>The last part: the state that the pipeline is set to.\<close>

definition configure_state :: "gst_env \<Rightarrow> stream_format \<Rightarrow> player \<Rightarrow> player" where
  "configure_state env format p =
     (if pauseOnStartPlayback p \<and> pl_rate p = GST_NORMAL_PLAY_RATE
      then snd (SetStateWithWarnings env (pipeline p) GST_STATE_PAUSED (p\<lparr>pl_paused := True, pendingPlayState := False\<rparr>))
      else if buffering_enabled p \<and> format \<noteq> GST_FORMAT_INVALID \<and> pl_rate p = GST_NORMAL_PLAY_RATE
      then (snd (SetStateWithWarnings env (pipeline p) GST_STATE_PAUSED
              (p\<lparr>buffering_target_state := GST_STATE_PLAYING, buffering_in_progress := True,
                 buffering_timeout_cnt := DEFAULT_BUFFERING_MAX_CNT\<rparr>)))\<lparr>pendingPlayState := False, pl_paused := False\<rparr>
      else (snd (SetStateWithWarnings env (pipeline p) GST_STATE_PLAYING p))\<lparr>pendingPlayState := False, pl_paused := False\<rparr>)"

section \<open>Setting up a stream\<close>

text \<open>\<^verbatim>\<open>GetCaps\<close>: the media type and its fields, \<open>None\<close> for the null pointer.\<close>

definition GetCaps :: "soc \<Rightarrow> stream_format \<Rightarrow> (string \<times> (string \<times> prop_value) list) option" where
  "GetCaps s format =
     (let fast = (if soc_platform s = SOC_PLATFORM_REALTEK then [(''enable-fastplayback'', PString ''true'')] else []);
          ubuntu = (\<lambda>sf. if soc_platform s = SOC_PLATFORM_DEFAULT \<and> on_ubuntu s
                      then [(''alignment'', PString ''au''), (''stream-format'', PString sf)] else [])
      in case format of
        GST_FORMAT_MPEGTS \<Rightarrow> Some (''video/mpegts'', [(''systemstream'', PBool True), (''packetsize'', PInt 188)])
      | GST_FORMAT_ISO_BMFF \<Rightarrow> Some (''video/quicktime'', [])
      | GST_FORMAT_AUDIO_ES_MP3 \<Rightarrow> Some (''audio/mpeg'', [(''mpegversion'', PInt 1)])
      | GST_FORMAT_AUDIO_ES_AAC \<Rightarrow> Some (''audio/mpeg'', [(''mpegversion'', PInt 2), (''stream-format'', PString ''adts'')])
      | GST_FORMAT_AUDIO_ES_AC3 \<Rightarrow> Some (''audio/x-ac3'', [])
      | GST_FORMAT_AUDIO_ES_AC4 \<Rightarrow> Some (''audio/x-ac4'', [])
      | GST_FORMAT_SUBTITLE_TTML \<Rightarrow> Some (''application/ttml+xml'', [])
      | GST_FORMAT_SUBTITLE_WEBVTT \<Rightarrow> Some (''text/vtt'', [])
      | GST_FORMAT_SUBTITLE_MP4 \<Rightarrow> Some (''application/mp4'', [])
      | GST_FORMAT_AUDIO_ES_ATMOS \<Rightarrow> Some (''audio/x-eac3'', [])
      | GST_FORMAT_AUDIO_ES_EC3 \<Rightarrow> Some (''audio/x-eac3'', [])
      | GST_FORMAT_VIDEO_ES_H264 \<Rightarrow> Some (''video/x-h264'', fast @ ubuntu ''avc'')
      | GST_FORMAT_VIDEO_ES_HEVC \<Rightarrow> Some (''video/x-h265'', fast @ ubuntu ''hev1'')
      | GST_FORMAT_VIDEO_ES_MPEG2 \<Rightarrow> Some (''video/mpeg'', [(''mpegversion'', PInt 2), (''systemstream'', PBool False)])
      | GST_FORMAT_UNKNOWN \<Rightarrow> None
      | GST_FORMAT_INVALID \<Rightarrow> None)"

definition make_element :: "gst_env \<Rightarrow> string \<Rightarrow> player \<Rightarrow> elem option \<times> player" where
  "make_element env name p = (let p = emit (MakeElement name) p in (make_ret env (pl_trace p), p))"

definition set_prop :: "elem option \<Rightarrow> string \<Rightarrow> prop_value \<Rightarrow> player \<Rightarrow> player" where
  "set_prop e name v p = (case e of None \<Rightarrow> p | Some x \<Rightarrow> emit (SetProp x name v) p)"

definition SignalConnect :: "gst_env \<Rightarrow> elem option \<Rightarrow> string \<Rightarrow> player \<Rightarrow> player" where
  "SignalConnect env inst name p =
     (let p = (case inst of
            None \<Rightarrow> p
          | Some e \<Rightarrow>
              let p = emit (ConnectSignal e name) p; i = signal_id env (pl_trace p)
              in if 0 < i then p\<lparr>mCallBackIdentifiers := mCallBackIdentifiers p @ [\<lparr>sg_instance = inst, sg_id = i\<rparr>]\<rparr> else p)
      in emit (ControlEnable CallbackControl) p)"

definition InitializeSourceForPlayer :: "gst_env \<Rightarrow> elem option \<Rightarrow> nat \<Rightarrow> player \<Rightarrow> player" where
  "InitializeSourceForPlayer env source i p =
     (let p = SignalConnect env source ''need-data'' p;
          p = SignalConnect env source ''enough-data'' p;
          p = SignalConnect env source ''seek-data'' p;
          p = set_prop source ''stream-type'' (PString ''seekable'') p;
          p = (if i = eGST_MEDIATYPE_VIDEO then set_prop source ''max-bytes'' (PInt (cf_videoBufBytes (pl_cfg p))) p
               else if i = eGST_MEDIATYPE_AUDIO \<or> i = eGST_MEDIATYPE_AUX_AUDIO
               then set_prop source ''max-bytes'' (PInt (cf_audioBufBytes (pl_cfg p))) p else p);
          p = set_prop source ''min-percent'' (PInt 50) p;
          p = set_prop source ''format'' (PString ''time'') p;
          fmt = st_format (get_stream i p);
          caps = (if fmt \<noteq> GST_FORMAT_ISO_BMFF \<or> \<not> cf_useMp4Demux (pl_cfg p) then GetCaps (pl_soc p) fmt else None);
          p = (case caps of Some (m, _) \<Rightarrow> set_prop source ''caps'' (PString m) p
               | None \<Rightarrow> set_prop source ''typefind'' (PBool True) p)
      in on_stream i (\<lambda>s. s\<lparr>st_sourceConfigured := True\<rparr>) p)"

definition GetAppSrc :: "gst_env \<Rightarrow> nat \<Rightarrow> player \<Rightarrow> elem option \<times> player" where
  "GetAppSrc env i p =
     (let (source, p) = make_element env ''appsrc'' p
      in if source = None then (None, p) else (source, InitializeSourceForPlayer env source i p))"

text \<open>The signal that tells the source of a play bin.\<close>

definition found_source :: "gst_env \<Rightarrow> elem \<Rightarrow> elem option \<Rightarrow> player \<Rightarrow> player" where
  "found_source env object source p =
     (let is = (\<lambda>i. st_sinkbin (get_stream i p) = Some object);
          i = (if is eGST_MEDIATYPE_VIDEO then eGST_MEDIATYPE_VIDEO else if is eGST_MEDIATYPE_AUDIO then eGST_MEDIATYPE_AUDIO
               else if is eGST_MEDIATYPE_AUX_AUDIO then eGST_MEDIATYPE_AUX_AUDIO
               else if is eGST_MEDIATYPE_SUBTITLE then eGST_MEDIATYPE_SUBTITLE else eGST_MEDIATYPE_DEFAULT)
      in if i = eGST_MEDIATYPE_DEFAULT then p
         else InitializeSourceForPlayer env source i (on_stream i (\<lambda>s. s\<lparr>st_source := source\<rparr>) p))"

text \<open>The special sinks of a play bin for video, audio and auxiliary audio.\<close>

definition setup_sinks :: "gst_env \<Rightarrow> nat \<Rightarrow> elem option \<Rightarrow> player \<Rightarrow> player" where
  "setup_sinks env i bin p =
     (if cf_tcpServerSink (pl_cfg p) then
        let (sink, p) = make_element env ''tcpserversink'' p; port = cf_tcpPort (pl_cfg p)
        in if i = eGST_MEDIATYPE_VIDEO
           then set_prop bin ''video-sink'' (PElem sink) (set_prop sink ''port'' (PInt port) p)
           else if i = eGST_MEDIATYPE_AUDIO
           then set_prop bin ''audio-sink'' (PElem sink) (set_prop sink ''port'' (PInt (if 0 < port then port + 1 else port)) p)
           else p
      else if usingRialtoSink p \<and> i = eGST_MEDIATYPE_VIDEO then
        let (sink, p) = make_element env ''rialtomsevideosink'' p
        in if sink = None then p
           else
             let p = set_prop bin ''video-sink'' (PElem sink) p;
                 p = (if cf_media (pl_cfg p) = eGST_MEDIAFORMAT_HLS then set_prop sink ''has-drm'' (PBool False) p else p)
             in p\<lparr>video_sink := sink\<rparr>
      else if usingRialtoSink p \<and> i = eGST_MEDIATYPE_AUDIO then
        let (sink, p) = make_element env ''rialtomseaudiosink'' p
        in if sink = None then p else (set_prop bin ''audio-sink'' (PElem sink) p)\<lparr>audio_sink := sink\<rparr>
      else if using_westerossink p \<and> i = eGST_MEDIATYPE_VIDEO then
        (case soc_platform (pl_soc p) of
           SOC_PLATFORM_DEFAULT \<Rightarrow> p
         | SOC_PLATFORM_BROADCOM \<Rightarrow>
             let (sink, p) = make_element env (if mUsingWesterosSink (pl_soc p) then ''westerossink'' else ''brcmvideosink'') p
             in set_prop bin ''video-sink'' (PElem sink) (set_prop sink ''secure-video'' (PBool True) p)
         | _ \<Rightarrow>
             if bin \<noteq> None \<and> mUsingWesterosSink (pl_soc p)
             then let (sink, p) = make_element env ''westerossink'' p in set_prop bin ''video-sink'' (PElem sink) p
             else p)
      else p)"

definition setup_aux_sink :: "gst_env \<Rightarrow> nat \<Rightarrow> elem option \<Rightarrow> player \<Rightarrow> player" where
  "setup_aux_sink env i bin p =
     (if i = eGST_MEDIATYPE_AUX_AUDIO then
        let (sink, p) = make_element env ''audsrvsink'' p;
            p = set_prop sink ''session-type'' (PInt 2) p;
            p = set_prop sink ''session-name'' (PString ''btSAP'') p;
            p = set_prop sink ''session-private'' (PBool True) p;
            p = set_prop bin ''audio-sink'' (PElem sink) p
        in if RequiredElementSetup (pl_soc p) then SignalConnect env bin ''element-setup'' p else p
      else p)"

text \<open>What follows for every stream but the subtitles of \<^verbatim>\<open>subtecbin\<close>.\<close>

definition setup_playbin :: "gst_env \<Rightarrow> nat \<Rightarrow> string \<Rightarrow> elem option \<Rightarrow> player \<Rightarrow> player" where
  "setup_playbin env i manifest bin p =
     (let p = (case bin of None \<Rightarrow> p | Some e \<Rightarrow> emit (AddToPipeline e) p);
          flags = (case bin of None \<Rightarrow> 0 | Some e \<Rightarrow> (case get_int env (pl_trace p) e ''flags'' of Some f \<Rightarrow> f | None \<Rightarrow> 0));
          p = set_prop bin ''flags'' (PInt (SetPlaybackFlags (pl_soc p) flags (i = eGST_MEDIATYPE_SUBTITLE))) p;
          media = cf_media (pl_cfg p);
          p = (if media \<noteq> eGST_MEDIAFORMAT_PROGRESSIVE \<or> cf_appSrcForProgressivePlayback (pl_cfg p)
               then SignalConnect env bin ''deep-notify::source'' (set_prop bin ''uri'' (PString ''appsrc://'') p)
               else SignalConnect env bin ''source-setup'' (set_prop bin ''uri'' (PString manifest) p));
          segmented = (media = eGST_MEDIAFORMAT_DASH \<or> media = eGST_MEDIAFORMAT_HLS_MP4);
          p = (if (segmented \<and> cf_seamlessAudioSwitch (pl_cfg p))
                  \<or> (media = eGST_MEDIAFORMAT_DASH \<and> i = eGST_MEDIATYPE_VIDEO \<and> cf_enablePTSReStamp (pl_cfg p))
               then (case bin of None \<Rightarrow> p | Some e \<Rightarrow> emit (ConnectSignal e ''element_setup'') p) else p)
      in if i = eGST_MEDIATYPE_VIDEO \<and> segmented
         then (case bin of None \<Rightarrow> p | Some e \<Rightarrow> emits (SetVideoBufferSize (pl_soc p) e (cf_videoBufBytes (pl_cfg p))) p) else p)"

definition setup_subtecbin :: "gst_env \<Rightarrow> player \<Rightarrow> int \<times> player" where
  "setup_subtecbin env p =
     (let i = eGST_MEDIATYPE_SUBTITLE;
          (bin, p) = make_element env ''subtecbin'' p;
          p = on_stream i (\<lambda>s. s\<lparr>st_sinkbin := bin\<rparr>) p
      in case bin of
           None \<Rightarrow> (- 1, p)
         | Some e \<Rightarrow>
             let p = set_prop bin ''sync'' (PBool False) p;
                 (source, p) = GetAppSrc env i p;
                 p = on_stream i (\<lambda>s. s\<lparr>st_source := source\<rparr>) p;
                 p = emits ((case source of None \<Rightarrow> [] | Some x \<Rightarrow> [AddToPipeline x]) @ [AddToPipeline e]) p
             in if \<not> event_ret env (pl_trace p) then (- 1, p)
                else (0, set_prop bin ''mute'' (PBool (subtitleMuted p)) (p\<lparr>subtitle_sink := bin\<rparr>)))"

definition SetupStream :: "gst_env \<Rightarrow> string \<Rightarrow> nat \<Rightarrow> player \<Rightarrow> int \<times> player" where
  "SetupStream env manifest i p =
     (if i = eGST_MEDIATYPE_SUBTITLE then
        if \<not> cf_gstreamerSubsEnabled (pl_cfg p) then (0, setup_playbin env i manifest (st_sinkbin (get_stream i p)) p)
        else if \<not> usingRialtoSink p then setup_subtecbin env p
        else
          let (bin, p) = make_element env ''playbin'' p;
              p = on_stream i (\<lambda>s. s\<lparr>st_sinkbin := bin\<rparr>) p;
              (textsink, p) = make_element env ''rialtomsesubtitlesink'' p;
              (subtitlebin, p) = make_element env ''subtitlebin'' p;
              (viper, p) = make_element env ''vipertransform'' p;
              p = set_prop bin ''text-sink'' (PElem subtitlebin) p;
              p = set_prop textsink ''mute'' (PBool (subtitleMuted p)) (p\<lparr>subtitle_sink := textsink\<rparr>)
          in (0, setup_playbin env i manifest bin p)
      else
        let (bin, p) = make_element env ''playbin'' p;
            p = on_stream i (\<lambda>s. s\<lparr>st_sinkbin := bin\<rparr>) p;
            p = setup_sinks env i bin p;
            p = setup_aux_sink env i bin p
        in (0, setup_playbin env i manifest bin p))"

definition InterfacePlayer_SetupStream :: "gst_env \<Rightarrow> string \<Rightarrow> nat \<Rightarrow> player \<Rightarrow> int \<times> player" where
  "InterfacePlayer_SetupStream env manifest i p =
     SetupStream env manifest i (notify_app (Trigger (StartNewSubtitleStream i)) p)"

text \<open>\<^verbatim>\<open>ConfigurePipeline\<close> as a whole.\<close>

definition ConfigurePipeline ::
  "gst_env \<Rightarrow> stream_format \<Rightarrow> stream_format \<Rightarrow> stream_format \<Rightarrow> stream_format \<Rightarrow> bool \<Rightarrow> bool \<Rightarrow> bool \<Rightarrow> bool \<Rightarrow> int \<Rightarrow> int
    \<Rightarrow> int \<Rightarrow> bool \<Rightarrow> string \<Rightarrow> player \<Rightarrow> player" where
  "ConfigurePipeline env format audioFormat auxFormat subFormat bESChangeStatus forwardAudioToAux setReadyAfterPipelineCreation
     isSubEnable trackId rate PipelinePriority FirstFrameFlag manifestUrl p =
     (let p = p\<lparr>mFirstFrameRequired := FirstFrameFlag\<rparr>;
          newFormat = [format, audioFormat, if isSubEnable then subFormat else GST_FORMAT_INVALID,
                       if forwardAudioToAux then audioFormat else auxFormat];
          p = configure_sinks forwardAudioToAux rate p;
          p = (if pipeline p = None \<or> bus p = None then snd (CreatePipeline env PipelinePriority p) else p);
          p = (if setReadyAfterPipelineCreation
               then let (r, p) = SetStateWithWarnings env (pipeline p) GST_STATE_READY p
                    in if r = GST_STATE_CHANGE_FAILURE then p else p\<lparr>PipelineSetToReady := True\<rparr>
               else p);
          (conf, p) = fold (configure_track env newFormat bESChangeStatus) [0..<GST_TRACK_COUNT] ([], p);
          (ok, p) = setup_tracks env (InterfacePlayer_SetupStream env manifestUrl) newFormat trackId (enumerate 0 conf) p
      in if \<not> ok then p
         else
           let p = (if usingRialtoSink p \<and> cf_media (pl_cfg p) \<noteq> eGST_MEDIAFORMAT_PROGRESSIVE
                    then (case st_sinkbin (get_stream eGST_MEDIATYPE_VIDEO p) of
                            None \<Rightarrow> p
                          | Some b \<Rightarrow> set_prop (get_elem env (pl_trace p) b ''video-sink'') ''single-path-stream''
                                        (PBool (audioFormat = GST_FORMAT_INVALID)) p)
                    else p);
               p = configure_state env format p;
               p = p\<lparr>eosSignalled := False, numberOfVideoBuffersSent := 0, decodeErrorMsgTimeMS := 0, decodeErrorCBCount := 0\<rparr>;
               has = (\<lambda>e. PBool (e \<noteq> None))
           in if usingRialtoSink p
              then set_prop (pipeline p) ''text-streams'' (has (subtitle_sink p))
                     (set_prop (pipeline p) ''audio-streams'' (has (audio_sink p))
                       (set_prop (pipeline p) ''video-streams'' (has (video_sink p)) p))
              else p)"

end
