(* ===== verification/Gst_Events.thy ===== *)
theory Gst_Events
  imports Gst_Player
begin

text \<open>
  What happens while a pipeline exists: the messages of the bus, synchronous and asynchronous, the signals of the
  elements, the idle tasks that the scheduler runs, the buffering timer and the ends of streams
  (\<^verbatim>\<open>InterfacePlayerRDK.cpp\<close>). The macro of the signal handlers
  only counts the handler: unlike the one of the message handlers it does not return when their controller is
  disabled, so these handlers run after \<^verbatim>\<open>Stop\<close> has disabled them.
\<close>

section \<open>The first frame\<close>

definition notify_decoder :: "player \<Rightarrow> player" where
  "notify_decoder p =
     (if decoderHandleNotified p then p
      else let (i, p) = schedule_task FIRST_FRAME_TASK (p\<lparr>decoderHandleNotified := True, firstFrameCallbackIdleTaskPending := False\<rparr>)
           in p\<lparr>firstFrameCallbackIdleTaskId := i, firstFrameCallbackIdleTaskPending := (i \<noteq> PLAYER_TASK_ID_INVALID)\<rparr>)"

definition add_progress_task :: "player \<Rightarrow> player" where
  "add_progress_task p = snd (IdleTaskAdd firstProgressCallbackIdleTask firstProgressCallbackIdleTask_update IDLE_TASK p)"

definition add_displayed_task :: "player \<Rightarrow> player" where
  "add_displayed_task p =
     snd (IdleTaskAdd firstVideoFrameDisplayedCallbackTask firstVideoFrameDisplayedCallbackTask_update FRAME_DISPLAYED_TASK p)"

definition NotifyFirstFrame :: "gst_env \<Rightarrow> nat \<Rightarrow> player \<Rightarrow> player" where
  "NotifyFirstFrame env mediaType p =
     (let notifyFirstBuffer = (\<not> firstFrameReceived p
            \<and> (firstVideoFrameReceived p
               \<or> (NumberOfTracks p = 1 \<and> (firstAudioFrameReceived p \<or> firstVideoFrameReceived p))));
          p = (if notifyFirstBuffer then p\<lparr>firstFrameReceived := True\<rparr> else p);
          q = notify_app (FirstFrameCb mediaType notifyFirstBuffer (\<not> decoderHandleNotified p \<and> PipelineSetToReady p)) p;
          (display, audioOnly, p) =
            (case first_frame_cb env (pl_trace q) of None \<Rightarrow> (False, False, p) | Some (d, a) \<Rightarrow> (d, a, q))
      in if mediaType = eGST_MEDIATYPE_VIDEO then
           let p = add_progress_task (notify_decoder p);
               p = (if display then add_displayed_task p else p)
           in p\<lparr>PipelineSetToReady := False\<rparr>
         else if mediaType = eGST_MEDIATYPE_AUDIO \<and> audioOnly then add_progress_task (notify_decoder p)
         else p)"

definition OnFirstVideoFrameCallback :: "gst_env \<Rightarrow> player \<Rightarrow> player" where
  "OnFirstVideoFrameCallback env p =
     NotifyFirstFrame env eGST_MEDIATYPE_VIDEO (p\<lparr>firstVideoFrameReceived := True\<rparr>)"

definition OnAudioFirstFrameAudDecoder :: "gst_env \<Rightarrow> player \<Rightarrow> player" where
  "OnAudioFirstFrameAudDecoder env p =
     NotifyFirstFrame env eGST_MEDIATYPE_AUDIO (p\<lparr>firstAudioFrameReceived := True\<rparr>)"

section \<open>The end of a stream\<close>

definition NotifyEOS :: "player \<Rightarrow> player" where
  "NotifyEOS p =
     (if eosSignalled p \<or> eosCallbackIdleTaskPending p then p
      else
        let (i, p) = schedule_task EOS_TASK (p\<lparr>eosCallbackIdleTaskPending := True, eosSignalled := True\<rparr>)
        in p\<lparr>eosCallbackIdleTaskId := i,
             eosCallbackIdleTaskPending := (eosCallbackIdleTaskPending p \<and> i \<noteq> PLAYER_TASK_ID_INVALID)\<rparr>)"

definition NotifyFragmentCachingComplete :: "gst_env \<Rightarrow> player \<Rightarrow> player" where
  "NotifyFragmentCachingComplete env p =
     (if pendingPlayState p
      then (snd (SetStateWithWarnings env (pipeline p) GST_STATE_PLAYING (p\<lparr>buffering_target_state := GST_STATE_PLAYING\<rparr>)))
             \<lparr>pendingPlayState := False\<rparr>
      else p)"

text \<open>The second result is \<^verbatim>\<open>shouldHaltBuffering\<close>, given its old value.\<close>

definition EndOfStreamReached :: "gst_env \<Rightarrow> nat \<Rightarrow> bool \<Rightarrow> player \<Rightarrow> bool \<times> player" where
  "EndOfStreamReached env i shouldHaltBuffering p =
     (let p = on_stream i (\<lambda>s. s\<lparr>st_eosReached := True\<rparr>) p;
          s = get_stream i p
      in if st_format s \<noteq> GST_FORMAT_INVALID \<and> \<not> st_firstBufferProcessed s then (shouldHaltBuffering, NotifyEOS p)
         else
           let p = SignalEOS i (NotifyFragmentCachingComplete env p);
               sub = get_stream eGST_MEDIATYPE_SUBTITLE p
           in (True,
               if pl_rate p \<noteq> GST_NORMAL_PLAY_RATE
               then SignalEOS eGST_MEDIATYPE_SUBTITLE (SignalEOS eGST_MEDIATYPE_AUDIO p)
               else if st_eosReached (get_stream eGST_MEDIATYPE_AUDIO p) \<and> \<not> st_eosReached sub \<and> st_source sub \<noteq> None
               then SignalEOS eGST_MEDIATYPE_SUBTITLE (on_stream eGST_MEDIATYPE_SUBTITLE (\<lambda>s. s\<lparr>st_eosReached := True\<rparr>) p)
               else p))"

text \<open>The results are the return value, \<^verbatim>\<open>unblockDiscProcess\<close> and \<^verbatim>\<open>shouldHaltBuffering\<close>, given their old values.\<close>

definition CheckDiscontinuity ::
  "nat \<Rightarrow> stream_format \<Rightarrow> bool \<Rightarrow> bool \<Rightarrow> bool \<Rightarrow> player \<Rightarrow> bool \<times> bool \<times> bool \<times> player" where
  "CheckDiscontinuity i streamFormat codecChange unblock halt p =
     (let s = get_stream i p
      in if st_format s \<noteq> GST_FORMAT_INVALID \<and> \<not> st_firstBufferProcessed s then (False, unblock, halt, p)
         else if cf_enablePTSReStamp (pl_cfg p) \<and> streamFormat = GST_FORMAT_ISO_BMFF \<and> \<not> codecChange then (True, True, halt, p)
         else (True, unblock, True,
           let p = SignalEOS i p in if i = eGST_MEDIATYPE_AUDIO then SignalEOS eGST_MEDIATYPE_SUBTITLE p else p))"

section \<open>Video progress\<close>

definition GetVideoPTS :: "gst_env \<Rightarrow> player \<Rightarrow> int" where
  "GetVideoPTS env p = GetVideoPts env (pl_trace p) (pl_soc p) (video_sink p) (video_dec p) (using_westerossink p)"

definition VideoDecoderPtsCheckerForEOS :: "gst_env \<Rightarrow> player \<Rightarrow> player" where
  "VideoDecoderPtsCheckerForEOS env p =
     (if GetVideoPTS env p = lastKnownPTS p then NotifyEOS p else p)\<lparr>ptsCheckForEosOnUnderflowIdleTaskId := 0\<rparr>"

text \<open>The kind of media of an element that reports an underflow or an error; \<open>None\<close> when it is not known.\<close>

definition element_media :: "player \<Rightarrow> string \<Rightarrow> nat option" where
  "element_media p name =
     (let isVideo = (if IsVideoSinkHandleErrors (pl_soc p) then IsVideoSink (pl_soc p) name (usingRialtoSink p)
                     else IsVideoDecoder (pl_soc p) name (usingRialtoSink p))
      in if isVideo then Some eGST_MEDIATYPE_VIDEO
         else if IsAudioSinkOrAudioDecoder (pl_soc p) name (usingRialtoSink p) then Some eGST_MEDIATYPE_AUDIO
         else None)"

definition OnGstBufferUnderflowCb :: "gst_env \<Rightarrow> string \<Rightarrow> player \<Rightarrow> player" where
  "OnGstBufferUnderflowCb env name p =
     (if cf_disableUnderflow (pl_cfg p) then p
      else case element_media p name of
        None \<Rightarrow> p
      | Some i \<Rightarrow>
          let p = on_stream i (\<lambda>s. s\<lparr>st_bufferUnderrun := True\<rparr>) p;
              p = (if st_eosReached (get_stream i p) \<and> pl_rate p > 0 \<and> ptsCheckForEosOnUnderflowIdleTaskId p = 0
                   then let p = p\<lparr>lastKnownPTS := GetVideoPTS env p, ptsUpdatedTimeMS := clock_ms env (pl_trace p)\<rparr>;
                            p = emit (AddTimer 500) p
                        in p\<lparr>ptsCheckForEosOnUnderflowIdleTaskId := timer_id env (pl_trace p)\<rparr>
                   else p)
          in notify_app (UnderflowCb i) p)"

definition OnGstPtsErrorCb :: "string \<Rightarrow> player \<Rightarrow> player" where
  "OnGstPtsErrorCb name p =
     (let isVideo = (if IsVideoSinkHandleErrors (pl_soc p) then IsVideoSink (pl_soc p) name (usingRialtoSink p)
                     else IsVideoDecoder (pl_soc p) name (usingRialtoSink p))
      in notify_app (PtsErrorCb isVideo (IsAudioSinkOrAudioDecoder (pl_soc p) name (usingRialtoSink p))) p)"

definition OnGstDecodeErrorCb :: "gst_env \<Rightarrow> player \<Rightarrow> player" where
  "OnGstDecodeErrorCb env p =
     (let now = clock_ms env (pl_trace p); p = p\<lparr>decodeErrorCBCount := decodeErrorCBCount p + 1\<rparr>
      in if now - decodeErrorMsgTimeMS p \<ge> 10000
           then (notify_app (DecodeErrorCb (decodeErrorCBCount p)) p)\<lparr>decodeErrorMsgTimeMS := now, decodeErrorCBCount := 0\<rparr>
           else p)"

definition CheckForPTSChangeWithTimeout :: "gst_env \<Rightarrow> int \<Rightarrow> player \<Rightarrow> bool \<times> player" where
  "CheckForPTSChangeWithTimeout env timeout p =
     (let currentPTS = GetVideoPTS env p; now = clock_ms env (pl_trace p)
      in if currentPTS = 0 then (True, p)
         else if currentPTS \<noteq> lastKnownPTS p then (True, p\<lparr>ptsUpdatedTimeMS := now, lastKnownPTS := currentPTS\<rparr>)
         else (now - ptsUpdatedTimeMS p \<le> timeout, p))"

definition IsCacheEmpty :: "gst_env \<Rightarrow> nat \<Rightarrow> player \<Rightarrow> bool \<times> player" where
  "IsCacheEmpty env i p =
     (case st_source (get_stream i p) of
        None \<Rightarrow> (True, p)
      | Some e \<Rightarrow>
          if queued_bytes env (pl_trace p) e \<noteq> 0 then (False, p)
          else if st_bufferUnderrun (get_stream eGST_MEDIATYPE_VIDEO p) \<or> st_bufferUnderrun (get_stream eGST_MEDIATYPE_AUDIO p)
          then (True, p)
          else let (changed, p) = CheckForPTSChangeWithTimeout env 4000 p in (\<not> changed, p))"

section \<open>Buffering, pause and volume\<close>

definition queued_frames :: "gst_env \<Rightarrow> player \<Rightarrow> int" where
  "queued_frames env p =
     (case video_dec p of None \<Rightarrow> - 1
      | Some e \<Rightarrow> (case get_int env (pl_trace p) e ''queued_frames'' of Some n \<Rightarrow> n | None \<Rightarrow> - 1))"

definition buffering_check :: "gst_env \<Rightarrow> player \<Rightarrow> bool \<times> bool \<times> bool \<times> player" where
  "buffering_check env p =
     (if \<not> buffering_in_progress p then (False, False, False, p)
      else
        let frames = queued_frames env p in
        if cf_media (pl_cfg p) \<notin> {eGST_MEDIAFORMAT_DASH, eGST_MEDIAFORMAT_PROGRESSIVE, eGST_MEDIAFORMAT_HLS_MP4}
           \<and> buffering_timeout_cnt p = 0 \<and> numberOfVideoBuffersSent p > 0
        then (True, False, False, p\<lparr>buffering_in_progress := False\<rparr>)
        else
          let enough = (frames = - 1 \<or> frames \<ge> cf_framesToQueue (pl_cfg p));
              ended = (enough \<or> buffering_timeout_cnt p = 0);
              p = (if enough then p else p\<lparr>buffering_timeout_cnt := buffering_timeout_cnt p - 1\<rparr>)
          in if ended
             then (False, SetRateCorrection (pl_soc p), True,
                   (snd (SetStateWithWarnings env (pipeline p) (buffering_target_state p) p))\<lparr>buffering_in_progress := False\<rparr>)
             else (False, False, False, p))"

text \<open>The callback of the buffering timer; the timer runs on while the result is true.\<close>

definition buffering_timeout :: "gst_env \<Rightarrow> player \<Rightarrow> bool \<times> player" where
  "buffering_timeout env p =
     (let (met, correction, ready, p) = buffering_check env p;
          p = (if buffering_in_progress p then p else p\<lparr>bufferingTimeoutTimerId := 0\<rparr>);
          p = notify_app (BufferingTimeoutCb met correction ready) p
      in (buffering_in_progress p, p))"

fun validateState :: "gst_env \<Rightarrow> elem \<Rightarrow> gst_state \<Rightarrow> nat \<Rightarrow> player \<Rightarrow> gst_state \<times> player" where
  "validateState env e stateToValidate n p =
     (let p = emit (PollState e) p; (ret, current, pending) = get_state_ret env (pl_trace p) e
      in if current = stateToValidate then (current, p)
         else case n of 0 \<Rightarrow> (current, p) | Suc m \<Rightarrow> validateState env e stateToValidate m p)"

declare validateState.simps [simp del]

definition Pause_player :: "gst_env \<Rightarrow> bool \<Rightarrow> bool \<Rightarrow> player \<Rightarrow> bool \<times> player" where
  "Pause_player env b forceStopGstreamerPreBuffering p =
     (case pipeline p of
        None \<Rightarrow> (False, p)
      | Some e \<Rightarrow>
          let nextState = (if b then GST_STATE_PAUSED else GST_STATE_PLAYING);
              p = p\<lparr>buffering_target_state := nextState\<rparr>;
              p = (if b \<and> forceStopGstreamerPreBuffering then p\<lparr>buffering_in_progress := False\<rparr> else p);
              (rc, p) = SetStateWithWarnings env (Some e) nextState p;
              p = (if rc = GST_STATE_CHANGE_ASYNC then snd (validateState env e nextState 5 p) else p)
          in (True, p\<lparr>buffering_target_state := nextState, pl_paused := b, pendingPlayState := False\<rparr>))"

text \<open>The results are the return value and \<^verbatim>\<open>isPlaying\<close>, given its old value.\<close>

definition StopBuffering :: "gst_env \<Rightarrow> bool \<Rightarrow> bool \<Rightarrow> player \<Rightarrow> bool \<times> bool" where
  "StopBuffering env forceStop isPlaying p =
     (case video_dec p of
        None \<Rightarrow> (False, isPlaying)
      | Some _ \<Rightarrow>
          let frames = queued_frames env p
          in if \<not> (forceStop \<or> frames = - 1 \<or> frames \<ge> cf_framesToQueue (pl_cfg p)) then (False, isPlaying)
             else case pipeline p of
               None \<Rightarrow> (False, isPlaying)
             | Some e \<Rightarrow>
                 (case get_state_ret env (pl_trace p) e of (ret, current, _) \<Rightarrow>
                    if ret = GST_STATE_CHANGE_FAILURE then (False, isPlaying) else (current = GST_STATE_PLAYING, True)))"

definition SetAudioVolume :: "int \<Rightarrow> player \<Rightarrow> player" where
  "SetAudioVolume volume p = p\<lparr>audioVolume := of_int volume / 100\<rparr>"

text \<open>The element that volume and mute are set on, and the names of the properties.\<close>

definition volume_target :: "player \<Rightarrow> elem option \<times> string option \<times> string option" where
  "volume_target p =
     (if usingRialtoSink p then (audio_sink p, Some ''volume'', Some ''mute'')
      else case SetAudioProperty (pl_soc p) of (vol, mute, isSinkBinVolume) \<Rightarrow>
        let bin = (if isSinkBinVolume then st_sinkbin (get_stream eGST_MEDIATYPE_AUDIO p) else None)
        in (if bin = None then audio_sink p else bin, vol, mute))"

definition SetVolumeOrMuteUnMute :: "player \<Rightarrow> player" where
  "SetVolumeOrMuteUnMute p =
     (case volume_target p of
        (None, _, _) \<Rightarrow> p
      | (Some e, vol, mute) \<Rightarrow>
          let p = (case mute of
                 None \<Rightarrow> p
               | Some name \<Rightarrow>
                   if audioVolume p = 0 then (emit (SetProp e name (PBool True)) p)\<lparr>audioMuted := True\<rparr>
                   else if audioMuted p then (emit (SetProp e name (PBool False)) p)\<lparr>audioMuted := False\<rparr>
                   else p)
          in case vol of
               None \<Rightarrow> p
             | Some name \<Rightarrow> if audioMuted p then p else emit (SetProp e name (PReal (audioVolume p))) p)"

definition SetVideoZoom :: "int \<Rightarrow> player \<Rightarrow> player" where
  "SetVideoZoom zoom_mode p =
     (let p = p\<lparr>pl_zoom := zoom_mode\<rparr>
      in if usingRialtoSink p then p else set_prop (video_sink p) ''zoom-mode'' (PInt zoom_mode) p)"

definition SetVideoMute :: "bool \<Rightarrow> player \<Rightarrow> player" where
  "SetVideoMute muted p = set_prop (video_sink p) ''show-video-window'' (PBool (\<not> muted)) (p\<lparr>videoMuted := muted\<rparr>)"

definition SetSubtitleMute :: "bool \<Rightarrow> player \<Rightarrow> player" where
  "SetSubtitleMute muted p = set_prop (subtitle_sink p) ''mute'' (PBool muted) (p\<lparr>subtitleMuted := muted\<rparr>)"

end
