(* ===== verification/Gst_Bus.thy ===== *)
theory Gst_Bus
  imports Gst_Events Player_Utils
begin

text \<open>
  The message handlers of the player, the idle tasks as the scheduler runs them, and the monitoring of the playback
  (\<^verbatim>\<open>InterfacePlayerRDK.cpp\<close>). The asynchronous handler runs in the main loop, the synchronous one in the thread
  that posts the message.
\<close>

section \<open>The idle tasks\<close>

definition IdleCallbackOnFirstFrame :: "player \<Rightarrow> player" where
  "IdleCallbackOnFirstFrame p =
     (notify_app (Trigger FirstVideoFrameReceived) p)\<lparr>firstFrameCallbackIdleTaskId := PLAYER_TASK_ID_INVALID,
        firstFrameCallbackIdleTaskPending := False\<rparr>"

definition IdleCallbackOnEOS :: "player \<Rightarrow> player" where
  "IdleCallbackOnEOS p =
     (notify_app (Trigger NotifyEOSCb) p)\<lparr>eosCallbackIdleTaskId := PLAYER_TASK_ID_INVALID, eosCallbackIdleTaskPending := False\<rparr>"

definition IdleCallback :: "gst_env \<Rightarrow> player \<Rightarrow> player" where
  "IdleCallback env p =
     (let p = IdleTaskClearFlags firstProgressCallbackIdleTask_update (notify_app (Trigger IdleCb) p)
      in if TimerIsRunning periodicProgressCallbackIdleTaskId p then p
         else TimerAdd env \<lfloor>cf_progressTimer (pl_cfg p) * 1000\<rfloor> periodicProgressCallbackIdleTaskId
                periodicProgressCallbackIdleTaskId_update p)"

definition IdleCallbackFirstVideoFrameDisplayed :: "player \<Rightarrow> player" where
  "IdleCallbackFirstVideoFrameDisplayed p =
     snd (IdleTaskRemove firstVideoFrameDisplayedCallbackTask firstVideoFrameDisplayedCallbackTask_update
            (notify_app (Trigger FirstVideoFrameDisplayed) p))"

definition idle_task :: "gst_env \<Rightarrow> nat \<Rightarrow> player \<Rightarrow> player" where
  "idle_task env kind p =
     (if kind = FIRST_FRAME_TASK then IdleCallbackOnFirstFrame p
      else if kind = EOS_TASK then IdleCallbackOnEOS p
      else if kind = IDLE_TASK then IdleCallback env p
      else IdleCallbackFirstVideoFrameDisplayed p)"

text \<open>The worker of the scheduler takes the first task and runs it; the section of the worker is the one of
  \<open>ExecuteAsyncTask\<close> between the execution lock and its release.\<close>

definition run_next_task :: "gst_env \<Rightarrow> player \<Rightarrow> player" where
  "run_next_task env p =
     (case sc_queue (mScheduler p) of
        [] \<Rightarrow> p
      | t # q \<Rightarrow> idle_task env (task_data t)
          (p\<lparr>mScheduler := (mScheduler p)\<lparr>sc_queue := q, sc_currentId := task_id t, sc_started := sc_started (mScheduler p) @ [t]\<rparr>\<rparr>))"

section \<open>Messages\<close>

datatype gst_message =
    MsgError
  | MsgWarning
  | MsgStateChanged elem string gst_state gst_state
  | MsgEos
  | MsgClockLost
  | MsgApplication
  | MsgAsyncDone
  | MsgNeedContext elem string
  | MsgOther

section \<open>The asynchronous handler\<close>

text \<open>Pausing at the start of the playback: one frame is shown.\<close>

definition start_paused :: "gst_env \<Rightarrow> player \<Rightarrow> player" where
  "start_paused env p =
     (let first_frame = (\<lambda>p. NotifyFirstFrame env eGST_MEDIATYPE_VIDEO (p\<lparr>firstVideoFrameReceived := True\<rparr>));
          p = p\<lparr>pauseOnStartPlayback := False\<rparr>
      in case video_sink p of
           None \<Rightarrow> first_frame p
         | Some e \<Rightarrow>
             if has_property env e ''frame-step-on-preroll'' then
               let p = emits [SetProp e ''frame-step-on-preroll'' (PInt 1), SendElementEvent e StepEvent,
                              SetProp e ''frame-step-on-preroll'' (PInt 0)] p
               in if usingRialtoSink p then first_frame p else p
             else first_frame p)"

text \<open>The pipeline starts to play; the results are the three flags of the bus event.\<close>

definition start_playing :: "gst_env \<Rightarrow> player \<Rightarrow> bool \<times> bool \<times> bool \<times> player" where
  "start_playing env p =
     (let p = p\<lparr>pauseOnStartPlayback := False\<rparr>;
          setPlaybackRate = SetPlatformPlaybackRate (pl_soc p);
          video_frame = (\<lambda>p. NotifyFirstFrame env eGST_MEDIATYPE_VIDEO (p\<lparr>firstVideoFrameReceived := True, firstAudioFrameReceived := True\<rparr>));
          p = (if cf_audioOnlyMode (pl_cfg p) \<and> \<not> firstAudioFrameReceived p \<and> NumberOfTracks p = 1
                  \<and> (case st_sinkbin (get_stream eGST_MEDIATYPE_AUDIO p) of
                       None \<Rightarrow> False | Some b \<Rightarrow> AudioOnlyMode env (pl_trace p) (pl_soc p) b)
               then NotifyFirstFrame env eGST_MEDIATYPE_AUDIO (p\<lparr>firstAudioFrameReceived := True\<rparr>) else p);
          progressive = (cf_media (pl_cfg p) = eGST_MEDIAFORMAT_PROGRESSIVE);
          p = (if progressive then add_progress_task p else p);
          p = (if usingRialtoSink p then video_frame p else p);
          p = (if firstTuneWithWesterosSinkOff p \<and> NotifyVideoFirstFrame (pl_soc p)
               then video_frame (p\<lparr>firstTuneWithWesterosSinkOff := False\<rparr>) else p);
          (received, p) =
            (if IsSimulatorFirstFrame (pl_soc p)
             then (\<not> firstFrameReceived p,
                   add_progress_task (notify_app (Trigger FirstVideoFrameReceived) (p\<lparr>firstFrameReceived := True\<rparr>)))
             else (False, p));
          p = (if \<not> using_westerossink p \<and> mFirstFrameRequired p then add_displayed_task p else p)
      in (setPlaybackRate, progressive, received, p))"

definition connect_error_signals :: "gst_env \<Rightarrow> elem \<Rightarrow> string \<Rightarrow> player \<Rightarrow> player" where
  "connect_error_signals env src name p =
     (let soc = pl_soc p; rialto = usingRialtoSink p;
          p = (if (if IsVideoSinkHandleErrors soc then IsVideoSink soc name rialto else IsAudioOrVideoDecoder soc name rialto) \<and> \<not> rialto
               then let p = SignalConnect env (Some src) ''pts-error-callback''
                              (SignalConnect env (Some src) ''buffer-underflow-callback'' p)
                    in if \<not> IsVideoSinkHandleErrors soc \<and> IsVideoDecoder soc name rialto
                       then SignalConnect env (Some src) ''decode-error-callback'' p else p
               else p)
      in if player_StartsWith name ''rialtomsevideosink'' \<or> player_StartsWith name ''rialtomseaudiosink''
         then SignalConnect env (Some src) ''buffer-underflow-callback'' p else p)"

definition bus_state_changed :: "gst_env \<Rightarrow> elem \<Rightarrow> string \<Rightarrow> gst_state \<Rightarrow> gst_state \<Rightarrow> player \<Rightarrow> player" where
  "bus_state_changed env src name old_state new_state p =
     (let isPlaybin = (pipeline p = Some src);
          p = (if isPlaybin \<and> pauseOnStartPlayback p \<and> new_state = GST_STATE_PAUSED then start_paused env p else p);
          (setRate, firstBuffer, firstFrame, p) =
            (if isPlaybin \<and> new_state = GST_STATE_PLAYING then start_playing env p else (False, False, False, p));
          ready = (old_state = GST_STATE_NULL \<and> new_state = GST_STATE_READY);
          p = (if IsAudioOrVideoDecoder (pl_soc p) name (usingRialtoSink p)
               then (if IsVideoDecoder (pl_soc p) name (usingRialtoSink p) \<and> externals_active env (pl_trace p)
                     then notify_app (SetGstElementCb (Some src)) p else p)
               else if ready \<and> player_StartsWith name ''source'' \<and> soc_platform (pl_soc p) = SOC_PLATFORM_AMLOGIC
               then emit (AddPadProbe src) p else p);
          p = (if ready then connect_error_signals env src name p else p)
      in notify_app (BusMessageCb MESSAGE_STATE_CHANGE setRate firstBuffer firstFrame) p)"

definition bus_message :: "gst_env \<Rightarrow> gst_message \<Rightarrow> player \<Rightarrow> player" where
  "bus_message env msg p =
     (if \<not> control_enabled AsyncControl (pl_trace p) then p
      else case msg of
        MsgError \<Rightarrow> notify_app (BusMessageCb MESSAGE_ERROR False False False) p
      | MsgWarning \<Rightarrow> notify_app (BusMessageCb MESSAGE_WARNING False False False) p
      | MsgStateChanged src name old_state new_state \<Rightarrow> bus_state_changed env src name old_state new_state p
      | MsgEos \<Rightarrow> NotifyEOS (notify_app (BusMessageCb MESSAGE_EOS False False False) p)
      | MsgClockLost \<Rightarrow>
          if cf_media (pl_cfg p) \<noteq> eGST_MEDIAFORMAT_DASH
          then snd (SetStateWithWarnings env (pipeline p) GST_STATE_PLAYING
                 (snd (SetStateWithWarnings env (pipeline p) GST_STATE_PAUSED p)))
          else p
      | MsgApplication \<Rightarrow> notify_app (BusMessageCb MESSAGE_APPLICATION False False False) p
      | _ \<Rightarrow> p)"

section \<open>The synchronous handler\<close>

definition new_video_sink :: "elem \<Rightarrow> player \<Rightarrow> player" where
  "new_video_sink src p =
     (let p = p\<lparr>video_sink := Some src\<rparr>;
          rect = SetProp src ''rectangle'' (PString (videoRectangle p));
          zoom = SetProp src ''zoom-mode'' (PInt (pl_zoom p));
          show = SetProp src ''show-video-window'' (PBool (\<not> videoMuted p))
      in emits (if usingRialtoSink p then (if cf_enableRectPropertyCfg (pl_cfg p) then [rect] else []) @ [show]
                else if using_westerossink p \<and> \<not> cf_enableRectPropertyCfg (pl_cfg p) then [zoom, show]
                else [rect, zoom, show]) p)"

definition new_audio_sink :: "elem \<Rightarrow> string \<Rightarrow> player \<Rightarrow> player res" where
  "new_audio_sink src name p =
     (if player_StartsWith name ''rialtomseaudiosink'' then Inr (SetVolumeOrMuteUnMute (p\<lparr>audio_sink := Some src\<rparr>))
      else bindE (ConfigureAudioSink (pl_soc p) (audio_sink p) src name (cf_audioDecoderStreamSync (pl_cfg p))) (\<lambda>(status, sink, as).
        let p = emits as (p\<lparr>audio_sink := sink\<rparr>) in Inr (if status then SetVolumeOrMuteUnMute p else p)))"

definition new_decoder :: "gst_env \<Rightarrow> elem \<Rightarrow> string \<Rightarrow> player \<Rightarrow> player" where
  "new_decoder env src name p =
     (if IsVideoDecoder (pl_soc p) name (usingRialtoSink p)
      then emits (SetDecodeError src) (SignalConnect env (Some src) ''first-video-frame-callback'' (p\<lparr>video_dec := Some src\<rparr>))
      else
        let p = p\<lparr>audio_dec := Some src\<rparr>;
            p = (if HasFirstAudioFrameCallback (pl_soc p) then SignalConnect env (Some src) ''first-audio-frame-callback'' p else p);
            trackId = st_trackId (get_stream eGST_MEDIATYPE_AUDIO p)
        in if trackId \<ge> 0 then emits (SetAC4Tracks src trackId) p else p)"

definition is_decryptor :: "string \<Rightarrow> bool" where
  "is_decryptor name \<longleftrightarrow>
     list_ex (player_StartsWith name) [''playreadydecryptor'', ''widevinedecryptor'', ''clearkeydecryptor'', ''verimatrixdecryptor'']"

definition element_ready :: "gst_env \<Rightarrow> elem \<Rightarrow> string \<Rightarrow> player \<Rightarrow> player" where
  "element_ready env src name p =
     (let p = (if IsAudioOrVideoDecoder (pl_soc p) name (usingRialtoSink p) then new_decoder env src name p else p);
          p = (if IsVideoSink (pl_soc p) name (usingRialtoSink p) \<and> \<not> usingRialtoSink p
               then emits (SetFreerunThreshold (pl_soc p) src)
                      (if enableSEITimeCode p
                       then SignalConnect env (Some src) ''timecode-callback'' (emit (SetProp src ''enable-timecode'' (PInt 1)) p)
                       else p)
               else p);
          p = (if \<not> HasFirstAudioFrameCallback (pl_soc p) \<and> player_StartsWith name ''rtkaudiosink''
               then SignalConnect env (Some src) ''first-audio-frame'' p else p)
      in if is_decryptor name then emit (SetProp src ''drm-session-manager'' (PElem None)) p else p)"

definition bus_sync_handler :: "gst_env \<Rightarrow> gst_message \<Rightarrow> player \<Rightarrow> player res" where
  "bus_sync_handler env msg p =
     (if \<not> control_enabled SyncControl (pl_trace p) then Inr p
      else case msg of
        MsgStateChanged src name old_state new_state \<Rightarrow>
          let p = (if pipeline p = Some src then p\<lparr>pipelineState := new_state\<rparr> else p)
          in bindE (if new_state = GST_STATE_PAUSED \<and> old_state = GST_STATE_READY
                    then (if IsVideoSink (pl_soc p) name (usingRialtoSink p) then Inr (new_video_sink src p)
                          else new_audio_sink src name p)
                    else Inr p)
               (\<lambda>p. Inr (if old_state = GST_STATE_NULL \<and> new_state = GST_STATE_READY then element_ready env src name p else p))
      | MsgNeedContext src contextType \<Rightarrow>
          Inr (if contextType = ''drm-preferred-decryption-system-id''
               then emit (SetProp src ''decryption-system-id'' (PElem None)) p else p)
      | MsgAsyncDone \<Rightarrow>
          Inr (if buffering_in_progress p
               then let p = emit (AddTimer 10) p in p\<lparr>bufferingTimeoutTimerId := timer_id env (pl_trace p)\<rparr> else p)
      | _ \<Rightarrow> Inr p)"

section \<open>Monitoring\<close>

definition ProgressTick :: "player \<Rightarrow> player" where "ProgressTick p = notify_app (Trigger ProgressCb) p"

text \<open>\<^verbatim>\<open>MonitorAV\<close> while the pipeline plays. The track positions in milliseconds are \<open>None\<close> when the track has no sink or
  the query failed; the audio track is not looked at in trick play.\<close>

definition monitor_track :: "gst_env \<Rightarrow> player \<Rightarrow> nat \<Rightarrow> int option" where
  "monitor_track env p i =
     (let s = get_stream i p
      in case st_sinkbin s of
           None \<Rightarrow> None
         | Some e \<Rightarrow> if st_format s = GST_FORMAT_INVALID then None
                     else map_option ms_of_ns (query_position env (pl_trace p) e))"

definition MonitorAV :: "gst_env \<Rightarrow> player \<Rightarrow> player" where
  "MonitorAV env p =
     (let m = monitorAVstate p;
          tNow = clock_ms env (pl_trace p);
          reported = (if mo_tLastReported m = 0 then tNow else mo_tLastReported m);
          v = monitor_track env p eGST_MEDIATYPE_VIDEO;
          a = (if pl_rate p = GST_NORMAL_PLAY_RATE then monitor_track env p eGST_MEDIATYPE_AUDIO else None);
          vstall = (v = Some (fst (mo_position m)));
          astall = (a = Some (snd (mo_position m)));
          stalled = (if vstall \<and> astall then Some ''stall'' else if vstall then Some ''video freeze''
                     else if astall then Some ''audio drop'' else None);
          bigJump = (case v of None \<Rightarrow> False
                     | Some ms \<Rightarrow> \<not> vstall \<and> mo_happy m
                         \<and> ms - fst (mo_position m) > tNow - mo_tLastSampled m + cf_avJumpMs (pl_cfg p));
          vpos = (case v of None \<Rightarrow> 0 | Some x \<Rightarrow> x);
          apos = (case a of None \<Rightarrow> 0 | Some x \<Rightarrow> x);
          description =
            (if v = None \<and> a = None then ''eos''
             else if v = None \<or> a = None then ''trickplay''
             else
               let delta = vpos - apos in
               if delta > cf_avsyncPositiveMs (pl_cfg p) \<or> delta < cf_avsyncNegativeMs (pl_cfg p)
               then (case stalled of None \<Rightarrow> ''avsync'' | Some d \<Rightarrow> d)
               else if bigJump then ''jump''
               else (case stalled of None \<Rightarrow> ''ok'' | Some d \<Rightarrow> d));
          m = m\<lparr>mo_tLastReported := reported, mo_tLastSampled := tNow\<rparr>;
          m = (if mo_description m \<noteq> Some description
               then m\<lparr>mo_tLastReported := tNow, mo_description := Some description\<rparr> else m)
      in p\<lparr>monitorAVstate := m\<lparr>mo_position := (vpos, apos)\<rparr>\<rparr>)"

definition ProgressCallbackOnTimeout :: "gst_env \<Rightarrow> player \<Rightarrow> player" where
  "ProgressCallbackOnTimeout env p =
     ProgressTick
       (if cf_monitorAV (pl_cfg p)
           \<and> (case pipeline p of None \<Rightarrow> False
              | Some e \<Rightarrow> (case get_state_ret env (pl_trace p) e of (ret, state, _) \<Rightarrow>
                  ret = GST_STATE_CHANGE_SUCCESS \<and> state = GST_STATE_PLAYING))
        then MonitorAV env p else p)"

end
