(* ===== verification/Gst_Inject.thy ===== *)
theory Gst_Inject
  imports Gst_Events Text_Style
begin

text \<open>
  How media gets into the pipeline and what is asked of it while it plays (\<^verbatim>\<open>InterfacePlayerRDK.cpp\<close>): waiting for
  the source, the events before the first buffer, the buffers, the protection events, the positions, the video
  rectangle, the rate and the subtitles. The data of a buffer are its bytes. A call on a missing element fails in
  GStreamer without an effect.
\<close>

section \<open>The signals of the sources\<close>

definition gstGetMediaTypeForSource :: "elem option \<Rightarrow> player \<Rightarrow> nat" where
  "gstGetMediaTypeForSource source p =
     (case source of
        None \<Rightarrow> eGST_MEDIATYPE_DEFAULT
      | Some _ \<Rightarrow> (case find (\<lambda>i. st_source (get_stream i p) = source) [0..<GST_TRACK_COUNT] of
                    Some i \<Rightarrow> i | None \<Rightarrow> eGST_MEDIATYPE_DEFAULT))"

definition gst_need_data :: "elem option \<Rightarrow> player \<Rightarrow> player" where
  "gst_need_data source p =
     (let i = gstGetMediaTypeForSource source p
      in if i \<noteq> eGST_MEDIATYPE_DEFAULT then notify_app (NeedDataCb i) p else p)"

definition gst_enough_data :: "elem option \<Rightarrow> player \<Rightarrow> player" where
  "gst_enough_data source p =
     (if mPauseInjector p then p
      else let i = gstGetMediaTypeForSource source p
           in if i \<noteq> eGST_MEDIATYPE_DEFAULT then notify_app (EnoughDataCb i) p else p)"

text \<open>The probe of a demultiplexer: \<open>True\<close> when the buffer is dropped. The time is that of the video in nanoseconds,
  compared as an unsigned number.\<close>

definition DemuxPadProbeCallback :: "gst_env \<Rightarrow> nat \<Rightarrow> u64 \<Rightarrow> player \<Rightarrow> bool \<times> player" where
  "DemuxPadProbeCallback env pad pts p =
     (if filterAudioDemuxBuffers p \<and> pad = st_demuxPad (get_stream eGST_MEDIATYPE_AUDIO p)
      then let currentPTS = clock_time (of_int (GetVideoPTS env p) / 90000)
           in if pts < currentPTS then (True, p) else (False, p\<lparr>filterAudioDemuxBuffers := False\<rparr>)
      else (False, p))"

text \<open>Other signals: an element that a play bin adds, and the source of a progressive stream.\<close>

definition callback_element_added :: "elem option \<Rightarrow> elem \<Rightarrow> string \<Rightarrow> player \<Rightarrow> player" where
  "callback_element_added element source name p =
     (if element = st_sinkbin (get_stream eGST_MEDIATYPE_AUX_AUDIO p)
      then emits (SetAudioRoutingProperties (pl_soc p) source name) p else p)"

definition httpsoup_source_setup :: "elem \<Rightarrow> string \<Rightarrow> player \<Rightarrow> player" where
  "httpsoup_source_setup source name p =
     (if name = ''source'' \<and> cf_networkProxy (pl_cfg p) \<noteq> []
      then emit (SetProp source ''proxy'' (PString (cf_networkProxy (pl_cfg p)))) p else p)"

section \<open>Waiting for the source\<close>

definition DEFAULT_TIMEOUT_FOR_SOURCE_SETUP :: int where "DEFAULT_TIMEOUT_FOR_SOURCE_SETUP = 1000"

text \<open>\<open>others n\<close> is what the other threads do during the wait that starts with \<open>n\<close> milliseconds left.\<close>

function source_setup_loop :: "(int \<Rightarrow> player \<Rightarrow> player) \<Rightarrow> nat \<Rightarrow> int \<Rightarrow> player \<Rightarrow> bool \<times> player" where
  "source_setup_loop others i timeRemaining p =
     (if timeRemaining < 0 then (False, p)
      else
        let p = others timeRemaining p
        in if mPauseInjector p then (False, p)
           else if st_sourceConfigured (get_stream i p) then (True, p)
           else source_setup_loop others i (timeRemaining - 100) p)"
  by pat_completeness auto
termination
  by (relation "measure (\<lambda>(_, _, t, _). nat (t + 100))") auto

declare source_setup_loop.simps [simp del]

definition WaitForSourceSetup :: "(int \<Rightarrow> player \<Rightarrow> player) \<Rightarrow> nat \<Rightarrow> player \<Rightarrow> bool \<times> player" where
  "WaitForSourceSetup others i p = source_setup_loop others i DEFAULT_TIMEOUT_FOR_SOURCE_SETUP p"

section \<open>The events before the first buffer\<close>

definition push_event :: "nat \<Rightarrow> gst_event \<Rightarrow> player \<Rightarrow> player" where
  "push_event i ev p = (case st_source (get_stream i p) of None \<Rightarrow> p | Some e \<Rightarrow> emit (PushPadEvent e ev) p)"

definition SendQtDemuxOverrideEvent :: "nat \<Rightarrow> bool \<Rightarrow> int \<Rightarrow> player \<Rightarrow> bool \<times> player" where
  "SendQtDemuxOverrideEvent i enablePTSReStamp vodTrickModeFPS p =
     (let enableOverride = (\<not> enablePTSReStamp \<and> pl_rate p \<noteq> GST_NORMAL_PLAY_RATE)
      in (enableOverride,
          if st_format (get_stream i p) = GST_FORMAT_ISO_BMFF \<and> i \<noteq> eGST_MEDIATYPE_SUBTITLE
          then push_event i (OverrideEvent enableOverride (pl_rate p) vodTrickModeFPS) p else p))"

text \<open>The protection event of the track, or else the first one of another track.\<close>

definition protection_for :: "nat \<Rightarrow> player \<Rightarrow> nat option" where
  "protection_for i p =
     (case protectionEvent p ! i of
        Some ev \<Rightarrow> Some ev
      | None \<Rightarrow> (case find (\<lambda>k. k \<noteq> i \<and> protectionEvent p ! k \<noteq> None) [0..<GST_TRACK_COUNT] of
                   None \<Rightarrow> None | Some k \<Rightarrow> protectionEvent p ! k))"

definition send_pending_seek :: "nat \<Rightarrow> player \<Rightarrow> player" where
  "send_pending_seek i p =
     (if st_pendingSeek (get_stream i p) then
        let p = (if seekPosition p > 0
                 then (case st_source (get_stream i p) of None \<Rightarrow> p | Some e \<Rightarrow> emit (SeekElement e 1 (seekPosition p)) p)
                 else p)
        in on_stream i (\<lambda>s. s\<lparr>st_pendingSeek := False\<rparr>) p
      else p)"

definition SendGstEvents :: "nat \<Rightarrow> bool \<Rightarrow> bool \<Rightarrow> int \<Rightarrow> player \<Rightarrow> player" where
  "SendGstEvents i enableGstPosQuery enablePTSReStamp vodTrickModeFPS p =
     (let p = send_pending_seek i p;
          (enableOverride, p) = SendQtDemuxOverrideEvent i enablePTSReStamp vodTrickModeFPS p;
          p = (if i = eGST_MEDIATYPE_VIDEO
               then p\<lparr>segmentStart := (if enableGstPosQuery \<and> \<not> enableOverride then - 1 else 0)\<rparr> else p);
          p = (if st_format (get_stream i p) = GST_FORMAT_ISO_BMFF
               then (case protection_for i p of None \<Rightarrow> p | Some ev \<Rightarrow> push_event i (ProtectionEvent ev) p) else p)
      in on_stream i (\<lambda>s. s\<lparr>st_resetPosition := False\<rparr>) p)"

definition SendNewSegmentEvent :: "nat \<Rightarrow> u64 \<Rightarrow> u64 \<Rightarrow> player \<Rightarrow> player" where
  "SendNewSegmentEvent i startPts stopPts p =
     (if st_format (get_stream i p) = GST_FORMAT_ISO_BMFF
      then push_event i (NewSegment startPts stopPts
             (if \<not> IsVideoMaster (pl_soc p) \<and> i = eGST_MEDIATYPE_VIDEO then pl_rate p else GST_NORMAL_PLAY_RATE)) p
      else p)"

section \<open>Buffers\<close>

definition ForwardAudioBuffersToAux :: "player \<Rightarrow> bool" where
  "ForwardAudioBuffersToAux p \<longleftrightarrow>
     forwardAudioBuffers p \<and> st_format (get_stream eGST_MEDIATYPE_AUX_AUDIO p) \<noteq> GST_FORMAT_INVALID"

definition push_buffer :: "gst_env \<Rightarrow> nat \<Rightarrow> gst_buffer \<Rightarrow> player \<Rightarrow> flow_return \<times> player" where
  "push_buffer env i b p =
     (case st_source (get_stream i p) of
        None \<Rightarrow> (GST_FLOW_ERROR, p)
      | Some e \<Rightarrow> let p = emit (PushBuffer e b) p in (push_ret env (pl_trace p), p))"

definition ForwardBuffersToAuxPipeline ::
  "gst_env \<Rightarrow> (int \<Rightarrow> player \<Rightarrow> player) \<Rightarrow> gst_buffer \<Rightarrow> bool \<Rightarrow> player \<Rightarrow> player res" where
  "ForwardBuffersToAuxPipeline env others buffer pauseInjecter p =
     (let s = get_stream eGST_MEDIATYPE_AUX_AUDIO p;
          (status, p) = (if \<not> st_sourceConfigured s \<and> st_format s \<noteq> GST_FORMAT_INVALID
                         then WaitForSourceSetup others eGST_MEDIATYPE_AUX_AUDIO p else (True, p))
      in if pauseInjecter \<and> \<not> status then Inr p
         else if \<not> alloc_ok env (pl_trace p) then Inr p
         else (case push_buffer env eGST_MEDIATYPE_AUX_AUDIO buffer p of
                 (ret, p) \<Rightarrow> if ret = GST_FLOW_OK then Inr p else Inl AssertFail))"

definition HandleVideoBufferSent :: "player \<Rightarrow> bool \<times> player" where
  "HandleVideoBufferSent p = (numberOfVideoBuffersSent p = 0, p\<lparr>numberOfVideoBuffersSent := numberOfVideoBuffersSent p + 1\<rparr>)"

text \<open>The arguments of \<^verbatim>\<open>SendHelper\<close>, and its reference arguments.\<close>

record send_args =
  sa_data :: mem
  sa_pts :: real
  sa_dts :: real
  sa_duration :: real
  sa_offset :: real
  sa_init :: bool

record send_flags =
  sf_discontinuity :: bool
  sf_notifyFirstBufferProcessed :: bool
  sf_sendNewSegmentEvent :: bool
  sf_resetTrickUTC :: bool
  sf_firstBufferPushed :: bool

definition make_buffer :: "nat \<Rightarrow> send_args \<Rightarrow> player \<Rightarrow> gst_buffer" where
  "make_buffer i a p =
     \<lparr>bf_data = sa_data a, bf_pts = clock_time (sa_pts a), bf_dts = clock_time (sa_dts a),
      bf_duration = clock_time (sa_duration a),
      bf_offset = (if i = eGST_MEDIATYPE_SUBTITLE
                   then Some (if cf_enablePTSReStamp (pl_cfg p) then - \<lfloor>sa_offset a * 1000\<rfloor> else 0) else None)\<rparr>"

text \<open>What is sent before the first buffer. The second result is whether the new segment was sent.\<close>

definition send_first_events :: "nat \<Rightarrow> u64 \<Rightarrow> bool \<Rightarrow> player \<Rightarrow> bool \<times> player" where
  "send_first_events i pts wantSegment p =
     (let cfg = pl_cfg p;
          events = (\<lambda>i. SendGstEvents i (cf_enableGstPosQuery cfg) (cf_enablePTSReStamp cfg) (cf_vodTrickModeFPS cfg));
          p = events i p;
          p = (if i = eGST_MEDIATYPE_AUDIO \<and> ForwardAudioBuffersToAux p then events eGST_MEDIATYPE_AUX_AUDIO p else p)
      in if IsPlatformSegmentReady (pl_soc p) \<and> wantSegment then (True, SendNewSegmentEvent i pts 0 p) else (False, p))"

text \<open>The push itself: the result is whether the first buffer was pushed.\<close>

definition push_media :: "gst_env \<Rightarrow> nat \<Rightarrow> gst_buffer \<Rightarrow> bool \<Rightarrow> bool \<Rightarrow> player \<Rightarrow> (bool \<times> player) res" where
  "push_media env i b isFirstBuffer initFragment p =
     (let (ret, p) = push_buffer env i b p
      in if ret \<notin> {GST_FLOW_OK, GST_FLOW_EOS, GST_FLOW_FLUSHING} \<and> i \<noteq> eGST_MEDIATYPE_SUBTITLE then Inl AssertFail
         else
           let p = (if ret = GST_FLOW_OK then on_stream i (\<lambda>s. s\<lparr>st_bufferUnderrun := False\<rparr>) p else p)
           in Inr (isFirstBuffer \<and> ret = GST_FLOW_OK,
                   on_stream i (\<lambda>s. s\<lparr>st_firstBufferProcessed := st_firstBufferProcessed s \<or> \<not> initFragment\<rparr>) p))"

definition await_source :: "(int \<Rightarrow> player \<Rightarrow> player) \<Rightarrow> nat \<Rightarrow> player \<Rightarrow> bool \<times> player" where
  "await_source others i p =
     (if \<not> st_sourceConfigured (get_stream i p) \<and> st_format (get_stream i p) \<noteq> GST_FORMAT_INVALID
      then let (ok, p) = WaitForSourceSetup others i p in (ok \<and> \<not> mPauseInjector p, p) else (True, p))"

text \<open>The results are whether there was a buffer to push, and whether the first buffer was pushed.\<close>

definition push_all ::
  "gst_env \<Rightarrow> (int \<Rightarrow> player \<Rightarrow> player) \<Rightarrow> nat \<Rightarrow> send_args \<Rightarrow> bool \<Rightarrow> player \<Rightarrow> (bool \<times> bool \<times> player) res" where
  "push_all env others i a isFirstBuffer p =
     (let b = make_buffer i a p
      in if \<not> mPauseInjector p \<and> alloc_ok env (pl_trace p)
         then bindE (if i = eGST_MEDIATYPE_AUDIO \<and> ForwardAudioBuffersToAux p
                     then ForwardBuffersToAuxPipeline env others b (mPauseInjector p) p else Inr p)
                (\<lambda>p. bindE (push_media env i b isFirstBuffer (sa_init a) p) (\<lambda>(pushed, p). Inr (True, pushed, p)))
         else Inr (False, False, p))"

definition send_result :: "send_flags \<Rightarrow> bool \<Rightarrow> bool \<Rightarrow> bool \<Rightarrow> player \<Rightarrow> send_flags" where
  "send_result f isFirstBuffer segmentEventSent pushed p =
     \<lparr>sf_discontinuity = isFirstBuffer \<or> sf_discontinuity f,
      sf_notifyFirstBufferProcessed = (isFirstBuffer \<and> \<not> using_westerossink p) \<or> sf_notifyFirstBufferProcessed f,
      sf_sendNewSegmentEvent = segmentEventSent,
      sf_resetTrickUTC = (if isFirstBuffer then ResetTrickUTC (pl_soc p) else sf_resetTrickUTC f),
      sf_firstBufferPushed = pushed \<or> sf_firstBufferPushed f\<rparr>"

definition SendHelper ::
  "gst_env \<Rightarrow> (int \<Rightarrow> player \<Rightarrow> player) \<Rightarrow> nat \<Rightarrow> send_args \<Rightarrow> send_flags \<Rightarrow> player \<Rightarrow> (bool \<times> send_flags \<times> player) res" where
  "SendHelper env others i a f p =
     (let isFirstBuffer = st_resetPosition (get_stream i p);
          (status, p) = await_source others i p
      in if \<not> status then Inr (False, f, p)
         else
           let (segmentEventSent, p) =
                 (if isFirstBuffer then send_first_events i (clock_time (sa_pts a)) (sf_sendNewSegmentEvent f) p else (False, p))
           in bindE (push_all env others i a isFirstBuffer p)
                (\<lambda>(bPushBuffer, pushed, p). Inr (bPushBuffer, send_result f isFirstBuffer segmentEventSent pushed p,
                   if i = eGST_MEDIATYPE_VIDEO then p\<lparr>numberOfVideoBuffersSent := numberOfVideoBuffersSent p + 1\<rparr> else p)))"

section \<open>Protection events\<close>

definition clear_protection :: "nat \<Rightarrow> player \<Rightarrow> player" where
  "clear_protection i p =
     (case protectionEvent p ! i of
        None \<Rightarrow> p
      | Some ev \<Rightarrow> (emit (Unref ev) p)\<lparr>protectionEvent := (protectionEvent p)[i := None]\<rparr>)"

text \<open>The new event is named by what GStreamer returns for it.\<close>

definition QueueProtectionEvent :: "gst_env \<Rightarrow> byte list option \<Rightarrow> nat \<Rightarrow> player \<Rightarrow> player" where
  "QueueProtectionEvent env pssh i p =
     (let p = clear_protection i p
      in if pssh = None \<or> pssh = Some [] then p
         else let p = emit (MakeElement ''protection'') p
              in p\<lparr>protectionEvent := (protectionEvent p)[i := make_ret env (pl_trace p)]\<rparr>)"

definition ClearProtectionEvent :: "player \<Rightarrow> player" where
  "ClearProtectionEvent p = fold clear_protection [0..<GST_TRACK_COUNT] p"

section \<open>Questions about the stream\<close>

definition PipelineConfiguredForMedia :: "nat \<Rightarrow> player \<Rightarrow> bool" where
  "PipelineConfiguredForMedia i p = st_sourceConfigured (get_stream i p)"

definition IsStreamReady :: "nat \<Rightarrow> player \<Rightarrow> bool" where
  "IsStreamReady i p \<longleftrightarrow> st_sinkbin (get_stream i p) \<noteq> None \<and> st_sourceConfigured (get_stream i p)"

text \<open>The states are the ones of the sink bin; without one they are not initialised, which is undefined.\<close>

definition GetBufferControlData :: "gst_env \<Rightarrow> nat \<Rightarrow> player \<Rightarrow> bool res" where
  "GetBufferControlData env i p =
     (case st_sinkbin (get_stream i p) of
        None \<Rightarrow> Inl Undefined
      | Some e \<Rightarrow> (case get_state_ret env (pl_trace p) e of (_, current, pending) \<Rightarrow>
          Inr (pending = GST_STATE_PAUSED \<or> (\<not> pl_paused p \<and> current \<noteq> GST_STATE_PLAYING))))"

definition SignalTrickModeDiscontinuity :: "player \<Rightarrow> player" where
  "SignalTrickModeDiscontinuity p =
     (if pl_rate p \<noteq> GST_NORMAL_PLAY_RATE
      then push_event eGST_MEDIATYPE_VIDEO (TrickModeDisc (cf_vodTrickModeFPS (pl_cfg p))) p else p)"

definition GetPositionMilliseconds :: "gst_env \<Rightarrow> player \<Rightarrow> int \<times> player" where
  "GetPositionMilliseconds env p =
     (case pipeline p of
        None \<Rightarrow> (0, p)
      | Some e \<Rightarrow>
          if \<not> positionQuery p then (0, p)
          else if pipelineState p \<noteq> GST_STATE_PLAYING \<and> \<not> (pipelineState p = GST_STATE_PAUSED \<and> pl_paused p)
                  \<and> target_state env (pl_trace p) e \<noteq> GST_STATE_PLAYING
          then (0, p)
          else
            let video = get_stream eGST_MEDIATYPE_VIDEO p;
                start = Option.bind (st_source video) (query_segment env (pl_trace p));
                p = (if segmentStart p = - 1
                     then (case start of None \<Rightarrow> p | Some ns \<Rightarrow> p\<lparr>segmentStart := ms_of_ns ns\<rparr>) else p);
                r = (if cf_media (pl_cfg p) = eGST_MEDIAFORMAT_PROGRESSIVE then 1 else pl_rate p)
            in case Option.bind (st_sinkbin video) (query_position env (pl_trace p)) of
                 None \<Rightarrow> (0, p)
               | Some pos \<Rightarrow> ((if segmentStart p > 0 then ms_of_ns pos - segmentStart p else ms_of_ns pos) * r, p))"

definition GetDurationMilliseconds :: "gst_env \<Rightarrow> player \<Rightarrow> int" where
  "GetDurationMilliseconds env p =
     (case pipeline p of
        None \<Rightarrow> 0
      | Some e \<Rightarrow>
          if pipelineState p = GST_STATE_PLAYING \<or> (pipelineState p = GST_STATE_PAUSED \<and> pl_paused p)
          then (case query_duration env (pl_trace p) e of None \<Rightarrow> 0 | Some ns \<Rightarrow> ms_of_ns ns) else 0)"

section \<open>The video rectangle\<close>

definition show_int :: "int \<Rightarrow> string" where
  "show_int k = (if k < 0 then ''-'' @ decimal (nat (- k)) else decimal (nat k))"

definition show_rect :: "int \<Rightarrow> int \<Rightarrow> int \<Rightarrow> int \<Rightarrow> string" where
  "show_rect x y w h = show_int x @ '','' @ show_int y @ '','' @ show_int w @ '','' @ show_int h"

text \<open>\<^verbatim>\<open>%d\<close> of \<^verbatim>\<open>sscanf\<close>, and the four numbers with commas: as many as could be read.\<close>

definition scan_int :: "string \<Rightarrow> (int \<times> string) option" where
  "scan_int s =
     (let t = dropWhile is_space s;
          (neg, u) = (case t of c # r \<Rightarrow> if c = CHR ''-'' then (True, r) else if c = CHR ''+'' then (False, r) else (False, t)
                      | [] \<Rightarrow> (False, []));
          ds = takeWhile is_digit u; n = int (digits_value ds)
      in if ds = [] then None else Some (if neg then - n else n, dropWhile is_digit u))"

fun scan_more :: "nat \<Rightarrow> string \<Rightarrow> int list" where
  "scan_more 0 s = []"
| "scan_more (Suc k) s =
     (case s of [] \<Rightarrow> []
      | c # r \<Rightarrow> if c \<noteq> CHR '','' then []
                 else (case scan_int r of None \<Rightarrow> [] | Some (v, u) \<Rightarrow> v # scan_more k u))"

definition scan_rect :: "string \<Rightarrow> int list" where
  "scan_rect s = (case scan_int s of None \<Rightarrow> [] | Some (v, u) \<Rightarrow> v # scan_more 3 u)"

text \<open>\<^verbatim>\<open>char videoRectangle[32]\<close>\<close>

definition RECT_CHARS :: nat where "RECT_CHARS = 31"

definition SetVideoRectangle :: "int \<Rightarrow> int \<Rightarrow> int \<Rightarrow> int \<Rightarrow> player \<Rightarrow> player" where
  "SetVideoRectangle x y w h p =
     (let current = take 4 (scan_rect (videoRectangle p) @ replicate 4 0)
      in if current = [x, y, w, h] then p
         else
           let p = p\<lparr>videoRectangle := take RECT_CHARS (show_rect x y w h)\<rparr>
           in if cf_enableRectPropertyCfg (pl_cfg p)
              then set_prop (video_sink p) ''rectangle'' (PString (videoRectangle p)) p else p)"

text \<open>The old width and height are returned when there is no rectangle.\<close>

definition GetVideoSize :: "int \<times> int \<Rightarrow> player \<Rightarrow> int \<times> int" where
  "GetVideoSize old p =
     (case scan_rect (videoRectangle p) of [x, y, w, h] \<Rightarrow> if w > 0 \<and> h > 0 then (w, h) else old | _ \<Rightarrow> old)"

section \<open>Rate and subtitles\<close>

definition SetPlayBackRate :: "gst_env \<Rightarrow> real \<Rightarrow> player \<Rightarrow> bool \<times> player" where
  "SetPlayBackRate env rate p =
     (let sources = List.map_filter (\<lambda>i. if i \<noteq> eGST_MEDIATYPE_SUBTITLE then st_source (get_stream i p) else None)
                      [0..<GST_TRACK_COUNT];
          (ret, as) = SetPlaybackRate env (pl_trace p) (pl_soc p) sources (pipeline p) rate (video_dec p) (audio_dec p)
      in (ret, emits as p))"

definition SetSubtitlePtsOffset :: "u64 \<Rightarrow> player \<Rightarrow> player" where
  "SetSubtitlePtsOffset pts_offset p =
     (if usingRialtoSink p
      then (case st_source (get_stream eGST_MEDIATYPE_SUBTITLE p) of
              None \<Rightarrow> p | Some e \<Rightarrow> emit (SendElementEvent e (PtsOffset (clock_time (real (unat pts_offset))))) p)
      else set_prop (subtitle_sink p) ''pts-offset'' (PInt (uint (pts_offset * 1000))) p)"

definition SignalSubtitleClock :: "gst_env \<Rightarrow> int \<Rightarrow> bool \<Rightarrow> player \<Rightarrow> bool \<times> player" where
  "SignalSubtitleClock env vPTS underflowState p =
     (let s = get_stream eGST_MEDIATYPE_SUBTITLE p
      in if st_format s = GST_FORMAT_INVALID \<or> st_source s = None then (False, p)
         else case pipeline p of
           None \<Rightarrow> (False, p)
         | Some e \<Rightarrow>
             (case get_state_ret env (pl_trace p) e of (ret, current, _) \<Rightarrow>
                if current = GST_STATE_PLAYING \<and> ret \<noteq> GST_STATE_CHANGE_FAILURE \<and> \<not> underflowState \<and> vPTS > 0
                then let p = push_event eGST_MEDIATYPE_SUBTITLE (SubClockSync (clock_time (of_int vPTS / 90000))) p
                     in (event_ret env (pl_trace p), p)
                else (False, p)))"

text \<open>The fields of the structure of attributes and where their values come from; the mask is the last one.\<close>

definition style_fields :: "(string \<times> nat) list" where
  "style_fields = [(''font_color'', FONT_COLOR_ARR_POSITION), (''background_color'', BACKGROUND_COLOR_ARR_POSITION),
     (''font_opacity'', FONT_OPACITY_ARR_POSITION), (''background_opacity'', BACKGROUND_OPACITY_ARR_POSITION),
     (''font_style'', FONT_STYLE_ARR_POSITION), (''font_size'', FONT_SIZE_ARR_POSITION),
     (''window_color'', WIN_COLOR_ARR_POSITION), (''window_opacity'', WIN_OPACITY_ARR_POSITION),
     (''edge_type'', EDGE_TYPE_ARR_POSITION), (''edge_color'', EDGE_COLOR_ARR_POSITION)]"

definition SetTextStyle ::
  "(string \<Rightarrow> (string \<Rightarrow> string option) option) \<Rightarrow> string \<Rightarrow> player \<Rightarrow> bool \<times> (elem \<times> (string \<times> u32) list) option" where
  "SetTextStyle parse_json options p =
     (case subtitle_sink p of
        None \<Rightarrow> (False, None)
      | Some e \<Rightarrow> (case getAttributes parse_json options (replicate 14 0) of (rc, values, msk) \<Rightarrow>
          (True, if rc = 0 \<and> msk \<noteq> 0 then
             Some (e, map (\<lambda>(name, k). (name, values ! k)) style_fields @ [(''attribute_mask'', msk)]) else None)))"

section \<open>Codecs\<close>

definition gstMapDecoderLookUptable :: "string \<Rightarrow> string list" where
  "gstMapDecoderLookUptable codec =
     (if codec = ''ac-3'' then [''omxac3dec'', ''avdec_ac3'', ''avdec_ac3_fixed'']
      else if codec = ''ac-4'' then [''omxac4dec''] else [])"

definition IsCodecSupported :: "(string \<Rightarrow> bool) \<Rightarrow> string \<Rightarrow> bool" where
  "IsCodecSupported registered codecName = list_ex registered (gstMapDecoderLookUptable codecName)"

section \<open>Elements, probes and plugins\<close>

text \<open>An element of the pipeline or a bin with its children, down to the limit of the recursion.\<close>

datatype gst_node = Element elem | Bin elem "gst_node list" | NoElement

definition RECURSION_LIMIT :: nat where "RECURSION_LIMIT = 10"

fun GetElementPointers :: "nat \<Rightarrow> gst_node \<Rightarrow> elem list" where
  "GetElementPointers depth (Element e) = (if RECURSION_LIMIT < depth + 1 then [] else [e])"
| "GetElementPointers depth (Bin e children) =
     (if RECURSION_LIMIT < depth + 1 then [] else e # concat (map (GetElementPointers (depth + 1)) children))"
| "GetElementPointers depth NoElement = []"

text \<open>The pad of a new demultiplexer; \<open>parents\<close> are its ancestors with their names, the nearest first.\<close>

definition add_demux_probe :: "gst_env \<Rightarrow> elem \<Rightarrow> nat \<Rightarrow> nat \<Rightarrow> player \<Rightarrow> player" where
  "add_demux_probe env parent newPad i p =
     (if st_sinkbin (get_stream i p) = Some parent \<and> st_demuxPad (get_stream i p) = 0
      then let p = emit (AddPadProbe newPad) p
           in on_stream i (\<lambda>s. s\<lparr>st_demuxPad := newPad, st_demuxProbeId := signal_id env (pl_trace p)\<rparr>) p
      else p)"

definition GstPlayer_OnDemuxPadAddedCb :: "gst_env \<Rightarrow> (elem \<times> string) list \<Rightarrow> nat \<Rightarrow> player \<Rightarrow> player" where
  "GstPlayer_OnDemuxPadAddedCb env parents newPad p =
     (case find (\<lambda>(e, name). soc_StartsWith name ''playbin'') parents of
        None \<Rightarrow> p
      | Some (parent, _) \<Rightarrow> fold (add_demux_probe env parent newPad) [0..<GST_TRACK_COUNT] p)"

definition element_setup_cb :: "elem \<Rightarrow> string \<Rightarrow> player \<Rightarrow> player" where
  "element_setup_cb e name p = (if soc_StartsWith name ''qtdemux'' then emit (ConnectSignal e ''pad-added'') p else p)"

text \<open>The probe that turns a seek of the instant rate change into its event: the rate of the segment that it keeps,
  and the multiplier that it sends when it handles the event.\<close>

datatype pad_event = SeekEvent real bool | SegmentEvent real | OtherEvent

fun HandleInstantRateChangeSeekProbe :: "pad_event \<Rightarrow> real \<Rightarrow> real option \<times> real" where
  "HandleInstantRateChangeSeekProbe (SeekEvent rate instant) segment =
     (if instant then Some (rate / segment) else None, segment)"
| "HandleInstantRateChangeSeekProbe (SegmentEvent rate) segment = (None, rate)"
| "HandleInstantRateChangeSeekProbe OtherEvent segment = (None, segment)"

definition gstGetMediaTypeName :: "nat \<Rightarrow> string" where
  "gstGetMediaTypeName mediaType =
     (if mediaType < eGST_MEDIATYPE_DEFAULT
      then [''video'', ''audio'', ''text'', ''aux_audio'', ''manifest'', ''licence'', ''iframe'', ''init_video'', ''init_audio'',
            ''init_text'', ''init_aux_audio'', ''playlist_video'', ''playlist_audio'', ''playlist_text'', ''playlist_aux_audio'',
            ''playlist_iframe'', ''init_iframe'', ''dsm_cc'', ''image''] ! mediaType
      else ''UNKNOWN'')"

text \<open>The ranks that are set, for the plugins that the registry has.\<close>

definition GST_RANK_PRIMARY :: int where "GST_RANK_PRIMARY = 256"

definition InitializePlayerGstreamerPlugins :: "(string \<Rightarrow> bool) \<Rightarrow> (string \<times> int) list" where
  "InitializePlayerGstreamerPlugins registered =
     filter (\<lambda>(name, _). registered name)
       (map (\<lambda>name. (name, GST_RANK_PRIMARY + 111))
          [''playreadydecryptor'', ''widevinedecryptor'', ''clearkeydecryptor'', ''verimatrixdecryptor'']
        @ map (\<lambda>name. (name, GST_RANK_PRIMARY - 1)) [''aacparse'', ''ac3parse''])"

text \<open>The element whose statistics are the quality of the video.\<close>

definition GetVideoPlaybackQuality_element :: "player \<Rightarrow> elem option" where
  "GetVideoPlaybackQuality_element p = (if IsPlaybackQualityFromSink (pl_soc p) then video_sink p else video_dec p)"

end
