(* ===== verification/Gst_Frame.thy ===== *)
theory Gst_Frame
  imports Gst_Bus Gst_Inject
begin

text \<open>
  What the operations of the player leave alone. \<open>core\<close> is the part of the state that the invariants of the player
  speak of: the scheduler, the pending end of stream, the identifiers of the other tasks, the sizes of the arrays and the flag of the monitoring. Most
  operations do not touch it; the collection \<open>frame\<close> says so for each of them.
\<close>

named_theorems frame

definition core :: "player \<Rightarrow> sched \<times> bool \<times> int \<times> int list \<times> nat \<times> nat \<times> bool" where
  "core p = (mScheduler p, eosCallbackIdleTaskPending p, eosCallbackIdleTaskId p,
     [taskID (firstProgressCallbackIdleTask p), taskID (firstVideoFrameDisplayedCallbackTask p), firstFrameCallbackIdleTaskId p],
     length (pl_stream p), length (protectionEvent p), mo_happy (monitorAVstate p))"

lemma core_fold [frame]: "(\<And>x p. core (f x p) = core p) \<Longrightarrow> core (fold f xs p) = core p"
  by (induction xs arbitrary: p) simp_all

lemma core_if [frame]: "core (if b then p else q) = (if b then core p else core q)"
  by simp

lemma core_LetI:
  "core a = core p \<Longrightarrow> (\<And>x. core x = core p \<Longrightarrow> core (f x) = core p) \<Longrightarrow> core (Let a f) = core p"
  "(\<And>x. core (g x) = core p) \<Longrightarrow> core (Let (fmt :: stream_format) g) = core p"
  "(\<And>x. core (h x) = core p) \<Longrightarrow> core (Let (y :: 'a option) h) = core p"
  by (simp_all add: Let_def)

lemma core_Let: "core (Let a f) = Let a (\<lambda>x. core (f x))"
  by (simp add: Let_def)

lemma core_snd_if [frame]: "core (snd (if b then p else q)) = (if b then core (snd p) else core (snd q))"
  by simp

lemma core_platform [frame]:
  "core (case x of SOC_PLATFORM_DEFAULT \<Rightarrow> p | SOC_PLATFORM_AMLOGIC \<Rightarrow> q | SOC_PLATFORM_REALTEK \<Rightarrow> r
     | SOC_PLATFORM_BROADCOM \<Rightarrow> t) = (case x of SOC_PLATFORM_DEFAULT \<Rightarrow> core p | SOC_PLATFORM_AMLOGIC \<Rightarrow> core q
     | SOC_PLATFORM_REALTEK \<Rightarrow> core r | SOC_PLATFORM_BROADCOM \<Rightarrow> core t)"
  by (cases x) simp_all

lemma case_platform_const [simp]:
  "(case x of SOC_PLATFORM_DEFAULT \<Rightarrow> c | SOC_PLATFORM_AMLOGIC \<Rightarrow> c | SOC_PLATFORM_REALTEK \<Rightarrow> c
     | SOC_PLATFORM_BROADCOM \<Rightarrow> c) = c"
  by (cases x) simp_all

lemma core_protection [simp]:
  "length v = length (protectionEvent p) \<Longrightarrow> core (p\<lparr>protectionEvent := v\<rparr>) = core p"
  by (simp add: core_def)

lemma core_option [frame]:
  "core (case x of None \<Rightarrow> p | Some y \<Rightarrow> f y) = (case x of None \<Rightarrow> core p | Some y \<Rightarrow> core (f y))"
  by (cases x) simp_all


lemma core_updates [simp]:
  "core (p\<lparr>pl_cfg := x0\<rparr>) = core p"
  "core (p\<lparr>pl_soc := x1\<rparr>) = core p"
  "core (p\<lparr>pipeline := x2\<rparr>) = core p"
  "core (p\<lparr>bus := x3\<rparr>) = core p"
  "core (p\<lparr>video_dec := x4\<rparr>) = core p"
  "core (p\<lparr>audio_dec := x5\<rparr>) = core p"
  "core (p\<lparr>video_sink := x6\<rparr>) = core p"
  "core (p\<lparr>audio_sink := x7\<rparr>) = core p"
  "core (p\<lparr>subtitle_sink := x8\<rparr>) = core p"
  "core (p\<lparr>pl_task_pool := x9\<rparr>) = core p"
  "core (p\<lparr>pl_rate := x10\<rparr>) = core p"
  "core (p\<lparr>pl_zoom := x11\<rparr>) = core p"
  "core (p\<lparr>videoMuted := x12\<rparr>) = core p"
  "core (p\<lparr>audioMuted := x13\<rparr>) = core p"
  "core (p\<lparr>subtitleMuted := x14\<rparr>) = core p"
  "core (p\<lparr>audioVolume := x15\<rparr>) = core p"
  "core (p\<lparr>periodicProgressCallbackIdleTaskId := x18\<rparr>) = core p"
  "core (p\<lparr>bufferingTimeoutTimerId := x19\<rparr>) = core p"
  "core (p\<lparr>ptsCheckForEosOnUnderflowIdleTaskId := x20\<rparr>) = core p"
  "core (p\<lparr>firstFrameCallbackIdleTaskPending := x22\<rparr>) = core p"
  "core (p\<lparr>firstFrameReceived := x23\<rparr>) = core p"
  "core (p\<lparr>firstVideoFrameReceived := x24\<rparr>) = core p"
  "core (p\<lparr>firstAudioFrameReceived := x25\<rparr>) = core p"
  "core (p\<lparr>pendingPlayState := x26\<rparr>) = core p"
  "core (p\<lparr>decoderHandleNotified := x27\<rparr>) = core p"
  "core (p\<lparr>using_westerossink := x28\<rparr>) = core p"
  "core (p\<lparr>usingRialtoSink := x29\<rparr>) = core p"
  "core (p\<lparr>videoRectangle := x30\<rparr>) = core p"
  "core (p\<lparr>pauseOnStartPlayback := x31\<rparr>) = core p"
  "core (p\<lparr>eosSignalled := x32\<rparr>) = core p"
  "core (p\<lparr>buffering_enabled := x33\<rparr>) = core p"
  "core (p\<lparr>buffering_in_progress := x34\<rparr>) = core p"
  "core (p\<lparr>buffering_timeout_cnt := x35\<rparr>) = core p"
  "core (p\<lparr>buffering_target_state := x36\<rparr>) = core p"
  "core (p\<lparr>lastKnownPTS := x37\<rparr>) = core p"
  "core (p\<lparr>ptsUpdatedTimeMS := x38\<rparr>) = core p"
  "core (p\<lparr>numberOfVideoBuffersSent := x39\<rparr>) = core p"
  "core (p\<lparr>segmentStart := x40\<rparr>) = core p"
  "core (p\<lparr>positionQuery := x41\<rparr>) = core p"
  "core (p\<lparr>pl_paused := x42\<rparr>) = core p"
  "core (p\<lparr>pipelineState := x43\<rparr>) = core p"
  "core (p\<lparr>firstTuneWithWesterosSinkOff := x44\<rparr>) = core p"
  "core (p\<lparr>decodeErrorMsgTimeMS := x45\<rparr>) = core p"
  "core (p\<lparr>decodeErrorCBCount := x46\<rparr>) = core p"
  "core (p\<lparr>forwardAudioBuffers := x47\<rparr>) = core p"
  "core (p\<lparr>enableSEITimeCode := x48\<rparr>) = core p"
  "core (p\<lparr>NumberOfTracks := x49\<rparr>) = core p"
  "core (p\<lparr>filterAudioDemuxBuffers := x50\<rparr>) = core p"
  "core (p\<lparr>seekPosition := x51\<rparr>) = core p"
  "core (p\<lparr>mCallBackIdentifiers := x52\<rparr>) = core p"
  "core (p\<lparr>trickTeardown := x53\<rparr>) = core p"
  "core (p\<lparr>PipelineSetToReady := x54\<rparr>) = core p"
  "core (p\<lparr>mFirstFrameRequired := x55\<rparr>) = core p"
  "core (p\<lparr>mPauseInjector := x56\<rparr>) = core p"
  "core (p\<lparr>pl_trace := x57\<rparr>) = core p"
  by (simp_all add: core_def)

lemma core_emit [frame]: "core (emit a p) = core p"
  by (simp add: emit_def core_def Let_def split_def frame split: option.split)

lemma core_emits [frame]: "core (emits as p) = core p"
  by (simp add: emits_def core_def Let_def split_def frame split: option.split)

lemma core_notify_app [frame]: "core (notify_app a p) = core p"
  by (simp add: notify_app_def Let_def split_def frame split: option.split)

lemma core_on_stream [frame]: "core (on_stream i f p) = core p"
  by (simp add: on_stream_def core_def Let_def split_def frame split: option.split)

lemma core_on_streams [frame]: "core (on_streams f p) = core p"
  by (simp add: on_streams_def core_def Let_def split_def frame split: option.split)

lemma core_EnablePendingPlayState [frame]: "core (EnablePendingPlayState p) = core p"
  by (simp add: EnablePendingPlayState_def Let_def split_def frame split: option.split)

lemma core_SetPauseOnStartPlayback [frame]: "core (SetPauseOnStartPlayback b p) = core p"
  by (simp add: SetPauseOnStartPlayback_def Let_def split_def frame split: option.split)

lemma core_SetPendingSeek [frame]: "core (SetPendingSeek b p) = core p"
  by (simp add: SetPendingSeek_def Let_def split_def frame split: option.split)

lemma core_SetSeekPosition [frame]: "core (SetSeekPosition x p) = core p"
  by (simp add: SetSeekPosition_def Let_def split_def frame split: option.split)

lemma core_ResetGstEvents [frame]: "core (ResetGstEvents p) = core p"
  by (simp add: ResetGstEvents_def Let_def split_def frame split: option.split)

lemma core_SetTrickTearDown [frame]: "core (SetTrickTearDown b p) = core p"
  by (simp add: SetTrickTearDown_def Let_def split_def frame split: option.split)

lemma core_ResetEOSSignalledFlag [frame]: "core (ResetEOSSignalledFlag p) = core p"
  by (simp add: ResetEOSSignalledFlag_def Let_def split_def frame split: option.split)

lemma core_ResetFirstFrame [frame]: "core (ResetFirstFrame p) = core p"
  by (simp add: ResetFirstFrame_def Let_def split_def frame split: option.split)

lemma core_DisableDecoderHandleNotified [frame]: "core (DisableDecoderHandleNotified p) = core p"
  by (simp add: DisableDecoderHandleNotified_def Let_def split_def frame split: option.split)

lemma core_PauseInjector [frame]: "core (PauseInjector p) = core p"
  by (simp add: PauseInjector_def Let_def split_def frame split: option.split)

lemma core_ResumeInjector [frame]: "core (ResumeInjector p) = core p"
  by (simp add: ResumeInjector_def Let_def split_def frame split: option.split)

lemma core_SignalEOS [frame]: "core (SignalEOS i p) = core p"
  by (simp add: SignalEOS_def Let_def split_def frame split: option.split)

lemma core_SignalEOS_all [frame]: "core (SignalEOS_all p) = core p"
  by (simp add: SignalEOS_all_def Let_def split_def frame split: option.split)

lemma core_SetStateWithWarnings [frame]: "core (snd (SetStateWithWarnings env e t p)) = core p"
  by (simp add: SetStateWithWarnings_def Let_def split_def frame split: option.split)

lemma core_RemoveProbe [frame]: "core (RemoveProbe i p) = core p"
  by (simp add: RemoveProbe_def Let_def split_def frame split: option.split)

lemma core_RemoveProbes [frame]: "core (RemoveProbes p) = core p"
  by (simp add: RemoveProbes_def Let_def split_def frame split: option.split)

lemma core_DisconnectSignals [frame]: "core (DisconnectSignals env p) = core p"
  by (simp add: DisconnectSignals_def Let_def split_def frame split: option.split)

lemma core_clear_stream_elements [frame]: "core (clear_stream_elements i p) = core p"
  by (simp add: clear_stream_elements_def Let_def split_def frame split: option.split)

lemma core_detach_sinkbin [frame]: "core (detach_sinkbin env i p) = core p"
  by (simp add: detach_sinkbin_def Let_def split_def frame split: option.split)

lemma core_release_stream [frame]: "core (release_stream env i p) = core p"
  by (simp add: release_stream_def Let_def split_def frame split: option.split)

lemma core_TearDownStream [frame]: "core (TearDownStream env i p) = core p"
  by (simp add: TearDownStream_def Let_def split_def frame split: option.split)

lemma core_DestroyPipeline [frame]: "core (DestroyPipeline p) = core p"
  by (simp add: DestroyPipeline_def Let_def split_def frame split: option.split)

lemma core_stop_timers [frame]: "core (stop_timers p) = core p"
  by (simp add: stop_timers_def TimerRemove_def Let_def split_def frame split: option.split)

lemma core_stop_pipeline [frame]: "core (stop_pipeline env p) = core p"
  by (simp add: stop_pipeline_def Let_def split_def frame split: option.split)

lemma core_stop_handlers [frame]: "core (stop_handlers env p) = core p"
  by (simp add: stop_handlers_def Let_def split_def frame split: option.split)

lemma core_flush_seek [frame]: "core (flush_seek env pl x r b p) = core p"
  by (simp add: flush_seek_def Let_def split_def frame split: option.split)

lemma core_FlushTrack [frame]: "core (snd (FlushTrack m x y z p)) = core p"
  by (simp add: FlushTrack_def Let_def split_def frame split: option.split)

lemma core_CreatePipeline [frame]: "core (snd (CreatePipeline env n p)) = core p"
  by (simp add: CreatePipeline_def Let_def split_def frame split: option.split)

lemma core_configure_sinks [frame]: "core (configure_sinks b r p) = core p"
  by (simp add: configure_sinks_def Let_def split_def frame split: option.split)

lemma core_configure_state [frame]: "core (configure_state env f p) = core p"
  by (simp add: configure_state_def Let_def split_def frame split: option.split)

lemma core_make_element [frame]: "core (snd (make_element env n p)) = core p"
  by (simp add: make_element_def Let_def split_def frame split: option.split)

lemma core_set_prop [frame]: "core (set_prop e n v p) = core p"
  by (simp add: set_prop_def Let_def split_def frame split: option.split)

lemma core_SignalConnect [frame]: "core (SignalConnect env e n p) = core p"
  by (simp add: SignalConnect_def Let_def split_def frame split: option.split)

lemma core_InitializeSourceForPlayer [frame]: "core (InitializeSourceForPlayer env e i p) = core p"
  unfolding InitializeSourceForPlayer_def by (intro core_LetI) (simp_all add: frame split: option.split)

lemma core_GetAppSrc [frame]: "core (snd (GetAppSrc env i p)) = core p"
  by (simp add: GetAppSrc_def Let_def split_def frame split: option.split)

lemma core_found_source [frame]: "core (found_source env e s p) = core p"
  by (simp add: found_source_def Let_def split_def frame split: option.split)

lemma core_setup_sinks [frame]: "core (setup_sinks env i bin p) = core p"
  by (simp add: setup_sinks_def Let_def split_def frame cong: if_cong platform.case_cong split del: if_split)

lemma core_setup_aux_sink [frame]: "core (setup_aux_sink env i bin p) = core p"
  by (simp add: setup_aux_sink_def Let_def split_def frame split: option.split)

lemma core_setup_playbin [frame]: "core (setup_playbin env i m bin p) = core p"
  by (simp add: setup_playbin_def core_Let frame cong: if_cong split: option.split)

lemma core_setup_subtecbin [frame]: "core (snd (setup_subtecbin env p)) = core p"
  by (simp add: setup_subtecbin_def Let_def split_def frame split: option.split)

lemma core_SetupStream [frame]: "core (snd (SetupStream env m i p)) = core p"
  by (simp add: SetupStream_def Let_def split_def frame split: option.split)

lemma core_InterfacePlayer_SetupStream [frame]: "core (snd (InterfacePlayer_SetupStream env m i p)) = core p"
  by (simp add: InterfacePlayer_SetupStream_def Let_def split_def frame split: option.split)

lemma core_NotifyFragmentCachingComplete [frame]: "core (NotifyFragmentCachingComplete env p) = core p"
  by (simp add: NotifyFragmentCachingComplete_def Let_def split_def frame split: option.split)

lemma core_CheckDiscontinuity [frame]: "core (snd (snd (snd (CheckDiscontinuity i sf c u h p)))) = core p"
  by (simp add: CheckDiscontinuity_def Let_def split_def frame split: option.split)

lemma core_OnGstBufferUnderflowCb [frame]: "core (OnGstBufferUnderflowCb env n p) = core p"
  by (simp add: OnGstBufferUnderflowCb_def Let_def split_def frame split: option.split)

lemma core_OnGstPtsErrorCb [frame]: "core (OnGstPtsErrorCb n p) = core p"
  by (simp add: OnGstPtsErrorCb_def Let_def split_def frame split: option.split)

lemma core_OnGstDecodeErrorCb [frame]: "core (OnGstDecodeErrorCb env p) = core p"
  by (simp add: OnGstDecodeErrorCb_def Let_def split_def frame split: option.split)

lemma core_CheckForPTSChangeWithTimeout [frame]: "core (snd (CheckForPTSChangeWithTimeout env t p)) = core p"
  by (simp add: CheckForPTSChangeWithTimeout_def Let_def split_def frame split: option.split)

lemma core_IsCacheEmpty [frame]: "core (snd (IsCacheEmpty env i p)) = core p"
  by (simp add: IsCacheEmpty_def Let_def split_def frame split: option.split)

lemma core_buffering_check [frame]: "core (snd (snd (snd (buffering_check env p)))) = core p"
  by (simp add: buffering_check_def Let_def split_def frame split: option.split)

lemma core_buffering_timeout [frame]: "core (snd (buffering_timeout env p)) = core p"
  by (simp add: buffering_timeout_def Let_def split_def frame split: option.split)

lemma core_SetAudioVolume [frame]: "core (SetAudioVolume v p) = core p"
  by (simp add: SetAudioVolume_def Let_def split_def frame split: option.split)

lemma core_SetVolumeOrMuteUnMute [frame]: "core (SetVolumeOrMuteUnMute p) = core p"
  by (simp add: SetVolumeOrMuteUnMute_def Let_def split_def frame split: option.split)

lemma core_SetVideoZoom [frame]: "core (SetVideoZoom z p) = core p"
  by (simp add: SetVideoZoom_def Let_def split_def frame split: option.split)

lemma core_SetVideoMute [frame]: "core (SetVideoMute b p) = core p"
  by (simp add: SetVideoMute_def Let_def split_def frame split: option.split)

lemma core_SetSubtitleMute [frame]: "core (SetSubtitleMute b p) = core p"
  by (simp add: SetSubtitleMute_def Let_def split_def frame split: option.split)

lemma core_TimerAdd_periodic [frame]: "core (TimerAdd env n periodicProgressCallbackIdleTaskId periodicProgressCallbackIdleTaskId_update p) = core p"
  by (simp add: TimerAdd_def Let_def split_def frame split: option.split)

lemma core_connect_error_signals [frame]: "core (connect_error_signals env s n p) = core p"
  by (simp add: connect_error_signals_def Let_def split_def frame split: option.split)

lemma core_new_video_sink [frame]: "core (new_video_sink e p) = core p"
  by (simp add: new_video_sink_def Let_def split_def frame split: option.split)

lemma core_new_decoder [frame]: "core (new_decoder env e n p) = core p"
  by (simp add: new_decoder_def Let_def split_def frame split: option.split)

lemma core_element_ready [frame]: "core (element_ready env e n p) = core p"
  by (simp add: element_ready_def Let_def split_def frame split: option.split)

lemma core_ProgressTick [frame]: "core (ProgressTick p) = core p"
  by (simp add: ProgressTick_def Let_def split_def frame split: option.split)

lemma core_MonitorAV [frame]: "core (MonitorAV env p) = core p"
  by (simp add: MonitorAV_def core_def Let_def split_def frame split: option.split)

lemma core_ProgressCallbackOnTimeout [frame]: "core (ProgressCallbackOnTimeout env p) = core p"
  by (simp add: ProgressCallbackOnTimeout_def Let_def split_def frame split: option.split)

lemma core_gst_need_data [frame]: "core (gst_need_data e p) = core p"
  by (simp add: gst_need_data_def Let_def split_def frame split: option.split)

lemma core_gst_enough_data [frame]: "core (gst_enough_data e p) = core p"
  by (simp add: gst_enough_data_def Let_def split_def frame split: option.split)

lemma core_DemuxPadProbeCallback [frame]: "core (snd (DemuxPadProbeCallback env d t p)) = core p"
  by (simp add: DemuxPadProbeCallback_def Let_def split_def frame split: option.split)

lemma core_push_event [frame]: "core (push_event i ev p) = core p"
  by (simp add: push_event_def Let_def split_def frame split: option.split)

lemma core_SendQtDemuxOverrideEvent [frame]: "core (snd (SendQtDemuxOverrideEvent i b v p)) = core p"
  by (simp add: SendQtDemuxOverrideEvent_def Let_def split_def frame split: option.split)

lemma core_send_pending_seek [frame]: "core (send_pending_seek i p) = core p"
  by (simp add: send_pending_seek_def Let_def split_def frame split: option.split)

lemma core_SendGstEvents [frame]: "core (SendGstEvents i b c v p) = core p"
  by (simp add: SendGstEvents_def Let_def split_def frame split: option.split)

lemma core_SendNewSegmentEvent [frame]: "core (SendNewSegmentEvent i s t p) = core p"
  by (simp add: SendNewSegmentEvent_def Let_def split_def frame split: option.split)

lemma core_push_buffer [frame]: "core (snd (push_buffer env i b p)) = core p"
  by (simp add: push_buffer_def Let_def split_def frame split: option.split)

lemma core_send_first_events [frame]: "core (snd (send_first_events i t w p)) = core p"
  by (simp add: send_first_events_def Let_def split_def frame split: option.split)

lemma core_clear_protection [frame]: "core (clear_protection i p) = core p"
  by (simp add: clear_protection_def emit_def Let_def split_def frame split: option.split)

lemma core_QueueProtectionEvent [frame]: "core (QueueProtectionEvent env d i p) = core p"
  by (simp add: QueueProtectionEvent_def emit_def Let_def split_def frame split: option.split)

lemma core_ClearProtectionEvent [frame]: "core (ClearProtectionEvent p) = core p"
  by (simp add: ClearProtectionEvent_def Let_def split_def frame split: option.split)

lemma core_SignalTrickModeDiscontinuity [frame]: "core (SignalTrickModeDiscontinuity p) = core p"
  by (simp add: SignalTrickModeDiscontinuity_def Let_def split_def frame split: option.split)

lemma core_GetPositionMilliseconds [frame]: "core (snd (GetPositionMilliseconds env p)) = core p"
  by (simp add: GetPositionMilliseconds_def Let_def split_def frame split: option.split)

lemma core_SetVideoRectangle [frame]: "core (SetVideoRectangle x y w h p) = core p"
  by (simp add: SetVideoRectangle_def Let_def split_def frame split: option.split)

lemma core_SetPlayBackRate [frame]: "core (snd (SetPlayBackRate env r p)) = core p"
  by (simp add: SetPlayBackRate_def Let_def split_def frame split: option.split)

lemma core_SetSubtitlePtsOffset [frame]: "core (SetSubtitlePtsOffset t p) = core p"
  by (simp add: SetSubtitlePtsOffset_def Let_def split_def frame split: option.split)

lemma core_SignalSubtitleClock [frame]: "core (snd (SignalSubtitleClock env t u p)) = core p"
  by (simp add: SignalSubtitleClock_def Let_def split_def frame split: option.split)

end
