(* ===== verification/Gst_Machine.thy ===== *)
theory Gst_Machine
  imports Gst_Frame
begin

text \<open>
  The player as a state machine: its operations, the handlers and the worker of the scheduler as steps, and the
  invariants of every state that they reach. Each step is one operation as a whole; the locks of the scheduler make
  its accesses atomic, the other fields are not protected in the code either.
\<close>

section \<open>The tasks of the player\<close>

definition eos_ids :: "sched \<Rightarrow> int list" where
  "eos_ids s = map task_id (filter (\<lambda>t. task_data t = EOS_TASK) (sc_queue s))"

text \<open>The identifiers in the queue increase, up to the next one; \<open>ids\<close> are those that the player recorded for other
  tasks than the end of stream.\<close>

definition queue_order :: "sched \<Rightarrow> bool" where
  "queue_order s \<longleftrightarrow> sorted_wrt (<) (0 # map task_id (sc_queue s) @ [sc_nextId s])
     \<and> sc_nextId s = int (length (sc_scheduled s)) + 1 \<and> (\<forall>i \<in> set (map task_id (sc_queue s)). sc_currentId s < i)
     \<and> sc_currentId s < sc_nextId s"

definition recorded :: "sched \<Rightarrow> int \<Rightarrow> bool" where
  "recorded s i \<longleftrightarrow> i < sc_nextId s \<and> i \<notin> set (eos_ids s)"

definition task_inv :: "sched \<Rightarrow> bool \<Rightarrow> int \<Rightarrow> int list \<Rightarrow> bool" where
  "task_inv s pending eid ids \<longleftrightarrow>
     (few_tasks s \<longrightarrow> queue_order s \<and> eos_ids s = (if pending then [eid] else []) \<and> list_all (recorded s) ids)"

lemma few_tasks_push: "few_tasks (snd (push_task t s)) \<Longrightarrow> few_tasks s"
  by (auto simp: few_tasks_def push_task_def Let_def split: if_splits)

lemma few_tasks_remove [simp]: "few_tasks (snd (remove_task i s)) = few_tasks s"
  by (auto simp: few_tasks_def remove_task_def split: option.split)

lemma push_task_id: "\<not> sc_lockOut s \<Longrightarrow> fst (push_task t s) = TaskId (sc_nextId s)"
  "sc_lockOut s \<Longrightarrow> push_task t s = (TaskId 0, s)"
  by (simp_all add: push_task_def Let_def PLAYER_TASK_ID_INVALID_def)

lemma push_task_state:
  assumes "few_tasks (snd (push_task t s))" "queue_order s" "\<not> sc_lockOut s"
  shows "sc_queue (snd (push_task t s)) = sc_queue s @ [t\<lparr>task_id := sc_nextId s\<rparr>]"
    "sc_nextId (snd (push_task t s)) = sc_nextId s + 1"
    "length (sc_scheduled (snd (push_task t s))) = length (sc_scheduled s) + 1"
    "sc_currentId (snd (push_task t s)) = sc_currentId s"
  using assms by (auto simp: push_task_def Let_def few_tasks_def queue_order_def)

lemma order_push:
  assumes "few_tasks (snd (push_task t s))" "queue_order s"
  shows "queue_order (snd (push_task t s))"
proof (cases "sc_lockOut s")
  case False
  then show ?thesis
    using assms push_task_state [OF assms False]
    by (auto simp: queue_order_def sorted_wrt_append)
qed (use assms push_task_id in simp)

lemma order_pos: "queue_order s \<Longrightarrow> 0 < sc_nextId s"
  by (auto simp: queue_order_def)

lemma eos_push:
  assumes "few_tasks (snd (push_task t s))" "queue_order s" "\<not> sc_lockOut s"
  shows "eos_ids (snd (push_task t s)) = eos_ids s @ (if task_data t = EOS_TASK then [sc_nextId s] else [])"
  by (simp add: eos_ids_def push_task_state [OF assms])

lemma eos_below: "queue_order s \<Longrightarrow> i \<in> set (eos_ids s) \<Longrightarrow> 0 < i \<and> i < sc_nextId s"
  by (auto simp: eos_ids_def queue_order_def sorted_wrt_append)

text \<open>Scheduling another task.\<close>

lemma task_inv_push:
  assumes "task_inv s pending eid ids" and "task_data t \<noteq> EOS_TASK" and "push_task t s = (TaskId i, s')"
  shows "task_inv s' pending eid ids \<and> (few_tasks s' \<longrightarrow> recorded s' i)"
proof (cases "sc_lockOut s \<or> \<not> few_tasks s'")
  case True
  then show ?thesis using assms order_pos [of s] eos_below [of s 0] few_tasks_push [of t s]
    by (auto simp: push_task_id task_inv_def recorded_def)
next
  case False
  then have few: "few_tasks s" using few_tasks_push [of t s] assms(3) by simp
  with assms(1) have o: "queue_order s" by (simp add: task_inv_def)
  have s': "s' = snd (push_task t s)" and i: "i = sc_nextId s"
    using assms(3) push_task_id(1) [of s t] False by simp_all
  then have few': "few_tasks (snd (push_task t s))" using False by simp
  show ?thesis
    using assms(1,2) few o False order_push [OF few' o] eos_push [OF few' o] eos_below [OF o, of i]
      push_task_state(2) [OF few' o]
    by (auto simp: task_inv_def recorded_def s' i list_all_iff)
qed

lemma task_inv_push_eos:
  assumes "task_inv s False eid ids" and "task_data t = EOS_TASK" and "push_task t s = (TaskId i, s')"
  shows "task_inv s' (i \<noteq> 0) i ids"
proof (cases "sc_lockOut s \<or> \<not> few_tasks s'")
  case True
  then show ?thesis using assms few_tasks_push [of t s] by (auto simp: push_task_id task_inv_def)
next
  case False
  then have few: "few_tasks s" using few_tasks_push [of t s] assms(3) by simp
  with assms(1) have o: "queue_order s" by (simp add: task_inv_def)
  have s': "s' = snd (push_task t s)" and i: "i = sc_nextId s"
    using assms(3) push_task_id(1) [of s t] False by simp_all
  then have few': "few_tasks (snd (push_task t s))" using False by simp
  show ?thesis
    using assms(1,2) few o False order_push [OF few' o] eos_push [OF few' o] order_pos [OF o]
      push_task_state(2) [OF few' o]
    by (auto simp: task_inv_def recorded_def s' i list_all_iff)
qed

text \<open>Removing tasks.\<close>

lemma sorted_subseq: "subseq xs ys \<Longrightarrow> sorted_wrt P ys \<Longrightarrow> sorted_wrt P xs"
  by (induction rule: list_emb.induct) (auto dest: subseq_set)

lemma order_shrink:
  assumes "queue_order s" and "subseq q (sc_queue s)"
  shows "queue_order (s\<lparr>sc_queue := q\<rparr>)"
proof -
  have "subseq (0 # map task_id q @ [sc_nextId s]) (0 # map task_id (sc_queue s) @ [sc_nextId s])"
    using subseq_map [OF assms(2)] by (simp add: list_emb_append_mono)
  then have "sorted_wrt (<) (0 # map task_id q @ [sc_nextId s])"
    using assms(1) unfolding queue_order_def by (blast intro: sorted_subseq)
  then show ?thesis using assms(1) subseq_set [OF assms(2)] by (auto simp: queue_order_def)
qed

lemma eos_remove:
  assumes "queue_order s"
  shows "eos_ids (snd (remove_task i s)) = removeAll i (eos_ids s)"
proof -
  have gone: "removeAll i (eos_ids s) = eos_ids s" if "i \<notin> task_id ` set (sc_queue s)"
    using that by (auto simp: eos_ids_def intro!: removeAll_id)
  have cur: "i \<notin> task_id ` set (sc_queue s)" if "i = 0 \<or> sc_currentId s = i"
    using assms that by (auto simp: queue_order_def sorted_wrt_append)
  show ?thesis
  proof (cases "i \<noteq> 0 \<and> sc_currentId s \<noteq> i")
    case True
    show ?thesis
    proof (cases "erase_id i (sc_queue s)")
      case None
      have "i \<notin> task_id ` set ts" if "erase_id i ts = None" for ts
        using that by (induction ts) (auto split: if_splits)
      then show ?thesis using None True gone by (simp add: remove_task_def PLAYER_TASK_ID_INVALID_def)
    next
      case (Some q)
      from erase_id_SomeD [OF Some] obtain pre t post where
        q: "sc_queue s = pre @ t # post" "task_id t = i" "i \<notin> task_id ` set pre" "q = pre @ post" by blast
      moreover have "i \<notin> task_id ` set post"
        using assms q(1,2) by (auto simp: queue_order_def sorted_wrt_append)
      ultimately have "removeAll i (eos_ids s) = eos_ids (s\<lparr>sc_queue := q\<rparr>)"
        by (auto simp: eos_ids_def intro!: arg_cong2 [where f = "(@)"] removeAll_id)
      then show ?thesis using Some True by (simp add: remove_task_def PLAYER_TASK_ID_INVALID_def)
    qed
  next
    case False
    then show ?thesis using gone cur by (auto simp: remove_task_def PLAYER_TASK_ID_INVALID_def)
  qed
qed

lemma order_remove: "queue_order s \<Longrightarrow> queue_order (snd (remove_task i s))"
  by (auto simp: remove_task_def intro: order_shrink erase_id_subseq split: option.split)

lemma remove_next [simp]: "sc_nextId (snd (remove_task i s)) = sc_nextId s"
  by (simp add: remove_task_def split: option.split)

lemma task_inv_remove:
  assumes "task_inv s pending eid ids" and "few_tasks s \<Longrightarrow> recorded s i"
  shows "task_inv (snd (remove_task i s)) pending eid ids"
  using assms order_remove [of s i] eos_remove [of s i]
  by (auto simp: task_inv_def recorded_def list_all_iff removeAll_id)

lemma task_inv_remove_eos:
  assumes "task_inv s True eid ids"
  shows "task_inv (snd (remove_task eid s)) False e ids"
  using assms order_remove [of s eid] eos_remove [of s eid]
  by (auto simp: task_inv_def recorded_def list_all_iff)

lemma task_inv_recorded: "task_inv s pending eid ids \<Longrightarrow> i \<in> set ids \<Longrightarrow> few_tasks s \<Longrightarrow> recorded s i"
  by (auto simp: task_inv_def list_all_iff)

lemma task_inv_ids:
  "task_inv s pending eid ids \<Longrightarrow> (\<And>i. i \<in> set ids' \<Longrightarrow> few_tasks s \<Longrightarrow> i \<in> set ids \<or> recorded s i)
    \<Longrightarrow> task_inv s pending eid ids'"
  by (auto simp: task_inv_def list_all_iff)

lemma recorded_zero: "task_inv s pending eid ids \<Longrightarrow> few_tasks s \<Longrightarrow> recorded s 0"
  using order_pos [of s] eos_below [of s 0] by (auto simp: task_inv_def recorded_def)

text \<open>The worker takes the first task.\<close>

lemma task_inv_pop:
  assumes "task_inv s pending eid ids" and "sc_queue s = t # q"
  shows "task_inv (s\<lparr>sc_queue := q, sc_currentId := task_id t, sc_started := st\<rparr>)
    (pending \<and> task_data t \<noteq> EOS_TASK) eid ids"
proof -
  have o: "queue_order (s\<lparr>sc_queue := q, sc_currentId := task_id t, sc_started := st\<rparr>)" if "queue_order s"
    using that assms(2) by (auto simp: queue_order_def sorted_wrt_append)
  then show ?thesis
    using assms by (auto simp: task_inv_def eos_ids_def few_tasks_def recorded_def list_all_iff split: if_splits)
qed

section \<open>The invariant of the player\<close>

definition player_inv :: "player \<Rightarrow> bool" where
  "player_inv p \<longleftrightarrow> (case core p of (s, pending, eid, ids, n, m, h) \<Rightarrow>
     task_inv s pending eid ids \<and> n = GST_TRACK_COUNT \<and> m = GST_TRACK_COUNT \<and> \<not> h)"

named_theorems keeps

lemma inv_core: "core q = core p \<Longrightarrow> player_inv p \<Longrightarrow> player_inv q"
  by (simp add: player_inv_def)

lemma schedule_task_inv:
  assumes "player_inv p" and "kind \<noteq> EOS_TASK" and "schedule_task kind p = (i, q)"
  shows "player_inv q \<and> (few_tasks (mScheduler q) \<longrightarrow> recorded (mScheduler q) i)
    \<and> q = p\<lparr>mScheduler := mScheduler q\<rparr>"
proof (cases "sc_running (mScheduler p)")
  case True
  let ?t = "\<lparr>task_id = 0, task_name = [], task_data = kind\<rparr>"
  obtain k s where r: "push_task ?t (mScheduler p) = (TaskId k, s)"
    by (cases "sc_lockOut (mScheduler p)") (auto simp: push_task_def Let_def)
  then have "i = k" "q = p\<lparr>mScheduler := s\<rparr>" using True assms(3) by (simp_all add: schedule_task_def)
  then show ?thesis using assms(1,2) task_inv_push [OF _ _ r, of "eosCallbackIdleTaskPending p"]
    by (auto simp: player_inv_def core_def)
next
  case False
  then show ?thesis using assms recorded_zero
    by (auto simp: schedule_task_def player_inv_def core_def PLAYER_TASK_ID_INVALID_def)
qed

lemma task_inv_drop: "task_inv s False eid ids \<Longrightarrow> task_inv s False e ids"
  by (simp add: task_inv_def)

lemma inv_record:
  assumes "player_inv p" and "few_tasks (mScheduler p) \<longrightarrow> recorded (mScheduler p) i"
  shows "player_inv (p\<lparr>firstFrameCallbackIdleTaskId := i\<rparr>)"
    "player_inv (firstProgressCallbackIdleTask_update (\<lambda>_. \<lparr>taskID = i, taskIsPending = b\<rparr>) p)"
    "player_inv (firstVideoFrameDisplayedCallbackTask_update (\<lambda>_. \<lparr>taskID = i, taskIsPending = b\<rparr>) p)"
  using assms by (auto simp: player_inv_def core_def task_inv_def)

lemma other_kinds [simp]: "FIRST_FRAME_TASK \<noteq> EOS_TASK" "IDLE_TASK \<noteq> EOS_TASK" "FRAME_DISPLAYED_TASK \<noteq> EOS_TASK"
  by (simp_all add: task_kinds)

lemma schedule_inv:
  assumes "player_inv p" and "kind \<noteq> EOS_TASK"
  shows "player_inv (snd (schedule_task kind p))"
    "few_tasks (mScheduler (snd (schedule_task kind p))) \<longrightarrow>
       recorded (mScheduler (snd (schedule_task kind p))) (fst (schedule_task kind p))"
  using schedule_task_inv [OF assms surjective_pairing] by simp_all

lemma inv_updates [simp]: "player_inv (p\<lparr>decoderHandleNotified := x1\<rparr>) = player_inv p"
  "player_inv (p\<lparr>firstFrameCallbackIdleTaskPending := x2\<rparr>) = player_inv p"
  by (simp_all add: player_inv_def)

lemma notify_decoder_inv [keeps]: "player_inv p \<Longrightarrow> player_inv (notify_decoder p)"
  by (simp add: notify_decoder_def split_def Let_def inv_record(1) schedule_inv)

lemma add_progress_task_inv [keeps]: "player_inv p \<Longrightarrow> player_inv (add_progress_task p)"
  by (simp add: add_progress_task_def IdleTaskAdd_def split_def Let_def inv_record(2) schedule_inv)

lemma add_displayed_task_inv [keeps]: "player_inv p \<Longrightarrow> player_inv (add_displayed_task p)"
  by (simp add: add_displayed_task_def IdleTaskAdd_def split_def Let_def inv_record(3) schedule_inv)

lemma NotifyEOS_inv [keeps]: "player_inv p \<Longrightarrow> player_inv (NotifyEOS p)"
proof -
  assume p: "player_inv p"
  let ?t = "\<lparr>task_id = 0, task_name = [], task_data = EOS_TASK\<rparr>"
  show ?thesis
  proof (cases "eosSignalled p \<or> eosCallbackIdleTaskPending p \<or> \<not> sc_running (mScheduler p)")
    case True
    then show ?thesis using p
      by (auto simp: NotifyEOS_def schedule_task_def player_inv_def core_def task_inv_def)
  next
    case False
    obtain k s where r: "push_task ?t (mScheduler p) = (TaskId k, s)"
      by (cases "sc_lockOut (mScheduler p)") (auto simp: push_task_def Let_def)
    show ?thesis using p False task_inv_push_eos [OF _ _ r, of "eosCallbackIdleTaskId p"]
      by (auto simp: NotifyEOS_def schedule_task_def r player_inv_def core_def PLAYER_TASK_ID_INVALID_def)
  qed
qed

lemma stop_eos_task_inv [keeps]: "player_inv p \<Longrightarrow> player_inv (stop_eos_task p)"
  by (auto simp: stop_eos_task_def unschedule_task_def player_inv_def core_def task_inv_remove_eos)

lemma unschedule_inv:
  assumes "player_inv p" and "i \<in> {taskID (firstProgressCallbackIdleTask p), taskID (firstVideoFrameDisplayedCallbackTask p),
     firstFrameCallbackIdleTaskId p}"
  shows "player_inv (unschedule_task i p)"
  using assms task_inv_remove [of "mScheduler p" _ _ _ i] task_inv_recorded [of "mScheduler p" _ _ _ i]
  by (fastforce simp: unschedule_task_def player_inv_def core_def)

lemma inv_zero: "player_inv p \<Longrightarrow> few_tasks (mScheduler p) \<longrightarrow> recorded (mScheduler p) 0"
  using recorded_zero [of "mScheduler p" "eosCallbackIdleTaskPending p" "eosCallbackIdleTaskId p"]
  by (auto simp: player_inv_def core_def)

lemma stop_first_frame_task_inv [keeps]: "player_inv p \<Longrightarrow> player_inv (stop_first_frame_task p)"
  by (simp add: stop_first_frame_task_def PLAYER_TASK_ID_INVALID_def inv_record inv_zero unschedule_inv)

lemma remove_progress_inv [keeps]:
  "player_inv p \<Longrightarrow> player_inv (snd (IdleTaskRemove firstProgressCallbackIdleTask firstProgressCallbackIdleTask_update p))"
  by (simp add: IdleTaskRemove_def inv_record inv_zero unschedule_inv) (auto simp: player_inv_def core_def)

lemma remove_displayed_inv [keeps]:
  "player_inv p \<Longrightarrow>
     player_inv (snd (IdleTaskRemove firstVideoFrameDisplayedCallbackTask firstVideoFrameDisplayedCallbackTask_update p))"
  by (simp add: IdleTaskRemove_def inv_record inv_zero unschedule_inv) (auto simp: player_inv_def core_def)

section \<open>The operations keep the invariant\<close>

lemma inv_fold [keeps]: "(\<And>x p. player_inv p \<Longrightarrow> player_inv (f x p)) \<Longrightarrow> player_inv p \<Longrightarrow> player_inv (fold f xs p)"
  by (induction xs arbitrary: p) simp_all

lemma inv_frame:
  assumes "player_inv p"
  shows "player_inv (emit a p)" "player_inv (emits as p)" "player_inv (notify_app ev p)"
    "player_inv (on_stream i f p)" "player_inv (on_streams g p)"
    "player_inv (snd (SetStateWithWarnings env e st p))" "player_inv (SignalEOS i p)"
    "player_inv (TearDownStream env i p)" "player_inv (SignalConnect env e n p)" "player_inv (SetVolumeOrMuteUnMute p)"
  using assms by (auto intro: inv_core frame)

lemma inv_fields [simp]:
  "player_inv (p\<lparr>firstFrameReceived := x1\<rparr>) = player_inv p" "player_inv (p\<lparr>firstVideoFrameReceived := x2\<rparr>) = player_inv p"
  "player_inv (p\<lparr>firstAudioFrameReceived := x3\<rparr>) = player_inv p" "player_inv (p\<lparr>PipelineSetToReady := x4\<rparr>) = player_inv p"
  "player_inv (p\<lparr>pauseOnStartPlayback := x5\<rparr>) = player_inv p" "player_inv (p\<lparr>firstTuneWithWesterosSinkOff := x6\<rparr>) = player_inv p"
  "player_inv (p\<lparr>ptsCheckForEosOnUnderflowIdleTaskId := x7\<rparr>) = player_inv p"
  "player_inv (p\<lparr>bufferingTimeoutTimerId := x8\<rparr>) = player_inv p" "player_inv (p\<lparr>pipelineState := x9\<rparr>) = player_inv p"
  "player_inv (p\<lparr>audio_sink := x10\<rparr>) = player_inv p" "player_inv (p\<lparr>pl_rate := x11\<rparr>) = player_inv p"
  "player_inv (p\<lparr>numberOfVideoBuffersSent := x12\<rparr>) = player_inv p" "player_inv (p\<lparr>NumberOfTracks := x13\<rparr>) = player_inv p"
  "player_inv (p\<lparr>trickTeardown := x14\<rparr>) = player_inv p" "player_inv (p\<lparr>mFirstFrameRequired := x15\<rparr>) = player_inv p"
  "player_inv (p\<lparr>eosSignalled := x16\<rparr>) = player_inv p" "player_inv (p\<lparr>decodeErrorMsgTimeMS := x17\<rparr>) = player_inv p"
  "player_inv (p\<lparr>decodeErrorCBCount := x18\<rparr>) = player_inv p" "player_inv (p\<lparr>lastKnownPTS := x19\<rparr>) = player_inv p"
  "player_inv (p\<lparr>segmentStart := x20\<rparr>) = player_inv p" "player_inv (p\<lparr>pl_paused := x21\<rparr>) = player_inv p"
  "player_inv (p\<lparr>audioMuted := x22\<rparr>) = player_inv p" "player_inv (p\<lparr>videoMuted := x23\<rparr>) = player_inv p"
  "player_inv (p\<lparr>subtitleMuted := x24\<rparr>) = player_inv p" "player_inv (p\<lparr>audioVolume := x25\<rparr>) = player_inv p"
  by (simp_all add: player_inv_def)

text \<open>Rules that follow the structure of an operation, for its result and for results in a tuple.\<close>

definition inv4 :: "'a \<times> 'b \<times> 'c \<times> player \<Rightarrow> bool" where "inv4 z = player_inv (snd (snd (snd z)))"

definition inv2 :: "'a \<times> player \<Rightarrow> bool" where "inv2 z = player_inv (snd z)"

lemma inv_tuple: "player_inv p \<Longrightarrow> inv4 (a, b, c, p)" "player_inv p \<Longrightarrow> inv2 (d, p)"
  by (simp_all add: inv4_def inv2_def)

lemma inv_Let_step:
  "player_inv a \<Longrightarrow> (\<And>x. player_inv x \<Longrightarrow> Q (f x)) \<Longrightarrow> Q (Let a f)"
  "(\<And>x. Q (g x)) \<Longrightarrow> Q (Let b g)"
  "player_inv (snd c) \<Longrightarrow> (\<And>d x. player_inv x \<Longrightarrow> Q (h d x)) \<Longrightarrow> Q (Let c (\<lambda>(d, x). h d x))"
  "player_inv (snd (snd u)) \<Longrightarrow> (\<And>d e x. player_inv x \<Longrightarrow> Q (k d e x)) \<Longrightarrow> Q (Let u (\<lambda>(d, e, x). k d e x))"
  "inv4 v \<Longrightarrow> (\<And>d e y x. player_inv x \<Longrightarrow> Q (l d e y x)) \<Longrightarrow> Q (Let v (\<lambda>(d, e, y, x). l d e y x))"
  "(\<And>q. player_inv q \<Longrightarrow> player_inv (w q)) \<Longrightarrow> (\<And>x. (\<And>q. player_inv q \<Longrightarrow> player_inv (x q)) \<Longrightarrow> Q (m x))
    \<Longrightarrow> Q (Let w m)"
  by (simp_all add: Let_def split_def inv4_def)

lemma inv_Let_bool: "(\<And>x. Q (g x)) \<Longrightarrow> Q (Let (b :: bool) g)" by simp
lemma inv_Let_soc: "(\<And>x. Q (g x)) \<Longrightarrow> Q (Let (b :: soc) g)" by simp
lemma inv_Let_state: "(\<And>x. Q (g x)) \<Longrightarrow> Q (Let (b :: gst_state) g)" by simp
lemma inv_Let_list: "(\<And>x. Q (g x)) \<Longrightarrow> Q (Let (b :: 'a list) g)" by simp
lemma inv_Let_test: "(\<And>x. Q (g x)) \<Longrightarrow> Q (Let (b :: 'a option \<Rightarrow> prop_value) g)" by simp

lemmas inv_LetI = inv_Let_step(1,3,4,5,6) [where Q = player_inv] inv_Let_bool [where Q = player_inv]
  inv_Let_soc [where Q = player_inv] inv_Let_state [where Q = player_inv] inv_Let_list [where Q = player_inv]
  inv_Let_test [where Q = player_inv]

lemmas inv4_LetI = inv_Let_step(1,3,4,5,6) [where Q = inv4] inv_Let_bool [where Q = inv4]

lemmas inv2_LetI = inv_Let_step(1,3,4,5,6) [where Q = inv2] inv_Let_bool [where Q = inv2]

lemma inv_if:
  "(b \<Longrightarrow> player_inv x) \<Longrightarrow> (\<not> b \<Longrightarrow> player_inv y) \<Longrightarrow> player_inv (if b then x else y)"
  "(b \<Longrightarrow> inv4 x4) \<Longrightarrow> (\<not> b \<Longrightarrow> inv4 y4) \<Longrightarrow> inv4 (if b then x4 else y4)"
  "(b \<Longrightarrow> inv2 x2) \<Longrightarrow> (\<not> b \<Longrightarrow> inv2 y2) \<Longrightarrow> inv2 (if b then x2 else y2)"
  "player_inv u \<Longrightarrow> (\<And>z. player_inv (v z)) \<Longrightarrow> player_inv (case e of None \<Rightarrow> u | Some z \<Rightarrow> v z)"
  "inv2 u2 \<Longrightarrow> (\<And>z. inv2 (v2 z)) \<Longrightarrow> inv2 (case e of None \<Rightarrow> u2 | Some z \<Rightarrow> v2 z)"
  by (auto split: option.split)

lemmas inv_rules = inv_LetI inv4_LetI inv2_LetI inv_if inv_tuple inv_frame inv_fields [THEN iffD2]

lemma NotifyFirstFrame_inv [keeps]: "player_inv p \<Longrightarrow> player_inv (NotifyFirstFrame env i p)"
  unfolding NotifyFirstFrame_def
  by (intro inv_LetI) (auto simp: keeps inv_frame Let_def split: option.split)

lemma EndOfStreamReached_inv [keeps]: "player_inv p \<Longrightarrow> player_inv (snd (EndOfStreamReached env i b p))"
proof -
  assume p: "player_inv p"
  have "player_inv (NotifyFragmentCachingComplete env q)" if "player_inv q" for q
    using that by (auto intro: inv_core frame)
  then show ?thesis using p by (simp add: EndOfStreamReached_def Let_def keeps inv_frame)
qed

lemma VideoDecoderPtsCheckerForEOS_inv [keeps]: "player_inv p \<Longrightarrow> player_inv (VideoDecoderPtsCheckerForEOS env p)"
  by (simp add: VideoDecoderPtsCheckerForEOS_def keeps)

lemma IdleCallbackOnFirstFrame_inv [keeps]: "player_inv p \<Longrightarrow> player_inv (IdleCallbackOnFirstFrame p)"
  using inv_frame(3) [of p] by (simp add: IdleCallbackOnFirstFrame_def PLAYER_TASK_ID_INVALID_def inv_record inv_zero)

lemma IdleCallback_inv [keeps]: "player_inv p \<Longrightarrow> player_inv (IdleCallback env p)"
proof -
  assume p: "player_inv p"
  have "player_inv (IdleTaskClearFlags firstProgressCallbackIdleTask_update (notify_app (Trigger IdleCb) p))"
    using inv_frame(3) [OF p] by (simp add: IdleTaskClearFlags_def inv_record inv_zero)
  then show ?thesis by (auto simp: IdleCallback_def Let_def intro: inv_core frame)
qed

lemma IdleCallbackDisplayed_inv [keeps]: "player_inv p \<Longrightarrow> player_inv (IdleCallbackFirstVideoFrameDisplayed p)"
  by (simp add: IdleCallbackFirstVideoFrameDisplayed_def keeps inv_frame)

text \<open>The worker: when it takes the end of stream, its callback is the one that clears the flag.\<close>

lemma run_next_task_inv [keeps]:
  assumes "player_inv p"
  shows "player_inv (run_next_task env p)"
proof (cases "sc_queue (mScheduler p)")
  case (Cons t q)
  let ?s = "(mScheduler p)\<lparr>sc_queue := q, sc_currentId := task_id t, sc_started := sc_started (mScheduler p) @ [t]\<rparr>"
  let ?p = "p\<lparr>mScheduler := ?s\<rparr>"
  have pop: "player_inv (?p\<lparr>eosCallbackIdleTaskPending := eosCallbackIdleTaskPending p \<and> task_data t \<noteq> EOS_TASK\<rparr>)"
    using assms task_inv_pop [OF _ Cons] by (auto simp: player_inv_def core_def)
  show ?thesis
  proof (cases "task_data t = EOS_TASK")
    case True
    then have "player_inv (IdleCallbackOnEOS ?p)"
      using pop by (auto simp: IdleCallbackOnEOS_def player_inv_def core_def notify_app_def emit_def task_inv_def)
    then show ?thesis using Cons True by (simp add: run_next_task_def idle_task_def task_kinds)
  next
    case False
    then have "player_inv ?p" using pop by (simp add: player_inv_def core_def)
    then show ?thesis using Cons False by (simp add: run_next_task_def idle_task_def keeps)
  qed
qed (use assms in \<open>simp add: run_next_task_def\<close>)

section \<open>The handlers and the composed operations\<close>

lemma start_paused_inv [keeps]: "player_inv p \<Longrightarrow> player_inv (start_paused env p)"
  unfolding start_paused_def by (intro inv_rules keeps)

lemma start_playing_inv [keeps]: "player_inv p \<Longrightarrow> inv4 (start_playing env p)"
  unfolding start_playing_def by (intro inv_rules keeps) (simp_all add: inv_rules keeps)

lemma connect_error_signals_inv [keeps]: "player_inv p \<Longrightarrow> player_inv (connect_error_signals env e n p)"
  by (auto intro: inv_core frame)

lemma bus_state_changed_inv [keeps]: "player_inv p \<Longrightarrow> player_inv (bus_state_changed env e n x y p)"
  unfolding bus_state_changed_def by (intro inv_rules keeps)

lemma bus_message_inv [keeps]: "player_inv p \<Longrightarrow> player_inv (bus_message env msg p)"
  by (cases msg) (auto simp: bus_message_def intro!: inv_rules keeps)

lemma bus_sync_handler_inv:
  assumes "player_inv p" and "bus_sync_handler env msg p = Inr q"
  shows "player_inv q"
proof -
  have ready: "player_inv (element_ready env e n r)" and sink: "player_inv (new_video_sink e r)" if "player_inv r" for e n r
    using that by (auto intro: inv_core frame)
  have audio: "player_inv r'" if "new_audio_sink e n r = Inr r'" "player_inv r" for e n r r'
    using that by (auto simp: new_audio_sink_def Let_def inv_frame bindE_eq_Inr split: if_splits)
  show ?thesis
  proof (cases msg)
    case (MsgStateChanged src name old_state new_state)
    define r where "r = (if pipeline p = Some src then p\<lparr>pipelineState := new_state\<rparr> else p)"
    have r: "player_inv r" using assms(1) by (simp add: r_def)
    show ?thesis
    proof (cases "control_enabled SyncControl (pl_trace p)")
      case True
      then obtain r' where "(if new_state = GST_STATE_PAUSED \<and> old_state = GST_STATE_READY
            then (if IsVideoSink (pl_soc r) name (usingRialtoSink r) then Inr (new_video_sink src r) else new_audio_sink src name r)
            else Inr r) = Inr r'"
        and q: "q = (if old_state = GST_STATE_NULL \<and> new_state = GST_STATE_READY then element_ready env src name r' else r')"
        using assms(2) MsgStateChanged unfolding bus_sync_handler_def r_def by (auto simp: Let_def bindE_eq_Inr)
      then have "player_inv r'" using r sink audio by (auto split: if_splits)
      then show ?thesis using ready by (simp add: q)
    qed (use assms in \<open>simp add: bus_sync_handler_def\<close>)
  next
    case MsgAsyncDone
    then show ?thesis using assms by (auto simp: bus_sync_handler_def Let_def inv_frame split: if_splits)
  next
    case (MsgNeedContext src contextType)
    then show ?thesis using assms by (auto simp: bus_sync_handler_def inv_frame split: if_splits)
  qed (use assms in \<open>auto simp: bus_sync_handler_def split: if_splits\<close>)
qed

lemma timers_inv [keeps]:
  "player_inv p \<Longrightarrow> player_inv (stop_timers p)"
  "player_inv p \<Longrightarrow> player_inv (TimerRemove periodicProgressCallbackIdleTaskId periodicProgressCallbackIdleTaskId_update p)"
  "player_inv p \<Longrightarrow> player_inv (TimerRemove ptsCheckForEosOnUnderflowIdleTaskId ptsCheckForEosOnUnderflowIdleTaskId_update p)"
  "player_inv p \<Longrightarrow> player_inv (TimerRemove bufferingTimeoutTimerId bufferingTimeoutTimerId_update p)"
  by (auto intro: inv_core frame simp: TimerRemove_def frame)

lemma quiet_inv [keeps]:
  "player_inv p \<Longrightarrow> player_inv (RemoveProbes p)" "player_inv p \<Longrightarrow> player_inv (stop_handlers env p)"
  "player_inv p \<Longrightarrow> player_inv (stop_pipeline env p)" "player_inv p \<Longrightarrow> player_inv (DestroyPipeline p)"
  "player_inv p \<Longrightarrow> player_inv (SetSeekPosition x p)" "player_inv p \<Longrightarrow> player_inv (SetTrickTearDown b p)"
  "player_inv p \<Longrightarrow> player_inv (flush_seek env pl x r b p)" "player_inv p \<Longrightarrow> player_inv (configure_sinks b r p)"
  "player_inv p \<Longrightarrow> player_inv (configure_state env fmt p)" "player_inv p \<Longrightarrow> player_inv (snd (CreatePipeline env k p))"
  "player_inv p \<Longrightarrow> player_inv (set_prop e n v p)" "player_inv p \<Longrightarrow> inv2 (InterfacePlayer_SetupStream env m i p)"
  by (auto intro: inv_core frame simp: inv2_def)

lemma stop_tasks_inv [keeps]: "player_inv p \<Longrightarrow> player_inv (stop_tasks p)"
  unfolding stop_tasks_def by (intro inv_rules keeps)

lemma Stop_player_inv [keeps]: "player_inv p \<Longrightarrow> player_inv (Stop_player env keep p)"
  unfolding Stop_player_def by (intro inv_rules keeps)

lemma flush_begin_inv [keeps]: "player_inv p \<Longrightarrow> player_inv (flush_begin x r p)"
  unfolding flush_begin_def by (intro inv_rules keeps)

lemma Flush_player_inv:
  assumes "player_inv p" and "\<And>q. player_inv q \<Longrightarrow> player_inv (stopCb q)"
  shows "player_inv (snd (Flush_player env stopCb x r t s p))"
proof -
  have stop: "player_inv q \<Longrightarrow> player_inv (recovery_stop stopCb r q)" for q
    using assms(2) by (simp add: recovery_stop_def inv_frame)
  have "inv2 (Flush_player env stopCb x r t s p)"
    unfolding Flush_player_def using assms(1)
    by (intro inv_rules keeps stop) (simp_all add: split_def Let_def inv_frame)
  then show ?thesis by (simp add: inv2_def)
qed

lemma configure_track_inv:
  assumes "player_inv (snd cp)"
  shows "player_inv (snd (configure_track env fmts b i cp))"
  using assms by (simp add: configure_track_def Let_def split_def inv_frame)

lemma configure_tracks_inv [keeps]:
  "player_inv p \<Longrightarrow> player_inv (snd (fold (configure_track env fmts b) is (c, p)))"
proof (induction "is" arbitrary: c p)
  case (Cons i js)
  then show ?case
    using configure_track_inv [of "(c, p)" env fmts b i] by (cases "configure_track env fmts b i (c, p)") simp
qed simp

lemma setup_tracks_inv [keeps]:
  assumes "\<And>i q. player_inv q \<Longrightarrow> inv2 (sf i q)"
  shows "player_inv p \<Longrightarrow> player_inv (snd (setup_tracks env sf fmts k ts p))"
proof (induction ts arbitrary: p)
  case (Cons x ts)
  obtain i c where x: "x = (i, c)" by fastforce
  let ?q = "on_stream i (\<lambda>s. s\<lparr>st_format := fmts ! i, st_trackId := k\<rparr>) (TearDownStream env i (p\<lparr>trickTeardown := False\<rparr>))"
  have "player_inv (snd (sf i ?q))" using assms [of ?q i] Cons.prems by (simp add: inv_frame inv2_def)
  then show ?case using Cons by (auto simp: x Let_def split_def)
qed simp

lemma ConfigurePipeline_inv [keeps]:
  "player_inv p \<Longrightarrow> player_inv (ConfigurePipeline env f a x s es fwd rdy sub k r prio ff url p)"
  unfolding ConfigurePipeline_def by (intro inv_rules keeps) (simp_all add: Let_def split_def inv_frame)

lemma wait_inv:
  "(\<And>t q. player_inv q \<Longrightarrow> player_inv (others t q)) \<Longrightarrow> player_inv p
     \<Longrightarrow> player_inv (snd (source_setup_loop others i t p))"
proof (induction others i t p rule: source_setup_loop.induct)
  case (1 others i t p)
  then have "player_inv (others t p)" by blast
  then show ?case using 1 by (subst source_setup_loop.simps) (simp add: Let_def)
qed

lemma push_media_inv:
  assumes "push_media env i b f init p = Inr (r, q)" and "player_inv p"
  shows "player_inv q"
proof -
  have "player_inv (snd (push_buffer env i b p))" using assms(2) by (auto intro: inv_core frame)
  then show ?thesis using assms(1) by (auto simp: push_media_def Let_def split_def inv_frame split: if_splits)
qed

lemma forward_inv:
  assumes "ForwardBuffersToAuxPipeline env others b pause p = Inr q" and "player_inv p"
    and "\<And>t q. player_inv q \<Longrightarrow> player_inv (others t q)"
  shows "player_inv q"
proof -
  have push: "player_inv (snd (push_buffer env i b r))" if "player_inv r" for i r
    using that by (auto intro: inv_core frame)
  let ?w = "source_setup_loop others eGST_MEDIATYPE_AUX_AUDIO DEFAULT_TIMEOUT_FOR_SOURCE_SETUP p"
  have "player_inv (snd ?w)" by (rule wait_inv) (use assms in auto)
  then show ?thesis
    using assms(1,2) push [of "snd ?w"] push [of p]
    by (auto simp: ForwardBuffersToAuxPipeline_def Let_def split_def WaitForSourceSetup_def split: if_splits)
qed

lemma push_all_inv:
  assumes "push_all env others i a first p = Inr (r, f, q)" and "player_inv p"
    and "\<And>t q. player_inv q \<Longrightarrow> player_inv (others t q)"
  shows "player_inv q"
  using assms(1,2) forward_inv [OF _ _ assms(3)] push_media_inv
  by (auto simp: push_all_def Let_def bindE_eq_Inr split: if_splits)

lemma await_source_inv:
  "(\<And>t q. player_inv q \<Longrightarrow> player_inv (others t q)) \<Longrightarrow> player_inv p \<Longrightarrow> player_inv (snd (await_source others i p))"
  using wait_inv by (simp add: await_source_def WaitForSourceSetup_def split_def Let_def)

lemma SendHelper_inv:
  assumes "SendHelper env others i a f p = Inr (r, g, q)" and "player_inv p"
    and "\<And>t q. player_inv q \<Longrightarrow> player_inv (others t q)"
  shows "player_inv q"
proof -
  obtain ok p1 where w: "await_source others i p = (ok, p1)" by fastforce
  have p1: "player_inv p1" using await_source_inv [where others = others and i = i and p = p] assms(2,3) w by simp
  define e where "e = (if st_resetPosition (get_stream i p)
    then send_first_events i (clock_time (sa_pts a)) (sf_sendNewSegmentEvent f) p1 else (False, p1))"
  have e: "player_inv (snd e)" using p1 by (auto simp: e_def intro: inv_core frame)
  show ?thesis
  proof (cases ok)
    case True
    then obtain b pushed q1 where "push_all env others i a (st_resetPosition (get_stream i p)) (snd e) = Inr (b, pushed, q1)"
      and q: "q = (if i = eGST_MEDIATYPE_VIDEO then q1\<lparr>numberOfVideoBuffersSent := numberOfVideoBuffersSent q1 + 1\<rparr> else q1)"
      using assms(1) by (cases e) (auto simp: SendHelper_def w Let_def e_def [symmetric] bindE_eq_Inr)
    then have "player_inv q1" using push_all_inv e assms(3) by blast
    then show ?thesis by (simp add: q)
  qed (use assms(1) p1 in \<open>simp add: SendHelper_def w\<close>)
qed

section \<open>The machine\<close>

text \<open>The calls of the application, the signals, timers and messages of GStreamer and the worker of the scheduler. The
  scheduler can be suspended and resumed at any time (\<open>lock_out\<close>). While \<^verbatim>\<open>SendHelper\<close> waits for its source, the other
  threads do steps that leave the tasks alone.\<close>

inductive player_step :: "gst_env \<Rightarrow> player \<Rightarrow> player \<Rightarrow> bool" for env :: gst_env where
  configure: "player_step env p (ConfigurePipeline env f a x s es fwd rdy sub k r prio ff url p)"
| stop: "player_step env p (Stop_player env keep p)"
| flush: "player_step env p (snd (Flush_player env (Stop_player env keep) pos r tear seek p))"
| flush_track: "player_step env p (snd (FlushTrack i pos d e p))"
| reset_eos: "player_step env p (ResetEOSSignalledFlag p)"
| pause: "player_step env p (snd (Pause_player env b force p))"
| volume: "player_step env p (SetVolumeOrMuteUnMute (SetAudioVolume v p))"
| eos_reached: "player_step env p (snd (EndOfStreamReached env i halt p))"
| discontinuity: "player_step env p (snd (snd (snd (CheckDiscontinuity i sf c u h p))))"
| send: "SendHelper env others i a f p = Inr (b, g, q) \<Longrightarrow> \<forall>t q. core (others t q) = core q \<Longrightarrow> player_step env p q"
| protection: "player_step env p (QueueProtectionEvent env d i p)"
| clear_events: "player_step env p (ClearProtectionEvent p)"
| injector: "player_step env p (if b then PauseInjector p else ResumeInjector p)"
| position: "player_step env p (snd (GetPositionMilliseconds env p))"
| cache: "player_step env p (snd (IsCacheEmpty env i p))"
| rectangle: "player_step env p (SetVideoRectangle x y w h p)"
| rate: "player_step env p (snd (SetPlayBackRate env rr p))"
| video_frame: "player_step env p (OnFirstVideoFrameCallback env p)"
| audio_frame: "player_step env p (OnAudioFirstFrameAudDecoder env p)"
| underflow: "player_step env p (OnGstBufferUnderflowCb env name p)"
| decode_error: "player_step env p (OnGstDecodeErrorCb env p)"
| pts_check: "player_step env p (VideoDecoderPtsCheckerForEOS env p)"
| buffering: "player_step env p (snd (buffering_timeout env p))"
| progress: "player_step env p (ProgressCallbackOnTimeout env p)"
| source_found: "player_step env p (found_source env e src p)"
| message: "player_step env p (bus_message env msg p)"
| sync_message: "bus_sync_handler env msg p = Inr q \<Longrightarrow> player_step env p q"
| worker: "player_step env p (run_next_task env p)"
| lock_out: "player_step env p (p\<lparr>mScheduler := (mScheduler p)\<lparr>sc_lockOut := b\<rparr>\<rparr>)"

inductive_cases player_stepE: "player_step env p q"

lemma Pause_inv: "player_inv p \<Longrightarrow> player_inv (snd (Pause_player env b force p))"
proof -
  assume p: "player_inv p"
  have v: "player_inv q \<Longrightarrow> player_inv (snd (validateState env e st n q))" for e st n q
    by (induction n arbitrary: q; subst validateState.simps) (auto simp: Let_def split_def inv_frame)
  have f: "player_inv (q\<lparr>buffering_target_state := x1\<rparr>) = player_inv q" "player_inv (q\<lparr>buffering_in_progress := x2\<rparr>) = player_inv q"
    "player_inv (q\<lparr>pendingPlayState := x3\<rparr>) = player_inv q" for q x1 x2 x3
    by (simp_all add: player_inv_def)
  show ?thesis using p by (auto simp: Pause_player_def Let_def split_def v f inv_frame split: option.split)
qed

lemma lock_out_inv: "player_inv p \<Longrightarrow> player_inv (p\<lparr>mScheduler := (mScheduler p)\<lparr>sc_lockOut := b\<rparr>\<rparr>)"
  by (auto simp: player_inv_def core_def task_inv_def queue_order_def eos_ids_def few_tasks_def recorded_def list_all_iff)

lemma player_inv_step: "player_step env p q \<Longrightarrow> player_inv p \<Longrightarrow> player_inv q"
proof (induction rule: player_step.induct)
  case (send others i a f p b g q)
  have "player_inv (others t r)" if "player_inv r" for t r
    using send.hyps(2) that by (auto intro: inv_core)
  then show ?case using SendHelper_inv [OF send.hyps(1) send.prems] by blast
next
  case (flush p keep pos r tear seek)
  then show ?case by (rule Flush_player_inv) (rule Stop_player_inv)
next
  case (sync_message msg p q)
  then show ?case by (blast intro: bus_sync_handler_inv)
next
  case (video_frame p)
  then show ?case by (simp add: OnFirstVideoFrameCallback_def NotifyFirstFrame_inv)
next
  case (audio_frame p)
  then show ?case by (simp add: OnAudioFirstFrameAudDecoder_def NotifyFirstFrame_inv)
next
  case (injector p b)
  then show ?case by (cases b) (auto intro: inv_core frame)
next
  case (volume p v)
  then show ?case by (auto intro: inv_core simp: frame)
qed (auto intro: keeps Pause_inv lock_out_inv inv_core frame)

section \<open>Reachable states\<close>

definition started_scheduler :: sched where
  "started_scheduler = new_scheduler\<lparr>sc_running := True, sc_joinable := True, sc_worker := AtTop\<rparr>"

definition new_player :: "bool \<times> bool \<times> bool \<Rightarrow> configs \<Rightarrow> soc \<Rightarrow> player" where
  "new_player garbage cfg s = InterfacePlayerRDK garbage cfg s started_scheduler"

lemma new_player_inv: "player_inv (new_player garbage cfg s)"
  by (simp add: new_player_def InterfacePlayerRDK_def player_inv_def core_def task_inv_def started_scheduler_def
      new_scheduler_def queue_order_def eos_ids_def recorded_def new_monitor_state_def new_task_control_def
      PLAYER_SCHEDULER_ID_DEFAULT_def PLAYER_TASK_ID_INVALID_def)

interpretation gst_machine: invariant_system "player_step env" "new_player garbage cfg s" player_inv
  for env garbage cfg s
  by unfold_locales (auto intro: new_player_inv player_inv_step)

end
