(* ===== verification/Gst_Props.thy ===== *)
theory Gst_Props
  imports Gst_Machine
begin

text \<open>
  What the player guarantees: over all its reachable states, and for the single operations. The examples are a player
  without streams and an environment in which GStreamer accepts everything.
\<close>

section \<open>Examples\<close>

definition demo_cfg :: configs where
  "demo_cfg = \<lparr>cf_media = eGST_MEDIAFORMAT_DASH, cf_eosInjectionStopOnly = False, cf_enableDisconnectSignals = False,
     cf_framesToQueue = 6, cf_vodTrickModeFPS = 4, cf_enableGstPosQuery = False, cf_enablePTSReStamp = False,
     cf_enableRectPropertyCfg = True, cf_audioDecoderStreamSync = True, cf_gstreamerBufferingBeforePlay = True,
     cf_seiTimeCode = False, cf_useWesterosSink = False, cf_useRialtoSink = False, cf_gstLogging = False, cf_monitorAV = False,
     cf_disableUnderflow = False, cf_audioOnlyMode = False, cf_progressTimer = 1, cf_avsyncPositiveMs = 100,
     cf_avsyncNegativeMs = - 100, cf_avJumpMs = 100, cf_gstreamerSubsEnabled = False, cf_tcpServerSink = False, cf_tcpPort = 0,
     cf_appSrcForProgressivePlayback = False, cf_seamlessAudioSwitch = False, cf_videoBufBytes = 0, cf_audioBufBytes = 0,
     cf_useMp4Demux = False, cf_networkProxy = []\<rparr>"

definition demo_soc :: soc where
  "demo_soc = \<lparr>soc_platform = SOC_PLATFORM_DEFAULT, mUsingWesterosSink = False, on_apple = False, on_ubuntu = False\<rparr>"

definition demo_gst :: gst_env where
  "demo_gst = \<lparr>set_state_ret = (\<lambda>_. GST_STATE_CHANGE_SUCCESS),
     get_state_ret = (\<lambda>_ _. (GST_STATE_CHANGE_SUCCESS, GST_STATE_PLAYING, GST_STATE_VOID_PENDING)),
     target_state = (\<lambda>_ _. GST_STATE_PLAYING), seek_ret = (\<lambda>_. True), push_ret = (\<lambda>_. GST_FLOW_OK), event_ret = (\<lambda>_. True),
     get_int = (\<lambda>_ _ _. None), get_elem = (\<lambda>_ _ _. None), make_ret = (\<lambda>_. Some 7), timer_id = (\<lambda>_. 1), clock_ms = (\<lambda>_. 0),
     query_position = (\<lambda>_ _. None), query_segment = (\<lambda>_ _. None), query_duration = (\<lambda>_ _. None), queued_bytes = (\<lambda>_ _. 0),
     async_enabled = (\<lambda>_ _. False), has_property = (\<lambda>_ _. False), signal_id = (\<lambda>_. 1), signal_connected = (\<lambda>_ _ _. True),
     in_pipeline = (\<lambda>_ _. True), first_frame_cb = (\<lambda>_. Some (False, False)), alloc_ok = (\<lambda>_. True), externals_active = (\<lambda>_. False)\<rparr>"

definition demo_player :: player where
  "demo_player = new_player (False, False, False) demo_cfg demo_soc"

lemmas demo_defs = demo_player_def new_player_def InterfacePlayerRDK_def started_scheduler_def new_scheduler_def demo_cfg_def
  demo_soc_def new_media_stream_def new_task_control_def new_monitor_state_def

section \<open>Reachable states\<close>


definition ended_player :: player where
  "ended_player = bus_message demo_gst MsgEos demo_player"

lemma ended_reachable: "reaches (player_step demo_gst) (new_player (False, False, False) demo_cfg demo_soc) ended_player"
  unfolding ended_player_def demo_player_def by (intro reaches.step [OF reaches.start] player_step.message)



text \<open>Whatever the positions are, no reachable player reports a jump of the video: the flag that allows the report is never
  set.\<close>

theorem jump_never_reported:
  assumes "reaches (player_step env) (new_player garbage cfg s) p"
  shows "mo_description (monitorAVstate (MonitorAV env p)) \<noteq> Some ''jump''"
proof -
  have "\<not> mo_happy (monitorAVstate p)"
    using gst_machine.reachable_inv [OF assms] by (simp add: player_inv_def core_def)
  then show ?thesis by (auto simp: MonitorAV_def Let_def split: option.splits if_splits)
qed

theorem jump_never_reported_witness: "mo_description (monitorAVstate (MonitorAV demo_gst ended_player)) \<noteq> Some ''jump''"
  by (rule jump_never_reported [OF ended_reachable])

section \<open>Waiting for a source\<close>

definition polled :: "(int \<Rightarrow> player \<Rightarrow> player) \<Rightarrow> int \<Rightarrow> nat \<Rightarrow> player \<Rightarrow> player" where
  "polled others t k p = fold others (map (\<lambda>j. t - 100 * int j) [0..<k + 1]) p"

lemma polled_Suc: "polled others t (Suc k) p = polled others (t - 100) k (others t p)"
proof -
  have "map (\<lambda>j. t - 100 * int j) [0..<Suc k + 1] = t # map (\<lambda>j. t - 100 - 100 * int j) [0..<k + 1]"
    by (subst upt_conv_Cons, simp, simp add: map_Suc_upt [symmetric] algebra_simps del: upt_Suc)
  then show ?thesis by (simp add: polled_def del: upt_Suc)
qed

lemma polled_0: "polled others t 0 p = others t p"
  by (simp add: polled_def)

definition wait_over :: "nat \<Rightarrow> player \<Rightarrow> bool" where
  "wait_over i p \<longleftrightarrow> mPauseInjector p \<or> st_sourceConfigured (get_stream i p)"

lemma ex_less_Suc: "(\<exists>k<Suc n. P k) \<longleftrightarrow> P 0 \<or> (\<exists>k<n. P (Suc k))"
  using less_Suc_eq_0_disj by auto

lemma all_less_Suc: "(\<forall>k<Suc n. P k) \<longleftrightarrow> P 0 \<and> (\<forall>k<n. P (Suc k))"
  using less_Suc_eq_0_disj by auto

lemma source_setup_polls:
  "fst (source_setup_loop others i (100 * int n - 100) p) \<longleftrightarrow>
     (\<exists>k<n. (\<forall>j<k. \<not> wait_over i (polled others (100 * int n - 100) j p))
        \<and> \<not> mPauseInjector (polled others (100 * int n - 100) k p)
        \<and> st_sourceConfigured (get_stream i (polled others (100 * int n - 100) k p)))"
proof (induction n arbitrary: p)
  case 0
  show ?case by (subst source_setup_loop.simps) simp
next
  case (Suc n)
  have t: "100 * int (Suc n) - 100 = 100 * int n" by simp
  let ?q = "others (100 * int n) p"
  show ?case
    unfolding t ex_less_Suc all_less_Suc polled_Suc polled_0
    by (subst source_setup_loop.simps) (use Suc.IH [of ?q] in \<open>auto simp: wait_over_def Let_def\<close>)
qed

text \<open>Waiting for a source ends after at most eleven polls, whatever the other threads do, and succeeds exactly when at the
  first poll at which the wait is over the source is configured and the injector is not paused.\<close>

theorem WaitForSourceSetup_polls:
  "fst (WaitForSourceSetup others i p) \<longleftrightarrow>
     (\<exists>k<11. (\<forall>j<k. \<not> wait_over i (polled others DEFAULT_TIMEOUT_FOR_SOURCE_SETUP j p))
        \<and> \<not> mPauseInjector (polled others DEFAULT_TIMEOUT_FOR_SOURCE_SETUP k p)
        \<and> st_sourceConfigured (get_stream i (polled others DEFAULT_TIMEOUT_FOR_SOURCE_SETUP k p)))"
  using source_setup_polls [of others i 11 p]
  by (simp add: WaitForSourceSetup_def DEFAULT_TIMEOUT_FOR_SOURCE_SETUP_def)

definition configure_at :: "int \<Rightarrow> int \<Rightarrow> player \<Rightarrow> player" where
  "configure_at t0 t p = (if t = t0 then on_stream 0 (\<lambda>s. s\<lparr>st_sourceConfigured := True\<rparr>) p else p)"

theorem WaitForSourceSetup_polls_witness: "fst (WaitForSourceSetup (configure_at 900) 0 demo_player)"
proof -
  have "\<not> wait_over 0 (polled (configure_at 900) DEFAULT_TIMEOUT_FOR_SOURCE_SETUP 0 demo_player)"
    and "\<not> mPauseInjector (polled (configure_at 900) DEFAULT_TIMEOUT_FOR_SOURCE_SETUP 1 demo_player)"
    and "st_sourceConfigured (get_stream 0 (polled (configure_at 900) DEFAULT_TIMEOUT_FOR_SOURCE_SETUP 1 demo_player))"
    by (simp_all add: wait_over_def polled_def configure_at_def DEFAULT_TIMEOUT_FOR_SOURCE_SETUP_def get_stream_def on_stream_def
        demo_defs GST_TRACK_COUNT_def numeral_eq_Suc)
  then show ?thesis by (subst WaitForSourceSetup_polls) (auto intro!: exI [of _ 1])
qed

end
