(* ===== verification/Gst_Media.thy ===== *)
theory Gst_Media
  imports Gst_Props
begin

text \<open>
  What the single operations of the player guarantee: the order of what is sent before the first buffer, the first
  frame, the volume, stopping, the end of buffering and the video rectangle.
\<close>

section \<open>The first buffer\<close>

lemmas stream_defs = get_stream_def on_stream_def

lemma emit_simps [simp]:
  "pl_trace (emit a p) = pl_trace p @ [a]" "pl_trace (emits as p) = pl_trace p @ as"
  "pl_stream (emit a p) = pl_stream p" "get_stream i (emit a p) = get_stream i p" "get_stream i (emits as p) = get_stream i p"
  by (simp_all add: emit_def emits_def get_stream_def)

lemma on_stream_simps [simp]:
  "pl_trace (on_stream i g p) = pl_trace p" "pl_cfg (on_stream i g p) = pl_cfg p" "pl_soc (on_stream i g p) = pl_soc p"
  "pl_rate (on_stream i g p) = pl_rate p" "mPauseInjector (on_stream i g p) = mPauseInjector p"
  "length (pl_stream (on_stream i g p)) = length (pl_stream p)"
  "protectionEvent (on_stream i g p) = protectionEvent p" "using_westerossink (on_stream i g p) = using_westerossink p"
  by (simp_all add: on_stream_def)

lemma get_on_stream: "i < length (pl_stream p) \<Longrightarrow> get_stream i (on_stream i g p) = g (get_stream i p)"
  by (simp add: stream_defs)

lemma emit_fields [simp]:
  "pl_cfg (emit a p) = pl_cfg p" "pl_soc (emit a p) = pl_soc p" "pl_rate (emit a p) = pl_rate p"
  "mPauseInjector (emit a p) = mPauseInjector p" "seekPosition (emit a p) = seekPosition p"
  "protectionEvent (emit a p) = protectionEvent p" "using_westerossink (emit a p) = using_westerossink p"
  by (simp_all add: emit_def)

text \<open>The four kinds of actions that come before the first buffer of a stream with a source.\<close>

definition seek_actions :: "elem \<Rightarrow> nat \<Rightarrow> player \<Rightarrow> history" where
  "seek_actions e i p = (if st_pendingSeek (get_stream i p) \<and> seekPosition p > 0 then [SeekElement e 1 (seekPosition p)] else [])"

definition override_enabled :: "player \<Rightarrow> bool" where
  "override_enabled p \<longleftrightarrow> \<not> cf_enablePTSReStamp (pl_cfg p) \<and> pl_rate p \<noteq> GST_NORMAL_PLAY_RATE"

definition override_actions :: "elem \<Rightarrow> player \<Rightarrow> history" where
  "override_actions e p = [PushPadEvent e (OverrideEvent (override_enabled p) (pl_rate p) (cf_vodTrickModeFPS (pl_cfg p)))]"

definition protection_actions :: "elem \<Rightarrow> nat \<Rightarrow> player \<Rightarrow> history" where
  "protection_actions e i p = (case protection_for i p of None \<Rightarrow> [] | Some ev \<Rightarrow> [PushPadEvent e (ProtectionEvent ev)])"

definition segment_actions :: "elem \<Rightarrow> u64 \<Rightarrow> bool \<Rightarrow> player \<Rightarrow> history" where
  "segment_actions e pts wanted p =
     (if IsPlatformSegmentReady (pl_soc p) \<and> wanted
      then [PushPadEvent e (NewSegment pts 0 (if IsVideoMaster (pl_soc p) then GST_NORMAL_PLAY_RATE else pl_rate p))] else [])"

lemma send_pending_seek_spec:
  assumes "st_source (get_stream i p) = Some e" and "i < length (pl_stream p)"
  shows "send_pending_seek i p = on_stream i (\<lambda>s. s\<lparr>st_pendingSeek := False\<rparr>) (emits (seek_actions e i p) p)"
proof (cases "st_pendingSeek (get_stream i p)")
  case True
  then show ?thesis using assms(1) by (simp add: send_pending_seek_def seek_actions_def emit_def emits_def)
next
  case False
  then have "(get_stream i p)\<lparr>st_pendingSeek := False\<rparr> = get_stream i p" by simp
  then have "on_stream i (\<lambda>s. s\<lparr>st_pendingSeek := False\<rparr>) p = p" by (simp add: stream_defs)
  with False show ?thesis by (simp add: send_pending_seek_def seek_actions_def emits_def)
qed

definition first_actions :: "elem \<Rightarrow> nat \<Rightarrow> u64 \<Rightarrow> bool \<Rightarrow> player \<Rightarrow> history" where
  "first_actions e i pts wanted p =
     seek_actions e i p @ override_actions e p @ protection_actions e i p @ segment_actions e pts wanted p"

lemma emits_fields [simp]:
  "pl_cfg (emits as p) = pl_cfg p" "pl_soc (emits as p) = pl_soc p" "pl_rate (emits as p) = pl_rate p"
  "mPauseInjector (emits as p) = mPauseInjector p" "protectionEvent (emits as p) = protectionEvent p"
  "using_westerossink (emits as p) = using_westerossink p" "pl_stream (emits as p) = pl_stream p"
  by (simp_all add: emits_def)

lemma push_event_Some:
  "st_source (get_stream i p) = Some e \<Longrightarrow> push_event i ev p = emit (PushPadEvent e ev) p"
  by (simp add: push_event_def)

lemma segment_start [simp]:
  "get_stream i (p\<lparr>segmentStart := x\<rparr>) = get_stream i p" "protection_for i (p\<lparr>segmentStart := x\<rparr>) = protection_for i p"
  by (simp_all add: get_stream_def protection_for_def cong: option.case_cong)

lemma protection_for_emit [simp]:
  "protection_for i (emit a p) = protection_for i p" "protection_for i (emits as p) = protection_for i p"
  "protection_for i (on_stream j g p) = protection_for i p"
  by (simp_all add: protection_for_def cong: option.case_cong)

lemma SendGstEvents_video:
  assumes "st_source (get_stream 0 p) = Some e" "0 < length (pl_stream p)" "st_format (get_stream 0 p) = GST_FORMAT_ISO_BMFF"
  shows "SendGstEvents 0 q (cf_enablePTSReStamp (pl_cfg p)) (cf_vodTrickModeFPS (pl_cfg p)) p =
      (emits (seek_actions e 0 p @ override_actions e p @ protection_actions e 0 p)
        (on_stream 0 (\<lambda>s. s\<lparr>st_pendingSeek := False, st_resetPosition := False\<rparr>) p))
        \<lparr>segmentStart := (if q \<and> \<not> override_enabled p then - 1 else 0)\<rparr>"
proof -
  have [simp]: "st_source (pl_stream p ! 0) = Some e" "st_format (pl_stream p ! 0) = GST_FORMAT_ISO_BMFF"
    using assms(1,3) by (simp_all add: get_stream_def)
  show ?thesis
    using assms(2) unfolding SendGstEvents_def send_pending_seek_spec [OF assms(1,2)]
    by (cases "protection_for 0 p")
      (simp_all add: Let_def SendQtDemuxOverrideEvent_def get_on_stream push_event_Some media_types override_actions_def
        protection_actions_def override_enabled_def stream_defs emits_def emit_def protection_for_def cong: option.case_cong)
qed

lemma send_first_events_video:
  assumes "st_source (get_stream 0 p) = Some e" "0 < length (pl_stream p)" "st_format (get_stream 0 p) = GST_FORMAT_ISO_BMFF"
  shows "\<exists>m. send_first_events 0 pts wanted p = (IsPlatformSegmentReady (pl_soc p) \<and> wanted,
      (emits (first_actions e 0 pts wanted p)
        (on_stream 0 (\<lambda>s. s\<lparr>st_pendingSeek := False, st_resetPosition := False\<rparr>) p))\<lparr>segmentStart := m\<rparr>)"
  using assms unfolding send_first_events_def Let_def SendGstEvents_video [OF assms]
  by (intro exI [of _ "if cf_enableGstPosQuery (pl_cfg p) \<and> \<not> override_enabled p then - 1 else 0"])
    (auto simp: media_types first_actions_def segment_actions_def SendNewSegmentEvent_def push_event_def get_on_stream
      emits_def emit_def on_stream_def get_stream_def)

text \<open>C1: The first buffer of a video in ISO BMFF after a tune, a seek or a new period is pushed after exactly these actions,
  in this order: the pending seek, the override event of the trick play, the protection event, the new segment when the
  platform wants one. The stream then waits for no seek and no events, and the caller learns that its first buffer
  was pushed.\<close>

theorem first_video_buffer_order:
  assumes "0 < length (pl_stream p)" and "st_source (get_stream eGST_MEDIATYPE_VIDEO p) = Some e"
    and "st_format (get_stream eGST_MEDIATYPE_VIDEO p) = GST_FORMAT_ISO_BMFF"
    and "st_sourceConfigured (get_stream eGST_MEDIATYPE_VIDEO p)" and "st_resetPosition (get_stream eGST_MEDIATYPE_VIDEO p)"
    and "\<not> mPauseInjector p" and "\<And>h. alloc_ok env h" and "\<And>h. push_ret env h = GST_FLOW_OK"
  shows "\<exists>g q. SendHelper env others eGST_MEDIATYPE_VIDEO a f p = Inr (True, g, q)
     \<and> pl_trace q = pl_trace p @ first_actions e eGST_MEDIATYPE_VIDEO (clock_time (sa_pts a)) (sf_sendNewSegmentEvent f) p
         @ [PushBuffer e (make_buffer eGST_MEDIATYPE_VIDEO a p)]
     \<and> get_stream eGST_MEDIATYPE_VIDEO q = (get_stream eGST_MEDIATYPE_VIDEO p)\<lparr>st_pendingSeek := False, st_resetPosition := False,
         st_bufferUnderrun := False,
         st_firstBufferProcessed := st_firstBufferProcessed (get_stream eGST_MEDIATYPE_VIDEO p) \<or> \<not> sa_init a\<rparr>
     \<and> sf_firstBufferPushed g \<and> sf_discontinuity g"
proof -
  have src: "st_source (get_stream 0 p) = Some e" "st_format (get_stream 0 p) = GST_FORMAT_ISO_BMFF"
    "st_sourceConfigured (get_stream 0 p)" "st_resetPosition (get_stream 0 p)"
    using assms(2-5) by (simp_all add: media_types)
  then have f: "st_source (pl_stream p ! 0) = Some e" by (simp add: get_stream_def)
  obtain m where m: "send_first_events 0 (clock_time (sa_pts a)) (sf_sendNewSegmentEvent f) p =
      (IsPlatformSegmentReady (pl_soc p) \<and> sf_sendNewSegmentEvent f,
      (emits (first_actions e 0 (clock_time (sa_pts a)) (sf_sendNewSegmentEvent f) p)
        (on_stream 0 (\<lambda>s. s\<lparr>st_pendingSeek := False, st_resetPosition := False\<rparr>) p))\<lparr>segmentStart := m\<rparr>)"
    using send_first_events_video [OF src(1) assms(1) src(2)] by blast
  show ?thesis
    using assms(1,6-8) src f
    by (auto simp: SendHelper_def await_source_def m media_types push_all_def push_media_def push_buffer_def Let_def
        make_buffer_def send_result_def emit_def emits_def on_stream_def get_stream_def)
qed

text \<open>A video stream after a seek to ten seconds, its first fragment, and its flags.\<close>

definition demo_video :: player where
  "demo_video = on_stream eGST_MEDIATYPE_VIDEO (\<lambda>s. s\<lparr>st_source := Some 5, st_format := GST_FORMAT_ISO_BMFF,
     st_sourceConfigured := True, st_resetPosition := True, st_pendingSeek := True\<rparr>)
     (demo_player\<lparr>seekPosition := 10, protectionEvent := [Some 8, None, None, None]\<rparr>)"

definition demo_args :: send_args where
  "demo_args = \<lparr>sa_data = [1, 2, 3], sa_pts = 10, sa_dts = 10, sa_duration = 2, sa_offset = 0, sa_init = False\<rparr>"

definition demo_flags :: send_flags where
  "demo_flags = \<lparr>sf_discontinuity = False, sf_notifyFirstBufferProcessed = False, sf_sendNewSegmentEvent = False,
     sf_resetTrickUTC = False, sf_firstBufferPushed = False\<rparr>"

lemma demo_video_stream:
  "0 < length (pl_stream demo_video)" "st_source (get_stream eGST_MEDIATYPE_VIDEO demo_video) = Some 5"
  "st_format (get_stream eGST_MEDIATYPE_VIDEO demo_video) = GST_FORMAT_ISO_BMFF"
  "st_sourceConfigured (get_stream eGST_MEDIATYPE_VIDEO demo_video)"
  "st_resetPosition (get_stream eGST_MEDIATYPE_VIDEO demo_video)" "\<not> mPauseInjector demo_video"
  "st_pendingSeek (get_stream eGST_MEDIATYPE_VIDEO demo_video)" "seekPosition demo_video = 10"
  "protectionEvent demo_video = [Some 8, None, None, None]" "pl_trace demo_video = []" "pl_rate demo_video = 1"
  "cf_vodTrickModeFPS (pl_cfg demo_video) = 4" "numberOfVideoBuffersSent demo_video = 0"
  by (simp_all add: demo_video_def stream_defs media_types demo_defs GST_NORMAL_PLAY_RATE_def)

theorem first_video_buffer_order_witness:
  "\<exists>g q. SendHelper demo_gst (\<lambda>_. id) eGST_MEDIATYPE_VIDEO demo_args demo_flags demo_video = Inr (True, g, q)
     \<and> pl_trace q = [SeekElement 5 1 10, PushPadEvent 5 (OverrideEvent False 1 4), PushPadEvent 5 (ProtectionEvent 8),
         PushBuffer 5 (make_buffer eGST_MEDIATYPE_VIDEO demo_args demo_video)] \<and> sf_firstBufferPushed g"
proof -
  have "first_actions 5 eGST_MEDIATYPE_VIDEO t False demo_video =
      [SeekElement 5 1 10, PushPadEvent 5 (OverrideEvent False 1 4), PushPadEvent 5 (ProtectionEvent 8)]" for t
    by (simp add: first_actions_def seek_actions_def override_actions_def override_enabled_def protection_actions_def
        segment_actions_def protection_for_def demo_video_stream GST_NORMAL_PLAY_RATE_def) (simp add: media_types)
  then show ?thesis
    using first_video_buffer_order [OF demo_video_stream(1-6), of demo_gst "\<lambda>_. id" demo_args demo_flags]
    by (force simp: demo_gst_def demo_flags_def demo_video_stream)
qed

text \<open>While the injector is paused a configured stream pushes nothing, and yet its first buffer is consumed: the events
  are sent, the wait for the first buffer ends and the buffer counts as sent.\<close>

theorem paused_injector_consumes_first_buffer:
  assumes "0 < length (pl_stream p)" and "st_source (get_stream eGST_MEDIATYPE_VIDEO p) = Some e"
    and "st_format (get_stream eGST_MEDIATYPE_VIDEO p) = GST_FORMAT_ISO_BMFF"
    and "st_sourceConfigured (get_stream eGST_MEDIATYPE_VIDEO p)" and "st_resetPosition (get_stream eGST_MEDIATYPE_VIDEO p)"
    and "mPauseInjector p"
  shows "\<exists>g q. SendHelper env others eGST_MEDIATYPE_VIDEO a f p = Inr (False, g, q)
     \<and> pl_trace q = pl_trace p @ first_actions e eGST_MEDIATYPE_VIDEO (clock_time (sa_pts a)) (sf_sendNewSegmentEvent f) p
     \<and> \<not> st_resetPosition (get_stream eGST_MEDIATYPE_VIDEO q) \<and> \<not> st_pendingSeek (get_stream eGST_MEDIATYPE_VIDEO q)
     \<and> numberOfVideoBuffersSent q = numberOfVideoBuffersSent p + 1"
proof -
  have src: "st_source (get_stream 0 p) = Some e" "st_format (get_stream 0 p) = GST_FORMAT_ISO_BMFF"
    "st_sourceConfigured (get_stream 0 p)" "st_resetPosition (get_stream 0 p)"
    using assms(2-5) by (simp_all add: media_types)
  obtain m where m: "send_first_events 0 (clock_time (sa_pts a)) (sf_sendNewSegmentEvent f) p =
      (IsPlatformSegmentReady (pl_soc p) \<and> sf_sendNewSegmentEvent f,
      (emits (first_actions e 0 (clock_time (sa_pts a)) (sf_sendNewSegmentEvent f) p)
        (on_stream 0 (\<lambda>s. s\<lparr>st_pendingSeek := False, st_resetPosition := False\<rparr>) p))\<lparr>segmentStart := m\<rparr>)"
    using send_first_events_video [OF src(1) assms(1) src(2)] by blast
  show ?thesis
    using assms(1,6) src
    by (auto simp: SendHelper_def await_source_def m media_types push_all_def Let_def emits_def on_stream_def get_stream_def)
qed

theorem paused_injector_consumes_first_buffer_witness:
  "\<exists>g q. SendHelper demo_gst (\<lambda>_. id) eGST_MEDIATYPE_VIDEO demo_args demo_flags (PauseInjector demo_video) = Inr (False, g, q)
     \<and> \<not> st_resetPosition (get_stream eGST_MEDIATYPE_VIDEO q) \<and> numberOfVideoBuffersSent q = 1"
proof -
  have [simp]: "get_stream i (PauseInjector p) = get_stream i p" "pl_stream (PauseInjector p) = pl_stream p"
    "numberOfVideoBuffersSent (PauseInjector p) = numberOfVideoBuffersSent p" "mPauseInjector (PauseInjector p)" for i p
    by (simp_all add: PauseInjector_def get_stream_def)
  show ?thesis
    using paused_injector_consumes_first_buffer [of "PauseInjector demo_video" 5 demo_gst "\<lambda>_. id" demo_args demo_flags]
    using demo_video_stream(1) by (auto simp: demo_video_stream(2-))
qed

section \<open>The first frame\<close>

definition first_frames :: "history \<Rightarrow> nat" where
  "first_frames h = length (filter (\<lambda>a. case a of ToApp (FirstFrameCb _ notify _) \<Rightarrow> notify | _ \<Rightarrow> False) h)"

lemma first_frames_append [simp]: "first_frames (h @ k) = first_frames h + first_frames k"
  by (simp add: first_frames_def)

lemma schedule_task_fields [simp]:
  "pl_trace (snd (schedule_task k p)) = pl_trace p" "firstFrameReceived (snd (schedule_task k p)) = firstFrameReceived p"
  by (simp_all add: schedule_task_def split: prod.split outcome.split)

lemma first_frame_tasks [simp]:
  "pl_trace (notify_decoder p) = pl_trace p" "firstFrameReceived (notify_decoder p) = firstFrameReceived p"
  "pl_trace (add_progress_task p) = pl_trace p" "firstFrameReceived (add_progress_task p) = firstFrameReceived p"
  "pl_trace (add_displayed_task p) = pl_trace p" "firstFrameReceived (add_displayed_task p) = firstFrameReceived p"
  by (simp_all add: notify_decoder_def add_progress_task_def add_displayed_task_def IdleTaskAdd_def split_def Let_def)

text \<open>Whether the callback of a first frame reports it, given the state in which it is called.\<close>

definition reports_first :: "player \<Rightarrow> bool" where
  "reports_first p \<longleftrightarrow> \<not> firstFrameReceived p \<and> (firstVideoFrameReceived p
     \<or> (NumberOfTracks p = 1 \<and> (firstAudioFrameReceived p \<or> firstVideoFrameReceived p)))"

definition first_frame_call :: "nat \<Rightarrow> player \<Rightarrow> gst_action" where
  "first_frame_call i p = ToApp (FirstFrameCb i (reports_first p) (\<not> decoderHandleNotified p \<and> PipelineSetToReady p))"

lemma NotifyFirstFrame_received [simp]: "firstFrameReceived (NotifyFirstFrame env i p) = (firstFrameReceived p \<or> reports_first p)"
proof -
  have "firstFrameReceived (if reports_first p then p\<lparr>firstFrameReceived := True\<rparr> else p) = (firstFrameReceived p \<or> reports_first p)"
    by simp
  then show ?thesis
    unfolding NotifyFirstFrame_def reports_first_def [symmetric] Let_def
    by (cases "reports_first p") (simp_all add: notify_app_def emit_def split: option.split)
qed

lemma NotifyFirstFrame_trace [simp]:
  "pl_trace (NotifyFirstFrame env i p) =
     (if first_frame_cb env (pl_trace p @ [first_frame_call i p]) = None then pl_trace p else pl_trace p @ [first_frame_call i p])"
  unfolding NotifyFirstFrame_def reports_first_def [symmetric] Let_def first_frame_call_def
  by (cases "reports_first p") (simp_all add: notify_app_def emit_def split: option.split)

definition first_frame_signal :: "gst_env \<Rightarrow> bool \<Rightarrow> player \<Rightarrow> player" where
  "first_frame_signal env video p = (if video then OnFirstVideoFrameCallback env p else OnAudioFirstFrameAudDecoder env p)"

lemma reports_imp: "reports_first p \<Longrightarrow> \<not> firstFrameReceived p"
  by (simp add: reports_first_def)

lemma first_frames_call [simp]: "first_frames [first_frame_call i p] = of_bool (reports_first p)"
  by (simp add: first_frames_def first_frame_call_def)

lemma first_frame_signal_step:
  "first_frames (pl_trace (first_frame_signal env b p)) + of_bool (\<not> firstFrameReceived (first_frame_signal env b p))
     \<le> first_frames (pl_trace p) + of_bool (\<not> firstFrameReceived p)"
  by (cases b) (auto simp: first_frame_signal_def OnFirstVideoFrameCallback_def OnAudioFirstFrameAudDecoder_def dest: reports_imp)

lemma first_frame_signals:
  "first_frames (pl_trace (fold (first_frame_signal env) signals p)) + of_bool (\<not> firstFrameReceived (fold (first_frame_signal env) signals p))
     \<le> first_frames (pl_trace p) + of_bool (\<not> firstFrameReceived p)"
proof (induction signals arbitrary: p)
  case (Cons b signals)
  show ?case using Cons.IH [of "first_frame_signal env b p"] first_frame_signal_step [of env b p] by simp
qed simp

text \<open>C21: Whatever the order of the first frame signals of the decoders and however often they come, the application is told of
  the first frame once at most, and not at all when it was told before.\<close>

theorem first_frame_once:
  "first_frames (pl_trace (fold (first_frame_signal env) signals p))
     \<le> first_frames (pl_trace p) + (if firstFrameReceived p then 0 else 1)"
  using add_leD1 [OF first_frame_signals [of env signals p]] by (cases "firstFrameReceived p") simp_all

section \<open>Volume and mute\<close>

text \<open>Volume zero mutes; any other volume unmutes when it was muted and is then set. Either way the player afterwards knows
  whether the element is muted.\<close>

theorem SetVolumeOrMuteUnMute_spec:
  assumes "volume_target p = (Some e, Some vol, Some mute)"
  shows "pl_trace (SetVolumeOrMuteUnMute (SetAudioVolume v p)) = pl_trace p @
           (if v = 0 then [SetProp e mute (PBool True)]
            else (if audioMuted p then [SetProp e mute (PBool False)] else []) @ [SetProp e vol (PReal (of_int v / 100))])
     \<and> audioMuted (SetVolumeOrMuteUnMute (SetAudioVolume v p)) = (v = 0)"
proof -
  have t: "volume_target (SetAudioVolume v p) = (Some e, Some vol, Some mute)"
    using assms by (simp add: volume_target_def SetAudioVolume_def get_stream_def cong: if_cong)
  show ?thesis
    unfolding SetVolumeOrMuteUnMute_def t by (simp add: SetAudioVolume_def emit_def Let_def)
qed

definition demo_sound :: player where
  "demo_sound = demo_player\<lparr>usingRialtoSink := True, audio_sink := Some 9, audioMuted := True\<rparr>"

theorem SetVolumeOrMuteUnMute_spec_witness:
  "pl_trace (SetVolumeOrMuteUnMute (SetAudioVolume 50 demo_sound)) =
     [SetProp 9 ''mute'' (PBool False), SetProp 9 ''volume'' (PReal (1 / 2))]"
proof -
  have "volume_target demo_sound = (Some 9, Some ''volume'', Some ''mute'')" "audioMuted demo_sound" "pl_trace demo_sound = []"
    by (simp_all add: volume_target_def demo_sound_def demo_defs)
  then show ?thesis using SetVolumeOrMuteUnMute_spec [of demo_sound 9 "''volume''" "''mute''" 50] by simp
qed

section \<open>Stopping and flushing\<close>

definition clean_stream :: "gst_media_stream \<Rightarrow> bool" where
  "clean_stream s \<longleftrightarrow> st_format s = GST_FORMAT_INVALID \<and> \<not> st_bufferUnderrun s \<and> \<not> st_eosReached s
     \<and> (st_demuxProbeId s = 0 \<or> st_demuxPad s = 0)"

lemma RemoveProbe_stream:
  "pl_stream (RemoveProbe i p) = (if st_demuxProbeId (get_stream i p) \<noteq> 0 \<and> st_demuxPad (get_stream i p) \<noteq> 0
     then (pl_stream p)[i := (get_stream i p)\<lparr>st_demuxProbeId := 0, st_demuxPad := 0\<rparr>] else pl_stream p)"
  by (simp add: RemoveProbe_def Let_def stream_defs emit_def)

lemma get_on_stream_if:
  "i < length (pl_stream p) \<Longrightarrow> get_stream j (on_stream i g p) = (if j = i then g (get_stream i p) else get_stream j p)"
  by (simp add: stream_defs)

lemma stream_notify [simp]: "get_stream j (notify_app a p) = get_stream j p" "pl_stream (notify_app a p) = pl_stream p"
  by (simp_all add: notify_app_def)

lemma clear_elements_stream [simp]: "pl_stream (clear_stream_elements i p) = pl_stream p"
  by (simp add: clear_stream_elements_def)

lemma get_clear_elements [simp]: "get_stream j (clear_stream_elements i p) = get_stream j p"
  by (simp add: get_stream_def)

lemma detach_stream [simp]: "pl_stream (detach_sinkbin env i p) = pl_stream p"
  by (simp add: detach_sinkbin_def SetStateWithWarnings_def Let_def split: option.split)

lemma release_stream_spec:
  assumes "i < length (pl_stream p)"
  shows "length (pl_stream (release_stream env i p)) = length (pl_stream p)"
    and "get_stream j (release_stream env i p) = (if j = i \<and> st_format (get_stream i p) \<noteq> GST_FORMAT_INVALID
       then (get_stream i p)\<lparr>st_format := GST_FORMAT_INVALID, st_sinkbin := None, st_source := None, st_sourceConfigured := False\<rparr>
       else get_stream j p)"
proof -
  have e: "pl_stream (emits as (if b then q\<lparr>decoderHandleNotified := c\<rparr> else q)) = pl_stream q" for as b q c by simp
  show "length (pl_stream (release_stream env i p)) = length (pl_stream p)"
    unfolding release_stream_def Let_def by (simp add: on_stream_def)
  show "get_stream j (release_stream env i p) = (if j = i \<and> st_format (get_stream i p) \<noteq> GST_FORMAT_INVALID
       then (get_stream i p)\<lparr>st_format := GST_FORMAT_INVALID, st_sinkbin := None, st_source := None, st_sourceConfigured := False\<rparr>
       else get_stream j p)"
    unfolding release_stream_def Let_def using assms by (simp add: stream_defs)
qed

lemma RemoveProbe_spec:
  assumes "i < length (pl_stream p)"
  shows "length (pl_stream (RemoveProbe i p)) = length (pl_stream p)"
    and "get_stream j (RemoveProbe i p) = (if j = i \<and> st_demuxProbeId (get_stream i p) \<noteq> 0 \<and> st_demuxPad (get_stream i p) \<noteq> 0
       then (get_stream i p)\<lparr>st_demuxProbeId := 0, st_demuxPad := 0\<rparr> else get_stream j p)"
  using assms by (simp_all add: RemoveProbe_stream get_stream_def)

lemma TearDownStream_stream:
  assumes "i < length (pl_stream p)"
  shows "length (pl_stream (TearDownStream env i p)) = length (pl_stream p)"
    and "j \<noteq> i \<Longrightarrow> get_stream j (TearDownStream env i p) = get_stream j p"
    and "clean_stream (get_stream i (TearDownStream env i p))"
  using assms
  by (simp_all add: TearDownStream_def Let_def clean_stream_def get_on_stream_if release_stream_spec RemoveProbe_spec)


lemma tear_down_length [simp]: "length (pl_stream (fold (TearDownStream env) is p)) = length (pl_stream p)"
proof (induction "is" arbitrary: p)
  case (Cons i "is")
  show ?case
    by (cases "i < length (pl_stream p)")
      (simp_all add: Cons.IH TearDownStream_stream, simp add: TearDownStream_def release_stream_def RemoveProbe_def on_stream_def Let_def)
qed simp

text \<open>Stopping up to the streams, and the rest of it.\<close>

definition stop_first :: "gst_env \<Rightarrow> bool \<Rightarrow> player \<Rightarrow> player" where
  "stop_first env keepLastFrame p =
     (let p = emits [ControlDisable SyncControl, ControlDisable AsyncControl] p;
          p = (case bus p of None \<Rightarrow> p | Some b \<Rightarrow> emit (RemoveBusWatch b) p);
          p = (if keepLastFrame then p
               else p\<lparr>firstFrameReceived := False, firstVideoFrameReceived := False, firstAudioFrameReceived := False\<rparr>)
      in stop_tasks p)"

definition stop_elements :: "gst_env \<Rightarrow> player \<Rightarrow> player" where
  "stop_elements env p =
     (let p = stop_pipeline env (RemoveProbes (stop_handlers env p))
      in if externals_active env (pl_trace p) then notify_app (SetGstElementCb None) p else p)"

lemma Stop_player_split:
  "\<exists>r. Stop_player env keep p =
     (DestroyPipeline (fold (TearDownStream env) [0..<GST_TRACK_COUNT] (stop_elements env (stop_first env keep p))))
       \<lparr>pl_rate := GST_NORMAL_PLAY_RATE, lastKnownPTS := 0, segmentStart := 0, pl_paused := False,
         pipelineState := GST_STATE_NULL, audioMuted := False, videoMuted := False, subtitleMuted := False, audioVolume := r\<rparr>"
  unfolding Stop_player_def stop_first_def stop_elements_def Let_def by blast

lemma core_stop_elements: "core (stop_elements env p) = core p"
  by (simp add: stop_elements_def Let_def frame)



lemma core_Stop: "core (Stop_player env keep p) = core (stop_first env keep p)"
  using Stop_player_split [of env keep p] by (auto simp: frame core_stop_elements)

lemma core_parts:
  "core q = core p \<Longrightarrow> mScheduler q = mScheduler p" "core q = core p \<Longrightarrow> eosCallbackIdleTaskPending q = eosCallbackIdleTaskPending p"
  "core q = core p \<Longrightarrow> length (pl_stream q) = length (pl_stream p)"
  by (simp_all add: core_def)





lemma schedule_task_queued:
  assumes "sc_running (mScheduler p)" and "\<not> sc_lockOut (mScheduler p)"
  shows "\<exists>t. sc_queue (mScheduler (snd (schedule_task kind p))) = sc_queue (mScheduler p) @ [t] \<and> task_data t = kind"
  using assms by (auto simp: schedule_task_def push_task_def wake_def Let_def split: if_splits)

lemma schedule_task_keeps: "set (sc_queue (mScheduler p)) \<subseteq> set (sc_queue (mScheduler (snd (schedule_task kind p))))"
  by (auto simp: schedule_task_def push_task_def wake_def Let_def split: prod.split outcome.split)

lemma add_tasks_keep:
  "t \<in> set (sc_queue (mScheduler p)) \<Longrightarrow> t \<in> set (sc_queue (mScheduler (add_progress_task p)))"
  "t \<in> set (sc_queue (mScheduler p)) \<Longrightarrow> t \<in> set (sc_queue (mScheduler (add_displayed_task p)))"
  using schedule_task_keeps [of p IDLE_TASK] schedule_task_keeps [of p FRAME_DISPLAYED_TASK]
  by (auto simp: add_progress_task_def add_displayed_task_def IdleTaskAdd_def split_def Let_def)

definition can_schedule :: "player \<Rightarrow> bool" where
  "can_schedule p \<longleftrightarrow> sc_running (mScheduler p) \<and> \<not> sc_lockOut (mScheduler p)"

lemma notify_decoder_queues:
  assumes "can_schedule p" and "\<not> decoderHandleNotified p"
  shows "\<exists>t \<in> set (sc_queue (mScheduler (notify_decoder p))). task_data t = FIRST_FRAME_TASK"
  using schedule_task_queued [of "p\<lparr>decoderHandleNotified := True, firstFrameCallbackIdleTaskPending := False\<rparr>" FIRST_FRAME_TASK]
    assms by (auto simp: notify_decoder_def can_schedule_def split_def Let_def)

lemma first_video_frame_queues:
  assumes "can_schedule p" and "\<not> decoderHandleNotified p"
  shows "\<exists>t \<in> set (sc_queue (mScheduler (OnFirstVideoFrameCallback env p))). task_data t = FIRST_FRAME_TASK"
proof -
  have *: "\<exists>t \<in> set (sc_queue (mScheduler (notify_decoder q))). task_data t = FIRST_FRAME_TASK"
    if "mScheduler q = mScheduler p" "decoderHandleNotified q = decoderHandleNotified p" for q
    using notify_decoder_queues [of q] that assms by (simp add: can_schedule_def)
  have **: "\<exists>t \<in> set (sc_queue (mScheduler (add_progress_task (notify_decoder q)))). task_data t = FIRST_FRAME_TASK"
    "\<exists>t \<in> set (sc_queue (mScheduler (add_displayed_task (add_progress_task (notify_decoder q))))). task_data t = FIRST_FRAME_TASK"
    if "mScheduler q = mScheduler p" "decoderHandleNotified q = decoderHandleNotified p" for q
    using * [OF that] add_tasks_keep by blast+
  let ?p = "p\<lparr>firstVideoFrameReceived := True\<rparr>"
  define q where "q = (if reports_first ?p then ?p\<lparr>firstFrameReceived := True\<rparr> else ?p)"
  have q: "mScheduler q = mScheduler p" "decoderHandleNotified q = decoderHandleNotified p"
    "mScheduler (notify_app a q) = mScheduler p" "decoderHandleNotified (notify_app a q) = decoderHandleNotified p" for a
    by (simp_all add: q_def notify_app_def emit_def)
  show ?thesis
    unfolding OnFirstVideoFrameCallback_def NotifyFirstFrame_def reports_first_def [symmetric] Let_def q_def [symmetric]
    using ** [OF q(1,2)] ** [OF q(3,4)] by (auto split: option.split)
qed

text \<open>\<^verbatim>\<open>Stop\<close> does not fence the signal handlers: a first frame that a decoder reports after \<^verbatim>\<open>Stop\<close> has returned still
  schedules the task that tells the application about it, whenever the scheduler accepts tasks.\<close>

theorem Stop_does_not_fence_signals:
  assumes "can_schedule (Stop_player env keep p)"
  shows "\<exists>t \<in> set (sc_queue (mScheduler (OnFirstVideoFrameCallback env (Stop_player env keep p)))). task_data t = FIRST_FRAME_TASK"
proof (rule first_video_frame_queues [OF assms])
  show "\<not> decoderHandleNotified (Stop_player env keep p)"
    using Stop_player_split [of env keep p] by (auto simp: DestroyPipeline_def Let_def)
qed

lemma demo_stop_schedules: "can_schedule (Stop_player demo_gst False demo_player)"
  unfolding can_schedule_def core_parts(1) [OF core_Stop]
  by (simp add: stop_first_def stop_tasks_def stop_timers_def TimerRemove_def IdleTaskRemove_def stop_eos_task_def
      stop_first_frame_task_def demo_defs emits_def)

theorem Stop_does_not_fence_signals_witness:
  "\<exists>t \<in> set (sc_queue (mScheduler (OnFirstVideoFrameCallback demo_gst (Stop_player demo_gst False demo_player)))).
     task_data t = FIRST_FRAME_TASK"
  by (rule Stop_does_not_fence_signals [OF demo_stop_schedules])

section \<open>Buffering\<close>

definition buffering_ticks :: "gst_env \<Rightarrow> nat \<Rightarrow> player \<Rightarrow> player" where
  "buffering_ticks env n p = ((snd \<circ> buffering_timeout env) ^^ n) p"

lemma buffering_check_progress:
  assumes "buffering_check env p = (a, b, c, q)" and "buffering_in_progress q"
  shows "unat (buffering_timeout_cnt q) < unat (buffering_timeout_cnt p)"
proof -
  have "unat (w - 1) < unat w" if "w \<noteq> 0" for w :: u32
    using that unat_minus_one [OF that] by (simp add: unat_gt_0)
  then show ?thesis using assms by (auto simp: buffering_check_def Let_def split: if_splits)
qed

lemma buffering_timeout_progress:
  assumes "buffering_in_progress (snd (buffering_timeout env p))"
  shows "unat (buffering_timeout_cnt (snd (buffering_timeout env p))) < unat (buffering_timeout_cnt p)"
proof -
  obtain a b c q where q: "buffering_check env p = (a, b, c, q)" by (cases "buffering_check env p")
  then have "buffering_in_progress q" using assms by (auto simp: buffering_timeout_def Let_def notify_app_def emit_def split: if_splits)
  then show ?thesis using buffering_check_progress [OF q] by (simp add: buffering_timeout_def Let_def q notify_app_def emit_def)
qed

lemma buffering_ticks_end:
  "unat (buffering_timeout_cnt p) \<le> k \<Longrightarrow> \<exists>n\<le>k + 1. \<not> buffering_in_progress (buffering_ticks env n p)"
proof (induction k arbitrary: p)
  case 0
  then have "\<not> buffering_in_progress (snd (buffering_timeout env p))" using buffering_timeout_progress [of env p] by auto
  then show ?case by (auto simp: buffering_ticks_def intro!: exI [of _ 1])
next
  case (Suc k)
  show ?case
  proof (cases "buffering_in_progress (snd (buffering_timeout env p))")
    case True
    then have "unat (buffering_timeout_cnt (snd (buffering_timeout env p))) \<le> k"
      using buffering_timeout_progress [OF True] Suc.prems by simp
    then obtain n where "n \<le> k + 1" "\<not> buffering_in_progress (buffering_ticks env n (snd (buffering_timeout env p)))"
      using Suc.IH by blast
    then show ?thesis by (intro exI [of _ "Suc n"]) (simp add: buffering_ticks_def funpow_swap1)
  next
    case False
    then show ?thesis by (intro exI [of _ 1]) (simp add: buffering_ticks_def)
  qed
qed

text \<open>C11: Buffering never lasts: whatever the decoder answers, after at most one tick more than the counter says the timer ends
  it. The counter starts at a hundred, so a pipeline is not held back for longer than a second of ticks.\<close>

theorem buffering_ends:
  "\<exists>n\<le>unat (buffering_timeout_cnt p) + 1. \<not> buffering_in_progress (buffering_ticks env n p)"
  by (rule buffering_ticks_end) simp

section \<open>The elements of a bin\<close>

text \<open>All elements with their depth, parents before children.\<close>

fun elements_at :: "nat \<Rightarrow> gst_node \<Rightarrow> (nat \<times> elem) list" where
  "elements_at d (Element e) = [(d, e)]"
| "elements_at d (Bin e children) = (d, e) # concat (map (elements_at (d + 1)) children)"
| "elements_at d NoElement = []"

lemma elements_depth: "(k, e) \<in> set (elements_at d n) \<Longrightarrow> d \<le> k"
proof (induction d n rule: elements_at.induct)
  case (2 d b children)
  then show ?case using Suc_leD by fastforce
qed auto

lemma elements_deep: "RECURSION_LIMIT \<le> d \<Longrightarrow> filter (\<lambda>(k, _). k < RECURSION_LIMIT) (elements_at d n) = []"
  using elements_depth [of _ _ d n] by (fastforce simp: filter_empty_conv)

text \<open>C25: The recursive search of a bin finds exactly the elements that are nested less than ten bins deep, in preorder.\<close>

theorem GetElementPointers_preorder:
  "GetElementPointers d n = map snd (filter (\<lambda>(k, _). k < RECURSION_LIMIT) (elements_at d n))"
proof (induction d n rule: GetElementPointers.induct)
  case (2 d e children)
  show ?case
  proof (cases "RECURSION_LIMIT < d + 1")
    case True
    then show ?thesis using elements_deep [of d "Bin e children"] by simp
  next
    case False
    have "concat (map (GetElementPointers (d + 1)) children)
        = concat (map (\<lambda>n. map snd (filter (\<lambda>(k, _). k < RECURSION_LIMIT) (elements_at (d + 1) n))) children)"
      using 2 [OF False] by (intro arg_cong [of _ _ concat] map_cong) auto
    with False show ?thesis by (simp add: filter_concat map_concat comp_def)
  qed
qed simp_all

section \<open>The video rectangle\<close>

lemma show_int_split: "\<exists>c t. show_int k = c # t \<and> \<not> is_space c \<and> c \<noteq> CHR '',''"
proof (cases "k < 0")
  case False
  obtain c t where d: "decimal (nat k) = c # t" by (cases "decimal (nat k)") (simp_all add: decimal_ne)
  then have "is_digit c" using decimal_digits [of "nat k"] by simp
  with False d show ?thesis by (auto simp: show_int_def is_digit_def is_space_def)
qed (simp add: show_int_def is_space_def)

lemma take_digits:
  "list_all is_digit ds \<Longrightarrow> (rest = [] \<or> \<not> is_digit (hd rest)) \<Longrightarrow> takeWhile is_digit (ds @ rest) = ds \<and> dropWhile is_digit (ds @ rest) = rest"
  by (induction ds) (auto simp: takeWhile_eq_Nil_iff dropWhile_eq_self_iff)

lemma scan_show:
  assumes "rest = [] \<or> \<not> is_digit (hd rest)"
  shows "scan_int (show_int k @ rest) = Some (k, rest)"
proof (cases "k < 0")
  case True
  have "takeWhile is_digit (decimal (nat (- k)) @ rest) = decimal (nat (- k)) \<and> dropWhile is_digit (decimal (nat (- k)) @ rest) = rest"
    by (rule take_digits [OF decimal_digits assms])
  with True show ?thesis
    by (simp add: scan_int_def show_int_def is_space_def decimal_value decimal_ne Let_def)
next
  case False
  obtain c t where d: "decimal (nat k) = c # t" by (cases "decimal (nat k)") (simp_all add: decimal_ne)
  then have c: "is_digit c" using decimal_digits [of "nat k"] by simp
  have "takeWhile is_digit (decimal (nat k) @ rest) = decimal (nat k) \<and> dropWhile is_digit (decimal (nat k) @ rest) = rest"
    by (rule take_digits [OF decimal_digits assms])
  moreover have "digits_value (c # t) = nat k" using decimal_value [of "nat k"] d by simp
  ultimately show ?thesis
    using False digit_plain [OF c] by (simp add: scan_int_def show_int_def d Let_def)
qed

lemma comma_no_digit [simp]: "\<not> is_digit CHR '',''"
  by (simp add: is_digit_def)

lemma scan_show_rect: "scan_rect (show_rect x y w h) = [x, y, w, h]"
  using scan_show [of "[]" h] by (simp add: scan_rect_def show_rect_def scan_show numeral_eq_Suc)

lemma scan_more_length: "length (scan_more k s) \<le> k"
  by (induction k s rule: scan_more.induct) (auto split: list.split option.split)

lemma scan_rect_length: "length (scan_rect s) \<le> 4"
  using scan_more_length [of 3] by (auto simp: scan_rect_def split: option.split)

lemma padded_four:
  fixes xs :: "'a :: zero list"
  assumes "length xs \<le> 4" and "take 4 (xs @ replicate 4 0) = [x, y, w, h]" and "h \<noteq> 0"
  shows "xs = [x, y, w, h]"
proof -
  have "length xs = 4"
  proof (rule ccontr)
    assume "length xs \<noteq> 4"
    with assms(1) have "length xs < 4" by simp
    then have "take 4 (xs @ replicate 4 0) ! 3 = (0 :: 'a)" by (simp add: nth_append)
    with assms(2,3) show False by simp
  qed
  with assms(2) show ?thesis by simp
qed

text \<open>A rectangle whose text fits into the thirty-one characters of the buffer is read back, so the size of the video that
  is reported is the one that was set; and setting the same rectangle again has no effect.\<close>

theorem video_rectangle_roundtrip:
  assumes "length (show_rect x y w h) \<le> RECT_CHARS" and "0 < w" and "0 < h"
  shows "GetVideoSize old (SetVideoRectangle x y w h p) = (w, h)
     \<and> SetVideoRectangle x y w h (SetVideoRectangle x y w h p) = SetVideoRectangle x y w h p"
proof -
  let ?q = "SetVideoRectangle x y w h p"
  have "scan_rect (videoRectangle ?q) = [x, y, w, h]"
  proof (cases "take 4 (scan_rect (videoRectangle p) @ replicate 4 0) = [x, y, w, h]")
    case True
    then have "scan_rect (videoRectangle p) = [x, y, w, h]"
      using padded_four [OF scan_rect_length] assms(3) by auto
    with True show ?thesis by (simp add: SetVideoRectangle_def Let_def)
  next
    case False
    then have "videoRectangle ?q = take RECT_CHARS (show_rect x y w h)"
      by (simp add: SetVideoRectangle_def Let_def set_prop_def emit_def split: option.split)
    then show ?thesis using assms(1) scan_show_rect by simp
  qed
  moreover from this have "SetVideoRectangle x y w h ?q = ?q" by (simp add: SetVideoRectangle_def [of x y w h ?q] Let_def)
  ultimately show ?thesis using assms(2,3) by (simp add: GetVideoSize_def)
qed

theorem video_rectangle_roundtrip_witness:
  "GetVideoSize (0, 0) (SetVideoRectangle 0 (- 20) 1280 720 demo_player) = (1280, 720)"
proof -
  have len: "length (decimal n) \<le> 4" if "n < 10000" for n
    using that by (subst decimal.simps, subst decimal.simps, subst decimal.simps, subst decimal.simps) auto
  have "length (show_rect 0 (- 20) 1280 720) \<le> RECT_CHARS"
    using len [of 0] len [of 20] len [of 1280] len [of 720] by (simp add: show_rect_def show_int_def RECT_CHARS_def)
  then show ?thesis using video_rectangle_roundtrip [of 0 "- 20" 1280 720 "(0, 0)" demo_player] by simp
qed

end
