(* ===== verification/Gst_Locks.thy ===== *)
theory Gst_Locks
  imports Gst_Inject
begin

text \<open>
  The two locks around the source of a stream (\<^verbatim>\<open>InterfacePlayerRDK.cpp\<close>): \<^verbatim>\<open>mSourceSetupMutex\<close>, which
  \<^verbatim>\<open>Stop\<close> takes at its start and keeps until it returns, and the \<^verbatim>\<open>sourceLock\<close> of the stream, under which
  \<^verbatim>\<open>SendHelper\<close> waits for the source. Two threads run the lock operations of these functions in any interleaving. A
  wait on the condition variable releases the mutex and takes it again.
\<close>

datatype source_lock = SourceSetupMutex | SourceLock

datatype lock_op = Acquire source_lock | Release source_lock

datatype lock_thread = Injector | Stopper

text \<open>\<^verbatim>\<open>WaitForSourceSetup\<close> with the given number of polls, and its callers.\<close>

definition wait_locks :: "nat \<Rightarrow> lock_op list" where
  "wait_locks polls =
     Acquire SourceSetupMutex # concat (replicate polls [Release SourceSetupMutex, Acquire SourceSetupMutex])
       @ [Release SourceSetupMutex]"

definition SendHelper_locks :: "nat \<Rightarrow> lock_op list" where
  "SendHelper_locks polls = Acquire SourceLock # wait_locks polls @ [Release SourceLock]"

text \<open>The stream is torn down under its lock unless its format is invalid.\<close>

definition TearDownStream_locks :: "stream_format \<Rightarrow> lock_op list" where
  "TearDownStream_locks format = (if format \<noteq> GST_FORMAT_INVALID then [Acquire SourceLock, Release SourceLock] else [])"

definition Stop_locks :: "stream_format \<Rightarrow> lock_op list" where
  "Stop_locks format = Acquire SourceSetupMutex # TearDownStream_locks format @ [Release SourceSetupMutex]"

record lock_state =
  lk_owner :: "source_lock \<Rightarrow> lock_thread option"
  lk_todo :: "lock_thread \<Rightarrow> lock_op list"

definition locks_start :: "nat \<Rightarrow> stream_format \<Rightarrow> lock_state" where
  "locks_start polls format = \<lparr>lk_owner = (\<lambda>_. None),
     lk_todo = (\<lambda>t. case t of Injector \<Rightarrow> SendHelper_locks polls | Stopper \<Rightarrow> Stop_locks format)\<rparr>"

definition after_op :: "lock_thread \<Rightarrow> lock_state \<Rightarrow> lock_state option" where
  "after_op t s =
     (case lk_todo s t of
        [] \<Rightarrow> None
      | Acquire l # ops \<Rightarrow>
          if lk_owner s l = None then Some (s\<lparr>lk_owner := (lk_owner s)(l := Some t), lk_todo := (lk_todo s)(t := ops)\<rparr>) else None
      | Release l # ops \<Rightarrow> Some (s\<lparr>lk_owner := (lk_owner s)(l := None), lk_todo := (lk_todo s)(t := ops)\<rparr>))"

definition lock_step :: "lock_state \<Rightarrow> lock_state \<Rightarrow> bool" where
  "lock_step s s' \<longleftrightarrow> (\<exists>t. after_op t s = Some s')"

definition locks_stuck :: "lock_state \<Rightarrow> bool" where
  "locks_stuck s \<longleftrightarrow> lk_todo s Injector \<noteq> [] \<and> lk_todo s Stopper \<noteq> [] \<and> (\<forall>t. after_op t s = None)"

lemma lock_stepI: "after_op t s = Some s' \<Longrightarrow> lock_step s s'"
  by (auto simp: lock_step_def)

text \<open>The schedule: the injector runs into its first wait, then \<^verbatim>\<open>Stop\<close> takes the mutex.\<close>

definition run_thread :: "lock_state \<Rightarrow> lock_thread \<Rightarrow> lock_state" where
  "run_thread s t = (case after_op t s of None \<Rightarrow> s | Some s' \<Rightarrow> s')"

lemma run_reaches: "reaches lock_step s0 s \<Longrightarrow> reaches lock_step s0 (foldl run_thread s ts)"
proof (induction ts arbitrary: s)
  case (Cons t ts)
  have "reaches lock_step s0 (run_thread s t)"
    using Cons.prems by (cases "after_op t s") (auto simp: run_thread_def intro: reaches.step lock_stepI)
  then show ?case using Cons.IH by simp
qed simp

text \<open>C12: Stopping while an injector waits for its source can block both threads for ever, for any stream with a format and
  however often the injector polls: \<^verbatim>\<open>Stop\<close> holds the mutex that the waiting injector must take again to leave its
  wait, and waits for the lock of the stream that the injector holds.\<close>

theorem Stop_deadlocks_injector:
  assumes "0 < polls" and "format \<noteq> GST_FORMAT_INVALID"
  shows "\<exists>s. reaches lock_step (locks_start polls format) s \<and> locks_stuck s"
proof -
  obtain k where k: "polls = Suc k" using assms(1) gr0_implies_Suc by blast
  let ?s = "foldl run_thread (locks_start polls format) [Injector, Injector, Injector, Stopper]"
  have "reaches lock_step (locks_start polls format) ?s" by (rule run_reaches [OF reaches.start])
  moreover have "locks_stuck ?s"
    using assms(2)
    by (auto simp: locks_stuck_def run_thread_def after_op_def locks_start_def SendHelper_locks_def wait_locks_def
        Stop_locks_def TearDownStream_locks_def k split: lock_thread.split)
  ultimately show ?thesis by blast
qed

theorem Stop_deadlocks_injector_witness: "\<exists>s. reaches lock_step (locks_start 11 GST_FORMAT_ISO_BMFF) s \<and> locks_stuck s"
  by (rule Stop_deadlocks_injector) simp_all

end
