(* ===== verification/Hls_Drm.thy ===== *)
theory Hls_Drm
  imports Drm_Pssh ClearKey_Session
begin

text \<open>
  Protection of HLS streams: the attribute list of a key tag (\<^verbatim>\<open>drm/processProtectionHls.cpp\<close>), the AES-128
  decryptor with its key thread (\<^verbatim>\<open>drm/aes/Aes.cpp\<close>) and the bridge to a DRM session
  (\<^verbatim>\<open>drm/HlsOcdmBridge.cpp\<close>). Parameters: \<open>get_key\<close> is the callback by which the application downloads a key, \<open>evp\<close> the
  decryption of OpenSSL, \<open>malloc_ok\<close> and \<open>uuid_unparse\<close> as in \<open>Drm_Helper\<close>.
\<close>

section \<open>Attribute lists\<close>

definition quote_char :: char where "quote_char = CHR 0x22"

text \<open>The value behind the equals sign, with and without quotes; \<^verbatim>\<open>at\<close> throws at the end of the string.\<close>

definition field_value :: "string \<Rightarrow> string res" where
  "field_value s =
     (case s of
        [] \<Rightarrow> Inl Thrown
      | c # t \<Rightarrow> Inr (if c = quote_char then takeWhile (\<lambda>x. x \<noteq> quote_char) t else takeWhile (\<lambda>x. x \<noteq> CHR '','') s))"

text \<open>\<open>found\<close> is the position where the search goes on; \<open>None\<close> is \<^verbatim>\<open>DRM_API_FAILED\<close>.\<close>

function GetFieldValue_from :: "nat \<Rightarrow> string \<Rightarrow> string \<Rightarrow> string option res" where
  "GetFieldValue_from found attrName keyName =
     (if length attrName < found then Inr None
      else case find_str keyName (drop found attrName) of
        None \<Rightarrow> Inr None
      | Some k \<Rightarrow>
          let valueStartPos = found + k + length keyName
          in if length attrName \<le> valueStartPos then Inl Thrown
             else if attrName ! valueStartPos = CHR ''=''
             then bindE (field_value (drop (valueStartPos + 1) attrName)) (\<lambda>v. Inr (Some v))
             else GetFieldValue_from (valueStartPos + 1) attrName keyName)"
  by pat_completeness auto
termination
  by (relation "measure (\<lambda>(found, attrName, _). length attrName + 1 - found)") auto

declare GetFieldValue_from.simps [simp del]

definition GetFieldValue :: "string \<Rightarrow> string \<Rightarrow> string option res" where
  "GetFieldValue attrName keyName = GetFieldValue_from 0 attrName keyName"

definition getPsshData :: "string \<Rightarrow> string option res" where
  "getPsshData attrName =
     bindE (GetFieldValue attrName ''URI'') (\<lambda>v. Inr (map_option
       (\<lambda>s. case find_str '','' s of None \<Rightarrow> s | Some i \<Rightarrow> drop (i + 1) s) v))"

definition getDrmHelper :: "factory list \<Rightarrow> string \<Rightarrow> bool \<Rightarrow> bool \<Rightarrow> helper option res" where
  "getDrmHelper factories attrName propagate clearSamples =
     bindE (GetFieldValue attrName ''KEYFORMAT'') (\<lambda>v.
       case v of
         None \<Rightarrow> Inr None
       | Some systemId \<Rightarrow>
           let systemId = (if find_str ''urn:uuid:'' systemId \<noteq> None then drop (length ''urn:uuid:'') systemId else systemId)
           in Inr (createHelper factories (DrmInfo\<lparr>mediaFormat := eMEDIAFORMAT_HLS_MP4, systemUUID := systemId,
                bPropagateUriParams := propagate, bDecryptClearSamplesRequired := clearSamples\<rparr>)))"

text \<open>The copy of the text that is zero filled to its length; it is the data of Verimatrix and is decoded for the others.\<close>

definition pssh_bytes :: "(nat \<Rightarrow> bool) \<Rightarrow> helper \<Rightarrow> string \<Rightarrow> byte list" where
  "pssh_bytes malloc_ok h s =
     (if h_class h = VerimatrixHelper then bytes_of (cstr s) @ replicate (length s - length (cstr s)) 0
      else case base64_Decode_cstr malloc_ok s of None \<Rightarrow> [] | Some d \<Rightarrow> d)"

definition ProcessContentProtection ::
  "factory list \<Rightarrow> (byte list \<Rightarrow> string) \<Rightarrow> (nat \<Rightarrow> bool) \<Rightarrow> string \<Rightarrow> bool \<Rightarrow> bool \<Rightarrow> helper option res" where
  "ProcessContentProtection factories uuid_unparse malloc_ok attrName propagate clearSamples =
     bindE (getDrmHelper factories attrName propagate clearSamples) (\<lambda>helper.
       case helper of
         None \<Rightarrow> Inr None
       | Some h \<Rightarrow> bindE (getPsshData attrName) (\<lambda>pssh.
           case pssh of
             None \<Rightarrow> Inr None
           | Some s \<Rightarrow>
               if \<not> malloc_ok (length s + 1) then Inl NullDeref
               else
                 let dat = pssh_bytes malloc_ok h s
                 in if dat = [] then Inr None
                    else bindE (parsePssh uuid_unparse malloc_ok dat h) (\<lambda>(ok, h). Inr (if ok then Some h else None))))"

section \<open>The AES decryptor\<close>

datatype drm_return = eDRM_SUCCESS | eDRM_ERROR | eDRM_KEY_ACQUISITION_TIMEOUT

datatype drm_state = eDRM_INITIALIZED | eDRM_ACQUIRING_KEY | eDRM_KEY_ACQUIRED | eDRM_KEY_FAILED | eDRM_KEY_FLUSH

text \<open>What the key thread does next: read the address of the key, wait for the download, or signal its result; the last step needs the mutex.\<close>

datatype key_thread = NoThread | Starting | Fetching string | Signalling bool int | Ended

datatype aes_event = DrmError int | ProfileUpdate bool nat | CurlInit | TerminateCurl int

text \<open>\<open>fetched_url\<close> is not in the code: the address whose key was asked for last.\<close>

record aes =
  mDrmState :: drm_state
  mPrevDrmState :: drm_state
  mDrmUrl :: string
  aes_info :: drm_info
  m_ptr :: "byte list option"
  mCurlInstance :: int
  key_thread :: key_thread
  licenseAcquisitionThreadStarted :: bool
  mAcquireKeyWaitTime :: int
  fetched_url :: string
  aes_events :: "aes_event list"

definition MAX_LICENSE_ACQ_WAIT_TIME :: int where "MAX_LICENSE_ACQ_WAIT_TIME = 12000"

definition AesDec :: "byte list option \<Rightarrow> aes" where
  "AesDec garbage = \<lparr>mDrmState = eDRM_INITIALIZED, mPrevDrmState = eDRM_INITIALIZED, mDrmUrl = [], aes_info = DrmInfo,
     m_ptr = garbage, mCurlInstance = - 1, key_thread = NoThread, licenseAcquisitionThreadStarted = False,
     mAcquireKeyWaitTime = MAX_LICENSE_ACQ_WAIT_TIME, fetched_url = [], aes_events = []\<rparr>"

definition aes_emit :: "aes_event \<Rightarrow> aes \<Rightarrow> aes" where
  "aes_emit e st = st\<lparr>aes_events := aes_events st @ [e]\<rparr>"

text \<open>The key thread: \<^verbatim>\<open>AcquireKey\<close> up to the download, the answer of the application, and the signal.\<close>

definition LA_TOTAL :: nat where "LA_TOTAL = 4"

definition AcquireKey_begin :: "aes \<Rightarrow> aes res" where
  "AcquireKey_begin st =
     (if key_thread st = Starting
      then bindE (ResolveURL [] (manifestURL (aes_info st)) (Some (keyURI (aes_info st))) (bPropagateUriParams (aes_info st)))
             (\<lambda>url. Inr (st\<lparr>key_thread := Fetching url, fetched_url := url\<rparr>))
      else Inr st)"

definition AcquireKey_answer :: "(string \<Rightarrow> bool \<times> int \<times> byte list option) \<Rightarrow> aes \<Rightarrow> aes" where
  "AcquireKey_answer get_key st =
     (case key_thread st of
        Fetching url \<Rightarrow> (case get_key url of (ok, reason, key) \<Rightarrow> st\<lparr>m_ptr := key, key_thread := Signalling ok reason\<rparr>)
      | _ \<Rightarrow> st)"

definition SignalKeyAcquired :: "aes \<Rightarrow> aes" where
  "SignalKeyAcquired st = aes_emit (ProfileUpdate True LA_TOTAL) (st\<lparr>mDrmState := eDRM_KEY_ACQUIRED\<rparr>)"

definition NotifyDRMError :: "int \<Rightarrow> aes \<Rightarrow> aes" where
  "NotifyDRMError reason st = (aes_emit (DrmError reason) st)\<lparr>mDrmState := eDRM_KEY_FAILED\<rparr>"

definition AcquireKey_signal :: "aes \<Rightarrow> aes" where
  "AcquireKey_signal st =
     (case key_thread st of
        Signalling ok reason \<Rightarrow> (if ok then SignalKeyAcquired st else NotifyDRMError reason st)\<lparr>key_thread := Ended\<rparr>
      | _ \<Rightarrow> st)"

text \<open>Waiting: \<open>others\<close> is what the other threads do while the mutex is free, with whether the wait timed out.\<close>

definition WaitForKeyAcquireComplete :: "(aes \<Rightarrow> bool \<times> aes) \<Rightarrow> drm_return \<Rightarrow> aes \<Rightarrow> drm_return \<times> aes" where
  "WaitForKeyAcquireComplete others err st =
     (let (timeout, st) = others st in (if timeout then eDRM_KEY_ACQUISITION_TIMEOUT else err, st))"

text \<open>Joining the key thread with the mutex held: unless the thread has ended it still needs the mutex, and the join
  never returns.\<close>

definition join_key_thread :: "aes \<Rightarrow> aes option" where
  "join_key_thread st =
     (if \<not> licenseAcquisitionThreadStarted st then Some st
      else if key_thread st = Ended then Some (st\<lparr>key_thread := NoThread, licenseAcquisitionThreadStarted := False\<rparr>)
      else None)"

definition SetDecryptInfo ::
  "(aes \<Rightarrow> bool \<times> aes) \<Rightarrow> bool \<Rightarrow> int \<Rightarrow> drm_info \<Rightarrow> int \<Rightarrow> aes \<Rightarrow> (drm_return \<times> aes) option" where
  "SetDecryptInfo others thread_ok curl drmInfo acquireKeyWaitTime st =
     (let st = st\<lparr>mAcquireKeyWaitTime := acquireKeyWaitTime\<rparr>;
          (err, st) = (if mDrmState st = eDRM_ACQUIRING_KEY then WaitForKeyAcquireComplete others eDRM_ERROR st else (eDRM_ERROR, st));
          st = st\<lparr>aes_info := DrmInfo_assign (aes_info st) drmInfo\<rparr>
      in if mDrmUrl st \<noteq> [] \<and> mDrmState st = eDRM_KEY_ACQUIRED \<and> keyURI drmInfo = mDrmUrl st then Some (eDRM_SUCCESS, st)
         else
           let st = aes_emit CurlInit (st\<lparr>mDrmUrl := keyURI drmInfo, mDrmState := eDRM_ACQUIRING_KEY,
                      mPrevDrmState := eDRM_INITIALIZED, mCurlInstance := curl\<rparr>)
           in map_option (\<lambda>st.
                if thread_ok then (eDRM_SUCCESS, st\<lparr>key_thread := Starting, licenseAcquisitionThreadStarted := True\<rparr>)
                else (err, st\<lparr>mDrmState := eDRM_KEY_FAILED, licenseAcquisitionThreadStarted := False\<rparr>))
              (join_key_thread st))"

text \<open>What OpenSSL makes of the data: the outcome and the bytes that it writes.\<close>

datatype evp_outcome = EvpInitFailed | EvpFailed "byte list" | EvpDone "byte list"

definition evp_bytes :: "evp_outcome \<Rightarrow> byte list" where
  "evp_bytes r = (case r of EvpInitFailed \<Rightarrow> [] | EvpFailed bs \<Rightarrow> bs | EvpDone bs \<Rightarrow> bs)"

definition AesDec_Decrypt ::
  "(byte list option \<Rightarrow> byte list \<Rightarrow> byte list \<Rightarrow> evp_outcome) \<Rightarrow> (nat \<Rightarrow> bool) \<Rightarrow> (aes \<Rightarrow> bool \<times> aes) \<Rightarrow> nat \<Rightarrow> byte list \<Rightarrow> aes
     \<Rightarrow> drm_return \<times> byte list \<times> aes" where
  "AesDec_Decrypt evp malloc_ok others bucket dat st =
     (let (err, st) = (if mDrmState st = eDRM_ACQUIRING_KEY then WaitForKeyAcquireComplete others eDRM_ERROR st else (eDRM_ERROR, st))
      in if mDrmState st = eDRM_KEY_ACQUIRED \<and> malloc_ok (length dat) then
           let r = evp (m_ptr st) (di_iv (aes_info st)) dat;
               st = aes_emit (ProfileUpdate True bucket) (aes_emit (ProfileUpdate False bucket) st)
           in (case r of EvpDone _ \<Rightarrow> eDRM_SUCCESS | _ \<Rightarrow> err, take (length dat) (evp_bytes r @ replicate (length dat) 0), st)
         else (err, dat, st))"

definition AesDec_Release :: "(aes \<Rightarrow> bool \<times> aes) \<Rightarrow> aes \<Rightarrow> aes option" where
  "AesDec_Release others st =
     (let st = (if (mDrmState st = eDRM_ACQUIRING_KEY \<or> mPrevDrmState st = eDRM_ACQUIRING_KEY) \<and> mDrmState st \<noteq> eDRM_KEY_FAILED
                then snd (WaitForKeyAcquireComplete others eDRM_ERROR st) else st)
      in map_option (\<lambda>st. if mCurlInstance st \<noteq> - 1 then (aes_emit (TerminateCurl (mCurlInstance st)) st)\<lparr>mCurlInstance := - 1\<rparr> else st)
           (join_key_thread st))"

definition CancelKeyWait :: "aes \<Rightarrow> aes" where
  "CancelKeyWait st =
     (if mDrmState st \<noteq> eDRM_KEY_FLUSH then st\<lparr>mPrevDrmState := mDrmState st\<rparr> else st)\<lparr>mDrmState := eDRM_KEY_FLUSH\<rparr>"

definition RestoreKeyState :: "aes \<Rightarrow> aes" where
  "RestoreKeyState st = (if mDrmState st = eDRM_KEY_FLUSH then st\<lparr>mDrmState := mPrevDrmState st\<rparr> else st)"

section \<open>The bridge to a DRM session\<close>

text \<open>The session is a parameter: its key state, and its decryption with the returned code.\<close>

record 's bridge =
  m_drmInfo :: "drm_info option"
  m_drmSession :: 's
  m_drmState :: drm_state

definition HlsOcdmBridge :: "'s \<Rightarrow> 's bridge" where
  "HlsOcdmBridge session = \<lparr>m_drmInfo = None, m_drmSession = session, m_drmState = eDRM_INITIALIZED\<rparr>"

definition bridge_SetDecryptInfo :: "('s \<Rightarrow> key_state) \<Rightarrow> drm_info \<Rightarrow> 's bridge \<Rightarrow> drm_return \<times> 's bridge" where
  "bridge_SetDecryptInfo session_state drmInfo b =
     (let b = b\<lparr>m_drmInfo := Some drmInfo\<rparr>
      in if session_state (m_drmSession b) = KEY_READY then (eDRM_SUCCESS, b\<lparr>m_drmState := eDRM_KEY_ACQUIRED\<rparr>) else (eDRM_ERROR, b))"

definition bridge_Decrypt ::
  "('s \<Rightarrow> byte list \<Rightarrow> byte list \<Rightarrow> int \<times> 's) \<Rightarrow> byte list \<Rightarrow> 's bridge \<Rightarrow> (drm_return \<times> 's bridge) res" where
  "bridge_Decrypt session_decrypt dat b =
     (if m_drmState b = eDRM_KEY_ACQUIRED then
        case m_drmInfo b of
          None \<Rightarrow> Inl NullDeref
        | Some info \<Rightarrow> let (retVal, session) = session_decrypt (m_drmSession b) (di_iv info) dat
                       in Inr (if retVal \<noteq> 0 then eDRM_ERROR else eDRM_SUCCESS, b\<lparr>m_drmSession := session\<rparr>)
      else Inr (eDRM_ERROR, b))"

text \<open>The bridge never reads the missing information of a stream: in any state reached by its own operations.\<close>

inductive bridge_step :: "('s \<Rightarrow> key_state) \<Rightarrow> ('s \<Rightarrow> byte list \<Rightarrow> byte list \<Rightarrow> int \<times> 's) \<Rightarrow> 's bridge \<Rightarrow> 's bridge \<Rightarrow> bool"
  for session_state session_decrypt where
  "bridge_step session_state session_decrypt b (snd (bridge_SetDecryptInfo session_state info b))"
| "bridge_Decrypt session_decrypt dat b = Inr (r, b') \<Longrightarrow> bridge_step session_state session_decrypt b b'"
| "bridge_step session_state session_decrypt b (b\<lparr>m_drmSession := s\<rparr>)"

interpretation hls_bridge: invariant_system "bridge_step session_state session_decrypt" "HlsOcdmBridge session"
    "\<lambda>b. m_drmState b = eDRM_KEY_ACQUIRED \<longrightarrow> m_drmInfo b \<noteq> None"
  for session_state session_decrypt session
proof
  show "m_drmState (HlsOcdmBridge session) = eDRM_KEY_ACQUIRED \<longrightarrow> m_drmInfo (HlsOcdmBridge session) \<noteq> None"
    by (simp add: HlsOcdmBridge_def)
next
  fix b b' :: "'a bridge"
  assume "m_drmState b = eDRM_KEY_ACQUIRED \<longrightarrow> m_drmInfo b \<noteq> None" "bridge_step session_state session_decrypt b b'"
  then show "m_drmState b' = eDRM_KEY_ACQUIRED \<longrightarrow> m_drmInfo b' \<noteq> None"
    by (elim bridge_step.cases) (auto simp: bridge_SetDecryptInfo_def bridge_Decrypt_def Let_def split_def split: if_splits option.splits)
qed

lemma bridge_never_null:
  "reaches (bridge_step session_state session_decrypt) (HlsOcdmBridge session) b \<Longrightarrow> bridge_Decrypt session_decrypt dat b \<noteq> Inl e"
  using hls_bridge.reachable_inv [of session_state session_decrypt session b]
  by (auto simp: bridge_Decrypt_def Let_def split_def split: option.split)

section \<open>The attributes are found\<close>

lemma takeWhile_value: "c \<notin> set v \<Longrightarrow> takeWhile (\<lambda>x. x \<noteq> c) (v @ c # rest) = v"
  by (induction v) auto

text \<open>The value between quotes behind the first occurrence of the key is found, whatever follows.\<close>

lemma GetFieldValue_first:
  assumes "find_str key (pre @ key @ ''='' @ quote_char # v @ quote_char # rest) = Some (length pre)" and "quote_char \<notin> set v"
  shows "GetFieldValue (pre @ key @ ''='' @ quote_char # v @ quote_char # rest) key = Inr (Some v)"
proof -
  have "drop (length pre + (length key + 1)) (pre @ key @ ''='' @ quote_char # v @ quote_char # rest)
      = quote_char # v @ quote_char # rest" by simp
  moreover have "(pre @ key @ ''='' @ quote_char # v @ quote_char # rest) ! (length pre + length key) = CHR ''=''"
    by (simp add: nth_append)
  ultimately show ?thesis
    using assms by (simp add: GetFieldValue_def GetFieldValue_from.simps [of 0] Let_def field_value_def takeWhile_value add.assoc)
qed

definition key_tag :: "string \<Rightarrow> string \<Rightarrow> string" where
  "key_tag format data = ''METHOD=SAMPLE-AES,KEYFORMAT='' @ [quote_char] @ ''urn:uuid:'' @ format @ [quote_char]
     @ '',URI='' @ [quote_char] @ ''data:text/plain;base64,'' @ data @ [quote_char] @ '',KEYFORMATVERSIONS='' @ [quote_char] @ ''1'' @ [quote_char]"

lemma find_str_append:
  assumes "\<And>k. k < length pre \<Longrightarrow> take (length pat) (drop k (pre @ rest)) \<noteq> pat" and "take (length pat) rest = pat"
  shows "find_str pat (pre @ rest) = Some (length pre)"
  using assms(1)
proof (induction pre)
  case Nil
  then show ?case using assms(2) by (cases rest) (auto split: if_splits)
next
  case (Cons c pre)
  have "take (length pat) (c # pre @ rest) \<noteq> pat" using Cons.prems [of 0] by simp
  moreover have "find_str pat (pre @ rest) = Some (length pre)"
    using Cons.prems [of "Suc k" for k] by (intro Cons.IH) auto
  ultimately show ?case by simp
qed

lemma key_tag_format:
  assumes "quote_char \<notin> set format"
  shows "GetFieldValue (key_tag format data) ''KEYFORMAT'' = Inr (Some (''urn:uuid:'' @ format))"
  unfolding key_tag_def
  using GetFieldValue_first [of "''KEYFORMAT''" "''METHOD=SAMPLE-AES,''" "''urn:uuid:'' @ format"] assms
  by (simp add: quote_char_def)

lemma key_tag_uri:
  assumes "quote_char \<notin> set data"
  shows "getPsshData (key_tag WIDEVINE_UUID data) = Inr (Some data)"
proof -
  have "GetFieldValue (key_tag WIDEVINE_UUID data) ''URI'' = Inr (Some (''data:text/plain;base64,'' @ data))"
    unfolding key_tag_def WIDEVINE_UUID_def
    using GetFieldValue_first [of "''URI''"
        "''METHOD=SAMPLE-AES,KEYFORMAT='' @ [quote_char] @ ''urn:uuid:'' @ ''edef8ba9-79d6-4ace-a3c8-27dcd51d21ed'' @ [quote_char] @ '',''"
        "''data:text/plain;base64,'' @ data"] assms
    by (simp add: quote_char_def)
  then show ?thesis by (simp add: getPsshData_def)
qed

lemma base64_Encode_chars:
  assumes "base64_Encode malloc_ok src = Some b64" and "c \<in> set b64"
  shows "c \<in> set base64_alphabet \<or> c = CHR ''=''"
proof -
  obtain k where "b64 = base64_unpadded src @ replicate k (CHR ''='')"
    using assms(1) base64_encode_loop_unpadded [of src] by (metis base64_Encode_def option.distinct(1) option.inject)
  then show ?thesis using assms(2) base64_unpadded_chars by auto
qed

lemma quote_not_base64: "quote_char \<notin> set base64_alphabet"
  by (auto simp: base64_alphabet_def quote_char_def)

definition hls_info :: "bool \<Rightarrow> bool \<Rightarrow> drm_info" where
  "hls_info propagate clearSamples = DrmInfo\<lparr>mediaFormat := eMEDIAFORMAT_HLS_MP4, systemUUID := WIDEVINE_UUID,
     bPropagateUriParams := propagate, bDecryptClearSamplesRequired := clearSamples\<rparr>"

lemma isDRM_hls: "isDRM c (hls_info p s) \<longleftrightarrow> c = WidevineDrmHelper"
  by (cases c) (simp_all add: isDRM_def hls_info_def DrmInfo_def WIDEVINE_UUID_def PLAYREADY_UUID_def PLAYREADY_OCDM_ID_def
      VERIMATRIX_UUID_def VERIMATRIX_OCDM_ID_def)

lemma createHelper_hls:
  "WidevineDrmHelper \<in> f_class ` set factories \<Longrightarrow> createHelper factories (hls_info p s) = Some (new_helper WidevineDrmHelper (hls_info p s))"
proof (induction factories)
  case (Cons f fs)
  then show ?case by (cases "f_class f = WidevineDrmHelper") (auto simp: createHelper_def isDRM_hls)
qed simp

text \<open>C6: A key tag of an HLS playlist that carries a Widevine box in base64 gives a Widevine helper with the key ids of the box,
  in order, whatever helpers are registered beside the one of Widevine.\<close>

theorem key_tag_widevine:
  assumes "WidevineDrmHelper \<in> f_class ` set factories" and "\<And>n. malloc_ok n"
    and "\<forall>f \<in> set fs. wv_field_ok f" and "wv_ids fs \<noteq> []"
    and box: "box = wv_box 0 (u32_be datasize @ concat (map wv_field_bytes fs))"
    and enc: "base64_Encode malloc_ok box = Some b64"
  shows "\<exists>h. ProcessContentProtection factories uuid_unparse malloc_ok (key_tag WIDEVINE_UUID b64) propagate clearSamples = Inr (Some h)
     \<and> h_class h = WidevineDrmHelper \<and> mKeyIDs h = wv_ids fs \<and> mInitData h = box \<and> mDrmInfo h = hls_info propagate clearSamples"
proof -
  let ?h = "new_helper WidevineDrmHelper (hls_info propagate clearSamples)"
  have chars: "quote_char \<notin> set b64" "CHR 0x00 \<notin> set b64"
    using base64_Encode_chars [OF enc] quote_not_base64 base64_alphabet_clean by (fastforce simp: quote_char_def)+
  have "quote_char \<notin> set WIDEVINE_UUID" by (simp add: WIDEVINE_UUID_def quote_char_def)
  then have "getDrmHelper factories (key_tag WIDEVINE_UUID b64) propagate clearSamples = Inr (Some ?h)"
    using createHelper_hls [OF assms(1)] by (simp add: getDrmHelper_def key_tag_format hls_info_def)
  moreover have "base64_Decode_cstr malloc_ok b64 = Some box"
    using base64_Decode_Encode [OF enc assms(2)] by (simp add: base64_Decode_cstr_def cstr_clean [OF chars(2)])
  moreover have "box \<noteq> []" by (simp add: box wv_box_def)
  moreover have "Widevine_parsePssh box ?h = Inr (True,
      ?h\<lparr>mInitData := box, mKeyIDs := wv_ids fs, protectionScheme := wv_scheme (protectionScheme ?h) fs\<rparr>)"
    using widevine_v0_parse [OF assms(3) _ box] assms(4) by (simp add: new_helper_def)
  ultimately show ?thesis
    using assms(2) key_tag_uri [OF chars(1)]
    by (simp add: ProcessContentProtection_def pssh_bytes_def parsePssh_def) (simp add: new_helper_def)
qed

theorem key_tag_widevine_witness:
  "\<exists>b64 h. ProcessContentProtection [helper_factory WidevineDrmHelper] (\<lambda>_. []) (\<lambda>_. True)
     (key_tag WIDEVINE_UUID b64) True True = Inr (Some h) \<and> mKeyIDs h = [replicate 16 7]"
proof -
  let ?fs = "[WvNumber 8 1, WvKeyId (replicate 16 7)]"
  let ?box = "wv_box 0 (u32_be 0 @ concat (map wv_field_bytes ?fs))"
  obtain b64 where "base64_Encode (\<lambda>_. True) ?box = Some b64" by (simp add: base64_Encode_def)
  moreover have "WidevineDrmHelper \<in> f_class ` set [helper_factory WidevineDrmHelper]" by (simp add: helper_factory_def)
  moreover have "\<forall>f \<in> set ?fs. wv_field_ok f" by simp
  moreover have "wv_ids ?fs = [replicate 16 7]" by (simp add: wv_ids_def List.map_filter_def)
  ultimately show ?thesis
    using key_tag_widevine [of "[helper_factory WidevineDrmHelper]" "\<lambda>_. True" ?fs ?box 0 b64 "\<lambda>_. []" True True]
    by (metis list.discI)
qed

end
