(* ===== verification/Aes_Machine.thy ===== *)
theory Aes_Machine
  imports Hls_Drm
begin

text \<open>
  The AES decryptor as a machine: its calls, the steps of its key thread, and what the other threads may do while a
  call waits. The invariant ties the key to the address it was fetched from; the properties are about the key that
  decrypts, the threads that join, and the key that is kept.
\<close>

section \<open>Steps\<close>

text \<open>What can happen while a call waits with the mutex free: the key thread, cancelling and restoring.\<close>

inductive aes_background :: "(string \<Rightarrow> bool \<times> int \<times> byte list option) \<Rightarrow> aes \<Rightarrow> aes \<Rightarrow> bool" for get_key where
  request: "AcquireKey_begin st = Inr st' \<Longrightarrow> aes_background get_key st st'"
| answer: "aes_background get_key st (AcquireKey_answer get_key st)"
| signal: "aes_background get_key st (AcquireKey_signal st)"
| cancel: "aes_background get_key st (CancelKeyWait st)"
| restore: "aes_background get_key st (RestoreKeyState st)"

definition fair_wait :: "(string \<Rightarrow> bool \<times> int \<times> byte list option) \<Rightarrow> (aes \<Rightarrow> bool \<times> aes) \<Rightarrow> bool" where
  "fair_wait get_key others \<longleftrightarrow> (\<forall>st. reaches (aes_background get_key) st (snd (others st)))"

inductive aes_step :: "(string \<Rightarrow> bool \<times> int \<times> byte list option) \<Rightarrow> aes \<Rightarrow> aes \<Rightarrow> bool" for get_key where
  background: "aes_background get_key st st' \<Longrightarrow> aes_step get_key st st'"
| set_info: "SetDecryptInfo others ok curl info wait st = Some (r, st') \<Longrightarrow> fair_wait get_key others \<Longrightarrow> aes_step get_key st st'"
| decrypt: "AesDec_Decrypt evp malloc_ok others bucket dat st = (r, out, st') \<Longrightarrow> fair_wait get_key others \<Longrightarrow> aes_step get_key st st'"
| release: "AesDec_Release others st = Some st' \<Longrightarrow> fair_wait get_key others \<Longrightarrow> aes_step get_key st st'"

section \<open>The invariant\<close>

definition fetched_key :: "(string \<Rightarrow> bool \<times> int \<times> byte list option) \<Rightarrow> string \<Rightarrow> byte list option \<Rightarrow> bool" where
  "fetched_key get_key url key \<longleftrightarrow> (\<exists>reason. get_key url = (True, reason, key))"

definition acquired :: "aes \<Rightarrow> bool" where
  "acquired st \<longleftrightarrow> mDrmState st = eDRM_KEY_ACQUIRED \<or> (mDrmState st = eDRM_KEY_FLUSH \<and> mPrevDrmState st = eDRM_KEY_ACQUIRED)"

definition acquiring :: "aes \<Rightarrow> bool" where
  "acquiring st \<longleftrightarrow> mDrmState st = eDRM_ACQUIRING_KEY \<or> (mDrmState st = eDRM_KEY_FLUSH \<and> mPrevDrmState st = eDRM_ACQUIRING_KEY)"

definition thread_alive :: "aes \<Rightarrow> bool" where
  "thread_alive st \<longleftrightarrow> key_thread st \<notin> {NoThread, Ended}"

definition aes_inv :: "(string \<Rightarrow> bool \<times> int \<times> byte list option) \<Rightarrow> aes \<Rightarrow> bool" where
  "aes_inv get_key st \<longleftrightarrow>
     (acquired st \<longrightarrow> \<not> thread_alive st \<and> fetched_key get_key (fetched_url st) (m_ptr st))
     \<and> (acquiring st \<longleftrightarrow> thread_alive st)
     \<and> (licenseAcquisitionThreadStarted st \<longleftrightarrow> key_thread st \<noteq> NoThread)
     \<and> (\<forall>reason. key_thread st = Signalling True reason \<longrightarrow> fetched_key get_key (fetched_url st) (m_ptr st))
     \<and> (\<forall>url. key_thread st = Fetching url \<longrightarrow> fetched_url st = url)
     \<and> mPrevDrmState st \<noteq> eDRM_KEY_FLUSH"

lemmas aes_defs = aes_inv_def acquired_def acquiring_def thread_alive_def fetched_key_def aes_emit_def

lemma aes_new: "aes_inv get_key (AesDec garbage)"
  by (simp add: aes_defs AesDec_def)

lemma aes_background_inv: "aes_background get_key st st' \<Longrightarrow> aes_inv get_key st \<Longrightarrow> aes_inv get_key st'"
proof (induction rule: aes_background.induct)
  case (request st st')
  then show ?case by (auto simp: AcquireKey_begin_def aes_defs bindE_eq_Inr split: if_splits)
next
  case (answer st)
  then show ?case by (auto simp: AcquireKey_answer_def aes_defs split: key_thread.split prod.split)
next
  case (signal st)
  then show ?case
    by (cases "key_thread st") (auto simp: AcquireKey_signal_def SignalKeyAcquired_def NotifyDRMError_def aes_defs)
next
  case (cancel st)
  then show ?case by (auto simp: CancelKeyWait_def aes_defs)
next
  case (restore st)
  then show ?case by (auto simp: RestoreKeyState_def aes_defs)
qed

lemma aes_wait_inv: "fair_wait get_key others \<Longrightarrow> aes_inv get_key st \<Longrightarrow> aes_inv get_key (snd (others st))"
proof -
  assume fair: "fair_wait get_key others" and st: "aes_inv get_key st"
  have "reaches (aes_background get_key) st t \<Longrightarrow> aes_inv get_key t" for t
    by (induction rule: reaches.induct) (auto intro: st aes_background_inv)
  with fair show ?thesis by (simp add: fair_wait_def)
qed

section \<open>Every call keeps the invariant\<close>

definition after_wait :: "(aes \<Rightarrow> bool \<times> aes) \<Rightarrow> aes \<Rightarrow> aes" where
  "after_wait others st = (if mDrmState st = eDRM_ACQUIRING_KEY then snd (others st) else st)"

lemma after_wait_inv: "fair_wait get_key others \<Longrightarrow> aes_inv get_key st \<Longrightarrow> aes_inv get_key (after_wait others st)"
  by (simp add: after_wait_def aes_wait_inv)

lemma wait_result: "snd (WaitForKeyAcquireComplete others err st) = snd (others st)"
  by (simp add: WaitForKeyAcquireComplete_def split_def Let_def)

lemma aes_inv_fields [simp]:
  "aes_inv get_key (st\<lparr>mAcquireKeyWaitTime := x\<rparr>) = aes_inv get_key st" "aes_inv get_key (st\<lparr>aes_info := i\<rparr>) = aes_inv get_key st"
  "aes_inv get_key (st\<lparr>mCurlInstance := c\<rparr>) = aes_inv get_key st" "aes_inv get_key (st\<lparr>mDrmUrl := u\<rparr>) = aes_inv get_key st"
  "aes_inv get_key (aes_emit e st) = aes_inv get_key st"
  by (simp_all add: aes_defs)

lemma join_inv: "join_key_thread st = Some st' \<Longrightarrow> aes_inv get_key st \<Longrightarrow> aes_inv get_key st' \<and> key_thread st' = NoThread"
  by (auto simp: join_key_thread_def aes_defs split: if_splits)

lemma wait_pair:
  "\<exists>e. (if mDrmState st = eDRM_ACQUIRING_KEY then WaitForKeyAcquireComplete others err st else (err, st)) = (e, after_wait others st)"
  by (simp add: after_wait_def WaitForKeyAcquireComplete_def split_def Let_def)

lemma SetDecryptInfo_cases:
  assumes "SetDecryptInfo others ok curl info wait st = Some (r, st')"
  obtains (same) "mDrmUrl (after_wait others (st\<lparr>mAcquireKeyWaitTime := wait\<rparr>)) = keyURI info"
      "mDrmState (after_wait others (st\<lparr>mAcquireKeyWaitTime := wait\<rparr>)) = eDRM_KEY_ACQUIRED" "r = eDRM_SUCCESS"
      "st' = after_wait others (st\<lparr>mAcquireKeyWaitTime := wait\<rparr>)
        \<lparr>aes_info := DrmInfo_assign (aes_info (after_wait others (st\<lparr>mAcquireKeyWaitTime := wait\<rparr>))) info\<rparr>"
    | (fetch) j where "join_key_thread (aes_emit CurlInit (after_wait others (st\<lparr>mAcquireKeyWaitTime := wait\<rparr>)
        \<lparr>aes_info := DrmInfo_assign (aes_info (after_wait others (st\<lparr>mAcquireKeyWaitTime := wait\<rparr>))) info, mDrmUrl := keyURI info,
          mDrmState := eDRM_ACQUIRING_KEY, mPrevDrmState := eDRM_INITIALIZED, mCurlInstance := curl\<rparr>)) = Some j"
      "st' = (if ok then j\<lparr>key_thread := Starting, licenseAcquisitionThreadStarted := True\<rparr>
              else j\<lparr>mDrmState := eDRM_KEY_FAILED, licenseAcquisitionThreadStarted := False\<rparr>)"
proof -
  let ?s = "st\<lparr>mAcquireKeyWaitTime := wait\<rparr>"
  obtain e where e: "(if mDrmState ?s = eDRM_ACQUIRING_KEY then WaitForKeyAcquireComplete others eDRM_ERROR ?s else (eDRM_ERROR, ?s))
      = (e, after_wait others ?s)" using wait_pair by blast
  from assms show ?thesis
    unfolding SetDecryptInfo_def Let_def e
    by (auto split: if_splits intro: same fetch)
qed

lemma SetDecryptInfo_inv:
  assumes "SetDecryptInfo others ok curl info wait st = Some (r, st')" and "fair_wait get_key others" and "aes_inv get_key st"
  shows "aes_inv get_key st'"
  using assms(1)
proof (cases rule: SetDecryptInfo_cases)
  case same
  then show ?thesis using after_wait_inv [OF assms(2)] assms(3) by simp
next
  case (fetch j)
  have "aes_inv get_key (after_wait others (st\<lparr>mAcquireKeyWaitTime := wait\<rparr>))"
    using after_wait_inv [OF assms(2)] assms(3) by simp
  then have "licenseAcquisitionThreadStarted j \<longleftrightarrow> key_thread j \<noteq> NoThread" "key_thread j = NoThread" "mPrevDrmState j = eDRM_INITIALIZED"
    "mDrmState j = eDRM_ACQUIRING_KEY"
    using fetch(1) by (auto simp: join_key_thread_def aes_defs split: if_splits)
  then show ?thesis using fetch(2) by (simp add: aes_defs)
qed

lemma AesDec_Decrypt_state:
  "\<exists>evs. snd (snd (AesDec_Decrypt evp malloc_ok others bucket dat st)) = after_wait others st\<lparr>aes_events := evs\<rparr>"
  by (auto simp: AesDec_Decrypt_def after_wait_def WaitForKeyAcquireComplete_def split_def Let_def aes_emit_def
      intro: exI [of _ "aes_events st"] exI [of _ "aes_events (snd (others st))"])

lemma AesDec_Release_inv:
  assumes "AesDec_Release others st = Some st'" and "fair_wait get_key others" and "aes_inv get_key st"
  shows "aes_inv get_key st'"
proof -
  have "aes_inv get_key (if (mDrmState st = eDRM_ACQUIRING_KEY \<or> mPrevDrmState st = eDRM_ACQUIRING_KEY) \<and> mDrmState st \<noteq> eDRM_KEY_FAILED
                then snd (WaitForKeyAcquireComplete others eDRM_ERROR st) else st)"
    using aes_wait_inv [OF assms(2,3)] assms(3) by (simp add: wait_result)
  then show ?thesis
    using assms(1) join_inv by (auto simp: AesDec_Release_def Let_def split: if_splits)
qed

lemma aes_step_inv: "aes_inv get_key st \<Longrightarrow> aes_step get_key st st' \<Longrightarrow> aes_inv get_key st'"
proof (erule aes_step.cases)
  fix evp malloc_ok others bucket dat t r out t'
  assume *: "aes_inv get_key st" "st = t" "st' = t'" "AesDec_Decrypt evp malloc_ok others bucket dat t = (r, out, t')" "fair_wait get_key others"
  then obtain evs where "t' = after_wait others t\<lparr>aes_events := evs\<rparr>"
    using AesDec_Decrypt_state [of evp malloc_ok others bucket dat t] by auto
  then show "aes_inv get_key st'" using after_wait_inv [OF *(5)] * by (simp add: aes_defs)
qed (auto intro: aes_background_inv SetDecryptInfo_inv AesDec_Release_inv)

interpretation aes_machine: invariant_system "aes_step get_key" "AesDec garbage" "aes_inv get_key"
  for get_key garbage
  by unfold_locales (auto intro: aes_new aes_step_inv)

section \<open>Properties\<close>


text \<open>A download that always succeeds, a key tag, and the run that fetches its key.\<close>

definition demo_key :: "byte list" where "demo_key = replicate 16 5"

definition demo_get_key :: "string \<Rightarrow> bool \<times> int \<times> byte list option" where
  "demo_get_key url = (if url = ''http://h/a/k'' then (True, 0, Some demo_key) else (False, 1, None))"

definition demo_key_info :: drm_info where
  "demo_key_info = DrmInfo\<lparr>di_method := eMETHOD_AES_128, keyURI := ''k'', manifestURL := ''http://h/a/p''\<rparr>"

definition no_wait :: "aes \<Rightarrow> bool \<times> aes" where "no_wait st = (True, st)"

definition demo_requested :: aes where
  "demo_requested = snd (the (SetDecryptInfo no_wait True 3 demo_key_info 100 (AesDec None)))"

definition demo_fetching :: aes where
  "demo_fetching = (case AcquireKey_begin demo_requested of Inr st \<Rightarrow> st | Inl _ \<Rightarrow> demo_requested)"

definition demo_acquired :: aes where
  "demo_acquired = AcquireKey_signal (AcquireKey_answer demo_get_key demo_fetching)"

lemma fair_no_wait: "fair_wait get_key no_wait"
  by (simp add: fair_wait_def no_wait_def reaches.start)

lemma demo_request: "SetDecryptInfo no_wait True 3 demo_key_info 100 (AesDec None) = Some (eDRM_SUCCESS, demo_requested)"
  by (simp add: demo_requested_def SetDecryptInfo_def AesDec_def join_key_thread_def aes_emit_def)

lemma demo_requested_fields:
  "key_thread demo_requested = Starting" "manifestURL (aes_info demo_requested) = ''http://h/a/p''" "keyURI (aes_info demo_requested) = ''k''"
  "mDrmState demo_requested = eDRM_ACQUIRING_KEY" "licenseAcquisitionThreadStarted demo_requested" "mDrmUrl demo_requested = ''k''"
  "bPropagateUriParams (aes_info demo_requested)"
  by (simp_all add: demo_requested_def SetDecryptInfo_def AesDec_def join_key_thread_def aes_emit_def demo_key_info_def
      DrmInfo_assign_def DrmInfo_def)

lemma demo_url: "ResolveURL [] ''http://h/a/p'' (Some ''k'') True = Inr ''http://h/a/k''"
  by code_simp

lemma demo_begin: "AcquireKey_begin demo_requested = Inr demo_fetching"
  by (simp add: demo_fetching_def AcquireKey_begin_def demo_requested_fields demo_url)

lemma demo_fetching_fields:
  "key_thread demo_fetching = Fetching ''http://h/a/k''" "fetched_url demo_fetching = ''http://h/a/k''"
  "aes_info demo_fetching = aes_info demo_requested" "mDrmUrl demo_fetching = ''k''"
  by (simp_all add: demo_fetching_def AcquireKey_begin_def demo_requested_fields demo_url)

lemma demo_reached:
  "reaches (aes_step demo_get_key) (AesDec None) demo_requested"
  "reaches (aes_step demo_get_key) (AesDec None) demo_acquired"
proof -
  show r: "reaches (aes_step demo_get_key) (AesDec None) demo_requested"
    by (rule reaches.step, rule reaches.start, rule aes_step.set_info [OF demo_request fair_no_wait])
  have f: "reaches (aes_step demo_get_key) (AesDec None) demo_fetching"
    by (rule reaches.step [where step = "aes_step demo_get_key", OF r]) (rule aes_step.background, rule aes_background.request [OF demo_begin])
  have g: "reaches (aes_step demo_get_key) (AesDec None) (AcquireKey_answer demo_get_key demo_fetching)"
    by (rule reaches.step [where step = "aes_step demo_get_key", OF f]) (rule aes_step.background, rule aes_background.answer)
  show "reaches (aes_step demo_get_key) (AesDec None) demo_acquired"
    unfolding demo_acquired_def
    by (rule reaches.step [where step = "aes_step demo_get_key", OF g]) (rule aes_step.background, rule aes_background.signal)
qed

lemma demo_acquired_fields:
  "mDrmState demo_acquired = eDRM_KEY_ACQUIRED" "fetched_url demo_acquired = ''http://h/a/k''" "mDrmUrl demo_acquired = ''k''"
  "m_ptr demo_acquired = Some demo_key"
  by (simp_all add: demo_acquired_def AcquireKey_answer_def AcquireKey_signal_def demo_fetching_fields demo_get_key_def
      SignalKeyAcquired_def aes_emit_def)



text \<open>C26: \<^verbatim>\<open>SetDecryptInfo\<close> returns exactly when the key thread of the previous key has ended by the end of its wait: it joins
  the thread while it holds the mutex that the thread needs to end, so a wait that times out before the download does
  blocks both for ever.\<close>

theorem SetDecryptInfo_blocks_iff:
  assumes "reaches (aes_step get_key) (AesDec garbage) st" and "fair_wait get_key others"
  shows "SetDecryptInfo others ok curl info wait st = None
     \<longleftrightarrow> thread_alive (after_wait others (st\<lparr>mAcquireKeyWaitTime := wait\<rparr>))"
proof -
  let ?s = "after_wait others (st\<lparr>mAcquireKeyWaitTime := wait\<rparr>)"
  have inv: "aes_inv get_key ?s" using after_wait_inv [OF assms(2)] aes_machine.reachable_inv [OF assms(1)] by simp
  obtain e where e: "(if mDrmState (st\<lparr>mAcquireKeyWaitTime := wait\<rparr>) = eDRM_ACQUIRING_KEY
       then WaitForKeyAcquireComplete others eDRM_ERROR (st\<lparr>mAcquireKeyWaitTime := wait\<rparr>)
       else (eDRM_ERROR, st\<lparr>mAcquireKeyWaitTime := wait\<rparr>)) = (e, ?s)" using wait_pair by blast
  show ?thesis
    using inv unfolding SetDecryptInfo_def Let_def e by (auto simp: aes_defs join_key_thread_def split: if_splits)
qed

theorem SetDecryptInfo_blocks_iff_witness: "SetDecryptInfo no_wait True 3 demo_key_info 100 demo_requested = None"
  using SetDecryptInfo_blocks_iff [OF demo_reached(1) fair_no_wait, of True 3 demo_key_info 100]
  by (simp add: after_wait_def no_wait_def thread_alive_def demo_requested_fields)

text \<open>The key is kept when the address in the new tag is the same text: a relative address in the playlist of another
  directory, which names another key, is not fetched.\<close>

theorem relative_key_not_refetched:
  assumes "mDrmState st = eDRM_KEY_ACQUIRED" and "mDrmUrl st \<noteq> []" and "keyURI info = mDrmUrl st"
  shows "\<exists>st'. SetDecryptInfo others ok curl info wait st = Some (eDRM_SUCCESS, st') \<and> m_ptr st' = m_ptr st
     \<and> fetched_url st' = fetched_url st \<and> key_thread st' = key_thread st \<and> manifestURL (aes_info st') = manifestURL info"
  using assms by (simp add: SetDecryptInfo_def DrmInfo_assign_def)

theorem relative_key_not_refetched_witness:
  "\<exists>st'. SetDecryptInfo no_wait True 3 (demo_key_info\<lparr>manifestURL := ''http://h/b/p''\<rparr>) 100 demo_acquired = Some (eDRM_SUCCESS, st')
     \<and> fetched_url st' = ''http://h/a/k'' \<and> manifestURL (aes_info st') = ''http://h/b/p''"
  using relative_key_not_refetched [of demo_acquired "demo_key_info\<lparr>manifestURL := ''http://h/b/p''\<rparr>" no_wait True 3 100]
  by (auto simp: demo_acquired_fields demo_key_info_def)

end
