(* ===== verification/Sei_Timecode.thy ===== *)
theory Sei_Timecode
  imports Player_Prelude
begin

text \<open>
  The time codes that the OpenCDM adapter takes out of the video before it decrypts it (\<^verbatim>\<open>ExtractSEI\<close> and the bit
  reader of \<^verbatim>\<open>drm/ocdm/OcdmGstSessionAdapter.cpp\<close>), and the statistics of decryption. A time code is hours, minutes,
  seconds and frames. The reader has no bound of its own: reading behind the buffer is the fault \<open>OutOfBounds\<close>.
\<close>

section \<open>Reading bits\<close>

definition bit_at :: "mem \<Rightarrow> nat \<Rightarrow> bool" where
  "bit_at m k = (m ! (k div 8) AND drop_bit (k mod 8) 0x80 \<noteq> 0)"

text \<open>\<^verbatim>\<open>BitStreamState::Read\<close>: the bits and the new offset.\<close>

fun sei_read_bits :: "mem \<Rightarrow> nat \<Rightarrow> nat \<Rightarrow> nat \<Rightarrow> (nat \<times> nat) res" where
  "sei_read_bits m off 0 rc = Inr (rc, off)"
| "sei_read_bits m off (Suc n) rc =
     (if length m \<le> off div 8 then Inl OutOfBounds else sei_read_bits m (off + 1) n (2 * rc + of_bool (bit_at m off)))"

definition sei_read :: "mem \<Rightarrow> nat \<Rightarrow> nat \<Rightarrow> (nat \<times> nat) res" where
  "sei_read m n off = sei_read_bits m off n 0"

section \<open>The time code\<close>

type_synonym time_code = "nat \<times> nat \<times> nat \<times> nat"

text \<open>The optional parts: seconds, then minutes, then hours, each behind its flag.\<close>

definition sei_optional :: "mem \<Rightarrow> nat \<Rightarrow> (nat \<times> nat \<times> nat) res" where
  "sei_optional m off =
     bindE (sei_read m 1 off) (\<lambda>(seconds_flag, off).
     if seconds_flag = 0 then Inr (0, 0, 0)
     else bindE (sei_read m 6 off) (\<lambda>(secs, off). bindE (sei_read m 1 off) (\<lambda>(minutes_flag, off).
       if minutes_flag = 0 then Inr (0, 0, secs)
       else bindE (sei_read m 6 off) (\<lambda>(mins, off). bindE (sei_read m 1 off) (\<lambda>(hours_flag, off).
         if hours_flag = 0 then Inr (0, mins, secs)
         else bindE (sei_read m 5 off) (\<lambda>(hours, off). Inr (hours, mins, secs)))))))"

definition sei_full :: "mem \<Rightarrow> nat \<Rightarrow> (nat \<times> nat \<times> nat) res" where
  "sei_full m off =
     bindE (sei_read m 6 off) (\<lambda>(secs, off). bindE (sei_read m 6 off) (\<lambda>(mins, off).
     bindE (sei_read m 5 off) (\<lambda>(hours, off). Inr (hours, mins, secs))))"

text \<open>The first clock time stamp that is present among the next \<open>num\<close> ones.\<close>

fun sei_clock :: "nat \<Rightarrow> mem \<Rightarrow> nat \<Rightarrow> time_code option res" where
  "sei_clock 0 m off = Inr None"
| "sei_clock (Suc num) m off =
     bindE (sei_read m 1 off) (\<lambda>(clock_time_stamp_flag, off).
     if clock_time_stamp_flag = 0 then sei_clock num m off
     else bindE (sei_read m 6 off) (\<lambda>(_, off). bindE (sei_read m 1 off) (\<lambda>(full_timestamp_flag, off).
       bindE (sei_read m 2 off) (\<lambda>(_, off). bindE (sei_read m 9 off) (\<lambda>(n_frames, off).
       bindE (if full_timestamp_flag \<noteq> 0 then sei_full m off else sei_optional m off)
         (\<lambda>(hours, mins, secs). Inr (Some (hours, mins, secs, n_frames))))))))"

text \<open>The unit behind a start code: its type, the layer and the temporal id, the type of its payload, its size and the number of stamps.\<close>

definition sei_unit :: "mem \<Rightarrow> time_code option res" where
  "sei_unit m =
     bindE (sei_read m 1 0) (\<lambda>(_, off). bindE (sei_read m 6 off) (\<lambda>(NALUnitType, off).
     if NALUnitType \<noteq> 39 then Inr None
     else bindE (sei_read m 6 off) (\<lambda>(_, off). bindE (sei_read m 3 off) (\<lambda>(_, off). bindE (sei_read m 8 off) (\<lambda>(payload_type, off).
       if payload_type \<noteq> 136 then Inr None
       else bindE (sei_read m 8 off) (\<lambda>(_, off). bindE (sei_read m 2 off) (\<lambda>(num_clock_ts, off). sei_clock num_clock_ts m off)))))))"

definition sei_start :: "byte list" where "sei_start = [0, 0, 0, 0x0b]"

text \<open>The scan of the first 2048 bytes, \<open>n\<close> positions from the start of \<open>m\<close>; the bytes behind the limit can still be read.\<close>

fun sei_scan :: "nat \<Rightarrow> mem \<Rightarrow> time_code list res" where
  "sei_scan 0 m = Inr []"
| "sei_scan (Suc n) m =
     (if length m < 4 then Inl OutOfBounds
      else bindE (if take 4 m = sei_start then sei_unit (drop 4 m) else Inr None)
             (\<lambda>tc. bindE (sei_scan n (tl m)) (\<lambda>tcs. Inr ((case tc of None \<Rightarrow> [] | Some c \<Rightarrow> [c]) @ tcs))))"

text \<open>The number of positions is an unsigned difference: with less than four bytes it wraps around.\<close>

definition ExtractSEI :: "mem option \<Rightarrow> time_code list res" where
  "ExtractSEI buffer =
     (case buffer of
        None \<Rightarrow> Inl Undefined
      | Some m \<Rightarrow> let len = min (length m) 2048
                  in if len < 4 then Inl OutOfBounds else sei_scan (len - 4) m)"

section \<open>Statistics\<close>

text \<open>One slot for each thread; thread zero stands for an empty slot.\<close>

record decrypt_stats =
  nBytesInterval :: u64
  nTimeInterval :: u64
  nBytesTotal :: u64
  nTimeTotal :: u64
  nCallsTotal :: u64
  threadID :: nat

definition no_stats :: decrypt_stats where
  "no_stats = \<lparr>nBytesInterval = 0, nTimeInterval = 0, nBytesTotal = 0, nTimeTotal = 0, nCallsTotal = 0, threadID = 0\<rparr>"

definition MAX_THREADS :: nat where "MAX_THREADS = 10"
definition INTERVAL :: u64 where "INTERVAL = 120"

definition stats_slot :: "nat \<Rightarrow> decrypt_stats list \<Rightarrow> nat option" where
  "stats_slot thread stats =
     (case find (\<lambda>i. threadID (stats ! i) = thread) [0..<MAX_THREADS] of
        Some i \<Rightarrow> Some i
      | None \<Rightarrow> find (\<lambda>i. threadID (stats ! i) = 0) [0..<MAX_THREADS])"

definition stats_add :: "u64 \<Rightarrow> u64 \<Rightarrow> decrypt_stats \<Rightarrow> decrypt_stats" where
  "stats_add delta nDataSize s =
     (if nDataSize = 0 then s
      else
        let s = s\<lparr>nBytesInterval := nBytesInterval s + nDataSize, nTimeInterval := nTimeInterval s + delta,
                  nCallsTotal := nCallsTotal s + 1\<rparr>
        in if nCallsTotal s mod INTERVAL = 0
           then s\<lparr>nBytesTotal := nBytesTotal s + nBytesInterval s, nTimeTotal := nTimeTotal s + nTimeInterval s,
                  nBytesInterval := 0, nTimeInterval := 0\<rparr>
           else s)"

definition LogPerformanceExt :: "nat \<Rightarrow> u64 \<Rightarrow> u64 \<Rightarrow> u64 \<Rightarrow> decrypt_stats list \<Rightarrow> decrypt_stats list" where
  "LogPerformanceExt thread msStart msEnd nDataSize stats =
     (case stats_slot thread stats of
        None \<Rightarrow> replicate MAX_THREADS no_stats
      | Some i \<Rightarrow> stats[i := stats_add (msEnd - msStart) nDataSize ((stats ! i)\<lparr>threadID := thread\<rparr>)])"

section \<open>Time codes are read back\<close>

text \<open>The bits of a buffer, and a number in \<open>n\<close> bits, most significant bit first.\<close>

definition mem_bits :: "mem \<Rightarrow> bool list" where "mem_bits m = map (bit_at m) [0..<8 * length m]"

fun bits_of :: "nat \<Rightarrow> nat \<Rightarrow> bool list" where
  "bits_of 0 v = []"
| "bits_of (Suc n) v = bits_of n (v div 2) @ [odd v]"

lemma bits_of_length [simp]: "length (bits_of n v) = n"
  by (induction n arbitrary: v) simp_all

lemma bits_value: "foldl (\<lambda>r b. 2 * r + of_bool b) r (bits_of n v) = r * 2 ^ n + v mod 2 ^ n"
proof (induction n arbitrary: v)
  case (Suc n)
  have "v mod 2 ^ Suc n = 2 * (v div 2 mod 2 ^ n) + v mod 2" by (simp add: mod_mult2_eq)
  moreover have "foldl (\<lambda>r b. 2 * r + of_bool b) r (bits_of (Suc n) v) = 2 * (r * 2 ^ n + v div 2 mod 2 ^ n) + v mod 2"
    by (simp add: Suc.IH mod2_eq_if)
  ultimately show ?case by (simp only: power_Suc distrib_left mult.left_commute [of 2] add.assoc)
qed simp

lemma sei_read_bits_eq:
  "off + n \<le> 8 * length m \<Longrightarrow>
     sei_read_bits m off n rc = Inr (foldl (\<lambda>r b. 2 * r + of_bool b) rc (map (bit_at m) [off..<off + n]), off + n)"
proof (induction n arbitrary: off rc)
  case (Suc n)
  have "[off..<off + Suc n] = off # [Suc off..<Suc off + n]" by (subst upt_conv_Cons) simp_all
  moreover have "\<not> length m \<le> off div 8" using Suc.prems by auto
  ultimately show ?case using Suc.IH [of "off + 1"] Suc.prems by simp
qed simp

lemma sei_read_at:
  assumes "mem_bits m = xs @ bits_of n v @ ys" and "length xs = off" and "v < 2 ^ n"
  shows "sei_read m n off = Inr (v, off + n)"
proof -
  have l: "8 * length m = off + n + length ys" using arg_cong [OF assms(1), of length] assms(2) by (simp add: mem_bits_def)
  have "map (bit_at m) [off..<off + n] = take n (drop off (mem_bits m))"
    using l by (simp add: mem_bits_def drop_map take_map)
  also have "\<dots> = bits_of n v" using assms(1,2) by simp
  finally show ?thesis
    using sei_read_bits_eq [of off n m 0] l assms(3) bits_value [of 0 n v] by (simp add: sei_read_def)
qed

text \<open>The unit as the standard lays it out: \<open>stamp_bits\<close> are the seconds, minutes and hours, with or without flags.\<close>

definition stamp_bits :: "bool \<Rightarrow> nat \<Rightarrow> nat \<Rightarrow> nat \<Rightarrow> bool list" where
  "stamp_bits full hours mins secs =
     (if full then bits_of 6 secs @ bits_of 6 mins @ bits_of 5 hours
      else bits_of 1 1 @ bits_of 6 secs @ bits_of 1 1 @ bits_of 6 mins @ bits_of 1 1 @ bits_of 5 hours)"

definition unit_bits :: "nat \<Rightarrow> nat \<Rightarrow> nat \<Rightarrow> bool \<Rightarrow> nat \<Rightarrow> nat \<Rightarrow> nat \<Rightarrow> nat \<Rightarrow> nat \<Rightarrow> bool list" where
  "unit_bits layer tid payload_size full frames flags hours mins secs =
     bits_of 1 0 @ bits_of 6 39 @ bits_of 6 layer @ bits_of 3 tid @ bits_of 8 136 @ bits_of 8 payload_size @ bits_of 2 1
       @ bits_of 1 1 @ bits_of 6 flags @ bits_of 1 (of_bool full) @ bits_of 2 0 @ bits_of 9 frames @ stamp_bits full hours mins secs"

lemma sei_read_any:
  assumes "mem_bits m = xs @ bits_of n w @ ys" and "length xs = off"
  shows "\<exists>v. sei_read m n off = Inr (v, off + n)"
proof -
  have "8 * length m = off + n + length ys" using arg_cong [OF assms(1), of length] assms(2) by (simp add: mem_bits_def)
  then show ?thesis using sei_read_bits_eq [of off n m 0] by (simp add: sei_read_def)
qed

lemma sei_full_at:
  assumes "mem_bits m = xs @ stamp_bits True hours mins secs @ ys" and "length xs = off"
    and "hours < 32" and "mins < 64" and "secs < 64"
  shows "sei_full m off = Inr (hours, mins, secs)"
proof -
  have "sei_read m 6 off = Inr (secs, off + 6)"
    using sei_read_at [of m xs 6 secs _ off] assms by (simp add: stamp_bits_def)
  moreover have "sei_read m 6 (off + 6) = Inr (mins, off + 12)"
    using sei_read_at [of m "xs @ bits_of 6 secs" 6 mins _ "off + 6"] assms by (simp add: stamp_bits_def)
  moreover have "sei_read m 5 (off + 12) = Inr (hours, off + 17)"
    using sei_read_at [of m "xs @ bits_of 6 secs @ bits_of 6 mins" 5 hours _ "off + 12"] assms by (simp add: stamp_bits_def)
  ultimately show ?thesis by (simp add: sei_full_def)
qed

lemma sei_optional_at:
  assumes "mem_bits m = xs @ stamp_bits False hours mins secs @ ys" and "length xs = off"
    and "hours < 32" and "mins < 64" and "secs < 64"
  shows "sei_optional m off = Inr (hours, mins, secs)"
proof -
  have b: "mem_bits m = xs @ bits_of 1 1 @ bits_of 6 secs @ bits_of 1 1 @ bits_of 6 mins @ bits_of 1 1 @ bits_of 5 hours @ ys"
    using assms(1) by (simp add: stamp_bits_def)
  have "sei_read m 1 off = Inr (1, off + 1)"
    using sei_read_at [of m xs 1 1 _ off] assms(2) b by simp
  moreover have "sei_read m 6 (off + 1) = Inr (secs, off + 7)"
    using sei_read_at [of m "xs @ bits_of 1 1" 6 secs _ "off + 1"] assms(2,5) b by simp
  moreover have "sei_read m 1 (off + 7) = Inr (1, off + 8)"
    using sei_read_at [of m "xs @ bits_of 1 1 @ bits_of 6 secs" 1 1 _ "off + 7"] assms(2) b by simp
  moreover have "sei_read m 6 (off + 8) = Inr (mins, off + 14)"
    using sei_read_at [of m "xs @ bits_of 1 1 @ bits_of 6 secs @ bits_of 1 1" 6 mins _ "off + 8"] assms(2,4) b by simp
  moreover have "sei_read m 1 (off + 14) = Inr (1, off + 15)"
    using sei_read_at [of m "xs @ bits_of 1 1 @ bits_of 6 secs @ bits_of 1 1 @ bits_of 6 mins" 1 1 _ "off + 14"] assms(2) b by simp
  moreover have "sei_read m 5 (off + 15) = Inr (hours, off + 20)"
    using sei_read_at [of m "xs @ bits_of 1 1 @ bits_of 6 secs @ bits_of 1 1 @ bits_of 6 mins @ bits_of 1 1" 5 hours _ "off + 15"]
      assms(2,3) b by simp
  ultimately show ?thesis by (simp add: sei_optional_def)
qed

text \<open>C30: A time code with one stamp, in its full form or in the one with flags, is read back by the adapter, whatever the layer,
  the size and the other flags of the unit are and whatever follows it.\<close>

theorem sei_unit_roundtrip:
  assumes "mem_bits m = unit_bits layer tid payload_size full frames flags hours mins secs @ ys"
    and "hours < 32" and "mins < 64" and "secs < 64" and "frames < 512"
  shows "sei_unit m = Inr (Some (hours, mins, secs, frames))"
proof -
  let ?a = "bits_of 1 0 @ bits_of 6 39"
  let ?b = "?a @ bits_of 6 layer @ bits_of 3 tid"
  let ?c = "?b @ bits_of 8 136 @ bits_of 8 payload_size"
  let ?d = "?c @ bits_of 2 1 @ bits_of 1 1 @ bits_of 6 flags"
  let ?e = "?d @ bits_of 1 (of_bool full) @ bits_of 2 0 @ bits_of 9 frames"
  have b: "mem_bits m = ?e @ stamp_bits full hours mins secs @ ys"
    using assms(1) by (simp add: unit_bits_def)
  have "sei_read m 1 0 = Inr (0, 1)" using sei_read_at [of m "[]" 1 0 _ 0] b by simp
  moreover have "sei_read m 6 1 = Inr (39, 7)" using sei_read_at [of m "bits_of 1 0" 6 39 _ 1] b by simp
  moreover obtain l where "sei_read m 6 7 = Inr (l, 13)"
    using sei_read_any [of m ?a 6 layer _ 7] b by auto
  moreover obtain t where "sei_read m 3 13 = Inr (t, 16)"
    using sei_read_any [of m "?a @ bits_of 6 layer" 3 tid _ 13] b by auto
  moreover have "sei_read m 8 16 = Inr (136, 24)" using sei_read_at [of m ?b 8 136 _ 16] b by simp
  moreover obtain s where "sei_read m 8 24 = Inr (s, 32)"
    using sei_read_any [of m "?b @ bits_of 8 136" 8 payload_size _ 24] b by auto
  moreover have "sei_read m 2 32 = Inr (1, 34)" using sei_read_at [of m ?c 2 1 _ 32] b by simp
  moreover have "sei_read m 1 34 = Inr (1, 35)" using sei_read_at [of m "?c @ bits_of 2 1" 1 1 _ 34] b by simp
  moreover obtain f where "sei_read m 6 35 = Inr (f, 41)"
    using sei_read_any [of m "?c @ bits_of 2 1 @ bits_of 1 1" 6 flags _ 35] b by auto
  moreover have "sei_read m 1 41 = Inr (of_bool full, 42)" using sei_read_at [of m ?d 1 "of_bool full" _ 41] b by simp
  moreover obtain g where "sei_read m 2 42 = Inr (g, 44)"
    using sei_read_any [of m "?d @ bits_of 1 (of_bool full)" 2 0 _ 42] b by auto
  moreover have "sei_read m 9 44 = Inr (frames, 53)"
    using sei_read_at [of m "?d @ bits_of 1 (of_bool full) @ bits_of 2 0" 9 frames _ 44] b assms(5) by simp
  moreover have "(if full then sei_full m 53 else sei_optional m 53) = Inr (hours, mins, secs)"
    using sei_full_at [of m ?e hours mins secs ys 53] sei_optional_at [of m ?e hours mins secs ys 53] b assms(2-4) by simp
  ultimately show ?thesis by (simp add: sei_unit_def)
qed

text \<open>One hour, two minutes, three seconds and five frames.\<close>

definition demo_unit :: mem where
  "demo_unit = [0x4e, 0x1, 0x88, 0xa, 0x60, 0x40, 0x28, 0x61, 0x4]"

lemma demo_unit_bits: "mem_bits demo_unit = unit_bits 0 1 10 True 5 0 1 2 3 @ replicate 2 False"
  by code_simp

theorem sei_unit_roundtrip_witness: "sei_unit demo_unit = Inr (Some (1, 2, 3, 5))"
  by (rule sei_unit_roundtrip [OF demo_unit_bits]) simp_all

end
