(* ===== verification/Ocdm_Session.thy ===== *)
theory Ocdm_Session
  imports Drm_Pssh ClearKey_Session Sei_Timecode
begin

text \<open>
  The DRM session over the OpenCDM library: \<^verbatim>\<open>drm/ocdm/opencdmsessionadapter.cpp\<close>, the decryption and the
  timestamps of \<^verbatim>\<open>OcdmGstSessionAdapter.cpp\<close> and \<^verbatim>\<open>OcdmBasicSessionAdapter.cpp\<close>, and the process functions of
  \<^verbatim>\<open>ProcessHandler.cpp\<close> by which it recovers from a hardware error. OpenCDM is not under \<^verbatim>\<open>src/\<close>: its answers are
  functions of the calls made so far, its callbacks are operations that can come at any time.
\<close>

section \<open>Processes\<close>

text \<open>\<^verbatim>\<open>/proc\<close> is the list of its entries in the order of \<^verbatim>\<open>readdir\<close>, with the lines of the status file, if it can be opened.\<close>

type_synonym proc_dir = "(string \<times> string list option) list"

definition splitName :: "string \<Rightarrow> string" where
  "splitName line = trim (case find_str '':'' line of None \<Rightarrow> line | Some i \<Rightarrow> drop (i + 1) line)"

text \<open>\<^verbatim>\<open>strtol\<close>, cut at the bounds of a 64-bit \<^verbatim>\<open>long\<close>; a rest behind the number makes it \<open>- 1\<close>.\<close>

definition convertPid :: "string \<Rightarrow> int" where
  "convertPid name =
     (let s = cstr name; t = dropWhile is_space s;
          (neg, u) = (case t of c # r \<Rightarrow> if c = CHR ''-'' then (True, r) else if c = CHR ''+'' then (False, r) else (False, t)
                      | [] \<Rightarrow> (False, []));
          ds = takeWhile is_digit u;
          n = int (digits_value ds);
          rest = (if ds = [] then s else dropWhile is_digit u)
      in if rest \<noteq> [] then - 1
         else if ds = [] then 0 else if neg then max (- n) (- (2 ^ 63)) else min n (2 ^ 63 - 1))"

definition GetProcessName :: "proc_dir \<Rightarrow> string \<Rightarrow> string" where
  "GetProcessName proc pid =
     (case map_of proc pid of
        Some (Some lines) \<Rightarrow> (case find (\<lambda>l. find_str ''Name:'' l \<noteq> None) lines of None \<Rightarrow> [] | Some l \<Rightarrow> splitName l)
      | _ \<Rightarrow> [])"

text \<open>The process that is killed, if any; the result is the one of \<^verbatim>\<open>kill\<close>.\<close>

definition KillProcess :: "proc_dir option \<Rightarrow> (int \<Rightarrow> bool) \<Rightarrow> string \<Rightarrow> bool \<times> int option" where
  "KillProcess proc kill_ok processName =
     (case proc of
        None \<Rightarrow> (False, None)
      | Some d \<Rightarrow> (case find (\<lambda>(e, _). convertPid e > 0 \<and> GetProcessName d e = processName) d of
                     None \<Rightarrow> (False, None)
                   | Some (e, _) \<Rightarrow> (kill_ok (convertPid e), Some (convertPid e))))"

section \<open>State\<close>

text \<open>The key states of OpenCDM that the code names; their numbers are a parameter.\<close>

datatype ocdm_status = Usable | HWError | OutputRestricted | OutputRestrictedHDCP22 | InternalError | OtherStatus int

datatype ocdm_action =
    ConstructSession "byte list" string u16
  | UpdateSession "byte list"
  | CloseSession
  | Individualization string
  | LicenseRenewal
  | Kill int
  | SelfKill
  | AddTimeCode time_code
  | SessionDecrypt "byte list"

record ocdm =
  oc_helper :: helper
  oc_eKeyState :: key_state
  m_pOpenCDMSystem :: bool
  m_pOpenCDMSession :: bool
  m_challenge :: string
  oc_destUrl :: string
  m_keyStatus :: ocdm_status
  m_keyStateIndeterminate :: bool
  m_keyStored :: "byte list"
  m_challengeReady :: bool
  m_keyStatusReady :: bool
  m_keyStatusWait :: bool
  m_keyId :: "byte list"
  m_drmCallbacks :: bool
  oc_trace :: "ocdm_action list"

record ocdm_env =
  construct_session :: "ocdm_action list \<Rightarrow> bool \<times> bool"
  session_status :: "ocdm_action list \<Rightarrow> byte list \<Rightarrow> ocdm_status"
  session_update :: "ocdm_action list \<Rightarrow> bool"
  cdm_decrypt :: "ocdm_action list \<Rightarrow> mem \<Rightarrow> int \<times> mem"
  source_uhd :: "ocdm_action list \<Rightarrow> bool"
  hdcp_2_2 :: "ocdm_action list \<Rightarrow> bool"
  status_code :: "ocdm_status \<Rightarrow> int"
  proc_of :: "ocdm_action list \<Rightarrow> proc_dir option"
  kill_ok :: "int \<Rightarrow> bool"

definition oc_emit :: "ocdm_action \<Rightarrow> ocdm \<Rightarrow> ocdm" where
  "oc_emit a st = st\<lparr>oc_trace := oc_trace st @ [a]\<rparr>"

definition OCDMSessionAdapter :: "helper \<Rightarrow> bool \<Rightarrow> bool \<Rightarrow> ocdm" where
  "OCDMSessionAdapter drmHelper callbacks system_ok = \<lparr>oc_helper = drmHelper, oc_eKeyState = KEY_INIT,
     m_pOpenCDMSystem = system_ok, m_pOpenCDMSession = False, m_challenge = [], oc_destUrl = [],
     m_keyStatus = InternalError, m_keyStateIndeterminate = False, m_keyStored = [], m_challengeReady = False,
     m_keyStatusReady = False, m_keyStatusWait = False, m_keyId = [], m_drmCallbacks = callbacks, oc_trace = []\<rparr>"

section \<open>Events\<close>

text \<open>\<^verbatim>\<open>Event::wait\<close>: \<open>others\<close> is what happens while the thread waits, with whether the time ran out. The flag is cleared
  either way. A wait without a limit that is never woken does not return, which is \<open>None\<close>.\<close>

definition event_wait ::
  "(ocdm \<Rightarrow> bool) \<Rightarrow> ((bool \<Rightarrow> bool) \<Rightarrow> ocdm \<Rightarrow> ocdm) \<Rightarrow> (ocdm \<Rightarrow> bool \<times> ocdm) \<Rightarrow> u32 \<Rightarrow> ocdm \<Rightarrow> (bool \<times> ocdm) option" where
  "event_wait signalled upd others waitTime st =
     (if signalled st then Some (True, upd (\<lambda>_. False) st)
      else case others st of (timeout, st) \<Rightarrow>
        if timeout \<and> waitTime = 0 then None else Some (\<not> timeout, upd (\<lambda>_. False) st))"

section \<open>The callbacks of OpenCDM\<close>

definition keyUpdateOCDM :: "ocdm_env \<Rightarrow> byte list \<Rightarrow> ocdm \<Rightarrow> ocdm" where
  "keyUpdateOCDM env key st =
     (if m_pOpenCDMSession st
      then st\<lparr>m_keyStatus := session_status env (oc_trace st) key, m_keyStateIndeterminate := False\<rparr>
      else st\<lparr>m_keyStored := key, m_keyStateIndeterminate := True\<rparr>)"

definition keysUpdatedOCDM :: "ocdm \<Rightarrow> ocdm" where "keysUpdatedOCDM st = st\<lparr>m_keyStatusReady := True\<rparr>"

definition type_delimiter :: string where "type_delimiter = '':Type:''"

definition oc_message_type :: "string \<Rightarrow> string" where
  "oc_message_type msg = (case find_str type_delimiter msg of None \<Rightarrow> msg | Some i \<Rightarrow> take i msg)"

definition processOCDMChallenge :: "string \<Rightarrow> string \<Rightarrow> ocdm \<Rightarrow> ocdm" where
  "processOCDMChallenge destUrl challengeData st =
     (let messageType = oc_message_type challengeData;
          st = (case find_str type_delimiter challengeData of
                  Some i \<Rightarrow>
                    if messageType \<in> {''individualization-request'', ''3''}
                    then (if m_drmCallbacks st then oc_emit (Individualization (drop (i + length type_delimiter) challengeData)) st else st)
                    else st\<lparr>m_challenge := challengeData, oc_destUrl := destUrl, m_challengeReady := True\<rparr>
                | None \<Rightarrow> st\<lparr>m_challenge := challengeData, oc_destUrl := destUrl, m_challengeReady := True\<rparr>)
      in if messageType = ''1'' \<and> m_drmCallbacks st then oc_emit LicenseRenewal st else st)"

section \<open>The session\<close>

text \<open>\<open>during\<close> is what the callbacks do before the handle of the new session is stored. The answers of the constructor
  are whether it succeeded and whether it stored a handle. The length of the custom data is cut to sixteen bits.\<close>

definition oc_generateDRMSession :: "ocdm_env \<Rightarrow> (ocdm \<Rightarrow> ocdm) \<Rightarrow> byte list \<Rightarrow> string \<Rightarrow> ocdm \<Rightarrow> ocdm" where
  "oc_generateDRMSession env during init customData st =
     (if \<not> m_pOpenCDMSystem st then st\<lparr>oc_eKeyState := KEY_ERROR\<rparr>
      else
        let st = during (oc_emit (ConstructSession init customData (word_of_nat (length customData))) st);
            (ok, handle) = construct_session env (oc_trace st);
            st = (if handle then st\<lparr>m_pOpenCDMSession := True\<rparr> else st)
        in if ok then st else st\<lparr>oc_eKeyState := KEY_ERROR\<rparr>)"

text \<open>The results are the request and the address of the server, if there is one.\<close>

definition oc_generateKeyRequest ::
  "(ocdm \<Rightarrow> bool \<times> ocdm) \<Rightarrow> u32 \<Rightarrow> ocdm \<Rightarrow> ((string \<times> string) option \<times> ocdm) option" where
  "oc_generateKeyRequest others timeout st =
     (let st = st\<lparr>oc_eKeyState := KEY_ERROR\<rparr> in
      case event_wait m_challengeReady m_challengeReady_update others timeout st of
        None \<Rightarrow> None
      | Some (ok, st) \<Rightarrow>
          Some (if \<not> ok \<or> m_challenge st = [] then (None, st)
            else
              let requestType = oc_message_type (m_challenge st);
                  st = (if requestType \<noteq> [] \<and> requestType \<noteq> m_challenge st
                        then st\<lparr>m_challenge := drop (length requestType + length type_delimiter) (m_challenge st)\<rparr> else st)
              in (Some (m_challenge st, oc_destUrl st), st\<lparr>oc_eKeyState := KEY_PENDING\<rparr>)))"

definition HDCP_OUTPUT_PROTECTION_FAILURE :: int where "HDCP_OUTPUT_PROTECTION_FAILURE = 4427"
definition HDCP_COMPLIANCE_CHECK_FAILURE :: int where "HDCP_COMPLIANCE_CHECK_FAILURE = 4327"

text \<open>The recovery from a hardware error: the process of OpenCDM is killed under its new or its old name, then this one.
  What comes after a kill of the own process that succeeds is not observable.\<close>

definition kill_named :: "ocdm_env \<Rightarrow> string \<Rightarrow> ocdm \<Rightarrow> bool \<times> ocdm" where
  "kill_named env name st =
     (case KillProcess (proc_of env (oc_trace st)) (kill_ok env) name of
        (ok, None) \<Rightarrow> (ok, st) | (ok, Some pid) \<Rightarrow> (ok, oc_emit (Kill pid) st))"

definition recover_hardware :: "ocdm_env \<Rightarrow> ocdm \<Rightarrow> ocdm" where
  "recover_hardware env st =
     (let (killed, st) = kill_named env ''WPEFramework'' st;
          st = (if killed then st else snd (kill_named env ''WPEcdmi'' st))
      in oc_emit SelfKill st)"

text \<open>What follows from the status of the key: the returned code and the new state of the session.\<close>

definition oc_key_result :: "ocdm_env \<Rightarrow> ocdm \<Rightarrow> int \<times> ocdm" where
  "oc_key_result env st =
     (case m_keyStatus st of
        Usable \<Rightarrow> (0, st\<lparr>oc_eKeyState := KEY_READY\<rparr>)
      | HWError \<Rightarrow> (- 1, recover_hardware env st)
      | OutputRestricted \<Rightarrow> (HDCP_OUTPUT_PROTECTION_FAILURE, st\<lparr>oc_eKeyState := KEY_ERROR\<rparr>)
      | OutputRestrictedHDCP22 \<Rightarrow> (HDCP_COMPLIANCE_CHECK_FAILURE, st\<lparr>oc_eKeyState := KEY_ERROR\<rparr>)
      | other \<Rightarrow> (status_code env other, st\<lparr>oc_eKeyState := KEY_ERROR\<rparr>))"

text \<open>The license is handed over with its length cut to sixteen bits; no license means that the DRM acquires the key itself.\<close>

definition oc_processDRMKey ::
  "ocdm_env \<Rightarrow> (ocdm \<Rightarrow> bool \<times> ocdm) \<Rightarrow> byte list option \<Rightarrow> u32 \<Rightarrow> ocdm \<Rightarrow> (int \<times> ocdm) option" where
  "oc_processDRMKey env others key timeout st =
     (let (ok, st) = (case key of
            None \<Rightarrow> (True, st)
          | Some k \<Rightarrow> let st = oc_emit (UpdateSession (take (length k mod 2 ^ 16) k)) st in (session_update env (oc_trace st), st))
      in map_option (\<lambda>(r, st). (r, st\<lparr>m_keyStatusWait := True\<rparr>))
           (if \<not> ok then Some (- 1, st)
            else case event_wait m_keyStatusReady m_keyStatusReady_update others timeout st of
              None \<Rightarrow> None
            | Some (_, st) \<Rightarrow>
                Some (oc_key_result env
                  (if m_keyStateIndeterminate st
                   then st\<lparr>m_keyStatus := session_status env (oc_trace st) (m_keyStored st), m_keyStateIndeterminate := False\<rparr>
                   else st))))"

definition oc_waitForState :: "(ocdm \<Rightarrow> bool \<times> ocdm) \<Rightarrow> key_state \<Rightarrow> u32 \<Rightarrow> ocdm \<Rightarrow> (bool \<times> ocdm) option" where
  "oc_waitForState others state timeout st =
     (if oc_eKeyState st = state then Some (True, st)
      else map_option (\<lambda>(ok, st). (ok \<and> oc_eKeyState st = state, st))
             (event_wait m_keyStatusWait m_keyStatusWait_update others timeout st))"

definition oc_clearDecryptContext :: "ocdm \<Rightarrow> ocdm" where
  "oc_clearDecryptContext st =
     (if m_pOpenCDMSession st then (oc_emit CloseSession st)\<lparr>m_pOpenCDMSession := False\<rparr> else st)\<lparr>oc_eKeyState := KEY_INIT\<rparr>"

definition oc_setKeyId :: "byte list \<Rightarrow> ocdm \<Rightarrow> ocdm" where "oc_setKeyId keyId st = st\<lparr>m_keyId := keyId\<rparr>"

section \<open>Decryption\<close>

definition verifyOutputProtection :: "ocdm_env \<Rightarrow> ocdm \<Rightarrow> bool" where
  "verifyOutputProtection env st \<longleftrightarrow>
     \<not> (isHdcp22Required (oc_helper st) \<and> source_uhd env (oc_trace st) \<and> \<not> hdcp_2_2 env (oc_trace st))"

text \<open>The code after a failed decryption, from the status of the key.\<close>

definition restricted_code :: "ocdm_status \<Rightarrow> int \<Rightarrow> int" where
  "restricted_code s retValue =
     (if s = OutputRestricted then HDCP_OUTPUT_PROTECTION_FAILURE
      else if s = OutputRestrictedHDCP22 then HDCP_COMPLIANCE_CHECK_FAILURE else retValue)"

text \<open>The decryption of a GStreamer buffer: first its time codes are attached to it. The key id is \<open>None\<close> for a clear
  sample, whose buffer cannot be mapped. The CDM decrypts in place; the second result is the buffer.\<close>

definition oc_decrypt_buffer :: "ocdm_env \<Rightarrow> byte list option \<Rightarrow> mem \<Rightarrow> ocdm \<Rightarrow> (int \<times> mem \<times> ocdm) res" where
  "oc_decrypt_buffer env keyID dat st =
     (if \<not> m_pOpenCDMSession st then Inr (- 1, dat, st)
      else if \<not> verifyOutputProtection env st then Inr (HDCP_COMPLIANCE_CHECK_FAILURE, dat, st)
      else bindE (ExtractSEI (Some dat)) (\<lambda>codes.
        let st = fold (\<lambda>c. oc_emit (AddTimeCode c)) codes st
        in if keyID = None \<and> \<not> bDecryptClearSamplesRequired (mDrmInfo (oc_helper st)) then Inr (0, dat, st)
           else
             let st = oc_emit (SessionDecrypt dat) st; (retValue, out) = cdm_decrypt env (oc_trace st) dat
             in Inr (if retValue \<noteq> 0
                 then (case keyID of None \<Rightarrow> retValue | Some k \<Rightarrow> restricted_code (session_status env (oc_trace st) k) retValue)
                 else retValue, out, st)))"

definition oc_decrypt_payload :: "ocdm_env \<Rightarrow> mem \<Rightarrow> ocdm \<Rightarrow> int \<times> mem \<times> ocdm" where
  "oc_decrypt_payload env dat st =
     (if \<not> m_pOpenCDMSession st then (- 1, dat, st)
      else if \<not> verifyOutputProtection env st then (HDCP_COMPLIANCE_CHECK_FAILURE, dat, st)
      else
        let st = oc_emit (SessionDecrypt dat) st; (retValue, out) = cdm_decrypt env (oc_trace st) dat
        in (if retValue \<noteq> 0 then restricted_code (session_status env (oc_trace st) []) retValue else retValue, out, st))"

text \<open>The basic adapter hands the data over through the memory system of the helper, if it has one; \<open>encode\<close> and
  \<open>decode\<close> are its functions. It does not look at the session.\<close>

definition basic_decrypt ::
  "ocdm_env \<Rightarrow> ((mem \<Rightarrow> mem option) \<times> (mem \<Rightarrow> mem option)) option \<Rightarrow> mem \<Rightarrow> ocdm \<Rightarrow> int \<times> mem \<times> ocdm" where
  "basic_decrypt env memory dat st =
     (if \<not> verifyOutputProtection env st then (HDCP_COMPLIANCE_CHECK_FAILURE, dat, st)
      else case (case memory of None \<Rightarrow> Some dat | Some (encode, _) \<Rightarrow> encode dat) of
        None \<Rightarrow> (- 1, dat, st)
      | Some vdata \<Rightarrow>
          let st = oc_emit (SessionDecrypt vdata) st; (retvalue, out) = cdm_decrypt env (oc_trace st) vdata
          in case memory of
               None \<Rightarrow> (retvalue, out, st)
             | Some (_, decode) \<Rightarrow>
                 if retvalue \<noteq> 0 then (retvalue, dat, st)
                 else (case decode out of None \<Rightarrow> (- 1, dat, st) | Some clear \<Rightarrow> (retvalue, clear, st)))"

section \<open>Key requests\<close>

lemma find_type:
  assumes "find_str type_delimiter (kind @ type_delimiter) = Some (length kind)"
  shows "find_str type_delimiter (kind @ type_delimiter @ body) = Some (length kind)"
  using assms by (rule find_str_first)

text \<open>A challenge that the CDM delivers while or before the request waits for it is returned without its type, and with the
  address of the server; the session then waits for the license.\<close>

theorem challenge_requested:
  assumes "find_str type_delimiter (kind @ type_delimiter) = Some (length kind)" and "kind \<noteq> []"
    and "kind \<notin> {''individualization-request'', ''3''}"
    and "\<not> m_challengeReady st" and "others = (\<lambda>st. (False, processOCDMChallenge url (kind @ type_delimiter @ body) st))"
  shows "\<exists>st'. oc_generateKeyRequest others timeout st = Some (Some (body, url), st') \<and> oc_eKeyState st' = KEY_PENDING
     \<and> oc_generateKeyRequest no timeout (processOCDMChallenge url (kind @ type_delimiter @ body) st) = Some (Some (body, url), st')"
proof -
  define c where "c = kind @ type_delimiter @ body"
  have c: "find_str type_delimiter c = Some (length kind)" "oc_message_type c = kind" "kind \<noteq> c" "c \<noteq> []"
    "drop (length kind + length type_delimiter) c = body"
    using find_type [OF assms(1), of body] assms(2) by (simp_all add: oc_message_type_def c_def) (simp add: type_delimiter_def)
  have o: "others = (\<lambda>st. (False, processOCDMChallenge url c st))" by (simp add: assms(5) c_def)
  show ?thesis
    unfolding c_def [symmetric] o using assms(2-4) c
    by (auto simp: oc_generateKeyRequest_def event_wait_def processOCDMChallenge_def oc_emit_def Let_def)
qed

definition demo_ocdm_env :: ocdm_env where
  "demo_ocdm_env = \<lparr>construct_session = (\<lambda>_. (True, True)), session_status = (\<lambda>_ _. Usable), session_update = (\<lambda>_. True),
     cdm_decrypt = (\<lambda>_ m. (0, m)), source_uhd = (\<lambda>_. False), hdcp_2_2 = (\<lambda>_. True), status_code = (\<lambda>_. 1),
     proc_of = (\<lambda>_. None), kill_ok = (\<lambda>_. True)\<rparr>"

definition demo_ocdm :: ocdm where
  "demo_ocdm = OCDMSessionAdapter (new_helper WidevineDrmHelper DrmInfo) False True"

theorem challenge_requested_witness:
  "\<exists>st'. oc_generateKeyRequest (\<lambda>st. (False, processOCDMChallenge ''u'' ''0:Type:abc'' st)) 10 demo_ocdm
     = Some (Some (''abc'', ''u''), st') \<and> oc_eKeyState st' = KEY_PENDING"
proof -
  have "find_str type_delimiter (''0'' @ type_delimiter) = Some (length ''0'')" "\<not> m_challengeReady demo_ocdm"
    by (simp_all add: type_delimiter_def demo_ocdm_def OCDMSessionAdapter_def)
  from challenge_requested [OF this(1) _ _ this(2) refl, of "''u''" "''abc''" 10]
  show ?thesis by (auto simp: type_delimiter_def)
qed

section \<open>Key states\<close>

text \<open>A key whose status comes while the session is still being constructed, before its handle is stored, is not missed: when
  the CDM says that it is usable, the session is ready after the license, even if no further update comes.\<close>

theorem early_key_not_missed:
  assumes "m_pOpenCDMSystem st" and "\<not> m_pOpenCDMSession st" and "\<And>h. construct_session env h = (True, True)"
    and "\<And>h. session_status env h key = Usable" and "\<And>h. session_update env h"
  shows "\<exists>st'. oc_processDRMKey env no license timeout
       (oc_generateDRMSession env (\<lambda>st. keysUpdatedOCDM (keyUpdateOCDM env key st)) init customData st) = Some (0, st')
     \<and> oc_eKeyState st' = KEY_READY"
  using assms
  by (cases license) (simp_all add: oc_generateDRMSession_def oc_processDRMKey_def keyUpdateOCDM_def keysUpdatedOCDM_def oc_emit_def
      event_wait_def oc_key_result_def)

theorem early_key_not_missed_witness:
  "\<exists>st'. oc_processDRMKey demo_ocdm_env (\<lambda>st. (True, st)) (Some [1, 2]) 5
       (oc_generateDRMSession demo_ocdm_env (\<lambda>st. keysUpdatedOCDM (keyUpdateOCDM demo_ocdm_env [9] st)) [] [] demo_ocdm) = Some (0, st')
     \<and> oc_eKeyState st' = KEY_READY"
  by (rule early_key_not_missed) (simp_all add: demo_ocdm_env_def demo_ocdm_def OCDMSessionAdapter_def)

text \<open>C40: Clearing a session keeps the status of its key: when the update of the next key times out, the new session is
  reported ready although the CDM said nothing about its key.\<close>

theorem stale_key_status:
  assumes "m_keyStatus st = Usable" and "\<not> m_keyStateIndeterminate st" and "\<not> m_keyStatusReady st" and "timeout \<noteq> 0"
    and "m_pOpenCDMSystem st" and "\<And>h. construct_session env h = (True, True)" and "\<And>h. session_update env h"
  shows "\<exists>st'. oc_processDRMKey env (\<lambda>st. (True, st)) license timeout
       (oc_generateDRMSession env id init customData (oc_clearDecryptContext st)) = Some (0, st')
     \<and> oc_eKeyState st' = KEY_READY"
  using assms
  by (cases license) (simp_all add: oc_generateDRMSession_def oc_processDRMKey_def oc_clearDecryptContext_def oc_emit_def
      event_wait_def oc_key_result_def)

theorem stale_key_status_witness:
  "\<exists>st'. oc_processDRMKey demo_ocdm_env (\<lambda>st. (True, st)) (Some [3]) 5
       (oc_generateDRMSession demo_ocdm_env id [] [] (oc_clearDecryptContext (demo_ocdm\<lparr>m_keyStatus := Usable\<rparr>))) = Some (0, st')
     \<and> oc_eKeyState st' = KEY_READY"
  by (rule stale_key_status) (simp_all add: demo_ocdm_env_def demo_ocdm_def OCDMSessionAdapter_def)

section \<open>Processes are found\<close>

lemma convertPid_decimal: "0 < n \<Longrightarrow> n < 2 ^ 63 \<Longrightarrow> convertPid (decimal n) = int n"
proof -
  assume n: "0 < n" "n < 2 ^ 63"
  have d: "list_all is_digit (decimal n)" by (rule decimal_digits)
  obtain c t where c: "decimal n = c # t" by (cases "decimal n") (simp_all add: decimal_ne)
  with d have *: "takeWhile is_digit t = t" "dropWhile is_digit t = []"
    by (auto simp: list_all_iff takeWhile_eq_all_conv)
  have "is_digit c" using d c by simp
  moreover have "cstr (decimal n) = decimal n"
    using d by (intro cstr_clean) (auto simp: list_all_iff is_digit_def)
  moreover have "digits_value (decimal n) = n" by (rule decimal_value)
  ultimately show ?thesis
    using * n digit_plain [of c] by (simp add: convertPid_def c Let_def del: takeWhile_eq_all_conv dropWhile_eq_Nil_conv)
qed

end
