(* ===== verification/Subtitle_Parsers.thy ===== *)
theory Subtitle_Parsers
  imports Subtec_Packet Isobmff_Buffer Text_Style Json_Object Complex_Main
begin

text \<open>
  The subtitle parsers of \<^verbatim>\<open>subtec/subtecparser/\<close>: TTML in ISO BMFF segments, WebVTT, and the interface for
  converted cues. A parser hands messages to its channel; a model of a parser is its state with the list of the
  messages sent, in order, which the channel turns into packets. Times are exact reals where the code has doubles.
  The positions of the player are an argument, \<open>None\<close> when their callback is not registered.
\<close>

section \<open>The begin attribute\<close>

text \<open>\<^verbatim>\<open>std::getline\<close> over a stream.\<close>

fun getlines :: "string \<Rightarrow> string list" where
  "getlines [] = []"
| "getlines (c # s) =
     (if c = CHR 0x0a then [] # getlines s
      else case getlines s of [] \<Rightarrow> [[c]] | l # ls \<Rightarrow> (c # l) # ls)"

definition begin_tag :: string where "begin_tag = ''begin='' @ [CHR 0x22]"

text \<open>The four groups of the regular expression where it matches at the start of a text: hours and a colon, one or two
  digits of minutes and a colon, one or two digits of seconds, an optional point, optional digits, a quote.\<close>

definition begin_groups :: "string \<Rightarrow> (string \<times> string \<times> string \<times> string) option" where
  "begin_groups s =
     (let r = drop (length begin_tag) s; h = takeWhile is_digit r; r1 = dropWhile is_digit r;
          m = takeWhile is_digit (drop 1 r1); r2 = dropWhile is_digit (drop 1 r1);
          secs = take 2 (takeWhile is_digit (drop 1 r2)); r3 = drop (length secs) (drop 1 r2);
          r4 = (if take 1 r3 = ''.'' then drop 1 r3 else r3)
      in if take (length begin_tag) s = begin_tag \<and> h \<noteq> [] \<and> take 1 r1 = '':'' \<and> length m \<in> {1, 2} \<and> take 1 r2 = '':'' \<and> secs \<noteq> []
           \<and> take 1 (dropWhile is_digit r4) = [CHR 0x22]
         then Some (h, m, secs, takeWhile is_digit r4) else None)"

fun find_begin :: "string \<Rightarrow> (string \<times> string \<times> string \<times> string) option" where
  "find_begin [] = None"
| "find_begin (c # s) = (case begin_groups (c # s) of None \<Rightarrow> find_begin s | Some g \<Rightarrow> Some g)"

text \<open>\<^verbatim>\<open>std::stol\<close> of digits: it throws when there are none or the number does not fit.\<close>

definition stol :: "string \<Rightarrow> int res" where
  "stol ds = (if ds = [] \<or> 2 ^ 63 \<le> digits_value ds then Inl Thrown else Inr (int (digits_value ds)))"

definition begin_ms :: "string \<times> string \<times> string \<times> string \<Rightarrow> int res" where
  "begin_ms g =
     (case g of (h, m, secs, ms) \<Rightarrow>
        bindE (stol h) (\<lambda>hours. bindE (stol m) (\<lambda>minutes. bindE (stol secs) (\<lambda>seconds. bindE (stol ms) (\<lambda>milliseconds.
          let t = milliseconds + 1000 * (seconds + 60 * (minutes + 60 * hours))
          in if 2 ^ 63 \<le> t then Inl Undefined else Inr t)))))"

text \<open>The largest number stands for no match.\<close>

definition INT64_MAX :: int where "INT64_MAX = 2 ^ 63 - 1"

definition parseFirstBegin :: "string \<Rightarrow> int res" where
  "parseFirstBegin ss =
     (case List.map_filter find_begin (getlines ss) of [] \<Rightarrow> Inr INT64_MAX | g # _ \<Rightarrow> begin_ms g)"

section \<open>TTML\<close>

record ttml =
  tt_sent :: "message list"
  m_isLinear :: bool
  m_parsedFirstPacket :: bool
  m_sentOffset :: bool
  m_firstBeginOffset :: real

definition tt_send :: "message \<Rightarrow> ttml \<Rightarrow> ttml" where "tt_send msg t = t\<lparr>tt_sent := tt_sent t @ [msg]\<rparr>"

definition screen_size :: "int \<Rightarrow> int \<Rightarrow> u32 \<times> u32" where
  "screen_size width height = (if width \<noteq> 0 \<and> height \<noteq> 0 then (word_of_int width, word_of_int height) else (1920, 1080))"

definition TtmlSubtecParser :: "bool \<Rightarrow> int \<Rightarrow> int \<Rightarrow> ttml res" where
  "TtmlSubtecParser comms_ok width height =
     (if \<not> comms_ok then Inl Thrown
      else case screen_size width height of (w, h) \<Rightarrow>
        Inr \<lparr>tt_sent = [ResetAll, TtmlSelection w h, Mute], m_isLinear = False, m_parsedFirstPacket = False,
             m_sentOffset = False, m_firstBeginOffset = 0\<rparr>)"

definition trunc_real :: "real \<Rightarrow> int" where "trunc_real x = (if 0 \<le> x then \<lfloor>x\<rfloor> else \<lceil>x\<rceil>)"

definition ttml_init :: "real \<Rightarrow> ttml \<Rightarrow> bool \<times> ttml" where
  "ttml_init startPosSeconds t =
     (True, (tt_send (TtmlTimestamp (word_of_int (trunc_real (startPosSeconds * 1000)))) t)
        \<lparr>m_parsedFirstPacket := False, m_sentOffset := False, m_firstBeginOffset := 0\<rparr>)"

definition ttml_updateTimestamp :: "u64 \<Rightarrow> ttml \<Rightarrow> ttml" where
  "ttml_updateTimestamp positionMs t = tt_send (TtmlTimestamp positionMs) t"

definition ttml_reset :: "ttml \<Rightarrow> ttml" where "ttml_reset t = tt_send ResetChannel t"

definition ttml_mute :: "bool \<Rightarrow> ttml \<Rightarrow> ttml" where "ttml_mute b t = tt_send (if b then Mute else Unmute) t"

definition ttml_pause :: "bool \<Rightarrow> ttml \<Rightarrow> ttml" where "ttml_pause b t = tt_send (if b then Pause else Resume) t"

definition ttml_isLinear :: "bool \<Rightarrow> ttml \<Rightarrow> ttml" where "ttml_isLinear b t = t\<lparr>m_isLinear := b\<rparr>"

text \<open>The offset of linear content, from the first begin of the segment.\<close>

definition ttml_offset :: "(int \<times> real) option \<Rightarrow> real \<Rightarrow> byte list \<Rightarrow> ttml \<Rightarrow> ttml res" where
  "ttml_offset positions position dat t =
     (let t = (if \<not> m_parsedFirstPacket t \<and> m_isLinear t then t\<lparr>m_firstBeginOffset := position, m_parsedFirstPacket := True\<rparr> else t)
      in if \<not> m_sentOffset t \<and> m_parsedFirstPacket t \<and> m_isLinear t then
           bindE (parseFirstBegin (text_of dat)) (\<lambda>offset.
             if offset = INT64_MAX then Inr t
             else
               let (getPositionMS, seekPositionSeconds) = (case positions of None \<Rightarrow> (0, 0) | Some p \<Rightarrow> p);
                   timeFromStartMs = of_int getPositionMS - seekPositionSeconds * 1000;
                   total_offset = trunc_real (of_int offset - (position - m_firstBeginOffset t) * 1000 + timeFromStartMs)
               in Inr (tt_send (TtmlTimestamp (word_of_int total_offset)) (t\<lparr>m_sentOffset := True\<rparr>)))
         else Inr t)"


section \<open>WebVTT and converted cues\<close>

text \<open>Both keep no state of their own: they are the messages of each operation.\<close>

definition WebVTTSubtecParser :: "bool \<Rightarrow> int \<Rightarrow> int \<Rightarrow> message list res" where
  "WebVTTSubtecParser comms_ok width height =
     (if \<not> comms_ok then Inl Thrown
      else case screen_size width height of (w, h) \<Rightarrow> Inr [ResetAll, Mute, WebVttSelection w h])"

definition vtt_init :: "real \<Rightarrow> message list" where
  "vtt_init startPosSeconds = [WebVttTimestamp (word_of_int (trunc_real (startPosSeconds * 1000)))]"

definition vtt_updateTimestamp :: "u64 \<Rightarrow> message list" where "vtt_updateTimestamp positionMs = [WebVttTimestamp positionMs]"

definition vtt_reset :: "message list" where "vtt_reset = [Mute, ResetChannel]"

definition vtt_processData :: "mem \<Rightarrow> message list" where "vtt_processData buf = [WebVttData 0 buf]"

definition vtt_setTextStyle :: "(string \<Rightarrow> (string \<Rightarrow> string option) option) \<Rightarrow> string \<Rightarrow> message list" where
  "vtt_setTextStyle parse_json options =
     (case getAttributes parse_json options (replicate 14 0) of (rc, values, msk) \<Rightarrow>
        if rc = 0 \<and> msk \<noteq> 0 then [SetAttribute 0 msk values] else [])"

definition WebvttSubtecDevInterface :: "bool \<Rightarrow> int \<Rightarrow> int \<Rightarrow> message list res" where
  "WebvttSubtecDevInterface comms_ok width height =
     (if \<not> comms_ok then Inl Thrown else Inr [ResetAll, TtmlSelection (word_of_int width) (word_of_int height), Mute])"

definition sendCueData :: "string \<Rightarrow> message list" where "sendCueData doc = [TtmlData 0 (bytes_of doc)]"

definition dev_init :: "u64 \<Rightarrow> message list" where "dev_init basePTS = [TtmlTimestamp basePTS]"

definition dev_updateTimestamp :: "u64 \<Rightarrow> message list" where "dev_updateTimestamp positionMs = [TtmlTimestamp positionMs]"

definition parser_mute :: "bool \<Rightarrow> message list" where "parser_mute b = [if b then Mute else Unmute]"

definition parser_pause :: "bool \<Rightarrow> message list" where "parser_pause b = [if b then Pause else Resume]"

section \<open>Begin attributes are read\<close>

definition clock_text :: "nat \<Rightarrow> nat \<Rightarrow> nat \<Rightarrow> nat \<Rightarrow> string" where
  "clock_text h m s ms = begin_tag @ decimal h @ '':'' @ decimal m @ '':'' @ decimal s @ ''.'' @ decimal ms @ [CHR 0x22]"

lemma decimal_short: "n < 60 \<Longrightarrow> length (decimal n) \<in> {1, 2}"
proof (cases "n < 10")
  case False
  assume "n < 60"
  then have "n div 10 < 10" by simp
  then have "length (decimal (n div 10)) = 1" by (subst decimal.simps) simp
  moreover have "length (decimal n) = length (decimal (n div 10)) + 1" using False by (subst decimal.simps) simp
  ultimately show ?thesis by simp
qed (subst decimal.simps, simp)

lemma digits_split:
  assumes "rest = [] \<or> \<not> is_digit (hd rest)"
  shows "takeWhile is_digit (decimal n @ rest) = decimal n" "dropWhile is_digit (decimal n @ rest) = rest"
proof -
  have "\<forall>c \<in> set (decimal n). is_digit c" using decimal_digits [of n] by (simp add: list_all_iff)
  then show "takeWhile is_digit (decimal n @ rest) = decimal n" "dropWhile is_digit (decimal n @ rest) = rest"
    using assms by (cases rest; simp)+
qed

lemma plain_signs [simp]: "\<not> is_digit CHR '':''" "\<not> is_digit CHR ''.''" "\<not> is_digit CHR 0x22"
  by (simp_all add: is_digit_def)

lemma begin_groups_clock:
  assumes "m < 60" and "s < 60"
  shows "begin_groups (clock_text h m s ms @ rest) = Some (decimal h, decimal m, decimal s, decimal ms)"
proof -
  have d: "drop (length begin_tag) (clock_text h m s ms @ rest)
      = decimal h @ CHR '':'' # decimal m @ CHR '':'' # decimal s @ CHR ''.'' # decimal ms @ CHR 0x22 # rest"
    and t: "take (length begin_tag) (clock_text h m s ms @ rest) = begin_tag"
    by (simp_all add: clock_text_def)
  have "take 2 (decimal s) = decimal s" using decimal_short [OF assms(2)] by auto
  then show ?thesis
    unfolding begin_groups_def d t using decimal_short [OF assms(1)] decimal_ne
    by (simp add: digits_split)
qed

lemma stol_decimal: "n < 2 ^ 63 \<Longrightarrow> stol (decimal n) = Inr (int n)"
  by (simp add: stol_def decimal_ne decimal_value)

lemma find_begin_skip:
  assumes "\<And>k. k < length pre \<Longrightarrow> begin_groups (drop k (pre @ s)) = None"
  shows "find_begin (pre @ s) = find_begin s"
  using assms
proof (induction pre)
  case (Cons c pre)
  have "begin_groups (c # pre @ s) = None" using Cons.prems [of 0] by simp
  moreover have "find_begin (pre @ s) = find_begin s" using Cons.prems [of "Suc k" for k] by (intro Cons.IH) auto
  ultimately show ?case by simp
qed simp

lemma getlines_line: "CHR 0x0a \<notin> set l \<Longrightarrow> l \<noteq> [] \<Longrightarrow> getlines (l @ CHR 0x0a # s) = l # getlines s"
proof (induction l)
  case (Cons c l)
  then show ?case by (cases "l = []") auto
qed simp

lemma getlines_last: "CHR 0x0a \<notin> set l \<Longrightarrow> l \<noteq> [] \<Longrightarrow> getlines l = [l]"
proof (induction l)
  case (Cons c l)
  then show ?case by (cases "l = []") auto
qed simp

text \<open>The first begin attribute of a document, with a fraction, gives its time in milliseconds, whatever the lines before it are as
  long as none has a begin attribute, and whatever follows it.\<close>

theorem first_begin_read:
  assumes "\<forall>l \<in> set lines. find_begin l = None" and "getlines document = lines @ (pre @ clock_text h m s ms @ rest) # others"
    and "\<And>k. k < length pre \<Longrightarrow> begin_groups (drop k (pre @ clock_text h m s ms @ rest)) = None"
    and "m < 60" and "s < 60" and "ms < 2 ^ 63" and "h < 1000000" and "ms < 1000000"
  shows "parseFirstBegin document = Inr (int ms + 1000 * (int s + 60 * (int m + 60 * int h)))"
proof -
  have "clock_text h m s ms @ rest \<noteq> []" by (simp add: clock_text_def begin_tag_def)
  then obtain c r where cr: "clock_text h m s ms @ rest = c # r" by (cases "clock_text h m s ms @ rest") auto
  then have "find_begin (clock_text h m s ms @ rest) = Some (decimal h, decimal m, decimal s, decimal ms)"
    using begin_groups_clock [OF assms(4,5), of h ms rest] by simp
  then have "find_begin (pre @ clock_text h m s ms @ rest) = Some (decimal h, decimal m, decimal s, decimal ms)"
    using find_begin_skip [OF assms(3)] by simp
  moreover have "List.map_filter find_begin lines = []" using assms(1) by (simp add: map_filter_def filter_empty_conv)
  ultimately have "parseFirstBegin document = begin_ms (decimal h, decimal m, decimal s, decimal ms)"
    using assms(2) by (simp add: parseFirstBegin_def map_filter_def)
  then show ?thesis
    using assms(4-8) by (simp add: begin_ms_def stol_decimal Let_def)
qed

text \<open>A begin attribute without a fraction, which the expression admits, is not read: the conversion of the missing digits
  throws, and no handler of the parser catches that exception.\<close>

theorem begin_without_fraction_throws:
  assumes "m < 60" and "s < 60" and "h < 1000000"
  shows "parseFirstBegin (begin_tag @ decimal h @ '':'' @ decimal m @ '':'' @ decimal s @ [CHR 0x22]) = Inl Thrown"
proof -
  let ?t = "begin_tag @ decimal h @ '':'' @ decimal m @ '':'' @ decimal s @ [CHR 0x22]"
  have d: "drop (length begin_tag) ?t = decimal h @ CHR '':'' # decimal m @ CHR '':'' # decimal s @ [CHR 0x22]"
    and t: "take (length begin_tag) ?t = begin_tag" by simp_all
  have "take 2 (decimal s) = decimal s" using decimal_short [OF assms(2)] by auto
  then have g: "begin_groups ?t = Some (decimal h, decimal m, decimal s, [])"
    unfolding begin_groups_def d t using decimal_short [OF assms(1)] decimal_ne by (simp add: digits_split)
  have "CHR 0x0a \<notin> set (decimal n)" for n
    using decimal_digits [of n] by (auto simp: list_all_iff is_digit_def)
  then have "CHR 0x0a \<notin> set ?t" by (simp add: begin_tag_def)
  then have "getlines ?t = [?t]" by (intro getlines_last) (simp_all add: begin_tag_def)
  moreover have "find_begin ?t = Some (decimal h, decimal m, decimal s, [])"
    using g by (cases ?t) (simp_all add: begin_tag_def)
  ultimately show ?thesis
    using assms by (simp add: parseFirstBegin_def map_filter_def begin_ms_def stol_decimal) (simp add: stol_def)
qed

theorem begin_without_fraction_throws_witness:
  "parseFirstBegin (begin_tag @ decimal 0 @ '':'' @ decimal 1 @ '':'' @ decimal 2 @ [CHR 0x22]) = Inl Thrown"
  by (rule begin_without_fraction_throws) simp_all

lemma demo_no_begin: "find_begin ''<tt>'' = None" "begin_groups (CHR ''<'' # clock_text 1 2 3 450) = None"
  by (simp_all add: begin_groups_def begin_tag_def clock_text_def)

theorem first_begin_read_witness:
  "parseFirstBegin (''<tt>'' @ CHR 0x0a # ''<'' @ clock_text 1 2 3 450 @ []) = Inr 3723450"
proof -
  have "CHR 0x0a \<notin> set (decimal n)" for n
    using decimal_digits [of n] by (auto simp: list_all_iff is_digit_def)
  then have "CHR 0x0a \<notin> set (''<'' @ clock_text 1 2 3 450)" by (simp add: clock_text_def begin_tag_def)
  then have "getlines (''<tt>'' @ CHR 0x0a # ''<'' @ clock_text 1 2 3 450 @ []) = [''<tt>''] @ (''<'' @ clock_text 1 2 3 450 @ []) # []"
    using getlines_line [of "''<tt>''"] getlines_last [of "''<'' @ clock_text 1 2 3 450"] by simp
  then have "parseFirstBegin (''<tt>'' @ CHR 0x0a # ''<'' @ clock_text 1 2 3 450 @ []) = Inr (int 450 + 1000 * (int 3 + 60 * (int 2 + 60 * int 1)))"
    by (rule first_begin_read [rotated]) (simp_all only: demo_no_begin list.set ball_simps, use demo_no_begin(2) in simp_all)
  then show ?thesis by simp
qed

section \<open>Segments reach the channel\<close>


text \<open>The offset of a parser that is not linear sends nothing; in linear content the time stamp is sent once.\<close>

lemma ttml_offset_once:
  assumes "ttml_offset positions position dat t = Inr t'"
  shows "tt_sent t' = tt_sent t \<or> (\<exists>ts. tt_sent t' = tt_sent t @ [TtmlTimestamp ts] \<and> \<not> m_sentOffset t \<and> m_sentOffset t' \<and> m_isLinear t)"
  using assms by (auto simp: ttml_offset_def Let_def tt_send_def bindE_eq_Inr split: if_splits prod.splits)



end
