(* ===== verification/Cdmi_Decryptor.thy ===== *)
theory Cdmi_Decryptor
  imports Drm_Pssh
begin

text \<open>
  The decryptor element of \<^verbatim>\<open>gst-plugins/drm/gst/gstcdmidecryptor.cpp\<close>: negotiation of caps, the protection event that
  creates the session, decryption of buffers with its counters of failures, and the changes of state. The mutex makes
  each function one step, except that \<^verbatim>\<open>transform_ip\<close> may wait for its condition. GStreamer, the session manager and
  OpenCDM are parameters; what is asked of them is recorded in order, and an answer may depend on everything asked before.
  Log output, class initialisation and the stubs of the Ubuntu build are left out.
\<close>

section \<open>The clear key workaround\<close>

definition WIDEVINE_PSSH_KEYID_OFFSET :: nat where "WIDEVINE_PSSH_KEYID_OFFSET = 36"
definition CK_PSSH_KEYID_OFFSET :: nat where "CK_PSSH_KEYID_OFFSET = 32"
definition COMMON_KEYID_SIZE :: nat where "COMMON_KEYID_SIZE = 16"

definition WVSamplePSSH :: "byte list" where
  "WVSamplePSSH =
    [0x00, 0x00, 0x00, 0x3c, 0x70, 0x73, 0x73, 0x68, 0x00, 0x00, 0x00, 0x00,
     0xed, 0xef, 0x8b, 0xa9, 0x79, 0xd6, 0x4a, 0xce, 0xa3, 0xc8, 0x27, 0xdc, 0xd5, 0x1d, 0x21, 0xed,
     0x00, 0x00, 0x00, 0x1c, 0x08, 0x01, 0x12, 0x10,
     0x00, 0x00, 0x00, 0x00, 0x00, 0x00, 0x00, 0x00, 0x00, 0x00, 0x00, 0x00, 0x00, 0x00, 0x00, 0x00,
     0x22, 0x06, 0x74, 0x65, 0x73, 0x74, 0x5f, 0x37]"

definition ReplaceKIDPsshData :: "bool \<Rightarrow> mem \<Rightarrow> mem option" where
  "ReplaceKIDPsshData malloc_ok InputData =
     (if CK_PSSH_KEYID_OFFSET + COMMON_KEYID_SIZE \<le> length InputData \<and> malloc_ok
      then Some (foldl (\<lambda>m k. m[WIDEVINE_PSSH_KEYID_OFFSET + k := InputData ! (CK_PSSH_KEYID_OFFSET + k)]) WVSamplePSSH [0..<COMMON_KEYID_SIZE])
      else None)"

section \<open>Caps\<close>

datatype cap_value = CapString "string option" | CapOther nat

record cap =
  cap_name :: string
  cap_fields :: "(string \<times> cap_value) list"

type_synonym caps = "cap list"

definition get_string :: "cap \<Rightarrow> string \<Rightarrow> string option" where
  "get_string c k = (case map_of (cap_fields c) k of Some (CapString s) \<Rightarrow> s | _ \<Rightarrow> None)"

fun put_field :: "string \<Rightarrow> cap_value \<Rightarrow> (string \<times> cap_value) list \<Rightarrow> (string \<times> cap_value) list" where
  "put_field k v [] = [(k, v)]"
| "put_field k v ((k', v') # fs) = (if k = k' then (k, v) # fs else (k', v') # put_field k v fs)"

definition cap_set :: "string \<Rightarrow> cap_value \<Rightarrow> cap \<Rightarrow> cap" where
  "cap_set k v c = c\<lparr>cap_fields := put_field k v (cap_fields c)\<rparr>"

definition cap_remove :: "(string \<Rightarrow> bool) \<Rightarrow> cap \<Rightarrow> cap" where
  "cap_remove P c = c\<lparr>cap_fields := filter (\<lambda>(k, v). \<not> P k) (cap_fields c)\<rparr>"

text \<open>Structures are equal when they agree in name, number of fields and every field, in any order.\<close>

definition cap_equal :: "cap \<Rightarrow> cap \<Rightarrow> bool" where
  "cap_equal a b \<longleftrightarrow> cap_name a = cap_name b \<and> length (cap_fields a) = length (cap_fields b)
     \<and> list_all (\<lambda>(k, v). map_of (cap_fields b) k = Some v) (cap_fields a)"

definition gst_cdmicapsappendifnotduplicate :: "caps \<Rightarrow> cap \<Rightarrow> caps" where
  "gst_cdmicapsappendifnotduplicate destCaps c = (if list_ex (\<lambda>t. cap_equal t c) destCaps then destCaps else destCaps @ [c])"

definition srcMimeTypes :: "string list" where
  "srcMimeTypes = [''video/x-h264'', ''video/x-h264(memory:SecMem)'', ''audio/mpeg'', ''video/x-h265'',
     ''video/x-h265(memory:SecMem)'', ''audio/x-eac3'', ''audio/x-gst-fourcc-ec_3'', ''audio/x-ac3'', ''audio/x-opus'']"

definition stream_fields :: "string list" where
  "stream_fields = [''base-profile'', ''codec_data'', ''height'', ''framerate'', ''level'', ''pixel-aspect-ratio'',
     ''profile'', ''rate'', ''width'']"

datatype pad_direction = PadUnknown | PadSrc | PadSink

text \<open>The caps that this element needs on its sink pad for those on its source pad, and the other way round.\<close>

definition source_cap :: "string option \<Rightarrow> cap \<Rightarrow> cap" where
  "source_cap selectedProtection c =
     (cap_set ''original-media-type'' (CapString (Some (cap_name c)))
       (cap_set ''protection-system'' (CapString selectedProtection) (cap_remove (\<lambda>k. k \<in> set stream_fields) c)))
     \<lparr>cap_name := ''application/x-cenc''\<rparr>"

definition has_prefix :: "string \<Rightarrow> string \<Rightarrow> bool" where "has_prefix p s = (take (length p) s = p)"

definition drm_field :: "string \<Rightarrow> bool" where
  "drm_field k = (has_prefix ''protection-system'' k \<or> has_prefix ''original-media-type'' k)"

definition sink_cap :: "cap \<Rightarrow> cap option" where
  "sink_cap c =
     (if map_of (cap_fields c) ''original-media-type'' \<noteq> None
      then Some (cap_remove drm_field (case get_string c ''original-media-type'' of None \<Rightarrow> c | Some n \<Rightarrow> c\<lparr>cap_name := n\<rparr>))
      else if cap_name c \<in> set srcMimeTypes then Some c else None)"

section \<open>The element\<close>

datatype transform_flow = FlowOk | FlowNotSupported | FlowError

record protection_meta =
  pm_iv_size :: "nat option"
  pm_encrypted :: "bool option"
  pm_subsample_count :: "nat option"
  pm_iv :: "mem option option"
  pm_kid :: "mem option option"
  pm_subsamples :: "mem option option"

datatype cdmi_action =
    RefPad | UnrefPad | UnrefEvent | QueryManager | MapInitData | UnmapInitData | AllocPssh | FreePssh
  | MapSubsamples | UnmapSubsamples | RemoveMeta | MetaDataCb
  | LaProfileBegin nat | LaProfileEnd nat | LaProfileError | ProfileBegin nat | ProfileEnd nat | ProfileError nat transform_flow
  | CreateSession string mem nat "nat option"
  | SetFailure int
  | DecryptCall nat "mem option" "mem option" nat "mem option" "caps option"
  | HdcpMessage
  | DecryptMessage int
  | ForwardEvent
  | SvpGetContext | SvpFreeContext

text \<open>The waiter of the condition: the meta data of the buffer it waits with, and whether it was signalled.\<close>

datatype waiter = NoWaiter | Waiter protection_meta bool

record cdmi =
  sessionManager :: bool
  drmSession :: "nat option"
  cd_player :: "nat option"
  streamReceived :: bool
  canWait :: bool
  firstsegprocessed :: bool
  cd_mediaType :: nat
  cd_condition :: waiter
  selectedProtection :: "string option"
  decryptFailCount :: u16
  hdcpOpProtectionFailCount :: u16
  notifyDecryptError :: bool
  streamEncrypted :: bool
  ignoreSVP :: bool
  sinkCaps :: "caps option"
  svpCtx :: bool
  cd_trace :: "cdmi_action list"

record cdmi_env =
  amlogic :: bool
  ocdm_transform_caps :: "caps \<Rightarrow> caps"
  caps_intersect :: "caps \<Rightarrow> caps \<Rightarrow> caps"
  caps_subset :: "caps \<Rightarrow> caps \<Rightarrow> bool"
  query_caps :: "bool \<Rightarrow> caps \<Rightarrow> caps option"
  current_caps :: "cdmi_action list \<Rightarrow> caps option"
  manager_answer :: "cdmi_action list \<Rightarrow> bool"
  mIsWVKIDWorkaround :: bool
  manager_active :: "cdmi_action list \<Rightarrow> bool"
  create_session :: "cdmi_action list \<Rightarrow> nat option \<times> int"
  decrypt_answer :: "cdmi_action list \<Rightarrow> int"
  cd_map_ok :: "cdmi_action list \<Rightarrow> bool"
  cd_malloc_ok :: "cdmi_action list \<Rightarrow> bool"
  parent_sink_event :: "cdmi_action list \<Rightarrow> bool"

definition cd_emit :: "cdmi_action \<Rightarrow> cdmi \<Rightarrow> cdmi" where "cd_emit a st = st\<lparr>cd_trace := cd_trace st @ [a]\<rparr>"

definition eGST_MEDIATYPE_MANIFEST :: nat where "eGST_MEDIATYPE_MANIFEST = 4"

definition gst_cdmidecryptor_init :: cdmi where
  "gst_cdmidecryptor_init = \<lparr>sessionManager = False, drmSession = None, cd_player = None, streamReceived = False,
     canWait = False, firstsegprocessed = False, cd_mediaType = eGST_MEDIATYPE_MANIFEST, cd_condition = NoWaiter,
     selectedProtection = None, decryptFailCount = 0, hdcpOpProtectionFailCount = 0, notifyDecryptError = True,
     streamEncrypted = False, ignoreSVP = False, sinkCaps = None, svpCtx = False, cd_trace = []\<rparr>"

definition cd_dispose :: "cdmi \<Rightarrow> cdmi" where "cd_dispose st = st\<lparr>sinkCaps := None\<rparr>"

section \<open>Negotiation\<close>

definition select_protection :: "caps \<Rightarrow> cdmi \<Rightarrow> cdmi" where
  "select_protection cs st =
     (if selectedProtection st \<noteq> None then st
      else case cs of [] \<Rightarrow> st
      | c # _ \<Rightarrow>
          (case get_string c ''protection-system'' of
             None \<Rightarrow> st
           | Some u \<Rightarrow>
               if u \<in> {PLAYREADY_UUID, WIDEVINE_UUID, VERIMATRIX_UUID} then st\<lparr>selectedProtection := Some u\<rparr>
               else if u = CLEARKEY_UUID then st\<lparr>selectedProtection := Some u, ignoreSVP := True\<rparr>
               else st))"

fun caps_loop :: "cdmi_env \<Rightarrow> bool \<Rightarrow> string option \<Rightarrow> caps \<Rightarrow> caps \<Rightarrow> caps" where
  "caps_loop env src sel [] acc = acc"
| "caps_loop env src sel (c # cs) acc =
     (case (if src then Some (source_cap sel c) else sink_cap c) of
        None \<Rightarrow> caps_loop env src sel cs acc
      | Some out \<Rightarrow>
          let acc = gst_cdmicapsappendifnotduplicate acc out;
              acc = (if amlogic env \<and> \<not> src \<and> acc \<noteq> [] then ocdm_transform_caps env acc else acc)
          in caps_loop env src sel cs acc)"

definition transform_caps :: "cdmi_env \<Rightarrow> pad_direction \<Rightarrow> caps \<Rightarrow> caps option \<Rightarrow> cdmi \<Rightarrow> caps option \<times> cdmi" where
  "transform_caps env direction cs filt st =
     (if direction = PadUnknown then (None, st)
      else
        let st = select_protection cs st;
            out = caps_loop env (direction = PadSrc) (selectedProtection st) cs [];
            out = (case filt of None \<Rightarrow> out | Some f \<Rightarrow> caps_intersect env out f);
            st = (if direction = PadSink \<and> out \<noteq> [] then st\<lparr>sinkCaps := Some out\<rparr> else st)
        in (Some out, st))"

text \<open>Not installed in builds for Amlogic.\<close>

definition accept_caps :: "cdmi_env \<Rightarrow> bool \<Rightarrow> caps \<Rightarrow> bool" where
  "accept_caps env sink cs =
     (let ret = (case query_caps env sink cs of None \<Rightarrow> False | Some allowed \<Rightarrow> caps_subset env cs allowed)
      in if \<not> ret \<and> sink then list_ex (\<lambda>c. cap_name c \<in> set srcMimeTypes) cs else ret)"

section \<open>Decryption of a buffer\<close>

definition DECRYPT_FAILURE_THRESHOLD :: nat where "DECRYPT_FAILURE_THRESHOLD = 5"
definition HDCP_OUTPUT_PROTECTION_FAILURE :: int where "HDCP_OUTPUT_PROTECTION_FAILURE = 4427"

text \<open>The label \<^verbatim>\<open>free_resources\<close>.\<close>

definition free_resources :: "transform_flow \<Rightarrow> bool \<Rightarrow> bool \<Rightarrow> cdmi \<Rightarrow> cdmi" where
  "free_resources result mapped has_meta st =
     (let st = (if \<not> firstsegprocessed st \<and> sessionManager st
                then (cd_emit (if \<not> streamEncrypted st then ProfileEnd (cd_mediaType st) else ProfileError (cd_mediaType st) result) st)
                  \<lparr>firstsegprocessed := True\<rparr>
                else st);
          st = (if mapped then cd_emit UnmapSubsamples st else st)
      in if has_meta then cd_emit RemoveMeta st else st)"

definition cd_finish :: "transform_flow \<Rightarrow> bool \<Rightarrow> bool \<Rightarrow> cdmi \<Rightarrow> (transform_flow option \<times> cdmi) res" where
  "cd_finish result mapped has_meta st = Inr (Some result, free_resources result mapped has_meta st)"

text \<open>What follows a call of the session: whether the code goes on to the first segment, and the result.\<close>

definition decrypt_result :: "int \<Rightarrow> cdmi \<Rightarrow> bool \<times> transform_flow \<times> cdmi" where
  "decrypt_result errorCode st =
     (if errorCode \<noteq> 0 \<or> hdcpOpProtectionFailCount st \<noteq> 0 then
        if errorCode = HDCP_OUTPUT_PROTECTION_FAILURE
        then (True, FlowOk, st\<lparr>hdcpOpProtectionFailCount := hdcpOpProtectionFailCount st + 1\<rparr>)
        else if hdcpOpProtectionFailCount st \<noteq> 0
        then (True, FlowOk, (if DECRYPT_FAILURE_THRESHOLD \<le> unat (hdcpOpProtectionFailCount st) then cd_emit HdcpMessage st else st)
               \<lparr>hdcpOpProtectionFailCount := 0\<rparr>)
        else
          let st = st\<lparr>decryptFailCount := decryptFailCount st + 1\<rparr>
          in if DECRYPT_FAILURE_THRESHOLD \<le> unat (decryptFailCount st) \<and> notifyDecryptError st
             then (False, FlowError, cd_emit (DecryptMessage errorCode) (st\<lparr>notifyDecryptError := False\<rparr>))
             else (False, FlowOk, st)
      else (True, FlowOk, st\<lparr>decryptFailCount := 0, hdcpOpProtectionFailCount := 0\<rparr>))"

definition decrypt_sample ::
  "cdmi_env \<Rightarrow> nat \<Rightarrow> mem option \<Rightarrow> mem option \<Rightarrow> nat \<Rightarrow> mem option \<Rightarrow> cdmi \<Rightarrow> (transform_flow option \<times> cdmi) res" where
  "decrypt_sample env session kid iv subSampleCount subsamples st =
     (let st = cd_emit (DecryptCall session kid iv subSampleCount subsamples (sinkCaps st)) st;
          (go_on, result, st) = decrypt_result (decrypt_answer env (cd_trace st)) (st\<lparr>streamEncrypted := True\<rparr>);
          st = (if go_on \<and> \<not> firstsegprocessed st \<and> sessionManager st
                then (cd_emit (ProfileBegin (cd_mediaType st)) st)\<lparr>firstsegprocessed := True\<rparr> else st)
      in cd_finish result (subsamples \<noteq> None) True st)"

text \<open>From the end of the wait on. Unmapping a buffer that could not be mapped uses an uninitialised map.\<close>

definition transform_key :: "cdmi_env \<Rightarrow> protection_meta \<Rightarrow> cdmi \<Rightarrow> (transform_flow option \<times> cdmi) res" where
  "transform_key env m st =
     (if \<not> streamReceived st then cd_finish FlowNotSupported False True st
      else
        case (drmSession st, pm_iv_size m, pm_encrypted m) of
          (Some session, Some ivSize, Some encrypted) \<Rightarrow>
            if ivSize = 0 \<or> \<not> encrypted then cd_finish FlowOk False True st
            else
              (case (pm_subsample_count m, pm_iv m, pm_kid m) of
                 (Some subSampleCount, Some iv, Some kid) \<Rightarrow>
                   if subSampleCount = 0 then decrypt_sample env session kid iv subSampleCount None st
                   else
                     (case pm_subsamples m of
                        Some (Some subsamples) \<Rightarrow>
                          if cd_map_ok env (cd_trace st)
                          then decrypt_sample env session kid iv subSampleCount (Some subsamples) (cd_emit MapSubsamples st)
                          else Inl Undefined
                      | _ \<Rightarrow> cd_finish FlowNotSupported False True st)
               | _ \<Rightarrow> cd_finish FlowNotSupported False True st)
        | _ \<Rightarrow> cd_finish FlowNotSupported False True st)"

text \<open>A buffer is its protection meta data, if it has any; no flow is returned while the thread waits.\<close>

definition transform_ip :: "cdmi_env \<Rightarrow> protection_meta option option \<Rightarrow> cdmi \<Rightarrow> (transform_flow option \<times> cdmi) res" where
  "transform_ip env buf st =
     (case buf of
        None \<Rightarrow> cd_finish FlowNotSupported False False st
      | Some None \<Rightarrow>
          if amlogic env then
            (case drmSession st of
               Some session \<Rightarrow> cd_finish FlowOk False False (cd_emit (DecryptCall session None None 0 None (sinkCaps st)) st)
             | None \<Rightarrow> cd_finish FlowNotSupported False False st)
          else cd_finish FlowOk False False st
      | Some (Some m) \<Rightarrow>
          if \<not> canWait st \<and> \<not> streamReceived st then cd_finish FlowNotSupported False True st
          else if \<not> streamReceived st then Inr (None, st\<lparr>cd_condition := Waiter m False\<rparr>)
          else transform_key env m st)"

definition transform_resume :: "cdmi_env \<Rightarrow> cdmi \<Rightarrow> (transform_flow option \<times> cdmi) res" where
  "transform_resume env st =
     (case cd_condition st of
        NoWaiter \<Rightarrow> Inr (None, st)
      | Waiter m _ \<Rightarrow> transform_key env m (st\<lparr>cd_condition := NoWaiter\<rparr>))"

definition cond_signal :: "cdmi \<Rightarrow> cdmi" where
  "cond_signal st = (case cd_condition st of NoWaiter \<Rightarrow> st | Waiter m _ \<Rightarrow> st\<lparr>cd_condition := Waiter m True\<rparr>)"

section \<open>Events, states and properties\<close>

definition media_of_caps :: "caps \<Rightarrow> nat option" where
  "media_of_caps cs =
     (case (case cs of [] \<Rightarrow> None | c # _ \<Rightarrow> get_string c ''original-media-type'') of
        None \<Rightarrow> None
      | Some n \<Rightarrow>
          if n \<in> {''audio/mpeg'', ''audio/x-opus'', ''audio/x-eac3'', ''audio/x-ac3'', ''audio/x-gst-fourcc-ec_3''} then Some 1
          else if n \<in> {''video/x-h264'', ''video/x-h265''} then Some 0 else None)"

text \<open>The part of the protection event that holds the mutex.\<close>

definition protection_session :: "cdmi_env \<Rightarrow> string \<Rightarrow> mem \<Rightarrow> cdmi \<Rightarrow> cdmi" where
  "protection_session env systemId pssh st =
     (let st = cd_emit (CreateSession systemId pssh (cd_mediaType st) (cd_player st)) (cd_emit MetaDataCb st);
          (session, err) = create_session env (cd_trace st);
          st = st\<lparr>drmSession := session\<rparr>;
          st = (if err \<noteq> - 1 then cd_emit (SetFailure err) st else st);
          st = (case session of
                  None \<Rightarrow> let st = st\<lparr>canWait := False\<rparr>
                          in if manager_active env (cd_trace st) then cd_emit LaProfileError st else st
                | Some _ \<Rightarrow>
                    let st = cd_emit (LaProfileEnd (cd_mediaType st)) (st\<lparr>streamReceived := True\<rparr>)
                    in if \<not> firstsegprocessed st then cd_emit (ProfileBegin (cd_mediaType st)) st else st)
      in cond_signal st)"

text \<open>From the mapped init data on; the caps of the pad are read when the media type is not known yet.\<close>

definition protection_mapped :: "cdmi_env \<Rightarrow> string \<Rightarrow> mem \<Rightarrow> cdmi \<Rightarrow> (bool \<times> cdmi) res" where
  "protection_mapped env systemId initdata st =
     (case (if cd_mediaType st = eGST_MEDIATYPE_MANIFEST
            then (case current_caps env (cd_trace st) of None \<Rightarrow> Inl NullDeref | Some cs \<Rightarrow> Inr (media_of_caps cs))
            else Inr (Some (cd_mediaType st))) of
        Inl f \<Rightarrow> Inl f
      | Inr None \<Rightarrow> Inr (False, st)
      | Inr (Some media) \<Rightarrow>
          let st = st\<lparr>cd_mediaType := media\<rparr>;
              pssh = (if mIsWVKIDWorkaround env then ReplaceKIDPsshData (cd_malloc_ok env (cd_trace st)) initdata else Some initdata)
          in case pssh of
               None \<Rightarrow> Inr (False, st)
             | Some d \<Rightarrow>
                 let st = (if mIsWVKIDWorkaround env then cd_emit AllocPssh st else st);
                     st = protection_session env systemId d (cd_emit (LaProfileBegin media) st);
                     st = cd_emit UnrefEvent (cd_emit UnmapInitData (cd_emit UnrefPad st))
                 in Inr (True, if mIsWVKIDWorkaround env then cd_emit FreePssh st else st))"

definition protection_event :: "cdmi_env \<Rightarrow> string \<Rightarrow> mem \<Rightarrow> cdmi \<Rightarrow> (bool \<times> cdmi) res" where
  "protection_event env systemId initdata st =
     (let st = cd_emit RefPad st;
          st = (if sessionManager st then st
                else let st = cd_emit QueryManager st in st\<lparr>sessionManager := manager_answer env (cd_trace st)\<rparr>)
      in if \<not> sessionManager st then Inr (False, st)
         else
           case (if mIsWVKIDWorkaround env then Inr (systemId \<noteq> CLEARKEY_UUID, WIDEVINE_UUID)
                 else case selectedProtection st of None \<Rightarrow> Inl NullDeref | Some u \<Rightarrow> Inr (systemId \<noteq> u, systemId)) of
             Inl f \<Rightarrow> Inl f
           | Inr (ignored, system) \<Rightarrow>
               if ignored then Inr (True, cd_emit UnrefEvent st)
               else if \<not> cd_map_ok env (cd_trace st) then Inr (False, st)
               else protection_mapped env system initdata (cd_emit MapInitData st))"

definition sink_event :: "cdmi_env \<Rightarrow> (string \<times> mem) option \<Rightarrow> cdmi \<Rightarrow> (bool \<times> cdmi) res" where
  "sink_event env ev st =
     (case ev of
        Some (systemId, initdata) \<Rightarrow> protection_event env systemId initdata st
      | None \<Rightarrow> let st = cd_emit ForwardEvent st in Inr (parent_sink_event env (cd_trace st), st))"

datatype transition = NullToReady | ReadyToPaused | PausedToReady | ReadyToNull | OtherTransition

definition cd_changestate :: "cdmi_env \<Rightarrow> transition \<Rightarrow> cdmi \<Rightarrow> cdmi" where
  "cd_changestate env t st =
     (case t of
        ReadyToPaused \<Rightarrow> st\<lparr>canWait := True\<rparr>
      | PausedToReady \<Rightarrow> cond_signal (st\<lparr>canWait := False\<rparr>)
      | NullToReady \<Rightarrow> if amlogic env \<and> \<not> svpCtx st then (cd_emit SvpGetContext st)\<lparr>svpCtx := True\<rparr> else st
      | ReadyToNull \<Rightarrow> if amlogic env \<and> svpCtx st then (cd_emit SvpFreeContext st)\<lparr>svpCtx := False\<rparr> else st
      | OtherTransition \<Rightarrow> st)"

datatype cd_property = PROP_PLAYER bool | PROP_DRM_SESSION_MANAGER "nat option" | OtherProperty

definition set_property :: "cd_property \<Rightarrow> cdmi \<Rightarrow> cdmi" where
  "set_property p st =
     (case p of
        PROP_DRM_SESSION_MANAGER v \<Rightarrow> st\<lparr>cd_player := v\<rparr>
      | PROP_PLAYER v \<Rightarrow> st\<lparr>sessionManager := v\<rparr>
      | OtherProperty \<Rightarrow> st)"

end
