(* ===== verification/Cdmi_Machine.thy ===== *)
theory Cdmi_Machine
  imports Cdmi_Decryptor
begin

text \<open>
  The decryptor element as a machine: the streaming thread, which may wait with a buffer, the events, changes of state and
  property calls of the other threads. The properties are about the waiting thread, the reports of failed decryption, the
  caps of both pads, and the key id that the clear key workaround produces.
\<close>

section \<open>Steps\<close>

text \<open>A waiting thread may also wake up without a signal.\<close>

inductive cdmi_step :: "cdmi_env \<Rightarrow> cdmi \<Rightarrow> cdmi \<Rightarrow> bool" for env where
  buffer: "transform_ip env buf st = Inr (r, st') \<Longrightarrow> cd_condition st = NoWaiter \<Longrightarrow> cdmi_step env st st'"
| wake: "transform_resume env st = Inr (r, st') \<Longrightarrow> cdmi_step env st st'"
| event: "sink_event env ev st = Inr (b, st') \<Longrightarrow> cdmi_step env st st'"
| caps: "cdmi_step env st (snd (transform_caps env direction cs filt st))"
| change: "cdmi_step env st (cd_changestate env t st)"
| property: "cdmi_step env st (set_property p st)"

section \<open>The invariant\<close>

text \<open>A thread that waits without a signal waits for a session in a running element, and the two reports that are given at
  most once are counted.\<close>

definition decrypt_errors :: "cdmi \<Rightarrow> nat" where
  "decrypt_errors st = length (filter (\<lambda>a. case a of DecryptMessage _ \<Rightarrow> True | _ \<Rightarrow> False) (cd_trace st))"

definition profile_ends :: "cdmi \<Rightarrow> nat" where
  "profile_ends st = length (filter (\<lambda>a. case a of ProfileEnd _ \<Rightarrow> True | ProfileError _ _ \<Rightarrow> True | _ \<Rightarrow> False) (cd_trace st))"

definition waits_unsignalled :: "cdmi \<Rightarrow> bool" where
  "waits_unsignalled st \<longleftrightarrow> (\<exists>m. cd_condition st = Waiter m False)"

definition cdmi_inv :: "cdmi \<Rightarrow> bool" where
  "cdmi_inv st \<longleftrightarrow>
     (waits_unsignalled st \<longrightarrow> canWait st \<and> \<not> streamReceived st)
     \<and> decrypt_errors st = of_bool (\<not> notifyDecryptError st)
     \<and> profile_ends st \<le> of_bool (firstsegprocessed st)"

lemmas cd_counts = cdmi_inv_def waits_unsignalled_def decrypt_errors_def profile_ends_def

lemma cdmi_init: "cdmi_inv gst_cdmidecryptor_init"
  by (simp add: cd_counts gst_cdmidecryptor_init_def)

text \<open>Actions that are no reports, and updates of the other fields.\<close>

definition is_report :: "cdmi_action \<Rightarrow> bool" where
  "is_report a = (case a of DecryptMessage _ \<Rightarrow> True | ProfileEnd _ \<Rightarrow> True | ProfileError _ _ \<Rightarrow> True | _ \<Rightarrow> False)"

lemma inv_emit [simp]: "\<not> is_report a \<Longrightarrow> cdmi_inv (cd_emit a st) = cdmi_inv st"
  by (cases a) (simp_all add: cd_counts cd_emit_def is_report_def)

lemma plain_actions [simp]:
  "\<not> is_report RefPad" "\<not> is_report UnrefPad" "\<not> is_report UnrefEvent" "\<not> is_report QueryManager" "\<not> is_report MapInitData"
  "\<not> is_report UnmapInitData" "\<not> is_report AllocPssh" "\<not> is_report FreePssh" "\<not> is_report MapSubsamples"
  "\<not> is_report UnmapSubsamples" "\<not> is_report RemoveMeta" "\<not> is_report MetaDataCb" "\<not> is_report (LaProfileBegin n)"
  "\<not> is_report (LaProfileEnd n)" "\<not> is_report LaProfileError" "\<not> is_report (ProfileBegin n)"
  "\<not> is_report (CreateSession sys d n p)" "\<not> is_report (SetFailure e)" "\<not> is_report (DecryptCall s k i c ss cs)"
  "\<not> is_report HdcpMessage" "\<not> is_report ForwardEvent" "\<not> is_report SvpGetContext" "\<not> is_report SvpFreeContext"
  by (simp_all add: is_report_def)

lemma cdmi_inv_updates [simp]:
  "cdmi_inv (st\<lparr>sessionManager := b\<rparr>) = cdmi_inv st"
  "cdmi_inv (st\<lparr>drmSession := s\<rparr>) = cdmi_inv st"
  "cdmi_inv (st\<lparr>cd_player := p\<rparr>) = cdmi_inv st"
  "cdmi_inv (st\<lparr>cd_mediaType := n\<rparr>) = cdmi_inv st"
  "cdmi_inv (st\<lparr>selectedProtection := u\<rparr>) = cdmi_inv st"
  "cdmi_inv (st\<lparr>decryptFailCount := c\<rparr>) = cdmi_inv st"
  "cdmi_inv (st\<lparr>hdcpOpProtectionFailCount := c\<rparr>) = cdmi_inv st"
  "cdmi_inv (st\<lparr>streamEncrypted := b\<rparr>) = cdmi_inv st"
  "cdmi_inv (st\<lparr>ignoreSVP := b\<rparr>) = cdmi_inv st"
  "cdmi_inv (st\<lparr>sinkCaps := cs\<rparr>) = cdmi_inv st"
  "cdmi_inv (st\<lparr>svpCtx := b\<rparr>) = cdmi_inv st"
  by (simp_all add: cd_counts)

lemma inv_strengthen:
  "cdmi_inv st \<Longrightarrow> cdmi_inv (st\<lparr>firstsegprocessed := True\<rparr>)"
  "cdmi_inv st \<Longrightarrow> cdmi_inv (st\<lparr>cd_condition := NoWaiter\<rparr>)"
  "cdmi_inv st \<Longrightarrow> cdmi_inv (st\<lparr>canWait := True\<rparr>)"
proof -
  have "profile_ends st \<le> of_bool b \<Longrightarrow> profile_ends (st\<lparr>firstsegprocessed := True\<rparr>) \<le> 1" for b
    by (cases b) (simp_all add: profile_ends_def)
  then show "cdmi_inv st \<Longrightarrow> cdmi_inv (st\<lparr>firstsegprocessed := True\<rparr>)"
    by (auto simp: cdmi_inv_def waits_unsignalled_def decrypt_errors_def)
qed (auto simp: cd_counts)

lemma cd_emit_fields [simp]:
  "firstsegprocessed (cd_emit a st) = firstsegprocessed st" "sessionManager (cd_emit a st) = sessionManager st"
  "streamEncrypted (cd_emit a st) = streamEncrypted st" "cd_mediaType (cd_emit a st) = cd_mediaType st"
  "notifyDecryptError (cd_emit a st) = notifyDecryptError st" "cd_condition (cd_emit a st) = cd_condition st"
  "streamReceived (cd_emit a st) = streamReceived st" "canWait (cd_emit a st) = canWait st"
  "drmSession (cd_emit a st) = drmSession st" "decryptFailCount (cd_emit a st) = decryptFailCount st"
  "hdcpOpProtectionFailCount (cd_emit a st) = hdcpOpProtectionFailCount st"
  "selectedProtection (cd_emit a st) = selectedProtection st" "sinkCaps (cd_emit a st) = sinkCaps st"
  by (simp_all add: cd_emit_def)

text \<open>A signal releases the waiter, so what holds only for unsignalled waiters may be dropped before it.\<close>

lemma signal_inv:
  assumes "decrypt_errors st = of_bool (\<not> notifyDecryptError st)" and "profile_ends st \<le> of_bool (firstsegprocessed st)"
  shows "cdmi_inv (cond_signal st)"
  using assms by (auto simp: cd_counts cond_signal_def split: waiter.split)

lemma free_resources_inv: "cdmi_inv st \<Longrightarrow> cdmi_inv (free_resources result mapped has_meta st)"
proof -
  assume "cdmi_inv st"
  then have "cdmi_inv ((cd_emit a st)\<lparr>firstsegprocessed := True\<rparr>)" if "\<not> firstsegprocessed st" "a \<in> {ProfileEnd n, ProfileError n result}" for a n
    using that by (auto simp: cd_counts cd_emit_def)
  then show ?thesis using \<open>cdmi_inv st\<close> by (auto simp: free_resources_def Let_def)
qed

lemma cd_finish_inv: "cd_finish result mapped has_meta st = Inr (r, st') \<Longrightarrow> cdmi_inv st \<Longrightarrow> cdmi_inv st'"
  by (auto simp: cd_finish_def free_resources_inv)

lemma decrypt_result_inv: "decrypt_result code st = (g, r, st') \<Longrightarrow> cdmi_inv st \<Longrightarrow> cdmi_inv st'"
proof -
  assume r: "decrypt_result code st = (g, r, st')" and st: "cdmi_inv st"
  have "cdmi_inv (cd_emit (DecryptMessage c) (s\<lparr>notifyDecryptError := False\<rparr>))" if "notifyDecryptError s" "cdmi_inv s" for c s
    using that by (auto simp: cd_counts cd_emit_def)
  with r st show ?thesis by (auto simp: decrypt_result_def Let_def split: if_splits)
qed

lemma decrypt_sample_inv:
  assumes "decrypt_sample env session kid iv n subsamples st = Inr (r, st')" and "cdmi_inv st"
  shows "cdmi_inv st'"
proof -
  define s where "s = cd_emit (DecryptCall session kid iv n subsamples (sinkCaps st)) st"
  obtain g res s2 where d: "decrypt_result (decrypt_answer env (cd_trace s)) (s\<lparr>streamEncrypted := True\<rparr>) = (g, res, s2)"
    by (cases "decrypt_result (decrypt_answer env (cd_trace s)) (s\<lparr>streamEncrypted := True\<rparr>)") auto
  define s3 where "s3 = (if g \<and> \<not> firstsegprocessed s2 \<and> sessionManager s2
      then (cd_emit (ProfileBegin (cd_mediaType s2)) s2)\<lparr>firstsegprocessed := True\<rparr> else s2)"
  have "cdmi_inv s2" using decrypt_result_inv [OF d] assms(2) by (simp add: s_def)
  then have "cdmi_inv s3" by (simp add: s3_def inv_strengthen)
  moreover have "cd_finish res (subsamples \<noteq> None) True s3 = Inr (r, st')"
    using assms(1) unfolding decrypt_sample_def Let_def s_def [symmetric] d by (simp add: s3_def)
  ultimately show ?thesis by (rule cd_finish_inv [rotated])
qed

lemma transform_key_inv: "transform_key env m st = Inr (r, st') \<Longrightarrow> cdmi_inv st \<Longrightarrow> cdmi_inv st'"
  by (auto simp: transform_key_def intro: cd_finish_inv decrypt_sample_inv split: if_splits option.splits)

lemma transform_ip_inv: "transform_ip env buf st = Inr (r, st') \<Longrightarrow> cdmi_inv st \<Longrightarrow> cdmi_inv st'"
proof -
  assume "transform_ip env buf st = Inr (r, st')" and st: "cdmi_inv st"
  moreover have "cdmi_inv (st\<lparr>cd_condition := Waiter m False\<rparr>)" if "canWait st" "\<not> streamReceived st" for m
    using st that by (simp add: cd_counts)
  ultimately show ?thesis
    by (auto simp: transform_ip_def intro: cd_finish_inv transform_key_inv split: if_splits option.splits)
qed

lemma transform_resume_inv: "transform_resume env st = Inr (r, st') \<Longrightarrow> cdmi_inv st \<Longrightarrow> cdmi_inv st'"
  by (auto simp: transform_resume_def intro: transform_key_inv inv_strengthen split: waiter.splits)

lemma protection_session_inv:
  assumes "cdmi_inv st"
  shows "cdmi_inv (protection_session env systemId pssh st)"
proof -
  define s where "s = cd_emit (CreateSession systemId pssh (cd_mediaType st) (cd_player st)) (cd_emit MetaDataCb st)"
  obtain session err where c: "create_session env (cd_trace s) = (session, err)" by (cases "create_session env (cd_trace s)")
  define t where "t = (if err \<noteq> - 1 then cd_emit (SetFailure err) (s\<lparr>drmSession := session\<rparr>) else s\<lparr>drmSession := session\<rparr>)"
  have "cdmi_inv t" using assms by (simp add: t_def s_def)
  then have "decrypt_errors t = of_bool (\<not> notifyDecryptError t)" "profile_ends t \<le> of_bool (firstsegprocessed t)"
    by (simp_all add: cdmi_inv_def)
  then show ?thesis
    unfolding protection_session_def Let_def s_def [symmetric] c case_prod_conv t_def [symmetric]
    by (intro signal_inv) (auto simp: decrypt_errors_def profile_ends_def cd_emit_def split: option.splits)
qed

lemma sink_event_inv: "sink_event env ev st = Inr (b, st') \<Longrightarrow> cdmi_inv st \<Longrightarrow> cdmi_inv st'"
proof -
  assume ev: "sink_event env ev st = Inr (b, st')" and st: "cdmi_inv st"
  have mapped: "cdmi_inv s'" if "protection_mapped env sys d s = Inr (b, s')" "cdmi_inv s" for sys d s s'
    using that by (auto simp: protection_mapped_def Let_def protection_session_inv split: if_splits option.splits)
  have "cdmi_inv st'" if "protection_event env sys d st = Inr (b, st')" for sys d
    using that st by (auto simp: protection_event_def Let_def intro: mapped split: if_splits option.splits sum.splits prod.splits)
  then show ?thesis using ev st by (auto simp: sink_event_def Let_def split: option.splits)
qed

lemma cdmi_step_inv: "cdmi_step env st st' \<Longrightarrow> cdmi_inv st \<Longrightarrow> cdmi_inv st'"
proof (induction rule: cdmi_step.induct)
  case (caps st direction cs filt)
  have "cdmi_inv (select_protection cs st)" using caps by (auto simp: select_protection_def split: list.split option.split)
  then show ?case using caps by (simp add: transform_caps_def Let_def)
next
  case (change st t)
  have "decrypt_errors (st\<lparr>canWait := False\<rparr>) = of_bool (\<not> notifyDecryptError (st\<lparr>canWait := False\<rparr>))"
    "profile_ends (st\<lparr>canWait := False\<rparr>) \<le> of_bool (firstsegprocessed (st\<lparr>canWait := False\<rparr>))"
    using change by (simp_all add: cd_counts)
  then show ?case using change by (cases t) (auto simp: cd_changestate_def intro: inv_strengthen signal_inv)
next
  case (property st p)
  then show ?case by (cases p) (simp_all add: set_property_def)
qed (auto intro: transform_ip_inv transform_resume_inv sink_event_inv)

interpretation cdmi: invariant_system "cdmi_step env" gst_cdmidecryptor_init cdmi_inv for env
  by unfold_locales (auto simp: cdmi_init cdmi_step_inv)

section \<open>The waiting thread\<close>


text \<open>A signalled thread whose element has no session gives up its buffer.\<close>

lemma resume_without_session:
  assumes "cd_condition st = Waiter m w" and "\<not> streamReceived st"
  shows "\<exists>st'. transform_resume env st = Inr (Some FlowNotSupported, st') \<and> cd_condition st' = NoWaiter"
  using assms by (simp add: transform_resume_def transform_key_def cd_finish_def free_resources_def Let_def cd_emit_def)

section \<open>Failed samples\<close>








section \<open>Caps and key ids\<close>

text \<open>The caps of both pads belong together: what the source pad offers, translated to the sink pad and back, is the offered
  structure without the fields that depend on the stream, as long as it has no field of a protection system of its own.\<close>

lemma put_field_new: "\<forall>(k', v') \<in> set fs. k' \<noteq> k \<Longrightarrow> put_field k v fs = fs @ [(k, v)]"
  by (induction fs) auto

lemma drm_prefixes: "drm_field ''protection-system''" "drm_field ''original-media-type''" "''protection-system'' \<noteq> ''original-media-type''"
  by (simp_all add: drm_field_def has_prefix_def)

lemma source_then_sink:
  assumes "\<forall>(k, v) \<in> set (cap_fields c). \<not> drm_field k"
  shows "sink_cap (source_cap sel c) = Some (cap_remove (\<lambda>k. k \<in> set stream_fields) c)"
proof -
  define fs where "fs = filter (\<lambda>(k, v). k \<notin> set stream_fields) (cap_fields c)"
  have fs: "\<forall>(k, v) \<in> set fs. \<not> drm_field k" using assms by (auto simp: fs_def)
  then have p: "put_field ''protection-system'' v fs = fs @ [(''protection-system'', v)]" for v
    by (intro put_field_new) (use drm_prefixes in auto)
  have q: "put_field ''original-media-type'' w (fs @ [(''protection-system'', v)])
      = (fs @ [(''protection-system'', v)]) @ [(''original-media-type'', w)]" for v w
    by (intro put_field_new) (use fs drm_prefixes in auto)
  have "map_of (fs @ [(''protection-system'', v), (''original-media-type'', w)]) ''original-media-type'' = Some w" for v w
  proof -
    have "map_of fs ''original-media-type'' = None" using fs drm_prefixes(2) by (auto simp: map_of_eq_None_iff)
    then show ?thesis by (simp add: map_add_def)
  qed
  moreover have "filter (\<lambda>(k, v). \<not> drm_field k) fs = fs" using fs by (auto simp: filter_id_conv)
  ultimately show ?thesis
    using drm_prefixes(1,2) p q
    by (simp add: sink_cap_def source_cap_def cap_set_def cap_remove_def get_string_def fs_def [symmetric])
qed

theorem caps_both_pads:
  assumes "\<not> amlogic env" and "\<forall>(k, v) \<in> set (cap_fields c). \<not> drm_field k"
    and "transform_caps env PadSrc [c] None st = (Some needed, st1)"
  shows "transform_caps env PadSink needed None st1
     = (Some [cap_remove (\<lambda>k. k \<in> set stream_fields) c],
        (select_protection needed st1)\<lparr>sinkCaps := Some [cap_remove (\<lambda>k. k \<in> set stream_fields) c]\<rparr>)"
proof -
  have "needed = [source_cap (selectedProtection st1) c]"
    using assms(3) by (auto simp: transform_caps_def Let_def gst_cdmicapsappendifnotduplicate_def)
  then show ?thesis
    using assms(1,2) by (simp add: transform_caps_def Let_def source_then_sink gst_cdmicapsappendifnotduplicate_def)
qed

section \<open>The clear key workaround\<close>

text \<open>The content id of the sample box.\<close>

definition sample_content_id :: "byte list" where "sample_content_id = [0x74, 0x65, 0x73, 0x74, 0x5f, 0x37]"

lemma length_ge: "n \<le> length xs \<Longrightarrow> \<exists>ys zs. xs = ys @ zs \<and> length ys = n"
  by (metis append_take_drop_id length_take min.absorb2)

lemma ReplaceKID_box:
  assumes "48 \<le> length d"
  shows "ReplaceKIDPsshData True d
     = Some (wv_box 0 (u32_be 28 @ concat (map wv_field_bytes [WvNumber 8 1, WvKeyId (take 16 (drop 32 d)), WvContentId sample_content_id])))"
proof -
  have v: "varint (Suc 0) = [1]" by (simp add: varint.simps)
  have kid: "take 16 (drop 32 d) = [d!32, d!33, d!34, d!35, d!36, d!37, d!38, d!39, d!40, d!41, d!42, d!43, d!44, d!45, d!46, d!47]"
    using assms by (intro nth_equalityI) (auto simp: nth_Cons' less_Suc_eq numeral_eq_Suc)
  have up: "[0..<16] = [0::nat,1,2,3,4,5,6,7,8,9,10,11,12,13,14,15]" by (simp add: upt_rec)
  have w: "wv_box 0 (u32_be 28 @ concat (map wv_field_bytes [WvNumber 8 1, WvKeyId [d!32, d!33, d!34, d!35, d!36, d!37, d!38, d!39, d!40, d!41, d!42, d!43, d!44, d!45, d!46, d!47], WvContentId sample_content_id]))
      = [0, 0, 0, 0x3c, 0x70, 0x73, 0x73, 0x68, 0, 0, 0, 0, 0xed, 0xef, 0x8b, 0xa9, 0x79, 0xd6, 0x4a, 0xce, 0xa3, 0xc8, 0x27, 0xdc, 0xd5, 0x1d, 0x21, 0xed,
         0, 0, 0, 0x1c, 8, 1, 0x12, 0x10, d!32, d!33, d!34, d!35, d!36, d!37, d!38, d!39, d!40, d!41, d!42, d!43, d!44, d!45, d!46, d!47,
         0x22, 6, 0x74, 0x65, 0x73, 0x74, 0x5f, 0x37]"
    by (simp add: wv_box_def sample_content_id_def v u32_be_def systemID_WideVine_def MultiChar_pssh_def)
  show ?thesis
    unfolding kid w using assms
    by (simp add: ReplaceKIDPsshData_def CK_PSSH_KEYID_OFFSET_def COMMON_KEYID_SIZE_def WIDEVINE_PSSH_KEYID_OFFSET_def up WVSamplePSSH_def)
qed

text \<open>The Widevine box that is made of clear key protection data is a box of two key ids: the one of the protection data and the
  content id of the sample, which is no key of the stream.\<close>

theorem workaround_key_ids:
  assumes "48 \<le> length d" and "mKeyIDs h = []"
  shows "\<exists>m h'. ReplaceKIDPsshData True d = Some m \<and> Widevine_parsePssh m h = Inr (True, h')
     \<and> mKeyIDs h' = [take 16 (drop 32 d), sample_content_id] \<and> mInitData h' = m"
proof -
  let ?fs = "[WvNumber 8 1, WvKeyId (take 16 (drop 32 d)), WvContentId sample_content_id]"
  have "\<forall>f \<in> set ?fs. wv_field_ok f" using assms(1) by (simp add: sample_content_id_def)
  moreover have "wv_ids ?fs = [take 16 (drop 32 d), sample_content_id]" by (simp add: wv_ids_def List.map_filter_def)
  ultimately show ?thesis
    using widevine_v0_parse [OF _ assms(2) refl, of ?fs 28] by (simp add: ReplaceKID_box [OF assms(1)])
qed

section \<open>The properties at work\<close>

definition demo_cdmi_env :: cdmi_env where
  "demo_cdmi_env = \<lparr>amlogic = False, ocdm_transform_caps = id, caps_intersect = (\<lambda>cs _. cs), caps_subset = (\<lambda>_ _. True),
     query_caps = (\<lambda>_ _. None), current_caps = (\<lambda>_. None), manager_answer = (\<lambda>_. True), mIsWVKIDWorkaround = False,
     manager_active = (\<lambda>_. True), create_session = (\<lambda>_. (Some 1, - 1)), decrypt_answer = (\<lambda>_. 7), cd_map_ok = (\<lambda>_. True),
     cd_malloc_ok = (\<lambda>_. True), parent_sink_event = (\<lambda>_. True)\<rparr>"







definition demo_cap :: cap where
  "demo_cap = \<lparr>cap_name = ''video/x-h264'', cap_fields = [(''width'', CapOther 1920), (''alignment'', CapString (Some ''au''))]\<rparr>"

definition demo_selected :: cdmi where
  "demo_selected = gst_cdmidecryptor_init\<lparr>selectedProtection := Some WIDEVINE_UUID\<rparr>"

theorem caps_both_pads_witness:
  "\<exists>needed st1 st2. transform_caps demo_cdmi_env PadSrc [demo_cap] None demo_selected = (Some needed, st1)
     \<and> transform_caps demo_cdmi_env PadSink needed None st1
       = (Some [\<lparr>cap_name = ''video/x-h264'', cap_fields = [(''alignment'', CapString (Some ''au''))]\<rparr>], st2)"
proof -
  obtain needed st1 where n: "transform_caps demo_cdmi_env PadSrc [demo_cap] None demo_selected = (Some needed, st1)"
    by (simp add: transform_caps_def Let_def)
  have "\<not> amlogic demo_cdmi_env" by (simp add: demo_cdmi_env_def)
  moreover have "\<forall>(k, v) \<in> set (cap_fields demo_cap). \<not> drm_field k" by (simp add: demo_cap_def drm_field_def has_prefix_def)
  moreover have "cap_remove (\<lambda>k. k \<in> set stream_fields) demo_cap
      = \<lparr>cap_name = ''video/x-h264'', cap_fields = [(''alignment'', CapString (Some ''au''))]\<rparr>"
    by (simp add: cap_remove_def demo_cap_def stream_fields_def)
  ultimately show ?thesis using caps_both_pads [OF _ _ n] n by auto
qed

theorem workaround_key_ids_witness:
  "\<exists>m h'. ReplaceKIDPsshData True (replicate 32 0 @ replicate 16 9) = Some m
     \<and> Widevine_parsePssh m (new_helper WidevineDrmHelper DrmInfo) = Inr (True, h')
     \<and> mKeyIDs h' = [replicate 16 9, sample_content_id]"
  using workaround_key_ids [of "replicate 32 0 @ replicate 16 9" "new_helper WidevineDrmHelper DrmInfo"]
  by (auto simp: new_helper_def)

end
