(* ===== verification/Gst_Viper.thy ===== *)
theory Gst_Viper
  imports Hls_Drm Gst_Inject
begin

text \<open>
  The transform for legacy linear subtitles of \<^verbatim>\<open>gst-plugins/gst_subtec/gstvipertransform.cpp\<close>: times of cues, splitting of
  segments that hold several documents, and the offset between the first cue and the presentation time, which is put on
  the buffers for the sink. Signed 64 bit numbers are words read with \<open>sint\<close>; overflow of signed arithmetic is undefined.
  The mapping of buffers is an argument. Registration, debugging output and destruction are left out.
\<close>

section \<open>Times of cues\<close>

text \<open>The value of a \<^verbatim>\<open>float\<close> that is read from a decimal fraction \<open>n / d\<close>, in thousandths cut to an integer: the fraction is
  scaled to 24 bits and rounded to even. The product with 1000 is exact in a \<^verbatim>\<open>double\<close>. There is no value beyond the
  largest \<^verbatim>\<open>float\<close>.\<close>

fun float_shift :: "nat \<Rightarrow> nat \<Rightarrow> nat \<Rightarrow> nat" where
  "float_shift 0 n d = 0"
| "float_shift (Suc f) n d = (if n < 2 ^ 23 * d then Suc (float_shift f (2 * n) d) else 0)"

fun float_halve :: "nat \<Rightarrow> nat \<Rightarrow> nat \<Rightarrow> nat" where
  "float_halve 0 n d = 0"
| "float_halve (Suc f) n d = (if 2 ^ 24 * d \<le> n then Suc (float_halve f n (2 * d)) else 0)"

definition round_half_even :: "nat \<Rightarrow> nat \<Rightarrow> nat" where
  "round_half_even n d = (let q = n div d; r = n mod d in if 2 * r < d \<or> (2 * r = d \<and> even q) then q else q + 1)"

definition float_ms :: "nat \<Rightarrow> nat \<Rightarrow> nat option" where
  "float_ms n d =
     (if n < 2 ^ 24 * d
      then let s = float_shift 149 n d in Some (round_half_even (n * 2 ^ s) d * 1000 div 2 ^ s)
      else let h = float_halve 104 n d
           in if 2 ^ 24 * (d * 2 ^ h) \<le> n then None else Some (round_half_even n (d * 2 ^ h) * 2 ^ h * 1000))"

text \<open>\<^verbatim>\<open>%f\<close> of \<^verbatim>\<open>sscanf\<close> in decimal notation without an exponent: the sign and the fraction.\<close>

definition scan_float :: "string \<Rightarrow> (bool \<times> nat \<times> nat) option" where
  "scan_float s =
     (let t = dropWhile is_space s;
          (neg, u) = (case t of c # r \<Rightarrow> if c = CHR ''-'' then (True, r) else if c = CHR ''+'' then (False, r) else (False, t)
                      | [] \<Rightarrow> (False, []));
          whole = takeWhile is_digit u; rest = dropWhile is_digit u;
          frac = (if take 1 rest = ''.'' then takeWhile is_digit (drop 1 rest) else [])
      in if whole = [] \<and> frac = [] then None else Some (neg, digits_value (whole @ frac), 10 ^ length frac))"

definition in_int :: "int \<Rightarrow> bool" where "in_int k \<longleftrightarrow> - (2 ^ 31) \<le> k \<and> k < 2 ^ 31"

text \<open>The test of the result of \<^verbatim>\<open>sscanf\<close> only excludes zero: with one or two numbers, or at the end of the text, variables
  are used that were never set.\<close>

definition convertTime :: "string \<Rightarrow> int res" where
  "convertTime s =
     (case scan_int s of
        None \<Rightarrow> if dropWhile is_space s = [] then Inl Undefined else Inr 0
      | Some (hours, u) \<Rightarrow>
          if take 1 u \<noteq> '':'' then Inl Undefined
          else
            (case scan_int (drop 1 u) of
               None \<Rightarrow> Inl Undefined
             | Some (mins, v) \<Rightarrow>
                 if take 1 v \<noteq> '':'' then Inl Undefined
                 else
                   (case scan_float (drop 1 v) of
                      None \<Rightarrow> Inl Undefined
                    | Some (neg, n, d) \<Rightarrow>
                        (case float_ms n d of
                           None \<Rightarrow> Inl Undefined
                         | Some ms \<Rightarrow>
                             if in_int hours \<and> in_int mins \<and> in_int (mins * 60) \<and> ms < 2 ^ 62
                             then Inr ((hours * 3600 + mins * 60) * 1000 + (if neg then - int ms else int ms))
                             else Inl Undefined))))"

section \<open>Tags and documents\<close>

definition find_from :: "string \<Rightarrow> string \<Rightarrow> nat \<Rightarrow> nat option" where
  "find_from pat s pos = (if pos \<le> length s then map_option ((+) pos) (find_str pat (drop pos s)) else None)"

definition findTag :: "string \<Rightarrow> string \<Rightarrow> nat \<Rightarrow> (string \<times> nat \<times> nat) option" where
  "findTag instring tag start_pos =
     (let tag_start = tag @ ''='' @ [CHR 0x22]
      in case find_from tag_start instring start_pos of
           None \<Rightarrow> None
         | Some p \<Rightarrow>
             let pos = p + length tag_start; contents = takeWhile (\<lambda>c. c \<noteq> CHR 0x22) (drop pos instring)
             in Some (contents, pos, length contents))"

definition findFirstBegin :: "string \<Rightarrow> int option res" where
  "findFirstBegin ttml =
     (case findTag ttml ''begin'' 0 of
        None \<Rightarrow> Inr None
      | Some (contents, _) \<Rightarrow> bindE (convertTime contents) (\<lambda>ms. Inr (Some ms)))"

definition XmlStart :: string where "XmlStart = ''<?xml''"

definition is_harmonic_uhd :: "string \<Rightarrow> bool" where
  "is_harmonic_uhd ttml =
     (find_from XmlStart ttml (case find_from XmlStart ttml 0 of None \<Rightarrow> 0 | Some p \<Rightarrow> p + 1) \<noteq> None)"

lemma find_str_within: "find_str pat s = Some k \<Longrightarrow> pat \<noteq> [] \<Longrightarrow> k < length s"
  by (induction s arbitrary: k) (auto split: if_splits)

lemma find_from_bounds: "find_from pat s pos = Some k \<Longrightarrow> pat \<noteq> [] \<Longrightarrow> pos \<le> k \<and> k < length s"
  by (auto simp: find_from_def dest!: find_str_within split: if_splits)

text \<open>The second argument of \<^verbatim>\<open>substr\<close> is a length, but the code hands it the position of the next document.\<close>

function split_from :: "string \<Rightarrow> nat \<Rightarrow> string list" where
  "split_from ttml pos =
     (case find_from XmlStart ttml pos of
        None \<Rightarrow> []
      | Some start_pos \<Rightarrow>
          (case find_from XmlStart ttml (start_pos + 1) of
             None \<Rightarrow> [drop start_pos ttml]
           | Some end_pos \<Rightarrow> take end_pos (drop start_pos ttml) # split_from ttml end_pos))"
  by auto
termination
proof (relation "measure (\<lambda>(ttml, pos). length ttml - pos)")
  fix ttml :: string and pos start_pos end_pos
  assume "find_from XmlStart ttml pos = Some start_pos" "find_from XmlStart ttml (start_pos + 1) = Some end_pos"
  then have "pos \<le> start_pos" "start_pos + 1 \<le> end_pos" "end_pos < length ttml"
    by (auto dest: find_from_bounds simp: XmlStart_def)
  then show "((ttml, end_pos), (ttml, pos)) \<in> measure (\<lambda>(ttml, pos). length ttml - pos)" by simp
qed simp

declare split_from.simps [simp del]

definition split_buffer :: "string \<Rightarrow> string list" where "split_buffer ttml = split_from ttml 0"

section \<open>The element\<close>

datatype viper_content = CONTENT_UNKNOWN | CONTENT_PASSTHROUGH | CONTENT_LINEAR_OFFSET

record viper =
  m_content_type :: viper_content
  m_linear_begin_offset :: "64 word"
  vt_passthrough :: bool

record sub_buffer =
  sb_text :: string
  sb_pts :: u64
  sb_dts :: u64
  sb_duration :: u64
  sb_offset :: u64

definition vipertransform_init :: viper where
  "vipertransform_init = \<lparr>m_content_type = CONTENT_UNKNOWN, m_linear_begin_offset = 0, vt_passthrough = False\<rparr>"

datatype viper_event = ViperFlushStart | ViperFlushStop | ViperOtherEvent

definition vipertransform_event :: "viper_event \<Rightarrow> viper \<Rightarrow> viper" where
  "vipertransform_event e st =
     (if e = ViperOtherEvent then st else st\<lparr>m_content_type := CONTENT_UNKNOWN, m_linear_begin_offset := 0\<rparr>)"

definition vipertransform_set_caps :: "string \<Rightarrow> viper \<Rightarrow> viper" where
  "vipertransform_set_caps caps_name st =
     (if caps_name \<noteq> ''application/ttml+xml'' then st\<lparr>vt_passthrough := True\<rparr> else st)\<lparr>m_linear_begin_offset := 0\<rparr>"

definition MSECOND :: nat where "MSECOND = 1000000"

text \<open>Whether the first cue is further away from where it should be than the duration of the buffer.\<close>

definition misaligned :: "int \<Rightarrow> int \<Rightarrow> u64 \<Rightarrow> bool res" where
  "misaligned offset_ms restamp_ms duration =
     (let d = offset_ms - restamp_ms
      in if - (2 ^ 63) < d \<and> d < 2 ^ 63 then Inr (nat \<bar>d\<bar> > unat duration div MSECOND) else Inl Undefined)"

definition choose_offset :: "int \<Rightarrow> sub_buffer \<Rightarrow> viper \<Rightarrow> viper res" where
  "choose_offset first_begin_ms buf st =
     (let restamp = sb_offset buf;
          from_pts = word_of_int first_begin_ms - word_of_nat (unat (sb_pts buf) div MSECOND) :: u64
      in case m_content_type st of
           CONTENT_UNKNOWN \<Rightarrow>
             bindE (misaligned (sint from_pts) (sint restamp) (sb_duration buf)) (\<lambda>far.
               if far then
                 Inr (let st = st\<lparr>m_content_type := CONTENT_LINEAR_OFFSET\<rparr>
                      in if m_linear_begin_offset st = 0 \<or> \<bar>sint from_pts\<bar> < sint (m_linear_begin_offset st)
                         then st\<lparr>m_linear_begin_offset := from_pts\<rparr> else st)
               else if restamp \<noteq> 0 then
                 Inr (st\<lparr>m_linear_begin_offset := restamp, m_content_type := CONTENT_LINEAR_OFFSET\<rparr>)
               else Inr (st\<lparr>m_content_type := CONTENT_PASSTHROUGH, vt_passthrough := True\<rparr>))
         | CONTENT_LINEAR_OFFSET \<Rightarrow>
             bindE (misaligned (sint from_pts) (sint restamp) (sb_duration buf)) (\<lambda>far.
               Inr (st\<lparr>m_linear_begin_offset := if far then from_pts else restamp\<rparr>))
         | CONTENT_PASSTHROUGH \<Rightarrow> Inr st)"

definition vipertransform_before_transform :: "bool \<Rightarrow> sub_buffer \<Rightarrow> viper \<Rightarrow> viper res" where
  "vipertransform_before_transform map_ok buf st =
     (if vt_passthrough st \<or> \<not> map_ok then Inr st
      else
        let ttml = (if is_harmonic_uhd (sb_text buf)
                    then (case split_buffer (sb_text buf) of [] \<Rightarrow> sb_text buf | t # _ \<Rightarrow> t) else sb_text buf)
        in bindE (findFirstBegin ttml) (\<lambda>b.
             case b of None \<Rightarrow> Inr st | Some first_begin_ms \<Rightarrow> choose_offset first_begin_ms buf st))"

datatype viper_flow = ViperOk | ViperError | ViperDropped

text \<open>The buffers that are pushed for the documents of a segment. The duration of one is an \<^verbatim>\<open>int\<close>.\<close>

fun viper_pieces :: "u64 \<Rightarrow> u64 \<Rightarrow> 32 word \<Rightarrow> nat \<Rightarrow> string list \<Rightarrow> sub_buffer list res" where
  "viper_pieces begin_offset pts segment_duration k [] = Inr []"
| "viper_pieces begin_offset pts segment_duration k (item # items) =
     (if in_int (int k * sint segment_duration) then
        let t = pts + word_of_int (int k * sint segment_duration);
            pts_ms = word_of_nat (unat pts div MSECOND);
            duration_ms = word_of_int (let d = sint segment_duration in if 0 \<le> d then d div 1000000 else - (- d div 1000000));
            buf = \<lparr>sb_text = item, sb_pts = t, sb_dts = t, sb_duration = word_of_int (sint segment_duration),
                   sb_offset = (if begin_offset \<noteq> 0 then begin_offset else 0 - (pts_ms + duration_ms * word_of_nat k))\<rparr>
        in bindE (viper_pieces begin_offset pts segment_duration (Suc k) items) (\<lambda>bufs. Inr (buf # bufs))
      else Inl Undefined)"

text \<open>The results are the flow, the outgoing buffer and the buffers that are pushed; \<open>outbuf\<close> comes with the metadata of
  the incoming one and a size of its own.\<close>

definition vipertransform_transform ::
  "bool \<Rightarrow> nat \<Rightarrow> sub_buffer \<Rightarrow> sub_buffer \<Rightarrow> viper \<Rightarrow> (viper_flow \<times> sub_buffer \<times> sub_buffer list) res" where
  "vipertransform_transform map_ok out_size inbuf outbuf st =
     (if \<not> map_ok then Inr (ViperError, outbuf, [])
      else if out_size < length (sb_text inbuf) then Inl OutOfBounds
      else
        let ttml = sb_text inbuf; outbuf = outbuf\<lparr>sb_text := ttml\<rparr>
        in if is_harmonic_uhd ttml then
             let docs = split_buffer ttml
             in if docs = [] then Inr (ViperOk, outbuf, [])
                else
                  let unset = sb_duration inbuf = - 1;
                      segment_duration = (if unset then word_of_nat (length docs * 1000000000)
                                          else word_of_nat (unat (sb_duration inbuf) div length docs));
                      pts = (if unset then 0 else sb_pts inbuf)
                  in bindE (viper_pieces (m_linear_begin_offset st) pts segment_duration 0 docs) (\<lambda>bufs.
                       Inr (ViperDropped, outbuf, bufs))
           else if m_linear_begin_offset st \<noteq> 0 then Inr (ViperOk, outbuf\<lparr>sb_offset := m_linear_begin_offset st\<rparr>, [])
           else Inr (ViperOk, outbuf, []))"

section \<open>Documents of a segment\<close>

text \<open>A document starts with the marker and has no other one.\<close>

lemma marker_length [simp]: "length XmlStart = 5" "XmlStart \<noteq> []"
  by (simp_all add: XmlStart_def)

definition doc_ok :: "string \<Rightarrow> bool" where
  "doc_ok d \<longleftrightarrow> take 5 d = XmlStart \<and> find_str XmlStart (drop 1 d) = None"

lemma find_str_None_iff:
  "pat \<noteq> [] \<Longrightarrow> find_str pat s = None \<longleftrightarrow> (\<forall>k < length s. take (length pat) (drop k s) \<noteq> pat)"
proof (induction s)
  case (Cons c s)
  have "(\<forall>k < length (c # s). take (length pat) (drop k (c # s)) \<noteq> pat)
      \<longleftrightarrow> take (length pat) (c # s) \<noteq> pat \<and> (\<forall>k < length s. take (length pat) (drop k s) \<noteq> pat)"
    by (auto simp: less_Suc_eq_0_disj)
  then show ?case using Cons by (auto split: if_splits)
qed simp

text \<open>The marker cannot begin in one document and end in the next, because only its first character is an angle.\<close>

lemma no_straddle:
  assumes "find_str XmlStart s = None" and "rest = [] \<or> take 5 rest = XmlStart" and "k < length s"
  shows "take 5 (drop k (s @ rest)) \<noteq> XmlStart"
proof
  assume t: "take 5 (drop k (s @ rest)) = XmlStart"
  have none: "take 5 (drop k s) \<noteq> XmlStart" using assms(1,3) by (simp add: find_str_None_iff)
  have five: "length XmlStart = 5" by simp
  have d: "drop k (s @ rest) = drop k s @ rest" using assms(3) by simp
  have short: "length (drop k s) < 5"
  proof (rule ccontr)
    assume "\<not> length (drop k s) < 5"
    then have "take 5 (drop k (s @ rest)) = take 5 (drop k s)" unfolding d by simp
    with t none show False by simp
  qed
  have ne: "rest \<noteq> []" using t short five d by (metis append_Nil2 length_take min.strict_order_iff min.commute)
  then have "rest ! 0 = CHR ''<''" using assms(2) by (cases rest) (auto simp: XmlStart_def)
  moreover have "take 5 (drop k (s @ rest)) ! length (drop k s) = rest ! 0"
    unfolding d using short by (simp add: nth_append)
  moreover have "0 < length (drop k s)" using assms(3) by simp
  moreover have "XmlStart ! i \<noteq> CHR ''<''" if "0 < i" "i < 5" for i
    using that by (auto simp: XmlStart_def less_Suc_eq numeral_eq_Suc)
  ultimately show False using t short by metis
qed

lemma find_next_doc:
  assumes "find_str XmlStart s = None" and "rest = [] \<or> take 5 rest = XmlStart"
  shows "find_str XmlStart (s @ rest) = (if rest = [] then None else Some (length s))"
proof (cases "rest = []")
  case False
  then have "take (length XmlStart) rest = XmlStart" using assms(2) by simp
  then show ?thesis
    using False no_straddle [OF assms] find_str_append [of s XmlStart rest] by simp
qed (simp add: assms(1))

definition doc_piece :: "string list \<Rightarrow> nat \<Rightarrow> string" where
  "doc_piece ds k = (if Suc k = length ds then ds ! k else take (length (concat (take (Suc k) ds))) (concat (drop k ds)))"

lemma concat_starts: "\<forall>d \<in> set ds. doc_ok d \<Longrightarrow> concat ds = [] \<or> take 5 (concat ds) = XmlStart"
proof (cases ds)
  case (Cons d ds')
  assume "\<forall>d \<in> set ds. doc_ok d"
  with Cons have t: "take 5 d = XmlStart" by (simp add: doc_ok_def)
  moreover from t have "5 \<le> length d"
  proof -
    have "length (take 5 d) = 5" using t by (simp add: XmlStart_def)
    then show ?thesis by simp
  qed
  ultimately show ?thesis using Cons by simp
qed simp

lemma split_from_docs:
  assumes "\<forall>d \<in> set (pre @ ds). doc_ok d"
  shows "split_from (concat (pre @ ds)) (length (concat pre)) = map (doc_piece (pre @ ds)) [length pre ..< length (pre @ ds)]"
  using assms
proof (induction ds arbitrary: pre)
  case Nil
  then show ?case by (subst split_from.simps) (simp add: find_from_def XmlStart_def)
next
  case (Cons d ds)
  let ?s = "concat (pre @ d # ds)" and ?p = "length (concat pre)"
  have ok: "doc_ok d" and oks: "\<forall>d \<in> set ds. doc_ok d" using Cons.prems by auto
  have ne: "d \<noteq> []" using ok by (auto simp: doc_ok_def XmlStart_def)
  have first: "find_from XmlStart ?s ?p = Some ?p"
  proof -
    have "take (length XmlStart) (d @ concat ds) = XmlStart"
      using concat_starts [of "d # ds"] ok oks ne by auto
    then have "find_str XmlStart (d @ concat ds) = Some 0" using ne by (cases d) simp_all
    then show ?thesis by (simp add: find_from_def)
  qed
  have "drop (Suc ?p) ?s = drop 1 d @ concat ds" using ne by (cases d) simp_all
  then have nxt: "find_from XmlStart ?s (?p + 1) = (if concat ds = [] then None else Some (?p + length d))"
    using find_next_doc [of "drop 1 d" "concat ds"] concat_starts [OF oks] ok ne
    by (cases d) (auto simp: find_from_def doc_ok_def)
  have up: "[length pre ..< length (pre @ d # ds)] = length pre # [length (pre @ [d]) ..< length (pre @ d # ds)]"
    using upt_conv_Cons [of "length pre" "length (pre @ d # ds)"] by simp
  show ?case
  proof (cases ds)
    case Nil
    then show ?thesis using first nxt unfolding up by (subst split_from.simps) (simp add: doc_piece_def)
  next
    case (Cons e es)
    then have "concat ds \<noteq> []" using oks by (auto simp: doc_ok_def XmlStart_def)
    then have second: "find_from XmlStart ?s (?p + 1) = Some (?p + length d)" using nxt by (simp only: if_False)
    then have "split_from ?s ?p = take (?p + length d) (drop ?p ?s) # split_from ?s (?p + length d)"
      using first by (subst split_from.simps) simp
    also have "split_from ?s (?p + length d) = map (doc_piece (pre @ d # ds)) [length (pre @ [d]) ..< length (pre @ d # ds)]"
      using Cons.IH [of "pre @ [d]"] Cons.prems by simp
    finally show ?thesis unfolding up using Cons by (simp add: doc_piece_def)
  qed
qed

text \<open>C34: What a segment of several documents is split into: the first piece and the last are documents, but every piece between
  has too many characters, because its length is the position of its end in the segment: the beginning of the following
  documents comes along.\<close>

theorem documents_split:
  assumes "\<forall>d \<in> set ds. doc_ok d"
  shows "split_buffer (concat ds)
     = map (\<lambda>k. if Suc k = length ds then ds ! k else take (length (concat (take (Suc k) ds))) (concat (drop k ds))) [0..<length ds]"
  using split_from_docs [of "[]" ds] assms by (simp add: split_buffer_def doc_piece_def)

theorem documents_split_witness:
  "split_buffer ''<?xml 1><?xml 22><?xml 333>'' = [''<?xml 1>'', ''<?xml 22><?xml 33'', ''<?xml 333>'']"
proof -
  let ?ds = "[''<?xml 1>'', ''<?xml 22>'', ''<?xml 333>'']"
  have "\<forall>d \<in> set ?ds. doc_ok d" by (simp add: doc_ok_def XmlStart_def)
  from documents_split [OF this] show ?thesis by simp
qed

section \<open>Times that are read\<close>

lemma float_ms_whole: "n < 2 ^ 24 \<Longrightarrow> float_ms n 1 = Some (1000 * n)"
  by (simp add: float_ms_def Let_def round_half_even_def mult.assoc mult.commute)

text \<open>Seconds are read with the precision of a \<^verbatim>\<open>float\<close>: a cue at 2.3 seconds is taken for one at 2299 milliseconds, whereas the
  parser of \<^verbatim>\<open>TtmlSubtecParser.cpp\<close> reads 2300.\<close>

lemma float_shift_eq: "n * 2 ^ t < 2 ^ 23 * d \<Longrightarrow> 2 ^ 23 * d \<le> n * 2 ^ Suc t \<Longrightarrow> Suc t < f \<Longrightarrow> float_shift f n d = Suc t"
proof (induction t arbitrary: n f)
  case 0
  then obtain g where "f = Suc (Suc g)" by (metis Suc_lessE less_imp_Suc_add)
  then show ?case using 0 by simp
next
  case (Suc t)
  then obtain g where g: "f = Suc g" by (cases f) auto
  have "n * 1 \<le> n * 2 ^ Suc t" by (rule mult_le_mono2) (rule one_le_power, simp)
  then have "n < 2 ^ 23 * d" using Suc.prems(1) by (simp only: mult_1_right)
  moreover have "float_shift g (2 * n) d = Suc t" using Suc.prems g by (intro Suc.IH) (simp_all add: mult.assoc mult.left_commute)
  ultimately show ?case using g by simp
qed

lemma tenth_of_second_lost: "convertTime ''00:00:02.300'' = Inr 2299"
proof -
  have "float_shift 149 2300 1000 = Suc 21" by (rule float_shift_eq) simp_all
  then have "float_ms 2300 1000 = Some 2299" by (simp add: float_ms_def round_half_even_def)
  then show ?thesis
    by (simp add: convertTime_def scan_int_def scan_float_def is_digit_def is_space_def digits_value_def in_int_def)
qed

text \<open>Once the element has found that the cues are aligned it stays in passthrough: a flush makes the content unknown again,
  but nothing is examined any more.\<close>

lemma passthrough_kept:
  assumes "vt_passthrough st"
  shows "vt_passthrough (vipertransform_event e st)" "vt_passthrough (vipertransform_set_caps n st)"
    "vipertransform_before_transform map_ok buf st = Inr st"
  using assms by (simp_all add: vipertransform_event_def vipertransform_set_caps_def vipertransform_before_transform_def)

end
