(* ===== verification/Gst_Subtec_Sink.thy ===== *)
theory Gst_Subtec_Sink
  imports Subtec_Sender Gst_Viper
begin

text \<open>
  The subtitle elements of \<^verbatim>\<open>gst-plugins/gst_subtec/\<close>: the sink that turns buffers, events and properties into messages of
  a channel (\<^verbatim>\<open>gstsubtecsink.cpp\<close>), and the bin that builds the chain of demultiplexer, formatter and sink when the type of
  the stream is known (\<^verbatim>\<open>gstsubtecbin.cpp\<close>). What the sink does is recorded in order: new channels, and the messages sent.
  The answers of the base classes and of the factories are arguments. Registration, the property declarations and debugging
  output are left out.
\<close>

section \<open>The sink\<close>

datatype sink_action = NewChannel channel_type | Send message

record subtecsink =
  sk_channel :: "channel_type option"
  sk_mute :: bool
  sk_no_eos :: bool
  sk_send_timestamp :: bool
  sk_segmentstart :: u64
  sk_pts_offset :: u64
  sk_subtec_socket :: string
  sk_attribute_values :: "u32 list"
  sk_attribute_mask :: u32
  sk_actions :: "sink_action list"

text \<open>The memory of an element is cleared when it is made; the initialisers of the class do not run.\<close>

definition subtecsink_init :: subtecsink where
  "subtecsink_init = \<lparr>sk_channel = None, sk_mute = False, sk_no_eos = False, sk_send_timestamp = False, sk_segmentstart = 0,
     sk_pts_offset = 0, sk_subtec_socket = [], sk_attribute_values = replicate 14 0, sk_attribute_mask = 0, sk_actions = []\<rparr>"

definition sk_send :: "message \<Rightarrow> subtecsink \<Rightarrow> subtecsink" where
  "sk_send msg st = (if sk_channel st = None then st else st\<lparr>sk_actions := sk_actions st @ [Send msg]\<rparr>)"

text \<open>The messages whose form depends on the kind of the channel; a missing channel is dereferenced.\<close>

definition selection_msg :: "channel_type \<Rightarrow> u32 \<Rightarrow> u32 \<Rightarrow> message" where
  "selection_msg t w h = (if t = WEBVTT then WebVttSelection w h else TtmlSelection w h)"

definition timestamp_msg :: "channel_type \<Rightarrow> u64 \<Rightarrow> message" where
  "timestamp_msg t ts = (if t = WEBVTT then WebVttTimestamp ts else TtmlTimestamp ts)"

definition data_msg :: "channel_type \<Rightarrow> u64 \<Rightarrow> byte list \<Rightarrow> message" where
  "data_msg t off d = (if t = WEBVTT then WebVttData off d else TtmlData off d)"

definition sk_send_via :: "(channel_type \<Rightarrow> message) \<Rightarrow> subtecsink \<Rightarrow> subtecsink res" where
  "sk_send_via f st = (case sk_channel st of None \<Rightarrow> Inl NullDeref | Some t \<Rightarrow> Inr (sk_send (f t) st))"

definition set_mute :: "subtecsink \<Rightarrow> subtecsink" where
  "set_mute st = sk_send (if sk_mute st then Mute else Unmute) st"

definition set_attribute :: "subtecsink \<Rightarrow> subtecsink" where
  "set_attribute st = sk_send (SetAttribute 0 (sk_attribute_mask st) (sk_attribute_values st)) st"

text \<open>The fields of the structure that is set as the attribute values, with their positions.\<close>

definition attribute_fields :: "(string \<times> nat) list" where
  "attribute_fields = [(''font_color'', 0), (''background_color'', 1), (''font_opacity'', 2), (''background_opacity'', 3),
     (''font_style'', 4), (''font_size'', 5), (''window_color'', 10), (''window_opacity'', 11), (''edge_type'', 12),
     (''edge_color'', 13)]"

datatype sink_property =
    PropMute bool | PropNoEos bool | PropSocket "string option" | PropPtsOffset u64
  | PropAttributes "(string \<Rightarrow> u32 option) option" | PropOther

definition subtecsink_set_property :: "sink_property \<Rightarrow> subtecsink \<Rightarrow> subtecsink res" where
  "subtecsink_set_property p st =
     (case p of
        PropMute b \<Rightarrow> Inr (set_mute (st\<lparr>sk_mute := b\<rparr>))
      | PropNoEos b \<Rightarrow> Inr (st\<lparr>sk_no_eos := b\<rparr>)
      | PropSocket s \<Rightarrow> (case s of None \<Rightarrow> Inl Undefined | Some s \<Rightarrow> Inr (st\<lparr>sk_subtec_socket := s\<rparr>))
      | PropPtsOffset v \<Rightarrow> Inr (st\<lparr>sk_pts_offset := v, sk_send_timestamp := True\<rparr>)
      | PropAttributes s \<Rightarrow>
          (case s of
             None \<Rightarrow> Inr st
           | Some get \<Rightarrow>
               Inr (set_attribute (st\<lparr>
                 sk_attribute_values := foldl (\<lambda>vs (k, i). case get k of None \<Rightarrow> vs | Some v \<Rightarrow> vs[i := v])
                   (sk_attribute_values st) attribute_fields,
                 sk_attribute_mask := (case get ''attribute_mask'' of None \<Rightarrow> sk_attribute_mask st | Some m \<Rightarrow> m)\<rparr>)))
      | PropOther \<Rightarrow> Inr st)"

text \<open>The result of the base class is an argument; failure skips the messages of a pause.\<close>

datatype sink_transition = PausedToPlaying | PlayingToPaused | OtherChange

definition subtecsink_change_state :: "bool \<Rightarrow> sink_transition \<Rightarrow> subtecsink \<Rightarrow> subtecsink" where
  "subtecsink_change_state parent_ok t st =
     (let st = (if t = PausedToPlaying then set_attribute (set_mute (sk_send Resume st)) else st)
      in if parent_ok \<and> t = PlayingToPaused then sk_send Pause (sk_send Mute st) else st)"

definition subtecsink_dispose :: "subtecsink \<Rightarrow> subtecsink" where "subtecsink_dispose st = sk_send ResetAll st"

definition channel_of_caps :: "string \<Rightarrow> channel_type option" where
  "channel_of_caps n =
     (if n = ''text/vtt'' \<or> n = ''application/x-subtitle-vtt'' then Some WEBVTT
      else if n = ''application/ttml+xml'' then Some TTML else None)"

definition subtecsink_set_caps :: "string \<Rightarrow> subtecsink \<Rightarrow> bool \<times> subtecsink" where
  "subtecsink_set_caps caps_name st =
     (case channel_of_caps caps_name of
        None \<Rightarrow> (False, st)
      | Some t \<Rightarrow>
          let st = st\<lparr>sk_channel := Some t, sk_actions := sk_actions st @ [NewChannel t]\<rparr>
          in (True, set_attribute (set_mute (sk_send (selection_msg t 1920 1080) (sk_send ResetAll st)))))"

definition subtecsink_start :: "bool \<Rightarrow> subtecsink \<Rightarrow> bool \<times> subtecsink" where
  "subtecsink_start comms_ok st = (comms_ok, st\<lparr>sk_send_timestamp := True\<rparr>)"

definition subtecsink_stop :: "subtecsink \<Rightarrow> subtecsink" where "subtecsink_stop st = sk_send ResetAll (sk_send ResetChannel st)"

definition get_timestamp_ms :: "u64 \<Rightarrow> u64 \<Rightarrow> u64 \<Rightarrow> u64" where
  "get_timestamp_ms segment_time pts offset =
     (let timestampMs = word_of_nat (max (unat pts) (unat segment_time) div MSECOND)
      in if 0 < sint offset then timestampMs + offset
         else if sint pts < 0 then 0 else timestampMs)"

datatype sink_event = SinkFlushStart | SinkFlushStop | SinkSegment u64 | SinkEos | SubClockSync u64 | CustomDownstream | SinkOther

definition send_timestamp_now :: "u64 \<Rightarrow> subtecsink \<Rightarrow> subtecsink res" where
  "send_timestamp_now ts st = bindE (sk_send_via (\<lambda>t. timestamp_msg t ts) st) (\<lambda>st. Inr (st\<lparr>sk_send_timestamp := False\<rparr>))"

text \<open>The result says whether the event was handled here (\<open>None\<close> when it goes to the base class).\<close>

definition subtecsink_event :: "u64 \<Rightarrow> sink_event \<Rightarrow> subtecsink \<Rightarrow> (bool option \<times> subtecsink) res" where
  "subtecsink_event segment_time e st =
     (case e of
        SinkFlushStart \<Rightarrow> Inr (None, sk_send ResetChannel st)
      | SinkFlushStop \<Rightarrow>
          let st = (case sk_channel st of None \<Rightarrow> st | Some t \<Rightarrow> sk_send (selection_msg t 1920 1080) st)
          in Inr (None, set_attribute (set_mute (st\<lparr>sk_send_timestamp := True\<rparr>)))
      | SinkSegment start \<Rightarrow> Inr (None, st\<lparr>sk_segmentstart := start\<rparr>)
      | SinkEos \<Rightarrow> Inr (if sk_no_eos st then Some True else None, st)
      | SubClockSync pts \<Rightarrow>
          bindE (send_timestamp_now (get_timestamp_ms segment_time pts (sk_pts_offset st)) st) (\<lambda>st. Inr (Some True, st))
      | CustomDownstream \<Rightarrow> Inr (Some True, st)
      | SinkOther \<Rightarrow> Inr (None, st))"

definition subtecsink_render :: "u64 \<Rightarrow> bool \<Rightarrow> sub_buffer \<Rightarrow> subtecsink \<Rightarrow> subtecsink res" where
  "subtecsink_render segment_time map_ok buf st =
     (let dataBuffer = (if map_ok then bytes_of (sb_text buf) else [])
      in if dataBuffer = [] then Inr st
         else
           bindE (if sk_send_timestamp st
                  then send_timestamp_now (get_timestamp_ms segment_time (sk_segmentstart st) (sk_pts_offset st)) st
                  else Inr st) (\<lambda>st.
             let offset = (if sb_offset buf = - 1 then 0 else sb_offset buf)
             in sk_send_via (\<lambda>t. data_msg t (0 - offset) dataBuffer) st))"

section \<open>The bin\<close>

text \<open>The sink of the bin comes with the two properties of its base class.\<close>

record subtecbin =
  bin_sink :: "(subtecsink \<times> bool \<times> bool) option"
  bin_demux :: bool
  bin_formatter :: bool
  bin_mute :: bool
  bin_no_eos :: bool
  bin_async :: bool
  bin_sync :: bool
  bin_subtec_socket :: string
  bin_pts_offset :: u64
  bin_chain :: "string list"

definition subtecbin_init :: subtecbin where
  "subtecbin_init = \<lparr>bin_sink = None, bin_demux = False, bin_formatter = False, bin_mute = False, bin_no_eos = False,
     bin_async = False, bin_sync = False, bin_subtec_socket = [], bin_pts_offset = 0, bin_chain = [''typefind'']\<rparr>"

datatype bin_property = BinProp sink_property | BinAsync bool | BinSync bool

definition forward_property :: "bin_property \<Rightarrow> subtecsink \<times> bool \<times> bool \<Rightarrow> (subtecsink \<times> bool \<times> bool) res" where
  "forward_property p c =
     (case c of (sink, as, sy) \<Rightarrow>
        (case p of
           BinProp q \<Rightarrow> bindE (subtecsink_set_property q sink) (\<lambda>sink. Inr (sink, as, sy))
         | BinAsync b \<Rightarrow> Inr (sink, b, sy)
         | BinSync b \<Rightarrow> Inr (sink, as, b)))"

definition record_property :: "bin_property \<Rightarrow> subtecbin \<Rightarrow> subtecbin res" where
  "record_property p b =
     (case p of
        BinProp (PropMute v) \<Rightarrow> Inr (b\<lparr>bin_mute := v\<rparr>)
      | BinProp (PropNoEos v) \<Rightarrow> Inr (b\<lparr>bin_no_eos := v\<rparr>)
      | BinProp (PropSocket v) \<Rightarrow> (case v of None \<Rightarrow> Inl Undefined | Some s \<Rightarrow> Inr (b\<lparr>bin_subtec_socket := s\<rparr>))
      | BinProp (PropPtsOffset v) \<Rightarrow> Inr (b\<lparr>bin_pts_offset := v\<rparr>)
      | BinProp _ \<Rightarrow> Inr b
      | BinAsync v \<Rightarrow> Inr (b\<lparr>bin_async := v\<rparr>)
      | BinSync v \<Rightarrow> Inr (b\<lparr>bin_sync := v\<rparr>))"

definition subtecbin_set_property :: "bin_property \<Rightarrow> subtecbin \<Rightarrow> subtecbin res" where
  "subtecbin_set_property p b =
     (case bin_sink b of
        None \<Rightarrow> record_property p b
      | Some c \<Rightarrow>
          if p = BinProp PropOther then Inr b
          else bindE (forward_property p c) (\<lambda>c. record_property p (b\<lparr>bin_sink := Some c\<rparr>)))"

text \<open>The lock of the element is tried ten times: once, and while the counter that starts at ten stays positive.\<close>

fun retry_lock :: "(nat \<Rightarrow> bool) \<Rightarrow> nat \<Rightarrow> nat \<Rightarrow> bool" where
  "retry_lock try_lock 0 i = False"
| "retry_lock try_lock (Suc left) i = (try_lock i \<or> retry_lock try_lock left (Suc i))"

definition try_lock_element_state :: "(nat \<Rightarrow> bool) \<Rightarrow> bool" where
  "try_lock_element_state try_lock = (try_lock 0 \<or> retry_lock try_lock 9 1)"

text \<open>A factory of the list: whether it takes all caps, whether it is a demultiplexer, and whether the formatter takes its caps.\<close>

definition type_found :: "(nat \<Rightarrow> bool) \<Rightarrow> bool \<Rightarrow> (bool \<times> bool \<times> bool) list \<Rightarrow> subtecbin \<Rightarrow> subtecbin res" where
  "type_found try_lock sink_made factories b =
     (if \<not> sink_made then Inr (b\<lparr>bin_sink := None\<rparr>)
      else
        bindE (forward_property (BinProp (PropMute (bin_mute b))) (subtecsink_init, True, True)) (\<lambda>c.
        bindE (forward_property (BinProp (PropNoEos (bin_no_eos b))) c) (\<lambda>c.
        bindE (forward_property (BinAsync (bin_async b)) c) (\<lambda>c.
        bindE (forward_property (BinSync (bin_sync b)) c) (\<lambda>c.
        bindE (forward_property (BinProp (PropPtsOffset (bin_pts_offset b))) c) (\<lambda>c.
          let demux = list_ex (\<lambda>(sinks, demuxer, fmt). sinks \<and> demuxer) factories;
              formatter = list_ex (\<lambda>(sinks, demuxer, fmt). sinks \<and> demuxer \<and> fmt) factories;
              b = b\<lparr>bin_sink := Some c, bin_demux := bin_demux b \<or> demux, bin_formatter := bin_formatter b \<or> formatter\<rparr>;
              chain = (if bin_demux b then [''demux''] else []) @ (if bin_formatter b then [''vipertransform''] else []) @ [''subtecsink'']
          in Inr (if try_lock_element_state try_lock then b\<lparr>bin_chain := bin_chain b @ chain\<rparr> else b)))))))"

section \<open>Time stamps and data\<close>

fun render_all :: "u64 \<Rightarrow> sub_buffer list \<Rightarrow> subtecsink \<Rightarrow> subtecsink res" where
  "render_all segment_time [] st = Inr st"
| "render_all segment_time (b # bs) st = bindE (subtecsink_render segment_time True b st) (render_all segment_time bs)"

definition buffer_msg :: "channel_type \<Rightarrow> sub_buffer \<Rightarrow> sink_action" where
  "buffer_msg t b = Send (data_msg t (if sb_offset b = - 1 then 0 else 0 - sb_offset b) (bytes_of (sb_text b)))"

definition stamp_msg :: "u64 \<Rightarrow> channel_type \<Rightarrow> subtecsink \<Rightarrow> sink_action" where
  "stamp_msg segment_time t st = Send (timestamp_msg t (get_timestamp_ms segment_time (sk_segmentstart st) (sk_pts_offset st)))"

lemma render_one:
  assumes "sk_channel st = Some t" and "sb_text b \<noteq> []"
  shows "subtecsink_render segment_time True b st = Inr (st\<lparr>sk_send_timestamp := False,
     sk_actions := sk_actions st @ (if sk_send_timestamp st then [stamp_msg segment_time t st] else []) @ [buffer_msg t b]\<rparr>)"
  using assms
  by (auto simp: subtecsink_render_def Let_def send_timestamp_now_def sk_send_via_def sk_send_def stamp_msg_def buffer_msg_def)

lemma render_all_sends:
  assumes "sk_channel st = Some t" and "\<forall>b \<in> set bs. sb_text b \<noteq> []"
  shows "\<exists>st'. render_all segment_time bs st = Inr st' \<and> sk_actions st' = sk_actions st
     @ (if sk_send_timestamp st \<and> bs \<noteq> [] then [stamp_msg segment_time t st] else []) @ map (buffer_msg t) bs"
  using assms
proof (induction bs arbitrary: st)
  case (Cons b bs)
  define st1 where "st1 = st\<lparr>sk_send_timestamp := False,
     sk_actions := sk_actions st @ (if sk_send_timestamp st then [stamp_msg segment_time t st] else []) @ [buffer_msg t b]\<rparr>"
  have "subtecsink_render segment_time True b st = Inr st1" using render_one Cons.prems by (simp add: st1_def)
  moreover obtain st2 where "render_all segment_time bs st1 = Inr st2" "sk_actions st2 = sk_actions st1 @ map (buffer_msg t) bs"
    using Cons.IH [of st1] Cons.prems by (auto simp: st1_def)
  ultimately show ?case by (simp add: st1_def)
qed simp

text \<open>C19: After a flush the renderer gets the selection, the state of the sink and, with the first data, one time stamp; then all
  data in order, each with the negated offset of its buffer.\<close>

theorem flush_then_data:
  assumes "sk_channel st = Some t" and "bs \<noteq> []" and "\<forall>b \<in> set bs. sb_text b \<noteq> []"
  shows "\<exists>st'. bindE (subtecsink_event segment_time SinkFlushStop st) (\<lambda>(_, st). render_all segment_time bs st) = Inr st'
     \<and> sk_actions st' = sk_actions st @ [Send (selection_msg t 1920 1080), Send (if sk_mute st then Mute else Unmute),
         Send (SetAttribute 0 (sk_attribute_mask st) (sk_attribute_values st)), stamp_msg segment_time t st] @ map (buffer_msg t) bs"
proof -
  define st1 where "st1 = set_attribute (set_mute ((sk_send (selection_msg t 1920 1080) st)\<lparr>sk_send_timestamp := True\<rparr>))"
  have fields: "sk_channel st1 = Some t" "sk_send_timestamp st1" "stamp_msg segment_time t st1 = stamp_msg segment_time t st"
    "sk_actions st1 = sk_actions st @ [Send (selection_msg t 1920 1080), Send (if sk_mute st then Mute else Unmute),
       Send (SetAttribute 0 (sk_attribute_mask st) (sk_attribute_values st))]"
    using assms(1) by (simp_all add: st1_def set_attribute_def set_mute_def sk_send_def stamp_msg_def)
  have "subtecsink_event segment_time SinkFlushStop st = Inr (None, st1)"
    using assms(1) by (simp add: subtecsink_event_def st1_def)
  then show ?thesis
    using render_all_sends [OF fields(1) assms(3), of segment_time] assms(2) fields by auto
qed

definition demo_sink :: subtecsink where "demo_sink = subtecsink_init\<lparr>sk_channel := Some TTML\<rparr>"

definition demo_buffer :: "string \<Rightarrow> u64 \<Rightarrow> sub_buffer" where
  "demo_buffer s off = \<lparr>sb_text = s, sb_pts = 2000000000, sb_dts = 0, sb_duration = 2000000000, sb_offset = off\<rparr>"

theorem flush_then_data_witness:
  "\<exists>st'. bindE (subtecsink_event 0 SinkFlushStop demo_sink) (\<lambda>(_, st). render_all 0 [demo_buffer ''a'' 3, demo_buffer ''b'' (- 1)] st) = Inr st'
     \<and> drop 3 (sk_actions st') = [Send (TtmlTimestamp 0), Send (TtmlData (- 3) (bytes_of ''a'')), Send (TtmlData 0 (bytes_of ''b''))]"
proof -
  have "sk_channel demo_sink = Some TTML" by (simp add: demo_sink_def)
  moreover have "stamp_msg 0 TTML demo_sink = Send (TtmlTimestamp 0)"
    by (simp add: stamp_msg_def timestamp_msg_def get_timestamp_ms_def demo_sink_def subtecsink_init_def Let_def)
  moreover have "map (buffer_msg TTML) [demo_buffer ''a'' 3, demo_buffer ''b'' (- 1)]
      = [Send (TtmlData (- 3) (bytes_of ''a'')), Send (TtmlData 0 (bytes_of ''b''))]"
    by (simp add: buffer_msg_def data_msg_def demo_buffer_def)
  moreover have "sk_actions demo_sink = []" by (simp add: demo_sink_def subtecsink_init_def)
  ultimately show ?thesis
    using flush_then_data [of demo_sink TTML "[demo_buffer ''a'' 3, demo_buffer ''b'' (- 1)]" 0]
    by (force simp: demo_buffer_def)
qed

text \<open>A clock event that comes before the caps dereferences the missing channel.\<close>

lemma clock_before_caps: "sk_channel st = None \<Longrightarrow> subtecsink_event segment_time (SubClockSync pts) st = Inl NullDeref"
  by (simp add: subtecsink_event_def send_timestamp_now_def sk_send_via_def)

section \<open>Properties of the bin\<close>

text \<open>The order of a property and the discovery of the type does not matter, for the properties that the bin hands to its sink.
  The socket and the attribute values are not among them: set before the type is known they are lost.\<close>

definition kept_property :: "bin_property \<Rightarrow> bool" where
  "kept_property p = (case p of BinProp (PropMute _) \<Rightarrow> True | BinProp (PropNoEos _) \<Rightarrow> True | BinProp (PropPtsOffset _) \<Rightarrow> True
     | BinAsync _ \<Rightarrow> True | BinSync _ \<Rightarrow> True | _ \<Rightarrow> False)"

lemma init_sink [simp]: "set_mute (subtecsink_init\<lparr>sk_mute := b\<rparr>) = subtecsink_init\<lparr>sk_mute := b\<rparr>"
  by (simp add: set_mute_def sk_send_def subtecsink_init_def)

definition found_sink :: "subtecbin \<Rightarrow> subtecsink \<times> bool \<times> bool" where
  "found_sink b = (subtecsink_init\<lparr>sk_mute := bin_mute b, sk_no_eos := bin_no_eos b, sk_pts_offset := bin_pts_offset b,
     sk_send_timestamp := True\<rparr>, bin_async b, bin_sync b)"

lemma type_found_sink: "\<exists>b'. type_found try_lock True factories b = Inr b' \<and> bin_sink b' = Some (found_sink b)"
  by (simp add: type_found_def forward_property_def subtecsink_set_property_def Let_def found_sink_def)

theorem property_order_irrelevant:
  assumes "kept_property p" and "bin_sink b = None"
    and "bindE (subtecbin_set_property p b) (type_found try_lock True factories) = Inr early"
    and "bindE (type_found try_lock True factories b) (subtecbin_set_property p) = Inr late"
  shows "bin_sink early = bin_sink late"
proof -
  obtain bp where bp: "subtecbin_set_property p b = Inr bp" "record_property p b = Inr bp"
    using assms(2,3) by (auto simp: subtecbin_set_property_def bindE_eq_Inr)
  then have e: "bin_sink early = Some (found_sink bp)"
    using assms(3) type_found_sink [of try_lock factories bp] by auto
  obtain bt where bt: "type_found try_lock True factories b = Inr bt" "bin_sink bt = Some (found_sink b)"
    using type_found_sink by blast
  have "bin_sink late = Some (found_sink bp)"
    using assms(1,4) bt bp(2)
    by (auto simp: kept_property_def subtecbin_set_property_def forward_property_def record_property_def subtecsink_set_property_def
        bindE_eq_Inr found_sink_def set_mute_def sk_send_def subtecsink_init_def
        split: bin_property.splits sink_property.splits)
  with e show ?thesis by simp
qed

theorem property_order_irrelevant_witness:
  "\<exists>early late. bindE (subtecbin_set_property (BinProp (PropPtsOffset 7)) subtecbin_init) (type_found (\<lambda>_. True) True []) = Inr early
     \<and> bindE (type_found (\<lambda>_. True) True [] subtecbin_init) (subtecbin_set_property (BinProp (PropPtsOffset 7))) = Inr late
     \<and> bin_sink early = bin_sink late"
proof -
  let ?p = "BinProp (PropPtsOffset 7)"
  obtain bp where bp: "subtecbin_set_property ?p subtecbin_init = Inr bp"
    by (simp add: subtecbin_set_property_def record_property_def subtecbin_init_def)
  obtain early where early: "type_found (\<lambda>_. True) True [] bp = Inr early" using type_found_sink by blast
  obtain bt where bt: "type_found (\<lambda>_. True) True [] subtecbin_init = Inr bt" "bin_sink bt = Some (found_sink subtecbin_init)"
    using type_found_sink by blast
  obtain late where late: "subtecbin_set_property ?p bt = Inr late"
    using bt(2) by (simp add: subtecbin_set_property_def forward_property_def record_property_def subtecsink_set_property_def found_sink_def)
  have "kept_property ?p" "bin_sink subtecbin_init = None" by (simp_all add: kept_property_def subtecbin_init_def)
  then show ?thesis
    using property_order_irrelevant [of ?p subtecbin_init "\<lambda>_. True" "[]" early late] bp early bt(1) late by auto
qed

lemma early_socket_lost:
  assumes "bin_sink b = None"
    and "bindE (subtecbin_set_property (BinProp (PropSocket (Some s))) b) (type_found try_lock True factories) = Inr early"
  shows "\<exists>sink as sy. bin_sink early = Some (sink, as, sy) \<and> sk_subtec_socket sink = []"
  using assms type_found_sink [of try_lock factories "b\<lparr>bin_subtec_socket := s\<rparr>"]
  by (auto simp: subtecbin_set_property_def record_property_def found_sink_def subtecsink_init_def)

text \<open>The lock of the bin is taken if and only if one of ten attempts succeeds.\<close>

lemma retry_lock_iff: "retry_lock try_lock n i \<longleftrightarrow> (\<exists>k < n. try_lock (i + k))"
proof (induction n arbitrary: i)
  case (Suc n)
  have "(\<exists>k < Suc n. try_lock (i + k)) \<longleftrightarrow> try_lock i \<or> (\<exists>k < n. try_lock (Suc i + k))"
    by (auto simp: less_Suc_eq_0_disj)
  then show ?case using Suc by simp
qed simp

lemma ten_attempts: "try_lock_element_state try_lock \<longleftrightarrow> (\<exists>k < 10. try_lock k)"
proof -
  have "(\<exists>k < Suc 9. try_lock k) \<longleftrightarrow> try_lock 0 \<or> (\<exists>k < 9. try_lock (Suc k))"
    by (simp only: less_Suc_eq_0_disj) auto
  then show ?thesis by (simp add: try_lock_element_state_def retry_lock_iff)
qed

section \<open>Linear cues meet the presentation time\<close>





end
