(* ===== verification/Security_License.thy ===== *)
theory Security_License
  imports Security_Session Json_Object
begin

text \<open>
  The content security manager of \<^verbatim>\<open>externals/contentsecuritymanager/\<close>: acquisition of a license from the security
  manager service (\<^verbatim>\<open>ContentSecurityManager.cpp\<close>, \<^verbatim>\<open>SecManagerThunder.cpp\<close>) or from content protection
  (\<^verbatim>\<open>IFirebolt/ContentProtectionFirebolt.cpp\<close>), the session calls, and the handlers of the watermark events with the tasks
  that they schedule. The remote calls of \<^verbatim>\<open>ThunderAccessPlayer.cpp\<close> go to a service: they are recorded in order, and the
  answers are functions of that history. A JSON object of the service is what its accessors give. While a license is
  acquired the mutex of the manager is held, and closing a session takes the same mutex, so a session that is closed
  then is undefined behaviour.
\<close>

section \<open>State and calls\<close>

text \<open>Parameters of a call; \<open>JRatio\<close> is the text of a quotient. A speed is a whole number.\<close>

datatype jparam = JInt int | JText string | JFlag bool | JRatio int int | JFields "(string \<times> jparam) list"

datatype plugin = SecManagerPlugin | WatermarkPlugin | AvInputPlugin | MediaPlayerPlugin | MediaSettingsPlugin | RdkShellPlugin
  | RmfPlugin | DsPlugin | HdmiInputPlugin | CompositeInputPlugin

datatype key_system = FbWidevine | FbPlayready | FbClearkey

datatype sec_call =
    Rpc plugin string "(string \<times> jparam) list"
  | Activate plugin
  | Subscribe string
  | Unsubscribe string
  | SleepMs int
  | SessionEvent u32 u32 string
  | FbInitialize string
  | FbConnect
  | FbDisconnect nat
  | FbOpen string string key_system string string
  | FbUpdate int string string
  | FbClose int
  | FbState int bool
  | FbPosition int int int
  | FbShow int bool
  | FbSubscribe
  | FbUnsubscribe nat

text \<open>A JSON object of the service; the object \<^verbatim>\<open>secManagerResultContext\<close> may be missing, as may its members.\<close>

record jview =
  jv_number :: "string \<Rightarrow> int"
  jv_flag :: "string \<Rightarrow> bool"
  jv_text :: "string \<Rightarrow> string"
  jv_context :: "(string \<Rightarrow> int option) option"

definition empty_view :: jview where
  "empty_view = \<lparr>jv_number = (\<lambda>_. 0), jv_flag = (\<lambda>_. False), jv_text = (\<lambda>_. []), jv_context = None\<rparr>"

record sec_env =
  remote :: "plugin \<Rightarrow> bool"
  reply_of :: "sec_call list \<Rightarrow> jview option"
  controller :: "plugin \<Rightarrow> bool"
  activate_ok :: "sec_call list \<Rightarrow> bool"
  subscribe_ok :: "sec_call list \<Rightarrow> bool"
  sec_malloc :: "sec_call list \<Rightarrow> nat \<Rightarrow> bool"
  string_hash :: "string \<Rightarrow> nat"
  fb_endpoint :: "string option"
  fb_init_ok :: "sec_call list \<Rightarrow> bool"
  fb_connect_answer :: "sec_call list \<Rightarrow> nat option"
  fb_connected_in_time :: "sec_call list \<Rightarrow> bool"
  fb_subscribe_answer :: "sec_call list \<Rightarrow> nat option"
  fb_open_answer :: "sec_call list \<Rightarrow> (string \<times> string) option"
  fb_update_answer :: "sec_call list \<Rightarrow> string option"
  fb_ok :: "sec_call list \<Rightarrow> bool"

datatype sec_task =
    CreateTask int int
  | UpdateTask int int int
  | PaletteTask int int
  | ModifyTask int int int
  | DeleteTask int
  | ShowTask bool

record secman =
  sm_store :: sec_store
  sm_calls :: "sec_call list"
  sm_tasks :: "sec_task list"
  mRegisteredEvents :: "string list"
  mSchedulerStarted :: bool
  watermark_cb :: bool
  mInitialized :: bool
  mIsConnected :: bool
  mListenerId :: nat
  mSubscriptionId :: nat

definition sec_emit :: "sec_call \<Rightarrow> secman \<Rightarrow> secman" where
  "sec_emit c st = st\<lparr>sm_calls := sm_calls st @ [c]\<rparr>"

definition to_int32 :: "int \<Rightarrow> int" where "to_int32 k = sint (word_of_int k :: 32 word)"

section \<open>Remote calls\<close>

text \<open>The result is replaced by the answer whenever the service was called, also when the call failed.\<close>

definition InvokeJSONRPC ::
  "sec_env \<Rightarrow> plugin \<Rightarrow> string \<Rightarrow> (string \<times> jparam) list \<Rightarrow> jview \<Rightarrow> secman \<Rightarrow> bool \<times> jview \<times> secman" where
  "InvokeJSONRPC env p method param result st =
     (if \<not> remote env p then (False, result, st)
      else let st = sec_emit (Rpc p method param) st
           in case reply_of env (sm_calls st) of
                None \<Rightarrow> (False, empty_view, st)
              | Some r \<Rightarrow> (jv_flag r ''success'', r, st))"

definition ActivatePlugin :: "sec_env \<Rightarrow> plugin \<Rightarrow> secman \<Rightarrow> bool \<times> secman" where
  "ActivatePlugin env p st =
     (if \<not> controller env p then (False, st) else let st = sec_emit (Activate p) st in (activate_ok env (sm_calls st), st))"

definition SubscribeEvent :: "sec_env \<Rightarrow> string \<Rightarrow> secman \<Rightarrow> bool \<times> secman" where
  "SubscribeEvent env eventName st =
     (if \<not> remote env SecManagerPlugin then (False, st)
      else let st = sec_emit (Subscribe eventName) st in (subscribe_ok env (sm_calls st), st))"

definition UnSubscribeEvent :: "sec_env \<Rightarrow> string \<Rightarrow> secman \<Rightarrow> bool \<times> secman" where
  "UnSubscribeEvent env eventName st =
     (if \<not> remote env SecManagerPlugin then (False, st) else (True, sec_emit (Unsubscribe eventName) st))"

text \<open>What every caller makes of the call: success when the call succeeded and the answer says so.\<close>

definition sec_invoke :: "sec_env \<Rightarrow> plugin \<Rightarrow> string \<Rightarrow> (string \<times> jparam) list \<Rightarrow> secman \<Rightarrow> bool \<times> jview \<times> secman" where
  "sec_invoke env p method param st =
     (let (rpcResult, result, st) = InvokeJSONRPC env p method param empty_view st
      in (rpcResult \<and> jv_flag result ''success'', result, st))"

definition SetDrmSessionState :: "sec_env \<Rightarrow> int \<Rightarrow> bool \<Rightarrow> secman \<Rightarrow> bool \<times> secman" where
  "SetDrmSessionState env sessionId active st =
     (let (ok, _, st) = sec_invoke env SecManagerPlugin ''setPlaybackSessionState''
            [(''clientId'', JText ''player''), (''sessionId'', JInt sessionId),
             (''sessionState'', JText (if active then ''active'' else ''inactive''))] st
      in (ok, st))"

definition CloseDrmSession :: "sec_env \<Rightarrow> int \<Rightarrow> secman \<Rightarrow> secman" where
  "CloseDrmSession env sessionId st =
     (let (_, _, st) = sec_invoke env SecManagerPlugin ''closePlaybackSession''
            [(''clientId'', JText ''player''), (''sessionId'', JInt sessionId)] st
      in st)"

definition setWindowSize :: "sec_env \<Rightarrow> int \<Rightarrow> int \<Rightarrow> int \<Rightarrow> secman \<Rightarrow> bool \<times> secman" where
  "setWindowSize env sessionId video_width video_height st =
     (let (ok, _, st) = sec_invoke env SecManagerPlugin ''setVideoWindowSize''
            [(''sessionId'', JInt sessionId), (''videoWidth'', JInt video_width), (''videoHeight'', JInt video_height)] st
      in (ok, st))"

definition SetPlaybackPosition :: "sec_env \<Rightarrow> int \<Rightarrow> int \<Rightarrow> int \<Rightarrow> secman \<Rightarrow> bool \<times> secman" where
  "SetPlaybackPosition env sessionId playback_speed playback_position st =
     (let (ok, _, st) = sec_invoke env SecManagerPlugin ''setPlaybackSpeedState''
            [(''sessionId'', JInt sessionId), (''playbackSpeed'', JInt playback_speed),
             (''playbackPosition'', JInt playback_position)] st
      in (ok, st))"

definition loadClutWatermark :: "sec_env \<Rightarrow> int \<Rightarrow> int \<Rightarrow> int \<Rightarrow> int \<Rightarrow> int \<Rightarrow> string \<Rightarrow> int \<Rightarrow> int \<Rightarrow> jparam \<Rightarrow> secman \<Rightarrow> bool \<times> secman" where
  "loadClutWatermark env sessionId graphicId clutKey imageKey clutSize format width height aspectRatio st =
     (let (ok, _, st) = sec_invoke env SecManagerPlugin ''loadClutWatermark''
            [(''sessionId'', JInt sessionId), (''graphicId'', JInt graphicId), (''watermarkClutBufferKey'', JInt clutKey),
             (''watermarkImageBufferKey'', JInt imageKey), (''clutPaletteSize'', JInt clutSize),
             (''clutPaletteFormat'', JText format), (''watermarkWidth'', JInt width), (''watermarkHeight'', JInt height),
             (''aspectRatio'', aspectRatio)] st
      in (ok, st))"

section \<open>Watermarks\<close>

definition watermark_rpc :: "sec_env \<Rightarrow> string \<Rightarrow> (string \<times> jparam) list \<Rightarrow> secman \<Rightarrow> secman" where
  "watermark_rpc env method param st = snd (snd (sec_invoke env WatermarkPlugin method param st))"

definition ShowWatermark :: "sec_env \<Rightarrow> bool \<Rightarrow> secman \<Rightarrow> secman" where
  "ShowWatermark env show_it = watermark_rpc env ''showWatermark'' [(''show'', JFlag show_it)]"

definition CreateWatermark :: "sec_env \<Rightarrow> int \<Rightarrow> int \<Rightarrow> secman \<Rightarrow> secman" where
  "CreateWatermark env graphicId zIndex = watermark_rpc env ''createWatermark'' [(''id'', JInt graphicId), (''zorder'', JInt zIndex)]"

definition DeleteWatermark :: "sec_env \<Rightarrow> int \<Rightarrow> secman \<Rightarrow> secman" where
  "DeleteWatermark env graphicId = watermark_rpc env ''deleteWatermark'' [(''id'', JInt graphicId)]"

definition UpdateWatermark :: "sec_env \<Rightarrow> int \<Rightarrow> int \<Rightarrow> int \<Rightarrow> secman \<Rightarrow> secman" where
  "UpdateWatermark env graphicId smKey smSize =
     watermark_rpc env ''updateWatermark'' [(''id'', JInt graphicId), (''key'', JInt smKey), (''size'', JInt smSize)]"

definition AlwaysShowWatermarkOnTop :: "sec_env \<Rightarrow> bool \<Rightarrow> secman \<Rightarrow> secman" where
  "AlwaysShowWatermarkOnTop env show_it = watermark_rpc env ''alwaysShowWatermarkOnTop'' [(''show'', JFlag show_it)]"

definition GetWaterMarkPalette :: "sec_env \<Rightarrow> int \<Rightarrow> int \<Rightarrow> secman \<Rightarrow> secman" where
  "GetWaterMarkPalette env sessionId graphicId st =
     (let (ok, result, st) = sec_invoke env WatermarkPlugin ''getPalettedWatermark'' [(''id'', JInt graphicId)] st
      in if ok then
           let number = (\<lambda>name. to_int32 (jv_number result name)); width = number ''imageWidth''; height = number ''imageHeight''
           in snd (loadClutWatermark env sessionId graphicId (number ''clutKey'') (number ''imageKey'') (number ''clutSize'')
                ''RGBA8888'' width height (if height \<noteq> 0 then JRatio width height else JRatio 0 1) st)
         else st)"

definition ModifyWatermarkPalette :: "sec_env \<Rightarrow> int \<Rightarrow> int \<Rightarrow> int \<Rightarrow> secman \<Rightarrow> secman" where
  "ModifyWatermarkPalette env graphicId clutKey imageKey =
     watermark_rpc env ''modifyPalettedWatermark'' [(''id'', JInt graphicId), (''clutKey'', JInt clutKey), (''imageKey'', JInt imageKey)]"

text \<open>The functions of the tasks.\<close>

fun run_sec_task :: "sec_env \<Rightarrow> sec_task \<Rightarrow> secman \<Rightarrow> secman" where
  "run_sec_task env (CreateTask g z) st = CreateWatermark env g z st"
| "run_sec_task env (UpdateTask g k s) st = UpdateWatermark env g k s st"
| "run_sec_task env (PaletteTask i g) st = GetWaterMarkPalette env i g st"
| "run_sec_task env (ModifyTask g c i) st = ModifyWatermarkPalette env g c i st"
| "run_sec_task env (DeleteTask g) st = DeleteWatermark env g st"
| "run_sec_task env (ShowTask b) st = ShowWatermark env b st"

definition sec_schedule :: "sec_task \<Rightarrow> secman \<Rightarrow> secman" where
  "sec_schedule t st = st\<lparr>sm_tasks := sm_tasks st @ [t]\<rparr>"

definition watermarkSessionHandler :: "jview \<Rightarrow> secman \<Rightarrow> secman" where
  "watermarkSessionHandler parameters st =
     (if watermark_cb st
      then sec_emit (SessionEvent (word_of_int (jv_number parameters ''sessionId''))
             (word_of_int (jv_number parameters ''conditionContext'')) (jv_text parameters ''watermarkingSystem'')) st
      else st)"

definition addWatermarkHandler :: "jview \<Rightarrow> secman \<Rightarrow> secman" where
  "addWatermarkHandler parameters st =
     (let number = (\<lambda>name. to_int32 (jv_number parameters name)); g = number ''graphicId''
      in if mSchedulerStarted st then
           let st = sec_schedule (CreateTask g (number ''zIndex'')) st;
               st = sec_schedule (UpdateTask g (number ''graphicImageBufferKey'') (number ''graphicImageSize'')) st
           in if jv_flag parameters ''adjustVisibilityRequired'' then sec_schedule (PaletteTask (number ''sessionId'') g) st else st
         else st)"

definition updateWatermarkHandler :: "jview \<Rightarrow> secman \<Rightarrow> secman" where
  "updateWatermarkHandler parameters st =
     (let number = (\<lambda>name. to_int32 (jv_number parameters name))
      in if mSchedulerStarted st
         then sec_schedule (ModifyTask (number ''graphicId'') (number ''watermarkClutBufferKey'') (number ''watermarkImageBufferKey'')) st
         else st)"

definition removeWatermarkHandler :: "jview \<Rightarrow> secman \<Rightarrow> secman" where
  "removeWatermarkHandler parameters st =
     (if mSchedulerStarted st then sec_schedule (DeleteTask (to_int32 (jv_number parameters ''graphicId''))) st else st)"

definition showWatermarkHandler :: "jview \<Rightarrow> secman \<Rightarrow> secman" where
  "showWatermarkHandler parameters st =
     (if mSchedulerStarted st then sec_schedule (ShowTask (\<not> jv_flag parameters ''hideWatermark'')) st else st)"

section \<open>Start and end of the manager\<close>

definition sec_events :: "string list" where
  "sec_events = [''onWatermarkSession'', ''onAddWatermark'', ''onUpdateWatermark'', ''onRemoveWatermark'', ''onDisplayWatermark'']"

definition register_event :: "sec_env \<Rightarrow> secman \<Rightarrow> string \<Rightarrow> secman" where
  "register_event env st name =
     (let (bSubscribed, st) = SubscribeEvent env name st
      in if bSubscribed then st\<lparr>mRegisteredEvents := mRegisteredEvents st @ [name]\<rparr> else st)"

definition RegisterAllEvents :: "sec_env \<Rightarrow> secman \<Rightarrow> secman" where
  "RegisterAllEvents env st = foldl (register_event env) st sec_events"

definition UnRegisterAllEvents :: "sec_env \<Rightarrow> secman \<Rightarrow> secman" where
  "UnRegisterAllEvents env st =
     (foldl (\<lambda>st name. snd (UnSubscribeEvent env name st)) st (mRegisteredEvents st))
     \<lparr>mRegisteredEvents := []\<rparr>"

text \<open>The first manager of a process closes all sessions. The scheduler forgets its tasks when it is stopped.\<close>

definition SecManagerThunder :: "sec_env \<Rightarrow> bool \<Rightarrow> secman \<Rightarrow> secman" where
  "SecManagerThunder env firstInstance st =
     (let st = st\<lparr>sm_tasks := [], mRegisteredEvents := [], mSchedulerStarted := False\<rparr>;
          st = snd (ActivatePlugin env WatermarkPlugin (snd (ActivatePlugin env SecManagerPlugin st)));
          st = (ShowWatermark env False st)\<lparr>mSchedulerStarted := True\<rparr>;
          st = (if firstInstance
                then snd (snd (sec_invoke env SecManagerPlugin ''closePlaybackSession''
                       [(''clientId'', JText ''player''), (''sessionId'', JInt 0)] st)) else st)
      in RegisterAllEvents env st)"

definition delete_SecManagerThunder :: "sec_env \<Rightarrow> secman \<Rightarrow> secman" where
  "delete_SecManagerThunder env st =
     (let st = ShowWatermark env False st;
          st = (if mSchedulerStarted st then st\<lparr>sm_tasks := [], mSchedulerStarted := False\<rparr> else st)
      in UnRegisterAllEvents env st)"

section \<open>Acquisition of a license\<close>

text \<open>A character array is its text and the length that comes with it. \<open>None\<close> is a null pointer.\<close>

record license_args =
  client_id :: string
  app_id :: string
  money_trace :: string
  content_metadata :: "(string \<times> nat) option"
  license_request :: "(string \<times> nat) option"
  key_system_id :: string
  media_usage :: string
  access_token :: "(string \<times> nat) option"
  video_muted :: bool
  sleep_time :: int

definition copy_chars :: "(string \<times> nat) option \<Rightarrow> string res" where
  "copy_chars p =
     (case p of
        None \<Rightarrow> Inr []
      | Some (s, n) \<Rightarrow> if n \<le> length s + 1 then Inr (take n (s @ [CHR 0x00])) else Inl OutOfBounds)"

text \<open>The hash of the inputs; writing a null pointer to a stream is undefined.\<close>

definition input_summary_hash :: "sec_env \<Rightarrow> license_args \<Rightarrow> nat res" where
  "input_summary_hash env a =
     (case (access_token a, content_metadata a, license_request a) of
        (Some (token, _), Some (meta, _), Some (req, _)) \<Rightarrow>
          Inr (string_hash env (money_trace a @ (if video_muted a then ''1'' else ''0'') @ key_system_id a @ media_usage a
            @ token @ meta @ req))
      | _ \<Rightarrow> Inl Undefined)"

definition CONTENT_SECURITY_MANAGER_DRM_FAILURE :: int where "CONTENT_SECURITY_MANAGER_DRM_FAILURE = 200"
definition CONTENT_SECURITY_MANAGER_WM_FAILURE :: int where "CONTENT_SECURITY_MANAGER_WM_FAILURE = 300"
definition CONTENT_SECURITY_MANAGER_DRM_GEN_FAILURE :: int where "CONTENT_SECURITY_MANAGER_DRM_GEN_FAILURE = 1"
definition SERVICE_FAILURES :: "int set" where "SERVICE_FAILURES = {3, 4, 5}"
definition MAX_LICENSE_REQUEST_ATTEMPTS :: nat where "MAX_LICENSE_REQUEST_ATTEMPTS = 2"

text \<open>The outputs: the pointers that are written, \<open>None\<close> while they are not.\<close>

record license_out =
  lo_ret :: bool
  lo_license :: "byte list option"
  lo_status :: int
  lo_reason :: int
  lo_business :: "int option"

definition license_start :: license_out where
  "license_start = \<lparr>lo_ret = False, lo_license = None, lo_status = CONTENT_SECURITY_MANAGER_DRM_FAILURE,
     lo_reason = CONTENT_SECURITY_MANAGER_DRM_GEN_FAILURE, lo_business = None\<rparr>"

text \<open>The sessions of one attempt: \<open>newSession\<close>, the temporary that is assigned to it, and the caller's session.\<close>

definition keep_new_session :: "nat \<Rightarrow> (int \<times> nat) option \<Rightarrow> sec_store \<Rightarrow> sec_store" where
  "keep_new_session session new st =
     (let n = length (handles st); st = invalid_session st;
          st = (case new of
                  None \<Rightarrow> st
                | Some (x, h) \<Rightarrow>
                    let st = ContentSecurityManagerSession x h st
                    in setSessionInvalid (Suc n) (set_handle n (handles st ! Suc n) st));
          st = (if isSessionValid n st \<and> \<not> isSessionValid session st then set_handle session (handles st ! n) st else st)
      in setSessionInvalid n st)"

text \<open>Under the mutex of the manager.\<close>

definition keep_locked :: "nat \<Rightarrow> (int \<times> nat) option \<Rightarrow> secman \<Rightarrow> secman res" where
  "keep_locked session new st =
     (let store = keep_new_session session new (sm_store st)
      in if released store = released (sm_store st) then Inr (st\<lparr>sm_store := store\<rparr>) else Inl Undefined)"

text \<open>The license that is decoded counts also when there is no memory for its copy.\<close>

definition take_license :: "sec_env \<Rightarrow> secman \<Rightarrow> string \<Rightarrow> license_out \<Rightarrow> license_out" where
  "take_license env st license out =
     (let malloc_ok = sec_malloc env (sm_calls st)
      in if license = [] then out
         else case base64_Decode_cstr malloc_ok license of
                None \<Rightarrow> out
              | Some d \<Rightarrow>
                  if d = [] then out
                  else out\<lparr>lo_license := (if malloc_ok (length d) then Some d else lo_license out), lo_ret := True\<rparr>)"

definition read_context :: "(string \<Rightarrow> int option) option \<Rightarrow> license_out \<Rightarrow> license_out" where
  "read_context context out =
     (case context of
        None \<Rightarrow> out
      | Some member \<Rightarrow>
          let member = map_option to_int32 \<circ> member
          in out\<lparr>lo_status := (case member ''class'' of Some k \<Rightarrow> k | None \<Rightarrow> lo_status out),
                 lo_reason := (case member ''reason'' of Some k \<Rightarrow> k | None \<Rightarrow> lo_reason out),
                 lo_business := (case member ''businessStatus'' of Some k \<Rightarrow> Some k | None \<Rightarrow> lo_business out)\<rparr>)"

text \<open>The attempts of both managers: \<open>n\<close> is the number of attempts that are left.\<close>

definition retry_wanted :: "license_out \<Rightarrow> bool" where
  "retry_wanted out \<longleftrightarrow>
     \<not> lo_ret out \<and> lo_status out \<in> {CONTENT_SECURITY_MANAGER_DRM_FAILURE, CONTENT_SECURITY_MANAGER_WM_FAILURE}
     \<and> lo_reason out \<in> SERVICE_FAILURES"

fun license_attempts ::
  "('s \<Rightarrow> license_out \<Rightarrow> secman \<Rightarrow> ('s \<times> license_out \<times> secman) res) \<Rightarrow> int \<Rightarrow> nat \<Rightarrow> 's \<Rightarrow> license_out \<Rightarrow> secman \<Rightarrow> (license_out \<times> secman) res"
where
  "license_attempts attempt pause 0 resp out st = Inr (out, st)"
| "license_attempts attempt pause (Suc n) resp out st =
     bindE (attempt resp out st) (\<lambda>(resp, out, st).
       if retry_wanted out then license_attempts attempt pause n resp out (sec_emit (SleepMs pause) st) else Inr (out, st))"

subsection \<open>The security manager\<close>

definition thunder_params :: "license_args \<Rightarrow> string \<Rightarrow> string \<Rightarrow> string \<Rightarrow> int option \<Rightarrow> (string \<times> jparam) list" where
  "thunder_params a token meta req session =
     [(''clientId'', JText ''player''),
      (''sessionConfiguration'', JFields [(''distributedTraceType'', JText ''money''), (''distributedTraceId'', JText (money_trace a)),
         (''sessionState'', JText (if video_muted a then ''inactive'' else ''active''))]),
      (''contentAspectDimensions'', JFields [(''width'', JInt 1920), (''height'', JInt 1080)]),
      (''keySystem'', JText (key_system_id a)), (''mediaUsage'', JText (media_usage a))]
     @ (case session of None \<Rightarrow> [] | Some x \<Rightarrow> [(''sessionId'', JInt x)])
     @ [(''accessToken'', JText token), (''contentMetadata'', JText meta), (''licenseRequest'', JText req)]"

definition thunder_attempt ::
  "sec_env \<Rightarrow> string \<Rightarrow> (string \<times> jparam) list \<Rightarrow> nat \<Rightarrow> nat \<Rightarrow> jview \<Rightarrow> license_out \<Rightarrow> secman \<Rightarrow> (jview \<times> license_out \<times> secman) res"
where
  "thunder_attempt env apiName param h session resp out st =
     (let (rpcResult, resp, st) = InvokeJSONRPC env SecManagerPlugin apiName param resp st;
          success = jv_flag resp ''success'';
          out' = (if rpcResult \<and> success then take_license env st (jv_text resp ''license'') out else out)
      in bindE (if rpcResult then keep_locked session (if success then Some (jv_number resp ''sessionId'', h) else None) st else Inr st)
           (\<lambda>st. Inr (resp, read_context (jv_context resp) out', st)))"

definition thunder_acquire :: "sec_env \<Rightarrow> license_args \<Rightarrow> nat \<Rightarrow> secman \<Rightarrow> (license_out \<times> secman) res" where
  "thunder_acquire env a session st =
     bindE (copy_chars (access_token a)) (\<lambda>token. bindE (copy_chars (content_metadata a)) (\<lambda>meta.
       bindE (copy_chars (license_request a)) (\<lambda>req.
         if token \<noteq> [] \<and> meta \<noteq> [] \<and> req \<noteq> [] then
           let valid = isSessionValid session (sm_store st);
               apiName = (if valid then ''updatePlaybackSession'' else ''openPlaybackSession'');
               param = thunder_params a token meta req (if valid then Some (getSessionID session (sm_store st)) else None)
           in bindE (input_summary_hash env a) (\<lambda>h.
                license_attempts (thunder_attempt env apiName param h session) (sleep_time a) MAX_LICENSE_REQUEST_ATTEMPTS
                  empty_view license_start st)
         else Inr (license_start, st))))"

section \<open>Sessions of one attempt\<close>

lemma handle_id: "i < length (handles st) \<Longrightarrow> Option.bind (handles st ! i) (live_id st) = ids (abs_sec st) ! i"
  by (simp add: abs_sec_def)

lemma ids_length [simp]: "length (ids (abs_sec st)) = length (handles st)"
  by (simp add: abs_sec_def)

lemma closed_released [simp]: "closed (abs_sec st) = released st"
  by (simp add: abs_sec_def)

lemma valid_iff_id:
  assumes "sec_wf st" and "i < length (handles st)"
  shows "isSessionValid i st \<longleftrightarrow> ids (abs_sec st) ! i \<noteq> None"
proof -
  have "handles st ! i \<noteq> None \<Longrightarrow> Option.bind (handles st ! i) (live_id st) \<noteq> None"
    using sec_wfD(1) [OF assms(1)] assms(2) by (metis bind.bind_lunit nth_mem option.exhaust)
  then show ?thesis using assms(2) by (auto simp: isSessionValid_def bind_eq_Some_conv simp flip: handle_id)
qed

lemma put_handle:
  assumes "sec_wf st" and "i < length (handles st)" and "k < length (handles st)"
  shows "sec_wf (set_handle i (handles st ! k) st) \<and> abs_sec (set_handle i (handles st ! k) st) = spec_put i (ids (abs_sec st) ! k) (abs_sec st)"
  using set_handle_wf_abs [OF assms(1,2), of "handles st ! k"] assms(3) by (simp add: handle_id)

lemma put_none:
  assumes "sec_wf st" and "i < length (handles st)"
  shows "sec_wf (setSessionInvalid i st) \<and> abs_sec (setSessionInvalid i st) = spec_put i None (abs_sec st)"
  using set_handle_wf_abs [OF assms, of None] by (simp add: setSessionInvalid_def)

lemma set_handle_length [simp]: "length (handles (set_handle i p st)) = length (handles st)"
  by (simp add: set_handle_def Let_def split: option.split)

text \<open>In the abstract model: the new id is put into the session if that is empty; if it is not, and no session has that id,
  the id is closed.\<close>

definition new_id :: "(int \<times> nat) option \<Rightarrow> int option" where
  "new_id new = (case new of None \<Rightarrow> None | Some (x, _) \<Rightarrow> if 0 < x then Some x else None)"

definition kept_ids :: "nat \<Rightarrow> int option \<Rightarrow> int option list \<Rightarrow> int option list" where
  "kept_ids session new xs = (if xs ! session = None then xs[session := new] else xs)"

definition lost_id :: "int option \<Rightarrow> int option list \<Rightarrow> int list" where
  "lost_id new kept = (case new of None \<Rightarrow> [] | Some x \<Rightarrow> if Some x \<in> set kept then [] else [x])"

lemma keep_end:
  assumes wf: "sec_wf st" and n: "n < length (handles st)" and s: "session < length (handles st)" and ne: "session \<noteq> n"
  defines "st1 \<equiv> if isSessionValid n st \<and> \<not> isSessionValid session st then set_handle session (handles st ! n) st else st"
  shows "sec_wf (setSessionInvalid n st1)
    \<and> abs_sec (setSessionInvalid n st1)
      = spec_put n None (if ids (abs_sec st) ! session = None then spec_put session (ids (abs_sec st) ! n) (abs_sec st) else abs_sec st)"
proof -
  have l: "length (handles st1) = length (handles st)" by (simp add: st1_def)
  have id: "spec_put session None (abs_sec st) = abs_sec st" if "ids (abs_sec st) ! session = None"
    using that by (simp add: spec_put_def Let_def list_update_same_conv s)
  have "sec_wf st1 \<and> abs_sec st1 = (if ids (abs_sec st) ! session = None then spec_put session (ids (abs_sec st) ! n) (abs_sec st) else abs_sec st)"
    using put_handle [OF wf s n] wf valid_iff_id [OF wf n] valid_iff_id [OF wf s] id by (auto simp: st1_def)
  then show ?thesis using put_none [of st1 n] n l by auto
qed

lemma spec_put_temporary:
  "spec_put (Suc (length xs)) None (spec_put (length xs) v \<lparr>ids = xs @ [None, v], closed = c\<rparr>) = \<lparr>ids = xs @ [v, None], closed = c\<rparr>"
  by (auto simp: spec_put_def Let_def nth_append list_update_append split: option.split)

lemma spec_put_none_last:
  assumes "session < length xs"
  shows "spec_put (length xs) None
       (if xs ! session = None then spec_put session v \<lparr>ids = xs @ v # replicate k None, closed = c\<rparr>
        else \<lparr>ids = xs @ v # replicate k None, closed = c\<rparr>)
     = \<lparr>ids = kept_ids session v xs @ None # replicate k None, closed = c @ lost_id v (kept_ids session v xs)\<rparr>"
  using assms
  by (auto simp: spec_put_def kept_ids_def lost_id_def nth_append list_update_append split: option.split)

lemma keep_new_session_spec:
  fixes new :: "(int \<times> nat) option"
  assumes wf: "sec_wf st" and s: "session < length (handles st)"
  defines "st' \<equiv> keep_new_session session new st" and "kept \<equiv> kept_ids session (new_id new) (ids (abs_sec st))"
  shows "sec_wf st' \<and> (\<exists>k. ids (abs_sec st') = kept @ replicate k None) \<and> released st' = released st @ lost_id (new_id new) kept"
proof -
  let ?n = "length (handles st)" and ?xs = "ids (abs_sec st)"
  define st1 where "st1 = invalid_session st"
  have st1: "sec_wf st1" "abs_sec st1 = spec_add None (abs_sec st)" using new_none_wf_abs [OF wf] by (simp_all add: st1_def invalid_session_def)
  have l1: "length (handles st1) = Suc ?n" using arg_cong [OF st1(2), of "\<lambda>a. length (ids a)"] by (simp add: spec_add_def)
  define st2 where "st2 = (case new of None \<Rightarrow> st1 | Some (x, h) \<Rightarrow>
     let st = ContentSecurityManagerSession x h st1 in setSessionInvalid (Suc ?n) (set_handle ?n (handles st ! Suc ?n) st))"
  define k where "k = (case new of None \<Rightarrow> 0 | Some _ \<Rightarrow> Suc 0)"
  have st2: "sec_wf st2 \<and> abs_sec st2 = \<lparr>ids = ?xs @ new_id new # replicate k None, closed = released st\<rparr>"
  proof (cases new)
    case None
    then show ?thesis using st1 by (simp add: st2_def k_def new_id_def spec_add_def)
  next
    case (Some p)
    obtain x h where p: "p = (x, h)" by (cases p)
    define sa where "sa = ContentSecurityManagerSession x h st1"
    have sa: "sec_wf sa" "abs_sec sa = spec_add (new_id new) (abs_sec st1)"
      using new_session_wf_abs [OF st1(1), of x h] by (auto simp: sa_def Some p new_id_def)
    have la: "length (handles sa) = Suc (Suc ?n)" using arg_cong [OF sa(2), of "\<lambda>a. length (ids a)"] l1 by (simp add: spec_add_def)
    define sb where "sb = set_handle ?n (handles sa ! Suc ?n) sa"
    have sb: "sec_wf sb" "abs_sec sb = spec_put ?n (ids (abs_sec sa) ! Suc ?n) (abs_sec sa)"
      using put_handle [OF sa(1), of ?n "Suc ?n"] la by (simp_all add: sb_def)
    have lb: "length (handles sb) = Suc (Suc ?n)" using la by (simp add: sb_def)
    have "sec_wf (setSessionInvalid (Suc ?n) sb)" "abs_sec (setSessionInvalid (Suc ?n) sb) = spec_put (Suc ?n) None (abs_sec sb)"
      using put_none [OF sb(1), of "Suc ?n"] lb by simp_all
    moreover have "abs_sec sa = \<lparr>ids = ?xs @ [None, new_id new], closed = released st\<rparr>"
      by (simp add: sa(2) st1(2) spec_add_def)
    ultimately show ?thesis
      using sb(2) spec_put_temporary [of ?xs "new_id new" "released st"]
      by (simp add: st2_def Some p k_def sa_def [symmetric] sb_def [symmetric] nth_append)
  qed
  then have l2: "length (handles st2) = Suc (?n + k)" by (simp flip: ids_length)
  have "st' = setSessionInvalid ?n (if isSessionValid ?n st2 \<and> \<not> isSessionValid session st2 then set_handle session (handles st2 ! ?n) st2 else st2)"
    unfolding st'_def keep_new_session_def st2_def st1_def by (simp add: Let_def split: option.split)
  moreover have v: "ids (abs_sec st2) ! ?n = new_id new" "ids (abs_sec st2) ! session = ?xs ! session"
    using st2 s by (simp_all add: nth_append)
  ultimately have "sec_wf st' \<and> abs_sec st' = spec_put ?n None (if ids (abs_sec st2) ! session = None
      then spec_put session (ids (abs_sec st2) ! ?n) (abs_sec st2) else abs_sec st2)"
    using keep_end [of st2 ?n session] st2 l2 s by simp
  then have "sec_wf st' \<and> abs_sec st' = \<lparr>ids = kept @ None # replicate k None, closed = released st @ lost_id (new_id new) kept\<rparr>"
    using st2 v spec_put_none_last [of session ?xs "new_id new" k "released st"] s by (auto simp: kept_def)
  then have "sec_wf st'" "ids (abs_sec st') = kept @ replicate (Suc k) None" "closed (abs_sec st') = released st @ lost_id (new_id new) kept"
    by simp_all
  then show ?thesis unfolding closed_released by blast
qed

lemma lost_kept_iff:
  "session < length xs \<Longrightarrow> lost_id new (kept_ids session new xs) = [] \<longleftrightarrow> \<not> (xs ! session \<noteq> None \<and> new \<noteq> None \<and> new \<notin> set xs)"
  by (auto simp: lost_id_def kept_ids_def set_update_memI split: option.split)

lemma session_id: 
  assumes "i < length (handles st)"
  shows "getSessionID i st = (case ids (abs_sec st) ! i of None \<Rightarrow> - 1 | Some x \<Rightarrow> x)"
  using handle_id [OF assms, symmetric]
  by (cases "handles st ! i") (auto simp: getSessionID_def live_id_def split: option.split)

text \<open>What is assumed of a manager and the session that it is called with.\<close>

definition session_ok :: "nat \<Rightarrow> secman \<Rightarrow> bool" where
  "session_ok session st \<longleftrightarrow> sec_wf (sm_store st) \<and> session < length (handles (sm_store st))"

definition held_ids :: "secman \<Rightarrow> int option list" where "held_ids st = ids (abs_sec (sm_store st))"

lemma session_ok_emit [simp]: "session_ok session (sec_emit c st) = session_ok session st" "held_ids (sec_emit c st) = held_ids st"
  "sm_store (sec_emit c st) = sm_store st" "sm_calls (sec_emit c st) = sm_calls st @ [c]"
  by (simp_all add: session_ok_def held_ids_def sec_emit_def)

lemma valid_held: "session_ok session st \<Longrightarrow> isSessionValid session (sm_store st) \<longleftrightarrow> held_ids st ! session \<noteq> None"
  by (simp add: session_ok_def held_ids_def valid_iff_id)

lemma keep_locked_spec:
  assumes "session_ok session st"
  shows "keep_locked session new st =
     (if held_ids st ! session \<noteq> None \<and> new_id new \<noteq> None \<and> new_id new \<notin> set (held_ids st) then Inl Undefined
      else Inr (st\<lparr>sm_store := keep_new_session session new (sm_store st)\<rparr>))"
  using keep_new_session_spec [of "sm_store st" session new] lost_kept_iff [of session "held_ids st" "new_id new"] assms
  by (auto simp: keep_locked_def Let_def session_ok_def held_ids_def)

lemma keep_locked_held:
  assumes "session_ok session st" and "keep_locked session new st = Inr st'"
  shows "session_ok session st' \<and> held_ids st' ! session = (if held_ids st ! session = None then new_id new else held_ids st ! session)
    \<and> (\<exists>k. held_ids st' = kept_ids session (new_id new) (held_ids st) @ replicate k None) \<and> sm_calls st' = sm_calls st
    \<and> released (sm_store st') = released (sm_store st)"
proof -
  have st': "st' = st\<lparr>sm_store := keep_new_session session new (sm_store st)\<rparr>" "released (sm_store st') = released (sm_store st)"
    using assms(2) by (auto simp: keep_locked_def Let_def split: if_splits)
  have s: "session < length (handles (sm_store st))" using assms(1) by (simp add: session_ok_def)
  note spec = keep_new_session_spec [of "sm_store st" session new]
  obtain k where k: "held_ids st' = kept_ids session (new_id new) (held_ids st) @ replicate k None"
    using spec assms(1) by (auto simp: st' session_ok_def held_ids_def)
  have l: "length (kept_ids session (new_id new) (held_ids st)) = length (handles (sm_store st))" by (simp add: kept_ids_def held_ids_def)
  have "length (handles (sm_store st)) \<le> length (held_ids st')" using k l by simp
  then have "session_ok session st'" using spec assms(1) s by (simp add: session_ok_def st' held_ids_def)
  moreover have "held_ids st' ! session = (if held_ids st ! session = None then new_id new else held_ids st ! session)"
    using s l by (simp add: k nth_append) (simp add: kept_ids_def held_ids_def)
  ultimately show ?thesis using k st' by auto
qed

lemma invoke_store:
  "InvokeJSONRPC env p method param resp st = (ok, resp', st') \<Longrightarrow> sm_store st' = sm_store st \<and> (ok \<longrightarrow> jv_flag resp' ''success'')"
  by (auto simp: InvokeJSONRPC_def Let_def sec_emit_def split: if_splits option.splits)

text \<open>C16: An attempt to get a license is undefined exactly when the service answers a session that is valid with the id of
  another one that nobody holds: the session object that is made for the answer closes it while the mutex is held.\<close>

theorem attempt_undefined_iff:
  assumes "session_ok session st" and "InvokeJSONRPC env SecManagerPlugin apiName param resp st = (rpcResult, resp', st')"
  shows "(\<exists>f. thunder_attempt env apiName param h session resp out st = Inl f)
     \<longleftrightarrow> rpcResult \<and> isSessionValid session (sm_store st) \<and> 0 < jv_number resp' ''sessionId''
       \<and> Some (jv_number resp' ''sessionId'') \<notin> set (ids (abs_sec (sm_store st)))"
proof -
  note inv = invoke_store [OF assms(2)]
  have ok: "session_ok session st'" "held_ids st' = held_ids st" using assms(1) inv by (simp_all add: session_ok_def held_ids_def)
  show ?thesis
    using inv keep_locked_spec [OF ok(1)] valid_held [OF assms(1)] ok(2)
    by (auto simp: thunder_attempt_def assms(2) Let_def new_id_def bindE_eq_Inl simp flip: held_ids_def)
qed

section \<open>Attempts\<close>




definition args_ok :: "license_args \<Rightarrow> bool" where
  "args_ok a \<longleftrightarrow> (\<forall>p \<in> {access_token a, content_metadata a, license_request a}. \<exists>s n. p = Some (s, n) \<and> 0 < n \<and> n \<le> length s)"

definition chars_of :: "(string \<times> nat) option \<Rightarrow> string" where
  "chars_of p = (case p of None \<Rightarrow> [] | Some (s, n) \<Rightarrow> take n s)"

text \<open>The request of a license, with the id of the session when there is one.\<close>

definition license_call :: "license_args \<Rightarrow> int option \<Rightarrow> sec_call" where
  "license_call a x = Rpc SecManagerPlugin (if x = None then ''openPlaybackSession'' else ''updatePlaybackSession'')
     (thunder_params a (chars_of (access_token a)) (chars_of (content_metadata a)) (chars_of (license_request a)) x)"

lemma copy_chars_ok: "\<exists>s n. p = Some (s, n) \<and> 0 < n \<and> n \<le> length s \<Longrightarrow> copy_chars p = Inr (chars_of p) \<and> chars_of p \<noteq> []"
  by (auto simp: copy_chars_def chars_of_def)

lemma thunder_acquire_attempts:
  assumes "args_ok a" and "session_ok session st" and "x = held_ids st ! session"
  shows "\<exists>h. thunder_acquire env a session st =
     license_attempts (thunder_attempt env (if x = None then ''openPlaybackSession'' else ''updatePlaybackSession'')
       (thunder_params a (chars_of (access_token a)) (chars_of (content_metadata a)) (chars_of (license_request a)) x) h session)
       (sleep_time a) 2 empty_view license_start st"
proof -
  have c: "copy_chars p = Inr (chars_of p) \<and> chars_of p \<noteq> []" if "p \<in> {access_token a, content_metadata a, license_request a}" for p
    by (rule copy_chars_ok) (use assms(1) that in \<open>unfold args_ok_def, blast\<close>)
  obtain h where h: "input_summary_hash env a = Inr h"
    using assms(1) by (auto simp: args_ok_def input_summary_hash_def)
  have s: "session < length (handles (sm_store st))" using assms(2) by (simp add: session_ok_def)
  have x: "(if isSessionValid session (sm_store st) then Some (getSessionID session (sm_store st)) else None) = x"
    using valid_held [OF assms(2)] session_id [OF s] assms(3) by (auto simp: held_ids_def)
  have v: "isSessionValid session (sm_store st) \<longleftrightarrow> x \<noteq> None" using valid_held [OF assms(2)] assms(3) by simp
  show ?thesis
    using c x by (auto simp: thunder_acquire_def Let_def h v MAX_LICENSE_REQUEST_ATTEMPTS_def intro!: exI [of _ h])
qed


section \<open>What becomes of a license\<close>

lemma cstr_Encode: "base64_Encode malloc_ok src = Some cs \<Longrightarrow> cstr cs = cs"
proof -
  assume e: "base64_Encode malloc_ok src = Some cs"
  obtain k where "base64_encode_loop src = base64_unpadded src @ replicate k (CHR ''='')"
    using base64_encode_loop_unpadded by blast
  then have "cs = base64_unpadded src @ replicate k (CHR ''='')" using e by (simp add: base64_Encode_def split: if_splits)
  then have "CHR 0x00 \<notin> set cs" using base64_unpadded_chars base64_alphabet_clean by fastforce
  then show "cstr cs = cs" by (simp add: cstr_def takeWhile_eq_all_conv) metis
qed

text \<open>An attempt that is answered with success.\<close>

lemma thunder_attempt_answered:
  assumes "session_ok session st" and "remote env SecManagerPlugin"
    and "reply_of env (sm_calls st @ [Rpc SecManagerPlugin apiName param]) = Some r" and "jv_flag r ''success''"
    and "0 < jv_number r ''sessionId''"
  shows "thunder_attempt env apiName param h session resp out st =
     bindE (keep_locked session (Some (jv_number r ''sessionId'', h)) (sec_emit (Rpc SecManagerPlugin apiName param) st))
       (\<lambda>st'. Inr (r, read_context (jv_context r)
          (take_license env (sec_emit (Rpc SecManagerPlugin apiName param) st) (jv_text r ''license'') out), st'))"
  using assms by (simp add: thunder_attempt_def InvokeJSONRPC_def Let_def)

lemma keep_locked_works:
  assumes "session_ok session st" and "0 < x" and "held_ids st ! session = None \<or> held_ids st ! session = Some x"
  shows "\<exists>st'. keep_locked session (Some (x, h)) st = Inr st'"
proof -
  have "Some x \<in> set (held_ids st)" if "held_ids st ! session = Some x"
    using that assms(1) by (metis session_ok_def held_ids_def ids_length nth_mem)
  then show ?thesis using keep_locked_spec [OF assms(1), of "Some (x, h)"] assms(2,3) by (auto simp: new_id_def)
qed

lemma read_context_license [simp]: "lo_ret (read_context c out) = lo_ret out" "lo_license (read_context c out) = lo_license out"
  by (simp_all add: read_context_def Let_def split: option.split)

text \<open>C15: A license that the service sends reaches the caller: for a session that is opened, and for one that is renewed when the
  service answers with the id of that session. It takes one request, nothing is closed, and the session has the id of the
  answer.\<close>

theorem license_delivered:
  assumes "args_ok a" and "session_ok session st" and "remote env SecManagerPlugin" and "x = held_ids st ! session"
    and "reply_of env (sm_calls st @ [license_call a x]) = Some r" and "jv_flag r ''success''"
    and "0 < jv_number r ''sessionId''" and "x = None \<or> x = Some (jv_number r ''sessionId'')"
    and "base64_Encode (\<lambda>_. True) d = Some (jv_text r ''license'')" and "d \<noteq> []" and "\<forall>cs n. sec_malloc env cs n"
  shows "\<exists>out st'. thunder_acquire env a session st = Inr (out, st') \<and> lo_ret out \<and> lo_license out = Some d
     \<and> getSessionID session (sm_store st') = jv_number r ''sessionId'' \<and> released (sm_store st') = released (sm_store st)
     \<and> sm_calls st' = sm_calls st @ [license_call a x]"
proof -
  let ?api = "if x = None then ''openPlaybackSession'' else ''updatePlaybackSession''"
  let ?param = "thunder_params a (chars_of (access_token a)) (chars_of (content_metadata a)) (chars_of (license_request a)) x"
  let ?st = "sec_emit (license_call a x) st"
  obtain h where acq: "thunder_acquire env a session st = license_attempts (thunder_attempt env ?api ?param h session)
      (sleep_time a) 2 empty_view license_start st"
    using thunder_acquire_attempts [OF assms(1,2,4)] by blast
  have call: "license_call a x = Rpc SecManagerPlugin ?api ?param" by (simp add: license_call_def)
  obtain st' where st': "keep_locked session (Some (jv_number r ''sessionId'', h)) ?st = Inr st'"
    using keep_locked_works [of session ?st] assms(2,4,7,8) by auto
  have held: "session_ok session st' \<and> held_ids st' ! session = Some (jv_number r ''sessionId'') \<and> sm_calls st' = sm_calls ?st
      \<and> released (sm_store st') = released (sm_store st)"
    using keep_locked_held [OF _ st'] assms(2,4,7,8) by (auto simp: new_id_def)
  have sz: "jv_text r ''license'' \<noteq> []"
    using assms(9,10) base64_Decode_Encode [OF assms(9)] by (auto simp: base64_Decode_def base64_decode_loop.simps)
  have "take_license env ?st (jv_text r ''license'') license_start = license_start\<lparr>lo_license := Some d, lo_ret := True\<rparr>"
    using assms(10,11) base64_Decode_Encode [OF assms(9)] cstr_Encode [OF assms(9)] sz
    by (simp add: take_license_def base64_Decode_cstr_def base64_Decode_def)
  then have "thunder_acquire env a session st = Inr (read_context (jv_context r) (license_start\<lparr>lo_license := Some d, lo_ret := True\<rparr>), st')"
    using st' assms(2,3,5,6,7)
    by (simp add: acq numeral_2_eq_2 call thunder_attempt_answered retry_wanted_def del: session_ok_emit)
  moreover have "getSessionID session (sm_store st') = jv_number r ''sessionId''"
    using held session_id [of session "sm_store st'"] by (simp add: session_ok_def held_ids_def)
  ultimately show ?thesis using held by simp
qed

text \<open>A second attempt after an answer that opened a session but brought no license asks for a new session again: when the
  service opens another one, the object of that session closes it at once while the mutex is held.\<close>

theorem retry_reopens_session:
  assumes "args_ok a" and "session_ok session st" and "remote env SecManagerPlugin" and "held_ids st ! session = None"
    and "reply_of env (sm_calls st @ [c]) = Some ra" and "jv_flag ra ''success''" and "0 < jv_number ra ''sessionId''"
    and "jv_text ra ''license'' = []" and "retry_wanted (read_context (jv_context ra) license_start)"
    and "reply_of env (sm_calls st @ [c, SleepMs (sleep_time a), c]) = Some rb" and "jv_flag rb ''success''"
    and "0 < jv_number rb ''sessionId''" and "jv_number rb ''sessionId'' \<noteq> jv_number ra ''sessionId''"
    and "Some (jv_number rb ''sessionId'') \<notin> set (held_ids st)" and "c = license_call a None"
  shows "thunder_acquire env a session st = Inl Undefined"
proof -
  let ?param = "thunder_params a (chars_of (access_token a)) (chars_of (content_metadata a)) (chars_of (license_request a)) None"
  obtain h where acq: "thunder_acquire env a session st = license_attempts (thunder_attempt env ''openPlaybackSession'' ?param h session)
      (sleep_time a) 2 empty_view license_start st"
    using thunder_acquire_attempts [OF assms(1,2) refl, of env] assms(4) by auto
  have c: "c = Rpc SecManagerPlugin ''openPlaybackSession'' ?param" by (simp add: assms(15) license_call_def)
  obtain st1 where st1: "keep_locked session (Some (jv_number ra ''sessionId'', h)) (sec_emit c st) = Inr st1"
    using keep_locked_works [of session "sec_emit c st"] assms(2,4,7) by auto
  let ?st2 = "sec_emit c (sec_emit (SleepMs (sleep_time a)) st1)"
  have held: "session_ok session st1" "held_ids st1 ! session = Some (jv_number ra ''sessionId'')" "sm_calls st1 = sm_calls st @ [c]"
    "set (held_ids st1) \<subseteq> {None, Some (jv_number ra ''sessionId'')} \<union> set (held_ids st)"
    using keep_locked_held [OF _ st1] assms(2,4,7) by (auto simp: new_id_def kept_ids_def dest!: set_update_subset_insert [THEN subsetD])
  have first: "thunder_attempt env ''openPlaybackSession'' ?param h session empty_view license_start st
      = Inr (ra, read_context (jv_context ra) license_start, st1)"
    using st1 assms(2,3,5-8) by (simp add: thunder_attempt_answered c take_license_def)
  have "keep_locked session (Some (jv_number rb ''sessionId'', h)) ?st2 = Inl Undefined"
    using keep_locked_spec [of session ?st2] held assms(12-14) by (auto simp: new_id_def)
  then have "thunder_attempt env ''openPlaybackSession'' ?param h session ra (read_context (jv_context ra) license_start)
      (sec_emit (SleepMs (sleep_time a)) st1) = Inl Undefined"
    using held(1,3) assms(3,10-12) by (simp add: thunder_attempt_answered c)
  then show ?thesis using assms(9) by (simp add: acq numeral_2_eq_2 first)
qed

section \<open>The properties at work\<close>

definition demo_args :: license_args where
  "demo_args = \<lparr>client_id = ''app'', app_id = ''id'', money_trace = ''trace'', content_metadata = Some (''meta'', 4),
     license_request = Some (''request'', 7), key_system_id = ''com.widevine.alpha'', media_usage = ''stream'',
     access_token = Some (''token'', 5), video_muted = False, sleep_time = 500\<rparr>"

definition demo_secman :: "sec_store \<Rightarrow> secman" where
  "demo_secman store = \<lparr>sm_store = store, sm_calls = [], sm_tasks = [], mRegisteredEvents = [], mSchedulerStarted = True,
     watermark_cb = False, mInitialized = True, mIsConnected = True, mListenerId = 0, mSubscriptionId = 0\<rparr>"

definition demo_sec_env :: "(sec_call list \<Rightarrow> jview option) \<Rightarrow> sec_env" where
  "demo_sec_env reply = \<lparr>remote = (\<lambda>_. True), reply_of = reply, controller = (\<lambda>_. True),
     activate_ok = (\<lambda>_. True), subscribe_ok = (\<lambda>_. True), sec_malloc = (\<lambda>_ _. True),
     string_hash = length, fb_endpoint = Some ''ws'', fb_init_ok = (\<lambda>_. True), fb_connect_answer = (\<lambda>_. Some 1),
     fb_connected_in_time = (\<lambda>_. True), fb_subscribe_answer = (\<lambda>_. Some 2), fb_open_answer = (\<lambda>_. Some (''7'', ''r'')),
     fb_update_answer = (\<lambda>_. None), fb_ok = (\<lambda>_. True)\<rparr>"

definition demo_reply :: "int \<Rightarrow> string \<Rightarrow> (string \<Rightarrow> int option) option \<Rightarrow> jview" where
  "demo_reply x license context = \<lparr>jv_number = (\<lambda>_. x), jv_flag = (\<lambda>_. True), jv_text = (\<lambda>_. license), jv_context = context\<rparr>"

definition demo_busy :: "string \<Rightarrow> int option" where
  "demo_busy = Map.empty(''class'' \<mapsto> 200, ''reason'' \<mapsto> 3)"

lemma demo_no_session: "session_ok 0 (demo_secman (invalid_session empty_store))" "held_ids (demo_secman (invalid_session empty_store)) = [None]"
  using new_none_wf_abs [OF empty_store_wf]
  by (simp_all add: session_ok_def held_ids_def demo_secman_def invalid_session_def spec_add_def abs_sec_def empty_store_def new_handle_def)

lemma demo_session:
  "session_ok 0 (demo_secman (ContentSecurityManagerSession 5 0 empty_store))"
  "held_ids (demo_secman (ContentSecurityManagerSession 5 0 empty_store)) = [Some 5]"
proof -
  have "sec_wf (ContentSecurityManagerSession 5 0 empty_store)"
    "ids (abs_sec (ContentSecurityManagerSession 5 0 empty_store)) = [Some 5]"
    using new_session_wf_abs [OF empty_store_wf, of 5 0] by (simp_all add: spec_add_def abs_sec_def empty_store_def)
  moreover from this(2) have "length (handles (ContentSecurityManagerSession 5 0 empty_store)) = 1" by (simp flip: ids_length)
  ultimately show "session_ok 0 (demo_secman (ContentSecurityManagerSession 5 0 empty_store))"
    "held_ids (demo_secman (ContentSecurityManagerSession 5 0 empty_store)) = [Some 5]"
    by (simp_all add: session_ok_def held_ids_def demo_secman_def)
qed

lemma demo_args_ok: "args_ok demo_args"
  by (simp add: args_ok_def demo_args_def)

theorem attempt_undefined_iff_witness:
  "\<exists>f. thunder_attempt (demo_sec_env (\<lambda>_. Some (demo_reply 7 [] None))) ''updatePlaybackSession'' [] 0 0 empty_view license_start
     (demo_secman (ContentSecurityManagerSession 5 0 empty_store)) = Inl f"
  using attempt_undefined_iff [OF demo_session(1), of "demo_sec_env (\<lambda>_. Some (demo_reply 7 [] None))" "''updatePlaybackSession''" "[]" empty_view]
    valid_held [OF demo_session(1)] demo_session(2)
  by (simp add: InvokeJSONRPC_def demo_sec_env_def demo_reply_def held_ids_def)

theorem license_delivered_witness:
  "\<exists>out st'. thunder_acquire (demo_sec_env (\<lambda>_. Some (demo_reply 7 ''TWE='' None))) demo_args 0 (demo_secman (invalid_session empty_store)) = Inr (out, st')
     \<and> lo_license out = Some [77, 97] \<and> getSessionID 0 (sm_store st') = 7"
proof -
  have "base64_Encode (\<lambda>_. True) [77, 97] = Some ''TWE=''" by code_simp
  then show ?thesis
    using license_delivered [OF demo_args_ok demo_no_session(1), of "demo_sec_env (\<lambda>_. Some (demo_reply 7 ''TWE='' None))" None
        "demo_reply 7 ''TWE='' None" "[77, 97]"] demo_no_session(2)
    by (auto simp: demo_sec_env_def demo_reply_def)
qed


theorem retry_reopens_session_witness:
  "thunder_acquire (demo_sec_env (\<lambda>cs. Some (if length cs = 1 then demo_reply 7 [] (Some demo_busy) else demo_reply 8 ''TWE='' None)))
     demo_args 0 (demo_secman (invalid_session empty_store)) = Inl Undefined"
proof -
  have "to_int32 200 = 200" "to_int32 3 = 3" by (simp_all add: to_int32_def)
  then have "retry_wanted (read_context (Some demo_busy) license_start)"
    by (simp add: retry_wanted_def read_context_def license_start_def demo_busy_def SERVICE_FAILURES_def
        CONTENT_SECURITY_MANAGER_DRM_FAILURE_def)
  then show ?thesis
    using demo_no_session
    by (intro retry_reopens_session [OF demo_args_ok, where c = "license_call demo_args None"
          and ra = "demo_reply 7 [] (Some demo_busy)" and rb = "demo_reply 8 ''TWE='' None"])
      (simp_all add: demo_sec_env_def demo_reply_def demo_secman_def)
qed

end
