(* ===== verification/Security_Manager.thy ===== *)
theory Security_Manager
  imports Security_License Drm_Helper Gst_Inject
begin

text \<open>
  Content protection by way of the Firebolt SDK (\<^verbatim>\<open>IFirebolt/ContentProtectionFirebolt.cpp\<close>) and the manager that the
  player calls (\<^verbatim>\<open>ContentSecurityManager.cpp\<close>), which is one of three classes. The SDK is a parameter like the service of
  the security manager. The value of the variable for the session id before it is set is an argument.
\<close>

section \<open>Content protection\<close>

definition MapFireboltStatus :: "string \<Rightarrow> int" where
  "MapFireboltStatus statusStr =
     (if statusStr = ''GRANTED'' then 1 else if statusStr = ''NOT_REQUIRED'' then 2 else if statusStr = ''DENIED'' then 3
      else if statusStr = ''FAILED'' then 4 else - 1)"

definition convertStringToKeySystem :: "string \<Rightarrow> key_system" where
  "convertStringToKeySystem s =
     (if find_str ''widevine'' s \<noteq> None then FbWidevine else if find_str ''playready'' s \<noteq> None then FbPlayready
      else if find_str ''clearkey'' s \<noteq> None then FbClearkey else FbWidevine)"

text \<open>\<^verbatim>\<open>std::stoi\<close>; it throws when there is no number or the number is no \<^verbatim>\<open>int\<close>.\<close>

definition stoi :: "string \<Rightarrow> int res" where
  "stoi s = (case scan_int s of
       Some (k, _) \<Rightarrow> if - (2 ^ 31) \<le> k \<and> k < 2 ^ 31 then Inr k else Inl Thrown
     | None \<Rightarrow> Inl Thrown)"

text \<open>Calls whose only answer is an error code; nothing is called while the SDK is not initialised.\<close>

definition fb_call :: "sec_env \<Rightarrow> sec_call \<Rightarrow> secman \<Rightarrow> bool \<times> secman" where
  "fb_call env c st =
     (if \<not> mInitialized st then (False, st) else let st = sec_emit c st in (fb_ok env (sm_calls st), st))"

definition fb_ShowWatermark :: "sec_env \<Rightarrow> bool \<Rightarrow> int \<Rightarrow> secman \<Rightarrow> secman" where
  "fb_ShowWatermark env show_it sessionId st = snd (fb_call env (FbShow sessionId show_it) st)"

definition fb_CloseDrmSession :: "sec_env \<Rightarrow> int \<Rightarrow> secman \<Rightarrow> secman" where
  "fb_CloseDrmSession env sessionId st = snd (fb_call env (FbClose sessionId) st)"

definition fb_SetDrmSessionState :: "sec_env \<Rightarrow> int \<Rightarrow> bool \<Rightarrow> secman \<Rightarrow> bool \<times> secman" where
  "fb_SetDrmSessionState env sessionId active st = fb_call env (FbState sessionId active) st"

definition fb_SetPlaybackPosition :: "sec_env \<Rightarrow> int \<Rightarrow> int \<Rightarrow> int \<Rightarrow> secman \<Rightarrow> bool \<times> secman" where
  "fb_SetPlaybackPosition env sessionId speed position st = fb_call env (FbPosition sessionId speed position) st"

definition SubscribeEvents :: "sec_env \<Rightarrow> secman \<Rightarrow> secman" where
  "SubscribeEvents env st =
     (let st = sec_emit FbSubscribe st
      in case fb_subscribe_answer env (sm_calls st) of None \<Rightarrow> st | Some i \<Rightarrow> st\<lparr>mSubscriptionId := i\<rparr>)"

definition UnSubscribeEvents :: "secman \<Rightarrow> secman" where
  "UnSubscribeEvents st = sec_emit (FbUnsubscribe (mSubscriptionId st)) st"

definition HandleWatermarkEvent :: "string \<Rightarrow> string \<Rightarrow> string \<Rightarrow> secman \<Rightarrow> secman res" where
  "HandleWatermarkEvent sessionId statusStr appId st =
     (if mInitialized st \<and> watermark_cb st then
        bindE (stoi sessionId) (\<lambda>i.
          Inr (sec_emit (SessionEvent (word_of_int i) (word_of_int (MapFireboltStatus statusStr)) appId) st))
      else Inr st)"

definition CreateFireboltInstance :: "sec_env \<Rightarrow> string \<Rightarrow> secman \<Rightarrow> bool \<times> secman" where
  "CreateFireboltInstance env url st =
     (let st = sec_emit (FbInitialize url) (st\<lparr>mIsConnected := False\<rparr>)
      in if \<not> fb_init_ok env (sm_calls st) then (False, st)
         else let st = sec_emit FbConnect st
              in case fb_connect_answer env (sm_calls st) of
                   None \<Rightarrow> (False, st)
                 | Some i \<Rightarrow> (True, st\<lparr>mListenerId := i\<rparr>))"

definition ConnectionChanged :: "bool \<Rightarrow> secman \<Rightarrow> secman" where
  "ConnectionChanged now st = st\<lparr>mIsConnected := now\<rparr>"

text \<open>The connection comes from another thread while the code waits.\<close>

definition fb_Initialize :: "sec_env \<Rightarrow> secman \<Rightarrow> secman" where
  "fb_Initialize env st =
     (if mInitialized st then st
      else case fb_endpoint env of
             None \<Rightarrow> st
           | Some url \<Rightarrow>
               let (ok, st) = CreateFireboltInstance env url st
               in if \<not> ok then st
                  else let st = ConnectionChanged (fb_connected_in_time env (sm_calls st)) st
                       in if \<not> mIsConnected st then st
                          else SubscribeEvents env (fb_ShowWatermark env False 0 (st\<lparr>mInitialized := True\<rparr>)))"

definition fb_DeInitialize :: "sec_env \<Rightarrow> secman \<Rightarrow> secman" where
  "fb_DeInitialize env st =
     (let st = UnSubscribeEvents (fb_ShowWatermark env False 0 st)
      in (sec_emit (FbDisconnect (mListenerId st)) st)\<lparr>mIsConnected := False, mInitialized := False\<rparr>)"

section \<open>A license from content protection\<close>

definition fb_session_config :: "('j, 'd) cjson \<Rightarrow> (nat \<Rightarrow> bool) \<Rightarrow> license_args \<Rightarrow> 'j \<Rightarrow> 'j" where
  "fb_session_config lib malloc_ok a ob =
     (let add = (\<lambda>name value ob. snd (add_string lib malloc_ok name value ENCODING_STRING ob))
      in add ''sessionState'' (if video_muted a then ''inactive'' else ''active'')
           (add ''distributedTraceId'' (money_trace a) (add ''distributedTraceType'' ''money'' ob)))"

definition fb_init_data :: "('j, 'd) cjson \<Rightarrow> (nat \<Rightarrow> bool) \<Rightarrow> license_args \<Rightarrow> string \<Rightarrow> string \<Rightarrow> string" where
  "fb_init_data lib malloc_ok a token meta =
     (case cJSON_CreateObject lib of
        None \<Rightarrow> []
      | Some ob \<Rightarrow>
          let add = (\<lambda>name value ob. snd (add_string lib malloc_ok name value ENCODING_STRING ob));
              dimensions = add ''height'' ''1080'' (add ''width'' ''1920'' ob);
              param = snd (add_json lib ''sessionConfiguration'' (Some (fb_session_config lib malloc_ok a ob)) ob);
              param = add ''mediaUsage'' (media_usage a) (snd (add_json lib ''contentAspectDimensions'' (Some dimensions) param))
          in print_UnFormatted lib (add ''contentMetadata'' meta (add ''accessToken'' token param)))"

text \<open>The session id is an argument by value: the id that the service gives is not handed to the caller.\<close>

definition OpenDrmSession :: "sec_env \<Rightarrow> license_args \<Rightarrow> string \<Rightarrow> string \<Rightarrow> int \<Rightarrow> secman \<Rightarrow> (string option \<times> secman) res" where
  "OpenDrmSession env a licenseRequest init_text sessionId st =
     (if \<not> mInitialized st then Inr (None, st)
      else let st = sec_emit (FbOpen (client_id a) (app_id a) (convertStringToKeySystem (key_system_id a)) licenseRequest init_text) st
           in case fb_open_answer env (sm_calls st) of
                None \<Rightarrow> Inr (None, st)
              | Some (sid, response) \<Rightarrow> bindE (stoi sid) (\<lambda>_. Inr (Some response, st)))"

definition UpdateDrmSession :: "sec_env \<Rightarrow> int \<Rightarrow> string \<Rightarrow> string \<Rightarrow> secman \<Rightarrow> string option \<times> secman" where
  "UpdateDrmSession env sessionId licenseRequest init_text st =
     (if \<not> mInitialized st then (None, st)
      else let st = sec_emit (FbUpdate sessionId licenseRequest init_text) st in (fb_update_answer env (sm_calls st), st))"

definition fb_context :: "('j, 'd) cjson \<Rightarrow> 'j \<Rightarrow> (string \<Rightarrow> int option) option" where
  "fb_context lib ob =
     (case get_object lib ob ''secManagerResultContext'' ob of
        (False, _) \<Rightarrow> None
      | (True, ctx) \<Rightarrow> Some (\<lambda>name. case Json_Object.get_int lib ctx name (- 1) of (found, k) \<Rightarrow> if found then Some k else None))"

text \<open>What is made of the answer; an answer that is no JSON text, the empty one too, throws.\<close>

definition fb_answer ::
  "sec_env \<Rightarrow> ('j, 'd) cjson \<Rightarrow> nat \<Rightarrow> nat \<Rightarrow> int \<Rightarrow> string \<Rightarrow> license_out \<Rightarrow> secman \<Rightarrow> (license_out \<times> secman) res"
where
  "fb_answer env lib h session sessionId drmSession out st =
     bindE (PlayerJsonObject lib drmSession) (\<lambda>ob.
       if drmSession = [] then bindE (keep_locked session None st) (\<lambda>st. Inr (out, st))
       else
         let out' = (case Json_Object.get_string lib ob ''license'' [] of (True, license) \<Rightarrow> take_license env st license out | _ \<Rightarrow> out)
         in bindE (keep_locked session (Some (sessionId, h)) st) (\<lambda>st. Inr (read_context (fb_context lib ob) out', st)))"

definition fb_attempt ::
  "sec_env \<Rightarrow> ('j, 'd) cjson \<Rightarrow> license_args \<Rightarrow> string \<Rightarrow> string \<Rightarrow> nat \<Rightarrow> bool \<Rightarrow> int \<Rightarrow> nat \<Rightarrow> unit \<Rightarrow> license_out \<Rightarrow> secman
    \<Rightarrow> (unit \<times> license_out \<times> secman) res"
where
  "fb_attempt env lib a req init_text h update sessionId session u out st =
     (if \<not> mInitialized st then Inr (u, out, st)
      else
        bindE (if update then Inr (UpdateDrmSession env sessionId req init_text st)
               else OpenDrmSession env a req init_text sessionId st) (\<lambda>(answer, st).
          case answer of
            None \<Rightarrow> Inr (u, out, st)
          | Some drmSession \<Rightarrow>
              bindE (fb_answer env lib h session sessionId drmSession out st) (\<lambda>(out, st). Inr (u, out, st))))"

definition fb_acquire ::
  "sec_env \<Rightarrow> ('j, 'd) cjson \<Rightarrow> int \<Rightarrow> license_args \<Rightarrow> nat \<Rightarrow> secman \<Rightarrow> (license_out \<times> secman) res"
where
  "fb_acquire env lib garbage a session st =
     bindE (copy_chars (access_token a)) (\<lambda>token. bindE (copy_chars (content_metadata a)) (\<lambda>meta.
       bindE (copy_chars (license_request a)) (\<lambda>req.
         if token \<noteq> [] \<and> meta \<noteq> [] \<and> req \<noteq> [] then
           let update = isSessionValid session (sm_store st);
               sessionId = (if update then getSessionID session (sm_store st) else garbage);
               init_text = fb_init_data lib (sec_malloc env (sm_calls st)) a token meta;
               licenseRequest = (case license_request a of Some (s, _) \<Rightarrow> s | None \<Rightarrow> [])
           in bindE (input_summary_hash env a) (\<lambda>h.
                license_attempts (fb_attempt env lib a licenseRequest init_text h update sessionId session) (sleep_time a)
                  MAX_LICENSE_REQUEST_ATTEMPTS () license_start st)
         else Inr (license_start, st))))"

section \<open>The manager\<close>

datatype manager_class = ThunderManager | FireboltManager | FakeManager

text \<open>The class that a build makes; without the security manager and without Firebolt there is none.\<close>

definition GetInstance :: "bool \<Rightarrow> bool \<Rightarrow> bool \<Rightarrow> manager_class option" where
  "GetInstance USE_SECCLIENT USE_SECMANAGER mUseFireboltSDK =
     (if USE_SECCLIENT \<or> USE_SECMANAGER then
        if mUseFireboltSDK then Some FireboltManager else if USE_SECMANAGER then Some ThunderManager else None
      else Some FakeManager)"

definition cs_UpdateSessionState :: "manager_class \<Rightarrow> sec_env \<Rightarrow> int \<Rightarrow> bool \<Rightarrow> secman \<Rightarrow> bool \<times> secman" where
  "cs_UpdateSessionState cls env sessionId active st =
     (case cls of
        ThunderManager \<Rightarrow> SetDrmSessionState env sessionId active st
      | FireboltManager \<Rightarrow> fb_SetDrmSessionState env sessionId active st
      | FakeManager \<Rightarrow> (False, st))"

definition ReleaseSession :: "manager_class \<Rightarrow> sec_env \<Rightarrow> int \<Rightarrow> secman \<Rightarrow> secman" where
  "ReleaseSession cls env sessionId st =
     (case cls of
        ThunderManager \<Rightarrow> CloseDrmSession env sessionId st
      | FireboltManager \<Rightarrow> fb_CloseDrmSession env sessionId st
      | FakeManager \<Rightarrow> st)"

definition cs_setVideoWindowSize :: "manager_class \<Rightarrow> sec_env \<Rightarrow> int \<Rightarrow> int \<Rightarrow> int \<Rightarrow> secman \<Rightarrow> bool \<times> secman" where
  "cs_setVideoWindowSize cls env sessionId width height st =
     (if cls = ThunderManager then setWindowSize env sessionId width height st else (False, st))"

definition cs_setPlaybackSpeedState :: "manager_class \<Rightarrow> sec_env \<Rightarrow> int \<Rightarrow> int \<Rightarrow> int \<Rightarrow> secman \<Rightarrow> bool \<times> secman" where
  "cs_setPlaybackSpeedState cls env sessionId speed position st =
     (case cls of
        ThunderManager \<Rightarrow> SetPlaybackPosition env sessionId speed (to_int32 position) st
      | FireboltManager \<Rightarrow> fb_SetPlaybackPosition env sessionId speed (to_int32 position) st
      | FakeManager \<Rightarrow> (False, st))"

text \<open>A session that is valid for the same inputs is only made active: then no output is written.\<close>

definition AcquireLicense ::
  "manager_class \<Rightarrow> sec_env \<Rightarrow> ('j, 'd) cjson \<Rightarrow> int \<Rightarrow> license_args \<Rightarrow> nat \<Rightarrow> secman \<Rightarrow> (bool \<times> license_out option \<times> secman) res"
where
  "AcquireLicense cls env lib garbage a session st =
     (if cls = FakeManager then Inr (False, None, st)
      else
        bindE (input_summary_hash env a) (\<lambda>h.
          let (success, st) = (if isSessionValid session (sm_store st) \<and> h = getInputSummaryHash session (sm_store st)
                               then cs_UpdateSessionState cls env (getSessionID session (sm_store st)) True st else (False, st))
          in if success then Inr (True, None, st)
             else bindE (if cls = ThunderManager then thunder_acquire env a session st else fb_acquire env lib garbage a session st)
                    (\<lambda>(out, st). Inr (lo_ret out, Some out, st))))"

text \<open>A session that its owner gives up: the object that is destroyed calls the manager, whose mutex is free.\<close>

definition drop_session :: "manager_class \<Rightarrow> sec_env \<Rightarrow> nat \<Rightarrow> secman \<Rightarrow> secman" where
  "drop_session cls env session st =
     (let store = setSessionInvalid session (sm_store st)
      in foldl (\<lambda>st x. ReleaseSession cls env x st) (st\<lparr>sm_store := store\<rparr>) (drop (length (released (sm_store st))) (released store)))"

section \<open>Properties\<close>

text \<open>A handle that is given up closes the session of the service exactly when no other handle holds it.\<close>

lemma drop_session_closes:
  assumes "session_ok session st"
  shows "drop_session cls env session st =
     (let st' = st\<lparr>sm_store := setSessionInvalid session (sm_store st)\<rparr>
      in case held_ids st ! session of
           None \<Rightarrow> st'
         | Some x \<Rightarrow> if Some x \<in> set ((held_ids st)[session := None]) then st' else ReleaseSession cls env x st')"
proof -
  have "abs_sec (setSessionInvalid session (sm_store st)) = spec_put session None (abs_sec (sm_store st))"
    using put_none assms by (simp add: session_ok_def)
  then have "released (setSessionInvalid session (sm_store st)) = released (sm_store st)
      @ (case held_ids st ! session of None \<Rightarrow> [] | Some x \<Rightarrow> if Some x \<in> set ((held_ids st)[session := None]) then [] else [x])"
    unfolding closed_released [symmetric] by (auto simp: spec_put_def Let_def held_ids_def split: option.split)
  then show ?thesis by (auto simp: drop_session_def Let_def split: option.split)
qed

text \<open>A license for inputs that have not changed takes no request: the session is made active and no license is written.\<close>

lemma same_inputs_no_license:
  assumes "isSessionValid session (sm_store st)" and "input_summary_hash env a = Inr (getInputSummaryHash session (sm_store st))"
    and "SetDrmSessionState env (getSessionID session (sm_store st)) True st = (True, st')"
  shows "AcquireLicense ThunderManager env lib garbage a session st = Inr (True, None, st')"
  using assms by (simp add: AcquireLicense_def cs_UpdateSessionState_def)

lemma keep_locked_initialized: "keep_locked session new st = Inr st' \<Longrightarrow> mInitialized st' = mInitialized st"
  by (auto simp: keep_locked_def Let_def split: if_splits)

lemma emit_initialized [simp]: "mInitialized (sec_emit c st) = mInitialized st"
  by (simp add: sec_emit_def)

text \<open>C22: The session that content protection opens has the id that the variable happened to hold, whatever id the service gave:
  the license arrives, but all further calls, the one that closes the session among them, go to another session.\<close>

theorem firebolt_session_id:
  assumes "args_ok a" and "session_ok session st" and "held_ids st ! session = None" and "mInitialized st"
    and "c = FbOpen (client_id a) (app_id a) (convertStringToKeySystem (key_system_id a)) req
      (fb_init_data lib (\<lambda>_. True) a (chars_of (access_token a)) (chars_of (content_metadata a)))"
    and "license_request a = Some (req, n)" and "fb_open_answer env (sm_calls st @ [c]) = Some (sid, resp)" and "stoi sid = Inr x"
    and "PlayerJsonObject lib resp = Inr ob" and "resp \<noteq> []" and "Json_Object.get_string lib ob ''license'' [] = (True, license)"
    and "base64_Encode (\<lambda>_. True) d = Some license" and "d \<noteq> []" and "sec_malloc env = (\<lambda>_ _. True)"
    and "0 < garbage" and "Some garbage \<notin> set (held_ids st)"
  shows "\<exists>out st'. fb_acquire env lib garbage a session st = Inr (out, st') \<and> lo_license out = Some d
     \<and> getSessionID session (sm_store st') = garbage
     \<and> sm_calls (drop_session FireboltManager env session st') = sm_calls st @ [c, FbClose garbage]"
proof -
  have chars: "copy_chars p = Inr (chars_of p) \<and> chars_of p \<noteq> []" if "p \<in> {access_token a, content_metadata a, license_request a}" for p
    by (rule copy_chars_ok) (use assms(1) that in \<open>unfold args_ok_def, blast\<close>)
  obtain h where h: "input_summary_hash env a = Inr h" using assms(1) by (auto simp: args_ok_def input_summary_hash_def)
  let ?st = "sec_emit c st"
  obtain st' where st': "keep_locked session (Some (garbage, h)) ?st = Inr st'"
    using keep_locked_works [of session ?st] assms(2,3,15) by auto
  have held: "session_ok session st'" "held_ids st' ! session = Some garbage" "sm_calls st' = sm_calls ?st"
    "\<exists>k. held_ids st' = kept_ids session (Some garbage) (held_ids st) @ replicate k None" "mInitialized st'"
    using keep_locked_held [OF _ st'] assms(2,3,4,15) keep_locked_initialized [OF st'] by (auto simp: new_id_def)
  have nv: "\<not> isSessionValid session (sm_store st)" using valid_held [OF assms(2)] assms(3) by simp
  have ne: "license \<noteq> []"
    using assms(12,13) base64_Decode_Encode [OF assms(12)] by (auto simp: base64_Decode_def base64_decode_loop.simps)
  have take: "take_license env ?st license license_start = license_start\<lparr>lo_license := Some d, lo_ret := True\<rparr>"
    using assms(13,14) base64_Decode_Encode [OF assms(12)] cstr_Encode [OF assms(12)] ne
    by (simp add: take_license_def base64_Decode_cstr_def)
  have answer: "fb_answer env lib h session garbage resp license_start ?st
      = Inr (read_context (fb_context lib ob) (license_start\<lparr>lo_license := Some d, lo_ret := True\<rparr>), st')"
    using st' assms(9-11) by (simp add: fb_answer_def take)
  have "fb_acquire env lib garbage a session st
      = Inr (read_context (fb_context lib ob) (license_start\<lparr>lo_license := Some d, lo_ret := True\<rparr>), st')"
    using chars h nv assms(4-8,14) answer
    by (simp add: fb_acquire_def Let_def MAX_LICENSE_REQUEST_ATTEMPTS_def numeral_2_eq_2 fb_attempt_def OpenDrmSession_def retry_wanted_def)
  moreover have "getSessionID session (sm_store st') = garbage"
    using held session_id [of session "sm_store st'"] by (simp add: session_ok_def held_ids_def)
  moreover have "Some garbage \<notin> set ((held_ids st')[session := None])"
  proof -
    obtain k where k: "held_ids st' = (held_ids st)[session := Some garbage] @ replicate k None"
      using held(4) assms(3) by (auto simp: kept_ids_def)
    have s: "session < length (held_ids st)" using assms(2) by (simp add: session_ok_def held_ids_def)
    have "(held_ids st')[session := None] = (held_ids st)[session := None] @ replicate k None"
      using s by (simp add: k list_update_append)
    moreover have "Some garbage \<notin> set ((held_ids st)[session := None])"
      using assms(16) set_update_subset_insert [of "held_ids st" session None] by blast
    ultimately show ?thesis by simp
  qed
  then have "sm_calls (drop_session FireboltManager env session st') = sm_calls st' @ [FbClose garbage]"
    using held(1,2,5) by (simp add: drop_session_closes ReleaseSession_def fb_CloseDrmSession_def fb_call_def)
  ultimately show ?thesis using held(3) by auto
qed

section \<open>The property at work\<close>

definition demo_license_json :: "(json, int) cjson" where
  "demo_license_json = tree_cjson\<lparr>cJSON_Parse := (\<lambda>_. Some (JObject [(''license'', JString ''TWE='')]))\<rparr>"

theorem firebolt_session_id_witness:
  "\<exists>out st'. fb_acquire (demo_sec_env (\<lambda>_. None)) demo_license_json 41 demo_args 0 (demo_secman (invalid_session empty_store)) = Inr (out, st')
     \<and> lo_license out = Some [77, 97] \<and> getSessionID 0 (sm_store st') = 41"
proof -
  have "base64_Encode (\<lambda>_. True) [77, 97] = Some ''TWE=''" by code_simp
  moreover have "stoi ''7'' = Inr 7"
    by (simp add: stoi_def scan_int_def is_digit_def is_space_def digits_value_def)
  ultimately show ?thesis
    using firebolt_session_id [OF demo_args_ok demo_no_session(1), where env = "demo_sec_env (\<lambda>_. None)" and lib = demo_license_json
        and garbage = 41 and req = "''request''" and n = 7 and sid = "''7''" and resp = "''r''" and x = 7 and license = "''TWE=''"
        and d = "[77, 97]" and ob = "JObject [(''license'', JString ''TWE='')]", OF _ _ refl] demo_no_session(2)
    by (auto simp: demo_sec_env_def demo_license_json_def tree_cjson_def demo_args_def demo_secman_def PlayerJsonObject_def
        Json_Object.get_string_def get_item_def cstr_def)
qed

text \<open>A new watermark is created before its image is set, in the order in which the tasks were scheduled.\<close>

lemma add_watermark_calls:
  assumes "mSchedulerStarted st" and "remote env WatermarkPlugin" and "sm_tasks st = []"
    and "\<not> jv_flag p ''adjustVisibilityRequired''"
  shows "sm_calls (foldl (\<lambda>st t. run_sec_task env t st) st (sm_tasks (addWatermarkHandler p st))) = sm_calls st
     @ [Rpc WatermarkPlugin ''createWatermark'' [(''id'', JInt (to_int32 (jv_number p ''graphicId''))), (''zorder'', JInt (to_int32 (jv_number p ''zIndex'')))],
        Rpc WatermarkPlugin ''updateWatermark'' [(''id'', JInt (to_int32 (jv_number p ''graphicId''))),
          (''key'', JInt (to_int32 (jv_number p ''graphicImageBufferKey''))), (''size'', JInt (to_int32 (jv_number p ''graphicImageSize'')))]]"
  using assms
  by (simp add: addWatermarkHandler_def Let_def sec_schedule_def CreateWatermark_def UpdateWatermark_def watermark_rpc_def sec_invoke_def
      InvokeJSONRPC_def split: option.split)

end
