(* ===== verification/Platform_Externals.thy ===== *)
theory Platform_Externals
  imports Base_Conversion Drm_Helper
begin

text \<open>
  Display, network and configuration of the platform: \<^verbatim>\<open>externals/PlayerExternalsInterface.cpp\<close> and
  \<^verbatim>\<open>externals/rdk/PlayerExternalsRdkInterface.cpp\<close>. The device settings library and the message bus are parameters: every
  event comes with what the library answers at that moment, \<open>None\<close> for an exception. The event handlers are plain
  functions that find their object through a singleton. Members that the constructors leave alone are arguments.
\<close>

section \<open>State\<close>

datatype hdcp = HDCP_1X | HDCP_2X | HDCP_MAX

record rdk_iface =
  m_isHDCPEnabled :: bool
  m_displayWidth :: int
  m_displayHeight :: int
  m_hdcpCurrentProtocol :: hdcp
  ri_gstElement :: "nat option"

text \<open>The interface of the player is the real one or the one that does nothing; the singleton of the handlers is made when
  it is first used.\<close>

datatype iface_kind = RdkIface | FakeIface

record externals =
  iface_kind :: iface_kind
  m_pIarmInterface :: rdk_iface
  s_pPlayerIarmRdkOP :: "rdk_iface option"
  ds_registered :: bool
  net_registered :: bool
  isInterfaceWifi :: bool
  source_size :: "int \<times> int"

text \<open>The calls of the device settings library, in the order in which they are made; the last one is only made for an
  unknown resolution.\<close>

record ds_answers =
  ds_port :: "unit option"
  ds_connected :: "bool option"
  ds_protocol :: "hdcp option"
  ds_status :: "bool option"
  ds_protected :: "bool option"
  ds_receiver :: "hdcp option"
  ds_current :: "hdcp option"
  ds_resolution :: "string option"
  ds_name :: "unit option"

section \<open>The display\<close>

definition pixel_resolution :: "string \<Rightarrow> (int \<times> int) option" where
  "pixel_resolution iResID =
     (if iResID = ''k720x480'' then Some (720, 480) else if iResID = ''k720x576'' then Some (720, 576)
      else if iResID = ''k1280x720'' then Some (1280, 720) else if iResID = ''k1920x1080'' then Some (1920, 1080)
      else if iResID = ''k3840x2160'' then Some (3840, 2160) else if iResID = ''k4096x2160'' then Some (4096, 2160) else None)"

definition SetResolution :: "int \<Rightarrow> int \<Rightarrow> rdk_iface \<Rightarrow> rdk_iface" where
  "SetResolution width height ob = ob\<lparr>m_displayWidth := width, m_displayHeight := height\<rparr>"

text \<open>The block that catches all exceptions: whether the display is connected, whether the content is protected, and the
  protocol.\<close>

definition query_display :: "ds_answers \<Rightarrow> rdk_iface \<Rightarrow> (bool \<times> bool \<times> hdcp) \<times> rdk_iface" where
  "query_display d ob =
     (case ds_port d of None \<Rightarrow> ((False, True, HDCP_MAX), ob) | Some _ \<Rightarrow>
       (case ds_connected d of None \<Rightarrow> ((False, True, HDCP_MAX), ob) | Some c \<Rightarrow>
         (case ds_protocol d of None \<Rightarrow> ((c, True, HDCP_MAX), ob) | Some _ \<Rightarrow>
           if \<not> c then ((False, False, HDCP_MAX), SetResolution 0 0 ob)
           else
             (case ds_status d of None \<Rightarrow> ((True, True, HDCP_MAX), ob) | Some _ \<Rightarrow>
               (case ds_protected d of None \<Rightarrow> ((True, True, HDCP_MAX), ob) | Some p \<Rightarrow>
                 (case ds_receiver d of None \<Rightarrow> ((True, p, HDCP_MAX), ob) | Some _ \<Rightarrow>
                   (case ds_current d of None \<Rightarrow> ((True, p, HDCP_MAX), ob) | Some v \<Rightarrow>
                     (case ds_resolution d of None \<Rightarrow> ((True, p, v), ob) | Some r \<Rightarrow>
                       (case pixel_resolution r of
                          Some (w, h) \<Rightarrow> ((True, p, v), SetResolution w h ob)
                        | None \<Rightarrow> ((True, p, v), if ds_name d = None then ob else SetResolution (- 1) (- 1) ob))))))))))"

definition SetHDMIStatus :: "ds_answers \<Rightarrow> rdk_iface \<Rightarrow> rdk_iface" where
  "SetHDMIStatus d ob =
     (let ((isConnected, enabled, v), ob) = query_display d ob;
          ob = ob\<lparr>m_isHDCPEnabled := enabled\<rparr>;
          ob = (if enabled then ob\<lparr>m_hdcpCurrentProtocol := (if v = HDCP_2X then HDCP_2X else HDCP_1X)\<rparr> else ob)
      in if \<not> isConnected then ob\<lparr>m_hdcpCurrentProtocol := HDCP_1X\<rparr> else ob)"

text \<open>What the other interface does instead.\<close>

definition fake_SetHDMIStatus :: "rdk_iface \<Rightarrow> rdk_iface" where
  "fake_SetHDMIStatus ob = ob\<lparr>m_hdcpCurrentProtocol := HDCP_1X, m_isHDCPEnabled := True\<rparr>"

section \<open>Events\<close>

datatype bus_event =
    HdmiHotplug ds_answers
  | HdcpStatus ds_answers
  | ResPrechange
  | ResPostchange int int
  | InterfaceIp string string

definition GetPlayerExternalsRdkInterfaceInstance :: "rdk_iface \<Rightarrow> externals \<Rightarrow> rdk_iface \<times> externals" where
  "GetPlayerExternalsRdkInterfaceInstance garbage st =
     (case s_pPlayerIarmRdkOP st of
        Some ob \<Rightarrow> (ob, st)
      | None \<Rightarrow> (garbage\<lparr>ri_gstElement := None\<rparr>, st\<lparr>s_pPlayerIarmRdkOP := Some (garbage\<lparr>ri_gstElement := None\<rparr>)\<rparr>))"

definition HDMIEventHandler :: "rdk_iface \<Rightarrow> ds_answers \<Rightarrow> externals \<Rightarrow> externals" where
  "HDMIEventHandler garbage d st =
     (let (ob, st) = GetPlayerExternalsRdkInterfaceInstance garbage st in st\<lparr>s_pPlayerIarmRdkOP := Some (SetHDMIStatus d ob)\<rparr>)"

definition ResolutionHandler :: "rdk_iface \<Rightarrow> (int \<times> int) option \<Rightarrow> externals \<Rightarrow> externals" where
  "ResolutionHandler garbage post st =
     (let (ob, st) = GetPlayerExternalsRdkInterfaceInstance garbage st
      in case post of None \<Rightarrow> st | Some (w, h) \<Rightarrow> st\<lparr>s_pPlayerIarmRdkOP := Some (SetResolution w h ob)\<rparr>)"

definition getActiveInterfaceEventHandler :: "string \<Rightarrow> string \<Rightarrow> externals \<Rightarrow> externals" where
  "getActiveInterfaceEventHandler owner activeIface st =
     (if owner \<noteq> ''NET_SRV_MGR'' then st
      else if find_str ''wlan'' activeIface \<noteq> None then st\<lparr>isInterfaceWifi := True\<rparr>
      else if find_str ''eth'' activeIface \<noteq> None then st\<lparr>isInterfaceWifi := False\<rparr> else st)"

definition bus_event_step :: "rdk_iface \<Rightarrow> bus_event \<Rightarrow> externals \<Rightarrow> externals" where
  "bus_event_step garbage e st =
     (case e of
        HdmiHotplug d \<Rightarrow> if ds_registered st then HDMIEventHandler garbage d st else st
      | HdcpStatus d \<Rightarrow> if ds_registered st then HDMIEventHandler garbage d st else st
      | ResPrechange \<Rightarrow> st
      | ResPostchange w h \<Rightarrow> if ds_registered st then ResolutionHandler garbage (Some (w, h)) st else st
      | InterfaceIp owner name \<Rightarrow> if net_registered st then getActiveInterfaceEventHandler owner name st else st)"

section \<open>The interface\<close>

definition PlayerExternalsInterface :: "bool \<Rightarrow> bool \<Rightarrow> ds_answers \<Rightarrow> rdk_iface \<Rightarrow> externals \<Rightarrow> externals" where
  "PlayerExternalsInterface IARM_MGR container d garbage st =
     (let ob = garbage\<lparr>ri_gstElement := None\<rparr>
      in if IARM_MGR \<and> \<not> container
         then st\<lparr>iface_kind := RdkIface, m_pIarmInterface := SetHDMIStatus d ob, ds_registered := True\<rparr>
         else st\<lparr>iface_kind := FakeIface, m_pIarmInterface := fake_SetHDMIStatus ob\<rparr>)"

definition delete_PlayerExternalsInterface :: "externals \<Rightarrow> externals" where
  "delete_PlayerExternalsInterface st = (if iface_kind st = RdkIface then st\<lparr>ds_registered := False\<rparr> else st)"

text \<open>The arguments are what the caller's variables hold before.\<close>

definition GetDisplayResolution :: "bool \<Rightarrow> int \<times> int \<Rightarrow> externals \<Rightarrow> int \<times> int" where
  "GetDisplayResolution container before st =
     (if \<not> container \<and> iface_kind st = RdkIface
      then (m_displayWidth (m_pIarmInterface st), m_displayHeight (m_pIarmInterface st)) else before)"

definition isHDCPConnection2_2 :: "externals \<Rightarrow> bool" where
  "isHDCPConnection2_2 st \<longleftrightarrow> m_hdcpCurrentProtocol (m_pIarmInterface st) = HDCP_2X"

definition UHD_WIDTH :: int where "UHD_WIDTH = 3840"
definition UHD_HEIGHT :: int where "UHD_HEIGHT = 2160"

text \<open>The size of the video is a property of the element; the variables for it are static and keep their values when the
  element has no such property.\<close>

definition IsSourceUHD :: "(nat \<Rightarrow> (int \<times> int) option) \<Rightarrow> externals \<Rightarrow> bool \<times> externals" where
  "IsSourceUHD video_size st =
     (case ri_gstElement (m_pIarmInterface st) of
        None \<Rightarrow> (False, st)
      | Some e \<Rightarrow>
          let st = (case video_size e of None \<Rightarrow> st | Some p \<Rightarrow> st\<lparr>source_size := p\<rparr>); (w, h) = source_size st
          in (w \<noteq> 0 \<and> h \<noteq> 0 \<and> (UHD_WIDTH \<le> w \<or> UHD_HEIGHT \<le> h), st))"

definition setGstElement :: "nat option \<Rightarrow> externals \<Rightarrow> externals" where
  "setGstElement e st = st\<lparr>m_pIarmInterface := (m_pIarmInterface st)\<lparr>ri_gstElement := e\<rparr>\<rparr>"

text \<open>The answer of the network service, \<open>None\<close> when the call failed.\<close>

definition IsActiveStreamingInterfaceWifi :: "bool \<Rightarrow> bool \<Rightarrow> string option \<Rightarrow> externals \<Rightarrow> bool \<times> externals" where
  "IsActiveStreamingInterfaceWifi IARM_MGR container answer st =
     (if IARM_MGR \<and> \<not> container
      then let wifi = (answer = Some ''WIFI'') in (wifi, st\<lparr>net_registered := True, isInterfaceWifi := wifi\<rparr>)
      else (False, st))"

definition GetActiveInterface :: "bool \<Rightarrow> externals \<Rightarrow> bool" where
  "GetActiveInterface container st \<longleftrightarrow> \<not> container \<and> iface_kind st = RdkIface \<and> isInterfaceWifi st"

definition IsConfigWifiCurlHeader :: "bool \<Rightarrow> bool \<Rightarrow> bool" where
  "IsConfigWifiCurlHeader IARM_MGR container \<longleftrightarrow> IARM_MGR \<and> \<not> container"

text \<open>A parameter of the configuration service: its value when it is a string and there was no fault.\<close>

definition GetTR181Config :: "(nat \<Rightarrow> bool) \<Rightarrow> string option \<Rightarrow> byte list option" where
  "GetTR181Config malloc_ok answer =
     (case answer of None \<Rightarrow> None | Some value \<Rightarrow> if value = [] then None else base64_Decode_cstr malloc_ok value)"

definition GetTR181PlayerConfig :: "bool \<Rightarrow> (nat \<Rightarrow> bool) \<Rightarrow> string option \<Rightarrow> externals \<Rightarrow> byte list option" where
  "GetTR181PlayerConfig container malloc_ok answer st =
     (if \<not> container \<and> iface_kind st = RdkIface then GetTR181Config malloc_ok answer else None)"

section \<open>Steps\<close>

text \<open>What happens to the interface after it was made, until it is deleted.\<close>

inductive ext_step :: "rdk_iface \<Rightarrow> externals \<Rightarrow> externals \<Rightarrow> bool" for garbage where
  ext_event: "ext_step garbage st (bus_event_step garbage e st)"
| ext_element: "ext_step garbage st (setGstElement el st)"
| ext_uhd: "ext_step garbage st (snd (IsSourceUHD video_size st))"
| ext_wifi: "ext_step garbage st (snd (IsActiveStreamingInterfaceWifi i c answer st))"

definition display_state :: "externals \<Rightarrow> iface_kind \<times> int \<times> int \<times> hdcp" where
  "display_state st = (iface_kind st, m_displayWidth (m_pIarmInterface st), m_displayHeight (m_pIarmInterface st),
     m_hdcpCurrentProtocol (m_pIarmInterface st))"

interpretation ext_machine: invariant_system "ext_step garbage" st0 "\<lambda>st. display_state st = display_state st0" for garbage st0
proof
  show "display_state st0 = display_state st0" ..
  show "display_state st' = display_state st0" if "display_state st = display_state st0" "ext_step garbage st st'" for st st'
    using that(2,1)
    by cases
      (auto simp: bus_event_step_def HDMIEventHandler_def ResolutionHandler_def getActiveInterfaceEventHandler_def setGstElement_def
        IsSourceUHD_def IsActiveStreamingInterfaceWifi_def GetPlayerExternalsRdkInterfaceInstance_def display_state_def Let_def
        split: bus_event.splits option.splits prod.splits if_splits)
qed

section \<open>Properties\<close>

text \<open>C23: Display events never reach the player: the handlers update the object of the singleton, which is not the one that the
  player reads. Whatever events come, the player sees the resolution and the protocol of the moment when its interface was
  made.\<close>

theorem display_events_lost:
  assumes "reaches (ext_step garbage) (PlayerExternalsInterface True False d garbage st0) st"
  shows "GetDisplayResolution False before st = (m_displayWidth (SetHDMIStatus d (garbage\<lparr>ri_gstElement := None\<rparr>)),
      m_displayHeight (SetHDMIStatus d (garbage\<lparr>ri_gstElement := None\<rparr>)))
    \<and> isHDCPConnection2_2 st = (m_hdcpCurrentProtocol (SetHDMIStatus d (garbage\<lparr>ri_gstElement := None\<rparr>)) = HDCP_2X)"
proof -
  have "display_state st = display_state (PlayerExternalsInterface True False d garbage st0)"
    by (rule ext_machine.reachable_inv [OF assms])
  then show ?thesis
    by (simp add: display_state_def PlayerExternalsInterface_def Let_def GetDisplayResolution_def isHDCPConnection2_2_def)
qed

text \<open>A protocol of version 2 is reported exactly for a connected display whose content is protected with it, if no call
  throws before it is known; but when the content is not protected the version of before stays.\<close>

lemma hdcp_version_reported:
  "m_hdcpCurrentProtocol (SetHDMIStatus d ob) =
     (if ds_port d \<noteq> None \<and> ds_connected d = Some True \<and> ds_protocol d \<noteq> None \<and> ds_status d \<noteq> None \<and> ds_protected d \<noteq> None
      then if ds_protected d = Some False then m_hdcpCurrentProtocol ob
           else if ds_receiver d \<noteq> None \<and> ds_current d = Some HDCP_2X then HDCP_2X else HDCP_1X
      else HDCP_1X)"
  by (auto simp: SetHDMIStatus_def query_display_def SetResolution_def split: option.splits)

lemma failed_query_enables_hdcp:
  assumes "ds_port d = None \<or> ds_connected d = None"
  shows "m_isHDCPEnabled (SetHDMIStatus d ob)" "m_displayWidth (SetHDMIStatus d ob) = m_displayWidth ob"
  using assms by (auto simp: SetHDMIStatus_def query_display_def split: option.splits)

section \<open>The property at work\<close>

definition demo_iface :: rdk_iface where
  "demo_iface = \<lparr>m_isHDCPEnabled = False, m_displayWidth = 99, m_displayHeight = 99, m_hdcpCurrentProtocol = HDCP_MAX, ri_gstElement = None\<rparr>"

definition demo_ds :: ds_answers where
  "demo_ds = \<lparr>ds_port = Some (), ds_connected = Some True, ds_protocol = Some HDCP_2X, ds_status = Some True, ds_protected = Some True,
     ds_receiver = Some HDCP_2X, ds_current = Some HDCP_2X, ds_resolution = Some ''k1280x720'', ds_name = None\<rparr>"

definition demo_externals :: externals where
  "demo_externals = \<lparr>iface_kind = FakeIface, m_pIarmInterface = demo_iface, s_pPlayerIarmRdkOP = None, ds_registered = False,
     net_registered = False, isInterfaceWifi = False, source_size = (0, 0)\<rparr>"

theorem display_events_lost_witness:
  "GetDisplayResolution False (0, 0) (bus_event_step demo_iface (ResPostchange 3840 2160)
     (PlayerExternalsInterface True False demo_ds demo_iface demo_externals)) = (1280, 720)"
proof -
  have "reaches (ext_step demo_iface) (PlayerExternalsInterface True False demo_ds demo_iface demo_externals)
      (bus_event_step demo_iface (ResPostchange 3840 2160) (PlayerExternalsInterface True False demo_ds demo_iface demo_externals))"
    by (rule reaches.step, rule reaches.start, rule ext_event)
  from display_events_lost [OF this, of "(0, 0)"] show ?thesis
    by (simp add: SetHDMIStatus_def query_display_def demo_ds_def demo_iface_def pixel_resolution_def SetResolution_def)
qed

end
