(* ===== verification/Platform_Access.thy ===== *)
theory Platform_Access
  imports Security_License Gst_Viper
begin

text \<open>
  The plugins of the platform behind \<^verbatim>\<open>externals/rdk/PlayerThunderAccess.cpp\<close>: video inputs, over-the-air and cable
  playback, and watermarks. An object talks to one plugin; some operations make further objects for other plugins. The
  remote calls are recorded as in \<^verbatim>\<open>Security_License\<close>, whose services are used; what is told to the application is a second
  list. The rows of a table in an answer are a function of the history too. The application's functions are set before
  events can come.
\<close>

section \<open>State and calls\<close>

record ota_status =
  os_state :: string
  os_url :: string
  os_reason :: string
  os_rating :: string
  os_ssi :: int
  vid_progressive :: bool
  vid_frameRate :: "int \<times> int"
  vid_aspectRatio :: "int \<times> int"
  vid_size :: "int \<times> int"
  vid_codec :: string
  vid_hdrType :: string
  vid_bitrate :: int
  aud_codec :: string
  aud_mixType :: string
  aud_isAtmos :: bool
  aud_bitrate :: int

datatype told =
    ToldInput string
  | ToldSignal string
  | ToldVideoInfo bool int int int int
  | ToldOta ota_status
  | ToldRmf string
  | ToldRmfError string

record thunder_access =
  ta_plugin :: plugin
  videoInputPort :: int
  ta_registered :: "string list"
  mEventSubscribed :: bool
  ta_calls :: "sec_call list"
  ta_told :: "told list"

record access_env = sec_env +
  table_of :: "sec_call list \<Rightarrow> jview list"

definition APP_ID :: string where "APP_ID = ''MainPlayer''"

definition PlayerThunderAccess :: "plugin \<Rightarrow> thunder_access" where
  "PlayerThunderAccess callsign = \<lparr>ta_plugin = callsign, videoInputPort = - 1, ta_registered = [], mEventSubscribed = False,
     ta_calls = [], ta_told = []\<rparr>"

definition ta_emit :: "sec_call \<Rightarrow> thunder_access \<Rightarrow> thunder_access" where
  "ta_emit c st = st\<lparr>ta_calls := ta_calls st @ [c]\<rparr>"

definition tell :: "told \<Rightarrow> thunder_access \<Rightarrow> thunder_access" where
  "tell t st = st\<lparr>ta_told := ta_told st @ [t]\<rparr>"

text \<open>A call on an object for plugin \<open>p\<close>.\<close>

definition access_rpc :: "access_env \<Rightarrow> plugin \<Rightarrow> string \<Rightarrow> (string \<times> jparam) list \<Rightarrow> thunder_access \<Rightarrow> bool \<times> jview \<times> thunder_access" where
  "access_rpc env p method param st =
     (if \<not> remote env p then (False, empty_view, st)
      else let st = ta_emit (Rpc p method param) st
           in case reply_of env (ta_calls st) of
                None \<Rightarrow> (False, empty_view, st)
              | Some r \<Rightarrow> (jv_flag r ''success'', r, st))"

abbreviation own_rpc :: "access_env \<Rightarrow> string \<Rightarrow> (string \<times> jparam) list \<Rightarrow> thunder_access \<Rightarrow> bool \<times> jview \<times> thunder_access" where
  "own_rpc env method param st \<equiv> access_rpc env (ta_plugin st) method param st"

definition simple_rpc :: "access_env \<Rightarrow> string \<Rightarrow> (string \<times> jparam) list \<Rightarrow> thunder_access \<Rightarrow> bool \<times> thunder_access" where
  "simple_rpc env method param st = (let (ok, _, st) = own_rpc env method param st in (ok, st))"

definition access_activate :: "access_env \<Rightarrow> plugin \<Rightarrow> thunder_access \<Rightarrow> bool \<times> thunder_access" where
  "access_activate env p st =
     (if \<not> controller env p then (False, st) else let st = ta_emit (Activate p) st in (activate_ok env (ta_calls st), st))"

definition access_subscribe :: "access_env \<Rightarrow> string \<Rightarrow> thunder_access \<Rightarrow> bool \<times> thunder_access" where
  "access_subscribe env eventName st =
     (if \<not> remote env (ta_plugin st) then (False, st)
      else let st = ta_emit (Subscribe eventName) st in (subscribe_ok env (ta_calls st), st))"

definition access_unsubscribe :: "access_env \<Rightarrow> string \<Rightarrow> thunder_access \<Rightarrow> bool \<times> thunder_access" where
  "access_unsubscribe env eventName st =
     (if \<not> remote env (ta_plugin st) then (False, st) else (True, ta_emit (Unsubscribe eventName) st))"

section \<open>Video rectangles\<close>

text \<open>The \<^verbatim>\<open>float\<close> nearest to a fraction, again as a fraction, and a coordinate times a quotient of two sizes, cut to an
  integer; infinite values and those beyond \<^verbatim>\<open>int\<close> are undefined.\<close>

definition float_frac :: "nat \<Rightarrow> nat \<Rightarrow> nat \<times> nat" where
  "float_frac n d =
     (if n < 2 ^ 24 * d then let s = float_shift 149 n d in (round_half_even (n * 2 ^ s) d, 2 ^ s)
      else let h = float_halve 104 n d in (round_half_even n (d * 2 ^ h) * 2 ^ h, 1))"

definition scale_float :: "int \<Rightarrow> nat \<times> nat \<Rightarrow> int res" where
  "scale_float x ratio =
     (let (xn, xd) = float_frac (nat \<bar>x\<bar>) 1; (n, d) = float_frac (xn * fst ratio) (xd * snd ratio); k = int (n div d)
      in if (if x < 0 then - k else k) \<in> {- (2 ^ 31)..< 2 ^ 31} then Inr (if x < 0 then - k else k) else Inl Undefined)"

definition get_size :: "access_env \<Rightarrow> plugin \<Rightarrow> string \<Rightarrow> thunder_access \<Rightarrow> (int \<times> int) option \<times> thunder_access" where
  "get_size env p method st =
     (let (ok, r, st) = access_rpc env p method [] st
      in (if ok then Some (to_int32 (jv_number r ''w''), to_int32 (jv_number r ''h'')) else None, st))"

definition GetScreenResolution :: "access_env \<Rightarrow> thunder_access \<Rightarrow> (int \<times> int) option \<times> thunder_access" where
  "GetScreenResolution env = get_size env RdkShellPlugin ''getScreenResolution''"

definition GetResolutionFromDS_VIDEOIN :: "access_env \<Rightarrow> thunder_access \<Rightarrow> (int \<times> int) option \<times> thunder_access" where
  "GetResolutionFromDS_VIDEOIN env = get_size env DsPlugin ''getCurrentResolution''"

text \<open>The quotients of the sizes; negative sizes are not modelled.\<close>

definition input_ratios :: "(int \<times> int) option \<Rightarrow> (int \<times> int) option \<Rightarrow> ((nat \<times> nat) \<times> (nat \<times> nat)) res" where
  "input_ratios screen ds =
     (case (screen, ds) of
        (Some (sw, sh), Some (dw, dh)) \<Rightarrow>
          if sw = 0 \<or> sh = 0 then Inr ((1, 1), (1, 1))
          else if 0 < sw \<and> 0 < sh \<and> 0 \<le> dw \<and> 0 \<le> dh
               then let fl = (\<lambda>x. float_frac (nat x) 1); quot = (\<lambda>(a, b) (c, d). float_frac (a * d) (b * c))
                    in Inr (quot (fl dw) (fl sw), quot (fl dh) (fl sh))
               else Inl Undefined
      | _ \<Rightarrow> Inr ((1, 1), (1, 1)))"

definition SetVideoRectangle_VIDEOIN ::
  "access_env \<Rightarrow> int \<Rightarrow> int \<Rightarrow> int \<Rightarrow> int \<Rightarrow> string \<Rightarrow> thunder_access \<Rightarrow> (bool \<times> thunder_access) res" where
  "SetVideoRectangle_VIDEOIN env x y w h videoInputType st =
     (let (screen, st) = GetScreenResolution env st;
          (ds, st) = (if screen = None then (None, st) else GetResolutionFromDS_VIDEOIN env st)
      in bindE (input_ratios screen ds) (\<lambda>(wr, hr).
           bindE (scale_float x wr) (\<lambda>x. bindE (scale_float y hr) (\<lambda>y. bindE (scale_float w wr) (\<lambda>w. bindE (scale_float h hr) (\<lambda>h.
             Inr (simple_rpc env ''setVideoRectangle'' [(''x'', JInt x), (''y'', JInt y), (''w'', JInt w), (''h'', JInt h),
               (''typeOfInput'', JText videoInputType)] st)))))))"

definition SetVideoRectangle_OTA :: "access_env \<Rightarrow> int \<Rightarrow> int \<Rightarrow> int \<Rightarrow> int \<Rightarrow> thunder_access \<Rightarrow> bool \<times> thunder_access" where
  "SetVideoRectangle_OTA env x y w h st =
     (let (screen, st) = GetScreenResolution env st
      in simple_rpc env ''setVideoRectangle''
           ([(''id'', JText APP_ID), (''x'', JInt x), (''y'', JInt y), (''w'', JInt w), (''h'', JInt h)]
            @ (case screen of None \<Rightarrow> [] | Some (sw, sh) \<Rightarrow> [(''meta'', JFields [(''resWidth'', JInt sw), (''resHeight'', JInt sh)])])) st)"

definition SetVideoRectangle_RMF :: "access_env \<Rightarrow> int \<Rightarrow> int \<Rightarrow> int \<Rightarrow> int \<Rightarrow> thunder_access \<Rightarrow> bool \<times> thunder_access" where
  "SetVideoRectangle_RMF env x y w h st =
     simple_rpc env ''setVideoRectangle''
       [(''video_rectangle'', JFields [(''x'', JInt x), (''y'', JInt y), (''width'', JInt w), (''height'', JInt h)])] st"

datatype access_shim = VIDEOIN_SHIM | OTA_SHIM | RMF_SHIM | OtherShim

definition access_SetVideoRectangle ::
  "access_env \<Rightarrow> int \<Rightarrow> int \<Rightarrow> int \<Rightarrow> int \<Rightarrow> string \<Rightarrow> access_shim \<Rightarrow> thunder_access \<Rightarrow> (bool \<times> thunder_access) res" where
  "access_SetVideoRectangle env x y w h videoInputType shim st =
     (case shim of
        VIDEOIN_SHIM \<Rightarrow> SetVideoRectangle_VIDEOIN env x y w h videoInputType st
      | OTA_SHIM \<Rightarrow> Inr (SetVideoRectangle_OTA env x y w h st)
      | RMF_SHIM \<Rightarrow> Inr (SetVideoRectangle_RMF env x y w h st)
      | OtherShim \<Rightarrow> Inr (False, st))"

section \<open>Video inputs\<close>

definition RegisterEvent_VIDEOIN :: "access_env \<Rightarrow> string \<Rightarrow> thunder_access \<Rightarrow> thunder_access" where
  "RegisterEvent_VIDEOIN env eventName st =
     (let (bSubscribed, st) = access_subscribe env eventName st
      in if bSubscribed then st\<lparr>ta_registered := ta_registered st @ [eventName]\<rparr> else st)"

definition RegisterAllEventsVideoin :: "access_env \<Rightarrow> thunder_access \<Rightarrow> thunder_access" where
  "RegisterAllEventsVideoin env st = RegisterEvent_VIDEOIN env ''onSignalChanged'' (RegisterEvent_VIDEOIN env ''onInputStatusChanged'' st)"

definition UnRegisterAllEventsVideoin :: "access_env \<Rightarrow> thunder_access \<Rightarrow> thunder_access" where
  "UnRegisterAllEventsVideoin env st =
     (foldl (\<lambda>st name. snd (access_unsubscribe env name st)) st (ta_registered st))\<lparr>ta_registered := []\<rparr>"

definition OnInputStatusChanged :: "jview \<Rightarrow> thunder_access \<Rightarrow> thunder_access" where
  "OnInputStatusChanged parameters = tell (ToldInput (jv_text parameters ''status''))"

definition OnSignalChanged :: "jview \<Rightarrow> thunder_access \<Rightarrow> thunder_access" where
  "OnSignalChanged parameters = tell (ToldSignal (jv_text parameters ''signalStatus''))"

definition StartHelperVideoin :: "access_env \<Rightarrow> int \<Rightarrow> string \<Rightarrow> thunder_access \<Rightarrow> thunder_access" where
  "StartHelperVideoin env port videoInputType st =
     snd (simple_rpc env ''startInput'' [(''portId'', JInt port), (''typeOfInput'', JText videoInputType)] (st\<lparr>videoInputPort := port\<rparr>))"

definition StopHelperVideoin :: "access_env \<Rightarrow> string \<Rightarrow> thunder_access \<Rightarrow> thunder_access" where
  "StopHelperVideoin env videoInputType st =
     (if 0 \<le> videoInputPort st
      then (snd (simple_rpc env ''stopInput'' [(''typeOfInput'', JText videoInputType)] st))\<lparr>videoInputPort := - 1\<rparr> else st)"

definition RegisterEventOnVideoStreamInfoUpdateHdmiin :: "access_env \<Rightarrow> thunder_access \<Rightarrow> thunder_access" where
  "RegisterEventOnVideoStreamInfoUpdateHdmiin env = RegisterEvent_VIDEOIN env ''videoStreamInfoUpdate''"

definition OnVideoStreamInfoUpdate :: "jview \<Rightarrow> thunder_access \<Rightarrow> thunder_access" where
  "OnVideoStreamInfoUpdate p =
     tell (ToldVideoInfo (jv_flag p ''progressive'') (jv_number p ''frameRateN'') (jv_number p ''frameRateD'')
       (to_int32 (jv_number p ''width'')) (to_int32 (jv_number p ''height'')))"

section \<open>Over-the-air playback\<close>

definition RegisterOnPlayerStatusOta :: "access_env \<Rightarrow> thunder_access \<Rightarrow> thunder_access" where
  "RegisterOnPlayerStatusOta env st =
     (let (ok, st) = access_subscribe env ''onPlayerStatus'' st in st\<lparr>mEventSubscribed := ok\<rparr>)"

text \<open>The event has an object for the application with further objects in it; the rating is handed on as text.\<close>

definition onPlayerStatusHandler_OTA :: "jview \<Rightarrow> string \<Rightarrow> jview \<Rightarrow> jview \<Rightarrow> thunder_access \<Rightarrow> thunder_access" where
  "onPlayerStatusHandler_OTA playerData rating v a =
     (let num = (\<lambda>ob name. to_int32 (jv_number ob name))
      in tell (ToldOta \<lparr>os_state = jv_text playerData ''playerStatus'', os_url = jv_text playerData ''locator'',
           os_reason = jv_text playerData ''blockedReason'', os_rating = rating, os_ssi = num playerData ''ssi'',
           vid_progressive = jv_flag v ''progressive'', vid_frameRate = (jv_number v ''frameRateN'', jv_number v ''frameRateD''),
           vid_aspectRatio = (num v ''aspectRatioWidth'', num v ''aspectRatioHeight''), vid_size = (num v ''width'', num v ''height''),
           vid_codec = jv_text v ''codec'', vid_hdrType = jv_text v ''hdrType'', vid_bitrate = num v ''bitrate'',
           aud_codec = jv_text a ''codec'', aud_mixType = jv_text a ''mixType'', aud_isAtmos = jv_flag a ''isAtmos'',
           aud_bitrate = num a ''bitrate''\<rparr>))"

definition app_call :: "access_env \<Rightarrow> string \<Rightarrow> (string \<times> jparam) list \<Rightarrow> thunder_access \<Rightarrow> thunder_access" where
  "app_call env method param st = snd (simple_rpc env method ((''id'', JText APP_ID) # param) st)"

definition ReleaseOta :: "access_env \<Rightarrow> thunder_access \<Rightarrow> thunder_access" where
  "ReleaseOta env st =
     (let st = app_call env ''release'' [(''tag'', JText ''MyApp'')] st
      in if mEventSubscribed st then (snd (access_unsubscribe env ''onPlayerStatus'' st))\<lparr>mEventSubscribed := False\<rparr> else st)"

text \<open>The properties that differ from those of the tuner.\<close>

definition ota_properties :: "string \<Rightarrow> string \<Rightarrow> string \<Rightarrow> string \<Rightarrow> (string \<times> jparam) list" where
  "ota_properties languages atsc_languages rendition atsc_rendition =
     (if languages \<noteq> [] \<and> languages \<noteq> atsc_languages then [(''preferredAudioLanguage'', JText languages)] else [])
     @ (if rendition \<noteq> [] \<and> rendition \<noteq> atsc_rendition
        then if rendition = ''VISUALLY_IMPAIRED'' then [(''visuallyImpaired'', JFlag True)]
             else if rendition = ''NORMAL'' then [(''visuallyImpaired'', JFlag False)] else []
        else [])"

definition SetPreferredAudioLanguages_OTA :: "access_env \<Rightarrow> string \<Rightarrow> string \<Rightarrow> string \<Rightarrow> string \<Rightarrow> thunder_access \<Rightarrow> thunder_access" where
  "SetPreferredAudioLanguages_OTA env languages atsc_languages rendition atsc_rendition st =
     (let properties = ota_properties languages atsc_languages rendition atsc_rendition
      in if properties = [] then st
         else let st = snd (access_activate env MediaSettingsPlugin st);
                  (_, _, st) = access_rpc env MediaSettingsPlugin ''setProperties'' [(''properties'', JFields properties)] st
              in st)"

text \<open>For cable playback nothing is sent.\<close>

definition SetPreferredAudioLanguages :: "access_env \<Rightarrow> string \<times> string \<Rightarrow> string \<times> string \<Rightarrow> access_shim \<Rightarrow> thunder_access \<Rightarrow> thunder_access" where
  "SetPreferredAudioLanguages env languages renditions shim st =
     (if shim = OTA_SHIM then SetPreferredAudioLanguages_OTA env (fst languages) (snd languages) (fst renditions) (snd renditions) st
      else st)"

definition StartOta :: "access_env \<Rightarrow> string \<Rightarrow> string \<Rightarrow> string \<times> string \<Rightarrow> string \<times> string \<Rightarrow> thunder_access \<Rightarrow> thunder_access" where
  "StartOta env url waylandDisplay languages renditions st =
     (let st = SetPreferredAudioLanguages_OTA env (fst languages) (snd languages) (fst renditions) (snd renditions) st;
          st = app_call env ''create'' [(''tag'', JText ''MyApp'')] st;
          st = app_call env ''setWaylandDisplay'' [(''display'', JText waylandDisplay)] st
      in app_call env ''load'' [(''url'', JText url), (''autoplay'', JFlag True)] st)"

definition StopOta :: "access_env \<Rightarrow> thunder_access \<Rightarrow> thunder_access" where
  "StopOta env = app_call env ''stop'' []"

definition GetAudioTrackInternal_OTA :: "access_env \<Rightarrow> thunder_access \<Rightarrow> int \<times> thunder_access" where
  "GetAudioTrackInternal_OTA env st =
     (let (_, r, st) = own_rpc env ''getAudioTrack'' [(''id'', JText APP_ID)] st in (to_int32 (jv_number r ''pk''), st))"

definition attributes_param :: "string list \<Rightarrow> string \<times> jparam" where
  "attributes_param names = (''attributes'', JFields (map (\<lambda>n. (n, JText n)) names))"

text \<open>The vector for the tracks is an argument by value, so its caller gets the index of the current track only: the last row
  with its key.\<close>

definition GetAudioTracksOta :: "access_env \<Rightarrow> thunder_access \<Rightarrow> string \<times> thunder_access" where
  "GetAudioTracksOta env st =
     (let (current, st) = GetAudioTrackInternal_OTA env st;
          (_, _, st) = own_rpc env ''getAudioTracks'' [(''id'', JText APP_ID), attributes_param [''pk'', ''name'', ''type'',
            ''description'', ''language'', ''contentType'', ''mixType'', ''isSelected'']] st;
          rows = table_of env (ta_calls st)
      in (case filter (\<lambda>i. jv_number (rows ! i) ''pk'' = current) [0..<length rows] of
            [] \<Rightarrow> [] | found \<Rightarrow> decimal (last found), st))"

definition SetAudioTrackOta :: "access_env \<Rightarrow> nat \<Rightarrow> int \<Rightarrow> thunder_access \<Rightarrow> string \<times> thunder_access" where
  "SetAudioTrackOta env trackId primaryKey st =
     (let (_, r, st) = own_rpc env ''setAudioTrack'' [(''id'', JText APP_ID), (''trackPk'', JInt primaryKey)] st
      in (if jv_flag r ''success'' then decimal trackId else [], st))"

text \<open>Here too the vector is a copy; the argument is whether it held something before.\<close>

definition GetTextTracksOta :: "access_env \<Rightarrow> bool \<Rightarrow> thunder_access \<Rightarrow> bool \<times> thunder_access" where
  "GetTextTracksOta env had_tracks st =
     (let (_, _, st) = own_rpc env ''getSubtitleTracks'' [(''id'', JText APP_ID), attributes_param [''pk'', ''name'', ''type'',
            ''description'', ''language'', ''contentType'', ''ccServiceNumber'', ''isSelected'', ''ccTypeIs708'', ''ccType'']] st
      in (had_tracks \<or> table_of env (ta_calls st) \<noteq> [], st))"

definition DisableContentRestrictionsOta :: "access_env \<Rightarrow> int \<Rightarrow> int \<Rightarrow> bool \<Rightarrow> thunder_access \<Rightarrow> thunder_access" where
  "DisableContentRestrictionsOta env grace time eventChange =
     app_call env ''disableContentRestrictionsUntil''
       (if grace = - 1 then [(''grace'', JInt (- 1)), (''time'', JInt (- 1)), (''eventChange'', JFlag False)]
        else [(''grace'', JInt 0), (''time'', JInt time), (''eventChange'', JFlag eventChange)])"

definition EnableContentRestrictionsOta :: "access_env \<Rightarrow> thunder_access \<Rightarrow> thunder_access" where
  "EnableContentRestrictionsOta env = app_call env ''enableContentRestrictions'' []"

section \<open>Cable playback\<close>

definition InitRmf :: "access_env \<Rightarrow> thunder_access \<Rightarrow> bool \<times> thunder_access" where
  "InitRmf env st = simple_rpc env ''initialize'' [(''source_type'', JText ''qam'')] (snd (access_activate env (ta_plugin st) st))"

definition onPlayerStatusHandler_RMF :: "jview \<Rightarrow> thunder_access \<Rightarrow> thunder_access" where
  "onPlayerStatusHandler_RMF parameters = tell (ToldRmf (jv_text parameters ''title''))"

definition onPlayerErrorHandler_RMF :: "jview \<Rightarrow> thunder_access \<Rightarrow> thunder_access" where
  "onPlayerErrorHandler_RMF p =
     tell (ToldRmfError (jv_text p ''source'' @ '': '' @ jv_text p ''title'' @ ''- '' @ jv_text p ''message''))"

definition StartRmf :: "access_env \<Rightarrow> string \<Rightarrow> thunder_access \<Rightarrow> bool \<times> thunder_access" where
  "StartRmf env url st =
     (let st = snd (access_subscribe env ''onError'' (snd (access_subscribe env ''onStatusChanged'' st)))
      in simple_rpc env ''play'' [(''source_type'', JText ''qam''), (''identifier'', JText url)] st)"

definition StopRmf :: "access_env \<Rightarrow> thunder_access \<Rightarrow> thunder_access" where
  "StopRmf env st =
     (let st = snd (simple_rpc env ''stop'' [] st)
      in snd (access_unsubscribe env ''onError'' (snd (access_unsubscribe env ''onStatusChanged'' st))))"

section \<open>Watermarks\<close>

definition access_DeleteWatermark :: "access_env \<Rightarrow> int \<Rightarrow> thunder_access \<Rightarrow> bool \<times> thunder_access" where
  "access_DeleteWatermark env layerID = simple_rpc env ''deleteWatermark'' [(''id'', JInt layerID)]"

definition access_CreateWatermark :: "access_env \<Rightarrow> int \<Rightarrow> thunder_access \<Rightarrow> bool \<times> thunder_access" where
  "access_CreateWatermark env layerID = simple_rpc env ''createWatermark'' [(''id'', JInt layerID), (''zorder'', JInt 1)]"

definition access_ShowWatermark :: "access_env \<Rightarrow> int \<Rightarrow> thunder_access \<Rightarrow> bool \<times> thunder_access" where
  "access_ShowWatermark env opacity = simple_rpc env ''showWatermark'' [(''show'', JFlag True), (''alpha'', JInt opacity)]"

definition HideWatermark :: "access_env \<Rightarrow> thunder_access \<Rightarrow> bool \<times> thunder_access" where
  "HideWatermark env = simple_rpc env ''showWatermark'' [(''show'', JFlag False)]"

definition access_UpdateWatermark :: "access_env \<Rightarrow> int \<Rightarrow> int \<Rightarrow> int \<Rightarrow> thunder_access \<Rightarrow> bool \<times> thunder_access" where
  "access_UpdateWatermark env layerID sharedMemoryKey sz =
     simple_rpc env ''updateWatermark'' [(''id'', JInt layerID), (''key'', JInt sharedMemoryKey), (''size'', JInt sz)]"

definition GetMetaDataWatermark :: "access_env \<Rightarrow> thunder_access \<Rightarrow> string \<times> thunder_access" where
  "GetMetaDataWatermark env st =
     (let (ok, r, st) = own_rpc env ''PersistentStoreMetadata'' [] st in (if ok then jv_text r ''metadata'' else [], st))"

definition PersistentStoreSaveWatermark :: "access_env \<Rightarrow> string \<Rightarrow> string \<Rightarrow> thunder_access \<Rightarrow> bool \<times> thunder_access" where
  "PersistentStoreSaveWatermark env base64Image metaData =
     simple_rpc env ''PersistentStoreSave'' [(''image'', JText base64Image), (''metadata'', JText metaData)]"

definition PersistentStoreLoadWatermark :: "access_env \<Rightarrow> int \<Rightarrow> thunder_access \<Rightarrow> bool \<times> thunder_access" where
  "PersistentStoreLoadWatermark env layerID = simple_rpc env ''PersistentStoreLoad'' [(''id'', JInt layerID)]"

section \<open>Properties\<close>

text \<open>Whole numbers up to 24 bits are kept by a \<^verbatim>\<open>float\<close>, whatever fraction they come as.\<close>

lemma float_frac_whole:
  assumes "0 < d" and "k < 2 ^ 24"
  shows "\<exists>d'. 0 < d' \<and> float_frac (k * d) d = (k * d', d')"
proof -
  have "k * d < 2 ^ 24 * d" using assms by (simp del: power_numeral)
  moreover have "round_half_even (k * d * 2 ^ s) d = k * 2 ^ s" for s
  proof -
    have "k * d * 2 ^ s = (k * 2 ^ s) * d" by simp
    then show ?thesis using assms(1) by (simp only: round_half_even_def Let_def nonzero_mult_div_cancel_right mod_mult_self2_is_0) simp
  qed
  ultimately have "float_frac (k * d) d = (k * 2 ^ float_shift 149 (k * d) d, 2 ^ float_shift 149 (k * d) d)"
    by (simp only: float_frac_def if_True Let_def)
  then show ?thesis by (intro exI [of _ "2 ^ float_shift 149 (k * d) d"]) simp
qed

lemma scale_by_one:
  assumes "0 < d" and "\<bar>x\<bar> < 2 ^ 24"
  shows "scale_float x (d, d) = Inr x"
proof -
  define k where "k = nat \<bar>x\<bar>"
  have k: "k < 2 ^ 24" using assms(2) by (simp add: k_def nat_less_iff)
  obtain d1 where d1: "0 < d1" "float_frac (k * 1) 1 = (k * d1, d1)" using float_frac_whole [of 1 k] k by auto
  obtain d2 where d2: "0 < d2" "float_frac (k * (d1 * d)) (d1 * d) = (k * d2, d2)"
    using float_frac_whole [of "d1 * d" k] k d1(1) assms(1) by auto
  have "float_frac (nat \<bar>x\<bar>) 1 = (k * d1, d1)" using d1(2) by (simp add: k_def)
  moreover have "float_frac (k * d1 * d) (d1 * d) = (k * d2, d2)" using d2(2) by (simp add: mult.assoc)
  moreover have "int k = \<bar>x\<bar>" by (simp add: k_def)
  moreover have "x \<in> {- (2 ^ 31)..< 2 ^ 31}" using assms(2) by auto
  ultimately show ?thesis using d2(1) by (auto simp: scale_float_def Let_def abs_if)
qed

lemma same_size_ratios:
  assumes "0 < w" and "w < 2 ^ 24" and "0 < h" and "h < 2 ^ 24"
  shows "\<exists>a b. 0 < a \<and> 0 < b \<and> input_ratios (Some (w, h)) (Some (w, h)) = Inr ((a, a), (b, b))"
proof -
  have one: "\<exists>d. 0 < d \<and> (case float_frac (nat x) 1 of (a, b) \<Rightarrow> float_frac (a * b) (b * a)) = (d, d)" if x: "0 < x" "x < 2 ^ 24" for x
  proof -
    obtain d1 where d1: "0 < d1" "float_frac (nat x * 1) 1 = (nat x * d1, d1)"
      using float_frac_whole [of 1 "nat x"] x by (auto simp: nat_less_iff)
    obtain d2 where "0 < d2" "float_frac (1 * (nat x * d1 * d1)) (nat x * d1 * d1) = (1 * d2, d2)"
      using float_frac_whole [of "nat x * d1 * d1" 1] d1(1) x(1) by auto
    then show ?thesis using d1(2) by (intro exI [of _ d2]) (simp add: mult.commute mult.left_commute)
  qed
  show ?thesis
    using one [OF assms(1,2)] one [OF assms(3,4)] assms by (auto simp: input_ratios_def Let_def split: prod.splits)
qed

text \<open>When the screen and the display have the same size, a rectangle on a video input is passed on as it is.\<close>

theorem same_resolution_rectangle:
  assumes "remote env RdkShellPlugin" and "remote env DsPlugin" and "remote env (ta_plugin st)"
    and "c1 = Rpc RdkShellPlugin ''getScreenResolution'' []" and "c2 = Rpc DsPlugin ''getCurrentResolution'' []"
    and "reply_of env (ta_calls st @ [c1]) = Some ra" and "jv_flag ra ''success''"
    and "reply_of env (ta_calls st @ [c1, c2]) = Some rb" and "jv_flag rb ''success''"
    and "sw = to_int32 (jv_number ra ''w'')" and "sh = to_int32 (jv_number ra ''h'')"
    and "to_int32 (jv_number rb ''w'') = sw" and "to_int32 (jv_number rb ''h'') = sh"
    and "0 < sw" and "sw < 2 ^ 24" and "0 < sh" and "sh < 2 ^ 24" and "\<forall>k \<in> {x, y, w, h}. \<bar>k\<bar> < 2 ^ 24"
  shows "\<exists>ok st'. SetVideoRectangle_VIDEOIN env x y w h t st = Inr (ok, st')
    \<and> ta_calls st' = ta_calls st @ [c1, c2, Rpc (ta_plugin st) ''setVideoRectangle'' [(''x'', JInt x), (''y'', JInt y),
        (''w'', JInt w), (''h'', JInt h), (''typeOfInput'', JText t)]]"
proof -
  obtain a b where ab: "0 < a" "0 < b" "input_ratios (Some (sw, sh)) (Some (sw, sh)) = Inr ((a, a), (b, b))"
    using same_size_ratios assms(14-17) by blast
  have scale: "scale_float x (a, a) = Inr x" "scale_float y (b, b) = Inr y" "scale_float w (a, a) = Inr w" "scale_float h (b, b) = Inr h"
    using scale_by_one ab(1,2) assms(18) by simp_all
  let ?st1 = "ta_emit c1 st" and ?st2 = "ta_emit c2 (ta_emit c1 st)"
  have "GetScreenResolution env st = (Some (sw, sh), ?st1)"
    using assms(1,4,6,7,10,11) by (simp add: GetScreenResolution_def get_size_def access_rpc_def ta_emit_def)
  moreover have "GetResolutionFromDS_VIDEOIN env ?st1 = (Some (sw, sh), ?st2)"
    using assms(2,5,8,9,12,13) by (simp add: GetResolutionFromDS_VIDEOIN_def get_size_def access_rpc_def ta_emit_def)
  moreover have "\<exists>ok st'. simple_rpc env m p ?st2 = (ok, st') \<and> ta_calls st' = ta_calls st @ [c1, c2, Rpc (ta_plugin st) m p]" for m p
    using assms(3) by (auto simp: simple_rpc_def access_rpc_def ta_emit_def Let_def split: option.split)
  ultimately show ?thesis
    by (simp add: SetVideoRectangle_VIDEOIN_def ab(3) scale)
qed

text \<open>An input is stopped once, and only when it was started on a port.\<close>

lemma stop_input_once:
  assumes "remote env (ta_plugin st)"
  shows "StopHelperVideoin env t (StopHelperVideoin env t (StartHelperVideoin env port s st))
     = StopHelperVideoin env t (StartHelperVideoin env port s st)"
    and "port < 0 \<Longrightarrow> StopHelperVideoin env t (StartHelperVideoin env port s st) = StartHelperVideoin env port s st"
  by (auto simp: StopHelperVideoin_def StartHelperVideoin_def simple_rpc_def access_rpc_def ta_emit_def Let_def split: option.splits)

text \<open>Exactly the events that were subscribed are given up.\<close>

lemma unregister_registered:
  assumes "remote env (ta_plugin st)"
  shows "ta_calls (UnRegisterAllEventsVideoin env st) = ta_calls st @ map Unsubscribe (ta_registered st)"
proof -
  have "ta_calls (foldl (\<lambda>st name. snd (access_unsubscribe env name st)) s names) = ta_calls s @ map Unsubscribe names"
    if "remote env (ta_plugin s)" for s names
    using that by (induction names arbitrary: s) (simp_all add: access_unsubscribe_def ta_emit_def)
  from this [OF assms] show ?thesis by (simp add: UnRegisterAllEventsVideoin_def)
qed

text \<open>The index of the current audio track is that of a row with its key, the last one.\<close>

lemma last_filter_upt:
  "filter P [0..<n] \<noteq> [] \<Longrightarrow> last (filter P [0..<n]) < n \<and> P (last (filter P [0..<n]))
     \<and> (\<forall>m. last (filter P [0..<n]) < m \<and> m < n \<longrightarrow> \<not> P m)"
proof (induction n)
  case (Suc n)
  show ?case
  proof (cases "P n")
    case False
    then have "filter P [0..<Suc n] = filter P [0..<n]" by simp
    then show ?thesis using Suc False less_Suc_eq by metis
  next
    case True
    then have "filter P [0..<Suc n] = filter P [0..<n] @ [n]" by simp
    then show ?thesis using True by (simp only: last_snoc) auto
  qed
qed simp

lemma current_audio_track:
  assumes "GetAudioTracksOta env st = (i, st')" and "i \<noteq> []"
  defines "rows \<equiv> table_of env (ta_calls st')" and "current \<equiv> fst (GetAudioTrackInternal_OTA env st)"
  shows "\<exists>k < length rows. i = decimal k \<and> jv_number (rows ! k) ''pk'' = current
     \<and> (\<forall>m. k < m \<and> m < length rows \<longrightarrow> jv_number (rows ! m) ''pk'' \<noteq> current)"
proof -
  obtain s1 where s1: "GetAudioTrackInternal_OTA env st = (current, s1)" unfolding current_def by (metis prod.collapse)
  obtain ok r s2 where s2: "own_rpc env ''getAudioTracks'' [(''id'', JText APP_ID), attributes_param [''pk'', ''name'', ''type'',
      ''description'', ''language'', ''contentType'', ''mixType'', ''isSelected'']] s1 = (ok, r, s2)"
    by (rule prod_cases3)
  define found where "found = filter (\<lambda>i. jv_number (rows ! i) ''pk'' = current) [0..<length rows]"
  have "st' = s2" using assms(1) unfolding GetAudioTracksOta_def s1 Let_def prod.case s2 by (simp only: prod.inject)
  then have "(case found of [] \<Rightarrow> [] | found \<Rightarrow> decimal (last found)) = i"
    using assms(1) unfolding GetAudioTracksOta_def s1 Let_def prod.case s2 prod.inject found_def rows_def by (elim conjE) simp
  then have i: "i = decimal (last found)" "found \<noteq> []" using assms(2) by (auto split: list.splits)
  show ?thesis
    using last_filter_upt [of "\<lambda>i. jv_number (rows ! i) ''pk'' = current" "length rows"] i unfolding found_def by blast
qed

section \<open>The property at work\<close>

definition demo_access_env :: access_env where
  "demo_access_env = \<lparr>remote = (\<lambda>_. True), reply_of = (\<lambda>cs. Some \<lparr>jv_number = (\<lambda>_. 1080), jv_flag = (\<lambda>_. True), jv_text = (\<lambda>_. []),
       jv_context = None\<rparr>), controller = (\<lambda>_. True), activate_ok = (\<lambda>_. True), subscribe_ok = (\<lambda>_. True), sec_malloc = (\<lambda>_ _. True),
     string_hash = length, fb_endpoint = None, fb_init_ok = (\<lambda>_. False), fb_connect_answer = (\<lambda>_. None),
     fb_connected_in_time = (\<lambda>_. False), fb_subscribe_answer = (\<lambda>_. None), fb_open_answer = (\<lambda>_. None),
     fb_update_answer = (\<lambda>_. None), fb_ok = (\<lambda>_. False), table_of = (\<lambda>_. [])\<rparr>"

theorem same_resolution_rectangle_witness:
  "\<exists>ok st'. SetVideoRectangle_VIDEOIN demo_access_env 10 20 640 480 ''HDMI'' (PlayerThunderAccess AvInputPlugin) = Inr (ok, st')
    \<and> drop 2 (ta_calls st') = [Rpc AvInputPlugin ''setVideoRectangle'' [(''x'', JInt 10), (''y'', JInt 20),
        (''w'', JInt 640), (''h'', JInt 480), (''typeOfInput'', JText ''HDMI'')]]"
proof -
  let ?r = "\<lparr>jv_number = (\<lambda>_. 1080), jv_flag = (\<lambda>_. True), jv_text = (\<lambda>_. []), jv_context = None\<rparr>"
  have n: "to_int32 1080 = 1080" by (simp add: to_int32_def)
  show ?thesis
    using same_resolution_rectangle [of demo_access_env "PlayerThunderAccess AvInputPlugin" _ _ ?r ?r 1080 1080 10 20 640 480 "''HDMI''",
        OF _ _ _ refl refl]
    by (auto simp: demo_access_env_def PlayerThunderAccess_def n)
qed

end
