(* ===== verification/Hls_Sessions.thy ===== *)
theory Hls_Sessions
  imports Hls_Drm
begin

text \<open>
  How an HLS stream gets its bridge to a DRM session: \<^verbatim>\<open>drm/HlsDrmSessionManager.cpp\<close>,
  \<^verbatim>\<open>drm/PlayerHlsDrmSessionInterface.cpp\<close> and \<^verbatim>\<open>drm/HlsOcdmBridgeInterface.cpp\<close>. A build with the OpenCDM adapter
  has the real manager and bridge, another one has classes that refuse everything; the flag \<open>opencdm\<close> tells the builds
  apart. The session of the manager is a reference that the callback of the application gets and may replace.
\<close>

section \<open>The bridge\<close>

datatype 's any_bridge = RealBridge "'s bridge" | FakeBridge

definition GetBridge :: "bool \<Rightarrow> 's \<Rightarrow> 's any_bridge" where
  "GetBridge opencdm session = (if opencdm then RealBridge (HlsOcdmBridge session) else FakeBridge)"

definition any_SetDecryptInfo :: "('s \<Rightarrow> key_state) \<Rightarrow> drm_info \<Rightarrow> 's any_bridge \<Rightarrow> drm_return \<times> 's any_bridge" where
  "any_SetDecryptInfo session_state drmInfo b =
     (case b of
        FakeBridge \<Rightarrow> (eDRM_ERROR, FakeBridge)
      | RealBridge rb \<Rightarrow> map_prod id RealBridge (bridge_SetDecryptInfo session_state drmInfo rb))"

definition any_Decrypt ::
  "('s \<Rightarrow> byte list \<Rightarrow> byte list \<Rightarrow> int \<times> 's) \<Rightarrow> byte list \<Rightarrow> 's any_bridge \<Rightarrow> (drm_return \<times> 's any_bridge) res" where
  "any_Decrypt session_decrypt dat b =
     (case b of
        FakeBridge \<Rightarrow> Inr (eDRM_ERROR, FakeBridge)
      | RealBridge rb \<Rightarrow> bindE (bridge_Decrypt session_decrypt dat rb) (\<lambda>(r, rb). Inr (r, RealBridge rb)))"

definition any_GetState :: "'s any_bridge \<Rightarrow> drm_state" where
  "any_GetState b = (case b of FakeBridge \<Rightarrow> eDRM_KEY_FAILED | RealBridge rb \<Rightarrow> m_drmState rb)"

section \<open>The manager of the sessions\<close>

type_synonym ('s, 'b) hls_callback = "helper option \<Rightarrow> 's \<Rightarrow> int \<Rightarrow> 'b option \<times> 's"

record ('s, 'b) hls_manager =
  hm_opencdm :: bool
  hm_session :: 's
  GetHlsDrmSessionCb :: "('s, 'b) hls_callback option"

definition PlayerHlsDrmSessionInterface :: "bool \<Rightarrow> 's \<Rightarrow> ('s, 'b) hls_manager" where
  "PlayerHlsDrmSessionInterface opencdm null_session = \<lparr>hm_opencdm = opencdm, hm_session = null_session, GetHlsDrmSessionCb = None\<rparr>"

definition RegisterGetHlsDrmSessionCb :: "('s, 'b) hls_callback \<Rightarrow> ('s, 'b) hls_manager \<Rightarrow> ('s, 'b) hls_manager" where
  "RegisterGetHlsDrmSessionCb Callback m = m\<lparr>GetHlsDrmSessionCb := Some Callback\<rparr>"

definition hls_isDrmSupported :: "factory list \<Rightarrow> drm_info \<Rightarrow> ('s, 'b) hls_manager \<Rightarrow> bool" where
  "hls_isDrmSupported factories drmInfo m \<longleftrightarrow> hm_opencdm m \<and> hasDRM factories drmInfo"

text \<open>A call of a function object that was never set throws.\<close>

definition hls_createSession :: "factory list \<Rightarrow> drm_info \<Rightarrow> int \<Rightarrow> ('s, 'b) hls_manager \<Rightarrow> ('b option \<times> ('s, 'b) hls_manager) res" where
  "hls_createSession factories drmInfo streamTypeIn m =
     (if \<not> hm_opencdm m then Inr (None, m)
      else case GetHlsDrmSessionCb m of
             None \<Rightarrow> Inl Thrown
           | Some cb \<Rightarrow> let (bridge, session) = cb (createHelper factories drmInfo) (hm_session m) streamTypeIn
                        in Inr (bridge, m\<lparr>hm_session := session\<rparr>))"

section \<open>What a stream gets\<close>

text \<open>A helper is made for exactly the streams that are said to be supported, and it is of a class that knows the stream.\<close>

lemma hasDRM_createHelper: "hasDRM factories info \<longleftrightarrow> createHelper factories info \<noteq> None"
  by (auto simp: hasDRM_def createHelper_def list_ex_iff find_None_iff find_Some_iff split: option.split)

lemma createHelper_class:
  assumes "createHelper factories info = Some h"
  shows "isDRM (h_class h) info" and "mDrmInfo h = info"
  using assms by (auto simp: createHelper_def new_helper_def split: option.splits if_splits)

text \<open>With OpenCDM and a registered callback the application is asked once, and it gets a helper for exactly the supported
  streams; without a callback the call throws, also for a stream that is not supported.\<close>

lemma createSession_helper:
  assumes "hm_opencdm m" and "GetHlsDrmSessionCb m = Some cb"
  shows "hls_createSession factories info t m
      = (let (b, s) = cb (createHelper factories info) (hm_session m) t in Inr (b, m\<lparr>hm_session := s\<rparr>))"
    and "hls_isDrmSupported factories info m \<longleftrightarrow> (\<exists>h. createHelper factories info = Some h \<and> isDRM (h_class h) info)"
  using assms createHelper_class(1) [of factories info]
  by (auto simp: hls_createSession_def hls_isDrmSupported_def hasDRM_createHelper)

lemma createSession_throws:
  "hls_createSession factories info t m = Inl Thrown \<longleftrightarrow> hm_opencdm m \<and> GetHlsDrmSessionCb m = None"
  by (auto simp: hls_createSession_def Let_def split: option.split prod.split)

text \<open>The bridge of a build without OpenCDM never decrypts; the other one decrypts only after its session had a key.\<close>

lemma fake_bridge_refuses:
  "any_Decrypt session_decrypt dat (snd (any_SetDecryptInfo session_state info (GetBridge False s))) = Inr (eDRM_ERROR, FakeBridge)"
  by (simp add: GetBridge_def any_SetDecryptInfo_def any_Decrypt_def)

lemma new_bridge_decrypts:
  assumes "any_Decrypt session_decrypt dat (snd (any_SetDecryptInfo session_state info (GetBridge opencdm s))) = Inr (r, b)"
    and "r \<noteq> eDRM_ERROR"
  shows "opencdm \<and> session_state s = KEY_READY \<and> fst (session_decrypt s (di_iv info) dat) = 0"
  using assms
  by (auto simp: GetBridge_def any_SetDecryptInfo_def any_Decrypt_def bridge_SetDecryptInfo_def bridge_Decrypt_def HlsOcdmBridge_def Let_def
      split_def split: if_splits)

end
