(* ===== verification/Soc_Utils.thy ===== *)
theory Soc_Utils
  imports Soc_Interface Gst_Inject
begin

text \<open>
  What the application asks about the platform: \<^verbatim>\<open>SocUtils.cpp\<close>. The namespace has a platform interface of its own, made
  when the library is loaded; here it is the argument \<open>s\<close>. \<open>registered\<close> says which elements the registry of GStreamer has.
\<close>

definition utils_UseAppSrcForProgressivePlayback :: "soc \<Rightarrow> bool" where
  "utils_UseAppSrcForProgressivePlayback s = UseAppSrc s"

definition utils_IsSupportedAC4 :: "(string \<Rightarrow> bool) \<Rightarrow> soc \<Rightarrow> bool" where
  "utils_IsSupportedAC4 registered s = (let disableAc = IsSupportedAC4 s in disableAc \<or> \<not> IsCodecSupported registered ''ac-4'')"

definition utils_IsSupportedAC3 :: "(string \<Rightarrow> bool) \<Rightarrow> bool" where
  "utils_IsSupportedAC3 registered = (\<not> IsCodecSupported registered ''ac-3'')"

definition utils_UseWesterosSink :: "soc \<Rightarrow> bool" where
  "utils_UseWesterosSink s = UseWesterosSink s"

definition utils_IsAudioFragmentSyncSupported :: "soc \<Rightarrow> bool" where
  "utils_IsAudioFragmentSyncSupported s = IsAudioFragmentSyncSupported s"

definition utils_EnableLiveLatencyCorrection :: "soc \<Rightarrow> bool" where
  "utils_EnableLiveLatencyCorrection s = EnableLiveLatencyCorrection s"

definition utils_RequiredQueuedFrames :: "soc \<Rightarrow> int" where
  "utils_RequiredQueuedFrames s = RequiredQueuedFrames s"

definition utils_EnablePTSRestamp :: "soc \<Rightarrow> bool" where
  "utils_EnablePTSRestamp s = EnablePTSRestamp s"

definition utils_ResetNewSegmentEvent :: "soc \<Rightarrow> bool" where
  "utils_ResetNewSegmentEvent s = ResetNewSegmentEvent s"

text \<open>The answers about the two audio codecs are the wrong way round: support is reported exactly when the registry has no
  decoder, and for AC-4 always on the one platform whose interface says that it supports it.\<close>

lemma ac3_reported: "utils_IsSupportedAC3 registered \<longleftrightarrow> (\<forall>e \<in> {''omxac3dec'', ''avdec_ac3'', ''avdec_ac3_fixed''}. \<not> registered e)"
  by (simp add: utils_IsSupportedAC3_def IsCodecSupported_def gstMapDecoderLookUptable_def)

lemma ac4_reported: "utils_IsSupportedAC4 registered s \<longleftrightarrow> soc_platform s = SOC_PLATFORM_BROADCOM \<or> \<not> registered ''omxac4dec''"
  by (simp add: utils_IsSupportedAC4_def IsSupportedAC4_def IsCodecSupported_def gstMapDecoderLookUptable_def)

end
